(* ===== verification/Prelude.thy ===== *)
theory Prelude
  imports Main "HOL-Library.Word" "HOL-Library.Char_ord" "HOL-Library.List_Lexorder"
    "HOL-Library.Product_Lexorder"
begin

text \<open>
  Shared vocabulary of the development: Python exceptions as values of a sum type,
  the sequencing of fallible steps, byte and code point strings, the query operators of
  the SQL statements the stores issue (selection, ORDER BY, LIMIT, fetchone, keyed UPDATE),
  and the generic lemmas about them that the component theories use through the
  collections \<open>result_simps\<close> and \<open>table_simps\<close>.
\<close>

section \<open>Python errors as values\<close>

text \<open>
  One constructor per exception class the modelled code raises; the argument is the message.
  \<open>StrictJSONError\<close>, \<open>LifecycleVerificationError\<close>, \<open>AlertWindowEvaluationError\<close>,
  \<open>ContractCompileError\<close>, \<open>EvaluationBoundaryError\<close> and pydantic's \<open>ValidationError\<close> are subclasses
  of \<open>ValueError\<close>; the four store errors are subclasses of \<open>RuntimeError\<close>.
\<close>

datatype py_error =
    ValueError string
  | ValidationError string
  | StrictJSONError string
  | LifecycleVerificationError string
  | AlertWindowEvaluationError string
  | ContractCompileError string
  | EvaluationBoundaryError string
  | KeyError string
  | StopIteration
  | TypeError string
  | IndexError string
  | RuntimeError string
  | UnicodeEncodeError
  | ControlPlaneStoreError string
  | ControlPlaneNotFound string
  | ControlPlaneConflict string
  | ControlPlaneIntegrityError string
  | ControlPlaneAuthorizationError string
  | SqliteIntegrityError string

type_synonym 'a result = "py_error + 'a"

fun is_value_error :: "py_error \<Rightarrow> bool" where
  "is_value_error (ValueError _) = True"
| "is_value_error (ValidationError _) = True"
| "is_value_error (StrictJSONError _) = True"
| "is_value_error (LifecycleVerificationError _) = True"
| "is_value_error (AlertWindowEvaluationError _) = True"
| "is_value_error (ContractCompileError _) = True"
| "is_value_error (EvaluationBoundaryError _) = True"
| "is_value_error UnicodeEncodeError = True"
| "is_value_error _ = False"

fun is_strict_json_error :: "py_error \<Rightarrow> bool" where
  "is_strict_json_error (StrictJSONError m) = True"
| "is_strict_json_error _ = False"

fun is_sqlite_integrity_error :: "py_error \<Rightarrow> bool" where
  "is_sqlite_integrity_error (SqliteIntegrityError _) = True"
| "is_sqlite_integrity_error _ = False"

named_theorems result_simps \<open>inversion of sequenced fallible steps\<close>
named_theorems table_simps \<open>keyed tables, selection and update\<close>

definition rbind :: "'a result \<Rightarrow> ('a \<Rightarrow> 'b result) \<Rightarrow> 'b result" where
  "rbind m f = (case m of Inl e \<Rightarrow> Inl e | Inr x \<Rightarrow> f x)"

text \<open>\<open>try: m except ...: raise\<close> on the classes the predicate selects.\<close>

definition on_error :: "(py_error \<Rightarrow> bool) \<Rightarrow> py_error \<Rightarrow> 'a result \<Rightarrow> 'a result" where
  "on_error p e' m = (case m of Inl e \<Rightarrow> if p e then Inl e' else Inl e | Inr x \<Rightarrow> Inr x)"

text \<open>\<open>tuple(f(x) for x in xs)\<close>: left to right, the first exception wins.\<close>

fun rmap :: "('a \<Rightarrow> 'b result) \<Rightarrow> 'a list \<Rightarrow> 'b list result" where
  "rmap f [] = Inr []"
| "rmap f (x # xs) = rbind (f x) (\<lambda>y. rbind (rmap f xs) (\<lambda>ys. Inr (y # ys)))"

text \<open>A sequence of \<open>if c: raise e\<close> statements.\<close>

fun raise_first :: "(bool \<times> py_error) list \<Rightarrow> unit result" where
  "raise_first [] = Inr ()"
| "raise_first ((c, e) # cs) = (if c then Inl e else raise_first cs)"

lemma rbind_simps [simp]: "rbind (Inl e) f = Inl e" "rbind (Inr x) f = f x"
  by (simp_all add: rbind_def)

lemma rbind_eq_Inr [result_simps]: "rbind m f = Inr y \<longleftrightarrow> (\<exists>x. m = Inr x \<and> f x = Inr y)"
  by (cases m) auto

lemma rbind_eq_Inl: "rbind m f = Inl e \<longleftrightarrow> m = Inl e \<or> (\<exists>x. m = Inr x \<and> f x = Inl e)"
  by (cases m) auto

lemma rbind_cong [fundef_cong]:
  "m = m' \<Longrightarrow> (\<And>x. m' = Inr x \<Longrightarrow> f x = f' x) \<Longrightarrow> rbind m f = rbind m' f'"
  by (cases m') auto

lemma on_error_Inr [result_simps]: "on_error p e m = Inr x \<longleftrightarrow> m = Inr x"
  by (cases m) (auto simp: on_error_def)

lemma on_error_simps [simp]:
  "on_error p e' (Inr x) = Inr x" "on_error p e' (Inl e) = (if p e then Inl e' else Inl e)"
  by (simp_all add: on_error_def)

lemma raise_first_Inr [result_simps]: "raise_first cs = Inr u \<longleftrightarrow> (\<forall>c \<in> set cs. \<not> fst c)"
  by (induction cs) (auto split: if_splits)

lemma raise_first_Inl: "raise_first cs = Inl e \<Longrightarrow> \<exists>c \<in> set cs. fst c \<and> snd c = e"
  by (induction cs) (auto split: if_splits)

lemma rmap_Inr: "rmap f xs = Inr ys \<longleftrightarrow> list_all2 (\<lambda>x y. f x = Inr y) xs ys"
proof (induction xs arbitrary: ys)
  case Nil
  then show ?case by (cases ys) auto
next
  case (Cons x xs)
  then show ?case by (cases ys) (auto simp: result_simps)
qed

lemma rmap_all_ok: "(\<And>x. x \<in> set xs \<Longrightarrow> f x = Inr (g x)) \<Longrightarrow> rmap f xs = Inr (map g xs)"
  by (induction xs) auto

section \<open>Strings, bytes and regular-expression classes\<close>

type_synonym byte = "8 word"
type_synonym bytes = "byte list"
type_synonym code_points = "nat list" \<comment> \<open>a Python \<open>str\<close> as its code points\<close>

definition text_of :: "string \<Rightarrow> code_points" where
  "text_of s = map of_char s"

definition lower_char :: "char \<Rightarrow> bool" where
  "lower_char c \<longleftrightarrow> CHR ''a'' \<le> c \<and> c \<le> CHR ''z''"

definition upper_char :: "char \<Rightarrow> bool" where
  "upper_char c \<longleftrightarrow> CHR ''A'' \<le> c \<and> c \<le> CHR ''Z''"

definition digit_char :: "char \<Rightarrow> bool" where
  "digit_char c \<longleftrightarrow> CHR ''0'' \<le> c \<and> c \<le> CHR ''9''"

definition hex_char :: "char \<Rightarrow> bool" where
  "hex_char c \<longleftrightarrow> digit_char c \<or> CHR ''a'' \<le> c \<and> c \<le> CHR ''f''"

text \<open>\<open>str.startswith\<close>, and the suffix that follows a prefix.\<close>

definition starts_with :: "'a list \<Rightarrow> 'a list \<Rightarrow> bool" where
  "starts_with p s \<longleftrightarrow> take (length p) s = p"

lemma starts_with_append [simp]: "starts_with p (p @ s)"
  by (simp add: starts_with_def)

section \<open>Tables and queries\<close>

text \<open>
  A SQL table is the list of its rows. \<open>where_rows\<close> is a WHERE clause, \<open>order_by\<close> and
  \<open>order_by_desc\<close> are ORDER BY on one key, \<open>fetchone\<close> reads the first row if there is one.
  \<open>update_where\<close> is UPDATE ... WHERE; its row count is the length of the selection.
\<close>

definition where_rows :: "('r \<Rightarrow> bool) \<Rightarrow> 'r list \<Rightarrow> 'r list" where
  "where_rows p rows = filter p rows"

definition order_by :: "('r \<Rightarrow> 'k::linorder) \<Rightarrow> 'r list \<Rightarrow> 'r list" where
  "order_by k rows = sort_key k rows"

definition order_by_desc :: "('r \<Rightarrow> 'k::linorder) \<Rightarrow> 'r list \<Rightarrow> 'r list" where
  "order_by_desc k rows = rev (sort_key k rows)"

definition fetchone :: "'r list \<Rightarrow> 'r option" where
  "fetchone rows = (case rows of [] \<Rightarrow> None | r # _ \<Rightarrow> Some r)"

definition update_where :: "('r \<Rightarrow> bool) \<Rightarrow> ('r \<Rightarrow> 'r) \<Rightarrow> 'r list \<Rightarrow> 'r list" where
  "update_where p f rows = map (\<lambda>r. if p r then f r else r) rows"

lemma fetchone_simps [simp]: "fetchone [] = None" "fetchone (r # rs) = Some r"
  by (simp_all add: fetchone_def)

lemma fetchone_None [table_simps]: "fetchone rows = None \<longleftrightarrow> rows = []"
  by (simp add: fetchone_def split: list.splits)

lemma fetchone_in: "fetchone rows = Some r \<Longrightarrow> r \<in> set rows"
  by (auto simp: fetchone_def split: list.splits)

lemma set_where_rows [table_simps]: "set (where_rows p rows) = {r \<in> set rows. p r}"
  by (simp add: where_rows_def)

lemma where_rows_Nil [table_simps]: "where_rows p rows = [] \<longleftrightarrow> (\<forall>r \<in> set rows. \<not> p r)"
  by (simp add: where_rows_def filter_empty_conv)

lemma set_order_by [table_simps]:
  "set (order_by k rows) = set rows" "set (order_by_desc k rows) = set rows"
  by (simp_all add: order_by_def order_by_desc_def)

lemma length_order_by [simp]:
  "length (order_by k rows) = length rows" "length (order_by_desc k rows) = length rows"
  by (simp_all add: order_by_def order_by_desc_def)

lemma order_by_Nil [table_simps]:
  "order_by k rows = [] \<longleftrightarrow> rows = []" "order_by_desc k rows = [] \<longleftrightarrow> rows = []"
  by (metis length_0_conv length_order_by(1)) (metis length_0_conv length_order_by(2))

text \<open>The row ORDER BY ... DESC LIMIT 1 returns is a row of greatest key, and ASC of least.\<close>

lemma fetchone_order_by_desc:
  assumes "fetchone (order_by_desc k rows) = Some r"
  shows "r \<in> set rows" and "\<And>s. s \<in> set rows \<Longrightarrow> k s \<le> k r"
proof -
  obtain rest where eq: "sort_key k rows = rest @ [r]"
    using assms by (auto simp: fetchone_def order_by_desc_def rev_eq_Cons_iff split: list.splits)
  have "r \<in> set (sort_key k rows)" using eq by simp
  then show "r \<in> set rows" by simp
  fix s assume "s \<in> set rows"
  then have "s \<in> set (rest @ [r])" using eq by (metis set_sort)
  moreover have "sorted (map k rest @ [k r])"
    using sorted_sort_key [of k rows] eq by simp
  ultimately show "k s \<le> k r" by (auto simp: sorted_append)
qed

lemma fetchone_order_by:
  assumes "fetchone (order_by k rows) = Some r"
  shows "r \<in> set rows" and "\<And>s. s \<in> set rows \<Longrightarrow> k r \<le> k s"
proof -
  obtain rest where eq: "sort_key k rows = r # rest"
    using assms by (auto simp: fetchone_def order_by_def split: list.splits)
  have "r \<in> set (sort_key k rows)" using eq by simp
  then show "r \<in> set rows" by simp
  fix s assume "s \<in> set rows"
  then have "s \<in> set (r # rest)" using eq by (metis set_sort)
  moreover have "sorted (k r # map k rest)"
    using sorted_sort_key [of k rows] eq by simp
  ultimately show "k r \<le> k s" by auto
qed

text \<open>\<open>SELECT COALESCE(MAX(k), 0)\<close>.\<close>

definition max_or_zero :: "('r \<Rightarrow> int) \<Rightarrow> 'r list \<Rightarrow> int" where
  "max_or_zero k rows = (if rows = [] then 0 else Max (set (map k rows)))"

lemma max_or_zero_ge: "r \<in> set rows \<Longrightarrow> k r \<le> max_or_zero k rows"
  by (auto simp: max_or_zero_def)

lemma max_or_zero_in:
  assumes "rows \<noteq> []"
  shows "\<exists>r \<in> set rows. k r = max_or_zero k rows"
proof -
  have "Max (k ` set rows) \<in> k ` set rows" using assms by (intro Max_in) auto
  then obtain r where "r \<in> set rows" "k r = Max (k ` set rows)" by (metis imageE)
  with assms show ?thesis unfolding max_or_zero_def by (metis set_map)
qed

lemma max_or_zero_eqI:
  "r \<in> set rows \<Longrightarrow> (\<And>s. s \<in> set rows \<Longrightarrow> k s \<le> k r) \<Longrightarrow> max_or_zero k rows = k r"
  by (auto simp: max_or_zero_def intro!: Max_eqI)

lemma max_or_zero_Nil [simp]: "max_or_zero k [] = 0"
  by (simp add: max_or_zero_def)

subsection \<open>Keyed tables\<close>

text \<open>
  The interface of a table with a primary key: an update that keeps the key changes the row
  with that key and no other, keeps the keys distinct and keeps every other lookup. Each table
  of the control-plane schema interprets it with its own key.
\<close>

definition lookup_row :: "('r \<Rightarrow> 'k) \<Rightarrow> 'k \<Rightarrow> 'r list \<Rightarrow> 'r option" where
  "lookup_row key k rows = fetchone (where_rows (\<lambda>r. key r = k) rows)"

locale keyed_table =
  fixes key :: "'r \<Rightarrow> 'k"
    and find_row :: "'k \<Rightarrow> 'r list \<Rightarrow> 'r option"
    and modify :: "'k \<Rightarrow> ('r \<Rightarrow> 'r) \<Rightarrow> 'r list \<Rightarrow> 'r list"
  assumes find_iff: "distinct (map key rows) \<Longrightarrow>
      find_row k rows = Some r \<longleftrightarrow> r \<in> set rows \<and> key r = k"
    and modify_keys: "(\<And>r. key (f r) = key r) \<Longrightarrow> map key (modify k f rows) = map key rows"
    and modify_rows: "set (modify k f rows) =
      {r \<in> set rows. key r \<noteq> k} \<union> f ` {r \<in> set rows. key r = k}"
begin

lemma find_unique:
  assumes "distinct (map key rows)" "r \<in> set rows" "s \<in> set rows" "key r = key s"
  shows "r = s"
  using assms find_iff [of rows "key s"] by (metis option.inject)

lemma modify_distinct:
  "distinct (map key rows) \<Longrightarrow> (\<And>r. key (f r) = key r) \<Longrightarrow>
    distinct (map key (modify k f rows))"
  by (simp add: modify_keys)

lemma find_modify_same:
  assumes "distinct (map key rows)" "\<And>r. key (f r) = key r" "find_row k rows = Some r"
  shows "find_row k (modify k f rows) = Some (f r)"
  using assms modify_distinct [OF assms(1,2), of k]
  by (auto simp: find_iff modify_rows)

lemma find_modify_other:
  assumes "distinct (map key rows)" "\<And>r. key (f r) = key r" "j \<noteq> k"
  shows "find_row j (modify k f rows) = find_row j rows"
proof -
  have *: "find_row j (modify k f rows) = Some r \<longleftrightarrow> find_row j rows = Some r" for r
    using assms modify_distinct [OF assms(1,2), of k]
    by (auto simp: find_iff modify_rows)
  show ?thesis
    by (metis * not_Some_eq)
qed

end

definition modify_row :: "('r \<Rightarrow> 'k) \<Rightarrow> 'k \<Rightarrow> ('r \<Rightarrow> 'r) \<Rightarrow> 'r list \<Rightarrow> 'r list" where
  "modify_row key k f rows = update_where (\<lambda>r. key r = k) f rows"

lemma lookup_row_iff:
  "distinct (map key rows) \<Longrightarrow> lookup_row key k rows = Some r \<longleftrightarrow> r \<in> set rows \<and> key r = k"
  by (induction rows) (auto simp: lookup_row_def where_rows_def fetchone_def)

lemma lookup_row_None: "lookup_row key k rows = None \<longleftrightarrow> (\<forall>r \<in> set rows. key r \<noteq> k)"
  by (simp add: lookup_row_def table_simps)

lemma lookup_row_SomeD: "lookup_row key k rows = Some r \<Longrightarrow> r \<in> set rows \<and> key r = k"
  by (auto simp: lookup_row_def where_rows_def dest!: fetchone_in)

lemma keyed_table_rows: "keyed_table key (lookup_row key) (modify_row key)"
proof
  show "\<And>rows k r. distinct (map key rows) \<Longrightarrow>
      lookup_row key k rows = Some r \<longleftrightarrow> r \<in> set rows \<and> key r = k"
    by (rule lookup_row_iff)
  show "\<And>f k rows. (\<And>r. key (f r) = key r) \<Longrightarrow>
      map key (modify_row key k f rows) = map key rows"
    by (simp add: modify_row_def update_where_def comp_def)
  show "\<And>k f rows. set (modify_row key k f rows) =
      {r \<in> set rows. key r \<noteq> k} \<union> f ` {r \<in> set rows. key r = k}"
    by (auto simp: modify_row_def update_where_def)
qed

lemma set_update_where [table_simps]:
  "set (update_where p f rows) = {r \<in> set rows. \<not> p r} \<union> f ` {r \<in> set rows. p r}"
  by (auto simp: update_where_def)

lemma map_update_where: "(\<And>r. g (f r) = g r) \<Longrightarrow> map g (update_where p f rows) = map g rows"
  by (auto simp: update_where_def)

lemma filter_update_where:
  "(\<And>r. r \<in> set rows \<Longrightarrow> p r \<Longrightarrow> \<not> q r \<and> \<not> q (f r)) \<Longrightarrow>
    filter q (update_where p f rows) = filter q rows"
  by (induction rows) (auto simp: update_where_def)

end
