(* ===== verification/Canonical.thy ===== *)
theory Canonical
  imports Prelude
begin

text \<open>
  Strict JSON parsing and canonical serialization, from
  \<^verbatim>\<open>src/src/assurance_lab/evidence/canonical.py\<close>: the resource limits, the tree
  validation, the bounded sink behind \<open>canonical_json_bytes\<close>, the literal hooks that
  \<open>strict_json_loads\<close> gives to the JSON scanner, and the two JSON-lines routines.

  What is not under \<^verbatim>\<open>src/\<close> is a field of the record \<open>json_env\<close>: the third-party
  RFC 8785 serializer (the chunks it writes, and the error it ends with, if any), the JSON
  scanner (the tree of a text with its number literals still unread) and the rounding of a
  decimal literal to binary64.
\<close>

section \<open>Python values as JSON trees\<close>

text \<open>
  A binary64 value: not a number, an infinity with its sign, or \<open>(-1)^neg * man * 2^exp\<close>.
  A dictionary key is a string or anything else; \<open>JOther\<close> is a value of any type JSON does
  not have, with its type name.
\<close>

datatype pyfloat = NaN | Infinity bool | Finite bool nat int

datatype pykey = KStr code_points | KOther

datatype json =
    JNull
  | JBool bool
  | JInt int
  | JFloat pyfloat
  | JStr code_points
  | JArr "json list"
  | JObj "(pykey \<times> json) list"
  | JOther string

datatype raw_json =
    RNull
  | RBool bool
  | RInt string
  | RFloat string
  | RConst string
  | RStr code_points
  | RArr "raw_json list"
  | RObj "(code_points \<times> raw_json) list"

record json_env =
  rfc8785_dump :: "json \<Rightarrow> bytes list \<times> string option"
  json_scan :: "code_points \<Rightarrow> raw_json option"
  py_float :: "string \<Rightarrow> pyfloat"

record json_limits =
  max_bytes :: nat
  max_line_bytes :: nat
  max_depth :: nat
  max_collection_items :: nat
  max_string_length :: nat

definition DEFAULT_JSON_LIMITS :: json_limits where
  "DEFAULT_JSON_LIMITS = \<lparr>max_bytes = 16 * 1024 * 1024, max_line_bytes = 2 * 1024 * 1024,
     max_depth = 64, max_collection_items = 100000, max_string_length = 2 * 1024 * 1024\<rparr>"

definition I_JSON_MAX_INTEGER :: int where
  "I_JSON_MAX_INTEGER = 2 ^ 53 - 1"

fun float_is_finite :: "pyfloat \<Rightarrow> bool" where
  "float_is_finite (Finite _ _ _) = True"
| "float_is_finite _ = False"

fun float_is_zero :: "pyfloat \<Rightarrow> bool" where
  "float_is_zero (Finite _ m _) = (m = 0)"
| "float_is_zero _ = False"

fun float_is_negative :: "pyfloat \<Rightarrow> bool" where
  "float_is_negative (Finite s _ _) = s"
| "float_is_negative (Infinity s) = s"
| "float_is_negative NaN = False"

fun float_is_integer :: "pyfloat \<Rightarrow> bool" where
  "float_is_integer (Finite _ m e) = (0 \<le> e \<or> 2 ^ nat (- e) dvd m)"
| "float_is_integer _ = False"

fun float_abs_exceeds :: "pyfloat \<Rightarrow> int \<Rightarrow> bool" where
  "float_abs_exceeds (Finite _ m e) n =
     (if 0 \<le> e then int m * 2 ^ nat e > n else int m > n * 2 ^ nat (- e))"
| "float_abs_exceeds (Infinity _) n = True"
| "float_abs_exceeds NaN n = False"

section \<open>Bounded output and tree validation\<close>

text \<open>\<open>_BoundedSink.write\<close> on every chunk the serializer produces.\<close>

fun sink_write :: "nat \<Rightarrow> bytes \<Rightarrow> bytes \<Rightarrow> bytes result" where
  "sink_write maximum content value =
     (if length content + length value > maximum
      then Inl (StrictJSONError ''canonical JSON exceeds the configured byte limit'')
      else Inr (content @ value))"

fun sink_writes :: "nat \<Rightarrow> bytes \<Rightarrow> bytes list \<Rightarrow> bytes result" where
  "sink_writes maximum content [] = Inr content"
| "sink_writes maximum content (v # vs) =
     rbind (sink_write maximum content v) (\<lambda>content'. sink_writes maximum content' vs)"

definition reject_surrogates :: "code_points \<Rightarrow> unit result" where
  "reject_surrogates value =
     (if list_ex (\<lambda>c. 0xD800 \<le> c \<and> c \<le> 0xDFFF) value
      then Inl (StrictJSONError ''Unicode surrogate code points are not allowed'') else Inr ())"

fun validate_tree :: "json_limits \<Rightarrow> nat \<Rightarrow> json \<Rightarrow> unit result"
and validate_items :: "json_limits \<Rightarrow> nat \<Rightarrow> json list \<Rightarrow> unit result"
and validate_members :: "json_limits \<Rightarrow> nat \<Rightarrow> (pykey \<times> json) list \<Rightarrow> unit result" where
  "validate_tree L depth value =
     (if depth > max_depth L
      then Inl (StrictJSONError ''JSON nesting exceeds the configured limit'')
      else case value of
        JStr s \<Rightarrow>
          if length s > max_string_length L
          then Inl (StrictJSONError ''JSON string exceeds the configured limit'')
          else reject_surrogates s
      | JNull \<Rightarrow> Inr ()
      | JBool b \<Rightarrow> Inr ()
      | JInt n \<Rightarrow>
          if \<bar>n\<bar> > I_JSON_MAX_INTEGER
          then Inl (StrictJSONError ''JSON integer exceeds the interoperable I-JSON range'')
          else Inr ()
      | JFloat f \<Rightarrow>
          raise_first
            [(\<not> float_is_finite f, StrictJSONError ''non-finite JSON number is not allowed''),
             (float_is_zero f \<and> float_is_negative f,
                StrictJSONError ''negative zero is not allowed''),
             (float_is_integer f \<and> float_abs_exceeds f I_JSON_MAX_INTEGER,
                StrictJSONError ''integral JSON number exceeds the interoperable I-JSON range'')]
      | JArr items \<Rightarrow>
          if length items > max_collection_items L
          then Inl (StrictJSONError ''JSON array exceeds the configured item limit'')
          else validate_items L (depth + 1) items
      | JObj members \<Rightarrow>
          if length members > max_collection_items L
          then Inl (StrictJSONError ''JSON object exceeds the configured member limit'')
          else validate_members L (depth + 1) members
      | JOther name \<Rightarrow> Inl (StrictJSONError (''unsupported JSON value type: '' @ name)))"
| "validate_items L depth [] = Inr ()"
| "validate_items L depth (item # items) =
     rbind (validate_tree L depth item) (\<lambda>_. validate_items L depth items)"
| "validate_members L depth [] = Inr ()"
| "validate_members L depth ((key, item) # members) =
     (case key of
        KOther \<Rightarrow> Inl (StrictJSONError ''JSON object keys must be strings'')
      | KStr k \<Rightarrow>
          rbind (reject_surrogates k) (\<lambda>_.
          if length k > max_string_length L
          then Inl (StrictJSONError ''JSON object key exceeds the configured limit'')
          else rbind (validate_tree L depth item) (\<lambda>_. validate_members L depth members)))"

definition canonical_json_bytes :: "'e json_env_scheme \<Rightarrow> json_limits \<Rightarrow> json \<Rightarrow> bytes result" where
  "canonical_json_bytes E L value =
     rbind (validate_tree L 0 value) (\<lambda>_.
     rbind (sink_writes (max_bytes L) [] (fst (rfc8785_dump E value))) (\<lambda>content.
     case snd (rfc8785_dump E value) of
       Some message \<Rightarrow> Inl (StrictJSONError message)
     | None \<Rightarrow> Inr content))"

section \<open>Literal hooks and strict parsing\<close>

definition reject_constant :: "string \<Rightarrow> json result" where
  "reject_constant value =
     Inl (StrictJSONError (''non-finite JSON number is not allowed: '' @ value))"

text \<open>\<open>int(text)\<close> on an optional sign and decimal digits; \<open>None\<close> where Python raises.\<close>

definition digits_value :: "string \<Rightarrow> int" where
  "digits_value s = foldl (\<lambda>n c. 10 * n + (int (of_char c) - int (of_char (CHR ''0'')))) 0 s"

definition py_int :: "string \<Rightarrow> int option" where
  "py_int s =
     (let digits = (if starts_with ''-'' s then tl s else s)
      in if digits = [] \<or> \<not> list_all digit_char digits then None
         else Some (if starts_with ''-'' s then - digits_value digits else digits_value digits))"

definition parse_int :: "string \<Rightarrow> json result" where
  "parse_int value =
     (if value = ''-0'' then Inl (StrictJSONError ''negative zero is not allowed'')
      else let digits = (if starts_with ''-'' value then tl value else value) in
        if length digits > 16
        then Inl (StrictJSONError ''JSON integer exceeds the interoperable I-JSON range'')
        else case py_int value of
          None \<Rightarrow> Inl (StrictJSONError ''JSON integer exceeds the parser resource limit'')
        | Some parsed \<Rightarrow>
            if \<bar>parsed\<bar> > I_JSON_MAX_INTEGER
            then Inl (StrictJSONError ''JSON integer exceeds the interoperable I-JSON range'')
            else Inr (JInt parsed))"

definition significand :: "string \<Rightarrow> string" where
  "significand value = takeWhile (\<lambda>c. c \<noteq> CHR ''e'' \<and> c \<noteq> CHR ''E'') value"

definition parse_float :: "'e json_env_scheme \<Rightarrow> string \<Rightarrow> json result" where
  "parse_float E value =
     (let parsed = py_float E value in
      rbind (raise_first
        [(\<not> float_is_finite parsed, StrictJSONError ''non-finite JSON number is not allowed''),
         (float_is_zero parsed \<and> starts_with ''-'' value,
            StrictJSONError ''negative zero is not allowed''),
         (float_is_zero parsed
            \<and> list_ex (\<lambda>d. CHR ''1'' \<le> d \<and> d \<le> CHR ''9'') (significand value),
            StrictJSONError ''JSON number underflows binary64'')]) (\<lambda>_.
      Inr (JFloat parsed)))"

fun object_without_duplicates ::
  "(code_points \<times> json) list \<Rightarrow> (code_points \<times> json) list \<Rightarrow> (code_points \<times> json) list result" where
  "object_without_duplicates res [] = Inr res"
| "object_without_duplicates res ((key, value) # pairs) =
     (if key \<in> set (map fst res) then Inl (StrictJSONError ''duplicate object key'')
      else object_without_duplicates (res @ [(key, value)]) pairs)"

text \<open>The scanner's tree with the hooks applied, in document order.\<close>

fun apply_hooks :: "'e json_env_scheme \<Rightarrow> raw_json \<Rightarrow> json result"
and apply_hooks_items :: "'e json_env_scheme \<Rightarrow> raw_json list \<Rightarrow> json list result"
and apply_hooks_pairs ::
  "'e json_env_scheme \<Rightarrow> (code_points \<times> raw_json) list \<Rightarrow> (code_points \<times> json) list result" where
  "apply_hooks E RNull = Inr JNull"
| "apply_hooks E (RBool b) = Inr (JBool b)"
| "apply_hooks E (RInt s) = parse_int s"
| "apply_hooks E (RFloat s) = parse_float E s"
| "apply_hooks E (RConst s) = reject_constant s"
| "apply_hooks E (RStr s) = Inr (JStr s)"
| "apply_hooks E (RArr items) = rbind (apply_hooks_items E items) (\<lambda>vs. Inr (JArr vs))"
| "apply_hooks E (RObj pairs) =
     rbind (apply_hooks_pairs E pairs) (\<lambda>ps.
     rbind (object_without_duplicates [] ps) (\<lambda>obj.
     Inr (JObj (map (\<lambda>(k, v). (KStr k, v)) obj))))"
| "apply_hooks_items E [] = Inr []"
| "apply_hooks_items E (r # rs) =
     rbind (apply_hooks E r) (\<lambda>v. rbind (apply_hooks_items E rs) (\<lambda>vs. Inr (v # vs)))"
| "apply_hooks_pairs E [] = Inr []"
| "apply_hooks_pairs E ((k, r) # ps) =
     rbind (apply_hooks E r) (\<lambda>v. rbind (apply_hooks_pairs E ps) (\<lambda>vs. Inr ((k, v) # vs)))"

text \<open>Strict UTF-8 decoding: no overlong form, no surrogate, nothing above U+10FFFF.\<close>

definition continuation :: "byte \<Rightarrow> bool" where
  "continuation b \<longleftrightarrow> 0x80 \<le> unat b \<and> unat b < 0xC0"

fun utf8_decode :: "bytes \<Rightarrow> code_points option" where
  "utf8_decode [] = Some []"
| "utf8_decode (b # bs) =
     (let n = unat b in
      if n < 0x80 then map_option (Cons n) (utf8_decode bs)
      else if 0xC2 \<le> n \<and> n < 0xE0 then
        (case bs of
           c # rest \<Rightarrow>
             if continuation c
             then map_option (Cons ((n - 0xC0) * 64 + (unat c - 0x80))) (utf8_decode rest)
             else None
         | _ \<Rightarrow> None)
      else if 0xE0 \<le> n \<and> n < 0xF0 then
        (case bs of
           c # d # rest \<Rightarrow>
             let v = (n - 0xE0) * 4096 + (unat c - 0x80) * 64 + (unat d - 0x80) in
             if continuation c \<and> continuation d \<and> 0x800 \<le> v \<and> \<not> (0xD800 \<le> v \<and> v \<le> 0xDFFF)
             then map_option (Cons v) (utf8_decode rest) else None
         | _ \<Rightarrow> None)
      else if 0xF0 \<le> n \<and> n < 0xF5 then
        (case bs of
           c # d # e # rest \<Rightarrow>
             let v = (n - 0xF0) * 262144 + (unat c - 0x80) * 4096 + (unat d - 0x80) * 64
                       + (unat e - 0x80) in
             if continuation c \<and> continuation d \<and> continuation e \<and> 0x10000 \<le> v \<and> v < 0x110000
             then map_option (Cons v) (utf8_decode rest) else None
         | _ \<Rightarrow> None)
      else None)"

definition UTF8_BOM :: bytes where
  "UTF8_BOM = [0xEF, 0xBB, 0xBF]"

definition strict_json_loads :: "'e json_env_scheme \<Rightarrow> json_limits \<Rightarrow> bytes \<Rightarrow> json result" where
  "strict_json_loads E L payload =
     (if length payload > max_bytes L
      then Inl (StrictJSONError ''JSON payload exceeds the configured byte limit'')
      else if starts_with UTF8_BOM payload
      then Inl (StrictJSONError ''UTF-8 byte-order marks are not allowed'')
      else case utf8_decode payload of
        None \<Rightarrow> Inl (StrictJSONError ''JSON payload is not valid UTF-8'')
      | Some txt \<Rightarrow>
          (case json_scan E txt of
             None \<Rightarrow> Inl (StrictJSONError ''invalid JSON'')
           | Some raw \<Rightarrow>
               rbind (apply_hooks E raw) (\<lambda>value.
               rbind (validate_tree L 0 value) (\<lambda>_. Inr value))))"

section \<open>JSON lines\<close>

fun dict_get :: "json \<Rightarrow> string \<Rightarrow> json option" where
  "dict_get (JObj members) k = map_of members (KStr (text_of k))"
| "dict_get _ k = None"

definition record_id :: "json \<Rightarrow> json result" where
  "record_id rec =
     (case dict_get rec ''id'' of
        Some (JStr s) \<Rightarrow> Inr (JStr s)
      | _ \<Rightarrow> Inl (StrictJSONError ''JSONL records require string ids''))"

fun is_object :: "json \<Rightarrow> bool" where
  "is_object (JObj _) = True"
| "is_object _ = False"

fun keyed_records ::
  "(json \<Rightarrow> json result) \<Rightarrow> json list \<Rightarrow> (code_points \<times> json) list result" where
  "keyed_records sortkey [] = Inr []"
| "keyed_records sortkey (rec # recs) =
     (if \<not> is_object rec then Inl (StrictJSONError ''JSONL records must be objects'')
      else rbind (on_error is_value_error
             (StrictJSONError ''JSONL record has no valid canonical sort key'') (sortkey rec))
        (\<lambda>identity. case identity of
           JStr s \<Rightarrow> rbind (keyed_records sortkey recs) (\<lambda>ks. Inr ((s, rec) # ks))
         | _ \<Rightarrow> Inl (StrictJSONError ''JSONL canonical sort keys must be strings'')))"

fun encode_lines :: "'e json_env_scheme \<Rightarrow> json_limits \<Rightarrow> bytes \<Rightarrow> json list \<Rightarrow> bytes result" where
  "encode_lines E L encoded [] = Inr encoded"
| "encode_lines E L encoded (rec # recs) =
     rbind (canonical_json_bytes E L rec) (\<lambda>line.
     if length line > max_line_bytes L
     then Inl (StrictJSONError ''JSONL line exceeds the configured byte limit'')
     else if length encoded + length line + 1 > max_bytes L
     then Inl (StrictJSONError ''canonical JSONL exceeds the configured byte limit'')
     else encode_lines E L (encoded @ line @ [0x0A]) recs)"

definition canonical_jsonl_bytes ::
  "'e json_env_scheme \<Rightarrow> json_limits \<Rightarrow> (json \<Rightarrow> json result) \<Rightarrow> json list \<Rightarrow> bytes result" where
  "canonical_jsonl_bytes E L sortkey records =
     (let materialized = take (max_collection_items L + 1) records in
      if length materialized > max_collection_items L
      then Inl (StrictJSONError ''JSONL record count exceeds the configured limit'')
      else rbind (keyed_records sortkey materialized) (\<lambda>keyed.
        let ordered = sort_key fst keyed; identities = map fst ordered in
        if length (remdups identities) \<noteq> length identities
        then Inl (StrictJSONError ''JSONL records have duplicate canonical sort keys'')
        else encode_lines E L [] (map snd ordered)))"

text \<open>\<open>payload.split(b"\n")\<close>.\<close>

fun split_on :: "'a \<Rightarrow> 'a list \<Rightarrow> 'a list list" where
  "split_on s [] = [[]]"
| "split_on s (x # xs) =
     (if x = s then [] # split_on s xs
      else case split_on s xs of [] \<Rightarrow> [[x]] | p # ps \<Rightarrow> (x # p) # ps)"

definition bytes_isspace :: "bytes \<Rightarrow> bool" where
  "bytes_isspace line \<longleftrightarrow> line \<noteq> [] \<and> list_all (\<lambda>b. b \<in> {9, 10, 11, 12, 13, 32}) line"

definition check_sorted_id :: "code_points option \<Rightarrow> json \<Rightarrow> code_points result" where
  "check_sorted_id previous_id value =
     (case dict_get value ''id'' of
        Some (JStr identity) \<Rightarrow>
          (case previous_id of
             None \<Rightarrow> Inr identity
           | Some p \<Rightarrow>
               if identity = p then Inl (StrictJSONError ''duplicate JSONL id'')
               else if identity < p then Inl (StrictJSONError ''JSONL records are not sorted by id'')
               else Inr identity)
      | _ \<Rightarrow> Inl (StrictJSONError ''JSONL line requires a string id''))"

fun jsonl_loop ::
  "'e json_env_scheme \<Rightarrow> json_limits \<Rightarrow> bool \<Rightarrow> code_points option \<Rightarrow> json list \<Rightarrow> bytes list
     \<Rightarrow> json list result" where
  "jsonl_loop E L require_sorted_ids previous_id records [] = Inr records"
| "jsonl_loop E L require_sorted_ids previous_id records (line # lines) =
     (if line = [] then Inl (StrictJSONError ''blank JSONL line'')
      else if bytes_isspace line then Inl (StrictJSONError ''whitespace-only JSONL line'')
      else if length line > max_line_bytes L
      then Inl (StrictJSONError ''JSONL line exceeds the byte limit'')
      else rbind (strict_json_loads E L line) (\<lambda>value.
        if \<not> is_object value then Inl (StrictJSONError ''JSONL line is not an object'')
        else rbind (canonical_json_bytes E L value) (\<lambda>canon.
          if canon \<noteq> line then Inl (StrictJSONError ''JSONL line is not canonical JSON'')
          else if length records \<ge> max_collection_items L
          then Inl (StrictJSONError ''JSONL record count exceeds the configured limit'')
          else if require_sorted_ids
          then rbind (check_sorted_id previous_id value) (\<lambda>identity.
            jsonl_loop E L require_sorted_ids (Some identity) (records @ [value]) lines)
          else jsonl_loop E L require_sorted_ids previous_id (records @ [value]) lines)))"

definition strict_jsonl_loads ::
  "'e json_env_scheme \<Rightarrow> json_limits \<Rightarrow> bool \<Rightarrow> bytes \<Rightarrow> json list result" where
  "strict_jsonl_loads E L require_sorted_ids payload =
     (if length payload > max_bytes L
      then Inl (StrictJSONError ''JSONL payload exceeds the configured byte limit'')
      else if 0x0D \<in> set payload
      then Inl (StrictJSONError ''canonical JSONL permits LF line endings only'')
      else if payload \<noteq> [] \<and> last payload \<noteq> 0x0A
      then Inl (StrictJSONError ''canonical JSONL requires one final LF'')
      else jsonl_loop E L require_sorted_ids None [] (butlast (split_on 0x0A payload)))"

section \<open>What the validation accepts\<close>

text \<open>
  The abstract reading of \<open>_validate_tree\<close>: the nesting depth of the value and a local
  condition on every node of it.
\<close>

fun json_depth :: "json \<Rightarrow> nat"
and items_depth :: "json list \<Rightarrow> nat"
and members_depth :: "(pykey \<times> json) list \<Rightarrow> nat" where
  "json_depth (JArr items) = items_depth items"
| "json_depth (JObj members) = members_depth members"
| "json_depth _ = 0"
| "items_depth [] = 0"
| "items_depth (item # items) = max (Suc (json_depth item)) (items_depth items)"
| "members_depth [] = 0"
| "members_depth (m # members) = max (Suc (json_depth (snd m))) (members_depth members)"

fun json_nodes :: "json \<Rightarrow> json list"
and items_nodes :: "json list \<Rightarrow> json list"
and members_nodes :: "(pykey \<times> json) list \<Rightarrow> json list" where
  "json_nodes (JArr items) = JArr items # items_nodes items"
| "json_nodes (JObj members) = JObj members # members_nodes members"
| "json_nodes v = [v]"
| "items_nodes [] = []"
| "items_nodes (item # items) = json_nodes item @ items_nodes items"
| "members_nodes [] = []"
| "members_nodes (m # members) = json_nodes (snd m) @ members_nodes members"

definition no_surrogate :: "code_points \<Rightarrow> bool" where
  "no_surrogate s \<longleftrightarrow> (\<forall>c \<in> set s. c < 0xD800 \<or> 0xDFFF < c)"

fun key_ok :: "json_limits \<Rightarrow> pykey \<Rightarrow> bool" where
  "key_ok L (KStr k) = (no_surrogate k \<and> length k \<le> max_string_length L)"
| "key_ok L KOther = False"

fun node_ok :: "json_limits \<Rightarrow> json \<Rightarrow> bool" where
  "node_ok L (JStr s) = (length s \<le> max_string_length L \<and> no_surrogate s)"
| "node_ok L (JInt n) = (\<bar>n\<bar> \<le> I_JSON_MAX_INTEGER)"
| "node_ok L (JFloat f) = (float_is_finite f \<and> \<not> (float_is_zero f \<and> float_is_negative f)
     \<and> \<not> (float_is_integer f \<and> float_abs_exceeds f I_JSON_MAX_INTEGER))"
| "node_ok L (JArr items) = (length items \<le> max_collection_items L)"
| "node_ok L (JObj members) =
     (length members \<le> max_collection_items L \<and> list_all (\<lambda>m. key_ok L (fst m)) members)"
| "node_ok L (JOther _) = False"
| "node_ok L _ = True"

lemma no_surrogate_text [simp]: "no_surrogate (text_of s)"
proof -
  have "n < 0xD800" if n: "n \<in> set (text_of s)" for n
  proof -
    obtain c where "n = of_char c" using n by (auto simp: text_of_def)
    moreover have "(of_char c :: nat) < 256" by simp
    ultimately show ?thesis by linarith
  qed
  then show ?thesis by (auto simp: no_surrogate_def)
qed

lemma no_surrogate_append [simp]: "no_surrogate (a @ b) \<longleftrightarrow> no_surrogate a \<and> no_surrogate b"
  by (auto simp: no_surrogate_def)

lemma text_of_simps [simp]: "text_of s = [] \<longleftrightarrow> s = []" "text_of (a @ b) = text_of a @ text_of b"
  by (simp_all add: text_of_def)

lemma reject_surrogates_Inr [result_simps]: "reject_surrogates s = Inr u \<longleftrightarrow> no_surrogate s"
  by (simp add: reject_surrogates_def no_surrogate_def list_ex_iff not_less flip: not_le)

lemma key_ok_iff: "key_ok L key \<longleftrightarrow>
    (\<exists>k. key = KStr k \<and> no_surrogate k \<and> length k \<le> max_string_length L)"
  by (cases key) auto

lemma validate_tree_iff_aux:
  "validate_tree L d v = Inr () \<longleftrightarrow>
     d + json_depth v \<le> max_depth L \<and> list_all (node_ok L) (json_nodes v)"
  "d \<le> Suc (max_depth L) \<Longrightarrow> validate_items L d items = Inr () \<longleftrightarrow>
     d + items_depth items \<le> Suc (max_depth L) \<and> list_all (node_ok L) (items_nodes items)"
  "d \<le> Suc (max_depth L) \<Longrightarrow> validate_members L d members = Inr () \<longleftrightarrow>
     d + members_depth members \<le> Suc (max_depth L) \<and> list_all (\<lambda>m. key_ok L (fst m)) members
       \<and> list_all (node_ok L) (members_nodes members)"
proof (induction L d v and L d items and L d members
    rule: validate_tree_validate_items_validate_members.induct)
  case (1 L d v)
  show ?case
  proof (cases "d \<le> max_depth L")
    case True
    then show ?thesis
      using 1 by (cases v) (auto simp: result_simps)
  next
    case False
    then show ?thesis by simp
  qed
next
  case (5 L d key item members)
  then show ?case
    by (cases key) (auto simp: result_simps max_def)
qed (auto simp: result_simps max_def)

declare validate_tree.simps [simp del]

text \<open>Equivalence of the recursive validation with its abstract reading.\<close>

lemma validate_tree_iff:
  "validate_tree L 0 v = Inr () \<longleftrightarrow>
     json_depth v \<le> max_depth L \<and> list_all (node_ok L) (json_nodes v)"
  using validate_tree_iff_aux(1) [of L 0 v] by simp

section \<open>Canonical bytes\<close>

lemma sink_writes_Inr:
  "length content \<le> maximum \<Longrightarrow> sink_writes maximum content chunks = Inr out \<longleftrightarrow>
     out = content @ concat chunks \<and> length out \<le> maximum"
proof (induction chunks arbitrary: content)
  case Nil
  then show ?case by auto
next
  case (Cons v vs)
  then show ?case by (cases "length content + length v > maximum") auto
qed

lemma canonical_json_bytes_Inr:
  "canonical_json_bytes E L v = Inr b \<longleftrightarrow>
     validate_tree L 0 v = Inr () \<and> snd (rfc8785_dump E v) = None \<and>
     b = concat (fst (rfc8785_dump E v)) \<and> length b \<le> max_bytes L"
  unfolding canonical_json_bytes_def
  by (auto simp: result_simps sink_writes_Inr split: option.splits)

lemma canonical_json_bytes_Inr_D:
  assumes "canonical_json_bytes E L v = Inr b"
  shows "b = concat (fst (rfc8785_dump E v))" "length b \<le> max_bytes L"
    "validate_tree L 0 v = Inr ()"
  using assms unfolding canonical_json_bytes_Inr by auto

lemma strict_json_loads_valid:
  "strict_json_loads E L payload = Inr v \<Longrightarrow> validate_tree L 0 v = Inr ()"
  by (auto simp: strict_json_loads_def result_simps split: if_splits option.splits)

lemma object_without_duplicates_Inr:
  "object_without_duplicates acc ps = Inr out \<Longrightarrow> distinct (map fst acc) \<Longrightarrow>
     out = acc @ ps \<and> distinct (map fst out)"
proof (induction acc ps rule: object_without_duplicates.induct)
  case (1 res)
  then show ?case by simp
next
  case (2 res k v pairs)
  then have k: "k \<notin> set (map fst res)"
    and rest: "object_without_duplicates (res @ [(k, v)]) pairs = Inr out"
    by (auto split: if_splits)
  have "distinct (map fst (res @ [(k, v)]))" using k "2.prems"(2) by simp
  from "2.IH" [OF k rest this] show ?case by (metis append.assoc append_Cons append_Nil)
qed

section \<open>JSON lines\<close>

lemma split_on_nonempty: "split_on s xs \<noteq> []"
  by (induction xs) (auto split: list.splits)

lemma split_on_join:
  "concat (map (\<lambda>l. l @ [s]) (butlast (split_on s xs))) @ last (split_on s xs) = xs"
proof (induction xs)
  case Nil
  then show ?case by simp
next
  case (Cons x xs)
  obtain p ps where ps: "split_on s xs = p # ps"
    using split_on_nonempty [of s xs] by (cases "split_on s xs") auto
  show ?case using Cons ps by (cases ps) auto
qed

lemma split_on_lines:
  "(\<And>l. l \<in> set ls \<Longrightarrow> s \<notin> set l) \<Longrightarrow> split_on s (concat (map (\<lambda>l. l @ [s]) ls)) = ls @ [[]]"
proof (induction ls)
  case Nil
  then show ?case by simp
next
  case (Cons l ls)
  have *: "s \<notin> set l \<Longrightarrow> split_on s (l @ s # r) = l # split_on s r" for l r
    by (induction l) auto
  show ?case using Cons by (simp add: *)
qed

lemma split_on_snoc: "split_on s (xs @ [s]) = split_on s xs @ [[]]"
proof (induction xs)
  case Nil
  then show ?case by simp
next
  case (Cons x xs)
  then show ?case using split_on_nonempty [of s xs] by (auto split: list.splits)
qed

lemma split_on_last: "xs \<noteq> [] \<Longrightarrow> last xs = s \<Longrightarrow> last (split_on s xs) = []"
  by (metis append_butlast_last_id last_snoc split_on_snoc)

definition json_id :: "json \<Rightarrow> code_points" where
  "json_id v = (case dict_get v ''id'' of Some (JStr s) \<Rightarrow> s | _ \<Rightarrow> [])"

lemma jsonl_loop_Inr:
  assumes "jsonl_loop E L srt prev recs lines = Inr out"
  shows "\<exists>new. out = recs @ new \<and> list_all2 (\<lambda>line v. strict_json_loads E L line = Inr v
     \<and> is_object v \<and> canonical_json_bytes E L v = Inr line \<and> line \<noteq> []
     \<and> length line \<le> max_line_bytes L) lines new
     \<and> (srt \<longrightarrow> sorted_wrt (<) (map json_id new)
          \<and> (\<forall>p v. prev = Some p \<longrightarrow> v \<in> set new \<longrightarrow> p < json_id v))"
  using assms
proof (induction E L srt prev recs lines rule: jsonl_loop.induct)
  case (1 E L srt prev recs)
  then show ?case by simp
next
  case (2 E L srt prev recs line lines)
  from "2.prems" obtain v where ne: "line \<noteq> []" "\<not> bytes_isspace line"
      "length line \<le> max_line_bytes L"
    and v: "strict_json_loads E L line = Inr v" "is_object v" "canonical_json_bytes E L v = Inr line"
      "length recs < max_collection_items L"
    and rest: "(if srt then rbind (check_sorted_id prev v)
        (\<lambda>i. jsonl_loop E L srt (Some i) (recs @ [v]) lines)
        else jsonl_loop E L srt prev (recs @ [v]) lines) = Inr out"
    by (auto simp: result_simps split: if_splits)
  note facts = ne v
  show ?case
  proof (cases srt)
    case False
    with rest have "jsonl_loop E L srt prev (recs @ [v]) lines = Inr out" by simp
    with "2.IH"(2) [of v] facts False obtain new where "out = (recs @ [v]) @ new"
      and "list_all2 (\<lambda>line v. strict_json_loads E L line = Inr v \<and> is_object v
        \<and> canonical_json_bytes E L v = Inr line \<and> line \<noteq> []
        \<and> length line \<le> max_line_bytes L) lines new"
      by auto
    with facts False show ?thesis by (intro exI [of _ "v # new"]) simp
  next
    case True
    with rest obtain i where i: "check_sorted_id prev v = Inr i"
      and l: "jsonl_loop E L srt (Some i) (recs @ [v]) lines = Inr out"
      by (auto simp: result_simps)
    have id: "json_id v = i" "\<And>p. prev = Some p \<Longrightarrow> p < i"
      using i by (auto simp: check_sorted_id_def json_id_def
          split: option.splits json.splits if_splits)
    from "2.IH"(1) [of v line i] facts True i l obtain new where new: "out = (recs @ [v]) @ new"
      "list_all2 (\<lambda>line v. strict_json_loads E L line = Inr v \<and> is_object v
        \<and> canonical_json_bytes E L v = Inr line \<and> line \<noteq> []
        \<and> length line \<le> max_line_bytes L) lines new"
      "sorted_wrt (<) (map json_id new)" "\<And>u. u \<in> set new \<Longrightarrow> i < json_id u"
      by auto
    with facts id True show ?thesis
      by (intro exI [of _ "v # new"]) (force intro: order.strict_trans)
  qed
qed

text \<open>
  What the audit chain relies on of the serializer and the scanner (RFC 8785: the output is one
  line of JSON text without control characters that denotes the input): canonical bytes contain no
  line break, and reading them back gives an object with the same identity that serializes to the
  same bytes.
\<close>

definition jcs_law :: "'e json_env_scheme \<Rightarrow> json_limits \<Rightarrow> bool" where
  "jcs_law E L \<longleftrightarrow> (\<forall>v b. canonical_json_bytes E L v = Inr b \<longrightarrow>
     b \<noteq> [] \<and> \<not> bytes_isspace b \<and> 0x0A \<notin> set b \<and> 0x0D \<notin> set b \<and>
     (\<exists>v'. strict_json_loads E L b = Inr v' \<and> canonical_json_bytes E L v' = Inr b
        \<and> (is_object v' \<longleftrightarrow> is_object v)
        \<and> (\<forall>s. dict_get v ''id'' = Some (JStr s) \<longrightarrow> dict_get v' ''id'' = Some (JStr s))))"

lemma encode_lines_Inr:
  "encode_lines E L acc recs = Inr out \<Longrightarrow> \<exists>lines. out = acc @ concat (map (\<lambda>l. l @ [0x0A]) lines)
     \<and> list_all2 (\<lambda>v l. canonical_json_bytes E L v = Inr l \<and> length l \<le> max_line_bytes L) recs lines
     \<and> (recs \<noteq> [] \<longrightarrow> length out \<le> max_bytes L)"
proof (induction E L acc recs rule: encode_lines.induct)
  case (1 E L acc)
  then show ?case by simp
next
  case (2 E L acc v recs)
  from "2.prems" obtain l where l: "canonical_json_bytes E L v = Inr l"
      "length l \<le> max_line_bytes L" "length acc + length l + 1 \<le> max_bytes L"
    and rest: "encode_lines E L (acc @ l @ [0x0A]) recs = Inr out"
    by (auto simp: result_simps split: if_splits)
  from "2.IH" [of l] l rest obtain lines where lines:
      "out = (acc @ l @ [0x0A]) @ concat (map (\<lambda>l. l @ [0x0A]) lines)"
      "list_all2 (\<lambda>v l. canonical_json_bytes E L v = Inr l \<and> length l \<le> max_line_bytes L) recs lines"
      "recs \<noteq> [] \<longrightarrow> length out \<le> max_bytes L"
    by auto
  with l show ?case by (intro exI [of _ "l # lines"]) auto
qed

lemma encode_lines_complete:
  assumes "list_all2 (\<lambda>v l. canonical_json_bytes E L v = Inr l \<and> length l \<le> max_line_bytes L) recs lines"
    and "length (acc @ concat (map (\<lambda>l. l @ [0x0A]) lines)) \<le> max_bytes L"
  shows "encode_lines E L acc recs = Inr (acc @ concat (map (\<lambda>l. l @ [0x0A]) lines))"
  using assms by (induction recs lines arbitrary: acc rule: list_all2_induct) auto

lemma keyed_records_Inr:
  "keyed_records record_id recs = Inr keyed \<longleftrightarrow>
     keyed = map (\<lambda>r. (json_id r, r)) recs \<and>
     (\<forall>r \<in> set recs. is_object r \<and> dict_get r ''id'' = Some (JStr (json_id r)))"
proof (induction recs arbitrary: keyed)
  case Nil
  then show ?case by auto
next
  case (Cons r recs)
  then show ?case
    by (cases "dict_get r ''id''")
      (auto simp: result_simps record_id_def json_id_def split: json.splits)
qed

lemma insort_key_map_pair:
  "insort_key fst (f r, r) (map (\<lambda>r. (f r, r)) rs) = map (\<lambda>r. (f r, r)) (insort_key f r rs)"
  by (induction rs) auto

lemma sort_key_map_pair:
  "sort_key fst (map (\<lambda>r. (f r, r)) rs) = map (\<lambda>r. (f r, r)) (sort_key f rs)"
  by (induction rs) (simp_all add: insort_key_map_pair)

lemma canonical_jsonl_bytes_Inr:
  assumes "canonical_jsonl_bytes E L record_id recs = Inr payload"
  obtains ordered where "ordered = sort_key json_id recs" "sorted_wrt (<) (map json_id ordered)"
    "length recs \<le> max_collection_items L"
    "\<And>r. r \<in> set ordered \<Longrightarrow> is_object r \<and> dict_get r ''id'' = Some (JStr (json_id r))"
    "encode_lines E L [] ordered = Inr payload"
proof -
  let ?k = "map (\<lambda>r. (json_id r, r)) recs"
  from assms have len: "length recs \<le> max_collection_items L"
    by (auto simp: canonical_jsonl_bytes_def Let_def split: if_splits)
  with assms have ok: "\<forall>r \<in> set recs. is_object r \<and> dict_get r ''id'' = Some (JStr (json_id r))"
    and dist: "distinct (map fst (sort_key fst ?k))"
    and enc: "encode_lines E L [] (map snd (sort_key fst ?k)) = Inr payload"
    by (auto simp: canonical_jsonl_bytes_def Let_def result_simps keyed_records_Inr split: if_splits)
  have sk: "sort_key fst ?k = map (\<lambda>r. (json_id r, r)) (sort_key json_id recs)"
    by (rule sort_key_map_pair)
  show thesis
  proof (rule that [OF refl])
    have "distinct (map json_id (sort_key json_id recs))"
      using dist by (simp add: sk comp_def)
    then show "sorted_wrt (<) (map json_id (sort_key json_id recs))"
      by (simp add: strict_sorted_iff)
  qed (use len ok enc in \<open>auto simp: sk comp_def\<close>)
qed

lemma jsonl_loop_complete:
  assumes "list_all2 (\<lambda>line v. line \<noteq> [] \<and> \<not> bytes_isspace line \<and> length line \<le> max_line_bytes L
      \<and> strict_json_loads E L line = Inr v \<and> is_object v \<and> canonical_json_bytes E L v = Inr line
      \<and> dict_get v ''id'' = Some (JStr (json_id v))) lines new"
    and "length recs + length new \<le> max_collection_items L"
    and "sorted_wrt (<) (map json_id new)"
    and "\<And>p v. prev = Some p \<Longrightarrow> v \<in> set new \<Longrightarrow> p < json_id v"
  shows "jsonl_loop E L True prev recs lines = Inr (recs @ new)"
  using assms
proof (induction lines new arbitrary: prev recs rule: list_all2_induct)
  case Nil
  then show ?case by simp
next
  case (Cons line lines v new)
  have "check_sorted_id prev v = Inr (json_id v)"
    using Cons.hyps Cons.prems(3) by (cases prev) (fastforce simp: check_sorted_id_def)+
  moreover have "jsonl_loop E L True (Some (json_id v)) (recs @ [v]) lines = Inr ((recs @ [v]) @ new)"
    using Cons.prems by (intro Cons.IH) auto
  ultimately show ?case using Cons.hyps Cons.prems(1) by simp
qed

lemma sort_key_map_key: "map f (sort_key f xs) = sort (map f xs)"
proof -
  have "map f (insort_key f x ys) = insort (f x) (map f ys)" for x ys
    by (induction ys) auto
  then show ?thesis by (induction xs) auto
qed

lemma sort_key_strict: "sorted_wrt (<) (map f xs) \<Longrightarrow> sort_key f xs = xs"
proof (induction xs)
  case Nil
  then show ?case by simp
next
  case (Cons x xs)
  have "insort_key f x ys = x # ys" if "\<forall>y \<in> set ys. f x < f y" for ys
    using that by (cases ys) (auto simp: order_less_imp_le)
  with Cons show ?case by simp
qed

lemma jsonl_reencode:
  assumes "list_all2 (\<lambda>line v. line \<noteq> [] \<and> \<not> bytes_isspace line \<and> length line \<le> max_line_bytes L
      \<and> strict_json_loads E L line = Inr v \<and> is_object v \<and> canonical_json_bytes E L v = Inr line
      \<and> dict_get v ''id'' = Some (JStr (json_id v))) lines new"
    and "sorted_wrt (<) (map json_id new)" and "length new \<le> max_collection_items L"
    and "payload = concat (map (\<lambda>l. l @ [0x0A]) lines)" and "length payload \<le> max_bytes L"
  shows "canonical_jsonl_bytes E L record_id new = Inr payload"
proof -
  have ok: "\<forall>r \<in> set new. is_object r \<and> dict_get r ''id'' = Some (JStr (json_id r))"
    using assms(1) by (auto simp: list_all2_conv_all_nth in_set_conv_nth)
  have "list_all2 (\<lambda>v l. canonical_json_bytes E L v = Inr l \<and> length l \<le> max_line_bytes L) new lines"
    using assms(1) by (auto simp: list_all2_conv_all_nth)
  from encode_lines_complete [OF this, of "[]"] assms(4,5)
  have "encode_lines E L [] new = Inr payload" by simp
  moreover have "keyed_records record_id new = Inr (map (\<lambda>r. (json_id r, r)) new)"
    using ok by (simp add: keyed_records_Inr)
  moreover have "distinct (map json_id new)" using assms(2) by (simp add: strict_sorted_iff)
  ultimately show ?thesis
    using assms(3) sort_key_strict [OF assms(2)]
    by (simp add: canonical_jsonl_bytes_def sort_key_map_pair comp_def Let_def distinct_remdups_id)
qed

lemma set_lines: "set (concat (map (\<lambda>l. l @ [s]) ls)) = (if ls = [] then {} else {s}) \<union> \<Union> (set ` set ls)"
  by (induction ls) auto

section \<open>Properties of the canonical layer\<close>

text \<open>
  The recursive validation accepts a value exactly when its nesting depth is within the
  limit and every node is within the I-JSON and size limits, has string keys without surrogates,
  and no non-finite number, no negative zero.
\<close>

theorem validation_accepts_iff:
  "validate_tree L 0 v = Inr () \<longleftrightarrow>
     json_depth v \<le> max_depth L \<and> list_all (node_ok L) (json_nodes v)"
  by (rule validate_tree_iff)

text \<open>
  Reading JSON lines is byte-exact: whatever the scanner and the serializer do, an accepted
  payload is the concatenation of the canonical bytes of the returned records, each followed by
  one LF; with sorted ids required, the identities are strictly increasing.
\<close>

theorem strict_jsonl_loads_exact:
  assumes "strict_jsonl_loads E L srt payload = Inr recs"
  shows "\<exists>lines. list_all2 (\<lambda>v line. canonical_json_bytes E L v = Inr line) recs lines
     \<and> payload = concat (map (\<lambda>l. l @ [0x0A]) lines)
     \<and> (srt \<longrightarrow> sorted_wrt (<) (map json_id recs))"
proof -
  let ?lines = "butlast (split_on 0x0A payload)"
  from assms have lf: "payload = [] \<or> last payload = 0x0A"
    and loop: "jsonl_loop E L srt None [] ?lines = Inr recs"
    by (auto simp: strict_jsonl_loads_def split: if_splits)
  from jsonl_loop_Inr [OF loop] have "list_all2 (\<lambda>line v. canonical_json_bytes E L v = Inr line) ?lines recs"
    and "srt \<longrightarrow> sorted_wrt (<) (map json_id recs)"
    by (auto elim: list_all2_mono)
  moreover have "payload = concat (map (\<lambda>l. l @ [0x0A]) ?lines)"
    using split_on_join [of "0x0A" payload] split_on_last [of payload "0x0A"] lf
    by (cases "payload = []") auto
  ultimately show ?thesis
    by (intro exI [of _ ?lines]) (auto simp: list_all2_conv_all_nth)
qed

subsection \<open>A concrete environment\<close>

text \<open>The record with the single member \<open>id\<close>, and a serializer and scanner that know it.\<close>

definition example_record :: json where
  "example_record = JObj [(KStr (text_of ''id''), JStr (text_of ''a''))]"

definition example_line :: bytes where
  "example_line = [0x7B, 0x22, 0x69, 0x64, 0x22, 0x3A, 0x22, 0x61, 0x22, 0x7D]"

definition example_json_env :: json_env where
  "example_json_env = \<lparr>
     rfc8785_dump = (\<lambda>v. if v = example_record then ([example_line], None)
                          else ([], Some ''not serialized'')),
     json_scan = (\<lambda>t. if t = map unat example_line
                       then Some (RObj [(text_of ''id'', RStr (text_of ''a''))]) else None),
     py_float = (\<lambda>_. Finite False 0 0)\<rparr>"

lemmas example_defs = example_record_def example_line_def example_json_env_def
  DEFAULT_JSON_LIMITS_def text_of_def

lemma example_valid: "validate_tree DEFAULT_JSON_LIMITS 0 example_record = Inr ()"
  by (simp add: example_defs validate_tree_iff no_surrogate_def)

lemma line_canonical:
  "canonical_json_bytes example_json_env DEFAULT_JSON_LIMITS example_record = Inr example_line"
  using example_valid by (simp add: canonical_json_bytes_Inr)
    (simp add: example_json_env_def DEFAULT_JSON_LIMITS_def example_line_def)

lemma example_hooks:
  "apply_hooks example_json_env (RObj [(text_of ''id'', RStr (text_of ''a''))]) = Inr example_record"
  by (simp add: example_record_def)

lemma line_loads:
  "strict_json_loads example_json_env DEFAULT_JSON_LIMITS example_line = Inr example_record"
proof -
  have "utf8_decode example_line = Some (map unat example_line)"
    by (simp add: example_line_def)
  moreover have "length example_line \<le> max_bytes DEFAULT_JSON_LIMITS"
    "\<not> starts_with UTF8_BOM example_line"
    by (simp_all add: example_defs starts_with_def UTF8_BOM_def)
  moreover have "json_scan example_json_env (map unat example_line)
      = Some (RObj [(text_of ''id'', RStr (text_of ''a''))])"
    by (simp add: example_json_env_def)
  ultimately show ?thesis
    using example_valid example_hooks by (simp add: strict_json_loads_def)
qed

lemma example_id: "json_id example_record = text_of ''a''"
  "dict_get example_record ''id'' = Some (JStr (text_of ''a''))"
  by (simp_all add: example_record_def json_id_def)

lemma example_decode:
  "strict_jsonl_loads example_json_env DEFAULT_JSON_LIMITS True (example_line @ [0x0A])
     = Inr [example_record]"
proof -
  have "split_on 0x0A (example_line @ [0x0A]) = [example_line, []]"
    by (simp add: example_line_def)
  moreover have "example_line \<noteq> []" "\<not> bytes_isspace example_line" "is_object example_record"
    "length example_line \<le> max_line_bytes DEFAULT_JSON_LIMITS"
    "0 < max_collection_items DEFAULT_JSON_LIMITS" "0x0D \<notin> set (example_line @ [0x0A])"
    "length (example_line @ [0x0A]) \<le> max_bytes DEFAULT_JSON_LIMITS"
    by (simp_all add: example_defs bytes_isspace_def)
  ultimately show ?thesis
    by (simp add: strict_jsonl_loads_def line_loads line_canonical check_sorted_id_def
        example_id)
qed

theorem strict_jsonl_loads_exact_witness:
  "strict_jsonl_loads example_json_env DEFAULT_JSON_LIMITS True (example_line @ [0x0A])
     = Inr [example_record]
   \<and> (\<exists>lines. list_all2 (\<lambda>v line. canonical_json_bytes example_json_env DEFAULT_JSON_LIMITS v = Inr line)
            [example_record] lines
         \<and> example_line @ [0x0A] = concat (map (\<lambda>l. l @ [0x0A]) lines)
         \<and> (True \<longrightarrow> sorted_wrt (<) (map json_id [example_record])))"
  using example_decode strict_jsonl_loads_exact [OF example_decode] by blast

end
