(* ===== verification/Models.thy ===== *)
theory Models
  imports Canonical
begin

text \<open>
  The immutable values of the control plane, from
  \<^verbatim>\<open>src/src/assurance_lab/control_plane/models.py\<close>: actors, configurations, revisions,
  approval decisions, desired-selection pointers, deployment operations and audit events, with
  the validators pydantic runs when such a value is built and the content identities.

  A pydantic model is a record together with a \<open>validate_\<close> function, which returns the
  validated (and normalised) value or the \<open>ValidationError\<close> pydantic raises; a field constraint
  is one condition of it. An instant is its number of whole UTC seconds since the epoch; the
  datetime arguments of operations still carry awareness and microseconds (\<open>datetime\<close>).
  Third-party and library code is a field of \<open>model_env\<close>: the SHA-256 hexdigest, pydantic's JSON
  parser for a configuration, and \<open>urllib.parse.urlsplit\<close>.
\<close>

section \<open>Literals and identifiers\<close>

datatype revision_state = Draft | Submitted | Approved | Rejected | Retired

datatype role = Viewer | Editor | Approver | Deployer | Auditor | Administrator

datatype environment = Development | Test | Staging | Production

datatype operation_state = Pending | Leased | Applied | Failed

datatype operation_kind = Apply | Rollback

datatype decision_kind = DecApproved | DecRejected

datatype audit_action =
    RevisionCreated | RevisionSubmitted | RevisionApproved | RevisionRejected | RevisionActivated
  | DeploymentRetryRequested | DeploymentRollbackRequested | DeploymentLeased
  | DeploymentApplied | DeploymentFailed

fun state_name :: "revision_state \<Rightarrow> string" where
  "state_name Draft = ''draft''"
| "state_name Submitted = ''submitted''"
| "state_name Approved = ''approved''"
| "state_name Rejected = ''rejected''"
| "state_name Retired = ''retired''"

fun environment_name :: "environment \<Rightarrow> string" where
  "environment_name Development = ''development''"
| "environment_name Test = ''test''"
| "environment_name Staging = ''staging''"
| "environment_name Production = ''production''"

fun operation_state_name :: "operation_state \<Rightarrow> string" where
  "operation_state_name Pending = ''pending''"
| "operation_state_name Leased = ''leased''"
| "operation_state_name Applied = ''applied''"
| "operation_state_name Failed = ''failed''"

fun kind_name :: "operation_kind \<Rightarrow> string" where
  "kind_name Apply = ''apply''"
| "kind_name Rollback = ''rollback''"

fun decision_name :: "decision_kind \<Rightarrow> string" where
  "decision_name DecApproved = ''approved''"
| "decision_name DecRejected = ''rejected''"

fun action_name :: "audit_action \<Rightarrow> string" where
  "action_name RevisionCreated = ''revision-created''"
| "action_name RevisionSubmitted = ''revision-submitted''"
| "action_name RevisionApproved = ''revision-approved''"
| "action_name RevisionRejected = ''revision-rejected''"
| "action_name RevisionActivated = ''revision-activated''"
| "action_name DeploymentRetryRequested = ''deployment-retry-requested''"
| "action_name DeploymentRollbackRequested = ''deployment-rollback-requested''"
| "action_name DeploymentLeased = ''deployment-leased''"
| "action_name DeploymentApplied = ''deployment-applied''"
| "action_name DeploymentFailed = ''deployment-failed''"

text \<open>The regular expressions, as they match a whole string.\<close>

definition portable_id :: "string \<Rightarrow> bool" where
  "portable_id s \<longleftrightarrow> (case s of [] \<Rightarrow> False
     | c # cs \<Rightarrow> lower_char c \<and> length cs \<le> 127
         \<and> list_all (\<lambda>c. lower_char c \<or> digit_char c \<or> c \<in> set ''._-'') cs)"

definition group_format :: "string \<Rightarrow> bool" where
  "group_format s \<longleftrightarrow> (case s of [] \<Rightarrow> False
     | c # cs \<Rightarrow> (lower_char c \<or> upper_char c \<or> digit_char c) \<and> length cs \<le> 254
         \<and> list_all (\<lambda>c. lower_char c \<or> upper_char c \<or> digit_char c \<or> c \<in> set ''._:/@-'') cs)"

definition digest_format :: "string \<Rightarrow> bool" where
  "digest_format s \<longleftrightarrow>
     starts_with ''sha256:'' s \<and> length s = 71 \<and> list_all hex_char (drop 7 s)"

definition alert_alias_format :: "string \<Rightarrow> bool" where
  "alert_alias_format s \<longleftrightarrow>
     (let p = ''.alerts-security.alerts-'' in
      starts_with p s \<and> (case drop (length p) s of [] \<Rightarrow> False
        | c # cs \<Rightarrow> (lower_char c \<or> digit_char c) \<and> length cs \<le> 63
            \<and> list_all (\<lambda>c. lower_char c \<or> digit_char c \<or> c \<in> set ''_-'') cs))"

text \<open>The canonical UUID pattern: 36 characters, position by position.\<close>

definition uuid_char :: "nat \<Rightarrow> char \<Rightarrow> bool" where
  "uuid_char i c \<longleftrightarrow>
     (if i \<in> {8, 13, 18, 23} then c = CHR ''-''
      else if i = 14 then CHR ''1'' \<le> c \<and> c \<le> CHR ''5''
      else if i = 19 then c \<in> set ''89ab''
      else hex_char c)"

definition uuid_format :: "string \<Rightarrow> bool" where
  "uuid_format s \<longleftrightarrow> length s = 36 \<and> list_all (\<lambda>(i, c). uuid_char i c) (zip [0..<36] s)"

section \<open>Instants\<close>

record datetime =
  dt_aware :: bool
  dt_micros :: int

definition utc_second :: "string \<Rightarrow> datetime \<Rightarrow> int result" where
  "utc_second label value =
     (if \<not> dt_aware value then Inl (ValueError (label @ '' must be timezone-aware''))
      else if dt_micros value mod 1000000 \<noteq> 0
      then Inl (ValueError (label @ '' must use whole UTC seconds''))
      else Inr (dt_micros value div 1000000))"

definition instant :: "int \<Rightarrow> datetime" where
  "instant t = \<lparr>dt_aware = True, dt_micros = t * 1000000\<rparr>"

fun decimal_fuel :: "nat \<Rightarrow> nat \<Rightarrow> string" where
  "decimal_fuel 0 n = []"
| "decimal_fuel (Suc k) n =
     (if n < 10 then [char_of (48 + n)] else decimal_fuel k (n div 10) @ [char_of (48 + n mod 10)])"

definition decimal :: "nat \<Rightarrow> string" where
  "decimal n = decimal_fuel (Suc n) n"

definition two_digits :: "int \<Rightarrow> string" where
  "two_digits n = [char_of (48 + nat n div 10), char_of (48 + nat n mod 10)]"

text \<open>The proleptic Gregorian date of a day number counted from 1970-01-01.\<close>

definition civil_of_days :: "int \<Rightarrow> int \<times> int \<times> int" where
  "civil_of_days day =
     (let z = day + 719468; era = z div 146097; doe = z mod 146097;
          yoe = (doe - doe div 1460 + doe div 36524 - doe div 146096) div 365;
          doy = doe - (365 * yoe + yoe div 4 - yoe div 100);
          mp = (5 * doy + 2) div 153;
          d = doy - (153 * mp + 2) div 5 + 1;
          m = (if mp < 10 then mp + 3 else mp - 9)
      in (yoe + era * 400 + (if m \<le> 2 then 1 else 0), m, d))"

text \<open>\<open>strftime("%Y-%m-%dT%H:%M:%SZ")\<close> of an instant.\<close>

definition timestamp :: "int \<Rightarrow> string" where
  "timestamp t =
     (case civil_of_days (t div 86400) of (y, m, d) \<Rightarrow>
        let s = t mod 86400 in
        decimal (nat y) @ ''-'' @ two_digits m @ ''-'' @ two_digits d @ ''T''
        @ two_digits (s div 3600) @ '':'' @ two_digits (s div 60 mod 60) @ '':''
        @ two_digits (s mod 60) @ ''Z'')"

section \<open>Configurations\<close>

record url_parts =
  url_scheme :: string
  url_netloc :: string
  url_path :: string
  url_query :: string
  url_fragment :: string
  url_username :: "string option"
  url_password :: "string option"
  url_hostname :: "string option"
  url_port :: "nat option option" \<comment> \<open>\<open>None\<close>: reading the port raises \<open>ValueError\<close>\<close>

record elastic_source =
  endpoint_origin :: string
  index_alias :: string
  parent_credential_ref :: string
  lease_ttl_seconds :: int
  ca_bundle_ref :: "string option"

datatype cloud = CloudGlobal | USGovernmentL4 | USGovernmentL5

record defender_source =
  def_cloud :: cloud
  def_tenant_id :: string
  def_client_id :: string
  client_credential_ref :: string

datatype source_configuration = Elastic elastic_source | Defender defender_source

record schedule_configuration =
  interval_seconds :: int
  collection_lag_seconds :: int
  window_seconds :: int

record evidence_configuration =
  custody_ref :: string
  signing_key_ref :: string
  retention_days :: int
  legal_hold :: bool

record control_configuration =
  cfg_tenant_id :: string
  cfg_control_id :: string
  cfg_display_name :: string
  cfg_description :: string
  cfg_environment :: environment
  cfg_owner_group :: string
  cfg_control_profile_id :: string
  cfg_control_profile_digest :: string
  cfg_source :: source_configuration
  cfg_schedule :: schedule_configuration
  cfg_evidence :: evidence_configuration
  cfg_enabled :: bool

record model_env = json_env +
  sha256_hexdigest :: "bytes \<Rightarrow> string"
  model_validate_json :: "bytes \<Rightarrow> control_configuration option"
  urlsplit :: "string \<Rightarrow> url_parts option"

definition invalid :: "string \<Rightarrow> py_error" where
  "invalid m = ValidationError m"

text \<open>\<open>not value or len(value) > 2048\<close> of the two reference validators.\<close>

definition absent_or_long :: "string \<Rightarrow> bool" where
  "absent_or_long v \<longleftrightarrow> v = [] \<or> length v > 2048"

definition origin_rejected :: "url_parts \<Rightarrow> bool" where
  "origin_rejected p \<longleftrightarrow>
     url_scheme p \<noteq> ''https'' \<or> url_hostname p \<in> {None, Some []}
     \<or> url_username p \<noteq> None \<or> url_password p \<noteq> None
     \<or> url_path p \<notin> {[], ''/''} \<or> url_query p \<noteq> [] \<or> url_fragment p \<noteq> []"

definition to_lower :: "string \<Rightarrow> string" where
  "to_lower s = map (\<lambda>c. if upper_char c then char_of (of_char c + (32::nat)) else c) s"

definition origin :: "'e model_env_scheme \<Rightarrow> string \<Rightarrow> string \<Rightarrow> string result" where
  "origin E label value =
     (if absent_or_long value then Inl (ValueError (label @ '' is absent or too long''))
      else case urlsplit E value of
        None \<Rightarrow> Inl (ValueError ''invalid URL'')
      | Some p \<Rightarrow>
          if origin_rejected p
          then Inl (ValueError (label @ '' must be a credential-free HTTPS origin''))
          else case url_port p of
            None \<Rightarrow> Inl (ValueError (label @ '' has an invalid port''))
          | Some port \<Rightarrow>
              let host = to_lower (the (url_hostname p));
                  rendered = (if CHR '':'' \<in> set host then ''['' @ host @ '']'' else host);
                  authority = (if port \<in> {None, Some 443} then rendered
                               else rendered @ '':'' @ decimal (the port))
              in Inr (''https://'' @ authority))"

definition space_char :: "char \<Rightarrow> bool" where
  "space_char c \<longleftrightarrow> (of_char c :: nat) \<in> {9, 10, 11, 12, 13, 28, 29, 30, 31, 32, 133, 160}"

definition reference_rejected :: "string set \<Rightarrow> string \<Rightarrow> url_parts \<Rightarrow> bool" where
  "reference_rejected schemes value p \<longleftrightarrow>
     url_scheme p \<notin> schemes \<or> url_netloc p = []
     \<or> url_username p \<noteq> None \<or> url_password p \<noteq> None
     \<or> url_path p = [] \<or> url_path p = ''/'' \<or> url_query p \<noteq> [] \<or> url_fragment p \<noteq> []
     \<or> CHR 0x5C \<in> set value \<or> list_ex space_char value"

definition reference :: "'e model_env_scheme \<Rightarrow> string \<Rightarrow> string set \<Rightarrow> string \<Rightarrow> string result" where
  "reference E label schemes value =
     (if absent_or_long value then Inl (ValueError (label @ '' is absent or too long''))
      else case urlsplit E value of
        None \<Rightarrow> Inl (ValueError ''invalid URL'')
      | Some p \<Rightarrow>
          if reference_rejected schemes value p
          then Inl (ValueError (label @ '' is not an approved secret-free reference''))
          else Inr value)"

definition SECRET_REF_SCHEMES :: "string set" where
  "SECRET_REF_SCHEMES = {''aws-secretsmanager'', ''azure-keyvault'', ''gcp-secretmanager'', ''vault''}"

definition SIGNER_REF_SCHEMES :: "string set" where
  "SIGNER_REF_SCHEMES = {''aws-kms'', ''azure-keyvault'', ''gcp-kms'', ''vault-transit''}"

definition CUSTODY_REF_SCHEMES :: "string set" where
  "CUSTODY_REF_SCHEMES = {''s3-object-lock''}"

text \<open>pydantic turns every \<open>ValueError\<close> of a field validator into a \<open>ValidationError\<close>.\<close>

definition field_error :: "'a result \<Rightarrow> 'a result" where
  "field_error m = (case m of Inl e \<Rightarrow>
     (if is_value_error e then Inl (invalid ''field validation failed'') else Inl e) | Inr x \<Rightarrow> Inr x)"

definition validate_elastic_source :: "'e model_env_scheme \<Rightarrow> elastic_source \<Rightarrow> elastic_source result" where
  "validate_elastic_source E c =
     rbind (field_error (origin E ''Elastic endpoint'' (endpoint_origin c))) (\<lambda>o'.
     if \<not> alert_alias_format (index_alias c)
     then Inl (invalid ''Elastic source must name one exact Security alert alias'')
     else rbind (field_error (reference E ''Elastic parent credential reference''
            SECRET_REF_SCHEMES (parent_credential_ref c))) (\<lambda>p.
     if lease_ttl_seconds c < 600 \<or> lease_ttl_seconds c > 3600
     then Inl (invalid ''lease_ttl_seconds'')
     else rbind (case ca_bundle_ref c of None \<Rightarrow> Inr None
            | Some ca \<Rightarrow> rbind (field_error (reference E ''Elastic CA bundle reference''
                SECRET_REF_SCHEMES ca)) (\<lambda>ca'. Inr (Some ca'))) (\<lambda>ca.
     Inr (c\<lparr>endpoint_origin := o', parent_credential_ref := p, ca_bundle_ref := ca\<rparr>))))"

definition validate_defender_source :: "'e model_env_scheme \<Rightarrow> defender_source \<Rightarrow> defender_source result" where
  "validate_defender_source E c =
     (if \<not> uuid_format (to_lower (def_tenant_id c)) \<or> \<not> uuid_format (to_lower (def_client_id c))
      then Inl (invalid ''Defender tenant and client ids must be canonical UUIDs'')
      else rbind (field_error (reference E ''Defender client credential reference''
             SECRET_REF_SCHEMES (client_credential_ref c))) (\<lambda>r.
      Inr (c\<lparr>def_tenant_id := to_lower (def_tenant_id c), def_client_id := to_lower (def_client_id c),
             client_credential_ref := r\<rparr>)))"

definition validate_source :: "'e model_env_scheme \<Rightarrow> source_configuration \<Rightarrow> source_configuration result" where
  "validate_source E c =
     (case c of Elastic s \<Rightarrow> rbind (validate_elastic_source E s) (\<lambda>s'. Inr (Elastic s'))
      | Defender s \<Rightarrow> rbind (validate_defender_source E s) (\<lambda>s'. Inr (Defender s')))"

definition validate_schedule :: "schedule_configuration \<Rightarrow> unit result" where
  "validate_schedule c = raise_first
     [(interval_seconds c < 60 \<or> interval_seconds c > 86400, invalid ''interval_seconds''),
      (collection_lag_seconds c < 0 \<or> collection_lag_seconds c > 3600,
         invalid ''collection_lag_seconds''),
      (window_seconds c < 60 \<or> window_seconds c > 86400, invalid ''window_seconds''),
      (window_seconds c > interval_seconds c,
         invalid ''collection window cannot exceed the schedule interval'')]"

definition validate_evidence :: "'e model_env_scheme \<Rightarrow> evidence_configuration \<Rightarrow> unit result" where
  "validate_evidence E c =
     rbind (field_error (reference E ''custody reference'' CUSTODY_REF_SCHEMES (custody_ref c))) (\<lambda>_.
     rbind (field_error (reference E ''signing key reference'' SIGNER_REF_SCHEMES (signing_key_ref c))) (\<lambda>_.
     if retention_days c < 30 \<or> retention_days c > 3650 then Inl (invalid ''retention_days'')
     else Inr ()))"

definition text_between :: "nat \<Rightarrow> nat \<Rightarrow> string \<Rightarrow> bool" where
  "text_between lo hi s \<longleftrightarrow> lo \<le> length s \<and> length s \<le> hi"

definition validate_configuration ::
  "'e model_env_scheme \<Rightarrow> control_configuration \<Rightarrow> control_configuration result" where
  "validate_configuration E c =
     rbind (raise_first
       [(\<not> portable_id (cfg_tenant_id c), invalid ''tenant_id''),
        (\<not> portable_id (cfg_control_id c), invalid ''control_id''),
        (\<not> text_between 1 160 (cfg_display_name c), invalid ''display_name''),
        (\<not> text_between 1 2000 (cfg_description c), invalid ''description''),
        (\<not> text_between 1 255 (cfg_owner_group c) \<or> \<not> group_format (cfg_owner_group c),
           invalid ''owner group is invalid''),
        (\<not> portable_id (cfg_control_profile_id c), invalid ''control_profile_id''),
        (\<not> digest_format (cfg_control_profile_digest c), invalid ''control_profile_digest'')]) (\<lambda>_.
     rbind (validate_source E (cfg_source c)) (\<lambda>s.
     rbind (validate_schedule (cfg_schedule c)) (\<lambda>_.
     rbind (validate_evidence E (cfg_evidence c)) (\<lambda>_.
     Inr (c\<lparr>cfg_source := s\<rparr>)))))"

section \<open>Canonical bodies and digests\<close>

definition jtext :: "string \<Rightarrow> json" where
  "jtext s = JStr (text_of s)"

definition jopt :: "string option \<Rightarrow> json" where
  "jopt v = (case v of None \<Rightarrow> JNull | Some s \<Rightarrow> jtext s)"

definition jobject :: "(string \<times> json) list \<Rightarrow> json" where
  "jobject ms = JObj (map (\<lambda>(k, v). (KStr (text_of k), v)) ms)"

definition sha256_bytes :: "'e model_env_scheme \<Rightarrow> bytes \<Rightarrow> string" where
  "sha256_bytes E b = ''sha256:'' @ sha256_hexdigest E b"

definition canonical :: "'e model_env_scheme \<Rightarrow> json \<Rightarrow> bytes result" where
  "canonical E v = canonical_json_bytes E DEFAULT_JSON_LIMITS v"

fun cloud_name :: "cloud \<Rightarrow> string" where
  "cloud_name CloudGlobal = ''global''"
| "cloud_name USGovernmentL4 = ''us-government-l4''"
| "cloud_name USGovernmentL5 = ''us-government-l5''"

fun source_json :: "source_configuration \<Rightarrow> json" where
  "source_json (Elastic s) = jobject
     [(''kind'', jtext ''elastic-security''), (''endpoint_origin'', jtext (endpoint_origin s)),
      (''index_alias'', jtext (index_alias s)),
      (''parent_credential_ref'', jtext (parent_credential_ref s)),
      (''pam_mode'', jtext ''elastic-jit-api-key''),
      (''lease_ttl_seconds'', JInt (lease_ttl_seconds s)),
      (''ca_bundle_ref'', jopt (ca_bundle_ref s))]"
| "source_json (Defender s) = jobject
     [(''kind'', jtext ''defender-xdr''), (''cloud'', jtext (cloud_name (def_cloud s))),
      (''tenant_id'', jtext (def_tenant_id s)), (''client_id'', jtext (def_client_id s)),
      (''client_credential_ref'', jtext (client_credential_ref s)),
      (''permission'', jtext ''ThreatHunting.Read.All''), (''table'', jtext ''AlertInfo'')]"

definition schedule_json :: "schedule_configuration \<Rightarrow> json" where
  "schedule_json c = jobject
     [(''interval_seconds'', JInt (interval_seconds c)),
      (''collection_lag_seconds'', JInt (collection_lag_seconds c)),
      (''window_seconds'', JInt (window_seconds c)), (''timezone'', jtext ''UTC'')]"

definition evidence_json :: "evidence_configuration \<Rightarrow> json" where
  "evidence_json c = jobject
     [(''custody_ref'', jtext (custody_ref c)), (''signing_key_ref'', jtext (signing_key_ref c)),
      (''retention_days'', JInt (retention_days c)), (''legal_hold'', JBool (legal_hold c)),
      (''snapshot_format'', jtext ''cab-stream-v2'')]"

text \<open>\<open>model_dump(mode="json")\<close> of a configuration.\<close>

definition configuration_json :: "control_configuration \<Rightarrow> json" where
  "configuration_json c = jobject
     [(''schema_version'', jtext ''1.0.0''), (''tenant_id'', jtext (cfg_tenant_id c)),
      (''control_id'', jtext (cfg_control_id c)), (''display_name'', jtext (cfg_display_name c)),
      (''description'', jtext (cfg_description c)),
      (''environment'', jtext (environment_name (cfg_environment c))),
      (''owner_group'', jtext (cfg_owner_group c)),
      (''control_profile_id'', jtext (cfg_control_profile_id c)),
      (''control_profile_digest'', jtext (cfg_control_profile_digest c)),
      (''source'', source_json (cfg_source c)), (''schedule'', schedule_json (cfg_schedule c)),
      (''evidence'', evidence_json (cfg_evidence c)), (''enabled'', JBool (cfg_enabled c))]"

definition canonical_bytes :: "'e model_env_scheme \<Rightarrow> control_configuration \<Rightarrow> bytes result" where
  "canonical_bytes E c = canonical E (configuration_json c)"

definition configuration_digest_of :: "'e model_env_scheme \<Rightarrow> control_configuration \<Rightarrow> string result" where
  "configuration_digest_of E c = rbind (canonical_bytes E c) (\<lambda>b. Inr (sha256_bytes E b))"

section \<open>Identities\<close>

definition opt_ok :: "('a \<Rightarrow> bool) \<Rightarrow> 'a option \<Rightarrow> bool" where
  "opt_ok p v = (case v of None \<Rightarrow> True | Some x \<Rightarrow> p x)"

definition revision_identity ::
  "'e model_env_scheme \<Rightarrow> string \<Rightarrow> string \<Rightarrow> int \<Rightarrow> string option \<Rightarrow> string \<Rightarrow> string result" where
  "revision_identity E tenant_id control_id generation parent_revision_id configuration_digest =
     rbind (raise_first
       [(\<not> portable_id tenant_id, ValueError ''tenant id is invalid''),
        (\<not> portable_id control_id, ValueError ''control id is invalid''),
        (generation < 1, ValueError ''generation is invalid''),
        (\<not> opt_ok digest_format parent_revision_id, ValueError ''parent revision id is invalid''),
        (\<not> digest_format configuration_digest, ValueError ''configuration digest is invalid'')]) (\<lambda>_.
     rbind (canonical E (jobject
       [(''configuration_digest'', jtext configuration_digest), (''control_id'', jtext control_id),
        (''generation'', JInt generation), (''parent_revision_id'', jopt parent_revision_id),
        (''tenant_id'', jtext tenant_id)])) (\<lambda>b.
     Inr (sha256_bytes E b)))"

definition decision_body ::
  "string \<Rightarrow> string \<Rightarrow> int \<Rightarrow> string \<Rightarrow> decision_kind \<Rightarrow> string \<Rightarrow> string \<Rightarrow> json" where
  "decision_body actor_session_digest comment decided_at decided_by decision revision_id tenant_id =
     jobject
       [(''actor_session_digest'', jtext actor_session_digest), (''comment'', jtext comment),
        (''decided_at'', jtext (timestamp decided_at)), (''decided_by'', jtext decided_by),
        (''decision'', jtext (decision_name decision)), (''revision_id'', jtext revision_id),
        (''tenant_id'', jtext tenant_id)]"

definition decision_identity ::
  "'e model_env_scheme \<Rightarrow> string \<Rightarrow> string \<Rightarrow> decision_kind \<Rightarrow> string \<Rightarrow> datetime \<Rightarrow> string
     \<Rightarrow> string \<Rightarrow> string result" where
  "decision_identity E revision_id tenant_id decision decided_by decided_at comment
       actor_session_digest =
     rbind (utc_second ''decision time'' decided_at) (\<lambda>t.
     rbind (canonical E (decision_body actor_session_digest comment t decided_by decision
              revision_id tenant_id)) (\<lambda>b.
     Inr (sha256_bytes E b)))"

definition operation_body ::
  "string \<Rightarrow> string \<Rightarrow> int \<Rightarrow> operation_kind \<Rightarrow> string \<Rightarrow> string \<Rightarrow> string option \<Rightarrow> string option
     \<Rightarrow> string \<Rightarrow> int \<Rightarrow> string \<Rightarrow> json" where
  "operation_body tenant_id control_id operation_sequence kind revision_id configuration_digest
       predecessor_operation_id retry_of_operation_id requested_by requested_at
       requester_session_digest =
     jobject
       ([(''configuration_digest'', jtext configuration_digest), (''control_id'', jtext control_id),
         (''kind'', jtext (kind_name kind)), (''operation_sequence'', JInt operation_sequence),
         (''predecessor_operation_id'', jopt predecessor_operation_id),
         (''requested_at'', jtext (timestamp requested_at)), (''requested_by'', jtext requested_by),
         (''requester_session_digest'', jtext requester_session_digest),
         (''revision_id'', jtext revision_id), (''tenant_id'', jtext tenant_id)]
        @ (case retry_of_operation_id of None \<Rightarrow> []
           | Some r \<Rightarrow> [(''retry_of_operation_id'', jtext r)]))"

definition deployment_operation_identity ::
  "'e model_env_scheme \<Rightarrow> string \<Rightarrow> string \<Rightarrow> int \<Rightarrow> operation_kind \<Rightarrow> string \<Rightarrow> string \<Rightarrow> string option
     \<Rightarrow> string option \<Rightarrow> string \<Rightarrow> datetime \<Rightarrow> string \<Rightarrow> string result" where
  "deployment_operation_identity E tenant_id control_id operation_sequence kind revision_id
       configuration_digest predecessor_operation_id retry_of_operation_id requested_by
       requested_at requester_session_digest =
     rbind (utc_second ''deployment request time'' requested_at) (\<lambda>t.
     rbind (raise_first
       [(\<not> portable_id tenant_id, ValueError ''deployment tenant id is invalid''),
        (\<not> portable_id control_id, ValueError ''deployment control id is invalid''),
        (operation_sequence < 1, ValueError ''deployment operation sequence is invalid''),
        (\<not> digest_format revision_id, ValueError ''deployment revision id is invalid''),
        (\<not> digest_format configuration_digest,
           ValueError ''deployment configuration digest is invalid''),
        (\<not> digest_format requester_session_digest,
           ValueError ''deployment requester session digest is invalid''),
        (\<not> opt_ok digest_format predecessor_operation_id,
           ValueError ''deployment predecessor operation id is invalid''),
        (\<not> opt_ok digest_format retry_of_operation_id,
           ValueError ''deployment retry operation id is invalid''),
        (kind = Rollback \<and> retry_of_operation_id \<noteq> None,
           ValueError ''rollback operation cannot be a retry''),
        (requested_by = [] \<or> length requested_by > 255,
           ValueError ''deployment requester is invalid'')]) (\<lambda>_.
     rbind (canonical E (operation_body tenant_id control_id operation_sequence kind revision_id
              configuration_digest predecessor_operation_id retry_of_operation_id requested_by t
              requester_session_digest)) (\<lambda>b.
     Inr (sha256_bytes E b))))"

definition audit_event_bytes ::
  "'e model_env_scheme \<Rightarrow> string \<Rightarrow> int \<Rightarrow> string \<Rightarrow> audit_action \<Rightarrow> string \<Rightarrow> string \<Rightarrow> string
     \<Rightarrow> datetime \<Rightarrow> string \<Rightarrow> bytes result" where
  "audit_event_bytes E tenant_id sequence previous_event_digest action object_id actor_subject
       actor_session_digest occurred_at details_digest =
     rbind (utc_second ''audit event time'' occurred_at) (\<lambda>t.
     rbind (raise_first
       [(\<not> portable_id tenant_id, ValueError ''audit tenant id is invalid''),
        (sequence < 1, ValueError ''audit sequence is invalid''),
        (\<not> digest_format previous_event_digest, ValueError ''previous audit digest is invalid''),
        (\<not> digest_format object_id, ValueError ''audit object id is invalid''),
        (\<not> digest_format actor_session_digest, ValueError ''actor session digest is invalid''),
        (\<not> digest_format details_digest, ValueError ''audit details digest is invalid''),
        (actor_subject = [] \<or> length actor_subject > 255,
           ValueError ''audit actor subject is invalid'')]) (\<lambda>_.
     canonical E (jobject
       [(''action'', jtext (action_name action)),
        (''actor_session_digest'', jtext actor_session_digest),
        (''actor_subject'', jtext actor_subject), (''details_digest'', jtext details_digest),
        (''object_id'', jtext object_id), (''occurred_at'', jtext (timestamp t)),
        (''previous_event_digest'', jtext previous_event_digest), (''sequence'', JInt sequence),
        (''tenant_id'', jtext tenant_id)])))"

section \<open>Actors and workers\<close>

record actor =
  actor_tenant_id :: string
  actor_subject :: string
  actor_display_name :: string
  actor_roles :: "role list"
  actor_groups :: "string list"
  actor_authenticated_at :: int
  actor_session_id_digest :: string
  actor_mfa :: bool

definition new_actor ::
  "string \<Rightarrow> string \<Rightarrow> string \<Rightarrow> role list \<Rightarrow> string list \<Rightarrow> datetime \<Rightarrow> string \<Rightarrow> bool \<Rightarrow> actor result" where
  "new_actor tenant_id subject display_name roles groups authenticated_at session_id_digest mfa =
     rbind (raise_first
       [(\<not> portable_id tenant_id, invalid ''tenant_id''),
        (\<not> text_between 1 255 subject, invalid ''subject''),
        (\<not> text_between 1 255 display_name, invalid ''display_name''),
        (roles = [] \<or> card (set roles) > 6, invalid ''actor must have one or more bounded roles''),
        (length groups > 128 \<or> \<not> list_all group_format groups,
           invalid ''actor groups are invalid or excessive''),
        (card (set groups) \<noteq> length groups, invalid ''actor groups contain duplicates'')]) (\<lambda>_.
     rbind (field_error (utc_second ''authentication time'' authenticated_at)) (\<lambda>t.
     if \<not> digest_format session_id_digest then Inl (invalid ''session_id_digest'')
     else Inr \<lparr>actor_tenant_id = tenant_id, actor_subject = subject,
       actor_display_name = display_name, actor_roles = roles, actor_groups = sort groups,
       actor_authenticated_at = t, actor_session_id_digest = session_id_digest, actor_mfa = mfa\<rparr>))"

record worker_identity =
  worker_tenant_id :: string
  worker_id :: string
  worker_credential_digest :: string

text \<open>
  \<open>Actor | DeploymentWorkerIdentity\<close> as \<open>_append_audit\<close> uses it: the tenant, the \<open>subject\<close>
  property and the \<open>session_id_digest\<close> property of either.
\<close>

datatype principal = Human actor | Worker worker_identity

fun principal_tenant :: "principal \<Rightarrow> string" where
  "principal_tenant (Human a) = actor_tenant_id a"
| "principal_tenant (Worker w) = worker_tenant_id w"

fun principal_subject :: "principal \<Rightarrow> string" where
  "principal_subject (Human a) = actor_subject a"
| "principal_subject (Worker w) = ''deployment-worker:'' @ worker_id w"

fun principal_session :: "principal \<Rightarrow> string" where
  "principal_session (Human a) = actor_session_id_digest a"
| "principal_session (Worker w) = worker_credential_digest w"

section \<open>Revisions, decisions and pointers\<close>

definition INT64_MAX :: int where
  "INT64_MAX = 2 ^ 63 - 1"

definition between :: "int \<Rightarrow> int \<Rightarrow> int \<Rightarrow> bool" where
  "between lo hi n \<longleftrightarrow> lo \<le> n \<and> n \<le> hi"

record revision =
  rev_revision_id :: string
  rev_tenant_id :: string
  rev_control_id :: string
  rev_generation :: int
  rev_parent_revision_id :: "string option"
  rev_configuration_digest :: string
  rev_configuration_bytes :: bytes
  rev_state :: revision_state
  rev_state_version :: int
  rev_created_by :: string
  rev_created_at :: int
  rev_submitted_at :: "int option"
  rev_decided_at :: "int option"

definition revision_fields_ok :: "revision \<Rightarrow> bool" where
  "revision_fields_ok r \<longleftrightarrow>
     digest_format (rev_revision_id r) \<and> portable_id (rev_tenant_id r)
     \<and> portable_id (rev_control_id r) \<and> between 1 INT64_MAX (rev_generation r)
     \<and> opt_ok digest_format (rev_parent_revision_id r) \<and> digest_format (rev_configuration_digest r)
     \<and> 2 \<le> length (rev_configuration_bytes r) \<and> length (rev_configuration_bytes r) \<le> 1024 * 1024
     \<and> between 0 INT64_MAX (rev_state_version r) \<and> text_between 1 255 (rev_created_by r)"

definition revision_lifecycle_checks :: "revision \<Rightarrow> unit result" where
  "revision_lifecycle_checks r = raise_first
     [(rev_generation r = 1 \<and> rev_parent_revision_id r \<noteq> None,
         invalid ''first generation cannot have a parent''),
      (rev_generation r > 1 \<and> rev_parent_revision_id r = None,
         invalid ''later generation must name its parent''),
      (rev_state r = Draft \<and> (rev_submitted_at r \<noteq> None \<or> rev_decided_at r \<noteq> None),
         invalid ''draft revision cannot have lifecycle decisions''),
      (rev_state r = Submitted \<and> (rev_submitted_at r = None \<or> rev_decided_at r \<noteq> None),
         invalid ''submitted revision has an invalid lifecycle''),
      (rev_state r \<in> {Approved, Rejected} \<and> (rev_submitted_at r = None \<or> rev_decided_at r = None),
         invalid ''decided revision lacks lifecycle timestamps'')]"

definition validate_revision :: "'e model_env_scheme \<Rightarrow> revision \<Rightarrow> revision result" where
  "validate_revision E r =
     (if \<not> revision_fields_ok r then Inl (invalid ''revision fields'')
      else if sha256_bytes E (rev_configuration_bytes r) \<noteq> rev_configuration_digest r
      then Inl (invalid ''revision configuration digest does not match its bytes'')
      else case model_validate_json E (rev_configuration_bytes r) of
        None \<Rightarrow> Inl (invalid ''revision does not contain a valid configuration'')
      | Some c \<Rightarrow>
          if cfg_tenant_id c \<noteq> rev_tenant_id r \<or> cfg_control_id c \<noteq> rev_control_id r
          then Inl (invalid ''revision identity differs from its configuration'')
          else rbind (field_error (revision_identity E (rev_tenant_id r) (rev_control_id r)
                 (rev_generation r) (rev_parent_revision_id r) (rev_configuration_digest r))) (\<lambda>expected.
          if expected \<noteq> rev_revision_id r
          then Inl (invalid ''revision id does not match its immutable lineage'')
          else rbind (revision_lifecycle_checks r) (\<lambda>_. Inr r)))"

record approval_decision =
  dec_decision_id :: string
  dec_revision_id :: string
  dec_tenant_id :: string
  dec_decision :: decision_kind
  dec_decided_by :: string
  dec_decided_at :: int
  dec_comment :: string
  dec_actor_session_digest :: string

definition validate_decision :: "'e model_env_scheme \<Rightarrow> approval_decision \<Rightarrow> approval_decision result" where
  "validate_decision E d =
     (if \<not> (digest_format (dec_decision_id d) \<and> digest_format (dec_revision_id d)
             \<and> portable_id (dec_tenant_id d) \<and> text_between 1 255 (dec_decided_by d)
             \<and> text_between 1 2000 (dec_comment d) \<and> digest_format (dec_actor_session_digest d))
      then Inl (invalid ''decision fields'')
      else rbind (field_error (canonical E (decision_body (dec_actor_session_digest d) (dec_comment d)
             (dec_decided_at d) (dec_decided_by d) (dec_decision d) (dec_revision_id d)
             (dec_tenant_id d)))) (\<lambda>b.
        if sha256_bytes E b \<noteq> dec_decision_id d
        then Inl (invalid ''decision id does not match its canonical content'') else Inr d))"

record active_deployment =
  dep_tenant_id :: string
  dep_control_id :: string
  dep_revision_id :: string
  dep_configuration_digest :: string
  dep_activated_by :: string
  dep_activated_at :: int
  dep_deployment_version :: int

definition validate_deployment :: "active_deployment \<Rightarrow> active_deployment result" where
  "validate_deployment d =
     (if portable_id (dep_tenant_id d) \<and> portable_id (dep_control_id d)
         \<and> digest_format (dep_revision_id d) \<and> digest_format (dep_configuration_digest d)
         \<and> text_between 1 255 (dep_activated_by d)
         \<and> between 1 INT64_MAX (dep_deployment_version d)
      then Inr d else Inl (invalid ''deployment fields''))"

record control_summary =
  latest_revision :: revision
  summary_deployment :: "active_deployment option"

definition validate_summary :: "control_summary \<Rightarrow> control_summary result" where
  "validate_summary s =
     (case summary_deployment s of
        None \<Rightarrow> Inr s
      | Some d \<Rightarrow>
          if dep_tenant_id d \<noteq> rev_tenant_id (latest_revision s)
             \<or> dep_control_id d \<noteq> rev_control_id (latest_revision s)
          then Inl (invalid ''control summary crosses a tenant or control boundary'') else Inr s)"

section \<open>Deployment operations\<close>

record operation =
  op_operation_id :: string
  op_tenant_id :: string
  op_control_id :: string
  op_sequence :: int
  op_kind :: operation_kind
  op_revision_id :: string
  op_configuration_digest :: string
  op_predecessor :: "string option"
  op_retry_of :: "string option"
  op_requested_by :: string
  op_requested_at :: int
  op_requester_session :: string
  op_state :: operation_state
  op_state_version :: int
  op_attempt_count :: int
  op_lease_fence :: int
  op_lease_owner :: "string option"
  op_lease_token :: "string option"
  op_leased_at :: "int option"
  op_lease_expires_at :: "int option"
  op_retry_at :: "int option"
  op_applied_at :: "int option"
  op_applied_digest :: "string option"
  op_target_receipt :: "string option"
  op_failed_at :: "int option"
  op_failure_digest :: "string option"

definition operation_fields_ok :: "operation \<Rightarrow> bool" where
  "operation_fields_ok p \<longleftrightarrow>
     digest_format (op_operation_id p) \<and> portable_id (op_tenant_id p) \<and> portable_id (op_control_id p)
     \<and> between 1 INT64_MAX (op_sequence p) \<and> digest_format (op_revision_id p)
     \<and> digest_format (op_configuration_digest p) \<and> opt_ok digest_format (op_predecessor p)
     \<and> opt_ok digest_format (op_retry_of p) \<and> text_between 1 255 (op_requested_by p)
     \<and> digest_format (op_requester_session p) \<and> between 0 INT64_MAX (op_state_version p)
     \<and> between 0 (2 ^ 31 - 1) (op_attempt_count p) \<and> between 0 INT64_MAX (op_lease_fence p)
     \<and> opt_ok portable_id (op_lease_owner p) \<and> opt_ok digest_format (op_lease_token p)
     \<and> opt_ok digest_format (op_applied_digest p) \<and> opt_ok digest_format (op_target_receipt p)
     \<and> opt_ok digest_format (op_failure_digest p)"

definition no_lease :: "operation \<Rightarrow> bool" where
  "no_lease p \<longleftrightarrow> op_lease_owner p = None \<and> op_lease_token p = None \<and> op_leased_at p = None
     \<and> op_lease_expires_at p = None"

definition full_lease :: "operation \<Rightarrow> bool" where
  "full_lease p \<longleftrightarrow> op_lease_owner p \<noteq> None \<and> op_lease_token p \<noteq> None \<and> op_leased_at p \<noteq> None
     \<and> op_lease_expires_at p \<noteq> None"

definition no_applied :: "operation \<Rightarrow> bool" where
  "no_applied p \<longleftrightarrow> op_applied_at p = None \<and> op_applied_digest p = None \<and> op_target_receipt p = None"

definition full_applied :: "operation \<Rightarrow> bool" where
  "full_applied p \<longleftrightarrow> op_applied_at p \<noteq> None \<and> op_applied_digest p \<noteq> None
     \<and> op_target_receipt p \<noteq> None"

definition no_failed :: "operation \<Rightarrow> bool" where
  "no_failed p \<longleftrightarrow> op_failed_at p = None \<and> op_failure_digest p = None"

definition full_failed :: "operation \<Rightarrow> bool" where
  "full_failed p \<longleftrightarrow> op_failed_at p \<noteq> None \<and> op_failure_digest p \<noteq> None"

text \<open>The per-state part of \<open>validate_operation\<close>: the outcome fields each state may carry.\<close>

definition operation_state_checks :: "operation \<Rightarrow> unit result" where
  "operation_state_checks p =
     (case op_state p of
        Pending \<Rightarrow>
          if op_state_version p \<noteq> 0 \<or> op_attempt_count p \<noteq> 0 \<or> op_lease_fence p \<noteq> 0
             \<or> \<not> no_lease p \<or> op_retry_at p \<noteq> None \<or> \<not> no_applied p \<or> \<not> no_failed p
          then Inl (invalid ''pending deployment operation has mutable outcome state'') else Inr ()
      | Leased \<Rightarrow> raise_first
          [(op_attempt_count p < 1 \<or> op_lease_fence p \<noteq> op_attempt_count p \<or> \<not> full_lease p
              \<or> op_retry_at p \<noteq> None \<or> \<not> no_applied p \<or> \<not> no_failed p,
              invalid ''leased deployment operation has an invalid lease''),
           (the (op_leased_at p) < op_requested_at p
              \<or> the (op_lease_expires_at p) \<le> the (op_leased_at p),
              invalid ''deployment lease does not advance time'')]
      | Applied \<Rightarrow> raise_first
          [(op_attempt_count p < 1 \<or> op_lease_fence p \<noteq> op_attempt_count p \<or> \<not> no_lease p
              \<or> op_retry_at p \<noteq> None \<or> \<not> full_applied p \<or> \<not> no_failed p
              \<or> op_applied_digest p \<noteq> Some (op_configuration_digest p),
              invalid ''applied deployment operation lacks an exact acknowledgement''),
           (the (op_applied_at p) < op_requested_at p,
              invalid ''deployment acknowledgement precedes its request'')]
      | Failed \<Rightarrow> raise_first
          [(op_attempt_count p < 1 \<or> op_lease_fence p \<noteq> op_attempt_count p \<or> \<not> no_lease p
              \<or> \<not> no_applied p \<or> \<not> full_failed p,
              invalid ''failed deployment operation has an invalid outcome''),
           (the (op_failed_at p) < op_requested_at p,
              invalid ''deployment failure precedes its request''),
           (op_retry_at p \<noteq> None \<and> (the (op_retry_at p) \<le> the (op_failed_at p)
              \<or> the (op_retry_at p) > the (op_failed_at p) + 24 * 3600),
              invalid ''deployment retry is outside the supported window'')])"

definition validate_operation :: "'e model_env_scheme \<Rightarrow> operation \<Rightarrow> operation result" where
  "validate_operation E p =
     (if \<not> operation_fields_ok p then Inl (invalid ''operation fields'')
      else rbind (field_error (deployment_operation_identity E (op_tenant_id p) (op_control_id p)
             (op_sequence p) (op_kind p) (op_revision_id p) (op_configuration_digest p)
             (op_predecessor p) (op_retry_of p) (op_requested_by p) (instant (op_requested_at p))
             (op_requester_session p))) (\<lambda>expected.
      rbind (raise_first
        [(expected \<noteq> op_operation_id p,
            invalid ''deployment operation id does not match its request''),
         (op_kind p = Rollback \<and> op_retry_of p \<noteq> None,
            invalid ''rollback operation cannot be a retry'')]) (\<lambda>_.
      rbind (operation_state_checks p) (\<lambda>_. Inr p))))"

definition retryable :: "operation \<Rightarrow> bool" where
  "retryable p \<longleftrightarrow> op_state p = Failed \<and> op_retry_at p \<noteq> None"

section \<open>Audit events\<close>

record audit_event =
  ev_tenant_id :: string
  ev_sequence :: int
  ev_previous_event_digest :: string
  ev_event_digest :: string
  ev_action :: audit_action
  ev_object_id :: string
  ev_actor_subject :: string
  ev_actor_session_digest :: string
  ev_occurred_at :: int
  ev_details_digest :: string
  ev_details_bytes :: bytes
  ev_event_bytes :: bytes

definition event_fields_ok :: "audit_event \<Rightarrow> bool" where
  "event_fields_ok v \<longleftrightarrow>
     portable_id (ev_tenant_id v) \<and> between 1 INT64_MAX (ev_sequence v)
     \<and> digest_format (ev_previous_event_digest v) \<and> digest_format (ev_event_digest v)
     \<and> digest_format (ev_object_id v) \<and> text_between 1 255 (ev_actor_subject v)
     \<and> digest_format (ev_actor_session_digest v) \<and> digest_format (ev_details_digest v)
     \<and> 2 \<le> length (ev_details_bytes v) \<and> length (ev_details_bytes v) \<le> 64 * 1024
     \<and> 2 \<le> length (ev_event_bytes v) \<and> length (ev_event_bytes v) \<le> 64 * 1024"

definition validate_event :: "'e model_env_scheme \<Rightarrow> audit_event \<Rightarrow> audit_event result" where
  "validate_event E v =
     (if \<not> event_fields_ok v then Inl (invalid ''audit event fields'')
      else if sha256_bytes E (ev_details_bytes v) \<noteq> ev_details_digest v
      then Inl (invalid ''audit details digest does not match its bytes'')
      else if sha256_bytes E (ev_event_bytes v) \<noteq> ev_event_digest v
      then Inl (invalid ''audit event digest does not match its bytes'')
      else rbind (field_error (audit_event_bytes E (ev_tenant_id v) (ev_sequence v)
             (ev_previous_event_digest v) (ev_action v) (ev_object_id v) (ev_actor_subject v)
             (ev_actor_session_digest v) (instant (ev_occurred_at v)) (ev_details_digest v))) (\<lambda>expected.
        if expected \<noteq> ev_event_bytes v
        then Inl (invalid ''audit event bytes do not match their declared fields'') else Inr v))"

end
