(* ===== verification/Schema.thy ===== *)
theory Schema
  imports Models
begin

text \<open>
  The SQLite schema of the control-plane store, from \<open>_initialize\<close> in
  \<^verbatim>\<open>src/src/assurance_lab/control_plane/store.py\<close>: the five tables, and INSERT and UPDATE on
  them with every PRIMARY KEY, UNIQUE, CHECK and FOREIGN KEY constraint, the partial unique index
  and the triggers. A violated constraint and a trigger's RAISE(ABORT) are the value
  \<open>SqliteIntegrityError\<close>, the exception the Python driver raises for them.

  Instants are stored as their text form in the code and as whole seconds here; the text form
  orders instants of the years 1000 to 9999 as the seconds do.
\<close>

section \<open>Tables\<close>

record db =
  control_revisions :: "revision list"
  approval_decisions :: "approval_decision list"
  active_deployments :: "active_deployment list"
  deployment_operations :: "operation list"
  control_audit_events :: "audit_event list"

definition empty_db :: db where
  "empty_db = \<lparr>control_revisions = [], approval_decisions = [], active_deployments = [],
     deployment_operations = [], control_audit_events = []\<rparr>"

definition revision_exists :: "db \<Rightarrow> string \<Rightarrow> bool" where
  "revision_exists d i \<longleftrightarrow> list_ex (\<lambda>r. rev_revision_id r = i) (control_revisions d)"

definition operation_exists :: "db \<Rightarrow> string \<Rightarrow> bool" where
  "operation_exists d i \<longleftrightarrow> list_ex (\<lambda>p. op_operation_id p = i) (deployment_operations d)"

definition sqlite_check :: "bool \<Rightarrow> string \<Rightarrow> 'a \<Rightarrow> 'a result" where
  "sqlite_check ok m x = (if ok then Inr x else Inl (SqliteIntegrityError m))"

section \<open>Revisions and decisions\<close>

definition revision_key :: "revision \<Rightarrow> string \<times> string \<times> int" where
  "revision_key r = (rev_tenant_id r, rev_control_id r, rev_generation r)"

definition insert_revision :: "revision \<Rightarrow> db \<Rightarrow> db result" where
  "insert_revision r d = sqlite_check
     (\<not> revision_exists d (rev_revision_id r)
      \<and> rev_generation r \<ge> 1
      \<and> revision_key r \<notin> revision_key ` set (control_revisions d)
      \<and> opt_ok (revision_exists d) (rev_parent_revision_id r))
     ''control_revisions'' (d\<lparr>control_revisions := control_revisions d @ [r]\<rparr>)"

definition update_revisions :: "(revision \<Rightarrow> bool) \<Rightarrow> (revision \<Rightarrow> revision) \<Rightarrow> db \<Rightarrow> nat \<times> db" where
  "update_revisions p f d = (length (where_rows p (control_revisions d)),
     d\<lparr>control_revisions := update_where p f (control_revisions d)\<rparr>)"

definition insert_decision :: "approval_decision \<Rightarrow> db \<Rightarrow> db result" where
  "insert_decision x d = sqlite_check
     (dec_decision_id x \<notin> dec_decision_id ` set (approval_decisions d)
      \<and> dec_revision_id x \<notin> dec_revision_id ` set (approval_decisions d)
      \<and> revision_exists d (dec_revision_id x))
     ''approval_decisions'' (d\<lparr>approval_decisions := approval_decisions d @ [x]\<rparr>)"

section \<open>Desired-selection pointers\<close>

definition deployment_key :: "active_deployment \<Rightarrow> string \<times> string" where
  "deployment_key x = (dep_tenant_id x, dep_control_id x)"

definition insert_deployment :: "active_deployment \<Rightarrow> db \<Rightarrow> db result" where
  "insert_deployment x d = sqlite_check
     (deployment_key x \<notin> deployment_key ` set (active_deployments d)
      \<and> dep_deployment_version x \<ge> 1 \<and> revision_exists d (dep_revision_id x))
     ''active_deployments'' (d\<lparr>active_deployments := active_deployments d @ [x]\<rparr>)"

definition update_deployments ::
  "(active_deployment \<Rightarrow> bool) \<Rightarrow> (active_deployment \<Rightarrow> active_deployment) \<Rightarrow> db \<Rightarrow> (nat \<times> db) result" where
  "update_deployments p f d = sqlite_check
     (list_all (\<lambda>x. dep_deployment_version (f x) \<ge> 1 \<and> revision_exists d (dep_revision_id (f x)))
        (where_rows p (active_deployments d)))
     ''active_deployments''
     (length (where_rows p (active_deployments d)),
      d\<lparr>active_deployments := update_where p f (active_deployments d)\<rparr>)"

section \<open>Deployment operations\<close>

text \<open>
  A CHECK expression and a trigger's WHEN clause are three-valued: a comparison with NULL is
  NULL, a CHECK is violated only when it is false, and \<open>WHEN NOT (...)\<close> fires only when the
  bracket is false. \<open>not_false_le\<close> and \<open>not_false_less\<close> are "the comparison is not false".
\<close>

definition not_false_less :: "int option \<Rightarrow> int option \<Rightarrow> bool" where
  "not_false_less a b = (case (a, b) of (Some x, Some y) \<Rightarrow> x < y | _ \<Rightarrow> True)"

definition not_false_le :: "int option \<Rightarrow> int option \<Rightarrow> bool" where
  "not_false_le a b = (case (a, b) of (Some x, Some y) \<Rightarrow> x \<le> y | _ \<Rightarrow> True)"

definition operation_row_check :: "operation \<Rightarrow> bool" where
  "operation_row_check p \<longleftrightarrow>
     op_sequence p \<ge> 1 \<and> op_state_version p \<ge> 0 \<and> op_attempt_count p \<ge> 0 \<and> op_lease_fence p \<ge> 0 \<and>
     (case op_state p of
        Pending \<Rightarrow> op_state_version p = 0 \<and> op_attempt_count p = 0 \<and> op_lease_fence p = 0
          \<and> no_lease p \<and> op_retry_at p = None \<and> no_applied p \<and> no_failed p
      | Leased \<Rightarrow> op_attempt_count p \<ge> 1 \<and> op_lease_fence p = op_attempt_count p
          \<and> op_lease_owner p \<noteq> None \<and> op_lease_token p \<noteq> None \<and> op_leased_at p \<noteq> None
          \<and> not_false_le (Some (op_requested_at p)) (op_leased_at p)
          \<and> not_false_less (op_leased_at p) (op_lease_expires_at p)
          \<and> op_retry_at p = None \<and> no_applied p \<and> no_failed p
      | Applied \<Rightarrow> op_attempt_count p \<ge> 1 \<and> op_lease_fence p = op_attempt_count p
          \<and> no_lease p \<and> op_retry_at p = None \<and> op_applied_at p \<noteq> None
          \<and> not_false_le (Some (op_requested_at p)) (op_applied_at p)
          \<and> opt_ok (\<lambda>x. x = op_configuration_digest p) (op_applied_digest p)
          \<and> op_target_receipt p \<noteq> None \<and> no_failed p
      | Failed \<Rightarrow> op_attempt_count p \<ge> 1 \<and> op_lease_fence p = op_attempt_count p
          \<and> no_lease p \<and> no_applied p \<and> op_failed_at p \<noteq> None
          \<and> not_false_le (Some (op_requested_at p)) (op_failed_at p) \<and> op_failure_digest p \<noteq> None
          \<and> (op_retry_at p = None \<or> not_false_less (op_failed_at p) (op_retry_at p)
               \<and> not_false_le (op_retry_at p) (map_option (\<lambda>t. t + 86400) (op_failed_at p))))"

definition operation_key :: "operation \<Rightarrow> string \<times> string \<times> int" where
  "operation_key p = (op_tenant_id p, op_control_id p, op_sequence p)"

definition same_control :: "string \<Rightarrow> string \<Rightarrow> operation \<Rightarrow> bool" where
  "same_control t c p \<longleftrightarrow> op_tenant_id p = t \<and> op_control_id p = c"

definition unresolved :: "operation \<Rightarrow> bool" where
  "unresolved p \<longleftrightarrow> op_state p \<in> {Pending, Leased} \<or> op_state p = Failed \<and> op_retry_at p \<noteq> None"

text \<open>The partial unique index \<open>deployment_operations_one_unresolved\<close>.\<close>

definition one_unresolved :: "operation list \<Rightarrow> bool" where
  "one_unresolved ps \<longleftrightarrow>
     distinct (map (\<lambda>p. (op_tenant_id p, op_control_id p)) (where_rows unresolved ps))"

definition latest_applied_row :: "string \<Rightarrow> string \<Rightarrow> operation list \<Rightarrow> operation option" where
  "latest_applied_row t c ps = fetchone (order_by_desc op_sequence
     (where_rows (\<lambda>p. same_control t c p \<and> op_state p = Applied) ps))"

definition next_sequence :: "string \<Rightarrow> string \<Rightarrow> operation list \<Rightarrow> int" where
  "next_sequence t c ps = max_or_zero op_sequence (where_rows (same_control t c) ps) + 1"

text \<open>The SELECT of \<open>deployment_operations_insert_guard\<close> that must find a revision.\<close>

definition guard_revision :: "db \<Rightarrow> operation \<Rightarrow> revision \<Rightarrow> bool" where
  "guard_revision d p r \<longleftrightarrow>
     rev_tenant_id r = op_tenant_id p \<and> rev_control_id r = op_control_id p
     \<and> rev_revision_id r = op_revision_id p
     \<and> rev_configuration_digest r = op_configuration_digest p
     \<and> rev_created_by r \<noteq> op_requested_by p
     \<and> (op_kind p = Apply \<and> rev_state r = Approved
        \<or> op_kind p = Rollback \<and> rev_state r = Retired
          \<and> list_ex (\<lambda>x. dec_tenant_id x = op_tenant_id p \<and> dec_revision_id x = op_revision_id p
               \<and> dec_decision x = DecApproved) (approval_decisions d))"

definition guard_retry :: "operation \<Rightarrow> operation \<Rightarrow> bool" where
  "guard_retry p failed \<longleftrightarrow>
     Some (op_operation_id failed) = op_retry_of p \<and> same_control (op_tenant_id p) (op_control_id p) failed
     \<and> op_revision_id failed = op_revision_id p
     \<and> op_configuration_digest failed = op_configuration_digest p
     \<and> op_state failed = Failed \<and> op_retry_at failed = None
     \<and> op_sequence failed = op_sequence p - 1"

definition insert_guard :: "db \<Rightarrow> operation \<Rightarrow> bool" where
  "insert_guard d p \<longleftrightarrow>
     list_ex (guard_revision d p) (control_revisions d)
     \<and> op_sequence p = next_sequence (op_tenant_id p) (op_control_id p) (deployment_operations d)
     \<and> op_predecessor p = map_option op_operation_id
         (latest_applied_row (op_tenant_id p) (op_control_id p) (deployment_operations d))
     \<and> \<not> (op_kind p = Rollback \<and> op_predecessor p = None)
     \<and> (op_retry_of p \<noteq> None \<longrightarrow>
          op_kind p = Apply \<and> list_ex (guard_retry p) (deployment_operations d))"

definition insert_operation :: "operation \<Rightarrow> db \<Rightarrow> db result" where
  "insert_operation p d = sqlite_check
     (\<not> operation_exists d (op_operation_id p)
      \<and> operation_key p \<notin> operation_key ` set (deployment_operations d)
      \<and> revision_exists d (op_revision_id p)
      \<and> opt_ok (operation_exists d) (op_predecessor p) \<and> opt_ok (operation_exists d) (op_retry_of p)
      \<and> operation_row_check p \<and> insert_guard d p
      \<and> one_unresolved (deployment_operations d @ [p]))
     ''deployment_operations'' (d\<lparr>deployment_operations := deployment_operations d @ [p]\<rparr>)"

definition transition_guard :: "operation \<Rightarrow> operation \<Rightarrow> bool" where
  "transition_guard old new \<longleftrightarrow>
     op_state_version new = op_state_version old + 1
     \<and> (op_state old = Pending \<and> op_state new = Leased
        \<or> op_state old = Failed \<and> op_retry_at old \<noteq> None
          \<and> not_false_le (op_retry_at old) (op_leased_at new) \<and> op_state new = Leased
        \<or> op_state old = Leased \<and> op_state new = Leased
          \<and> not_false_le (op_lease_expires_at old) (op_leased_at new)
          \<and> op_lease_fence new = op_lease_fence old + 1
        \<or> op_state old = Leased \<and> op_state new \<in> {Applied, Failed})"

definition update_operations ::
  "(operation \<Rightarrow> bool) \<Rightarrow> (operation \<Rightarrow> operation) \<Rightarrow> db \<Rightarrow> (nat \<times> db) result" where
  "update_operations p f d = sqlite_check
     (list_all (\<lambda>x. transition_guard x (f x) \<and> operation_row_check (f x))
        (where_rows p (deployment_operations d))
      \<and> one_unresolved (update_where p f (deployment_operations d)))
     ''deployment_operations''
     (length (where_rows p (deployment_operations d)),
      d\<lparr>deployment_operations := update_where p f (deployment_operations d)\<rparr>)"

section \<open>Audit events\<close>

definition event_key :: "audit_event \<Rightarrow> string \<times> int" where
  "event_key v = (ev_tenant_id v, ev_sequence v)"

definition insert_event :: "audit_event \<Rightarrow> db \<Rightarrow> db result" where
  "insert_event v d = sqlite_check
     (event_key v \<notin> event_key ` set (control_audit_events d)
      \<and> ev_event_digest v \<notin> ev_event_digest ` set (control_audit_events d)
      \<and> ev_sequence v \<ge> 1)
     ''control_audit_events'' (d\<lparr>control_audit_events := control_audit_events d @ [v]\<rparr>)"

section \<open>The tables as keyed tables\<close>

interpretation revision_table:
  keyed_table rev_revision_id "lookup_row rev_revision_id" "modify_row rev_revision_id"
  by (rule keyed_table_rows)

interpretation decision_table:
  keyed_table dec_decision_id "lookup_row dec_decision_id" "modify_row dec_decision_id"
  by (rule keyed_table_rows)

interpretation deployment_table:
  keyed_table deployment_key "lookup_row deployment_key" "modify_row deployment_key"
  by (rule keyed_table_rows)

interpretation operation_table:
  keyed_table op_operation_id "lookup_row op_operation_id" "modify_row op_operation_id"
  by (rule keyed_table_rows)

interpretation event_table:
  keyed_table event_key "lookup_row event_key" "modify_row event_key"
  by (rule keyed_table_rows)

section \<open>What a write that succeeds has checked\<close>

lemma sqlite_check_Inr [result_simps]: "sqlite_check ok m x = Inr y \<longleftrightarrow> ok \<and> x = y"
  by (auto simp: sqlite_check_def)

lemma revision_exists_iff: "revision_exists d i \<longleftrightarrow> i \<in> rev_revision_id ` set (control_revisions d)"
  by (auto simp: revision_exists_def list_ex_iff)

lemma operation_exists_iff: "operation_exists d i \<longleftrightarrow> i \<in> op_operation_id ` set (deployment_operations d)"
  by (auto simp: operation_exists_def list_ex_iff)

lemma insert_revision_Inr: "insert_revision r d = Inr d' \<longleftrightarrow>
    d' = d\<lparr>control_revisions := control_revisions d @ [r]\<rparr>
    \<and> rev_revision_id r \<notin> rev_revision_id ` set (control_revisions d)
    \<and> rev_generation r \<ge> 1 \<and> revision_key r \<notin> revision_key ` set (control_revisions d)
    \<and> opt_ok (revision_exists d) (rev_parent_revision_id r)"
  by (auto simp: insert_revision_def result_simps revision_exists_iff)

lemma insert_decision_Inr: "insert_decision x d = Inr d' \<longleftrightarrow>
    d' = d\<lparr>approval_decisions := approval_decisions d @ [x]\<rparr>
    \<and> dec_decision_id x \<notin> dec_decision_id ` set (approval_decisions d)
    \<and> dec_revision_id x \<notin> dec_revision_id ` set (approval_decisions d)
    \<and> revision_exists d (dec_revision_id x)"
  by (auto simp: insert_decision_def result_simps)

lemma insert_deployment_Inr: "insert_deployment x d = Inr d' \<longleftrightarrow>
    d' = d\<lparr>active_deployments := active_deployments d @ [x]\<rparr>
    \<and> deployment_key x \<notin> deployment_key ` set (active_deployments d)
    \<and> dep_deployment_version x \<ge> 1 \<and> revision_exists d (dep_revision_id x)"
  by (auto simp: insert_deployment_def result_simps)

lemma insert_event_Inr: "insert_event v d = Inr d' \<longleftrightarrow>
    d' = d\<lparr>control_audit_events := control_audit_events d @ [v]\<rparr>
    \<and> event_key v \<notin> event_key ` set (control_audit_events d)
    \<and> ev_event_digest v \<notin> ev_event_digest ` set (control_audit_events d) \<and> ev_sequence v \<ge> 1"
  by (auto simp: insert_event_def result_simps)

end
