(* ===== verification/Store.thy ===== *)
theory Store
  imports Schema
begin

text \<open>
  The operations of \<open>SQLiteControlPlaneStore\<close>, from
  \<^verbatim>\<open>src/src/assurance_lab/control_plane/store.py\<close>, one definition per method, in the order
  of the source.

  A method that writes runs between BEGIN IMMEDIATE and COMMIT; an exception rolls the database
  back. Its body is a function from the database to an error or a result and the new database,
  and \<open>transaction\<close> is the try/ROLLBACK around it, so a method maps a database to its outcome
  (the exception or the value) and the database it leaves.
\<close>

section \<open>Transactions and loading rows\<close>

type_synonym 'a body = "db \<Rightarrow> ('a \<times> db) result"

definition transaction :: "'a body \<Rightarrow> db \<Rightarrow> 'a result \<times> db" where
  "transaction body d = (case body d of Inl e \<Rightarrow> (Inl e, d) | Inr (x, d') \<Rightarrow> (Inr x, d'))"

definition integrity_conflict :: "string \<Rightarrow> 'a result \<Rightarrow> 'a result" where
  "integrity_conflict m r = on_error is_sqlite_integrity_error (ControlPlaneConflict m) r"

definition GENESIS_DIGEST :: string where
  "GENESIS_DIGEST = ''sha256:'' @ replicate 64 (CHR ''0'')"

definition DETAIL_LIMITS :: json_limits where
  "DETAIL_LIMITS = \<lparr>max_bytes = 64 * 1024, max_line_bytes = 64 * 1024, max_depth = 16,
     max_collection_items = 1024, max_string_length = 8192\<rparr>"

text \<open>\<open>_timestamp\<close> drops the fraction of the second when an instant is written to a row.\<close>

definition stored_second :: "datetime \<Rightarrow> int" where
  "stored_second value = dt_micros value div 1000000"

definition require_digest :: "string \<Rightarrow> string \<Rightarrow> string result" where
  "require_digest label value =
     (if length value \<noteq> 71 \<or> \<not> starts_with ''sha256:'' value
         \<or> list_ex (\<lambda>c. c \<notin> set ''0123456789abcdef'') (drop 7 value)
      then Inl (ValueError (label @ '' must be a canonical SHA-256 digest'')) else Inr value)"

definition load_revision :: "'e model_env_scheme \<Rightarrow> revision \<Rightarrow> revision result" where
  "load_revision E row = on_error is_value_error
     (ControlPlaneIntegrityError ''stored revision failed validation'') (validate_revision E row)"

definition load_deployment :: "active_deployment \<Rightarrow> active_deployment result" where
  "load_deployment row = on_error is_value_error
     (ControlPlaneIntegrityError ''stored deployment failed validation'') (validate_deployment row)"

definition load_operation :: "'e model_env_scheme \<Rightarrow> operation \<Rightarrow> operation result" where
  "load_operation E row = on_error is_value_error
     (ControlPlaneIntegrityError ''stored deployment operation failed validation'')
     (validate_operation E row)"

definition load_audit :: "'e model_env_scheme \<Rightarrow> audit_event \<Rightarrow> audit_event result" where
  "load_audit E row = on_error is_value_error
     (ControlPlaneIntegrityError ''stored audit event failed validation'') (validate_event E row)"

section \<open>The audit chain\<close>

definition tenant_events :: "string \<Rightarrow> db \<Rightarrow> audit_event list" where
  "tenant_events t d = where_rows (\<lambda>v. ev_tenant_id v = t) (control_audit_events d)"

definition append_audit ::
  "'e model_env_scheme \<Rightarrow> principal \<Rightarrow> audit_action \<Rightarrow> string \<Rightarrow> datetime \<Rightarrow> json \<Rightarrow> audit_event body" where
  "append_audit E actor action object_id occurred_at details d =
     rbind (on_error is_strict_json_error
       (ControlPlaneStoreError ''audit details exceed their canonical profile'')
       (canonical_json_bytes E DETAIL_LIMITS details)) (\<lambda>details_bytes.
     let last = fetchone (order_by_desc ev_sequence (tenant_events (principal_tenant actor) d));
         sequence = (case last of None \<Rightarrow> 1 | Some v \<Rightarrow> ev_sequence v + 1);
         previous = (case last of None \<Rightarrow> GENESIS_DIGEST | Some v \<Rightarrow> ev_event_digest v);
         details_digest = sha256_bytes E details_bytes
     in
     rbind (audit_event_bytes E (principal_tenant actor) sequence previous action object_id
              (principal_subject actor) (principal_session actor) occurred_at details_digest)
       (\<lambda>event_bytes.
     rbind (validate_event E
       \<lparr>ev_tenant_id = principal_tenant actor, ev_sequence = sequence,
        ev_previous_event_digest = previous, ev_event_digest = sha256_bytes E event_bytes,
        ev_action = action, ev_object_id = object_id, ev_actor_subject = principal_subject actor,
        ev_actor_session_digest = principal_session actor,
        ev_occurred_at = stored_second occurred_at, ev_details_digest = details_digest,
        ev_details_bytes = details_bytes, ev_event_bytes = event_bytes\<rparr>) (\<lambda>event.
     rbind (insert_event event d) (\<lambda>d'.
     Inr (event, d')))))"

section \<open>Revisions\<close>

definition tenant_revision :: "string \<Rightarrow> string \<Rightarrow> db \<Rightarrow> revision option" where
  "tenant_revision t i d = fetchone (where_rows
     (\<lambda>r. rev_tenant_id r = t \<and> rev_revision_id r = i) (control_revisions d))"

definition get_revision :: "'e model_env_scheme \<Rightarrow> string \<Rightarrow> string \<Rightarrow> db \<Rightarrow> revision result" where
  "get_revision E tenant_id revision_id d =
     (case tenant_revision tenant_id revision_id d of
        None \<Rightarrow> Inl (ControlPlaneNotFound ''configuration revision was not found'')
      | Some row \<Rightarrow> load_revision E row)"

definition latest_revision_row :: "string \<Rightarrow> string \<Rightarrow> db \<Rightarrow> revision option" where
  "latest_revision_row t c d = fetchone (order_by_desc rev_generation
     (where_rows (\<lambda>r. rev_tenant_id r = t \<and> rev_control_id r = c) (control_revisions d)))"

text \<open>Generation and parent of a new draft, or the conflict.\<close>

definition next_generation ::
  "'e model_env_scheme \<Rightarrow> string \<Rightarrow> string \<Rightarrow> string option \<Rightarrow> db \<Rightarrow> (int \<times> string option) result" where
  "next_generation E t c expected_parent_revision_id d =
     (case latest_revision_row t c d of
        None \<Rightarrow>
          if expected_parent_revision_id \<noteq> None
          then Inl (ControlPlaneConflict ''first revision cannot declare a parent'')
          else Inr (1, None)
      | Some row \<Rightarrow>
          rbind (load_revision E row) (\<lambda>latest.
          if rev_state latest \<in> {Draft, Submitted}
          then Inl (ControlPlaneConflict ''another revision is still in flight'')
          else if expected_parent_revision_id \<noteq> Some (rev_revision_id latest)
          then Inl (ControlPlaneConflict ''new revision is not based on the latest generation'')
          else Inr (rev_generation latest + 1, Some (rev_revision_id latest))))"

definition create_draft_body ::
  "'e model_env_scheme \<Rightarrow> actor \<Rightarrow> control_configuration \<Rightarrow> bytes \<Rightarrow> string option \<Rightarrow> datetime \<Rightarrow> string body" where
  "create_draft_body E actor cfg configuration_bytes expected_parent_revision_id created_at d =
     rbind (next_generation E (cfg_tenant_id cfg) (cfg_control_id cfg) expected_parent_revision_id d)
       (\<lambda>(generation, parent_revision_id).
     rbind (configuration_digest_of E cfg) (\<lambda>digest.
     rbind (revision_identity E (cfg_tenant_id cfg) (cfg_control_id cfg) generation
              parent_revision_id digest) (\<lambda>revision_id.
     rbind (insert_revision
       \<lparr>rev_revision_id = revision_id, rev_tenant_id = cfg_tenant_id cfg,
        rev_control_id = cfg_control_id cfg, rev_generation = generation,
        rev_parent_revision_id = parent_revision_id, rev_configuration_digest = digest,
        rev_configuration_bytes = configuration_bytes, rev_state = Draft, rev_state_version = 0,
        rev_created_by = actor_subject actor, rev_created_at = stored_second created_at,
        rev_submitted_at = None, rev_decided_at = None\<rparr> d) (\<lambda>d1.
     rbind (append_audit E (Human actor) RevisionCreated revision_id created_at
       (jobject [(''configuration_digest'', jtext digest),
                 (''control_id'', jtext (cfg_control_id cfg)), (''generation'', JInt generation),
                 (''parent_revision_id'', jopt parent_revision_id)]) d1) (\<lambda>(_, d2).
     Inr (revision_id, d2))))))"

definition create_draft ::
  "'e model_env_scheme \<Rightarrow> actor \<Rightarrow> control_configuration \<Rightarrow> string option \<Rightarrow> datetime \<Rightarrow> db
     \<Rightarrow> revision result \<times> db" where
  "create_draft E actor cfg expected_parent_revision_id created_at d =
     (if cfg_tenant_id cfg \<noteq> actor_tenant_id actor
      then (Inl (ControlPlaneConflict ''configuration belongs to another tenant''), d)
      else case canonical_bytes E cfg of
        Inl e \<Rightarrow> (Inl e, d)
      | Inr configuration_bytes \<Rightarrow>
          (case transaction (\<lambda>d. integrity_conflict ''revision identity already exists''
                  (create_draft_body E actor cfg configuration_bytes expected_parent_revision_id
                     created_at d)) d of
             (Inl e, d') \<Rightarrow> (Inl e, d')
           | (Inr revision_id, d') \<Rightarrow> (get_revision E (cfg_tenant_id cfg) revision_id d', d')))"

definition list_limit :: "int \<Rightarrow> int \<Rightarrow> string \<Rightarrow> unit result" where
  "list_limit limit hi m = (if limit < 1 \<or> limit > hi then Inl (ValueError m) else Inr ())"

definition list_revisions ::
  "'e model_env_scheme \<Rightarrow> string \<Rightarrow> string \<Rightarrow> int \<Rightarrow> db \<Rightarrow> revision list result" where
  "list_revisions E tenant_id control_id limit d =
     rbind (list_limit limit 1000 ''revision list limit is outside the supported range'') (\<lambda>_.
     rmap (load_revision E) (take (nat limit) (order_by_desc rev_generation
       (where_rows (\<lambda>r. rev_tenant_id r = tenant_id \<and> rev_control_id r = control_id)
          (control_revisions d)))))"

text \<open>The rows of the CTE \<open>latest\<close>: each control's greatest generation.\<close>

definition is_latest :: "db \<Rightarrow> revision \<Rightarrow> bool" where
  "is_latest d r \<longleftrightarrow> list_all (\<lambda>s. rev_tenant_id s = rev_tenant_id r
       \<and> rev_control_id s = rev_control_id r \<longrightarrow> rev_generation s \<le> rev_generation r)
     (control_revisions d)"

definition pointer_of :: "db \<Rightarrow> string \<Rightarrow> string \<Rightarrow> active_deployment option" where
  "pointer_of d t c = fetchone (where_rows (\<lambda>x. dep_tenant_id x = t \<and> dep_control_id x = c)
     (active_deployments d))"

definition revision_row :: "db \<Rightarrow> string \<Rightarrow> revision option" where
  "revision_row d i = fetchone (where_rows (\<lambda>r. rev_revision_id r = i) (control_revisions d))"

text \<open>
  The comparison of a pointer with the revision the LEFT JOIN found: NULL columns (no such
  revision) differ from every stored value.
\<close>

definition pointer_matches :: "active_deployment \<Rightarrow> revision option \<Rightarrow> bool" where
  "pointer_matches x r = (case r of None \<Rightarrow> False
     | Some r \<Rightarrow> rev_tenant_id r = dep_tenant_id x \<and> rev_control_id r = dep_control_id x
         \<and> rev_configuration_digest r = dep_configuration_digest x \<and> rev_state r = Approved)"

definition control_summary_of :: "'e model_env_scheme \<Rightarrow> db \<Rightarrow> revision \<Rightarrow> control_summary result" where
  "control_summary_of E d row =
     rbind (load_revision E row) (\<lambda>latest.
     rbind (case pointer_of d (rev_tenant_id row) (rev_control_id row) of
              None \<Rightarrow> Inr None
            | Some x \<Rightarrow>
                rbind (load_deployment x) (\<lambda>deployment.
                if \<not> pointer_matches deployment (revision_row d (dep_revision_id x))
                then Inl (ControlPlaneIntegrityError
                       ''active deployment pointer differs from its approved revision'')
                else Inr (Some deployment))) (\<lambda>deployment.
     validate_summary \<lparr>latest_revision = latest, summary_deployment = deployment\<rparr>))"

definition list_controls :: "'e model_env_scheme \<Rightarrow> string \<Rightarrow> int \<Rightarrow> db \<Rightarrow> control_summary list result" where
  "list_controls E tenant_id limit d =
     rbind (list_limit limit 1000 ''control list limit is outside the supported range'') (\<lambda>_.
     rmap (control_summary_of E d) (take (nat limit) (order_by rev_control_id
       (where_rows (\<lambda>r. rev_tenant_id r = tenant_id \<and> is_latest d r) (control_revisions d)))))"

definition transition_body ::
  "'e model_env_scheme \<Rightarrow> actor \<Rightarrow> string \<Rightarrow> revision_state \<Rightarrow> revision_state \<Rightarrow> int \<Rightarrow> datetime
     \<Rightarrow> audit_action \<Rightarrow> unit body" where
  "transition_body E actor revision_id expected_state next_state expected_state_version occurred_at
       action d =
     (case tenant_revision (actor_tenant_id actor) revision_id d of
        None \<Rightarrow> Inl (ControlPlaneNotFound ''configuration revision was not found'')
      | Some row \<Rightarrow>
          rbind (load_revision E row) (\<lambda>current.
          if rev_state current \<noteq> expected_state \<or> rev_state_version current \<noteq> expected_state_version
          then Inl (ControlPlaneConflict ''revision state changed concurrently'')
          else
          let submitted_at = (if next_state = Submitted then Some (stored_second occurred_at)
                              else rev_submitted_at current);
              decided_at = (if next_state \<in> {Approved, Rejected} then Some (stored_second occurred_at)
                            else rev_decided_at current);
              (rowcount, d1) = update_revisions (\<lambda>r. rev_tenant_id r = actor_tenant_id actor
                  \<and> rev_revision_id r = revision_id \<and> rev_state r = expected_state
                  \<and> rev_state_version r = expected_state_version)
                (\<lambda>r. r\<lparr>rev_state := next_state, rev_state_version := rev_state_version r + 1,
                       rev_submitted_at := submitted_at, rev_decided_at := decided_at\<rparr>) d
          in if rowcount \<noteq> 1 then Inl (ControlPlaneConflict ''revision state changed concurrently'')
          else rbind (append_audit E (Human actor) action revision_id occurred_at
            (jobject [(''control_id'', jtext (rev_control_id current)),
                      (''from_state'', jtext (state_name expected_state)),
                      (''generation'', JInt (rev_generation current)),
                      (''to_state'', jtext (state_name next_state))]) d1) (\<lambda>(_, d2).
          Inr ((), d2))))"

definition transition ::
  "'e model_env_scheme \<Rightarrow> actor \<Rightarrow> string \<Rightarrow> revision_state \<Rightarrow> revision_state \<Rightarrow> int \<Rightarrow> datetime
     \<Rightarrow> audit_action \<Rightarrow> db \<Rightarrow> revision result \<times> db" where
  "transition E actor revision_id expected_state next_state expected_state_version occurred_at action d =
     (case transaction (transition_body E actor revision_id expected_state next_state
              expected_state_version occurred_at action) d of
        (Inl e, d') \<Rightarrow> (Inl e, d')
      | (Inr _, d') \<Rightarrow> (get_revision E (actor_tenant_id actor) revision_id d', d'))"

definition submit ::
  "'e model_env_scheme \<Rightarrow> actor \<Rightarrow> string \<Rightarrow> int \<Rightarrow> datetime \<Rightarrow> db \<Rightarrow> revision result \<times> db" where
  "submit E actor revision_id expected_state_version submitted_at d =
     transition E actor revision_id Draft Submitted expected_state_version submitted_at
       RevisionSubmitted d"

section \<open>Decisions\<close>

text \<open>\<open>str.encode("utf-8")\<close> for code points below 256.\<close>

definition utf8_bytes :: "string \<Rightarrow> bytes" where
  "utf8_bytes s = concat (map (\<lambda>c. let n = (of_char c :: nat) in
     if n < 128 then [word_of_nat n]
     else [word_of_nat (192 + n div 64), word_of_nat (128 + n mod 64)]) s)"

fun decision_of :: "string \<Rightarrow> decision_kind option" where
  "decision_of s = (if s = ''approved'' then Some DecApproved
     else if s = ''rejected'' then Some DecRejected else None)"

fun decided_state :: "decision_kind \<Rightarrow> revision_state" where
  "decided_state DecApproved = Approved"
| "decided_state DecRejected = Rejected"

fun decision_action :: "decision_kind \<Rightarrow> audit_action" where
  "decision_action DecApproved = RevisionApproved"
| "decision_action DecRejected = RevisionRejected"

definition decide_body ::
  "'e model_env_scheme \<Rightarrow> actor \<Rightarrow> string \<Rightarrow> int \<Rightarrow> decision_kind \<Rightarrow> string \<Rightarrow> datetime
     \<Rightarrow> approval_decision body" where
  "decide_body E actor revision_id expected_state_version decision comment decided_at d =
     (case tenant_revision (actor_tenant_id actor) revision_id d of
        None \<Rightarrow> Inl (ControlPlaneNotFound ''configuration revision was not found'')
      | Some row \<Rightarrow>
          rbind (load_revision E row) (\<lambda>current.
          if rev_state current \<noteq> Submitted \<or> rev_state_version current \<noteq> expected_state_version
          then Inl (ControlPlaneConflict ''revision state changed concurrently'')
          else rbind (decision_identity E revision_id (actor_tenant_id actor) decision
                 (actor_subject actor) decided_at comment (actor_session_id_digest actor)) (\<lambda>decision_id.
          rbind (validate_decision E
            \<lparr>dec_decision_id = decision_id, dec_revision_id = revision_id,
             dec_tenant_id = actor_tenant_id actor, dec_decision = decision,
             dec_decided_by = actor_subject actor, dec_decided_at = stored_second decided_at,
             dec_comment = comment, dec_actor_session_digest = actor_session_id_digest actor\<rparr>)
            (\<lambda>approval.
          rbind (insert_decision approval d) (\<lambda>d1.
          let (rowcount, d2) = update_revisions (\<lambda>r. rev_tenant_id r = actor_tenant_id actor
                \<and> rev_revision_id r = revision_id \<and> rev_state r = Submitted
                \<and> rev_state_version r = expected_state_version)
              (\<lambda>r. r\<lparr>rev_state := decided_state decision, rev_state_version := rev_state_version r + 1,
                     rev_decided_at := Some (stored_second decided_at)\<rparr>) d1
          in if rowcount \<noteq> 1 then Inl (ControlPlaneConflict ''revision state changed concurrently'')
          else rbind (append_audit E (Human actor) (decision_action decision) revision_id decided_at
            (jobject [(''comment_digest'', jtext (sha256_bytes E (utf8_bytes comment))),
                      (''control_id'', jtext (rev_control_id current)),
                      (''decision_id'', jtext (dec_decision_id approval)),
                      (''generation'', JInt (rev_generation current))]) d2) (\<lambda>(_, d3).
          Inr (approval, d3)))))))"

definition decide ::
  "'e model_env_scheme \<Rightarrow> actor \<Rightarrow> string \<Rightarrow> int \<Rightarrow> string \<Rightarrow> string \<Rightarrow> datetime \<Rightarrow> db
     \<Rightarrow> (revision \<times> approval_decision) result \<times> db" where
  "decide E actor revision_id expected_state_version decision comment decided_at d =
     (case decision_of decision of
        None \<Rightarrow> (Inl (ValueError ''decision must be approved or rejected''), d)
      | Some k \<Rightarrow>
          if comment = [] \<or> length comment > 2000
          then (Inl (ValueError ''decision comment is empty or too long''), d)
          else case transaction (\<lambda>d. integrity_conflict ''revision already has an approval decision''
                      (decide_body E actor revision_id expected_state_version k comment decided_at d)) d of
              (Inl e, d') \<Rightarrow> (Inl e, d')
            | (Inr approval, d') \<Rightarrow>
                (rbind (get_revision E (actor_tenant_id actor) revision_id d')
                   (\<lambda>r. Inr (r, approval)), d'))"

section \<open>Deployment requests\<close>

text \<open>
  \<open>_create_deployment_operation\<close>: \<open>expected\<close> is the predecessor the caller enforces, if it
  enforces one.
\<close>

definition create_deployment_operation ::
  "'e model_env_scheme \<Rightarrow> actor \<Rightarrow> revision \<Rightarrow> operation_kind \<Rightarrow> datetime \<Rightarrow> string option option
     \<Rightarrow> string option \<Rightarrow> operation body" where
  "create_deployment_operation E actor revision kind requested_at expected retry_of d =
     (if where_rows (\<lambda>p. same_control (actor_tenant_id actor) (rev_control_id revision) p
           \<and> unresolved p) (deployment_operations d) \<noteq> []
      then Inl (ControlPlaneConflict ''control already has an unresolved deployment operation'')
      else
      let predecessor = map_option op_operation_id
            (latest_applied_row (actor_tenant_id actor) (rev_control_id revision)
               (deployment_operations d))
      in if expected \<noteq> None \<and> Some predecessor \<noteq> expected
      then Inl (ControlPlaneConflict ''applied deployment operation changed concurrently'')
      else
      let sequence = next_sequence (actor_tenant_id actor) (rev_control_id revision)
            (deployment_operations d)
      in
      rbind (deployment_operation_identity E (actor_tenant_id actor) (rev_control_id revision)
               sequence kind (rev_revision_id revision) (rev_configuration_digest revision)
               predecessor retry_of (actor_subject actor) requested_at
               (actor_session_id_digest actor)) (\<lambda>operation_id.
      let operation =
        \<lparr>op_operation_id = operation_id, op_tenant_id = actor_tenant_id actor,
         op_control_id = rev_control_id revision, op_sequence = sequence, op_kind = kind,
         op_revision_id = rev_revision_id revision,
         op_configuration_digest = rev_configuration_digest revision,
         op_predecessor = predecessor, op_retry_of = retry_of,
         op_requested_by = actor_subject actor, op_requested_at = stored_second requested_at,
         op_requester_session = actor_session_id_digest actor, op_state = Pending,
         op_state_version = 0, op_attempt_count = 0, op_lease_fence = 0, op_lease_owner = None,
         op_lease_token = None, op_leased_at = None, op_lease_expires_at = None,
         op_retry_at = None, op_applied_at = None, op_applied_digest = None,
         op_target_receipt = None, op_failed_at = None, op_failure_digest = None\<rparr>
      in
      rbind (insert_operation operation d) (\<lambda>d1.
      rbind (validate_operation E operation) (\<lambda>operation.
      Inr (operation, d1)))))"

definition tenant_operation :: "string \<Rightarrow> string \<Rightarrow> db \<Rightarrow> operation option" where
  "tenant_operation t i d = fetchone (where_rows
     (\<lambda>p. op_tenant_id p = t \<and> op_operation_id p = i) (deployment_operations d))"

text \<open>
  The pointer write of \<open>activate_with_operation\<close>: the first selection inserts version 1, a later
  one advances the pointer it read and retires the revision it pointed to. The result is the new
  version and the previous revision.
\<close>

definition select_revision ::
  "actor \<Rightarrow> revision \<Rightarrow> int option \<Rightarrow> int \<Rightarrow> (int \<times> string option) body" where
  "select_revision actor revision expected_deployment_version activated_at d =
     (case pointer_of d (actor_tenant_id actor) (rev_control_id revision) of
        None \<Rightarrow>
          if expected_deployment_version \<noteq> None
          then Inl (ControlPlaneConflict ''deployment pointer changed concurrently'')
          else rbind (insert_deployment
            \<lparr>dep_tenant_id = actor_tenant_id actor, dep_control_id = rev_control_id revision,
             dep_revision_id = rev_revision_id revision,
             dep_configuration_digest = rev_configuration_digest revision,
             dep_activated_by = actor_subject actor, dep_activated_at = activated_at,
             dep_deployment_version = 1\<rparr> d) (\<lambda>d1. Inr ((1, None), d1))
      | Some existing_row \<Rightarrow>
          rbind (load_deployment existing_row) (\<lambda>existing.
          if expected_deployment_version \<noteq> Some (dep_deployment_version existing)
          then Inl (ControlPlaneConflict ''deployment pointer changed concurrently'')
          else if dep_revision_id existing = rev_revision_id revision
          then Inl (ControlPlaneConflict ''revision is already active'')
          else
          let version = dep_deployment_version existing + 1 in
          rbind (update_deployments
            (\<lambda>x. dep_tenant_id x = actor_tenant_id actor \<and> dep_control_id x = rev_control_id revision
                 \<and> dep_deployment_version x = dep_deployment_version existing)
            (\<lambda>x. x\<lparr>dep_revision_id := rev_revision_id revision,
                   dep_configuration_digest := rev_configuration_digest revision,
                   dep_activated_by := actor_subject actor, dep_activated_at := activated_at,
                   dep_deployment_version := version\<rparr>) d) (\<lambda>(rowcount, d1).
          if rowcount \<noteq> 1
          then Inl (ControlPlaneConflict ''deployment pointer changed concurrently'')
          else
          let (_, d2) = update_revisions
                (\<lambda>r. rev_tenant_id r = actor_tenant_id actor
                     \<and> rev_revision_id r = dep_revision_id existing \<and> rev_state r = Approved)
                (\<lambda>r. r\<lparr>rev_state := Retired, rev_state_version := rev_state_version r + 1\<rparr>) d1
          in Inr ((version, Some (dep_revision_id existing)), d2))))"

definition activate_body ::
  "'e model_env_scheme \<Rightarrow> actor \<Rightarrow> string \<Rightarrow> int option \<Rightarrow> int
     \<Rightarrow> (active_deployment \<times> operation) body" where
  "activate_body E actor revision_id expected_deployment_version activated_at d =
     (case tenant_revision (actor_tenant_id actor) revision_id d of
        None \<Rightarrow> Inl (ControlPlaneNotFound ''configuration revision was not found'')
      | Some row \<Rightarrow>
          rbind (load_revision E row) (\<lambda>revision.
          if rev_state revision \<noteq> Approved
          then Inl (ControlPlaneConflict ''only an approved revision can be activated'')
          else
          rbind (select_revision actor revision expected_deployment_version activated_at d)
            (\<lambda>((version, previous_revision_id), d1).
          rbind (create_deployment_operation E actor revision Apply (instant activated_at) None None d1)
            (\<lambda>(operation, d2).
          rbind (validate_deployment
            \<lparr>dep_tenant_id = actor_tenant_id actor, dep_control_id = rev_control_id revision,
             dep_revision_id = rev_revision_id revision,
             dep_configuration_digest = rev_configuration_digest revision,
             dep_activated_by = actor_subject actor, dep_activated_at = activated_at,
             dep_deployment_version = version\<rparr>) (\<lambda>deployment.
          rbind (append_audit E (Human actor) RevisionActivated (rev_revision_id revision)
            (instant activated_at)
            (jobject [(''configuration_digest'', jtext (rev_configuration_digest revision)),
                      (''control_id'', jtext (rev_control_id revision)),
                      (''deployment_version'', JInt version),
                      (''operation_id'', jtext (op_operation_id operation)),
                      (''operation_sequence'', JInt (op_sequence operation)),
                      (''previous_revision_id'', jopt previous_revision_id)]) d2) (\<lambda>(_, d3).
          Inr ((deployment, operation), d3)))))))"

definition activate_with_operation ::
  "'e model_env_scheme \<Rightarrow> actor \<Rightarrow> string \<Rightarrow> int option \<Rightarrow> datetime \<Rightarrow> db
     \<Rightarrow> (active_deployment \<times> operation) result \<times> db" where
  "activate_with_operation E actor revision_id expected_deployment_version activated_at d =
     (case utc_second ''revision activation time'' activated_at of
        Inl e \<Rightarrow> (Inl e, d)
      | Inr t \<Rightarrow> transaction (\<lambda>d. integrity_conflict ''deployment activation changed concurrently''
          (activate_body E actor revision_id expected_deployment_version t d)) d)"

definition activate ::
  "'e model_env_scheme \<Rightarrow> actor \<Rightarrow> string \<Rightarrow> int option \<Rightarrow> datetime \<Rightarrow> db
     \<Rightarrow> active_deployment result \<times> db" where
  "activate E actor revision_id expected_deployment_version activated_at d =
     (case activate_with_operation E actor revision_id expected_deployment_version activated_at d of
        (Inl e, d') \<Rightarrow> (Inl e, d')
      | (Inr (deployment, _), d') \<Rightarrow> (Inr deployment, d'))"

definition get_active_deployment :: "string \<Rightarrow> string \<Rightarrow> db \<Rightarrow> active_deployment result" where
  "get_active_deployment tenant_id control_id d =
     (case fetchone (concat (map (\<lambda>x. map (\<lambda>r. (x, r))
              (where_rows (\<lambda>r. rev_revision_id r = dep_revision_id x) (control_revisions d)))
            (where_rows (\<lambda>x. dep_tenant_id x = tenant_id \<and> dep_control_id x = control_id)
               (active_deployments d)))) of
        None \<Rightarrow> Inl (ControlPlaneNotFound ''active deployment was not found'')
      | Some (x, r) \<Rightarrow>
          rbind (load_deployment x) (\<lambda>deployment.
          if \<not> pointer_matches deployment (Some r)
          then Inl (ControlPlaneIntegrityError
                 ''active deployment pointer differs from its approved revision'')
          else Inr deployment))"

definition request_rollback_body ::
  "'e model_env_scheme \<Rightarrow> actor \<Rightarrow> string \<Rightarrow> string \<Rightarrow> int \<Rightarrow> operation body" where
  "request_rollback_body E actor revision_id expected_predecessor_operation_id requested_at d =
     (case tenant_revision (actor_tenant_id actor) revision_id d of
        None \<Rightarrow> Inl (ControlPlaneNotFound ''rollback revision was not found'')
      | Some row \<Rightarrow>
          rbind (load_revision E row) (\<lambda>revision.
          if rev_state revision \<noteq> Retired
          then Inl (ControlPlaneConflict ''rollback target must be a previously retired revision'')
          else if where_rows (\<lambda>x. dec_tenant_id x = actor_tenant_id actor
              \<and> dec_revision_id x = revision_id \<and> dec_decision x = DecApproved)
              (approval_decisions d) = []
          then Inl (ControlPlaneIntegrityError ''rollback target lacks its immutable approval'')
          else if rev_created_by revision = actor_subject actor
          then Inl (ControlPlaneConflict ''revision maker cannot request its rollback deployment'')
          else case latest_applied_row (actor_tenant_id actor) (rev_control_id revision)
                 (deployment_operations d) of
            None \<Rightarrow> Inl (ControlPlaneConflict
              ''rollback requires a previously applied deployment operation'')
          | Some current_row \<Rightarrow>
              rbind (load_operation E current_row) (\<lambda>current.
              if op_operation_id current \<noteq> expected_predecessor_operation_id
              then Inl (ControlPlaneConflict ''applied deployment operation changed concurrently'')
              else if op_revision_id current = rev_revision_id revision
              then Inl (ControlPlaneConflict ''rollback target is already the applied configuration'')
              else
              rbind (create_deployment_operation E actor revision Rollback (instant requested_at)
                       (Some (Some expected_predecessor_operation_id)) None d) (\<lambda>(operation, d1).
              rbind (append_audit E (Human actor) DeploymentRollbackRequested
                (op_operation_id operation) (instant requested_at)
                (jobject [(''configuration_digest'', jtext (op_configuration_digest operation)),
                          (''control_id'', jtext (op_control_id operation)),
                          (''operation_sequence'', JInt (op_sequence operation)),
                          (''predecessor_operation_id'', jopt (op_predecessor operation)),
                          (''revision_id'', jtext (op_revision_id operation))]) d1) (\<lambda>(_, d2).
              Inr (operation, d2))))))"

definition request_rollback ::
  "'e model_env_scheme \<Rightarrow> actor \<Rightarrow> string \<Rightarrow> string \<Rightarrow> datetime \<Rightarrow> db \<Rightarrow> operation result \<times> db" where
  "request_rollback E actor revision_id expected_predecessor_operation_id requested_at d =
     (case rbind (utc_second ''rollback request time'' requested_at) (\<lambda>t.
           rbind (require_digest ''expected predecessor operation id''
                    expected_predecessor_operation_id) (\<lambda>_. Inr t)) of
        Inl e \<Rightarrow> (Inl e, d)
      | Inr t \<Rightarrow> transaction (\<lambda>d. integrity_conflict ''rollback operation changed concurrently''
          (request_rollback_body E actor revision_id expected_predecessor_operation_id t d)) d)"

definition latest_operation_row :: "string \<Rightarrow> string \<Rightarrow> db \<Rightarrow> operation option" where
  "latest_operation_row t c d = fetchone (order_by_desc op_sequence
     (where_rows (same_control t c) (deployment_operations d)))"

text \<open>
  The selection a retry still has to serve: the pointer of the control names the failed
  operation's revision and digest.
\<close>

definition require_selection :: "string \<Rightarrow> string \<Rightarrow> revision \<Rightarrow> db \<Rightarrow> unit result" where
  "require_selection t c revision d =
     (case pointer_of d t c of
        None \<Rightarrow> Inl (ControlPlaneIntegrityError ''failed operation has no desired selection'')
      | Some selection_row \<Rightarrow>
          rbind (load_deployment selection_row) (\<lambda>selection.
          if dep_revision_id selection \<noteq> rev_revision_id revision
             \<or> dep_configuration_digest selection \<noteq> rev_configuration_digest revision
          then Inl (ControlPlaneConflict ''failed operation is no longer the desired selection'')
          else Inr ()))"

definition request_retry_body ::
  "'e model_env_scheme \<Rightarrow> actor \<Rightarrow> string \<Rightarrow> int \<Rightarrow> operation body" where
  "request_retry_body E actor failed_operation_id requested_at d =
     (case tenant_operation (actor_tenant_id actor) failed_operation_id d of
        None \<Rightarrow> Inl (ControlPlaneNotFound ''failed deployment operation was not found'')
      | Some failed_row \<Rightarrow>
          rbind (load_operation E failed_row) (\<lambda>failed.
          if op_state failed \<noteq> Failed \<or> op_retry_at failed \<noteq> None
          then Inl (ControlPlaneConflict
                 ''only a terminal deployment failure can be retried manually'')
          else if map_option op_operation_id
                 (latest_operation_row (actor_tenant_id actor) (op_control_id failed) d)
                 \<noteq> Some (op_operation_id failed)
          then Inl (ControlPlaneConflict
                 ''failed operation is no longer the control's latest intent'')
          else case tenant_revision (actor_tenant_id actor) (op_revision_id failed) d of
            None \<Rightarrow> Inl (ControlPlaneIntegrityError ''failed operation target revision disappeared'')
          | Some target_row \<Rightarrow>
              rbind (load_revision E target_row) (\<lambda>revision.
              if rev_state revision \<noteq> Approved
              then Inl (ControlPlaneConflict ''failed operation target is no longer approved'')
              else if rev_created_by revision = actor_subject actor
              then Inl (ControlPlaneConflict ''revision maker cannot request its deployment retry'')
              else
              rbind (require_selection (actor_tenant_id actor) (op_control_id failed) revision d) (\<lambda>_.
              rbind (create_deployment_operation E actor revision Apply (instant requested_at)
                       None (Some (op_operation_id failed)) d) (\<lambda>(operation, d1).
              rbind (append_audit E (Human actor) DeploymentRetryRequested
                (op_operation_id operation) (instant requested_at)
                (jobject [(''configuration_digest'', jtext (op_configuration_digest operation)),
                          (''control_id'', jtext (op_control_id operation)),
                          (''operation_sequence'', JInt (op_sequence operation)),
                          (''retry_of_operation_id'', jtext (op_operation_id failed)),
                          (''revision_id'', jtext (op_revision_id operation))]) d1) (\<lambda>(_, d2).
              Inr (operation, d2)))))))"

definition request_deployment_retry ::
  "'e model_env_scheme \<Rightarrow> actor \<Rightarrow> string \<Rightarrow> datetime \<Rightarrow> db \<Rightarrow> operation result \<times> db" where
  "request_deployment_retry E actor failed_operation_id requested_at d =
     (case rbind (utc_second ''deployment retry request time'' requested_at) (\<lambda>t.
           rbind (require_digest ''failed deployment operation id'' failed_operation_id)
             (\<lambda>_. Inr t)) of
        Inl e \<Rightarrow> (Inl e, d)
      | Inr t \<Rightarrow> transaction (\<lambda>d. integrity_conflict ''deployment retry request changed concurrently''
          (request_retry_body E actor failed_operation_id t d)) d)"

definition get_deployment_operation ::
  "'e model_env_scheme \<Rightarrow> string \<Rightarrow> string \<Rightarrow> db \<Rightarrow> operation result" where
  "get_deployment_operation E tenant_id operation_id d =
     (case tenant_operation tenant_id operation_id d of
        None \<Rightarrow> Inl (ControlPlaneNotFound ''deployment operation was not found'')
      | Some row \<Rightarrow> load_operation E row)"

definition list_deployment_operations ::
  "'e model_env_scheme \<Rightarrow> string \<Rightarrow> string \<Rightarrow> int \<Rightarrow> db \<Rightarrow> operation list result" where
  "list_deployment_operations E tenant_id control_id limit d =
     rbind (list_limit limit 1000 ''deployment operation limit is outside the supported range'') (\<lambda>_.
     rmap (load_operation E) (take (nat limit) (order_by_desc op_sequence
       (where_rows (same_control tenant_id control_id) (deployment_operations d)))))"

definition latest_applied_operation ::
  "'e model_env_scheme \<Rightarrow> string \<Rightarrow> string \<Rightarrow> db \<Rightarrow> operation result" where
  "latest_applied_operation E tenant_id control_id d =
     (case latest_applied_row tenant_id control_id (deployment_operations d) of
        None \<Rightarrow> Inl (ControlPlaneNotFound ''applied deployment operation was not found'')
      | Some row \<Rightarrow> load_operation E row)"

section \<open>Leases\<close>

definition eligible :: "int \<Rightarrow> operation \<Rightarrow> bool" where
  "eligible t p \<longleftrightarrow>
     op_state p = Pending \<and> op_requested_at p \<le> t
     \<or> op_state p = Failed \<and> op_retry_at p \<noteq> None \<and> the (op_retry_at p) \<le> t
     \<or> op_state p = Leased \<and> op_lease_expires_at p \<noteq> None \<and> the (op_lease_expires_at p) \<le> t"

definition poll_order :: "operation \<Rightarrow> int \<times> string \<times> int" where
  "poll_order p = (op_requested_at p, op_control_id p, op_sequence p)"

definition lease_update :: "worker_identity \<Rightarrow> string \<Rightarrow> int \<Rightarrow> int \<Rightarrow> int \<Rightarrow> operation \<Rightarrow> operation" where
  "lease_update worker token t ttl attempt p =
     p\<lparr>op_state := Leased, op_state_version := op_state_version p + 1, op_attempt_count := attempt,
       op_lease_fence := attempt, op_lease_owner := Some (worker_id worker),
       op_lease_token := Some token, op_leased_at := Some t, op_lease_expires_at := Some (t + ttl),
       op_retry_at := None, op_failed_at := None, op_failure_digest := None\<rparr>"

definition lease_body ::
  "'e model_env_scheme \<Rightarrow> worker_identity \<Rightarrow> string \<Rightarrow> int \<Rightarrow> int \<Rightarrow> operation option body" where
  "lease_body E worker token leased_at ttl d =
     (case fetchone (order_by poll_order (where_rows
              (\<lambda>p. op_tenant_id p = worker_tenant_id worker \<and> eligible leased_at p)
              (deployment_operations d))) of
        None \<Rightarrow> Inr (None, d)
      | Some row \<Rightarrow>
          rbind (load_operation E row) (\<lambda>current.
          let attempt = op_attempt_count current + 1 in
          rbind (update_operations
            (\<lambda>p. op_tenant_id p = worker_tenant_id worker
                 \<and> op_operation_id p = op_operation_id current
                 \<and> op_state_version p = op_state_version current \<and> eligible leased_at p)
            (lease_update worker token leased_at ttl attempt) d) (\<lambda>(rowcount, d1).
          if rowcount \<noteq> 1
          then Inl (ControlPlaneConflict ''deployment operation lease changed concurrently'')
          else
          rbind (append_audit E (Worker worker) DeploymentLeased (op_operation_id current)
            (instant leased_at)
            (jobject [(''attempt_count'', JInt attempt),
                      (''control_id'', jtext (op_control_id current)),
                      (''lease_expires_at'', jtext (timestamp (leased_at + ttl))),
                      (''lease_fence'', JInt attempt),
                      (''recovered_from_state'', jtext (operation_state_name (op_state current))),
                      (''worker_id'', jtext (worker_id worker))]) d1) (\<lambda>(_, d2).
          case tenant_operation (worker_tenant_id worker) (op_operation_id current) d2 of
            None \<Rightarrow> Inl (ControlPlaneIntegrityError ''leased deployment operation disappeared'')
          | Some updated \<Rightarrow>
              rbind (load_operation E updated) (\<lambda>operation. Inr (Some operation, d2))))))"

definition lease_next_deployment_operation ::
  "'e model_env_scheme \<Rightarrow> worker_identity \<Rightarrow> string \<Rightarrow> datetime \<Rightarrow> int \<Rightarrow> db
     \<Rightarrow> operation option result \<times> db" where
  "lease_next_deployment_operation E worker lease_token_digest leased_at ttl_seconds d =
     (case rbind (require_digest ''lease token digest'' lease_token_digest) (\<lambda>_.
           rbind (utc_second ''deployment lease time'' leased_at) (\<lambda>t.
           if ttl_seconds < 15 \<or> ttl_seconds > 3600
           then Inl (ValueError ''deployment lease TTL is outside the supported range'')
           else Inr t)) of
        Inl e \<Rightarrow> (Inl e, d)
      | Inr t \<Rightarrow> transaction (\<lambda>d. integrity_conflict ''deployment operation lease changed concurrently''
          (lease_body E worker lease_token_digest t ttl_seconds d)) d)"

text \<open>
  The lease a worker presents: the row must be leased to that worker, under that token and fence,
  and not expired at the reported instant.
\<close>

definition holds_lease :: "worker_identity \<Rightarrow> string \<Rightarrow> int \<Rightarrow> int \<Rightarrow> operation \<Rightarrow> bool" where
  "holds_lease worker token fence t p \<longleftrightarrow>
     op_state p = Leased \<and> op_lease_owner p = Some (worker_id worker)
     \<and> op_lease_token p = Some token \<and> op_lease_fence p = fence
     \<and> op_lease_expires_at p \<noteq> None \<and> t < the (op_lease_expires_at p)"

definition release_lease :: "operation \<Rightarrow> operation" where
  "release_lease p =
     p\<lparr>op_state_version := op_state_version p + 1, op_lease_owner := None, op_lease_token := None,
       op_leased_at := None, op_lease_expires_at := None\<rparr>"

definition applied_row :: "int \<Rightarrow> string \<Rightarrow> string \<Rightarrow> operation \<Rightarrow> operation" where
  "applied_row t digest receipt p = (release_lease p)\<lparr>op_state := Applied, op_applied_at := Some t,
     op_applied_digest := Some digest, op_target_receipt := Some receipt\<rparr>"

definition failed_row :: "int \<Rightarrow> string \<Rightarrow> int option \<Rightarrow> operation \<Rightarrow> operation" where
  "failed_row t failure retry p = (release_lease p)\<lparr>op_state := Failed, op_retry_at := retry,
     op_failed_at := Some t, op_failure_digest := Some failure\<rparr>"

definition stale_lease :: py_error where
  "stale_lease = ControlPlaneConflict ''deployment lease is stale or belongs to another worker''"

text \<open>
  The part \<open>acknowledge_deployment_applied\<close> and \<open>fail_deployment_operation\<close> share: the fenced
  check and UPDATE of the leased row, the audit event, and the row read back.
\<close>

definition close_lease ::
  "'e model_env_scheme \<Rightarrow> worker_identity \<Rightarrow> string \<Rightarrow> string \<Rightarrow> int \<Rightarrow> int \<Rightarrow> (operation \<Rightarrow> operation)
     \<Rightarrow> audit_action \<Rightarrow> (operation \<Rightarrow> json) \<Rightarrow> string \<Rightarrow> operation \<Rightarrow> operation body" where
  "close_lease E worker operation_id token fence t f action details gone current d =
     (if \<not> holds_lease worker token fence t current then Inl stale_lease
      else
      rbind (update_operations
        (\<lambda>p. op_tenant_id p = worker_tenant_id worker \<and> op_operation_id p = operation_id
             \<and> op_state_version p = op_state_version current \<and> holds_lease worker token fence t p)
        f d) (\<lambda>(rowcount, d1).
      if rowcount \<noteq> 1 then Inl stale_lease
      else
      rbind (append_audit E (Worker worker) action operation_id (instant t) (details current) d1)
        (\<lambda>(_, d2).
      case tenant_operation (worker_tenant_id worker) operation_id d2 of
        None \<Rightarrow> Inl (ControlPlaneIntegrityError gone)
      | Some updated \<Rightarrow>
          rbind (load_operation E updated) (\<lambda>operation. Inr (operation, d2)))))"

definition acknowledge_body ::
  "'e model_env_scheme \<Rightarrow> worker_identity \<Rightarrow> string \<Rightarrow> string \<Rightarrow> int \<Rightarrow> string \<Rightarrow> string \<Rightarrow> int
     \<Rightarrow> operation body" where
  "acknowledge_body E worker operation_id token fence applied_digest receipt applied_at d =
     (case tenant_operation (worker_tenant_id worker) operation_id d of
        None \<Rightarrow> Inl (ControlPlaneNotFound ''deployment operation was not found'')
      | Some row \<Rightarrow>
          rbind (load_operation E row) (\<lambda>current.
          if applied_digest \<noteq> op_configuration_digest current
          then Inl (ControlPlaneIntegrityError
                 ''target acknowledged a different configuration digest'')
          else close_lease E worker operation_id token fence applied_at
            (applied_row applied_at applied_digest receipt)
            DeploymentApplied
            (\<lambda>current. jobject
               [(''applied_configuration_digest'', jtext applied_digest),
                (''control_id'', jtext (op_control_id current)), (''lease_fence'', JInt fence),
                (''target_receipt_digest'', jtext receipt),
                (''worker_id'', jtext (worker_id worker))])
            ''applied deployment operation disappeared'' current d))"

definition acknowledge_deployment_applied ::
  "'e model_env_scheme \<Rightarrow> worker_identity \<Rightarrow> string \<Rightarrow> string \<Rightarrow> int \<Rightarrow> string \<Rightarrow> string \<Rightarrow> datetime \<Rightarrow> db
     \<Rightarrow> operation result \<times> db" where
  "acknowledge_deployment_applied E worker operation_id lease_token_digest lease_fence
       applied_configuration_digest target_receipt_digest applied_at d =
     (case rbind (require_digest ''lease token digest'' lease_token_digest) (\<lambda>_.
           rbind (require_digest ''applied configuration digest'' applied_configuration_digest) (\<lambda>_.
           rbind (require_digest ''target receipt digest'' target_receipt_digest) (\<lambda>_.
           if lease_fence < 1 then Inl (ValueError ''deployment lease fence is invalid'')
           else utc_second ''deployment application time'' applied_at))) of
        Inl e \<Rightarrow> (Inl e, d)
      | Inr t \<Rightarrow> transaction (acknowledge_body E worker operation_id lease_token_digest lease_fence
          applied_configuration_digest target_receipt_digest t) d)"

definition fail_body ::
  "'e model_env_scheme \<Rightarrow> worker_identity \<Rightarrow> string \<Rightarrow> string \<Rightarrow> int \<Rightarrow> string \<Rightarrow> int \<Rightarrow> int option
     \<Rightarrow> operation body" where
  "fail_body E worker operation_id token fence failure_digest failed_at retry_at d =
     (case tenant_operation (worker_tenant_id worker) operation_id d of
        None \<Rightarrow> Inl (ControlPlaneNotFound ''deployment operation was not found'')
      | Some row \<Rightarrow>
          rbind (load_operation E row) (\<lambda>current.
          close_lease E worker operation_id token fence failed_at
            (failed_row failed_at failure_digest retry_at)
            DeploymentFailed
            (\<lambda>current. jobject
               [(''control_id'', jtext (op_control_id current)),
                (''failure_digest'', jtext failure_digest), (''lease_fence'', JInt fence),
                (''retry_at'', jopt (map_option timestamp retry_at)),
                (''worker_id'', jtext (worker_id worker))])
            ''failed deployment operation disappeared'' current d))"

definition retry_second :: "int \<Rightarrow> datetime option \<Rightarrow> int option result" where
  "retry_second failed_at retry_at =
     (case retry_at of None \<Rightarrow> Inr None
      | Some value \<Rightarrow>
          rbind (utc_second ''deployment retry time'' value) (\<lambda>r.
          if r \<le> failed_at \<or> r > failed_at + 24 * 3600
          then Inl (ValueError ''deployment retry time is outside the supported range'')
          else Inr (Some r)))"

definition fail_deployment_operation ::
  "'e model_env_scheme \<Rightarrow> worker_identity \<Rightarrow> string \<Rightarrow> string \<Rightarrow> int \<Rightarrow> string \<Rightarrow> datetime
     \<Rightarrow> datetime option \<Rightarrow> db \<Rightarrow> operation result \<times> db" where
  "fail_deployment_operation E worker operation_id lease_token_digest lease_fence failure_digest
       failed_at retry_at d =
     (case rbind (require_digest ''lease token digest'' lease_token_digest) (\<lambda>_.
           rbind (require_digest ''failure digest'' failure_digest) (\<lambda>_.
           if lease_fence < 1 then Inl (ValueError ''deployment lease fence is invalid'')
           else rbind (utc_second ''deployment failure time'' failed_at) (\<lambda>t.
           rbind (retry_second t retry_at) (\<lambda>r. Inr (t, r))))) of
        Inl e \<Rightarrow> (Inl e, d)
      | Inr (t, r) \<Rightarrow> transaction (fail_body E worker operation_id lease_token_digest lease_fence
          failure_digest t r) d)"

section \<open>Reading and verifying the audit chain\<close>

definition audit_events ::
  "'e model_env_scheme \<Rightarrow> string \<Rightarrow> int \<Rightarrow> int \<Rightarrow> db \<Rightarrow> audit_event list result" where
  "audit_events E tenant_id after_sequence limit d =
     (if after_sequence < 0 then Inl (ValueError ''audit cursor is invalid'')
      else rbind (list_limit limit 10000 ''audit limit is outside the supported range'') (\<lambda>_.
      rmap (load_audit E) (take (nat limit) (order_by ev_sequence
        (where_rows (\<lambda>v. ev_tenant_id v = tenant_id \<and> ev_sequence v > after_sequence)
           (control_audit_events d))))))"

text \<open>The body of the loop of \<open>verify_audit_chain\<close> on one event.\<close>

definition verify_details :: "'e model_env_scheme \<Rightarrow> bytes \<Rightarrow> unit result" where
  "verify_details E b = on_error is_strict_json_error
     (ControlPlaneIntegrityError ''audit details are invalid'')
     (rbind (strict_json_loads E DETAIL_LIMITS b) (\<lambda>details.
      rbind (canonical_json_bytes E DETAIL_LIMITS details) (\<lambda>c.
      if c \<noteq> b then Inl (ControlPlaneIntegrityError ''audit details are not canonical'')
      else Inr ())))"

fun verify_events :: "'e model_env_scheme \<Rightarrow> audit_event list \<Rightarrow> int \<Rightarrow> string \<Rightarrow> (int \<times> string) result" where
  "verify_events E [] sequence previous = Inr (sequence, previous)"
| "verify_events E (v # vs) sequence previous =
     (if ev_sequence v \<noteq> sequence + 1 \<or> ev_previous_event_digest v \<noteq> previous
         \<or> sha256_bytes E (ev_event_bytes v) \<noteq> ev_event_digest v
      then Inl (ControlPlaneIntegrityError ''audit hash chain is broken'')
      else rbind (verify_details E (ev_details_bytes v)) (\<lambda>_.
        verify_events E vs (sequence + 1) (ev_event_digest v)))"

lemma verify_events_sequence:
  "verify_events E vs s p = Inr (s', p') \<Longrightarrow> s' = s + int (length vs)"
  by (induction vs arbitrary: s p) (fastforce simp: result_simps split: if_splits)+

lemma list_all2_in_right:
  "list_all2 P xs ys \<Longrightarrow> y \<in> set ys \<Longrightarrow> \<exists>x \<in> set xs. P x y"
  by (induction rule: list_all2_induct) auto

lemma load_audit_Inr: "load_audit E row = Inr v \<Longrightarrow> v = row \<and> validate_event E row = Inr row"
  by (auto simp: load_audit_def validate_event_def result_simps split: if_splits)

lemma audit_events_row:
  assumes "audit_events E t s n d = Inr vs" "v \<in> set vs"
  shows "v \<in> set (control_audit_events d)" "ev_tenant_id v = t" "ev_sequence v > s"
proof -
  have "list_all2 (\<lambda>x y. load_audit E x = Inr y) (take (nat n) (order_by ev_sequence
      (where_rows (\<lambda>v. ev_tenant_id v = t \<and> ev_sequence v > s) (control_audit_events d)))) vs"
    using assms(1) by (auto simp: audit_events_def result_simps rmap_Inr split: if_splits)
  then obtain x where x: "x \<in> set (take (nat n) (order_by ev_sequence
      (where_rows (\<lambda>v. ev_tenant_id v = t \<and> ev_sequence v > s) (control_audit_events d))))"
    "load_audit E x = Inr v"
    using list_all2_in_right [OF _ assms(2)] by blast
  then have "v = x" using load_audit_Inr by blast
  with x(1) have "v \<in> set (where_rows (\<lambda>v. ev_tenant_id v = t \<and> ev_sequence v > s)
      (control_audit_events d))"
    using in_set_takeD set_order_by(1) by metis
  then show "v \<in> set (control_audit_events d)" "ev_tenant_id v = t" "ev_sequence v > s"
    by (auto simp: table_simps)
qed

definition events_after :: "db \<Rightarrow> string \<Rightarrow> int \<Rightarrow> nat" where
  "events_after d t s =
     length (where_rows (\<lambda>v. ev_tenant_id v = t \<and> ev_sequence v > s) (control_audit_events d))"

lemma length_filter_less:
  "(\<And>y. Q y \<Longrightarrow> P y) \<Longrightarrow> x \<in> set xs \<Longrightarrow> P x \<Longrightarrow> \<not> Q x \<Longrightarrow>
    length (filter Q xs) < length (filter P xs)"
proof (induction xs)
  case (Cons a xs)
  have "length (filter Q xs) \<le> length (filter P xs)"
    using Cons.prems(1) by (induction xs) auto
  with Cons show ?case by fastforce
qed simp

lemma events_after_decreases:
  assumes "audit_events E t s n d = Inr vs" "vs \<noteq> []" "verify_events E vs s p = Inr (s', p')"
  shows "events_after d t s' < events_after d t s"
proof -
  obtain v vs' where vs: "vs = v # vs'" using assms(2) by (cases vs) auto
  then have v: "ev_sequence v = s + 1"
    using assms(3) by (auto split: if_splits)
  have "v \<in> set (control_audit_events d)" "ev_tenant_id v = t"
    using audit_events_row [OF assms(1), of v] vs by auto
  moreover have "s' \<ge> s + 1" using verify_events_sequence [OF assms(3)] vs by simp
  ultimately show ?thesis
    unfolding events_after_def where_rows_def
    using v by (intro length_filter_less [of _ _ v]) auto
qed

text \<open>
  The \<open>while True\<close> of \<open>verify_audit_chain\<close>, one page of at most 1000 events per round. It ends:
  a round that succeeds leaves fewer events after the cursor.
\<close>

function verify_pages ::
  "'e model_env_scheme \<Rightarrow> string \<Rightarrow> db \<Rightarrow> int \<Rightarrow> string \<Rightarrow> (int \<times> string) result" where
  "verify_pages E tenant_id d sequence previous =
     rbind (audit_events E tenant_id sequence 1000 d) (\<lambda>events.
     if events = [] then Inr (sequence, previous)
     else rbind (verify_events E events sequence previous) (\<lambda>(sequence', previous').
       if length events < 1000 then Inr (sequence', previous')
       else verify_pages E tenant_id d sequence' previous'))"
  by pat_completeness auto

termination
  by (relation "measure (\<lambda>(E, t, d, s, p). events_after d t s)") (auto intro: events_after_decreases)

declare verify_pages.simps [simp del]

definition verify_audit_chain ::
  "'e model_env_scheme \<Rightarrow> string \<Rightarrow> db \<Rightarrow> (int \<times> string) result" where
  "verify_audit_chain E tenant_id d = verify_pages E tenant_id d 0 GENESIS_DIGEST"

end
