(* ===== verification/Store_Spec.thy ===== *)
theory Store_Spec
  imports Store
begin

text \<open>
  What the store promises, independently of SQL: the invariant of the database and an abstract
  step relation, one rule per way a committed transaction can change the tables, with the proof
  that every step keeps the invariant and lets the tables only grow and only move along the
  allowed state arcs. \<open>Store_Refine\<close> shows that every method of the store takes such a step or
  leaves the database as it was.
\<close>

section \<open>The invariant\<close>

definition keys_ok :: "db \<Rightarrow> bool" where
  "keys_ok d \<longleftrightarrow>
     distinct (map rev_revision_id (control_revisions d))
     \<and> distinct (map revision_key (control_revisions d))
     \<and> distinct (map dec_revision_id (approval_decisions d))
     \<and> distinct (map deployment_key (active_deployments d))
     \<and> distinct (map op_operation_id (deployment_operations d))
     \<and> distinct (map operation_key (deployment_operations d))
     \<and> distinct (map ev_event_digest (control_audit_events d))"

text \<open>A revision counts its state changes, so its version is a function of its state.\<close>

fun version_of :: "revision_state \<Rightarrow> int" where
  "version_of Draft = 0"
| "version_of Submitted = 1"
| "version_of Approved = 2"
| "version_of Rejected = 2"
| "version_of Retired = 3"

definition in_flight :: "revision_state \<Rightarrow> bool" where
  "in_flight s \<longleftrightarrow> s \<in> {Draft, Submitted}"

definition same_lineage :: "revision \<Rightarrow> revision \<Rightarrow> bool" where
  "same_lineage q r \<longleftrightarrow> rev_tenant_id q = rev_tenant_id r \<and> rev_control_id q = rev_control_id r"

definition has_parent :: "revision set \<Rightarrow> revision \<Rightarrow> bool" where
  "has_parent rs r \<longleftrightarrow> rev_generation r = 1 \<and> rev_parent_revision_id r = None
     \<or> (\<exists>q \<in> rs. rev_parent_revision_id r = Some (rev_revision_id q) \<and> same_lineage q r
          \<and> rev_generation q = rev_generation r - 1 \<and> \<not> in_flight (rev_state q))"

definition revisions_ok :: "'e model_env_scheme \<Rightarrow> db \<Rightarrow> bool" where
  "revisions_ok E d \<longleftrightarrow> (\<forall>r \<in> set (control_revisions d).
     validate_revision E r = Inr r \<and> rev_state_version r = version_of (rev_state r)
     \<and> has_parent (set (control_revisions d)) r)"

text \<open>A decision and the state of the revision it decided.\<close>

definition decision_matches :: "approval_decision \<Rightarrow> revision \<Rightarrow> bool" where
  "decision_matches x r \<longleftrightarrow> rev_revision_id r = dec_revision_id x \<and> rev_tenant_id r = dec_tenant_id x
     \<and> rev_decided_at r = Some (dec_decided_at x)
     \<and> rev_state r \<in> (case dec_decision x of DecApproved \<Rightarrow> {Approved, Retired} | DecRejected \<Rightarrow> {Rejected})"

definition decisions_ok :: "'e model_env_scheme \<Rightarrow> db \<Rightarrow> bool" where
  "decisions_ok E d \<longleftrightarrow>
     (\<forall>x \<in> set (approval_decisions d). validate_decision E x = Inr x
        \<and> (\<exists>r \<in> set (control_revisions d). decision_matches x r))
     \<and> (\<forall>r \<in> set (control_revisions d). \<not> in_flight (rev_state r) \<longrightarrow>
          (\<exists>x \<in> set (approval_decisions d). dec_revision_id x = rev_revision_id r))"

definition pointers_ok :: "db \<Rightarrow> bool" where
  "pointers_ok d \<longleftrightarrow> (\<forall>x \<in> set (active_deployments d). validate_deployment x = Inr x
     \<and> (\<exists>r \<in> set (control_revisions d).
          rev_revision_id r = dep_revision_id x \<and> pointer_matches x (Some r)))"

text \<open>The revision an operation deploys: same control and digest, decided, and by another maker.\<close>

definition deploys :: "operation \<Rightarrow> revision \<Rightarrow> bool" where
  "deploys p r \<longleftrightarrow> rev_revision_id r = op_revision_id p \<and> rev_tenant_id r = op_tenant_id p
     \<and> rev_control_id r = op_control_id p \<and> rev_configuration_digest r = op_configuration_digest p
     \<and> rev_created_by r \<noteq> op_requested_by p \<and> rev_state r \<in> {Approved, Retired}"

definition earlier :: "operation \<Rightarrow> operation \<Rightarrow> bool" where
  "earlier p q \<longleftrightarrow> same_control (op_tenant_id p) (op_control_id p) q \<and> op_sequence q < op_sequence p"

text \<open>\<open>latest_applied_before ps p i\<close>: \<open>i\<close> names the applied operation that precedes \<open>p\<close>, if any.\<close>

definition latest_applied_before :: "operation set \<Rightarrow> operation \<Rightarrow> string option \<Rightarrow> bool" where
  "latest_applied_before ps p i \<longleftrightarrow> (case i of
       None \<Rightarrow> \<forall>q \<in> ps. earlier p q \<longrightarrow> op_state q \<noteq> Applied
     | Some i \<Rightarrow> \<exists>q \<in> ps. op_operation_id q = i \<and> earlier p q \<and> op_state q = Applied
         \<and> (\<forall>q' \<in> ps. earlier p q' \<and> op_state q' = Applied \<longrightarrow> op_sequence q' \<le> op_sequence q))"

definition follows :: "operation set \<Rightarrow> operation \<Rightarrow> bool" where
  "follows ps p \<longleftrightarrow> op_sequence p = 1
     \<or> (\<exists>q \<in> ps. same_control (op_tenant_id p) (op_control_id p) q
          \<and> op_sequence q = op_sequence p - 1)"

definition operations_ok :: "'e model_env_scheme \<Rightarrow> db \<Rightarrow> bool" where
  "operations_ok E d \<longleftrightarrow>
     (\<forall>p \<in> set (deployment_operations d). validate_operation E p = Inr p
        \<and> (\<exists>r \<in> set (control_revisions d). deploys p r)
        \<and> follows (set (deployment_operations d)) p
        \<and> (\<forall>q \<in> set (deployment_operations d). earlier p q \<longrightarrow> \<not> unresolved q)
        \<and> latest_applied_before (set (deployment_operations d)) p (op_predecessor p))"

text \<open>The hash chain of one tenant, from a starting sequence and digest.\<close>

fun linked :: "int \<Rightarrow> string \<Rightarrow> audit_event list \<Rightarrow> bool" where
  "linked s p [] = True"
| "linked s p (v # vs) \<longleftrightarrow> ev_sequence v = s + 1 \<and> ev_previous_event_digest v = p
     \<and> linked (s + 1) (ev_event_digest v) vs"

definition chain_head :: "audit_event list \<Rightarrow> string" where
  "chain_head vs = (if vs = [] then GENESIS_DIGEST else ev_event_digest (last vs))"

definition chain_ok :: "'e model_env_scheme \<Rightarrow> db \<Rightarrow> bool" where
  "chain_ok E d \<longleftrightarrow> (\<forall>t. linked 0 GENESIS_DIGEST (tenant_events t d))
     \<and> (\<forall>v \<in> set (control_audit_events d). validate_event E v = Inr v
          \<and> (\<exists>details. canonical_json_bytes E DETAIL_LIMITS details = Inr (ev_details_bytes v)))"

definition store_inv :: "'e model_env_scheme \<Rightarrow> db \<Rightarrow> bool" where
  "store_inv E d \<longleftrightarrow> keys_ok d \<and> revisions_ok E d \<and> decisions_ok E d \<and> pointers_ok d
     \<and> operations_ok E d \<and> chain_ok E d"

section \<open>The abstract steps\<close>

definition next_event :: "'e model_env_scheme \<Rightarrow> string \<Rightarrow> db \<Rightarrow> audit_event \<Rightarrow> bool" where
  "next_event E t d v \<longleftrightarrow> ev_tenant_id v = t \<and> validate_event E v = Inr v
     \<and> (\<exists>details. canonical_json_bytes E DETAIL_LIMITS details = Inr (ev_details_bytes v))
     \<and> ev_event_digest v \<notin> ev_event_digest ` set (control_audit_events d)
     \<and> (case fetchone (order_by_desc ev_sequence (tenant_events t d)) of
          None \<Rightarrow> ev_sequence v = 1 \<and> ev_previous_event_digest v = GENESIS_DIGEST
        | Some w \<Rightarrow> ev_sequence v = ev_sequence w + 1 \<and> ev_previous_event_digest v = ev_event_digest w)"

definition logged :: "audit_event \<Rightarrow> db \<Rightarrow> db" where
  "logged v d = d\<lparr>control_audit_events := control_audit_events d @ [v]\<rparr>"

definition new_draft :: "'e model_env_scheme \<Rightarrow> string \<Rightarrow> db \<Rightarrow> revision \<Rightarrow> bool" where
  "new_draft E t d r \<longleftrightarrow> rev_tenant_id r = t \<and> validate_revision E r = Inr r
     \<and> rev_state r = Draft \<and> rev_state_version r = 0
     \<and> rev_revision_id r \<notin> rev_revision_id ` set (control_revisions d)
     \<and> revision_key r \<notin> revision_key ` set (control_revisions d)
     \<and> has_parent (set (control_revisions d)) r"

definition moved :: "revision_state \<Rightarrow> int option \<Rightarrow> int option \<Rightarrow> revision \<Rightarrow> revision" where
  "moved s submitted decided r = r\<lparr>rev_state := s, rev_state_version := rev_state_version r + 1,
     rev_submitted_at := submitted, rev_decided_at := decided\<rparr>"

definition move_revision ::
  "revision \<Rightarrow> revision_state \<Rightarrow> int option \<Rightarrow> int option \<Rightarrow> db \<Rightarrow> db" where
  "move_revision r s submitted decided d = d\<lparr>control_revisions :=
     modify_row rev_revision_id (rev_revision_id r) (moved s submitted decided) (control_revisions d)\<rparr>"

definition new_decision :: "'e model_env_scheme \<Rightarrow> string \<Rightarrow> db \<Rightarrow> revision \<Rightarrow> approval_decision \<Rightarrow> bool" where
  "new_decision E t d r x \<longleftrightarrow> validate_decision E x = Inr x \<and> dec_tenant_id x = t
     \<and> dec_revision_id x = rev_revision_id r
     \<and> dec_revision_id x \<notin> dec_revision_id ` set (approval_decisions d)"

definition new_request :: "'e model_env_scheme \<Rightarrow> revision \<Rightarrow> db \<Rightarrow> operation \<Rightarrow> db \<Rightarrow> bool" where
  "new_request E r d p d' \<longleftrightarrow> insert_operation p d = Inr d' \<and> validate_operation E p = Inr p
     \<and> op_state p = Pending \<and> op_tenant_id p = rev_tenant_id r \<and> op_control_id p = rev_control_id r
     \<and> op_revision_id p = rev_revision_id r
     \<and> \<not> list_ex (\<lambda>q. same_control (op_tenant_id p) (op_control_id p) q \<and> unresolved q)
           (deployment_operations d)"

definition selects :: "revision \<Rightarrow> active_deployment \<Rightarrow> bool" where
  "selects r x \<longleftrightarrow> validate_deployment x = Inr x \<and> dep_tenant_id x = rev_tenant_id r
     \<and> dep_control_id x = rev_control_id r \<and> dep_revision_id x = rev_revision_id r
     \<and> dep_configuration_digest x = rev_configuration_digest r"

definition move_operation :: "operation \<Rightarrow> operation \<Rightarrow> db \<Rightarrow> db" where
  "move_operation p p' d = d\<lparr>deployment_operations :=
     modify_row op_operation_id (op_operation_id p) (\<lambda>_. p') (deployment_operations d)\<rparr>"

definition same_request :: "operation \<Rightarrow> operation \<Rightarrow> bool" where
  "same_request p p' \<longleftrightarrow> op_operation_id p' = op_operation_id p \<and> op_tenant_id p' = op_tenant_id p
     \<and> op_control_id p' = op_control_id p \<and> op_sequence p' = op_sequence p \<and> op_kind p' = op_kind p
     \<and> op_revision_id p' = op_revision_id p \<and> op_configuration_digest p' = op_configuration_digest p
     \<and> op_predecessor p' = op_predecessor p \<and> op_retry_of p' = op_retry_of p
     \<and> op_requested_by p' = op_requested_by p \<and> op_requested_at p' = op_requested_at p
     \<and> op_requester_session p' = op_requester_session p"

text \<open>The three ways an operation moves: claimed, closed as applied, closed as failed.\<close>

definition claimed :: "operation \<Rightarrow> operation \<Rightarrow> bool" where
  "claimed p p' \<longleftrightarrow> (\<exists>now. eligible now p \<and> op_leased_at p' = Some now
     \<and> op_state p' = Leased \<and> op_lease_fence p' = op_attempt_count p + 1)"

definition closed :: "operation \<Rightarrow> operation \<Rightarrow> bool" where
  "closed p p' \<longleftrightarrow> op_state p = Leased \<and> op_state p' \<in> {Applied, Failed}
     \<and> op_lease_fence p' = op_lease_fence p"

definition op_move :: "'e model_env_scheme \<Rightarrow> operation \<Rightarrow> operation \<Rightarrow> bool" where
  "op_move E p p' \<longleftrightarrow> same_request p p' \<and> validate_operation E p' = Inr p'
     \<and> op_state_version p' = op_state_version p + 1 \<and> (claimed p p' \<or> closed p p')"

inductive store_step :: "'e model_env_scheme \<Rightarrow> string \<Rightarrow> db \<Rightarrow> db \<Rightarrow> bool" for E t where
  draft: "new_draft E t d r \<Longrightarrow> next_event E t d v \<Longrightarrow>
    store_step E t d (logged v (d\<lparr>control_revisions := control_revisions d @ [r]\<rparr>))"
| submitted: "r \<in> set (control_revisions d) \<Longrightarrow> rev_tenant_id r = t \<Longrightarrow> rev_state r = Draft \<Longrightarrow>
    next_event E t d v \<Longrightarrow>
    store_step E t d (logged v (move_revision r Submitted (Some s) (rev_decided_at r) d))"
| decided: "r \<in> set (control_revisions d) \<Longrightarrow> rev_tenant_id r = t \<Longrightarrow> rev_state r = Submitted \<Longrightarrow>
    new_decision E t d r x \<Longrightarrow> next_event E t d v \<Longrightarrow>
    store_step E t d (logged v ((move_revision r (decided_state (dec_decision x)) (rev_submitted_at r)
      (Some (dec_decided_at x)) d)\<lparr>approval_decisions := approval_decisions d @ [x]\<rparr>))"
| selected_first: "r \<in> set (control_revisions d) \<Longrightarrow> rev_tenant_id r = t \<Longrightarrow> rev_state r = Approved \<Longrightarrow>
    selects r x \<Longrightarrow> deployment_key x \<notin> deployment_key ` set (active_deployments d) \<Longrightarrow>
    new_request E r (d\<lparr>active_deployments := active_deployments d @ [x]\<rparr>) p d' \<Longrightarrow>
    next_event E t d v \<Longrightarrow> store_step E t d (logged v d')"
| selected_next: "r \<in> set (control_revisions d) \<Longrightarrow> rev_tenant_id r = t \<Longrightarrow> rev_state r = Approved \<Longrightarrow>
    x \<in> set (active_deployments d) \<Longrightarrow> selects r x' \<Longrightarrow> deployment_key x = deployment_key x' \<Longrightarrow>
    dep_deployment_version x' = dep_deployment_version x + 1 \<Longrightarrow>
    q \<in> set (control_revisions d) \<Longrightarrow> rev_revision_id q = dep_revision_id x \<Longrightarrow> q \<noteq> r \<Longrightarrow>
    new_request E r ((move_revision q Retired (rev_submitted_at q) (rev_decided_at q) d)
      \<lparr>active_deployments := modify_row deployment_key (deployment_key x) (\<lambda>_. x')
         (active_deployments d)\<rparr>) p d' \<Longrightarrow>
    next_event E t d v \<Longrightarrow> store_step E t d (logged v d')"
| requested: "r \<in> set (control_revisions d) \<Longrightarrow> rev_tenant_id r = t \<Longrightarrow> new_request E r d p d' \<Longrightarrow>
    next_event E t d v \<Longrightarrow> store_step E t d (logged v d')"
| operated: "p \<in> set (deployment_operations d) \<Longrightarrow> op_tenant_id p = t \<Longrightarrow> op_move E p p' \<Longrightarrow>
    next_event E t d v \<Longrightarrow> store_step E t d (logged v (move_operation p p' d))"

inductive_cases store_stepE: "store_step E t d d'"

inductive reachable :: "'e model_env_scheme \<Rightarrow> db \<Rightarrow> bool" for E where
  initial: "reachable E empty_db"
| step: "reachable E d \<Longrightarrow> store_step E t d d' \<Longrightarrow> reachable E d'"


section \<open>Tables under single-row changes\<close>

lemma set_modify_row:
  assumes "distinct (map key rows)" "r \<in> set rows"
  shows "set (modify_row key (key r) f rows) = insert (f r) (set rows - {r})"
proof -
  have "{x \<in> set rows. key x = key r} = {r}"
    using assms by (auto simp: distinct_map inj_on_def)
  moreover have "{x \<in> set rows. key x \<noteq> key r} = set rows - {r}"
    using assms by (auto simp: distinct_map inj_on_def)
  ultimately show ?thesis
    by (auto simp: modify_row_def set_update_where)
qed

lemma map_modify_row:
  "(\<And>r. r \<in> set rows \<Longrightarrow> key r = k \<Longrightarrow> g (f r) = g r) \<Longrightarrow>
    map g (modify_row key k f rows) = map g rows"
  by (auto simp: modify_row_def update_where_def)

lemma moved_simps [simp]:
  "rev_revision_id (moved s a b r) = rev_revision_id r" "rev_tenant_id (moved s a b r) = rev_tenant_id r"
  "rev_control_id (moved s a b r) = rev_control_id r" "rev_generation (moved s a b r) = rev_generation r"
  "rev_parent_revision_id (moved s a b r) = rev_parent_revision_id r"
  "rev_configuration_digest (moved s a b r) = rev_configuration_digest r"
  "rev_configuration_bytes (moved s a b r) = rev_configuration_bytes r"
  "rev_created_by (moved s a b r) = rev_created_by r" "rev_created_at (moved s a b r) = rev_created_at r"
  "rev_state (moved s a b r) = s" "rev_state_version (moved s a b r) = rev_state_version r + 1"
  "rev_submitted_at (moved s a b r) = a" "rev_decided_at (moved s a b r) = b"
  "revision_key (moved s a b r) = revision_key r"
  by (simp_all add: moved_def revision_key_def)

lemma table_fields [simp]:
  "control_revisions (logged v d) = control_revisions d"
  "approval_decisions (logged v d) = approval_decisions d"
  "active_deployments (logged v d) = active_deployments d"
  "deployment_operations (logged v d) = deployment_operations d"
  "control_audit_events (logged v d) = control_audit_events d @ [v]"
  "approval_decisions (move_revision r s a b d) = approval_decisions d"
  "active_deployments (move_revision r s a b d) = active_deployments d"
  "deployment_operations (move_revision r s a b d) = deployment_operations d"
  "control_audit_events (move_revision r s a b d) = control_audit_events d"
  "control_revisions (move_operation p p' d) = control_revisions d"
  "approval_decisions (move_operation p p' d) = approval_decisions d"
  "active_deployments (move_operation p p' d) = active_deployments d"
  "control_audit_events (move_operation p p' d) = control_audit_events d"
  by (simp_all add: logged_def move_revision_def move_operation_def)

lemma keys_ok_D:
  "keys_ok d \<Longrightarrow> distinct (map rev_revision_id (control_revisions d))"
  "keys_ok d \<Longrightarrow> distinct (map revision_key (control_revisions d))"
  "keys_ok d \<Longrightarrow> distinct (map dec_revision_id (approval_decisions d))"
  "keys_ok d \<Longrightarrow> distinct (map deployment_key (active_deployments d))"
  "keys_ok d \<Longrightarrow> distinct (map op_operation_id (deployment_operations d))"
  "keys_ok d \<Longrightarrow> distinct (map operation_key (deployment_operations d))"
  "keys_ok d \<Longrightarrow> distinct (map ev_event_digest (control_audit_events d))"
  by (auto simp: keys_ok_def)

lemma revisions_after_move:
  assumes "keys_ok d" "r \<in> set (control_revisions d)"
  shows "set (control_revisions (move_revision r s a b d)) =
    insert (moved s a b r) (set (control_revisions d) - {r})"
  unfolding move_revision_def
  using set_modify_row [OF keys_ok_D(1) [OF assms(1)] assms(2)] by simp

lemma operations_after_move:
  assumes "keys_ok d" "p \<in> set (deployment_operations d)"
  shows "set (deployment_operations (move_operation p p' d)) =
    insert p' (set (deployment_operations d) - {p})"
  unfolding move_operation_def
  using set_modify_row [OF keys_ok_D(5) [OF assms(1)] assms(2)] by simp

lemma revision_unique:
  "keys_ok d \<Longrightarrow> r \<in> set (control_revisions d) \<Longrightarrow> q \<in> set (control_revisions d) \<Longrightarrow>
    rev_revision_id r = rev_revision_id q \<Longrightarrow> r = q"
  by (rule revision_table.find_unique [OF keys_ok_D(1)])

lemma operation_unique:
  "keys_ok d \<Longrightarrow> p \<in> set (deployment_operations d) \<Longrightarrow> q \<in> set (deployment_operations d) \<Longrightarrow>
    op_operation_id p = op_operation_id q \<Longrightarrow> p = q"
  by (rule operation_table.find_unique [OF keys_ok_D(5)])

lemma insert_operation_Inr: "insert_operation p d = Inr d' \<longleftrightarrow>
    d' = d\<lparr>deployment_operations := deployment_operations d @ [p]\<rparr>
    \<and> op_operation_id p \<notin> op_operation_id ` set (deployment_operations d)
    \<and> operation_key p \<notin> operation_key ` set (deployment_operations d)
    \<and> revision_exists d (op_revision_id p)
    \<and> opt_ok (operation_exists d) (op_predecessor p) \<and> opt_ok (operation_exists d) (op_retry_of p)
    \<and> operation_row_check p \<and> insert_guard d p \<and> one_unresolved (deployment_operations d @ [p])"
  by (auto simp: insert_operation_def result_simps operation_exists_iff)

section \<open>Every step keeps the invariant\<close>

subsection \<open>Keys\<close>

lemma keys_ok_logged: "keys_ok d \<Longrightarrow> next_event E t d v \<Longrightarrow> keys_ok (logged v d)"
  by (auto simp: keys_ok_def next_event_def)

lemma keys_ok_move_revision: "keys_ok d \<Longrightarrow> keys_ok (move_revision r s a b d)"
  by (simp add: keys_ok_def move_revision_def map_modify_row)

lemma keys_ok_move_operation:
  assumes "keys_ok d" "p \<in> set (deployment_operations d)" "same_request p p'"
  shows "keys_ok (move_operation p p' d)"
proof -
  have "operation_key p' = operation_key q"
    if "q \<in> set (deployment_operations d)" "op_operation_id q = op_operation_id p" for q
    using operation_unique [OF assms(1,2) that(1)] that(2) assms(3)
    by (simp add: same_request_def operation_key_def)
  then have "map op_operation_id (modify_row op_operation_id (op_operation_id p) (\<lambda>_. p')
      (deployment_operations d)) = map op_operation_id (deployment_operations d)"
    "map operation_key (modify_row op_operation_id (op_operation_id p) (\<lambda>_. p')
      (deployment_operations d)) = map operation_key (deployment_operations d)"
    using assms(3) by (auto intro!: map_modify_row simp: same_request_def)
  then show ?thesis using assms(1) by (simp add: keys_ok_def move_operation_def)
qed

lemma keys_ok_request: "keys_ok d \<Longrightarrow> new_request E r d p d' \<Longrightarrow> keys_ok d'"
  by (auto simp: new_request_def insert_operation_Inr keys_ok_def)

lemma keys_ok_insert_revision:
  "keys_ok d \<Longrightarrow> new_draft E t d r \<Longrightarrow> keys_ok (d\<lparr>control_revisions := control_revisions d @ [r]\<rparr>)"
  by (auto simp: keys_ok_def new_draft_def)

lemma keys_ok_insert_decision:
  "keys_ok d \<Longrightarrow> new_decision E t d r x \<Longrightarrow>
    keys_ok (d\<lparr>approval_decisions := approval_decisions d @ [x]\<rparr>)"
  by (auto simp: keys_ok_def new_decision_def)

lemma keys_ok_insert_deployment:
  "keys_ok d \<Longrightarrow> deployment_key x \<notin> deployment_key ` set (active_deployments d) \<Longrightarrow>
    keys_ok (d\<lparr>active_deployments := active_deployments d @ [x]\<rparr>)"
  by (auto simp: keys_ok_def)

lemma keys_ok_modify_deployment:
  "keys_ok d \<Longrightarrow> deployment_key x' = deployment_key x \<Longrightarrow>
    keys_ok (d\<lparr>active_deployments := modify_row deployment_key (deployment_key x) (\<lambda>_. x')
      (active_deployments d)\<rparr>)"
  by (simp add: keys_ok_def map_modify_row)

lemmas keys_ok_intros = keys_ok_logged keys_ok_move_revision keys_ok_move_operation keys_ok_request
  keys_ok_insert_revision keys_ok_insert_decision keys_ok_insert_deployment
  keys_ok_modify_deployment

subsection \<open>Revisions, decisions and pointers\<close>

text \<open>
  Validation of a row whose immutable content did not change: only the counters and instants
  have to be looked at again.
\<close>

definition content_ok :: "'e model_env_scheme \<Rightarrow> revision \<Rightarrow> bool" where
  "content_ok E r \<longleftrightarrow> sha256_bytes E (rev_configuration_bytes r) = rev_configuration_digest r
     \<and> (\<exists>c. model_validate_json E (rev_configuration_bytes r) = Some c
          \<and> cfg_tenant_id c = rev_tenant_id r \<and> cfg_control_id c = rev_control_id r)
     \<and> field_error (revision_identity E (rev_tenant_id r) (rev_control_id r) (rev_generation r)
          (rev_parent_revision_id r) (rev_configuration_digest r)) = Inr (rev_revision_id r)"

lemma validate_revision_iff:
  "validate_revision E r = Inr r' \<longleftrightarrow>
     r' = r \<and> revision_fields_ok r \<and> content_ok E r \<and> revision_lifecycle_checks r = Inr ()"
  unfolding validate_revision_def content_ok_def
  by (cases "model_validate_json E (rev_configuration_bytes r)") (auto simp: rbind_eq_Inr)

lemma content_ok_moved [simp]: "content_ok E (moved s a b r) = content_ok E r"
  by (simp add: content_ok_def)

lemma lifecycle_checks_iff:
  "revision_lifecycle_checks r = Inr () \<longleftrightarrow>
     (rev_generation r = 1 \<longrightarrow> rev_parent_revision_id r = None)
     \<and> (rev_generation r > 1 \<longrightarrow> rev_parent_revision_id r \<noteq> None)
     \<and> (rev_state r = Draft \<longrightarrow> rev_submitted_at r = None \<and> rev_decided_at r = None)
     \<and> (rev_state r = Submitted \<longrightarrow> rev_submitted_at r \<noteq> None \<and> rev_decided_at r = None)
     \<and> (rev_state r \<in> {Approved, Rejected} \<longrightarrow> rev_submitted_at r \<noteq> None \<and> rev_decided_at r \<noteq> None)"
  by (auto simp: revision_lifecycle_checks_def)

lemma validate_revision_moved:
  assumes "validate_revision E r = Inr r" "between 0 INT64_MAX (rev_state_version r + 1)"
    and "s = Submitted \<and> a \<noteq> None \<and> b = None \<or> s \<in> {Approved, Rejected} \<and> a \<noteq> None \<and> b \<noteq> None
      \<or> s = Retired"
  shows "validate_revision E (moved s a b r) = Inr (moved s a b r)"
proof -
  have "revision_fields_ok (moved s a b r)"
    using assms(1,2) by (auto simp: validate_revision_iff revision_fields_ok_def)
  moreover have "revision_lifecycle_checks (moved s a b r) = Inr ()"
    using assms(1,3) by (auto simp: validate_revision_iff lifecycle_checks_iff)
  ultimately show ?thesis
    using assms(1) by (simp add: validate_revision_iff)
qed

lemma submitted_instant:
  "validate_revision E r = Inr r \<Longrightarrow> rev_state r \<in> {Submitted, Approved, Rejected} \<Longrightarrow>
    rev_submitted_at r \<noteq> None"
  "validate_revision E r = Inr r \<Longrightarrow> rev_state r = Draft \<Longrightarrow> rev_decided_at r = None"
  by (auto simp: validate_revision_iff lifecycle_checks_iff)

lemma has_parent_mono: "has_parent A r \<Longrightarrow> A \<subseteq> B \<Longrightarrow> has_parent B r"
  unfolding has_parent_def by blast

text \<open>The arcs a revision moves along; the parent of a later generation is never in flight.\<close>

definition arc :: "revision_state \<Rightarrow> revision_state \<Rightarrow> bool" where
  "arc s s' \<longleftrightarrow> s = Draft \<and> s' = Submitted \<or> s = Submitted \<and> s' \<in> {Approved, Rejected}
     \<or> s = Approved \<and> s' = Retired"

lemma has_parent_moved:
  assumes "has_parent A q" "arc (rev_state r) s"
  shows "has_parent (insert (moved s a b r) (A - {r})) q"
proof (cases "rev_generation q = 1 \<and> rev_parent_revision_id q = None")
  case False
  then obtain o' where o: "o' \<in> A" "rev_parent_revision_id q = Some (rev_revision_id o')"
      "same_lineage o' q" "rev_generation o' = rev_generation q - 1" "\<not> in_flight (rev_state o')"
    using assms(1) unfolding has_parent_def by blast
  let ?o = "if o' = r then moved s a b r else o'"
  have "?o \<in> insert (moved s a b r) (A - {r})" "\<not> in_flight (rev_state ?o)"
    using o assms(2) by (auto simp: arc_def in_flight_def)
  moreover have "rev_revision_id ?o = rev_revision_id o'" "same_lineage ?o q"
    "rev_generation ?o = rev_generation q - 1"
    using o by (auto simp: same_lineage_def)
  ultimately show ?thesis unfolding has_parent_def using o(2) by (intro disjI2 bexI [of _ ?o]) auto
qed (simp add: has_parent_def)

lemma has_parent_self [simp]: "has_parent A (moved s a b r) \<longleftrightarrow> has_parent A r"
  by (simp add: has_parent_def same_lineage_def)

definition lifecycle_arc ::
  "revision \<Rightarrow> revision_state \<Rightarrow> int option \<Rightarrow> int option \<Rightarrow> bool" where
  "lifecycle_arc r s a b \<longleftrightarrow> arc (rev_state r) s
     \<and> (s = Submitted \<longrightarrow> a \<noteq> None \<and> b = rev_decided_at r)
     \<and> (s \<in> {Approved, Rejected} \<longrightarrow> a = rev_submitted_at r \<and> b \<noteq> None)"

lemma version_of_arc: "arc s s' \<Longrightarrow> version_of s' = version_of s + 1"
  by (auto simp: arc_def)

lemma revisions_ok_move:
  assumes "keys_ok d" "revisions_ok E d" "r \<in> set (control_revisions d)" "lifecycle_arc r s a b"
  shows "revisions_ok E (move_revision r s a b d)"
proof -
  have arc: "arc (rev_state r) s" using assms(4) by (simp add: lifecycle_arc_def)
  have r: "validate_revision E r = Inr r" "rev_state_version r = version_of (rev_state r)"
    "has_parent (set (control_revisions d)) r"
    using assms(2,3) by (auto simp: revisions_ok_def)
  have "between 0 INT64_MAX (rev_state_version r + 1)"
    using r(2) by (cases "rev_state r") (auto simp: between_def INT64_MAX_def)
  moreover have "s = Submitted \<and> a \<noteq> None \<and> b = None
      \<or> s \<in> {Approved, Rejected} \<and> a \<noteq> None \<and> b \<noteq> None \<or> s = Retired"
    using assms(4) submitted_instant [OF r(1)] by (auto simp: lifecycle_arc_def arc_def)
  ultimately have "validate_revision E (moved s a b r) = Inr (moved s a b r)"
    by (rule validate_revision_moved [OF r(1)])
  moreover have "has_parent (insert (moved s a b r) (set (control_revisions d) - {r})) q"
    if "q \<in> set (control_revisions d)" for q
    using assms(2) that by (intro has_parent_moved [OF _ arc]) (auto simp: revisions_ok_def)
  ultimately show ?thesis
    using assms(2,3) r(2) version_of_arc [OF arc]
    unfolding revisions_ok_def revisions_after_move [OF assms(1,3)] by auto
qed

lemma revisions_ok_draft:
  assumes "revisions_ok E d" "new_draft E t d r"
  shows "revisions_ok E (d\<lparr>control_revisions := control_revisions d @ [r]\<rparr>)"
proof -
  have "has_parent (insert r (set (control_revisions d))) q"
    if "has_parent (set (control_revisions d)) q" for q
    using that by (rule has_parent_mono) auto
  then show ?thesis using assms by (auto simp: revisions_ok_def new_draft_def)
qed

lemma decisions_ok_move:
  assumes "keys_ok d" "decisions_ok E d" "r \<in> set (control_revisions d)" "lifecycle_arc r s a b"
    and "s = Submitted \<or> s = Retired \<and> b = rev_decided_at r"
  shows "decisions_ok E (move_revision r s a b d)"
proof -
  have arc: "arc (rev_state r) s" using assms(4) by (simp add: lifecycle_arc_def)
  have "\<exists>q \<in> insert (moved s a b r) (set (control_revisions d) - {r}). decision_matches x q"
    if x: "x \<in> set (approval_decisions d)" for x
  proof -
    obtain q where q: "q \<in> set (control_revisions d)" "decision_matches x q"
      using assms(2) x by (auto simp: decisions_ok_def)
    show ?thesis
    proof (cases "q = r")
      case True
      then have "decision_matches x (moved s a b r)"
        using q(2) assms(5) arc
        by (auto simp: decision_matches_def arc_def split: decision_kind.splits)
      then show ?thesis by blast
    qed (use q in blast)
  qed
  moreover have "s = Retired \<Longrightarrow> \<not> in_flight (rev_state r)"
    using arc by (auto simp: arc_def in_flight_def)
  ultimately show ?thesis
    using assms(2,3,5) unfolding decisions_ok_def revisions_after_move [OF assms(1,3)]
    by (auto simp: in_flight_def)
qed

lemma decisions_ok_decide:
  assumes "keys_ok d" "decisions_ok E d" "r \<in> set (control_revisions d)" "rev_state r = Submitted"
    and "new_decision E (rev_tenant_id r) d r x"
  shows "decisions_ok E ((move_revision r (decided_state (dec_decision x)) (rev_submitted_at r)
    (Some (dec_decided_at x)) d)\<lparr>approval_decisions := approval_decisions d @ [x]\<rparr>)"
proof -
  let ?r = "moved (decided_state (dec_decision x)) (rev_submitted_at r) (Some (dec_decided_at x)) r"
  have x: "decision_matches x ?r" "validate_decision E x = Inr x" "dec_revision_id x = rev_revision_id r"
    using assms(5) by (auto simp: new_decision_def decision_matches_def split: decision_kind.splits)
  have old: "\<exists>q \<in> insert ?r (set (control_revisions d) - {r}). decision_matches y q"
    if y: "y \<in> set (approval_decisions d)" for y
  proof -
    obtain q where "q \<in> set (control_revisions d)" "decision_matches y q"
      using assms(2) y by (auto simp: decisions_ok_def)
    moreover have "q \<noteq> r" if "decision_matches y q" for q
      using that assms(4) by (auto simp: decision_matches_def split: decision_kind.splits)
    ultimately show ?thesis by blast
  qed
  have "set (control_revisions ((move_revision r (decided_state (dec_decision x)) (rev_submitted_at r)
    (Some (dec_decided_at x)) d)\<lparr>approval_decisions := approval_decisions d @ [x]\<rparr>))
    = insert ?r (set (control_revisions d) - {r})"
    using revisions_after_move [OF assms(1,3)] by simp
  with x old assms(2) show ?thesis
    unfolding decisions_ok_def by (auto simp: in_flight_def)
qed

lemma pointers_ok_move:
  assumes "keys_ok d" "pointers_ok d" "r \<in> set (control_revisions d)" "rev_state r \<noteq> Approved"
  shows "pointers_ok (move_revision r s a b d)"
proof -
  have "\<exists>q \<in> insert (moved s a b r) (set (control_revisions d) - {r}).
      rev_revision_id q = dep_revision_id x \<and> pointer_matches x (Some q)"
    if x: "x \<in> set (active_deployments d)" for x
  proof -
    obtain q where "q \<in> set (control_revisions d)" "rev_revision_id q = dep_revision_id x"
      "pointer_matches x (Some q)"
      using assms(2) x by (auto simp: pointers_ok_def)
    moreover from this have "q \<noteq> r" using assms(4) by (auto simp: pointer_matches_def)
    ultimately show ?thesis by blast
  qed
  then show ?thesis
    using assms(2) unfolding pointers_ok_def revisions_after_move [OF assms(1,3)] by auto
qed

lemma selects_matches:
  "selects r x \<Longrightarrow> rev_state r = Approved \<Longrightarrow> pointer_matches x (Some r)"
  by (simp add: selects_def pointer_matches_def)

lemma pointers_ok_first:
  assumes "pointers_ok d" "r \<in> set (control_revisions d)" "rev_state r = Approved" "selects r x"
  shows "pointers_ok (d\<lparr>active_deployments := active_deployments d @ [x]\<rparr>)"
  using assms selects_matches [OF assms(4,3)] by (auto simp: pointers_ok_def selects_def)

lemma pointers_ok_next:
  assumes "keys_ok d" "pointers_ok d" "r \<in> set (control_revisions d)" "rev_state r = Approved"
    and "x \<in> set (active_deployments d)" "selects r x'" "deployment_key x = deployment_key x'"
    and "q \<in> set (control_revisions d)" "rev_revision_id q = dep_revision_id x" "q \<noteq> r"
  shows "pointers_ok ((move_revision q s a b d)
    \<lparr>active_deployments := modify_row deployment_key (deployment_key x) (\<lambda>_. x') (active_deployments d)\<rparr>)"
    (is "pointers_ok ?d")
proof -
  have revs: "set (control_revisions ?d) = insert (moved s a b q) (set (control_revisions d) - {q})"
    using revisions_after_move [OF assms(1,8)] by simp
  have deps: "set (active_deployments ?d) = insert x' (set (active_deployments d) - {x})"
    using set_modify_row [OF keys_ok_D(4) [OF assms(1)] assms(5)] by simp
  have qx: "pointer_matches x (Some q)"
  proof -
    obtain q' where "q' \<in> set (control_revisions d)" "rev_revision_id q' = dep_revision_id x"
      "pointer_matches x (Some q')"
      using assms(2,5) by (auto simp: pointers_ok_def)
    then show ?thesis using revision_unique [OF assms(1) assms(8)] assms(9) by metis
  qed
  have "\<exists>o' \<in> set (control_revisions ?d). rev_revision_id o' = dep_revision_id y
      \<and> pointer_matches y (Some o')"
    if y: "y \<in> set (active_deployments d)" "y \<noteq> x" for y
  proof -
    obtain o' where o: "o' \<in> set (control_revisions d)" "rev_revision_id o' = dep_revision_id y"
      "pointer_matches y (Some o')"
      using assms(2) y by (auto simp: pointers_ok_def)
    have "o' \<noteq> q"
    proof
      assume "o' = q"
      then have "deployment_key y = deployment_key x"
        using o(3) qx by (auto simp: pointer_matches_def deployment_key_def)
      then show False
        using deployment_table.find_unique [OF keys_ok_D(4) [OF assms(1)]] y assms(5) by blast
    qed
    then show ?thesis using o revs by auto
  qed
  moreover have "r \<in> set (control_revisions ?d)" using revs assms(3,10) by simp
  ultimately show ?thesis
    using assms(2) selects_matches [OF assms(6,4)] assms(6)
    unfolding pointers_ok_def deps by (auto simp: selects_def)
qed

subsection \<open>Operations\<close>

lemma operations_ok_D:
  assumes "operations_ok E d" "p \<in> set (deployment_operations d)"
  shows "validate_operation E p = Inr p" "\<exists>r \<in> set (control_revisions d). deploys p r"
    "follows (set (deployment_operations d)) p"
    "\<And>q. q \<in> set (deployment_operations d) \<Longrightarrow> earlier p q \<Longrightarrow> \<not> unresolved q"
    "latest_applied_before (set (deployment_operations d)) p (op_predecessor p)"
  using assms unfolding operations_ok_def by simp_all

lemma operations_ok_move_revision:
  assumes "keys_ok d" "operations_ok E d" "r \<in> set (control_revisions d)" "arc (rev_state r) s"
  shows "operations_ok E (move_revision r s a b d)"
proof -
  have "\<exists>q \<in> insert (moved s a b r) (set (control_revisions d) - {r}). deploys p q"
    if p: "p \<in> set (deployment_operations d)" for p
  proof -
    obtain q where q: "q \<in> set (control_revisions d)" "deploys p q"
      using operations_ok_D(2) [OF assms(2) p] by blast
    have "q = r \<Longrightarrow> deploys p (moved s a b r)"
      using q(2) assms(4) by (auto simp: deploys_def arc_def)
    then show ?thesis using q by blast
  qed
  then show ?thesis
    using assms(2) unfolding operations_ok_def revisions_after_move [OF assms(1,3)] by auto
qed

lemma operations_ok_mono:
  assumes "operations_ok E d" "set (control_revisions d) \<subseteq> set (control_revisions d')"
    and "deployment_operations d' = deployment_operations d"
  shows "operations_ok E d'"
  using assms unfolding operations_ok_def by (metis subsetD)

lemma next_sequence_above:
  "q \<in> set ps \<Longrightarrow> same_control t c q \<Longrightarrow> op_sequence q < next_sequence t c ps"
  using max_or_zero_ge [of q "where_rows (same_control t c) ps" op_sequence]
  by (simp add: next_sequence_def table_simps)

lemma next_sequence_follows:
  "next_sequence t c ps = 1 \<or> (\<exists>q \<in> set ps. same_control t c q \<and> op_sequence q = next_sequence t c ps - 1)"
proof (cases "where_rows (same_control t c) ps = []")
  case False
  from max_or_zero_in [OF this, of op_sequence] show ?thesis
    by (auto simp: next_sequence_def table_simps)
qed (simp add: next_sequence_def)

lemma latest_applied_row_Some:
  assumes "latest_applied_row t c ps = Some q"
  shows "q \<in> set ps" "same_control t c q" "op_state q = Applied"
    "\<And>q'. q' \<in> set ps \<Longrightarrow> same_control t c q' \<Longrightarrow> op_state q' = Applied \<Longrightarrow> op_sequence q' \<le> op_sequence q"
  using fetchone_order_by_desc [OF assms [unfolded latest_applied_row_def]]
  by (auto simp: table_simps)

lemma latest_applied_row_None:
  "latest_applied_row t c ps = None \<Longrightarrow> q \<in> set ps \<Longrightarrow> same_control t c q \<Longrightarrow> op_state q \<noteq> Applied"
  by (auto simp: latest_applied_row_def table_simps)

lemma predecessor_of_new:
  assumes "op_sequence p = next_sequence (op_tenant_id p) (op_control_id p) ps"
    and "op_predecessor p = map_option op_operation_id
      (latest_applied_row (op_tenant_id p) (op_control_id p) ps)"
  shows "latest_applied_before (set ps) p (op_predecessor p)"
proof (cases "latest_applied_row (op_tenant_id p) (op_control_id p) ps")
  case None
  then show ?thesis
    using assms(2) latest_applied_row_None [OF None] by (auto simp: latest_applied_before_def earlier_def)
next
  case (Some q)
  then have "earlier p q"
    using latest_applied_row_Some [OF Some] next_sequence_above assms(1) by (auto simp: earlier_def)
  then show ?thesis
    using assms(2) Some latest_applied_row_Some [OF Some]
    by (auto simp: latest_applied_before_def earlier_def)
qed

lemma latest_applied_before_cong:
  assumes "\<And>q. earlier p q \<Longrightarrow> q \<in> A \<longleftrightarrow> q \<in> B"
  shows "latest_applied_before A p i = latest_applied_before B p i"
  unfolding latest_applied_before_def using assms by (auto split: option.splits)

lemma insert_guard_deploys:
  "insert_guard d p \<Longrightarrow> \<exists>r \<in> set (control_revisions d). deploys p r"
  by (auto simp: insert_guard_def list_ex_iff guard_revision_def deploys_def)

lemma operations_ok_request:
  assumes "operations_ok E d" "new_request E r d p d'"
  shows "operations_ok E d'"
proof -
  let ?ps = "set (deployment_operations d)"
  from assms(2) have g: "insert_guard d p" and p: "validate_operation E p = Inr p" "op_state p = Pending"
    and d': "d' = d\<lparr>deployment_operations := deployment_operations d @ [p]\<rparr>"
    and res: "\<And>q. q \<in> ?ps \<Longrightarrow> earlier p q \<Longrightarrow> \<not> unresolved q"
    by (auto simp: new_request_def insert_operation_Inr list_ex_iff earlier_def)
  have seq: "op_sequence p = next_sequence (op_tenant_id p) (op_control_id p) (deployment_operations d)"
    using g by (simp add: insert_guard_def)
  have later: "\<not> earlier q p" if "q \<in> ?ps" for q
    using next_sequence_above [OF that] seq by (auto simp: earlier_def same_control_def)
  have "\<not> earlier p p" by (simp add: earlier_def)
  moreover have "latest_applied_before ?ps p (op_predecessor p)"
    using g seq by (intro predecessor_of_new) (auto simp: insert_guard_def)
  ultimately have "latest_applied_before (insert p ?ps) p (op_predecessor p)"
    using latest_applied_before_cong [of p "insert p ?ps" ?ps] by auto
  moreover have "latest_applied_before (insert p ?ps) q i = latest_applied_before ?ps q i"
    if "q \<in> ?ps" for q i
    using later [OF that] by (intro latest_applied_before_cong) auto
  moreover have "follows (insert p ?ps) q" if "follows ?ps q" for q
    using that by (auto simp: follows_def)
  moreover have "follows (insert p ?ps) p"
    using next_sequence_follows [of "op_tenant_id p" "op_control_id p" "deployment_operations d"] seq
    by (auto simp: follows_def)
  ultimately show ?thesis
    using assms(1) p insert_guard_deploys [OF g] later res \<open>\<not> earlier p p\<close> unfolding d' operations_ok_def
    by auto
qed

lemma op_move_unresolved: "op_move E p p' \<Longrightarrow> unresolved p"
  by (auto simp: op_move_def claimed_def closed_def eligible_def unresolved_def)

lemma same_request_simps:
  assumes "same_request p p'"
  shows "earlier p' = earlier p" "earlier q p' = earlier q p" "deploys p' = deploys p"
    "same_control t c p' = same_control t c p" "op_sequence p' = op_sequence p"
    "op_predecessor p' = op_predecessor p" "op_operation_id p' = op_operation_id p"
    "follows A p' = follows A p" "latest_applied_before A p' = latest_applied_before A p"
proof -
  show e: "earlier p' = earlier p"
    using assms by (simp add: same_request_def earlier_def fun_eq_iff)
  show "deploys p' = deploys p"
    using assms by (simp add: same_request_def deploys_def fun_eq_iff)
  show "latest_applied_before A p' = latest_applied_before A p"
    unfolding latest_applied_before_def fun_eq_iff e by simp
qed (use assms in \<open>simp_all add: same_request_def earlier_def same_control_def follows_def\<close>)

lemma follows_replace:
  assumes "follows A q" "same_request p p'"
  shows "follows (insert p' (A - {p})) q"
  using assms same_request_simps(4,5) [OF assms(2)] unfolding follows_def by (metis insert_iff DiffI singletonD)

lemma operations_ok_operated:
  assumes "keys_ok d" "operations_ok E d" "p \<in> set (deployment_operations d)" "op_move E p p'"
  shows "operations_ok E (move_operation p p' d)"
proof -
  let ?ps = "set (deployment_operations d)" and ?qs = "insert p' (set (deployment_operations d) - {p})"
  have same: "same_request p p'" "validate_operation E p' = Inr p'"
    using assms(4) by (auto simp: op_move_def)
  have last: "\<not> earlier q p" if "q \<in> ?ps" for q
    using assms(2,3) that op_move_unresolved [OF assms(4)] by (auto simp: operations_ok_def)
  have cong: "latest_applied_before ?qs q i = latest_applied_before ?ps q i" if "q \<in> ?ps" for q i
    using last [OF that] same_request_simps(2) [OF same(1)]
    by (intro latest_applied_before_cong) auto
  have "follows ?qs q" if "q \<in> ?ps" for q
    using assms(2) that by (intro follows_replace [OF _ same(1)]) (auto simp: operations_ok_def)
  moreover have "\<not> earlier q p'" if "q \<in> ?ps" for q
    using last [OF that] same_request_simps(2) [OF same(1)] by simp
  ultimately show ?thesis
    using assms(2,3) cong same same_request_simps [OF same(1)]
    unfolding operations_ok_def operations_after_move [OF assms(1,3)] by auto
qed

subsection \<open>The audit chain\<close>

lemma linked_append: "linked s p (vs @ ws) \<longleftrightarrow>
    linked s p vs \<and> linked (s + int (length vs)) (if vs = [] then p else ev_event_digest (last vs)) ws"
proof (induction vs arbitrary: s p)
  case (Cons v vs)
  have "linked (s + 1) (ev_event_digest v) (vs @ ws) \<longleftrightarrow> linked (s + 1) (ev_event_digest v) vs
      \<and> linked (s + 1 + int (length vs))
          (if vs = [] then ev_event_digest v else ev_event_digest (last vs)) ws"
    by (rule Cons.IH)
  then show ?case by (auto simp: algebra_simps)
qed simp

lemma linked_nth: "linked s p vs \<Longrightarrow> i < length vs \<Longrightarrow> ev_sequence (vs ! i) = s + int i + 1"
proof (induction vs arbitrary: s p i)
  case (Cons v vs)
  then show ?case
  proof (cases i)
    case (Suc j)
    then have "ev_sequence (vs ! j) = s + 1 + int j + 1"
      using Cons.IH [of "s + 1" "ev_event_digest v" j] Cons.prems by simp
    then show ?thesis using Suc by simp
  qed simp
qed simp

lemma linked_strict: "linked s p vs \<Longrightarrow> sorted_wrt (<) (map ev_sequence vs)"
  by (auto simp: sorted_wrt_iff_nth_less linked_nth)

lemma order_by_linked: "linked s p vs \<Longrightarrow> order_by ev_sequence vs = vs"
  unfolding order_by_def by (rule sort_key_strict [OF linked_strict])

lemma last_event_linked:
  "linked s p vs \<Longrightarrow>
    fetchone (order_by_desc ev_sequence vs) = (if vs = [] then None else Some (last vs))"
  using order_by_linked [of s p vs]
  by (cases vs rule: rev_cases) (auto simp: order_by_desc_def order_by_def)

lemma tenant_events_logged:
  "tenant_events t (logged v d) = tenant_events t d @ (if ev_tenant_id v = t then [v] else [])"
  by (simp add: tenant_events_def where_rows_def)

lemma linked_logged:
  assumes "linked 0 GENESIS_DIGEST (tenant_events t' d)" "next_event E t d v"
  shows "linked 0 GENESIS_DIGEST (tenant_events t' (logged v d))"
proof (cases "t' = t")
  case True
  let ?vs = "tenant_events t d"
  have "\<not> (?vs = []) \<Longrightarrow> ev_sequence (last ?vs) = int (length ?vs)"
    using linked_nth [OF assms(1), of "length ?vs - 1"] True
    by (cases ?vs rule: rev_cases) (auto simp: last_conv_nth)
  then have "ev_sequence v = int (length ?vs) + 1 \<and> ev_previous_event_digest v =
      (if ?vs = [] then GENESIS_DIGEST else ev_event_digest (last ?vs))"
    using assms last_event_linked [OF assms(1)] True by (cases "?vs = []") (auto simp: next_event_def)
  then show ?thesis
    using assms True by (simp add: tenant_events_logged linked_append next_event_def)
next
  case False
  then show ?thesis using assms by (auto simp: tenant_events_logged next_event_def)
qed

lemma chain_ok_logged:
  assumes "chain_ok E d" "next_event E t d v"
  shows "chain_ok E (logged v d)"
proof -
  have "linked 0 GENESIS_DIGEST (tenant_events t' (logged v d))" for t'
    using linked_logged [OF _ assms(2)] assms(1) by (simp add: chain_ok_def)
  then show ?thesis using assms unfolding chain_ok_def next_event_def by auto
qed

lemma chain_ok_cong: "control_audit_events d' = control_audit_events d \<Longrightarrow> chain_ok E d' = chain_ok E d"
  by (simp add: chain_ok_def tenant_events_def)

lemma next_event_cong:
  "control_audit_events d' = control_audit_events d \<Longrightarrow> next_event E t d' v = next_event E t d v"
  by (simp add: next_event_def tenant_events_def)

subsection \<open>The invariant as a whole\<close>

lemma revisions_ok_cong:
  "control_revisions d' = control_revisions d \<Longrightarrow> revisions_ok E d' = revisions_ok E d"
  by (simp add: revisions_ok_def)

lemma decisions_ok_cong:
  "control_revisions d' = control_revisions d \<Longrightarrow> approval_decisions d' = approval_decisions d \<Longrightarrow>
    decisions_ok E d' = decisions_ok E d"
  by (simp add: decisions_ok_def)

lemma decisions_ok_draft:
  assumes "decisions_ok E d" "rev_state r = Draft"
  shows "decisions_ok E (d\<lparr>control_revisions := control_revisions d @ [r]\<rparr>)"
  using assms by (auto simp: decisions_ok_def in_flight_def)

lemma pointers_ok_mono:
  assumes "pointers_ok d" "set (control_revisions d) \<subseteq> set (control_revisions d')"
    and "active_deployments d' = active_deployments d"
  shows "pointers_ok d'"
  using assms unfolding pointers_ok_def by (metis subsetD)

lemma new_request_D:
  assumes "new_request E r d p d'"
  shows "control_revisions d' = control_revisions d" "approval_decisions d' = approval_decisions d"
    "active_deployments d' = active_deployments d" "control_audit_events d' = control_audit_events d"
    "deployment_operations d' = deployment_operations d @ [p]"
  using assms by (auto simp: new_request_def insert_operation_Inr)

lemma store_inv_logged:
  "store_inv E d \<Longrightarrow> next_event E t d v \<Longrightarrow> store_inv E (logged v d)"
  by (simp add: store_inv_def keys_ok_logged chain_ok_logged revisions_ok_def decisions_ok_def
      pointers_ok_def operations_ok_def)

lemma store_inv_request:
  assumes "store_inv E d" "new_request E r d p d'"
  shows "store_inv E d'"
  using assms keys_ok_request [OF _ assms(2)] operations_ok_request [OF _ assms(2)]
    new_request_D [OF assms(2)]
  unfolding store_inv_def
  using revisions_ok_cong [of d' d E] decisions_ok_cong [of d' d E] chain_ok_cong [of d' d E]
    pointers_ok_mono [of d d']
  by simp

lemma store_inv_draft:
  assumes "store_inv E d" "new_draft E t d r"
  shows "store_inv E (d\<lparr>control_revisions := control_revisions d @ [r]\<rparr>)"
proof -
  have r: "rev_state r = Draft" using assms(2) by (simp add: new_draft_def)
  have inv: "keys_ok d" "revisions_ok E d" "decisions_ok E d" "pointers_ok d" "operations_ok E d"
    "chain_ok E d" using assms(1) by (auto simp: store_inv_def)
  let ?d = "d\<lparr>control_revisions := control_revisions d @ [r]\<rparr>"
  have "pointers_ok ?d" "operations_ok E ?d" "chain_ok E ?d"
    using pointers_ok_mono [OF inv(4), of ?d] operations_ok_mono [OF inv(5), of ?d]
      chain_ok_cong [of ?d d E] inv(6) by auto
  then show ?thesis
    using keys_ok_insert_revision [OF inv(1) assms(2)] revisions_ok_draft [OF inv(2) assms(2)]
      decisions_ok_draft [OF inv(3) r] by (simp add: store_inv_def)
qed

lemma store_inv_submitted:
  assumes "store_inv E d" "r \<in> set (control_revisions d)" "rev_state r = Draft"
  shows "store_inv E (move_revision r Submitted (Some s) (rev_decided_at r) d)"
proof -
  have inv: "keys_ok d" "revisions_ok E d" "decisions_ok E d" "pointers_ok d" "operations_ok E d"
    "chain_ok E d" using assms(1) by (auto simp: store_inv_def)
  have arc: "lifecycle_arc r Submitted (Some s) (rev_decided_at r)" "arc (rev_state r) Submitted"
    using assms(3) by (auto simp: lifecycle_arc_def arc_def)
  show ?thesis
    unfolding store_inv_def
    using keys_ok_move_revision [OF inv(1)] revisions_ok_move [OF inv(1,2) assms(2) arc(1)]
      decisions_ok_move [OF inv(1,3) assms(2) arc(1)] pointers_ok_move [OF inv(1,4) assms(2)]
      operations_ok_move_revision [OF inv(1,5) assms(2) arc(2)] inv(6) assms(3)
    by (auto simp: chain_ok_def tenant_events_def)
qed

lemma store_inv_decided:
  assumes "store_inv E d" "r \<in> set (control_revisions d)" "rev_tenant_id r = t"
    and "rev_state r = Submitted" "new_decision E t d r x"
  shows "store_inv E ((move_revision r (decided_state (dec_decision x)) (rev_submitted_at r)
      (Some (dec_decided_at x)) d)\<lparr>approval_decisions := approval_decisions d @ [x]\<rparr>)"
    (is "store_inv E ?d")
proof -
  let ?s = "decided_state (dec_decision x)"
  let ?d1 = "move_revision r ?s (rev_submitted_at r) (Some (dec_decided_at x)) d"
  have inv: "keys_ok d" "revisions_ok E d" "decisions_ok E d" "pointers_ok d" "operations_ok E d"
    "chain_ok E d" using assms(1) by (auto simp: store_inv_def)
  have arc: "lifecycle_arc r ?s (rev_submitted_at r) (Some (dec_decided_at x))" "arc (rev_state r) ?s"
    using assms(4) by (cases "dec_decision x"; auto simp: lifecycle_arc_def arc_def)+
  have "new_decision E t ?d1 r x" using assms(5) by (auto simp: new_decision_def)
  from keys_ok_insert_decision [OF keys_ok_move_revision [OF inv(1)] this] have "keys_ok ?d" by simp
  moreover have "revisions_ok E ?d"
    using revisions_ok_move [OF inv(1,2) assms(2) arc(1)] by (simp add: revisions_ok_def)
  moreover have "decisions_ok E ?d"
    using decisions_ok_decide [OF inv(1,3) assms(2,4)] assms(3,5) by simp
  moreover have "pointers_ok ?d"
    using pointers_ok_move [OF inv(1,4) assms(2)] assms(4) by (simp add: pointers_ok_def)
  moreover have "operations_ok E ?d"
    using operations_ok_move_revision [OF inv(1,5) assms(2) arc(2)] by (simp add: operations_ok_def)
  moreover have "chain_ok E ?d" using inv(6) by (simp add: chain_ok_def tenant_events_def)
  ultimately show ?thesis by (simp add: store_inv_def)
qed

lemma store_inv_selected_first:
  assumes "store_inv E d" "r \<in> set (control_revisions d)" "rev_state r = Approved" "selects r x"
    and "deployment_key x \<notin> deployment_key ` set (active_deployments d)"
  shows "store_inv E (d\<lparr>active_deployments := active_deployments d @ [x]\<rparr>)"
  using assms keys_ok_insert_deployment [OF _ assms(5)] pointers_ok_first [OF _ assms(2,3,4)]
  by (simp add: store_inv_def revisions_ok_def decisions_ok_def operations_ok_def chain_ok_def
      tenant_events_def)

lemma store_inv_selected_next:
  assumes "store_inv E d" "r \<in> set (control_revisions d)" "rev_state r = Approved"
    and "x \<in> set (active_deployments d)" "selects r x'" "deployment_key x = deployment_key x'"
    and "q \<in> set (control_revisions d)" "rev_revision_id q = dep_revision_id x" "q \<noteq> r"
  shows "store_inv E ((move_revision q Retired (rev_submitted_at q) (rev_decided_at q) d)
      \<lparr>active_deployments := modify_row deployment_key (deployment_key x) (\<lambda>_. x')
         (active_deployments d)\<rparr>)" (is "store_inv E ?d")
proof -
  let ?d1 = "move_revision q Retired (rev_submitted_at q) (rev_decided_at q) d"
  have inv: "keys_ok d" "revisions_ok E d" "decisions_ok E d" "pointers_ok d" "operations_ok E d"
    "chain_ok E d" using assms(1) by (auto simp: store_inv_def)
  obtain q' where "q' \<in> set (control_revisions d)" "rev_revision_id q' = dep_revision_id x"
    "rev_state q' = Approved"
    using inv(4) assms(4) by (auto simp: pointers_ok_def pointer_matches_def)
  then have "rev_state q = Approved"
    using revision_unique [OF inv(1) assms(7)] assms(8) by metis
  then have arc: "lifecycle_arc q Retired (rev_submitted_at q) (rev_decided_at q)"
    "arc (rev_state q) Retired" by (auto simp: lifecycle_arc_def arc_def)
  have "keys_ok ?d"
    using keys_ok_modify_deployment [OF keys_ok_move_revision [OF inv(1)], of x' x] assms(6) by simp
  moreover have "revisions_ok E ?d"
    using revisions_ok_move [OF inv(1,2) assms(7) arc(1)] by (simp add: revisions_ok_def)
  moreover have "decisions_ok E ?d"
    using decisions_ok_move [OF inv(1,3) assms(7) arc(1)] by (simp add: decisions_ok_def)
  moreover have "pointers_ok ?d" by (rule pointers_ok_next [OF inv(1,4) assms(2-9)])
  moreover have "operations_ok E ?d"
    using operations_ok_move_revision [OF inv(1,5) assms(7) arc(2)] by (simp add: operations_ok_def)
  moreover have "chain_ok E ?d" using inv(6) by (simp add: chain_ok_def tenant_events_def)
  ultimately show ?thesis by (simp add: store_inv_def)
qed

lemma store_inv_operated:
  assumes "store_inv E d" "p \<in> set (deployment_operations d)" "op_move E p p'"
  shows "store_inv E (move_operation p p' d)"
proof -
  have same: "same_request p p'" using assms(3) by (simp add: op_move_def)
  have inv: "keys_ok d" "operations_ok E d" using assms(1) by (auto simp: store_inv_def)
  show ?thesis
    using assms(1) keys_ok_move_operation [OF inv(1) assms(2) same]
      operations_ok_operated [OF inv assms(2,3)]
    by (simp add: store_inv_def revisions_ok_def decisions_ok_def pointers_ok_def chain_ok_def
        tenant_events_def)
qed

lemmas store_inv_intros = store_inv_draft store_inv_submitted store_inv_decided
  store_inv_selected_first store_inv_selected_next store_inv_request store_inv_operated

lemma store_step_inv: "store_step E t d d' \<Longrightarrow> store_inv E d \<Longrightarrow> store_inv E d'"
proof (induction rule: store_step.induct)
  case (draft d r v)
  then show ?case by (intro store_inv_logged [of _ _ t] store_inv_draft) (auto simp: next_event_def tenant_events_def)
next
  case (submitted r d v s)
  then show ?case
    by (intro store_inv_logged [of _ _ t] store_inv_submitted) (auto simp: next_event_def tenant_events_def)
next
  case (decided r d x v)
  then show ?case
    by (intro store_inv_logged [of _ _ t] store_inv_decided) (auto simp: next_event_def tenant_events_def)
next
  case (selected_first r d x p d' v)
  have "store_inv E d'"
    using selected_first store_inv_selected_first by (blast intro: store_inv_request)
  then show ?case
    using selected_first new_request_D [OF selected_first.hyps(6)]
    by (intro store_inv_logged [of _ _ t]) (auto simp: next_event_def tenant_events_def)
next
  case (selected_next r d x x' q p d' v)
  have "store_inv E d'"
    using store_inv_selected_next [OF selected_next.prems selected_next.hyps(1,3-6,8-10)]
      selected_next.hyps(11) by (blast intro: store_inv_request)
  then show ?case
    using selected_next new_request_D [OF selected_next.hyps(11)]
    by (intro store_inv_logged [of _ _ t]) (auto simp: next_event_def tenant_events_def)
next
  case (requested r d p d' v)
  then show ?case
    using new_request_D [OF requested.hyps(3)] store_inv_request [OF requested.prems requested.hyps(3)]
    by (intro store_inv_logged [of _ _ t]) (auto simp: next_event_def tenant_events_def)
next
  case (operated p d p' v)
  then show ?case
    using store_inv_operated [OF operated.prems operated.hyps(1,3)]
    by (intro store_inv_logged [of _ _ t]) (auto simp: next_event_def tenant_events_def)
qed

lemma store_inv_empty: "store_inv E empty_db"
  by (simp add: store_inv_def empty_db_def keys_ok_def revisions_ok_def decisions_ok_def
      pointers_ok_def operations_ok_def chain_ok_def tenant_events_def where_rows_def)

lemma reachable_inv: "reachable E d \<Longrightarrow> store_inv E d"
  by (induction rule: reachable.induct) (auto intro: store_inv_empty store_step_inv)

section \<open>History: what a step may change\<close>

definition same_content :: "revision \<Rightarrow> revision \<Rightarrow> bool" where
  "same_content r r' \<longleftrightarrow> rev_revision_id r' = rev_revision_id r \<and> rev_tenant_id r' = rev_tenant_id r
     \<and> rev_control_id r' = rev_control_id r \<and> rev_generation r' = rev_generation r
     \<and> rev_parent_revision_id r' = rev_parent_revision_id r
     \<and> rev_configuration_digest r' = rev_configuration_digest r
     \<and> rev_configuration_bytes r' = rev_configuration_bytes r
     \<and> rev_created_by r' = rev_created_by r \<and> rev_created_at r' = rev_created_at r"

text \<open>The states a revision can reach from a state.\<close>

definition later_state :: "revision_state \<Rightarrow> revision_state \<Rightarrow> bool" where
  "later_state s s' \<longleftrightarrow> s = s' \<or> s = Draft \<or> s = Submitted \<and> s' \<noteq> Draft \<or> s = Approved \<and> s' = Retired"

definition rev_evolves :: "revision \<Rightarrow> revision \<Rightarrow> bool" where
  "rev_evolves r r' \<longleftrightarrow> same_content r r' \<and> later_state (rev_state r) (rev_state r')"

definition revisions_evolve :: "db \<Rightarrow> db \<Rightarrow> bool" where
  "revisions_evolve d d' \<longleftrightarrow> (\<forall>r \<in> set (control_revisions d). \<exists>r' \<in> set (control_revisions d').
     rev_evolves r r')"

text \<open>A resolved operation is final; an unresolved one keeps its request and its fence grows.\<close>

definition op_evolves :: "operation \<Rightarrow> operation \<Rightarrow> bool" where
  "op_evolves p p' \<longleftrightarrow> p' = p \<or> unresolved p \<and> same_request p p'
     \<and> op_lease_fence p \<le> op_lease_fence p' \<and> op_state_version p < op_state_version p'"

definition operations_evolve :: "db \<Rightarrow> db \<Rightarrow> bool" where
  "operations_evolve d d' \<longleftrightarrow> (\<forall>p \<in> set (deployment_operations d).
     \<exists>p' \<in> set (deployment_operations d'). op_evolves p p')"

definition logs_evolve :: "db \<Rightarrow> db \<Rightarrow> bool" where
  "logs_evolve d d' \<longleftrightarrow> (\<exists>xs. approval_decisions d' = approval_decisions d @ xs)
     \<and> (\<exists>vs. control_audit_events d' = control_audit_events d @ vs)"

definition evolves :: "db \<Rightarrow> db \<Rightarrow> bool" where
  "evolves d d' \<longleftrightarrow> revisions_evolve d d' \<and> operations_evolve d d' \<and> logs_evolve d d'"

lemma later_state_trans: "later_state a b \<Longrightarrow> later_state b c \<Longrightarrow> later_state a c"
  by (cases a; cases b; cases c) (auto simp: later_state_def)

lemma rev_evolves_refl [simp]: "rev_evolves r r"
  by (simp add: rev_evolves_def same_content_def later_state_def)

lemma rev_evolves_trans: "rev_evolves a b \<Longrightarrow> rev_evolves b c \<Longrightarrow> rev_evolves a c"
  using later_state_trans by (auto simp: rev_evolves_def same_content_def)

lemma same_request_trans: "same_request a b \<Longrightarrow> same_request b c \<Longrightarrow> same_request a c"
  by (simp add: same_request_def)

lemma op_evolves_trans: "op_evolves a b \<Longrightarrow> op_evolves b c \<Longrightarrow> op_evolves a c"
  unfolding op_evolves_def using same_request_trans by fastforce

lemma evolves_refl: "evolves d d"
  by (auto simp: evolves_def revisions_evolve_def operations_evolve_def logs_evolve_def
      op_evolves_def intro: rev_evolves_refl)

lemma revisions_evolve_trans: "revisions_evolve a b \<Longrightarrow> revisions_evolve b c \<Longrightarrow> revisions_evolve a c"
  unfolding revisions_evolve_def using rev_evolves_trans by blast

lemma operations_evolve_trans: "operations_evolve a b \<Longrightarrow> operations_evolve b c \<Longrightarrow> operations_evolve a c"
  unfolding operations_evolve_def using op_evolves_trans by blast

lemma evolves_trans: "evolves a b \<Longrightarrow> evolves b c \<Longrightarrow> evolves a c"
  unfolding evolves_def using revisions_evolve_trans operations_evolve_trans
  by (auto simp: logs_evolve_def)

lemma revisions_evolve_move:
  assumes "keys_ok d" "r \<in> set (control_revisions d)" "arc (rev_state r) s"
    and "set (control_revisions d') = set (control_revisions (move_revision r s a b d))"
  shows "revisions_evolve d d'"
proof -
  have "rev_evolves r (moved s a b r)"
    using assms(3) by (auto simp: rev_evolves_def same_content_def later_state_def arc_def)
  then show ?thesis
    unfolding revisions_evolve_def assms(4) revisions_after_move [OF assms(1,2)]
    using rev_evolves_refl by blast
qed

lemma revisions_evolve_subset:
  "set (control_revisions d) \<subseteq> set (control_revisions d') \<Longrightarrow> revisions_evolve d d'"
  unfolding revisions_evolve_def using rev_evolves_refl by blast

lemma operations_evolve_subset:
  "set (deployment_operations d) \<subseteq> set (deployment_operations d') \<Longrightarrow> operations_evolve d d'"
  by (auto simp: operations_evolve_def op_evolves_def)

lemma op_fence_move:
  assumes "operations_ok E d" "p \<in> set (deployment_operations d)" "op_move E p p'"
  shows "op_evolves p p'"
proof -
  have "op_lease_fence p = op_attempt_count p"
    using operations_ok_D(1) [OF assms(1,2)]
    by (auto simp: validate_operation_def operation_state_checks_def result_simps
        split: if_splits operation_state.splits)
  then show ?thesis
    using assms(3) op_move_unresolved [OF assms(3)]
    by (auto simp: op_evolves_def op_move_def claimed_def closed_def)
qed

lemma operations_evolve_move:
  assumes "keys_ok d" "p \<in> set (deployment_operations d)" "op_evolves p p'"
  shows "operations_evolve d (logged v (move_operation p p' d))"
  unfolding operations_evolve_def table_fields operations_after_move [OF assms(1,2)]
  using assms(3) by (auto simp: op_evolves_def)

lemma logs_evolve_logged:
  "approval_decisions d' = approval_decisions d @ xs \<Longrightarrow> control_audit_events d' = control_audit_events d \<Longrightarrow>
    logs_evolve d (logged v d')"
  by (auto simp: logs_evolve_def)

lemma pointed_approved:
  assumes "store_inv E d" "x \<in> set (active_deployments d)" "q \<in> set (control_revisions d)"
    "rev_revision_id q = dep_revision_id x"
  shows "pointer_matches x (Some q)"
proof -
  obtain q' where "q' \<in> set (control_revisions d)" "rev_revision_id q' = dep_revision_id x"
    "pointer_matches x (Some q')"
    using assms(1,2) by (auto simp: store_inv_def pointers_ok_def)
  then show ?thesis
    using revision_unique [of d q q'] assms by (auto simp: store_inv_def)
qed

lemma store_step_evolves:
  assumes "store_step E t d d'" "store_inv E d"
  shows "evolves d d'"
proof -
  have inv: "keys_ok d" "operations_ok E d" using assms(2) by (auto simp: store_inv_def)
  show ?thesis
    using assms
  proof (cases rule: store_step.cases)
    case (draft r v)
    then show ?thesis
      unfolding evolves_def by (auto intro!: revisions_evolve_subset operations_evolve_subset
          logs_evolve_logged [where xs = "[]"])
  next
    case (submitted r v s)
    then show ?thesis
      unfolding evolves_def by (auto intro!: revisions_evolve_move [OF inv(1)] operations_evolve_subset
          logs_evolve_logged [where xs = "[]"] simp: arc_def)
  next
    case (decided r x v)
    then have "arc (rev_state r) (decided_state (dec_decision x))"
      by (cases "dec_decision x") (auto simp: arc_def)
    with decided show ?thesis
      unfolding evolves_def by (auto intro!: revisions_evolve_move [OF inv(1), of r]
          operations_evolve_subset logs_evolve_logged)
  next
    case (selected_first r x p d1 v)
    note D = new_request_D [OF selected_first(7)]
    show ?thesis
      unfolding selected_first evolves_def using D
      by (auto intro!: revisions_evolve_subset operations_evolve_subset
          logs_evolve_logged [where xs = "[]"])
  next
    case (selected_next r x x' q p d1 v)
    note D = new_request_D [OF selected_next(12)]
    have "arc (rev_state q) Retired"
      using pointed_approved [OF assms(2) selected_next(5,9,10)]
      by (simp add: arc_def pointer_matches_def)
    then show ?thesis
      unfolding selected_next(1) evolves_def using D selected_next(9)
      by (auto intro!: revisions_evolve_move [OF inv(1), of q] operations_evolve_subset
          logs_evolve_logged [where xs = "[]"])
  next
    case (requested r p d1 v)
    note D = new_request_D [OF requested(4)]
    show ?thesis
      unfolding requested(1) evolves_def using D
      by (auto intro!: revisions_evolve_subset operations_evolve_subset
          logs_evolve_logged [where xs = "[]"])
  next
    case (operated p p' v)
    then show ?thesis
      unfolding evolves_def using operations_evolve_move [OF inv(1) _ op_fence_move [OF inv(2)]]
      by (auto intro!: revisions_evolve_subset logs_evolve_logged [where xs = "[]"])
  qed
qed

section \<open>Tenant isolation\<close>

text \<open>What one tenant can see: its rows of every table.\<close>

definition tenant_view :: "string \<Rightarrow> db \<Rightarrow> db" where
  "tenant_view t d =
     \<lparr>control_revisions = where_rows (\<lambda>r. rev_tenant_id r = t) (control_revisions d),
      approval_decisions = where_rows (\<lambda>x. dec_tenant_id x = t) (approval_decisions d),
      active_deployments = where_rows (\<lambda>x. dep_tenant_id x = t) (active_deployments d),
      deployment_operations = where_rows (\<lambda>p. op_tenant_id p = t) (deployment_operations d),
      control_audit_events = where_rows (\<lambda>v. ev_tenant_id v = t) (control_audit_events d)\<rparr>"

lemma where_rows_modify:
  assumes "distinct (map key rows)" "r \<in> set rows" "\<not> p r" "\<not> p (f r)"
  shows "where_rows p (modify_row key (key r) f rows) = where_rows p rows"
  unfolding where_rows_def modify_row_def
  by (rule filter_update_where) (use assms in \<open>auto simp: distinct_map inj_on_def\<close>)

lemma where_rows_snoc [simp]:
  "where_rows p (rows @ [r]) = where_rows p rows @ (if p r then [r] else [])"
  by (simp add: where_rows_def)

lemma view_logged: "ev_tenant_id v \<noteq> u \<Longrightarrow> tenant_view u (logged v d) = tenant_view u d"
  by (simp add: tenant_view_def)

lemma view_move_revision:
  assumes "keys_ok d" "r \<in> set (control_revisions d)" "rev_tenant_id r \<noteq> u"
  shows "tenant_view u (move_revision r s a b d) = tenant_view u d"
  using where_rows_modify [OF keys_ok_D(1) [OF assms(1)] assms(2)] assms(3)
  by (simp add: tenant_view_def move_revision_def)

lemma view_move_operation:
  assumes "keys_ok d" "p \<in> set (deployment_operations d)" "op_tenant_id p \<noteq> u" "same_request p p'"
  shows "tenant_view u (move_operation p p' d) = tenant_view u d"
  using where_rows_modify [OF keys_ok_D(5) [OF assms(1)] assms(2), of "\<lambda>p. op_tenant_id p = u"] assms(3,4)
  by (simp add: tenant_view_def move_operation_def same_request_def)

lemma view_request:
  "new_request E r d p d' \<Longrightarrow> rev_tenant_id r \<noteq> u \<Longrightarrow> tenant_view u d' = tenant_view u d"
  by (auto simp: new_request_def insert_operation_Inr tenant_view_def)

lemma store_step_view:
  assumes "store_step E t d d'" "store_inv E d" "u \<noteq> t"
  shows "tenant_view u d' = tenant_view u d"
proof -
  have k: "keys_ok d" using assms(2) by (simp add: store_inv_def)
  have ev: "next_event E t d v \<Longrightarrow> tenant_view u (logged v d1) = tenant_view u d1" for v d1
    using assms(3) by (intro view_logged) (auto simp: next_event_def)
  show ?thesis
    using assms(1)
  proof (cases rule: store_step.cases)
    case (draft r v)
    then show ?thesis
      using assms(3) ev by (simp add: new_draft_def) (simp add: tenant_view_def)
  next
    case (submitted r v s)
    then show ?thesis using assms(3) ev view_move_revision [OF k] by simp
  next
    case (decided r x v)
    let ?d = "move_revision r (decided_state (dec_decision x)) (rev_submitted_at r) (Some (dec_decided_at x)) d"
    have "tenant_view u (?d\<lparr>approval_decisions := approval_decisions d @ [x]\<rparr>) = tenant_view u ?d"
      using decided(5) assms(3) by (simp add: tenant_view_def new_decision_def)
    then show ?thesis using decided assms(3) ev view_move_revision [OF k] by simp
  next
    case (selected_first r x p d1 v)
    let ?d = "d\<lparr>active_deployments := active_deployments d @ [x]\<rparr>"
    have "tenant_view u ?d = tenant_view u d"
      using selected_first(3,5) assms(3) by (simp add: tenant_view_def selects_def)
    moreover have "tenant_view u d1 = tenant_view u ?d"
      using view_request [OF selected_first(7)] selected_first(3) assms(3) by simp
    ultimately show ?thesis using selected_first(1) ev [OF selected_first(8)] by simp
  next
    case (selected_next r x x' q p d1 v)
    let ?d = "move_revision q Retired (rev_submitted_at q) (rev_decided_at q) d"
    let ?deps = "modify_row deployment_key (deployment_key x) (\<lambda>_. x') (active_deployments d)"
    have x: "dep_tenant_id x' = t" "dep_tenant_id x = t"
      using selected_next(3,6,7) by (auto simp: selects_def deployment_key_def)
    have "rev_tenant_id q = t"
      using pointed_approved [OF assms(2) selected_next(5,9,10)] x by (simp add: pointer_matches_def)
    then have "tenant_view u ?d = tenant_view u d"
      using view_move_revision [OF k selected_next(9)] assms(3) by simp
    moreover have "tenant_view u (?d\<lparr>active_deployments := ?deps\<rparr>) = tenant_view u ?d"
      using where_rows_modify [OF keys_ok_D(4) [OF k] selected_next(5), of "\<lambda>x. dep_tenant_id x = u"]
        x assms(3) by (simp add: tenant_view_def)
    moreover have "tenant_view u d1 = tenant_view u (?d\<lparr>active_deployments := ?deps\<rparr>)"
      using view_request [OF selected_next(12)] selected_next(3) assms(3) by simp
    ultimately show ?thesis using selected_next(1) ev [OF selected_next(13)] by simp
  next
    case (requested r p d1 v)
    then show ?thesis
      using view_request [OF requested(4)] assms(3) ev [OF requested(5)] by simp
  next
    case (operated p p' v)
    then show ?thesis
      using view_move_operation [OF k operated(2)] assms(3) ev [OF operated(5)]
      by (simp add: op_move_def)
  qed
qed

end
