(* ===== verification/Store_Refine.thy ===== *)
theory Store_Refine
  imports Store_Spec
begin

text \<open>
  The methods of the store implement the abstract steps: a method that commits takes one step of
  \<open>store_step\<close> for the tenant of its principal, and a method that raises inside its transaction
  leaves the database as it was. The external code is assumed lawful (\<open>lawful_env\<close>): SHA-256
  hexdigests have 64 lowercase hexadecimal digits, and pydantic reads the canonical bytes of a
  configuration back as that configuration.
\<close>

section \<open>Assumptions on external code and on callers\<close>

definition lawful_env :: "'e model_env_scheme \<Rightarrow> bool" where
  "lawful_env E \<longleftrightarrow>
     (\<forall>b. length (sha256_hexdigest E b) = 64 \<and> list_all hex_char (sha256_hexdigest E b))
     \<and> (\<forall>c0 c b. validate_configuration E c0 = Inr c \<longrightarrow> canonical_bytes E c = Inr b \<longrightarrow>
          model_validate_json E b = Some c \<and> 2 \<le> length b \<and> length b \<le> 1024 * 1024)"

text \<open>The field constraints of \<open>Actor\<close> and \<open>DeploymentWorkerIdentity\<close> that rows inherit.\<close>

definition valid_actor :: "actor \<Rightarrow> bool" where
  "valid_actor a \<longleftrightarrow> portable_id (actor_tenant_id a) \<and> text_between 1 255 (actor_subject a)
     \<and> digest_format (actor_session_id_digest a)"

lemma new_actor_valid: "new_actor t s n rs gs at sid mfa = Inr a \<Longrightarrow> valid_actor a"
  by (auto simp: new_actor_def valid_actor_def result_simps split: if_splits)

section \<open>Generic facts\<close>

lemma digest_format_sha256: "lawful_env E \<Longrightarrow> digest_format (sha256_bytes E b)"
  by (simp add: lawful_env_def digest_format_def sha256_bytes_def starts_with_def)

lemma update_where_unique:
  assumes "distinct (map key rows)" "r \<in> set rows" "p r" "\<And>x. x \<in> set rows \<Longrightarrow> p x \<Longrightarrow> key x = key r"
    and "f r = g r"
  shows "update_where p f rows = modify_row key (key r) g rows"
proof -
  have "x = r" if "x \<in> set rows" "key x = key r" for x
    using assms(1,2) that by (auto simp: distinct_map inj_on_def)
  then show ?thesis
    unfolding modify_row_def update_where_def using assms(3-5) by (auto intro!: map_cong)
qed

lemma fetchone_where: "fetchone (where_rows p rows) = Some r \<Longrightarrow> r \<in> set rows \<and> p r"
  by (auto simp: where_rows_def dest!: fetchone_in)

lemma fetchone_where_unique:
  assumes "r \<in> set rows" "p r" "\<And>x. x \<in> set rows \<Longrightarrow> p x \<Longrightarrow> x = r"
  shows "fetchone (where_rows p rows) = Some r"
proof -
  have "where_rows p rows \<noteq> []" using assms(1,2) by (auto simp: table_simps)
  then obtain x where "fetchone (where_rows p rows) = Some x"
    by (cases "where_rows p rows") auto
  then show ?thesis using fetchone_where assms(3) by metis
qed

lemma tenant_revision_Some:
  "tenant_revision t i d = Some r \<Longrightarrow>
    r \<in> set (control_revisions d) \<and> rev_tenant_id r = t \<and> rev_revision_id r = i"
  unfolding tenant_revision_def by (drule fetchone_where) auto

lemma tenant_operation_Some:
  "tenant_operation t i d = Some p \<Longrightarrow>
    p \<in> set (deployment_operations d) \<and> op_tenant_id p = t \<and> op_operation_id p = i"
  unfolding tenant_operation_def by (drule fetchone_where) auto

lemma tenant_operation_eq:
  "keys_ok d \<Longrightarrow> p \<in> set (deployment_operations d) \<Longrightarrow>
    tenant_operation (op_tenant_id p) (op_operation_id p) d = Some p"
  unfolding tenant_operation_def by (rule fetchone_where_unique) (auto intro: operation_unique)

lemma tenant_revision_eq:
  "keys_ok d \<Longrightarrow> r \<in> set (control_revisions d) \<Longrightarrow>
    tenant_revision (rev_tenant_id r) (rev_revision_id r) d = Some r"
  unfolding tenant_revision_def by (rule fetchone_where_unique) (auto intro: revision_unique)

lemma pointer_of_Some:
  "pointer_of d t c = Some x \<Longrightarrow> x \<in> set (active_deployments d) \<and> dep_tenant_id x = t \<and> dep_control_id x = c"
  unfolding pointer_of_def by (drule fetchone_where) auto

lemma pointer_of_None:
  "pointer_of d t c = None \<Longrightarrow> x \<in> set (active_deployments d) \<Longrightarrow> (dep_tenant_id x, dep_control_id x) \<noteq> (t, c)"
  unfolding pointer_of_def by (auto simp: table_simps)

lemma load_revision_Inr: "load_revision E row = Inr r \<Longrightarrow> r = row"
  by (auto simp: load_revision_def result_simps validate_revision_iff)

lemma validate_operation_Inr: "validate_operation E p = Inr p' \<Longrightarrow> p' = p"
  by (auto simp: validate_operation_def result_simps split: if_splits)

lemma load_operation_Inr: "load_operation E row = Inr p \<Longrightarrow> p = row \<and> validate_operation E row = Inr row"
  by (auto simp: load_operation_def result_simps dest: validate_operation_Inr)

lemma validate_deployment_Inr: "validate_deployment x = Inr x' \<Longrightarrow> x' = x"
  by (auto simp: validate_deployment_def split: if_splits)

lemma load_deployment_Inr: "load_deployment row = Inr x \<Longrightarrow> x = row"
  by (auto simp: load_deployment_def result_simps dest: validate_deployment_Inr)

lemma validate_decision_Inr: "validate_decision E x = Inr x' \<Longrightarrow> x' = x"
  by (auto simp: validate_decision_def result_simps split: if_splits)

lemma validate_event_Inr: "validate_event E v = Inr v' \<Longrightarrow> v' = v"
  by (auto simp: validate_event_def result_simps split: if_splits)

lemma utc_second_instant [simp]: "utc_second l (instant t) = Inr t" "stored_second (instant t) = t"
  by (simp_all add: utc_second_def instant_def stored_second_def)

lemma transaction_simps:
  "body d = Inl e \<Longrightarrow> transaction body d = (Inl e, d)"
  "body d = Inr (x, d') \<Longrightarrow> transaction body d = (Inr x, d')"
  by (simp_all add: transaction_def)

lemma transaction_cases:
  "transaction body d = (res, d') \<Longrightarrow>
    (\<exists>e. res = Inl e \<and> d' = d \<and> body d = Inl e) \<or> (\<exists>x. res = Inr x \<and> body d = Inr (x, d'))"
  by (auto simp: transaction_def split: sum.splits prod.splits)

lemma integrity_conflict_Inr [result_simps]: "integrity_conflict m r = Inr x \<longleftrightarrow> r = Inr x"
  by (simp add: integrity_conflict_def result_simps)

section \<open>The audit event of a transaction\<close>

lemma append_audit_Inr:
  assumes "append_audit E pr a i at details d = Inr (v, d')"
  shows "d' = logged v d" "next_event E (principal_tenant pr) d v" "ev_action v = a"
    "ev_object_id v = i" "ev_actor_subject v = principal_subject pr"
    "ev_actor_session_digest v = principal_session pr"
proof -
  let ?last = "fetchone (order_by_desc ev_sequence (tenant_events (principal_tenant pr) d))"
  from assms obtain b eb v0 where b: "canonical_json_bytes E DETAIL_LIMITS details = Inr b"
    and v0: "validate_event E v0 = Inr v"
      "v0 = \<lparr>ev_tenant_id = principal_tenant pr,
        ev_sequence = (case ?last of None \<Rightarrow> 1 | Some v \<Rightarrow> ev_sequence v + 1),
        ev_previous_event_digest = (case ?last of None \<Rightarrow> GENESIS_DIGEST | Some v \<Rightarrow> ev_event_digest v),
        ev_event_digest = sha256_bytes E eb, ev_action = a, ev_object_id = i,
        ev_actor_subject = principal_subject pr, ev_actor_session_digest = principal_session pr,
        ev_occurred_at = stored_second at, ev_details_digest = sha256_bytes E b,
        ev_details_bytes = b, ev_event_bytes = eb\<rparr>"
    and ins: "insert_event v d = Inr d'"
    by (auto simp: append_audit_def Let_def result_simps)
  have v: "validate_event E v = Inr v" "v = v0" using validate_event_Inr v0(1) by auto
  note v0 = v0(2) [folded v(2)]
  show "d' = logged v d" using ins by (simp add: insert_event_Inr logged_def)
  show "ev_action v = a" "ev_object_id v = i" "ev_actor_subject v = principal_subject pr"
    "ev_actor_session_digest v = principal_session pr" by (simp_all add: v0)
  have "ev_details_bytes v = b" "ev_tenant_id v = principal_tenant pr"
    "ev_sequence v = (case ?last of None \<Rightarrow> 1 | Some v \<Rightarrow> ev_sequence v + 1)"
    "ev_previous_event_digest v = (case ?last of None \<Rightarrow> GENESIS_DIGEST | Some v \<Rightarrow> ev_event_digest v)"
    by (simp_all add: v0)
  then show "next_event E (principal_tenant pr) d v"
    using v(1) b ins unfolding next_event_def
    by (auto simp: insert_event_Inr split: option.splits)
qed

section \<open>Revisions\<close>

lemma next_generation_Inr:
  assumes "next_generation E t c expected d = Inr (g, parent)"
  shows "g = 1 \<and> parent = None \<and> expected = None \<and> latest_revision_row t c d = None
    \<or> (\<exists>q. latest_revision_row t c d = Some q \<and> \<not> in_flight (rev_state q)
         \<and> g = rev_generation q + 1 \<and> parent = Some (rev_revision_id q) \<and> expected = parent)"
  using assms
  by (auto simp: next_generation_def in_flight_def result_simps split: option.splits if_splits
      dest!: load_revision_Inr)

lemma latest_revision_row_Some:
  assumes "latest_revision_row t c d = Some q"
  shows "q \<in> set (control_revisions d)" "rev_tenant_id q = t" "rev_control_id q = c"
  using fetchone_order_by_desc(1) [OF assms [unfolded latest_revision_row_def]]
  by (auto simp: table_simps)

lemma members_nodes: "(k, v) \<in> set ms \<Longrightarrow> set (json_nodes v) \<subseteq> set (members_nodes ms)"
  by (induction ms) auto

lemma canonical_int_bound:
  assumes "canonical E (jobject ms) = Inr b" "(k, JInt n) \<in> set ms"
  shows "\<bar>n\<bar> \<le> I_JSON_MAX_INTEGER"
proof -
  have "validate_tree DEFAULT_JSON_LIMITS 0 (jobject ms) = Inr ()"
    using assms(1) by (auto simp: canonical_def canonical_json_bytes_Inr)
  then have nodes: "list_all (node_ok DEFAULT_JSON_LIMITS) (json_nodes (jobject ms))"
    by (simp add: validate_tree_iff)
  have "JInt n \<in> set (json_nodes (jobject ms))"
    using members_nodes [of "KStr (text_of k)" "JInt n" "map (\<lambda>(k, v). (KStr (text_of k), v)) ms"] assms(2)
    by (force simp: jobject_def)
  then show ?thesis using nodes by (auto simp: list_all_iff)
qed

lemma revision_identity_Inr:
  assumes "revision_identity E t c g parent digest = Inr i"
  shows "portable_id t" "portable_id c" "1 \<le> g" "g \<le> INT64_MAX" "opt_ok digest_format parent"
    "digest_format digest" "\<exists>b. i = sha256_bytes E b"
proof -
  from assms obtain b where *: "portable_id t" "portable_id c" "1 \<le> g" "opt_ok digest_format parent"
    "digest_format digest" "i = sha256_bytes E b"
    and b: "canonical E (jobject
       [(''configuration_digest'', jtext digest), (''control_id'', jtext c),
        (''generation'', JInt g), (''parent_revision_id'', jopt parent),
        (''tenant_id'', jtext t)]) = Inr b"
    by (auto simp: revision_identity_def rbind_eq_Inr split: if_splits)
  have "\<bar>g\<bar> \<le> I_JSON_MAX_INTEGER"
    by (rule canonical_int_bound [OF b, of "''generation''"]) simp
  then show "g \<le> INT64_MAX" by (simp add: I_JSON_MAX_INTEGER_def INT64_MAX_def)
  show "portable_id t" "portable_id c" "1 \<le> g" "opt_ok digest_format parent" "digest_format digest"
    "\<exists>b. i = sha256_bytes E b" using * by auto
qed

lemma draft_row_valid:
  assumes "lawful_env E" "validate_configuration E c0 = Inr cfg" "canonical_bytes E cfg = Inr b"
    and "revision_identity E (cfg_tenant_id cfg) (cfg_control_id cfg) g parent (sha256_bytes E b) = Inr i"
    and "text_between 1 255 by'" "g = 1 \<longleftrightarrow> parent = None"
  shows "validate_revision E
    \<lparr>rev_revision_id = i, rev_tenant_id = cfg_tenant_id cfg, rev_control_id = cfg_control_id cfg,
     rev_generation = g, rev_parent_revision_id = parent,
     rev_configuration_digest = sha256_bytes E b, rev_configuration_bytes = b, rev_state = Draft,
     rev_state_version = 0, rev_created_by = by', rev_created_at = at, rev_submitted_at = None,
     rev_decided_at = None\<rparr> = Inr
    \<lparr>rev_revision_id = i, rev_tenant_id = cfg_tenant_id cfg, rev_control_id = cfg_control_id cfg,
     rev_generation = g, rev_parent_revision_id = parent,
     rev_configuration_digest = sha256_bytes E b, rev_configuration_bytes = b, rev_state = Draft,
     rev_state_version = 0, rev_created_by = by', rev_created_at = at, rev_submitted_at = None,
     rev_decided_at = None\<rparr>"
proof -
  note id = revision_identity_Inr [OF assms(4)]
  have c: "model_validate_json E b = Some cfg" "2 \<le> length b" "length b \<le> 1024 * 1024"
    using assms(1-3) unfolding lawful_env_def by blast+
  have "digest_format i" using id(7) digest_format_sha256 [OF assms(1)] by auto
  moreover have "field_error (revision_identity E (cfg_tenant_id cfg) (cfg_control_id cfg) g parent
      (sha256_bytes E b)) = Inr i" using assms(4) by (simp add: field_error_def)
  ultimately show ?thesis
    using id c assms(5,6) unfolding validate_revision_iff
    by (auto simp: revision_fields_ok_def content_ok_def lifecycle_checks_iff between_def INT64_MAX_def)
qed

lemma create_draft_step:
  assumes inv: "store_inv E d" and env: "lawful_env E" and a: "valid_actor actor"
    and cfg: "validate_configuration E c0 = Inr cfg" and b: "canonical_bytes E cfg = Inr b"
    and tenant: "cfg_tenant_id cfg = actor_tenant_id actor"
    and run: "create_draft_body E actor cfg b expected at d = Inr (i, d')"
  shows "store_step E (actor_tenant_id actor) d d'"
    and "\<exists>r \<in> set (control_revisions d'). rev_revision_id r = i \<and> rev_tenant_id r = actor_tenant_id actor
      \<and> rev_state r = Draft \<and> rev_created_by r = actor_subject actor \<and> rev_configuration_bytes r = b"
proof -
  from run b obtain g parent d1 v where gen: "next_generation E (cfg_tenant_id cfg) (cfg_control_id cfg)
        expected d = Inr (g, parent)"
    and id: "revision_identity E (cfg_tenant_id cfg) (cfg_control_id cfg) g parent (sha256_bytes E b) = Inr i"
    and ins: "insert_revision
       \<lparr>rev_revision_id = i, rev_tenant_id = cfg_tenant_id cfg, rev_control_id = cfg_control_id cfg,
        rev_generation = g, rev_parent_revision_id = parent,
        rev_configuration_digest = sha256_bytes E b, rev_configuration_bytes = b, rev_state = Draft,
        rev_state_version = 0, rev_created_by = actor_subject actor,
        rev_created_at = stored_second at, rev_submitted_at = None, rev_decided_at = None\<rparr> d = Inr d1"
      (is "insert_revision ?r d = _")
    and ev: "append_audit E (Human actor) RevisionCreated i at
       (jobject [(''configuration_digest'', jtext (sha256_bytes E b)),
                 (''control_id'', jtext (cfg_control_id cfg)), (''generation'', JInt g),
                 (''parent_revision_id'', jopt parent)]) d1 = Inr (v, d')"
    by (auto simp: create_draft_body_def configuration_digest_of_def result_simps)
  have revs: "revisions_ok E d" using inv by (simp add: store_inv_def)
  have parent: "has_parent (set (control_revisions d)) ?r \<and> (g = 1 \<longleftrightarrow> parent = None)"
  proof (cases "latest_revision_row (cfg_tenant_id cfg) (cfg_control_id cfg) d")
    case None
    then show ?thesis using next_generation_Inr [OF gen] by (simp add: has_parent_def)
  next
    case (Some q)
    note q = latest_revision_row_Some [OF Some]
    have "rev_generation q \<ge> 1"
      using q(1) revs by (auto simp: revisions_ok_def validate_revision_iff revision_fields_ok_def between_def)
    then show ?thesis
      using next_generation_Inr [OF gen] Some q
      by (auto simp: has_parent_def same_lineage_def)
  qed
  have "validate_revision E ?r = Inr ?r"
    using draft_row_valid [OF env cfg b id] a parent by (simp add: valid_actor_def)
  then have "new_draft E (actor_tenant_id actor) d ?r"
    using ins parent tenant unfolding new_draft_def insert_revision_Inr by simp
  moreover have d1: "d1 = d\<lparr>control_revisions := control_revisions d @ [?r]\<rparr>"
    using ins by (simp add: insert_revision_Inr)
  moreover have "next_event E (actor_tenant_id actor) d v"
    using append_audit_Inr(2) [OF ev] next_event_cong [of d1 d E "actor_tenant_id actor" v] d1 by simp
  ultimately show "store_step E (actor_tenant_id actor) d d'"
    using append_audit_Inr(1) [OF ev] store_step.draft by simp
  show "\<exists>r \<in> set (control_revisions d'). rev_revision_id r = i \<and> rev_tenant_id r = actor_tenant_id actor
      \<and> rev_state r = Draft \<and> rev_created_by r = actor_subject actor \<and> rev_configuration_bytes r = b"
    unfolding append_audit_Inr(1) [OF ev] d1 using tenant by simp
qed

lemma move_revision_rows:
  assumes "keys_ok d" "r \<in> set (control_revisions d)" "p r"
    and "\<And>x. p x \<Longrightarrow> rev_revision_id x = rev_revision_id r" "f r = moved s a b r"
  shows "update_where p f (control_revisions d)
    = modify_row rev_revision_id (rev_revision_id r) (moved s a b) (control_revisions d)"
  by (rule update_where_unique [OF keys_ok_D(1) [OF assms(1)] assms(2), of p f "moved s a b"])
    (use assms(3-5) in blast)+

lemma move_revision_update:
  assumes "keys_ok d" "r \<in> set (control_revisions d)" "p r"
    and "\<And>x. p x \<Longrightarrow> rev_revision_id x = rev_revision_id r" "f r = moved s a b r"
  shows "snd (update_revisions p f d) = move_revision r s a b d"
  using move_revision_rows [of d r p f s a b, OF assms] by (simp add: update_revisions_def move_revision_def)

lemma next_event_move [simp]:
  "next_event E t (move_revision r s a b d) v = next_event E t d v"
  "next_event E t (move_operation p p' d) v = next_event E t d v"
  by (simp_all add: next_event_def tenant_events_def)

lemma submit_step:
  assumes inv: "store_inv E d"
    and run: "transition_body E actor i Draft Submitted n at RevisionSubmitted d = Inr (u, d')"
  shows "\<exists>r v. r \<in> set (control_revisions d) \<and> rev_revision_id r = i \<and> rev_tenant_id r = actor_tenant_id actor
    \<and> rev_state r = Draft \<and> rev_state_version r = n \<and> next_event E (actor_tenant_id actor) d v
    \<and> d' = logged v (move_revision r Submitted (Some (stored_second at)) (rev_decided_at r) d)"
proof -
  have k: "keys_ok d" using inv by (simp add: store_inv_def)
  let ?p = "\<lambda>r. rev_tenant_id r = actor_tenant_id actor \<and> rev_revision_id r = i
    \<and> rev_state r = Draft \<and> rev_state_version r = n"
  from run obtain r where row: "tenant_revision (actor_tenant_id actor) i d = Some r"
    by (cases "tenant_revision (actor_tenant_id actor) i d") (auto simp: transition_body_def)
  let ?f = "\<lambda>x. x\<lparr>rev_state := Submitted, rev_state_version := rev_state_version x + 1,
      rev_submitted_at := Some (stored_second at), rev_decided_at := rev_decided_at r\<rparr>"
  note r = tenant_revision_Some [OF row]
  have load: "load_revision E r = Inr r"
    using run row by (cases "load_revision E r")
      (auto simp: transition_body_def dest: load_revision_Inr)
  with run row obtain v details where p: "?p r"
    and ev: "append_audit E (Human actor) RevisionSubmitted i at details
      (snd (update_revisions ?p ?f d)) = Inr (v, d')"
    using r by (auto simp: transition_body_def Let_def rbind_eq_Inr split_beta split: if_splits)
  have "snd (update_revisions ?p ?f d)
      = move_revision r Submitted (Some (stored_second at)) (rev_decided_at r) d"
    using r p by (intro move_revision_update [OF k]) (auto simp: moved_def)
  then show ?thesis using append_audit_Inr(1,2) [OF ev] r p by (intro exI [of _ r] exI [of _ v]) auto
qed

lemma decide_step:
  assumes inv: "store_inv E d"
    and run: "decide_body E actor i n k comment at d = Inr (x, d')"
  shows "\<exists>r v. r \<in> set (control_revisions d) \<and> rev_revision_id r = i \<and> rev_tenant_id r = actor_tenant_id actor
    \<and> rev_state r = Submitted \<and> rev_state_version r = n
    \<and> new_decision E (actor_tenant_id actor) d r x \<and> dec_decided_by x = actor_subject actor
    \<and> dec_decision x = k \<and> next_event E (actor_tenant_id actor) d v
    \<and> d' = logged v ((move_revision r (decided_state (dec_decision x)) (rev_submitted_at r)
        (Some (dec_decided_at x)) d)\<lparr>approval_decisions := approval_decisions d @ [x]\<rparr>)"
proof -
  have k: "keys_ok d" using inv by (simp add: store_inv_def)
  let ?p = "\<lambda>r. rev_tenant_id r = actor_tenant_id actor \<and> rev_revision_id r = i
    \<and> rev_state r = Submitted \<and> rev_state_version r = n"
  let ?f = "\<lambda>x. x\<lparr>rev_state := decided_state k, rev_state_version := rev_state_version x + 1,
      rev_decided_at := Some (stored_second at)\<rparr>"
  from run obtain r where row: "tenant_revision (actor_tenant_id actor) i d = Some r"
    by (cases "tenant_revision (actor_tenant_id actor) i d") (auto simp: decide_body_def)
  note r = tenant_revision_Some [OF row]
  have load: "load_revision E r = Inr r"
    using run row by (cases "load_revision E r") (auto simp: decide_body_def dest: load_revision_Inr)
  with run row obtain did x0 d1 details v where p: "?p r"
    and x0: "validate_decision E x0 = Inr x"
      "x0 = \<lparr>dec_decision_id = did, dec_revision_id = i, dec_tenant_id = actor_tenant_id actor,
        dec_decision = k, dec_decided_by = actor_subject actor, dec_decided_at = stored_second at,
        dec_comment = comment, dec_actor_session_digest = actor_session_id_digest actor\<rparr>"
    and ins: "insert_decision x d = Inr d1"
    and ev: "append_audit E (Human actor) (decision_action k) i at details
      (snd (update_revisions ?p ?f d1)) = Inr (v, d')"
    using r by (auto simp: decide_body_def Let_def rbind_eq_Inr split_beta split: if_splits)
  have x: "validate_decision E x = Inr x" "x = x0" using validate_decision_Inr x0(1) by auto
  note x0 = x0(2) [folded x(2)]
  have d1: "d1 = d\<lparr>approval_decisions := approval_decisions d @ [x]\<rparr>"
    and fresh: "dec_revision_id x \<notin> dec_revision_id ` set (approval_decisions d)"
    using ins by (auto simp: insert_decision_Inr)
  have new: "new_decision E (actor_tenant_id actor) d r x"
    using x(1) fresh r by (auto simp: new_decision_def x0)
  have "snd (update_revisions ?p ?f d1) = move_revision r (decided_state k) (rev_submitted_at r)
      (Some (stored_second at)) d1"
    using r p keys_ok_insert_decision [OF k new]
    by (intro move_revision_update) (auto simp: moved_def d1)
  then have upd: "snd (update_revisions ?p ?f d1) = (move_revision r (decided_state (dec_decision x))
      (rev_submitted_at r) (Some (dec_decided_at x)) d)\<lparr>approval_decisions := approval_decisions d @ [x]\<rparr>"
    by (simp add: d1 x0 move_revision_def)
  note new
  moreover have "next_event E (actor_tenant_id actor) d v"
    using append_audit_Inr(2) [OF ev] unfolding upd by (simp add: next_event_def tenant_events_def)
  ultimately show ?thesis
    using append_audit_Inr(1) [OF ev] r p unfolding upd
    by (intro exI [of _ r] exI [of _ v]) (auto simp: x0)
qed

section \<open>Deployment requests\<close>

lemma create_operation_step:
  assumes "create_deployment_operation E actor r k at expected retry d = Inr (p, d')"
    and "rev_tenant_id r = actor_tenant_id actor"
  shows "new_request E r d p d'" "op_requested_by p = actor_subject actor" "op_kind p = k"
    "op_retry_of p = retry"
proof -
  let ?none = "where_rows (\<lambda>p. same_control (actor_tenant_id actor) (rev_control_id r) p
    \<and> unresolved p) (deployment_operations d) = []"
  from assms(1) have none: ?none
    by (auto simp: create_deployment_operation_def split: if_splits)
  from assms(1) none obtain p0 where ins: "insert_operation p0 d = Inr d'"
    and val: "validate_operation E p0 = Inr p" and p0: "op_tenant_id p0 = actor_tenant_id actor"
      "op_control_id p0 = rev_control_id r" "op_revision_id p0 = rev_revision_id r"
      "op_state p0 = Pending" "op_requested_by p0 = actor_subject actor" "op_kind p0 = k"
      "op_retry_of p0 = retry"
    by (auto simp: create_deployment_operation_def Let_def result_simps split: if_splits)
  have "p = p0" using validate_operation_Inr [OF val] .
  with ins val p0 none assms(2) show "new_request E r d p d'"
    by (auto simp: new_request_def table_simps list_ex_iff)
  show "op_requested_by p = actor_subject actor" "op_kind p = k" "op_retry_of p = retry"
    using p0 \<open>p = p0\<close> by auto
qed

text \<open>The pointer write: the tables after \<open>select_revision\<close>.\<close>

definition new_pointer :: "actor \<Rightarrow> revision \<Rightarrow> int \<Rightarrow> int \<Rightarrow> active_deployment" where
  "new_pointer actor r at n =
     \<lparr>dep_tenant_id = actor_tenant_id actor, dep_control_id = rev_control_id r,
      dep_revision_id = rev_revision_id r, dep_configuration_digest = rev_configuration_digest r,
      dep_activated_by = actor_subject actor, dep_activated_at = at, dep_deployment_version = n\<rparr>"

lemma select_first:
  assumes "select_revision actor r expected at d = Inr ((n, prev), d1)"
    and "pointer_of d (actor_tenant_id actor) (rev_control_id r) = None"
  shows "n = 1" "prev = None" "expected = None"
    "d1 = d\<lparr>active_deployments := active_deployments d @ [new_pointer actor r at 1]\<rparr>"
    "deployment_key (new_pointer actor r at 1) \<notin> deployment_key ` set (active_deployments d)"
  using assms by (auto simp: select_revision_def insert_deployment_Inr new_pointer_def result_simps
      split: if_splits)

lemma select_next:
  assumes inv: "store_inv E d"
    and sel: "select_revision actor r expected at d = Inr ((n, prev), d1)"
    and x: "pointer_of d (actor_tenant_id actor) (rev_control_id r) = Some x"
  shows "\<exists>q \<in> set (control_revisions d). rev_revision_id q = dep_revision_id x
      \<and> rev_revision_id q \<noteq> rev_revision_id r \<and> prev = Some (rev_revision_id q)
      \<and> expected = Some (dep_deployment_version x) \<and> n = dep_deployment_version x + 1
      \<and> d1 = (move_revision q Retired (rev_submitted_at q) (rev_decided_at q) d)
          \<lparr>active_deployments := modify_row deployment_key (deployment_key x)
             (\<lambda>_. new_pointer actor r at n) (active_deployments d)\<rparr>"
proof -
  have k: "keys_ok d" using inv by (simp add: store_inv_def)
  note xin = pointer_of_Some [OF x]
  obtain q where q: "q \<in> set (control_revisions d)" "rev_revision_id q = dep_revision_id x"
    "pointer_matches x (Some q)"
    using inv xin by (auto simp: store_inv_def pointers_ok_def)
  have load: "load_deployment x = Inr x"
    using sel x by (cases "load_deployment x") (auto simp: select_revision_def dest: load_deployment_Inr)
  let ?p = "\<lambda>y. dep_tenant_id y = actor_tenant_id actor \<and> dep_control_id y = rev_control_id r
    \<and> dep_deployment_version y = dep_deployment_version x"
  let ?f = "\<lambda>y. y\<lparr>dep_revision_id := rev_revision_id r,
    dep_configuration_digest := rev_configuration_digest r, dep_activated_by := actor_subject actor,
    dep_activated_at := at, dep_deployment_version := dep_deployment_version x + 1\<rparr>"
  let ?pr = "\<lambda>y. rev_tenant_id y = actor_tenant_id actor
    \<and> rev_revision_id y = dep_revision_id x \<and> rev_state y = Approved"
  let ?fr = "\<lambda>y. y\<lparr>rev_state := Retired, rev_state_version := rev_state_version y + 1\<rparr>"
  from sel x load obtain m where guard: "expected = Some (dep_deployment_version x)"
      "dep_revision_id x \<noteq> rev_revision_id r" "n = dep_deployment_version x + 1"
      "prev = Some (dep_revision_id x)"
    and upd: "update_deployments ?p ?f d = Inr (m, d\<lparr>active_deployments :=
        update_where ?p ?f (active_deployments d)\<rparr>)"
    and d1: "d1 = snd (update_revisions ?pr ?fr
        (d\<lparr>active_deployments := update_where ?p ?f (active_deployments d)\<rparr>))"
    by (auto simp: select_revision_def Let_def rbind_eq_Inr split_beta update_deployments_def
        sqlite_check_Inr split: if_splits)
  have "update_where ?p ?f (active_deployments d) = modify_row deployment_key (deployment_key x)
      (\<lambda>_. new_pointer actor r at n) (active_deployments d)"
    by (rule update_where_unique [OF keys_ok_D(4) [OF k] xin [THEN conjunct1], of ?p ?f])
      (use xin guard(3) in \<open>auto simp: deployment_key_def new_pointer_def\<close>)
  moreover have "update_where ?pr ?fr (control_revisions d) = modify_row rev_revision_id
      (rev_revision_id q) (moved Retired (rev_submitted_at q) (rev_decided_at q)) (control_revisions d)"
    using q xin by (intro move_revision_rows [OF k]) (auto simp: pointer_matches_def moved_def)
  ultimately have "d1 = (move_revision q Retired (rev_submitted_at q) (rev_decided_at q) d)
      \<lparr>active_deployments := modify_row deployment_key (deployment_key x)
         (\<lambda>_. new_pointer actor r at n) (active_deployments d)\<rparr>"
    unfolding d1 by (simp add: update_revisions_def move_revision_def)
  then show ?thesis using q guard by (intro bexI [of _ q]) auto
qed

text \<open>Selecting a revision, together with the request for it, is one of the two selection steps.\<close>

lemma selected_step:
  assumes inv: "store_inv E d" and r: "r \<in> set (control_revisions d)" "rev_tenant_id r = actor_tenant_id actor"
    and state: "rev_state r = Approved" and sel: "select_revision actor r expected at d = Inr ((n, prev), d1)"
    and req: "new_request E r d1 p d2" and x': "x' = new_pointer actor r at n" "validate_deployment x' = Inr x'" "selects r x'"
    and next2: "next_event E (actor_tenant_id actor) d2 v"
  shows "store_step E (actor_tenant_id actor) d (logged v d2) \<and> x' \<in> set (active_deployments d2)
    \<and> n = (case expected of None \<Rightarrow> 1 | Some n \<Rightarrow> n + 1)
    \<and> expected = map_option dep_deployment_version (pointer_of d (actor_tenant_id actor) (rev_control_id r))"
proof (cases "pointer_of d (actor_tenant_id actor) (rev_control_id r)")
  case None
  note f = select_first [OF sel None] and D = new_request_D [OF req]
  have "next_event E (actor_tenant_id actor) d v"
    using next2 next_event_cong [of d2 d E] D(4) f(4) by simp
  then have "store_step E (actor_tenant_id actor) d (logged v d2)"
    using store_step.selected_first [of r d "actor_tenant_id actor" x' E p d2 v] r state x'(2,3) req f
    by (simp add: x'(1))
  then show ?thesis using f None D(3) by (simp add: x'(1))
next
  case (Some x)
  note D = new_request_D [OF req]
  from select_next [OF inv sel Some] obtain q where q: "q \<in> set (control_revisions d)"
    "rev_revision_id q = dep_revision_id x" "rev_revision_id q \<noteq> rev_revision_id r"
    "expected = Some (dep_deployment_version x)" "n = dep_deployment_version x + 1"
    and d1: "d1 = (move_revision q Retired (rev_submitted_at q) (rev_decided_at q) d)
        \<lparr>active_deployments := modify_row deployment_key (deployment_key x)
           (\<lambda>_. new_pointer actor r at n) (active_deployments d)\<rparr>" by blast
  note xin = pointer_of_Some [OF Some]
  have k: "keys_ok d" using inv by (simp add: store_inv_def)
  have "next_event E (actor_tenant_id actor) d v"
    using next2 next_event_cong [of d2 d E] D(4) d1 by simp
  moreover have "deployment_key x = deployment_key x'"
    using xin by (simp add: x'(1) deployment_key_def new_pointer_def)
  moreover have "dep_deployment_version x' = dep_deployment_version x + 1"
    using q by (simp add: x'(1) new_pointer_def)
  moreover have "q \<noteq> r" using q(3) by blast
  ultimately have "store_step E (actor_tenant_id actor) d (logged v d2)"
    using r xin q(1,2) req [unfolded d1 x'(1) [symmetric]] state x'(2,3)
    by (intro store_step.selected_next [of r d "actor_tenant_id actor" x x' q]) auto
  moreover have "x' \<in> set (active_deployments d2)"
    using set_modify_row [OF keys_ok_D(4) [OF k], of x "\<lambda>_. x'"] xin D(3) d1 by (simp add: x'(1))
  ultimately show ?thesis using q Some by simp
qed

lemma activate_step:
  assumes inv: "store_inv E d"
    and run: "activate_body E actor i expected at d = Inr ((x', p), d')"
  shows "store_step E (actor_tenant_id actor) d d'"
    and "\<exists>r \<in> set (control_revisions d). rev_tenant_id r = actor_tenant_id actor \<and> rev_revision_id r = i
      \<and> rev_state r = Approved \<and> x' = new_pointer actor r at (dep_deployment_version x')
      \<and> dep_deployment_version x' = (case expected of None \<Rightarrow> 1 | Some n \<Rightarrow> n + 1)
      \<and> expected = map_option dep_deployment_version (pointer_of d (actor_tenant_id actor) (rev_control_id r))
      \<and> op_kind p = Apply \<and> op_revision_id p = i \<and> op_requested_by p = actor_subject actor
      \<and> op_control_id p = rev_control_id r
      \<and> x' \<in> set (active_deployments d') \<and> p \<in> set (deployment_operations d')"
proof -
  from run obtain r where row: "tenant_revision (actor_tenant_id actor) i d = Some r"
    by (cases "tenant_revision (actor_tenant_id actor) i d") (auto simp: activate_body_def)
  note r = tenant_revision_Some [OF row]
  have "load_revision E r = Inr r"
    using run row by (cases "load_revision E r") (auto simp: activate_body_def dest: load_revision_Inr)
  with run row obtain n prev d1 d2 v details where state: "rev_state r = Approved"
    and sel: "select_revision actor r expected at d = Inr ((n, prev), d1)"
    and op: "create_deployment_operation E actor r Apply (instant at) None None d1 = Inr (p, d2)"
    and val: "validate_deployment (new_pointer actor r at n) = Inr x'"
    and ev: "append_audit E (Human actor) RevisionActivated (rev_revision_id r) (instant at) details d2
      = Inr (v, d')"
    by (auto simp: activate_body_def Let_def rbind_eq_Inr split_beta new_pointer_def split: if_splits)
  have x': "x' = new_pointer actor r at n" "validate_deployment x' = Inr x'"
    using validate_deployment_Inr [OF val] val by auto
  have sel_x: "selects r x'" using x' r by (simp add: selects_def new_pointer_def)
  have req: "new_request E r d1 p d2" using create_operation_step(1) [OF op] r by simp
  note pf = create_operation_step(2-4) [OF op] and D = new_request_D [OF req]
  have d': "d' = logged v d2" and next2: "next_event E (actor_tenant_id actor) d2 v"
    using append_audit_Inr(1,2) [OF ev] by simp_all
  have fields: "op_revision_id p = i \<and> op_control_id p = rev_control_id r"
    using req r by (simp add: new_request_def)
  have core: "store_step E (actor_tenant_id actor) d d' \<and> x' \<in> set (active_deployments d')
      \<and> n = (case expected of None \<Rightarrow> 1 | Some n \<Rightarrow> n + 1)
      \<and> expected = map_option dep_deployment_version (pointer_of d (actor_tenant_id actor) (rev_control_id r))"
    using selected_step [OF inv _ _ state sel req x' sel_x next2] r d' by simp
  then show "store_step E (actor_tenant_id actor) d d'" by blast
  have "p \<in> set (deployment_operations d')" using D(5) d' by simp
  moreover have "dep_deployment_version x' = n" by (simp add: x' new_pointer_def)
  ultimately show "\<exists>r \<in> set (control_revisions d). rev_tenant_id r = actor_tenant_id actor \<and> rev_revision_id r = i
      \<and> rev_state r = Approved \<and> x' = new_pointer actor r at (dep_deployment_version x')
      \<and> dep_deployment_version x' = (case expected of None \<Rightarrow> 1 | Some n \<Rightarrow> n + 1)
      \<and> expected = map_option dep_deployment_version (pointer_of d (actor_tenant_id actor) (rev_control_id r))
      \<and> op_kind p = Apply \<and> op_revision_id p = i \<and> op_requested_by p = actor_subject actor
      \<and> op_control_id p = rev_control_id r
      \<and> x' \<in> set (active_deployments d') \<and> p \<in> set (deployment_operations d')"
    using core r state pf fields x'(1) by (intro bexI [of _ r]) auto
qed

lemma request_step_of:
  assumes "r \<in> set (control_revisions d)" "rev_tenant_id r = actor_tenant_id actor"
    and "create_deployment_operation E actor r k at expected retry d = Inr (p, d1)"
    and "append_audit E (Human actor) a i at' details d1 = Inr (v, d')"
  shows "store_step E (actor_tenant_id actor) d d'"
proof -
  have req: "new_request E r d p d1" by (rule create_operation_step(1) [OF assms(3,2)])
  have "next_event E (actor_tenant_id actor) d v"
    using append_audit_Inr(2) [OF assms(4)] next_event_cong [of d1 d E] new_request_D(4) [OF req] by simp
  then show ?thesis
    using store_step.requested [OF assms(1,2) req] append_audit_Inr(1) [OF assms(4)] by simp
qed

lemma rollback_step:
  assumes run: "request_rollback_body E actor i expected at d = Inr (p, d')"
  shows "store_step E (actor_tenant_id actor) d d'"
    and "\<exists>r \<in> set (control_revisions d). rev_tenant_id r = actor_tenant_id actor \<and> rev_revision_id r = i
      \<and> rev_state r = Retired \<and> rev_created_by r \<noteq> actor_subject actor
      \<and> op_revision_id p = i \<and> op_kind p = Rollback \<and> op_state p = Pending
      \<and> op_predecessor p = Some expected
      \<and> map_option op_operation_id (latest_applied_row (actor_tenant_id actor) (rev_control_id r)
           (deployment_operations d)) = Some expected
      \<and> active_deployments d' = active_deployments d \<and> control_revisions d' = control_revisions d
      \<and> deployment_operations d' = deployment_operations d @ [p]"
proof -
  from run obtain r where row: "tenant_revision (actor_tenant_id actor) i d = Some r"
    by (cases "tenant_revision (actor_tenant_id actor) i d") (auto simp: request_rollback_body_def)
  note r = tenant_revision_Some [OF row]
  have load: "load_revision E r = Inr r"
    using run row by (cases "load_revision E r") (auto simp: request_rollback_body_def dest: load_revision_Inr)
  from run row load obtain c where cur: "latest_applied_row (actor_tenant_id actor) (rev_control_id r)
      (deployment_operations d) = Some c"
    by (cases "latest_applied_row (actor_tenant_id actor) (rev_control_id r) (deployment_operations d)")
      (auto simp: request_rollback_body_def split: if_splits)
  have "load_operation E c = Inr c"
    using run row load cur by (cases "load_operation E c")
      (auto simp: request_rollback_body_def dest: load_operation_Inr split: if_splits)
  with run row load cur obtain d1 v details where state: "rev_state r = Retired"
      "rev_created_by r \<noteq> actor_subject actor" "op_operation_id c = expected"
    and op: "create_deployment_operation E actor r Rollback (instant at) (Some (Some expected)) None d
      = Inr (p, d1)"
    and ev: "append_audit E (Human actor) DeploymentRollbackRequested (op_operation_id p) (instant at)
      details d1 = Inr (v, d')"
    by (auto simp: request_rollback_body_def rbind_eq_Inr split_beta split: if_splits)
  show "store_step E (actor_tenant_id actor) d d'" using request_step_of [OF _ _ op ev] r by simp
  have req: "new_request E r d p d1" using create_operation_step(1) [OF op] r by simp
  have "op_predecessor p = Some expected"
    using req cur state(3) r by (auto simp: new_request_def insert_operation_Inr insert_guard_def)
  then show "\<exists>r \<in> set (control_revisions d). rev_tenant_id r = actor_tenant_id actor \<and> rev_revision_id r = i
      \<and> rev_state r = Retired \<and> rev_created_by r \<noteq> actor_subject actor
      \<and> op_revision_id p = i \<and> op_kind p = Rollback \<and> op_state p = Pending
      \<and> op_predecessor p = Some expected
      \<and> map_option op_operation_id (latest_applied_row (actor_tenant_id actor) (rev_control_id r)
           (deployment_operations d)) = Some expected
      \<and> active_deployments d' = active_deployments d \<and> control_revisions d' = control_revisions d
      \<and> deployment_operations d' = deployment_operations d @ [p]"
    using r state cur req create_operation_step(3) [OF op] new_request_D [OF req]
      append_audit_Inr(1) [OF ev]
    by (intro bexI [of _ r]) (auto simp: new_request_def)
qed

lemma latest_operation_row_Some:
  assumes "latest_operation_row t c d = Some q"
  shows "q \<in> set (deployment_operations d)" "same_control t c q"
    "\<And>q'. q' \<in> set (deployment_operations d) \<Longrightarrow> same_control t c q' \<Longrightarrow> op_sequence q' \<le> op_sequence q"
  using fetchone_order_by_desc [OF assms [unfolded latest_operation_row_def]]
  by (auto simp: table_simps)

lemma retry_step:
  assumes run: "request_retry_body E actor i at d = Inr (p, d')"
  shows "store_step E (actor_tenant_id actor) d d'"
    and "\<exists>failed \<in> set (deployment_operations d). op_operation_id failed = i
      \<and> op_tenant_id failed = actor_tenant_id actor \<and> op_state failed = Failed
      \<and> op_retry_at failed = None \<and> op_revision_id p = op_revision_id failed
      \<and> op_control_id p = op_control_id failed \<and> op_retry_of p = Some i \<and> op_kind p = Apply
      \<and> op_sequence p = op_sequence failed + 1 \<and> op_state p = Pending
      \<and> deployment_operations d' = deployment_operations d @ [p]"
proof -
  from run obtain f where row: "tenant_operation (actor_tenant_id actor) i d = Some f"
    by (cases "tenant_operation (actor_tenant_id actor) i d") (auto simp: request_retry_body_def)
  note f = tenant_operation_Some [OF row]
  have load: "load_operation E f = Inr f"
    using run row by (cases "load_operation E f") (auto simp: request_retry_body_def dest: load_operation_Inr)
  from run row load obtain r where rrow: "tenant_revision (actor_tenant_id actor) (op_revision_id f) d = Some r"
    by (cases "tenant_revision (actor_tenant_id actor) (op_revision_id f) d")
      (auto simp: request_retry_body_def split: if_splits)
  note r = tenant_revision_Some [OF rrow]
  have rload: "load_revision E r = Inr r"
    using run row load rrow by (cases "load_revision E r")
      (auto simp: request_retry_body_def dest: load_revision_Inr split: if_splits)
  from run row load rrow rload obtain d1 v details where state: "op_state f = Failed" "op_retry_at f = None"
    and op: "create_deployment_operation E actor r Apply (instant at) None (Some (op_operation_id f)) d
      = Inr (p, d1)"
    and ev: "append_audit E (Human actor) DeploymentRetryRequested (op_operation_id p) (instant at)
      details d1 = Inr (v, d')"
    by (auto simp: request_retry_body_def rbind_eq_Inr split_beta split: if_splits)
  show "store_step E (actor_tenant_id actor) d d'" using request_step_of [OF _ _ op ev] r by simp
  have req: "new_request E r d p d1" using create_operation_step(1) [OF op] r by simp
  note pf = create_operation_step(3,4) [OF op r [THEN conjunct2, THEN conjunct1]]
  have "\<exists>q \<in> set (deployment_operations d). guard_retry p q"
    using req pf(2) by (auto simp: new_request_def insert_operation_Inr insert_guard_def list_ex_iff)
  then obtain q where q: "q \<in> set (deployment_operations d)" "guard_retry p q" by blast
  then show "\<exists>failed \<in> set (deployment_operations d). op_operation_id failed = i
      \<and> op_tenant_id failed = actor_tenant_id actor \<and> op_state failed = Failed
      \<and> op_retry_at failed = None \<and> op_revision_id p = op_revision_id failed
      \<and> op_control_id p = op_control_id failed \<and> op_retry_of p = Some i \<and> op_kind p = Apply
      \<and> op_sequence p = op_sequence failed + 1 \<and> op_state p = Pending
      \<and> deployment_operations d' = deployment_operations d @ [p]"
    using f r req pf new_request_D [OF req] append_audit_Inr(1) [OF ev]
    by (intro bexI [of _ q]) (auto simp: new_request_def guard_retry_def same_control_def)
qed

section \<open>Leases\<close>

lemma update_operation_rows:
  assumes "keys_ok d" "p \<in> set (deployment_operations d)" "P p"
    and "\<And>x. P x \<Longrightarrow> op_operation_id x = op_operation_id p"
    and "update_operations P f d = Inr (n, d1)"
  shows "d1 = move_operation p (f p) d" "transition_guard p (f p)" "operation_row_check (f p)"
proof -
  have "update_where P f (deployment_operations d)
      = modify_row op_operation_id (op_operation_id p) (\<lambda>_. f p) (deployment_operations d)"
    by (rule update_where_unique [OF keys_ok_D(5) [OF assms(1)] assms(2), of P f "\<lambda>_. f p"])
      (use assms(3,4) in blast)+
  moreover have "d1 = d\<lparr>deployment_operations := update_where P f (deployment_operations d)\<rparr>"
    "list_all (\<lambda>x. transition_guard x (f x) \<and> operation_row_check (f x))
        (where_rows P (deployment_operations d))"
    using assms(5) by (auto simp: update_operations_def sqlite_check_Inr)
  ultimately show "d1 = move_operation p (f p) d" "transition_guard p (f p)" "operation_row_check (f p)"
    using assms(2,3) by (auto simp: move_operation_def list_all_iff set_where_rows)
qed

text \<open>The row read back after an update of one operation is the updated row.\<close>

lemma read_back:
  assumes "keys_ok d" "p \<in> set (deployment_operations d)" "same_request p p'"
    and "tenant_operation (op_tenant_id p) (op_operation_id p) (logged v (move_operation p p' d)) = Some q"
  shows "q = p'"
proof -
  have "p' \<in> set (deployment_operations (move_operation p p' d))"
    using operations_after_move [OF assms(1,2)] by simp
  then have "tenant_operation (op_tenant_id p') (op_operation_id p') (move_operation p p' d) = Some p'"
    by (rule tenant_operation_eq [OF keys_ok_move_operation [OF assms(1-3)]])
  then show ?thesis using assms(3,4) by (simp add: tenant_operation_def same_request_def)
qed

lemma lease_row:
  "same_request p (lease_update w tok t ttl n p)" "op_state (lease_update w tok t ttl n p) = Leased"
  "op_state_version (lease_update w tok t ttl n p) = op_state_version p + 1"
  "op_lease_fence (lease_update w tok t ttl n p) = n"
  "op_leased_at (lease_update w tok t ttl n p) = Some t"
  by (simp_all add: same_request_def lease_update_def)

lemma lease_step:
  assumes inv: "store_inv E d" and run: "lease_body E w tok t ttl d = Inr (res, d')"
  shows "(case res of
      None \<Rightarrow> d' = d \<and> (\<forall>p \<in> set (deployment_operations d).
          op_tenant_id p = worker_tenant_id w \<longrightarrow> \<not> eligible t p)
    | Some p' \<Rightarrow> \<exists>p \<in> set (deployment_operations d). \<exists>v.
        op_tenant_id p = worker_tenant_id w \<and> eligible t p
        \<and> (\<forall>q \<in> set (deployment_operations d). op_tenant_id q = worker_tenant_id w \<longrightarrow> eligible t q
             \<longrightarrow> poll_order p \<le> poll_order q)
        \<and> p' = lease_update w tok t ttl (op_attempt_count p + 1) p \<and> op_move E p p'
        \<and> next_event E (worker_tenant_id w) d v \<and> d' = logged v (move_operation p p' d))"
proof -
  have k: "keys_ok d" using inv by (simp add: store_inv_def)
  let ?q = "order_by poll_order (where_rows (\<lambda>p. op_tenant_id p = worker_tenant_id w \<and> eligible t p)
    (deployment_operations d))"
  show ?thesis
  proof (cases "fetchone ?q")
    case None
    then have "res = None" "d' = d" using run by (auto simp: lease_body_def)
    then show ?thesis using None by (auto simp: table_simps)
  next
    case (Some p)
    note row = fetchone_order_by [OF Some]
    have p: "p \<in> set (deployment_operations d)" "op_tenant_id p = worker_tenant_id w" "eligible t p"
      using row(1) by (auto simp: table_simps)
    have load: "load_operation E p = Inr p"
      using run Some by (cases "load_operation E p") (auto simp: lease_body_def dest: load_operation_Inr)
    let ?P = "\<lambda>x. op_tenant_id x = worker_tenant_id w \<and> op_operation_id x = op_operation_id p
      \<and> op_state_version x = op_state_version p \<and> eligible t x"
    let ?p' = "lease_update w tok t ttl (op_attempt_count p + 1) p"
    from run Some load obtain n d1 v details u where
      upd: "update_operations ?P (lease_update w tok t ttl (op_attempt_count p + 1)) d = Inr (n, d1)"
      and ev: "append_audit E (Worker w) DeploymentLeased (op_operation_id p) (instant t) details d1
        = Inr (v, d')"
      and rb: "tenant_operation (worker_tenant_id w) (op_operation_id p) d' = Some u"
        "load_operation E u = Inr (the res)" "res \<noteq> None"
      by (auto simp: lease_body_def Let_def rbind_eq_Inr split_beta split: if_splits option.splits)
    have d1: "d1 = move_operation p ?p' d"
      using update_operation_rows(1) [OF k p(1) _ _ upd] p by auto
    have d': "d' = logged v d1" "next_event E (worker_tenant_id w) d v"
      using append_audit_Inr(1,2) [OF ev] d1 by auto
    have "u = ?p'"
      using read_back [OF k p(1) lease_row(1)] rb(1) p(2) d'(1) d1 by auto
    then have res: "res = Some ?p'" "validate_operation E ?p' = Inr ?p'"
      using rb(2,3) load_operation_Inr by force+
    have "op_move E p ?p'"
      using res(2) p(3)
      by (auto simp: op_move_def claimed_def lease_row)
    then show ?thesis
      using p row(2) res d' d1 by (auto simp: table_simps)
  qed
qed

lemma close_step:
  assumes inv: "store_inv E d" and p: "p \<in> set (deployment_operations d)"
      "op_tenant_id p = worker_tenant_id w" "op_operation_id p = i"
    and f: "same_request p (f p)" "op_state (f p) \<in> {Applied, Failed}"
      "op_lease_fence (f p) = op_lease_fence p" "op_state_version (f p) = op_state_version p + 1"
    and run: "close_lease E w i tok fence t f a details gone p d = Inr (p', d')"
  shows "p' = f p" "holds_lease w tok fence t p" "op_move E p p'"
    "\<exists>v. next_event E (worker_tenant_id w) d v \<and> d' = logged v (move_operation p p' d)"
proof -
  have k: "keys_ok d" using inv by (simp add: store_inv_def)
  let ?P = "\<lambda>x. op_tenant_id x = worker_tenant_id w \<and> op_operation_id x = i
      \<and> op_state_version x = op_state_version p \<and> holds_lease w tok fence t x"
  from run obtain n d1 v u where hold: "holds_lease w tok fence t p"
    and upd: "update_operations ?P f d = Inr (n, d1)"
    and ev: "append_audit E (Worker w) a i (instant t) (details p) d1 = Inr (v, d')"
    and rb: "tenant_operation (worker_tenant_id w) i d' = Some u" "load_operation E u = Inr p'"
    by (auto simp: close_lease_def rbind_eq_Inr split_beta split: if_splits option.splits)
  have d1: "d1 = move_operation p (f p) d"
    using update_operation_rows(1) [OF k p(1) _ _ upd] p hold by auto
  have d': "d' = logged v d1" "next_event E (worker_tenant_id w) d v"
    using append_audit_Inr(1,2) [OF ev] d1 by auto
  have "u = f p" using read_back [OF k p(1) f(1)] rb(1) p(2,3) d'(1) d1 by auto
  then have p': "p' = f p" "validate_operation E p' = Inr p'"
    using load_operation_Inr [OF rb(2)] by auto
  show "p' = f p" "holds_lease w tok fence t p" by (rule p'(1), rule hold)
  show "op_move E p p'"
    using p' f hold by (auto simp: op_move_def closed_def holds_lease_def)
  show "\<exists>v. next_event E (worker_tenant_id w) d v \<and> d' = logged v (move_operation p p' d)"
    using d' d1 p'(1) by auto
qed

section \<open>The contract of a store method\<close>

text \<open>
  What a client may rely on for every writing method of the store: under its precondition and on
  a database that satisfies the invariant, an exception leaves the database as it was, and a
  value means that nothing changed or that one abstract step of the caller's tenant was taken.
\<close>

locale store_method =
  fixes E :: "'e model_env_scheme" and pre :: bool and tenant :: string
    and run :: "db \<Rightarrow> 'a result \<times> db"
  assumes atomic: "pre \<Longrightarrow> store_inv E d \<Longrightarrow> run d = (Inl e, d') \<Longrightarrow> d' = d"
    and steps: "pre \<Longrightarrow> store_inv E d \<Longrightarrow> run d = (Inr x, d') \<Longrightarrow> d' = d \<or> store_step E tenant d d'"
begin

lemma outcome: "pre \<Longrightarrow> store_inv E d \<Longrightarrow> snd (run d) = d \<or> store_step E tenant d (snd (run d))"
  by (cases "run d"; cases "fst (run d)") (auto dest: atomic steps)

lemma keeps_inv: "pre \<Longrightarrow> store_inv E d \<Longrightarrow> store_inv E (snd (run d))"
  using outcome store_step_inv by metis

lemma isolates: "pre \<Longrightarrow> store_inv E d \<Longrightarrow> u \<noteq> tenant \<Longrightarrow> tenant_view u (snd (run d)) = tenant_view u d"
  using outcome store_step_view by metis

lemma grows: "pre \<Longrightarrow> store_inv E d \<Longrightarrow> evolves d (snd (run d))"
  using outcome store_step_evolves evolves_refl by metis

end

text \<open>A method that is one transaction after the checks of its arguments.\<close>

lemma store_method_transaction:
  assumes "\<And>d x d'. pre \<Longrightarrow> store_inv E d \<Longrightarrow> body d = Inr (x, d') \<Longrightarrow> d' = d \<or> store_step E t d d'"
  shows "store_method E pre t (\<lambda>d. case chk of Inl e \<Rightarrow> (Inl e, d) | Inr a \<Rightarrow> transaction body d)"
  by (unfold_locales; cases chk) (auto dest!: transaction_cases assms)

lemma get_revision_present:
  assumes "store_inv E d" "r \<in> set (control_revisions d)"
  shows "get_revision E (rev_tenant_id r) (rev_revision_id r) d = Inr r"
proof -
  have "tenant_revision (rev_tenant_id r) (rev_revision_id r) d = Some r"
    using tenant_revision_eq assms by (auto simp: store_inv_def)
  moreover have "validate_revision E r = Inr r"
    using assms by (auto simp: store_inv_def revisions_ok_def)
  ultimately show ?thesis by (simp add: get_revision_def load_revision_def)
qed

text \<open>The read after commit of \<open>create_draft\<close>, \<open>submit\<close> and \<open>decide\<close> finds the row it wrote.\<close>

definition draft_call :: "'e model_env_scheme \<Rightarrow> actor \<Rightarrow> control_configuration \<Rightarrow> bool" where
  "draft_call E actor cfg \<longleftrightarrow> lawful_env E \<and> valid_actor actor
     \<and> (\<exists>c0. validate_configuration E c0 = Inr cfg)"

lemma create_draft_outcome:
  assumes pre: "draft_call E actor cfg" and inv: "store_inv E d"
    and run: "create_draft E actor cfg parent at d = (res, d')"
  shows "case res of Inl e \<Rightarrow> d' = d
    | Inr r \<Rightarrow> store_step E (actor_tenant_id actor) d d' \<and> r \<in> set (control_revisions d')
        \<and> rev_state r = Draft \<and> rev_created_by r = actor_subject actor
        \<and> canonical_bytes E cfg = Inr (rev_configuration_bytes r)"
proof (cases "cfg_tenant_id cfg = actor_tenant_id actor")
  case True
  show ?thesis
  proof (cases "canonical_bytes E cfg")
    case (Inr b)
    let ?body = "\<lambda>d. integrity_conflict ''revision identity already exists''
      (create_draft_body E actor cfg b parent at d)"
    obtain res1 d1 where tr: "transaction ?body d = (res1, d1)" by fastforce
    from transaction_cases [OF tr] show ?thesis
    proof
      assume "\<exists>e. res1 = Inl e \<and> d1 = d \<and> ?body d = Inl e"
      then show ?thesis using run True Inr tr by (auto simp: create_draft_def)
    next
      assume "\<exists>i. res1 = Inr i \<and> ?body d = Inr (i, d1)"
      then obtain i where i: "res1 = Inr i" "create_draft_body E actor cfg b parent at d = Inr (i, d1)"
        by (auto simp: integrity_conflict_Inr)
      from pre obtain c0 where c0: "lawful_env E" "valid_actor actor" "validate_configuration E c0 = Inr cfg"
        by (auto simp: draft_call_def)
      note st = create_draft_step [OF inv c0 Inr True i(2)]
      then obtain r where r: "r \<in> set (control_revisions d1)" "rev_revision_id r = i"
        "rev_tenant_id r = actor_tenant_id actor" "rev_state r = Draft"
        "rev_created_by r = actor_subject actor" "rev_configuration_bytes r = b" by blast
      have "get_revision E (actor_tenant_id actor) i d1 = Inr r"
        using get_revision_present [OF store_step_inv [OF st(1) inv] r(1)] r(2,3) by simp
      then have "res = Inr r \<and> d' = d1"
        using run True Inr tr i(1) by (auto simp: create_draft_def)
      then show ?thesis using st(1) r Inr by simp
    qed
  qed (use run True in \<open>auto simp: create_draft_def\<close>)
qed (use run in \<open>auto simp: create_draft_def\<close>)

lemma submit_outcome:
  assumes inv: "store_inv E d" and run: "submit E actor i n at d = (res, d')"
  shows "case res of Inl e \<Rightarrow> d' = d
    | Inr r' \<Rightarrow> store_step E (actor_tenant_id actor) d d' \<and> (\<exists>r \<in> set (control_revisions d).
        rev_revision_id r = i \<and> rev_tenant_id r = actor_tenant_id actor \<and> rev_state r = Draft
        \<and> rev_state_version r = n
        \<and> r' = moved Submitted (Some (stored_second at)) (rev_decided_at r) r)"
proof -
  let ?body = "transition_body E actor i Draft Submitted n at RevisionSubmitted"
  obtain res1 d1 where tr: "transaction ?body d = (res1, d1)" by fastforce
  from transaction_cases [OF tr] show ?thesis
  proof
    assume "\<exists>e. res1 = Inl e \<and> d1 = d \<and> ?body d = Inl e"
    then show ?thesis using run tr by (auto simp: submit_def transition_def)
  next
    assume "\<exists>u. res1 = Inr u \<and> ?body d = Inr (u, d1)"
    then have u: "res1 = Inr ()" "?body d = Inr ((), d1)" by auto
    from submit_step [OF inv u(2)] obtain r v where r: "r \<in> set (control_revisions d)"
      "rev_revision_id r = i" "rev_tenant_id r = actor_tenant_id actor" "rev_state r = Draft"
      "rev_state_version r = n" "next_event E (actor_tenant_id actor) d v"
      "d1 = logged v (move_revision r Submitted (Some (stored_second at)) (rev_decided_at r) d)"
      by blast
    let ?r = "moved Submitted (Some (stored_second at)) (rev_decided_at r) r"
    have st: "store_step E (actor_tenant_id actor) d d1"
      using store_step.submitted [OF r(1,3,4,6)] r(7) by simp
    have "?r \<in> set (control_revisions d1)"
      using revisions_after_move [OF _ r(1)] inv r(7) by (simp add: store_inv_def)
    from get_revision_present [OF store_step_inv [OF st inv] this]
    have "get_revision E (actor_tenant_id actor) i d1 = Inr ?r" using r(2,3) by simp
    then have "res = Inr ?r \<and> d' = d1" using run tr u(1) by (auto simp: submit_def transition_def)
    then show ?thesis using st r by auto
  qed
qed

lemma decide_outcome:
  assumes inv: "store_inv E d" and run: "decide E actor i n decision comment at d = (res, d')"
  shows "case res of Inl e \<Rightarrow> d' = d
    | Inr (r', x) \<Rightarrow> store_step E (actor_tenant_id actor) d d' \<and> x \<in> set (approval_decisions d')
        \<and> dec_decided_by x = actor_subject actor \<and> decision_of decision = Some (dec_decision x)
        \<and> dec_revision_id x = i \<and> (\<exists>r \<in> set (control_revisions d).
        rev_revision_id r = i \<and> rev_tenant_id r = actor_tenant_id actor \<and> rev_state r = Submitted
        \<and> rev_state_version r = n
        \<and> r' = moved (decided_state (dec_decision x)) (rev_submitted_at r) (Some (dec_decided_at x)) r)"
proof (cases "decision_of decision")
  case (Some k)
  show ?thesis
  proof (cases "comment = [] \<or> length comment > 2000")
    case False
    let ?body = "\<lambda>d. integrity_conflict ''revision already has an approval decision''
      (decide_body E actor i n k comment at d)"
    obtain res1 d1 where tr: "transaction ?body d = (res1, d1)" by fastforce
    from transaction_cases [OF tr] show ?thesis
    proof
      assume "\<exists>e. res1 = Inl e \<and> d1 = d \<and> ?body d = Inl e"
      then show ?thesis using run Some False tr by (auto simp: decide_def)
    next
      assume "\<exists>x. res1 = Inr x \<and> ?body d = Inr (x, d1)"
      then obtain x where x: "res1 = Inr x" "decide_body E actor i n k comment at d = Inr (x, d1)"
        by (auto simp: integrity_conflict_Inr)
      from decide_step [OF inv x(2)] obtain r v where r: "r \<in> set (control_revisions d)"
        "rev_revision_id r = i" "rev_tenant_id r = actor_tenant_id actor" "rev_state r = Submitted"
        "rev_state_version r = n" "new_decision E (actor_tenant_id actor) d r x"
        "dec_decided_by x = actor_subject actor" "dec_decision x = k"
        "next_event E (actor_tenant_id actor) d v"
        "d1 = logged v ((move_revision r (decided_state (dec_decision x)) (rev_submitted_at r)
          (Some (dec_decided_at x)) d)\<lparr>approval_decisions := approval_decisions d @ [x]\<rparr>)" by blast
      let ?r = "moved (decided_state (dec_decision x)) (rev_submitted_at r) (Some (dec_decided_at x)) r"
      have st: "store_step E (actor_tenant_id actor) d d1"
        using store_step.decided [OF r(1,3,4,6,9)] r(10) by simp
      have "?r \<in> set (control_revisions d1)"
        using revisions_after_move [OF _ r(1)] inv r(10) by (simp add: store_inv_def)
      from get_revision_present [OF store_step_inv [OF st inv] this]
      have "get_revision E (actor_tenant_id actor) i d1 = Inr ?r" using r(2,3) by simp
      then have "res = Inr (?r, x) \<and> d' = d1" using run Some False tr x(1) by (auto simp: decide_def)
      moreover have "dec_revision_id x = i" using r(2,6) by (simp add: new_decision_def)
      moreover have "x \<in> set (approval_decisions d1)" using r(10) by simp
      ultimately show ?thesis using st r Some by auto
    qed
  qed (use run Some in \<open>auto simp: decide_def\<close>)
qed (use run in \<open>auto simp: decide_def\<close>)

lemma activate_outcome:
  assumes inv: "store_inv E d" and run: "activate_with_operation E actor i expected at d = (res, d')"
  shows "case res of Inl e \<Rightarrow> d' = d
    | Inr (x, p) \<Rightarrow> \<exists>t. utc_second ''revision activation time'' at = Inr t
        \<and> activate_body E actor i expected t d = Inr ((x, p), d')"
  using run
  by (auto simp: activate_with_operation_def split: sum.splits dest!: transaction_cases
      simp: integrity_conflict_Inr)

lemma rollback_outcome:
  assumes run: "request_rollback E actor i expected at d = (res, d')"
  shows "case res of Inl e \<Rightarrow> d' = d
    | Inr p \<Rightarrow> \<exists>t. request_rollback_body E actor i expected t d = Inr (p, d')"
  using run
  by (auto simp: request_rollback_def split: sum.splits dest!: transaction_cases
      simp: integrity_conflict_Inr)

lemma retry_outcome:
  assumes run: "request_deployment_retry E actor i at d = (res, d')"
  shows "case res of Inl e \<Rightarrow> d' = d
    | Inr p \<Rightarrow> \<exists>t. request_retry_body E actor i t d = Inr (p, d')"
  using run
  by (auto simp: request_deployment_retry_def split: sum.splits dest!: transaction_cases
      simp: integrity_conflict_Inr)

lemma lease_outcome:
  assumes run: "lease_next_deployment_operation E w tok at ttl d = (res, d')"
  shows "case res of Inl e \<Rightarrow> d' = d
    | Inr x \<Rightarrow> \<exists>t. utc_second ''deployment lease time'' at = Inr t \<and> 15 \<le> ttl \<and> ttl \<le> 3600
        \<and> lease_body E w tok t ttl d = Inr (x, d')"
  using run
  by (auto simp: lease_next_deployment_operation_def rbind_eq_Inr split: sum.splits if_splits
      dest!: transaction_cases simp: integrity_conflict_Inr)

lemma closed_rows:
  "same_request p (applied_row t g r p)" "op_state (applied_row t g r p) = Applied"
  "op_lease_fence (applied_row t g r p) = op_lease_fence p"
  "op_state_version (applied_row t g r p) = op_state_version p + 1"
  "same_request p (failed_row t h y p)" "op_state (failed_row t h y p) = Failed"
  "op_lease_fence (failed_row t h y p) = op_lease_fence p"
  "op_state_version (failed_row t h y p) = op_state_version p + 1"
  by (simp_all add: applied_row_def failed_row_def release_lease_def same_request_def)

text \<open>What a worker's report did, when it was accepted.\<close>

definition accepted ::
  "'e model_env_scheme \<Rightarrow> worker_identity \<Rightarrow> string \<Rightarrow> string \<Rightarrow> int \<Rightarrow> int \<Rightarrow> (operation \<Rightarrow> operation)
     \<Rightarrow> operation \<Rightarrow> db \<Rightarrow> db \<Rightarrow> bool" where
  "accepted E w i tok fence t f p' d d' \<longleftrightarrow> (\<exists>p \<in> set (deployment_operations d).
     op_operation_id p = i \<and> op_tenant_id p = worker_tenant_id w \<and> holds_lease w tok fence t p
     \<and> p' = f p \<and> op_move E p p'
     \<and> (\<exists>v. next_event E (worker_tenant_id w) d v \<and> d' = logged v (move_operation p p' d)))"

lemma acknowledge_outcome:
  assumes inv: "store_inv E d"
    and run: "acknowledge_deployment_applied E w i tok fence digest receipt at d = (res, d')"
  shows "case res of Inl e \<Rightarrow> d' = d
    | Inr p' \<Rightarrow> \<exists>t. utc_second ''deployment application time'' at = Inr t
        \<and> accepted E w i tok fence t (applied_row t digest receipt) p' d d'
        \<and> op_configuration_digest p' = digest"
proof (cases res)
  case (Inl e)
  then show ?thesis using run
    by (auto simp: acknowledge_deployment_applied_def split: sum.splits dest!: transaction_cases)
next
  case (Inr p')
  with run obtain t where t: "utc_second ''deployment application time'' at = Inr t"
    and body: "acknowledge_body E w i tok fence digest receipt t d = Inr (p', d')"
    by (auto simp: acknowledge_deployment_applied_def rbind_eq_Inr split: sum.splits if_splits
        dest!: transaction_cases)
  from body obtain p where row: "tenant_operation (worker_tenant_id w) i d = Some p"
    by (cases "tenant_operation (worker_tenant_id w) i d") (auto simp: acknowledge_body_def)
  note p = tenant_operation_Some [OF row]
  have "load_operation E p = Inr p"
    using body row by (cases "load_operation E p") (auto simp: acknowledge_body_def dest: load_operation_Inr)
  with body row obtain details gone where dig: "digest = op_configuration_digest p"
    and cl: "close_lease E w i tok fence t (applied_row t digest receipt) DeploymentApplied details gone p d
      = Inr (p', d')"
    by (auto simp: acknowledge_body_def split: if_splits)
  have c: "p' = applied_row t digest receipt p" "holds_lease w tok fence t p" "op_move E p p'"
    "\<exists>v. next_event E (worker_tenant_id w) d v \<and> d' = logged v (move_operation p p' d)"
    using close_step [OF inv _ _ _ _ _ _ _ cl] p closed_rows by auto
  have "op_configuration_digest p' = digest"
    using c(1) dig closed_rows(1) [of p t digest receipt] by (simp add: same_request_def)
  then show ?thesis using Inr t c p by (auto simp: accepted_def)
qed

lemma fail_outcome:
  assumes inv: "store_inv E d"
    and run: "fail_deployment_operation E w i tok fence failure at retry d = (res, d')"
  shows "case res of Inl e \<Rightarrow> d' = d
    | Inr p' \<Rightarrow> \<exists>t r. utc_second ''deployment failure time'' at = Inr t \<and> retry_second t retry = Inr r
        \<and> accepted E w i tok fence t (failed_row t failure r) p' d d'"
proof (cases res)
  case (Inl e)
  then show ?thesis using run
    by (auto simp: fail_deployment_operation_def split: sum.splits dest!: transaction_cases)
next
  case (Inr p')
  with run obtain t r where t: "utc_second ''deployment failure time'' at = Inr t"
      "retry_second t retry = Inr r"
    and body: "fail_body E w i tok fence failure t r d = Inr (p', d')"
    by (auto simp: fail_deployment_operation_def rbind_eq_Inr split: sum.splits if_splits
        dest!: transaction_cases)
  from body obtain p where row: "tenant_operation (worker_tenant_id w) i d = Some p"
    by (cases "tenant_operation (worker_tenant_id w) i d") (auto simp: fail_body_def)
  note p = tenant_operation_Some [OF row]
  have "load_operation E p = Inr p"
    using body row by (cases "load_operation E p") (auto simp: fail_body_def dest: load_operation_Inr)
  with body row obtain details gone where
    cl: "close_lease E w i tok fence t (failed_row t failure r) DeploymentFailed details gone p d = Inr (p', d')"
    by (auto simp: fail_body_def)
  have "p' = failed_row t failure r p" "holds_lease w tok fence t p" "op_move E p p'"
    "\<exists>v. next_event E (worker_tenant_id w) d v \<and> d' = logged v (move_operation p p' d)"
    using close_step [OF inv _ _ _ _ _ _ _ cl] p closed_rows by auto
  then show ?thesis using Inr t p by (auto simp: accepted_def)
qed

section \<open>Every method satisfies the contract\<close>

lemma accepted_step: "accepted E w i tok fence t f p' d d' \<Longrightarrow> store_step E (worker_tenant_id w) d d'"
  by (auto simp: accepted_def intro: store_step.operated)

interpretation create_draft: store_method E "draft_call E actor cfg" "actor_tenant_id actor"
  "create_draft E actor cfg parent at"
  for E :: "'e model_env_scheme" and actor cfg parent at
proof
  fix d d' e assume "draft_call E actor cfg" "store_inv E d" "create_draft E actor cfg parent at d = (Inl e, d')"
  from create_draft_outcome [OF this] show "d' = d" by simp
next
  fix d d' x assume "draft_call E actor cfg" "store_inv E d" "create_draft E actor cfg parent at d = (Inr x, d')"
  from create_draft_outcome [OF this] show "d' = d \<or> store_step E (actor_tenant_id actor) d d'" by simp
qed

interpretation submit: store_method E True "actor_tenant_id actor" "submit E actor i n at"
  for E :: "'e model_env_scheme" and actor i n at
  by unfold_locales (auto dest: submit_outcome)

interpretation decide: store_method E True "actor_tenant_id actor" "decide E actor i n decision comment at"
  for E :: "'e model_env_scheme" and actor i n decision comment at
proof
  fix d d' e assume "store_inv E d" "decide E actor i n decision comment at d = (Inl e, d')"
  from decide_outcome [OF this] show "d' = d" by simp
next
  fix d d' x assume "store_inv E d" "decide E actor i n decision comment at d = (Inr x, d')"
  from decide_outcome [OF this] show "d' = d \<or> store_step E (actor_tenant_id actor) d d'"
    by (simp add: split_beta)
qed

interpretation activate_with_operation: store_method E True "actor_tenant_id actor"
  "activate_with_operation E actor i expected at"
  for E :: "'e model_env_scheme" and actor i expected at
proof
  fix d d' e assume "store_inv E d" "activate_with_operation E actor i expected at d = (Inl e, d')"
  from activate_outcome [OF this] show "d' = d" by simp
next
  fix d d' x assume *: "store_inv E d" "activate_with_operation E actor i expected at d = (Inr x, d')"
  obtain y p where x: "x = (y, p)" by fastforce
  from activate_outcome [OF *] show "d' = d \<or> store_step E (actor_tenant_id actor) d d'"
    using activate_step(1) [OF *(1)] x by auto
qed

interpretation request_rollback: store_method E True "actor_tenant_id actor"
  "request_rollback E actor i expected at"
  for E :: "'e model_env_scheme" and actor i expected at
proof
  fix d d' e assume "request_rollback E actor i expected at d = (Inl e, d')"
  from rollback_outcome [OF this] show "d' = d" by simp
next
  fix d d' x assume "request_rollback E actor i expected at d = (Inr x, d')"
  from rollback_outcome [OF this] show "d' = d \<or> store_step E (actor_tenant_id actor) d d'"
    by (auto dest: rollback_step(1))
qed

interpretation request_deployment_retry: store_method E True "actor_tenant_id actor"
  "request_deployment_retry E actor i at"
  for E :: "'e model_env_scheme" and actor i at
proof
  fix d d' e assume "request_deployment_retry E actor i at d = (Inl e, d')"
  from retry_outcome [OF this] show "d' = d" by simp
next
  fix d d' x assume "request_deployment_retry E actor i at d = (Inr x, d')"
  from retry_outcome [OF this] show "d' = d \<or> store_step E (actor_tenant_id actor) d d'"
    by (auto dest: retry_step(1))
qed

interpretation lease_next_deployment_operation: store_method E True "worker_tenant_id w"
  "lease_next_deployment_operation E w tok at ttl"
  for E :: "'e model_env_scheme" and w tok at ttl
proof
  fix d d' e assume "lease_next_deployment_operation E w tok at ttl d = (Inl e, d')"
  from lease_outcome [OF this] show "d' = d" by simp
next
  fix d d' x assume *: "store_inv E d" "lease_next_deployment_operation E w tok at ttl d = (Inr x, d')"
  from lease_outcome [OF *(2)] obtain t where "lease_body E w tok t ttl d = Inr (x, d')" by auto
  from lease_step [OF *(1) this] show "d' = d \<or> store_step E (worker_tenant_id w) d d'"
    by (auto split: option.splits intro: store_step.operated)
qed

interpretation acknowledge_deployment_applied: store_method E True "worker_tenant_id w"
  "acknowledge_deployment_applied E w i tok fence digest receipt at"
  for E :: "'e model_env_scheme" and w i tok fence digest receipt at
proof
  fix d d' e assume "store_inv E d"
    "acknowledge_deployment_applied E w i tok fence digest receipt at d = (Inl e, d')"
  from acknowledge_outcome [OF this] show "d' = d" by simp
next
  fix d d' x assume "store_inv E d"
    "acknowledge_deployment_applied E w i tok fence digest receipt at d = (Inr x, d')"
  from acknowledge_outcome [OF this] show "d' = d \<or> store_step E (worker_tenant_id w) d d'"
    by (auto dest: accepted_step)
qed

interpretation fail_deployment_operation: store_method E True "worker_tenant_id w"
  "fail_deployment_operation E w i tok fence failure at retry"
  for E :: "'e model_env_scheme" and w i tok fence failure at retry
proof
  fix d d' e assume "store_inv E d"
    "fail_deployment_operation E w i tok fence failure at retry d = (Inl e, d')"
  from fail_outcome [OF this] show "d' = d" by simp
next
  fix d d' x assume "store_inv E d"
    "fail_deployment_operation E w i tok fence failure at retry d = (Inr x, d')"
  from fail_outcome [OF this] show "d' = d \<or> store_step E (worker_tenant_id w) d d'"
    by (auto dest: accepted_step)
qed

section \<open>Sequences of calls\<close>

text \<open>
  The writing calls of the store, as data. \<open>exec\<close> is the database a call leaves and \<open>after_calls\<close> the
  database after any sequence of calls on a new file; concurrent callers are serialised by
  BEGIN IMMEDIATE, so their interleaving is such a sequence.
\<close>

datatype call =
    CreateDraft actor control_configuration "string option" datetime
  | Submit actor string int datetime
  | Decide actor string int string string datetime
  | Activate actor string "int option" datetime
  | RequestRollback actor string string datetime
  | RequestRetry actor string datetime
  | Lease worker_identity string datetime int
  | Acknowledge worker_identity string string int string string datetime
  | Fail worker_identity string string int string datetime "datetime option"

fun exec :: "'e model_env_scheme \<Rightarrow> call \<Rightarrow> db \<Rightarrow> db" where
  "exec E (CreateDraft a c parent t) d = snd (create_draft E a c parent t d)"
| "exec E (Submit a i n t) d = snd (submit E a i n t d)"
| "exec E (Decide a i n k m t) d = snd (decide E a i n k m t d)"
| "exec E (Activate a i n t) d = snd (activate_with_operation E a i n t d)"
| "exec E (RequestRollback a i p t) d = snd (request_rollback E a i p t d)"
| "exec E (RequestRetry a i t) d = snd (request_deployment_retry E a i t d)"
| "exec E (Lease w tok t ttl) d = snd (lease_next_deployment_operation E w tok t ttl d)"
| "exec E (Acknowledge w i tok f g r t) d = snd (acknowledge_deployment_applied E w i tok f g r t d)"
| "exec E (Fail w i tok f h t r) d = snd (fail_deployment_operation E w i tok f h t r d)"

fun caller_tenant :: "call \<Rightarrow> string" where
  "caller_tenant (CreateDraft a c parent t) = actor_tenant_id a"
| "caller_tenant (Submit a i n t) = actor_tenant_id a"
| "caller_tenant (Decide a i n k m t) = actor_tenant_id a"
| "caller_tenant (Activate a i n t) = actor_tenant_id a"
| "caller_tenant (RequestRollback a i p t) = actor_tenant_id a"
| "caller_tenant (RequestRetry a i t) = actor_tenant_id a"
| "caller_tenant (Lease w tok t ttl) = worker_tenant_id w"
| "caller_tenant (Acknowledge w i tok f g r t) = worker_tenant_id w"
| "caller_tenant (Fail w i tok f h t r) = worker_tenant_id w"

text \<open>The arguments of a call were built by their validators.\<close>

fun call_ok :: "'e model_env_scheme \<Rightarrow> call \<Rightarrow> bool" where
  "call_ok E (CreateDraft a c parent t) \<longleftrightarrow> valid_actor a \<and> validate_configuration E c = Inr c"
| "call_ok E _ \<longleftrightarrow> True"

definition after_calls :: "'e model_env_scheme \<Rightarrow> call list \<Rightarrow> db" where
  "after_calls E cs = fold (exec E) cs empty_db"

lemma exec_outcome:
  assumes "lawful_env E" "call_ok E c" "store_inv E d"
  shows "exec E c d = d \<or> store_step E (caller_tenant c) d (exec E c d)"
proof (cases c)
  case (CreateDraft a cfg parent t)
  then have "draft_call E a cfg" using assms(1,2) by (auto simp: draft_call_def)
  then show ?thesis using CreateDraft create_draft.outcome assms(3) by simp
qed (use assms(3) submit.outcome decide.outcome activate_with_operation.outcome
    request_rollback.outcome request_deployment_retry.outcome
    lease_next_deployment_operation.outcome acknowledge_deployment_applied.outcome
    fail_deployment_operation.outcome in simp_all)

lemma exec_inv: "lawful_env E \<Longrightarrow> call_ok E c \<Longrightarrow> store_inv E d \<Longrightarrow> store_inv E (exec E c d)"
  using exec_outcome store_step_inv by metis

lemma exec_evolves: "lawful_env E \<Longrightarrow> call_ok E c \<Longrightarrow> store_inv E d \<Longrightarrow> evolves d (exec E c d)"
  using exec_outcome store_step_evolves evolves_refl by metis

lemma exec_view:
  "lawful_env E \<Longrightarrow> call_ok E c \<Longrightarrow> store_inv E d \<Longrightarrow> u \<noteq> caller_tenant c \<Longrightarrow>
    tenant_view u (exec E c d) = tenant_view u d"
  using exec_outcome store_step_view by metis

lemma fold_exec_inv:
  "lawful_env E \<Longrightarrow> list_all (call_ok E) cs \<Longrightarrow> store_inv E d \<Longrightarrow> store_inv E (fold (exec E) cs d)"
  by (induction cs arbitrary: d) (auto intro: exec_inv)

lemma fold_exec_evolves:
  "lawful_env E \<Longrightarrow> list_all (call_ok E) cs \<Longrightarrow> store_inv E d \<Longrightarrow> evolves d (fold (exec E) cs d)"
proof (induction cs arbitrary: d)
  case (Cons c cs)
  then have "evolves d (exec E c d)" "evolves (exec E c d) (fold (exec E) cs (exec E c d))"
    by (auto intro: exec_evolves exec_inv)
  then show ?case using evolves_trans by simp
qed (simp add: evolves_refl)

lemma after_calls_inv: "lawful_env E \<Longrightarrow> list_all (call_ok E) cs \<Longrightarrow> store_inv E (after_calls E cs)"
  by (simp add: after_calls_def fold_exec_inv store_inv_empty)

lemma after_calls_append: "after_calls E (cs @ cs') = fold (exec E) cs' (after_calls E cs)"
  by (simp add: after_calls_def)

end
