(* ===== verification/Contract_Values.thy ===== *)
theory Contract_Values
  imports Models
begin

text \<open>
  Experiment contracts, from the first half of \<^verbatim>\<open>src/src/assurance_lab/contract.py\<close>: decimals and
  their canonical spelling, typed values, metrics, scope, obligations, axes, the preventive
  non-masking profile, the trial plan and the contract, each with its validators.

  A Python \<open>Decimal\<close> is a sign, a coefficient and an exponent, or not finite; an aware datetime is
  its instant in microseconds, because the module only compares instants and writes them in UTC.
\<close>

section \<open>Decimals\<close>

datatype pydecimal = DecNaN | DecInfinite bool | Dec bool nat int

fun dec_finite :: "pydecimal \<Rightarrow> bool" where
  "dec_finite (Dec s c e) = True"
| "dec_finite _ = False"

text \<open>Numeric equality of finite decimals, as \<open>Decimal.__eq__\<close> has it; a NaN equals nothing.\<close>

fun dec_signed :: "bool \<Rightarrow> nat \<Rightarrow> int" where
  "dec_signed s c = (if s then - int c else int c)"

fun dec_eq :: "pydecimal \<Rightarrow> pydecimal \<Rightarrow> bool" where
  "dec_eq (Dec s c e) (Dec s' c' e') \<longleftrightarrow>
     dec_signed s c * 10 ^ nat (e - min e e') = dec_signed s' c' * 10 ^ nat (e' - min e e')"
| "dec_eq (DecInfinite s) (DecInfinite s') \<longleftrightarrow> s = s'"
| "dec_eq _ _ \<longleftrightarrow> False"

fun dec_negative :: "pydecimal \<Rightarrow> bool" where
  "dec_negative (Dec s c e) \<longleftrightarrow> s \<and> c \<noteq> 0"
| "dec_negative (DecInfinite s) \<longleftrightarrow> s"
| "dec_negative DecNaN \<longleftrightarrow> False"

text \<open>\<open>Decimal(0) < d <= Decimal(1)\<close>.\<close>

fun dec_unit_interval :: "pydecimal \<Rightarrow> bool" where
  "dec_unit_interval (Dec s c e) \<longleftrightarrow>
     \<not> s \<and> c \<noteq> 0 \<and> (if 0 \<le> e then int c * 10 ^ nat e \<le> 1 else int c \<le> 10 ^ nat (- e))"
| "dec_unit_interval _ \<longleftrightarrow> False"

text \<open>\<open>format(value, "f")\<close> of a finite decimal, and \<open>str.rstrip\<close> of one character.\<close>

definition pad_left :: "nat \<Rightarrow> string \<Rightarrow> string" where
  "pad_left n s = replicate (n - length s) (CHR ''0'') @ s"

definition format_f :: "bool \<Rightarrow> nat \<Rightarrow> int \<Rightarrow> string" where
  "format_f s c e =
     (if s then ''-'' else []) @
     (if 0 \<le> e then (if c = 0 then ''0'' else decimal c @ replicate (nat e) (CHR ''0''))
      else let digits = pad_left (nat (- e) + 1) (decimal c); n = length digits - nat (- e) in
        take n digits @ ''.'' @ drop n digits)"

definition rstrip :: "char \<Rightarrow> string \<Rightarrow> string" where
  "rstrip c s = rev (dropWhile (\<lambda>x. x = c) (rev s))"

fun decimal_text :: "pydecimal \<Rightarrow> string result" where
  "decimal_text (Dec s c e) =
     (if c = 0 then Inr ''0''
      else let text = format_f s c e;
             text = (if CHR ''.'' \<in> set text then rstrip (CHR ''.'') (rstrip (CHR ''0'') text) else text) in
        if text = ''-0'' then Inr ''0'' else Inr text)"
| "decimal_text _ = Inl (ValueError ''decimal values must be finite'')"

text \<open>\<open>^-?(?:0|[1-9][0-9]*)(?:\.[0-9]*[1-9])?$\<close>.\<close>

definition canonical_integer :: "string \<Rightarrow> bool" where
  "canonical_integer s \<longleftrightarrow> s = ''0'' \<or> s \<noteq> [] \<and> list_all digit_char s \<and> hd s \<noteq> CHR ''0''"

definition canonical_decimal :: "string \<Rightarrow> bool" where
  "canonical_decimal s \<longleftrightarrow>
     (let u = (if starts_with ''-'' s then tl s else s); i = takeWhile (\<lambda>c. c \<noteq> CHR ''.'') u;
          r = dropWhile (\<lambda>c. c \<noteq> CHR ''.'') u in
      canonical_integer i \<and>
      (r = [] \<or> tl r \<noteq> [] \<and> list_all digit_char (tl r) \<and> last r \<noteq> CHR ''0''))"

text \<open>\<open>Decimal(text)\<close> of a text of that form: the digits without the point, and their scale.\<close>

definition decimal_of_text :: "string \<Rightarrow> pydecimal" where
  "decimal_of_text s =
     (let neg = starts_with ''-'' s; u = (if neg then tl s else s);
          i = takeWhile (\<lambda>c. c \<noteq> CHR ''.'') u; f = tl (dropWhile (\<lambda>c. c \<noteq> CHR ''.'') u) in
      Dec neg (nat (digits_value (i @ f))) (- int (length f)))"

text \<open>What a caller may pass for a decimal field.\<close>

datatype decimal_input =
    InFloat pyfloat | InBool bool | InInt int | InDecimal pydecimal | InText string | InOther

definition decimal_limits :: "pydecimal \<Rightarrow> pydecimal result" where
  "decimal_limits d =
     (case d of
        Dec s c e \<Rightarrow>
          if length (decimal c) > 128 \<or> \<bar>e\<bar> > 128
          then Inl (ValueError ''decimal value exceeds the configured precision or scale'') else Inr d
      | _ \<Rightarrow> Inl (ValueError ''decimal values must be finite''))"

fun parse_without_binary_float :: "decimal_input \<Rightarrow> pydecimal result" where
  "parse_without_binary_float (InFloat f) = Inl (ValueError ''binary floating-point values are not accepted'')"
| "parse_without_binary_float (InBool b) = Inl (ValueError ''use the integer value type for integers'')"
| "parse_without_binary_float (InInt n) = Inl (ValueError ''use the integer value type for integers'')"
| "parse_without_binary_float (InDecimal d) = decimal_limits d"
| "parse_without_binary_float (InText s) =
     (if canonical_decimal s then decimal_limits (decimal_of_text s)
      else Inl (ValueError ''decimal value must be a canonical decimal string or Decimal''))"
| "parse_without_binary_float InOther =
     Inl (ValueError ''decimal value must be a canonical decimal string or Decimal'')"

section \<open>Typed values\<close>

datatype typed_value =
    BooleanValue bool | IntegerValue int | DecimalValue pydecimal | StringValue code_points

fun value_type_name :: "typed_value \<Rightarrow> string" where
  "value_type_name (BooleanValue b) = ''boolean''"
| "value_type_name (IntegerValue n) = ''integer''"
| "value_type_name (DecimalValue d) = ''decimal''"
| "value_type_name (StringValue s) = ''string''"

definition valid_decimal :: "pydecimal \<Rightarrow> unit result" where
  "valid_decimal d = field_error (rbind (parse_without_binary_float (InDecimal d)) (\<lambda>_. Inr ()))"

fun validate_typed :: "typed_value \<Rightarrow> unit result" where
  "validate_typed (BooleanValue b) = Inr ()"
| "validate_typed (IntegerValue n) =
     (if between (- I_JSON_MAX_INTEGER) I_JSON_MAX_INTEGER n then Inr () else Inl (invalid ''value''))"
| "validate_typed (DecimalValue d) = valid_decimal d"
| "validate_typed (StringValue s) = (if length s \<le> 4096 then Inr () else Inl (invalid ''value''))"

fun typed_payload :: "typed_value \<Rightarrow> json" where
  "typed_payload (BooleanValue b) = JBool b"
| "typed_payload (IntegerValue n) = JInt n"
| "typed_payload (DecimalValue d) = (case decimal_text d of Inr t \<Rightarrow> jtext t | Inl e \<Rightarrow> JOther ''Decimal'')"
| "typed_payload (StringValue s) = JStr s"

definition typed_json :: "typed_value \<Rightarrow> json" where
  "typed_json v = jobject [(''type'', jtext (value_type_name v)), (''value'', typed_payload v)]"

definition same_type :: "typed_value \<Rightarrow> typed_value \<Rightarrow> bool" where
  "same_type l r \<longleftrightarrow> value_type_name l = value_type_name r"

definition same_value :: "typed_value \<Rightarrow> typed_value \<Rightarrow> bool" where
  "same_value l r \<longleftrightarrow> typed_json l = typed_json r"

text \<open>Equality of two validated values as models.\<close>

fun typed_eq :: "typed_value \<Rightarrow> typed_value \<Rightarrow> bool" where
  "typed_eq (BooleanValue a) (BooleanValue b) \<longleftrightarrow> a = b"
| "typed_eq (IntegerValue a) (IntegerValue b) \<longleftrightarrow> a = b"
| "typed_eq (DecimalValue a) (DecimalValue b) \<longleftrightarrow> dec_eq a b"
| "typed_eq (StringValue a) (StringValue b) \<longleftrightarrow> a = b"
| "typed_eq _ _ \<longleftrightarrow> False"

definition numeric :: "typed_value \<Rightarrow> bool" where
  "numeric v \<longleftrightarrow> value_type_name v \<in> {''integer'', ''decimal''}"

section \<open>Metrics and scope\<close>

datatype stage = StageInput | StageTarget | StageCompensator | StageOutcome

fun stage_name :: "stage \<Rightarrow> string" where
  "stage_name StageInput = ''input''"
| "stage_name StageTarget = ''target''"
| "stage_name StageCompensator = ''compensator''"
| "stage_name StageOutcome = ''outcome''"

datatype metric_value_type = BooleanMetric | IntegerMetric | DecimalMetric | StringMetric

fun metric_type_name :: "metric_value_type \<Rightarrow> string" where
  "metric_type_name BooleanMetric = ''boolean''"
| "metric_type_name IntegerMetric = ''integer''"
| "metric_type_name DecimalMetric = ''decimal''"
| "metric_type_name StringMetric = ''string''"

record metric_contract =
  mc_id :: string
  mc_component :: string
  mc_stage :: stage
  mc_value_type :: metric_value_type
  mc_unit :: "string option"
  mc_extractor_id :: string
  mc_evidence_class :: string

abbreviation nonempty_short :: "string \<Rightarrow> bool" where
  "nonempty_short \<equiv> text_between 1 512"

definition validate_metric_contract :: "metric_contract \<Rightarrow> unit result" where
  "validate_metric_contract m =
     (let is_numeric = mc_value_type m \<in> {IntegerMetric, DecimalMetric} in
      raise_first
       [(\<not> (portable_id (mc_id m) \<and> portable_id (mc_component m) \<and> opt_ok nonempty_short (mc_unit m)
           \<and> portable_id (mc_extractor_id m) \<and> portable_id (mc_evidence_class m)), invalid ''metric''),
        (is_numeric \<and> mc_unit m = None, invalid ''numeric metrics require a unit''),
        (\<not> is_numeric \<and> mc_unit m \<noteq> None, invalid ''non-numeric metrics cannot declare a unit'')])"

record evidence_window =
  ew_start :: int
  ew_end :: int

definition validate_window :: "evidence_window \<Rightarrow> unit result" where
  "validate_window w =
     (if ew_end w < ew_start w then Inl (invalid ''evidence window ends before it starts'') else Inr ())"

record evidence_policy_ref =
  ep_id :: string
  ep_version :: string
  ep_digest :: string

record experiment_scope =
  xs_scenario_id :: string
  xs_build_digest :: string
  xs_dataset_digest :: string
  xs_fixture_digest :: string
  xs_assessment_as_of :: int
  xs_evidence_window :: evidence_window
  xs_evidence_policy :: evidence_policy_ref

definition validate_scope :: "experiment_scope \<Rightarrow> unit result" where
  "validate_scope s =
     rbind (validate_window (xs_evidence_window s)) (\<lambda>_.
     raise_first
       [(\<not> (portable_id (ep_id (xs_evidence_policy s)) \<and> nonempty_short (ep_version (xs_evidence_policy s))
           \<and> digest_format (ep_digest (xs_evidence_policy s))), invalid ''evidence_policy''),
        (\<not> (portable_id (xs_scenario_id s) \<and> digest_format (xs_build_digest s)
           \<and> digest_format (xs_dataset_digest s) \<and> digest_format (xs_fixture_digest s)), invalid ''scope''),
        (\<not> (ew_start (xs_evidence_window s) \<le> xs_assessment_as_of s
           \<and> xs_assessment_as_of s \<le> ew_end (xs_evidence_window s)),
           invalid ''assessment_as_of must fall inside the evidence window'')])"

section \<open>Obligations\<close>

datatype obligation_scope = TargetLocal | CompensatorLocal | PathScope

fun scope_name :: "obligation_scope \<Rightarrow> string" where
  "scope_name TargetLocal = ''target_local''"
| "scope_name CompensatorLocal = ''compensator_local''"
| "scope_name PathScope = ''path''"

datatype predicate_operator = OpEqual | OpNotEqual | OpLessOrEqual | OpGreaterOrEqual

fun operator_name :: "predicate_operator \<Rightarrow> string" where
  "operator_name OpEqual = ''eq''"
| "operator_name OpNotEqual = ''ne''"
| "operator_name OpLessOrEqual = ''le''"
| "operator_name OpGreaterOrEqual = ''ge''"

record metric_predicate =
  mp_metric_id :: string
  mp_operator :: predicate_operator
  mp_expected :: typed_value
  mp_tolerance :: "pydecimal option"

definition opt_valid :: "('a \<Rightarrow> unit result) \<Rightarrow> 'a option \<Rightarrow> unit result" where
  "opt_valid f v = (case v of None \<Rightarrow> Inr () | Some x \<Rightarrow> f x)"

definition validate_metric_predicate :: "metric_predicate \<Rightarrow> unit result" where
  "validate_metric_predicate p =
     rbind (validate_typed (mp_expected p)) (\<lambda>_.
     rbind (opt_valid valid_decimal (mp_tolerance p)) (\<lambda>_.
     raise_first
       [(\<not> portable_id (mp_metric_id p), invalid ''metric_id''),
        (mp_operator p \<in> {OpLessOrEqual, OpGreaterOrEqual} \<and> \<not> numeric (mp_expected p),
           invalid ''ordered predicates require an integer or decimal metric''),
        (mp_tolerance p \<noteq> None \<and> \<not> numeric (mp_expected p),
           invalid ''absolute tolerance is only valid for numeric predicates''),
        (\<not> opt_ok (\<lambda>d. \<not> dec_negative d) (mp_tolerance p), invalid ''absolute tolerance cannot be negative'')]))"

record cell_selector =
  cs_input :: "typed_value option"
  cs_target :: "typed_value option"
  cs_compensator :: "typed_value option"
  cs_sham :: "typed_value option"

definition validate_cell_selector :: "cell_selector \<Rightarrow> unit result" where
  "validate_cell_selector s =
     rbind (opt_valid validate_typed (cs_input s)) (\<lambda>_.
     rbind (opt_valid validate_typed (cs_target s)) (\<lambda>_.
     rbind (opt_valid validate_typed (cs_compensator s)) (\<lambda>_.
     opt_valid validate_typed (cs_sham s))))"

fun opt_eq :: "typed_value option \<Rightarrow> typed_value option \<Rightarrow> bool" where
  "opt_eq None None \<longleftrightarrow> True"
| "opt_eq (Some a) (Some b) \<longleftrightarrow> typed_eq a b"
| "opt_eq _ _ \<longleftrightarrow> False"

definition selector_eq :: "cell_selector \<Rightarrow> cell_selector \<Rightarrow> bool" where
  "selector_eq a b \<longleftrightarrow> opt_eq (cs_input a) (cs_input b) \<and> opt_eq (cs_target a) (cs_target b)
     \<and> opt_eq (cs_compensator a) (cs_compensator b) \<and> opt_eq (cs_sham a) (cs_sham b)"

datatype quantifier = AllTested int | AtLeastRate pydecimal int | ExistsTrial int

fun min_trials :: "quantifier \<Rightarrow> int" where
  "min_trials (AllTested n) = n"
| "min_trials (AtLeastRate r n) = n"
| "min_trials (ExistsTrial n) = n"

definition MAX_PLANNED_TRIALS :: int where
  "MAX_PLANNED_TRIALS = 100000"

fun validate_rate :: "quantifier \<Rightarrow> unit result" where
  "validate_rate (AtLeastRate r n) =
     rbind (valid_decimal r) (\<lambda>_.
     if dec_unit_interval r then Inr () else Inl (invalid ''rate must be in (0, 1]''))"
| "validate_rate _ = Inr ()"

definition validate_quantifier :: "quantifier \<Rightarrow> unit result" where
  "validate_quantifier q =
     rbind (if between 1 MAX_PLANNED_TRIALS (min_trials q) then Inr () else Inl (invalid ''min_trials''))
       (\<lambda>_. validate_rate q)"

record obligation =
  ob_id :: string
  ob_subject_identifier :: string
  ob_subject_component :: string
  ob_scope :: obligation_scope
  ob_selector :: cell_selector
  ob_predicate :: metric_predicate
  ob_quantifier :: quantifier

definition validate_obligation :: "obligation \<Rightarrow> unit result" where
  "validate_obligation b =
     rbind (validate_cell_selector (ob_selector b)) (\<lambda>_.
     rbind (validate_metric_predicate (ob_predicate b)) (\<lambda>_.
     rbind (validate_quantifier (ob_quantifier b)) (\<lambda>_.
     if portable_id (ob_id b) \<and> nonempty_short (ob_subject_identifier b) \<and> portable_id (ob_subject_component b)
     then Inr () else Inl (invalid ''obligation''))))"

section \<open>Axes and the profile\<close>

definition check_axis_levels :: "string \<Rightarrow> typed_value \<Rightarrow> typed_value \<Rightarrow> unit result" where
  "check_axis_levels name first second = raise_first
     [(\<not> same_type first second, invalid (name @ '' axis levels must use the same type'')),
      (same_value first second, invalid (name @ '' axis levels must be distinct''))]"

definition check_current ::
  "string \<Rightarrow> typed_value \<Rightarrow> typed_value \<Rightarrow> typed_value \<Rightarrow> unit result" where
  "check_current name current first second = raise_first
     [(\<not> same_type current first, invalid (name @ '' current level has the wrong type'')),
      (\<not> (same_value current first \<or> same_value current second),
         invalid (name @ '' current level must equal a declared level''))]"

record input_axis =
  ia_component :: string
  ia_attack :: typed_value
  ia_benign :: typed_value
  ia_attack_digest :: string
  ia_benign_digest :: string

definition validate_input_axis :: "input_axis \<Rightarrow> unit result" where
  "validate_input_axis a =
     rbind (validate_typed (ia_attack a)) (\<lambda>_.
     rbind (validate_typed (ia_benign a)) (\<lambda>_.
     if \<not> (portable_id (ia_component a) \<and> digest_format (ia_attack_digest a) \<and> digest_format (ia_benign_digest a))
     then Inl (invalid ''input'')
     else rbind (check_axis_levels ''input'' (ia_attack a) (ia_benign a)) (\<lambda>_.
       if ia_attack_digest a = ia_benign_digest a
       then Inl (invalid ''attack and benign actions must have distinct digests'') else Inr ())))"

text \<open>The target axis (ineffective, effective) and the compensator axis (off, on) have one shape.\<close>

record control_axis =
  ca_component :: string
  ca_low :: typed_value
  ca_high :: typed_value
  ca_current :: typed_value

definition validate_control_axis :: "string \<Rightarrow> control_axis \<Rightarrow> unit result" where
  "validate_control_axis name a =
     rbind (validate_typed (ca_low a)) (\<lambda>_.
     rbind (validate_typed (ca_high a)) (\<lambda>_.
     rbind (validate_typed (ca_current a)) (\<lambda>_.
     if \<not> portable_id (ca_component a) then Inl (invalid name)
     else rbind (check_axis_levels name (ca_low a) (ca_high a)) (\<lambda>_.
       check_current name (ca_current a) (ca_low a) (ca_high a)))))"

record sham_axis =
  sa_steady :: typed_value
  sa_redeploy :: typed_value

definition validate_sham_axis :: "sham_axis \<Rightarrow> unit result" where
  "validate_sham_axis a =
     rbind (validate_typed (sa_steady a)) (\<lambda>_.
     rbind (validate_typed (sa_redeploy a)) (\<lambda>_.
     check_axis_levels ''sham'' (sa_steady a) (sa_redeploy a)))"

datatype relation_operator =
    RelEqual | RelNotEqual | RelLessOrEqual | RelGreaterOrEqual
  | TrueToFalse | FalseToTrue | Decreases | Increases

fun relation_name :: "relation_operator \<Rightarrow> string" where
  "relation_name RelEqual = ''eq''"
| "relation_name RelNotEqual = ''ne''"
| "relation_name RelLessOrEqual = ''le''"
| "relation_name RelGreaterOrEqual = ''ge''"
| "relation_name TrueToFalse = ''true_to_false''"
| "relation_name FalseToTrue = ''false_to_true''"
| "relation_name Decreases = ''decreases''"
| "relation_name Increases = ''increases''"

record masking_profile =
  pr_input :: input_axis
  pr_target :: control_axis
  pr_compensator :: control_axis
  pr_sham :: sham_axis
  pr_outcome_component :: string
  pr_target_metric_id :: string
  pr_compensator_metric_id :: string
  pr_outcome_metric_id :: string
  pr_benign_metric_id :: string
  pr_target_safe :: typed_value
  pr_compensator_safe :: typed_value
  pr_outcome_safe :: typed_value
  pr_benign_safe :: typed_value
  pr_primary_target_id :: string
  pr_primary_compensator_id :: string
  pr_primary_path_id :: string
  pr_primary_benign_id :: string
  pr_target_attack_relation :: relation_operator
  pr_target_benign_relation :: relation_operator
  pr_sham_relation :: relation_operator
  pr_compensator_attack_relation :: relation_operator

definition directional :: "relation_operator \<Rightarrow> bool" where
  "directional r \<longleftrightarrow> r \<in> {TrueToFalse, FalseToTrue, Decreases, Increases}"

definition validate_masking_profile :: "masking_profile \<Rightarrow> unit result" where
  "validate_masking_profile p =
     rbind (validate_input_axis (pr_input p)) (\<lambda>_.
     rbind (validate_control_axis ''target'' (pr_target p)) (\<lambda>_.
     rbind (validate_control_axis ''compensator'' (pr_compensator p)) (\<lambda>_.
     rbind (validate_sham_axis (pr_sham p)) (\<lambda>_.
     rbind (rmap validate_typed [pr_target_safe p, pr_compensator_safe p, pr_outcome_safe p, pr_benign_safe p]) (\<lambda>_.
     raise_first
       [(\<not> list_all portable_id [pr_outcome_component p, pr_target_metric_id p, pr_compensator_metric_id p,
           pr_outcome_metric_id p, pr_benign_metric_id p, pr_primary_target_id p, pr_primary_compensator_id p,
           pr_primary_path_id p, pr_primary_benign_id p], invalid ''profile''),
        (\<not> directional (pr_target_attack_relation p),
           invalid ''target attack effect requires a directional relation''),
        (\<not> directional (pr_compensator_attack_relation p),
           invalid ''compensator attack effect requires a directional relation''),
        (pr_target_benign_relation p \<noteq> RelEqual,
           invalid ''target benign invariance must use the equality relation''),
        (pr_sham_relation p \<noteq> RelEqual, invalid ''sham invariance must use the equality relation'')])))))"

record trial_plan =
  tp_blocks :: "string list"
  tp_replicates :: int
  tp_order_seed :: code_points

definition validate_plan :: "trial_plan \<Rightarrow> unit result" where
  "validate_plan p = raise_first
     [(\<not> list_all portable_id (tp_blocks p) \<or> tp_blocks p = [] \<or> length (tp_blocks p) > 64, invalid ''blocks''),
      (\<not> between 1 1000 (tp_replicates p), invalid ''replicates''),
      (tp_order_seed p = [] \<or> length (tp_order_seed p) > 512, invalid ''order_seed''),
      (list_ex (\<lambda>b. b = []) (tp_blocks p), invalid ''block identifiers must be nonempty''),
      (card (set (tp_blocks p)) \<noteq> length (tp_blocks p), invalid ''block identifiers must be unique'')]"

record experiment_contract =
  xc_id :: string
  xc_scope :: experiment_scope
  xc_metrics :: "metric_contract list"
  xc_obligations :: "obligation list"
  xc_profile :: masking_profile
  xc_plan :: trial_plan

definition validate_contract :: "experiment_contract \<Rightarrow> unit result" where
  "validate_contract c =
     rbind (validate_scope (xc_scope c)) (\<lambda>_.
     rbind (rmap validate_metric_contract (xc_metrics c)) (\<lambda>_.
     rbind (rmap validate_obligation (xc_obligations c)) (\<lambda>_.
     rbind (validate_masking_profile (xc_profile c)) (\<lambda>_.
     rbind (validate_plan (xc_plan c)) (\<lambda>_.
     raise_first
       [(\<not> portable_id (xc_id c), invalid ''id''),
        (xc_metrics c = [] \<or> length (xc_metrics c) > 256, invalid ''metrics''),
        (xc_obligations c = [] \<or> length (xc_obligations c) > 512, invalid ''obligations''),
        (xc_id c \<noteq> xs_scenario_id (xc_scope c), invalid ''contract id must equal scope scenario_id'')])))))"

end
