(* ===== verification/Decimal_Props.thy ===== *)
theory Decimal_Props
  imports Contract_Values
begin

text \<open>
  The canonical spelling of decimals: every finite decimal has one, decimals are spelled alike
  exactly when they are equal, and reading the spelling gives an equal decimal back, as long as it
  stays within the limits on digits and scale.
\<close>

section \<open>Decimal numerals\<close>

lemma decimal_fuel_enough: "n < 10 ^ k \<Longrightarrow> k \<le> j \<Longrightarrow> 0 < k \<Longrightarrow> decimal_fuel j n = decimal_fuel k n"
proof (induction k arbitrary: j n)
  case (Suc k)
  then obtain j' where j: "j = Suc j'" by (cases j) auto
  show ?case
  proof (cases "n < 10")
    case False
    then have k: "0 < k" using Suc.prems(1) by (cases k) auto
    have "n div 10 < 10 ^ k" using Suc.prems(1) by (simp add: less_mult_imp_div_less)
    then show ?thesis using Suc.IH [of "n div 10" j'] Suc.prems(2) k j False by simp
  qed (simp add: j)
qed simp

lemma less_power_ten: "n < 10 ^ Suc n"
  by (induction n) auto

lemma decimal_simps:
  "n < 10 \<Longrightarrow> decimal n = [char_of (48 + n)]"
  "10 \<le> n \<Longrightarrow> decimal n = decimal (n div 10) @ [char_of (48 + n mod 10)]"
proof -
  assume n: "10 \<le> n"
  have "n div 10 < 10 ^ Suc (n div 10)" by (rule less_power_ten)
  then have "decimal_fuel n (n div 10) = decimal_fuel (Suc (n div 10)) (n div 10)"
    using n by (intro decimal_fuel_enough) auto
  then show "decimal n = decimal (n div 10) @ [char_of (48 + n mod 10)]"
    using n by (simp add: decimal_def)
qed (simp add: decimal_def)

lemma digit_char_of: "n < 10 \<Longrightarrow> digit_char (char_of (48 + n)) \<and> int (of_char (char_of (48 + n) :: char)) = 48 + int n"
proof -
  assume "n < 10"
  then have "n \<in> {0, 1, 2, 3, 4, 5, 6, 7, 8, 9}" by auto
  then show ?thesis by (auto simp: digit_char_def less_eq_char_def)
qed

lemma digits_value_append:
  "digits_value (s @ t) = digits_value s * 10 ^ length t + digits_value t"
proof (induction t rule: rev_induct)
  case (snoc c t)
  then show ?case unfolding digits_value_def by (simp add: algebra_simps flip: append_assoc)
qed (simp add: digits_value_def)

lemma digits_value_single: "n < 10 \<Longrightarrow> digits_value [char_of (48 + n)] = int n"
  using digit_char_of [of n] by (simp add: digits_value_def)

lemma decimal_digits:
  "list_all digit_char (decimal n)" "digits_value (decimal n) = int n" "decimal n \<noteq> []"
  "n \<noteq> 0 \<Longrightarrow> hd (decimal n) \<noteq> CHR ''0''"
proof (induction n rule: less_induct)
  case (less n)
  have *: "list_all digit_char (decimal n) \<and> digits_value (decimal n) = int n \<and> decimal n \<noteq> []
      \<and> (n \<noteq> 0 \<longrightarrow> hd (decimal n) \<noteq> CHR ''0'')"
  proof (cases "n < 10")
    case True
    have "char_of (48 + n) \<noteq> CHR ''0''" if "n \<noteq> 0"
    proof
      assume "char_of (48 + n) = CHR ''0''"
      then have "int (of_char (char_of (48 + n) :: char)) = 48" by simp
      then show False using digit_char_of [OF True] that by simp
    qed
    then show ?thesis using True digit_char_of [OF True] digits_value_single [OF True] by (simp add: decimal_simps)
  next
    case False
    then have s: "n div 10 < n" "n div 10 \<noteq> 0" "decimal n = decimal (n div 10) @ [char_of (48 + n mod 10)]"
      using decimal_simps(2) by auto
    have "int (n div 10) * 10 + int (n mod 10) = int n" by presburger
    then show ?thesis
      using less.IH [OF s(1)] s(2,3) digit_char_of [of "n mod 10"] digits_value_single [of "n mod 10"]
      by (simp add: digits_value_append hd_append)
  qed
  then show "list_all digit_char (decimal n)" "digits_value (decimal n) = int n" "decimal n \<noteq> []"
    "n \<noteq> 0 \<Longrightarrow> hd (decimal n) \<noteq> CHR ''0''" by auto
qed

lemma decimal_lower: "0 < n \<Longrightarrow> 10 ^ (length (decimal n) - 1) \<le> n"
proof (induction n rule: less_induct)
  case (less n)
  show ?case
  proof (cases "n < 10")
    case False
    then have "10 ^ (length (decimal (n div 10)) - 1) \<le> n div 10" using less.IH [of "n div 10"] by simp
    then have "10 ^ Suc (length (decimal (n div 10)) - 1) \<le> n" by simp
    moreover have "Suc (length (decimal (n div 10)) - 1) = length (decimal n) - 1"
      using False decimal_digits(3) [of "n div 10"] by (simp add: decimal_simps)
    ultimately show ?thesis by (simp only:)
  qed (use less.prems in \<open>simp add: decimal_simps\<close>)
qed

lemma decimal_times_ten: "c \<noteq> 0 \<Longrightarrow> decimal (10 * c) = decimal c @ ''0''"
  using decimal_simps(2) [of "10 * c"] by (simp add: char_of_def bit_0)

lemma digits_value_zeros: "digits_value (replicate k (CHR ''0'')) = 0"
  by (induction k) (auto simp: digits_value_def)

section \<open>Trailing zeros\<close>

lemma rstrip_snoc: "rstrip c (s @ [x]) = (if x = c then rstrip c s else s @ [x])"
  by (simp add: rstrip_def)

lemma rstrip_append: "rstrip c t \<noteq> [] \<Longrightarrow> rstrip c (s @ t) = s @ rstrip c t"
proof (induction t rule: rev_induct)
  case (snoc x t)
  then show ?case by (simp add: rstrip_snoc flip: append_assoc split: if_splits)
qed (simp add: rstrip_def)

lemma rstrip_split: "\<exists>k. s = rstrip c s @ replicate k c"
proof (induction s rule: rev_induct)
  case (snoc x s)
  then obtain k where k: "s = rstrip c s @ replicate k c" by blast
  show ?case
  proof (cases "x = c")
    case True
    then have "s @ [x] = rstrip c (s @ [x]) @ replicate (Suc k) c"
      using k by (metis append.assoc replicate_append_same replicate_Suc rstrip_snoc)
    then show ?thesis by blast
  qed (auto simp: rstrip_snoc intro: exI [of _ 0])
qed (simp add: rstrip_def)

lemma rstrip_last: "rstrip c s \<noteq> [] \<Longrightarrow> last (rstrip c s) \<noteq> c"
  by (induction s rule: rev_induct) (auto simp: rstrip_snoc, simp add: rstrip_def)

lemma rstrip_id: "s = [] \<or> last s \<noteq> c \<Longrightarrow> rstrip c s = s"
  by (cases s rule: rev_cases) (auto simp: rstrip_snoc, simp add: rstrip_def)

lemma rstrip_replicate: "x \<noteq> c \<Longrightarrow> rstrip c (s @ [x] @ replicate k c) = s @ [x]"
proof (induction k)
  case (Suc k)
  have "s @ [x] @ replicate (Suc k) c = (s @ [x] @ replicate k c) @ [c]" by (simp add: replicate_append_same)
  then show ?case using Suc by (metis rstrip_snoc)
qed (simp add: rstrip_snoc)

lemma rstrip_point:
  assumes "CHR ''.'' \<notin> set i" "CHR ''.'' \<notin> set f"
  shows "rstrip (CHR ''.'') (rstrip (CHR ''0'') (i @ ''.'' @ f))
    = (if rstrip (CHR ''0'') f = [] then i else i @ ''.'' @ rstrip (CHR ''0'') f)"
proof (cases "rstrip (CHR ''0'') f = []")
  case True
  then obtain k where "f = replicate k (CHR ''0'')" using rstrip_split [of f "CHR ''0''"] by auto
  then have "rstrip (CHR ''0'') (i @ ''.'' @ f) = i @ ''.''"
    using rstrip_replicate [of "CHR ''.''" "CHR ''0''" i k] by simp
  moreover have "i = [] \<or> last i \<noteq> CHR ''.''" using assms(1) by (metis last_in_set)
  ultimately show ?thesis using True by (simp add: rstrip_snoc rstrip_id)
next
  case False
  have sub: "set (rstrip (CHR ''0'') f) \<subseteq> set f"
    using rstrip_split [of f "CHR ''0''"] by (metis Un_upper1 set_append)
  have "last (rstrip (CHR ''0'') f) \<noteq> CHR ''.''" using False sub assms(2) by (metis last_in_set subsetD)
  moreover have "rstrip (CHR ''0'') (i @ ''.'' @ f) = i @ ''.'' @ rstrip (CHR ''0'') f"
    using rstrip_append [OF False, of "i @ ''.''"] by simp
  ultimately show ?thesis using False by (simp add: rstrip_id)
qed

section \<open>The spelling\<close>

text \<open>The integer and the fraction digits of a nonzero decimal.\<close>

definition integer_part :: "nat \<Rightarrow> int \<Rightarrow> string" where
  "integer_part c e = (if 0 \<le> e then decimal c @ replicate (nat e) (CHR ''0'')
     else let d = pad_left (nat (- e) + 1) (decimal c) in take (length d - nat (- e)) d)"

definition fraction_part :: "nat \<Rightarrow> int \<Rightarrow> string" where
  "fraction_part c e = (if 0 \<le> e then []
     else let d = pad_left (nat (- e) + 1) (decimal c) in rstrip (CHR ''0'') (drop (length d - nat (- e)) d))"

definition spelling :: "bool \<Rightarrow> nat \<Rightarrow> int \<Rightarrow> string" where
  "spelling s c e = (if s then ''-'' else []) @ integer_part c e
     @ (if fraction_part c e = [] then [] else ''.'' @ fraction_part c e)"

lemma digit_not_special: "digit_char x \<Longrightarrow> x \<noteq> CHR ''.'' \<and> x \<noteq> CHR ''-''"
  by (auto simp: digit_char_def less_eq_char_def)

lemma pad_left_facts:
  "list_all digit_char (pad_left k (decimal c))" "digits_value (pad_left k (decimal c)) = int c"
  "k \<le> length (pad_left k (decimal c))"
proof -
  have "list_all digit_char (replicate n (CHR ''0''))" for n
    by (simp add: list_all_iff digit_char_def less_eq_char_def)
  then show "list_all digit_char (pad_left k (decimal c))" by (simp add: pad_left_def decimal_digits)
  show "digits_value (pad_left k (decimal c)) = int c"
    by (simp add: pad_left_def digits_value_append digits_value_zeros decimal_digits)
  show "k \<le> length (pad_left k (decimal c))" by (simp add: pad_left_def)
qed

lemma no_point: "list_all digit_char s \<Longrightarrow> CHR ''.'' \<notin> set s"
  using digit_not_special by (auto simp: list_all_iff)

lemma parts_value:
  "0 \<le> e \<Longrightarrow> fraction_part c e = [] \<and> digits_value (integer_part c e) = int c * 10 ^ nat e"
  "e < 0 \<Longrightarrow> int (length (fraction_part c e)) \<le> - e
    \<and> digits_value (integer_part c e @ fraction_part c e) * 10 ^ nat (- e - int (length (fraction_part c e))) = int c"
proof -
  show "0 \<le> e \<Longrightarrow> fraction_part c e = [] \<and> digits_value (integer_part c e) = int c * 10 ^ nat e"
    by (simp add: fraction_part_def integer_part_def digits_value_append digits_value_zeros decimal_digits)
  assume e: "e < 0"
  define d where "d = pad_left (nat (- e) + 1) (decimal c)"
  let ?n = "length d - nat (- e)"
  have d: "digits_value d = int c" "nat (- e) + 1 \<le> length d"
    using pad_left_facts by (simp_all add: d_def)
  have parts: "integer_part c e = take ?n d" "fraction_part c e = rstrip (CHR ''0'') (drop ?n d)"
    using e by (simp_all add: integer_part_def fraction_part_def d_def Let_def)
  obtain j where j: "drop ?n d = rstrip (CHR ''0'') (drop ?n d) @ replicate j (CHR ''0'')"
    using rstrip_split by blast
  have len: "length (fraction_part c e) + j = nat (- e)"
  proof -
    have "length (drop ?n d) = length (fraction_part c e) + j" using j parts(2) by (metis length_append length_replicate)
    then show ?thesis using d(2) by simp
  qed
  have "d = integer_part c e @ fraction_part c e @ replicate j (CHR ''0'')"
    using j parts by (metis append_take_drop_id)
  then have "digits_value (integer_part c e @ fraction_part c e) * 10 ^ j = int c"
    using d(1) by (metis add_0_right append.assoc digits_value_append digits_value_zeros length_replicate)
  moreover have "j = nat (- e - int (length (fraction_part c e)))" using len e by linarith
  ultimately show "int (length (fraction_part c e)) \<le> - e
    \<and> digits_value (integer_part c e @ fraction_part c e) * 10 ^ nat (- e - int (length (fraction_part c e))) = int c"
    using len e by auto
qed

lemma parts_digits:
  "list_all digit_char (integer_part c e)" "list_all digit_char (fraction_part c e)"
  "fraction_part c e \<noteq> [] \<Longrightarrow> last (fraction_part c e) \<noteq> CHR ''0''"
proof -
  have zero: "digit_char (CHR ''0'')" by (simp add: digit_char_def less_eq_char_def)
  have sub: "set (rstrip z t) \<subseteq> set t" for z t
    using rstrip_split [of t z] by (metis Un_upper1 set_append)
  have pad: "x \<in> set (pad_left k (decimal c)) \<Longrightarrow> digit_char x" for k x
    using pad_left_facts(1) by (simp add: list_all_iff)
  show "list_all digit_char (integer_part c e)"
    using decimal_digits(1) [of c] pad zero by (auto simp: integer_part_def Let_def list_all_iff dest: in_set_takeD)
  show "list_all digit_char (fraction_part c e)"
    unfolding fraction_part_def Let_def list_all_iff
    using subsetD [OF sub [of "CHR ''0''"]] pad by (auto dest!: subsetD [OF sub] in_set_dropD)
  show "fraction_part c e \<noteq> [] \<Longrightarrow> last (fraction_part c e) \<noteq> CHR ''0''"
    using rstrip_last by (auto simp: fraction_part_def Let_def split: if_splits)
qed

lemma integer_part_canonical:
  assumes "c \<noteq> 0"
  shows "canonical_integer (integer_part c e)"
proof (cases "0 \<le> e")
  case True
  then show ?thesis
    using decimal_digits(3,4) [of c] assms parts_digits(1) [of c e]
    by (auto simp: canonical_integer_def integer_part_def)
next
  case False
  let ?k = "nat (- e)"
  show ?thesis
  proof (cases "length (decimal c) \<le> ?k")
    case True
    then have "pad_left (?k + 1) (decimal c) = CHR ''0'' # replicate (?k - length (decimal c)) (CHR ''0'') @ decimal c"
      by (simp add: pad_left_def Suc_diff_le)
    then show ?thesis using False True by (simp add: integer_part_def canonical_integer_def Let_def)
  next
    case long: False
    then have "integer_part c e = take (length (decimal c) - ?k) (decimal c)"
      using False by (simp add: integer_part_def pad_left_def Let_def)
    moreover have "take (length (decimal c) - ?k) (decimal c) \<noteq> []"
      using long by auto
    ultimately show ?thesis
      using decimal_digits(4) [OF assms] parts_digits(1) [of c e] by (auto simp: canonical_integer_def hd_take)
  qed
qed

lemma decimal_text_spelling:
  assumes "c \<noteq> 0"
  shows "decimal_text (Dec s c e) = Inr (spelling s c e)"
proof -
  have val: "digits_value (integer_part c e @ fraction_part c e) \<noteq> 0"
    using assms parts_value(1) [of e c] parts_value(2) [of e c] by (cases "0 \<le> e") auto
  have not_zero: "spelling s c e \<noteq> ''-0''"
  proof
    assume eq: "spelling s c e = ''-0''"
    have "hd (integer_part c e) \<noteq> CHR ''-''" "integer_part c e \<noteq> []"
      using integer_part_canonical [OF assms, of e] digit_not_special
      by (auto simp: canonical_integer_def list_all_iff)
    then have s: "s" using eq by (cases "integer_part c e") (auto simp: spelling_def split: if_splits)
    then have "integer_part c e = ''0''" "fraction_part c e = []"
      using eq \<open>integer_part c e \<noteq> []\<close> by (auto simp: spelling_def append_eq_Cons_conv split: if_splits)
    then show False using val by (simp add: digits_value_def)
  qed
  show ?thesis
  proof (cases "0 \<le> e")
    case True
    have "CHR ''.'' \<notin> set (format_f s c e)"
      using no_point [OF decimal_digits(1), of c] True by (auto simp: format_f_def)
    moreover have "format_f s c e = spelling s c e"
      using True assms by (simp add: format_f_def spelling_def integer_part_def fraction_part_def)
    ultimately show ?thesis using assms not_zero by (simp add: Let_def)
  next
    case False
    define d where "d = pad_left (nat (- e) + 1) (decimal c)"
    let ?i = "take (length d - nat (- e)) d" and ?f = "drop (length d - nat (- e)) d"
    have d: "list_all digit_char d" using pad_left_facts(1) by (simp add: d_def)
    have fmt: "format_f s c e = ((if s then ''-'' else []) @ ?i) @ ''.'' @ ?f"
      using False by (simp add: format_f_def d_def Let_def)
    have "CHR ''.'' \<notin> set ((if s then ''-'' else []) @ ?i)" "CHR ''.'' \<notin> set ?f"
      using no_point [OF d] by (auto dest: in_set_takeD in_set_dropD)
    from rstrip_point [OF this] have "rstrip (CHR ''.'') (rstrip (CHR ''0'') (format_f s c e)) = spelling s c e"
      unfolding fmt using False
      by (simp add: spelling_def integer_part_def fraction_part_def d_def Let_def)
    moreover have "CHR ''.'' \<in> set (format_f s c e)" unfolding fmt by simp
    ultimately show ?thesis using assms not_zero by (simp add: Let_def)
  qed
qed

section \<open>Equality\<close>

definition scaled :: "bool \<Rightarrow> nat \<Rightarrow> int \<Rightarrow> int \<Rightarrow> int" where
  "scaled s c e m = dec_signed s c * 10 ^ nat (e - m)"

lemma dec_eq_scaled:
  assumes "m \<le> e" "m \<le> e'"
  shows "dec_eq (Dec s c e) (Dec s' c' e') \<longleftrightarrow> scaled s c e m = scaled s' c' e' m"
proof -
  let ?k = "nat (min e e' - m)"
  have "nat (e - m) = nat (e - min e e') + ?k" "nat (e' - m) = nat (e' - min e e') + ?k" using assms by auto
  then have "scaled s c e m = dec_signed s c * 10 ^ nat (e - min e e') * 10 ^ ?k"
    "scaled s' c' e' m = dec_signed s' c' * 10 ^ nat (e' - min e e') * 10 ^ ?k"
    by (simp_all add: scaled_def power_add)
  then show ?thesis by simp
qed

lemma dec_eq_trans:
  assumes "dec_finite a" "dec_finite b" "dec_finite d" "dec_eq a b" "dec_eq b d"
  shows "dec_eq a d"
proof -
  obtain s c e s' c' e' t x y where d: "a = Dec s c e" "b = Dec s' c' e'" "d = Dec t x y"
    using assms(1-3) by (cases a; cases b; cases d) auto
  let ?m = "min e (min e' y)"
  have m: "?m \<le> e" "?m \<le> e'" "?m \<le> y" by auto
  show ?thesis
    using assms(4,5) unfolding d dec_eq_scaled [OF m(1,2)] dec_eq_scaled [OF m(2,3)] dec_eq_scaled [OF m(1,3)] by simp
qed

lemma dec_eq_sym: "dec_eq a b \<Longrightarrow> dec_eq b a"
  by (cases a; cases b) (auto simp: min.commute)

lemma spelling_step: "c \<noteq> 0 \<Longrightarrow> spelling s (10 * c) e = spelling s c (e + 1)"
proof -
  assume c: "c \<noteq> 0"
  note ten = decimal_times_ten [OF c]
  have "integer_part (10 * c) e = integer_part c (e + 1) \<and> fraction_part (10 * c) e = fraction_part c (e + 1)"
  proof (cases "0 \<le> e \<or> e = - 1")
    case True
    then show ?thesis
    proof
      assume e: "0 \<le> e"
      then have "nat (e + 1) = Suc (nat e)" by linarith
      then show ?thesis using e ten by (simp add: integer_part_def fraction_part_def)
    next
      assume "e = - 1"
      moreover have "pad_left 2 (decimal c @ ''0'') = decimal c @ ''0''"
        using decimal_digits(3) [of c] by (cases "decimal c") (auto simp: pad_left_def)
      moreover have "rstrip (CHR ''0'') ''0'' = []" by (simp add: rstrip_def)
      ultimately show ?thesis using ten by (simp add: integer_part_def fraction_part_def numeral_2_eq_2)
    qed
  next
    case False
    let ?k = "nat (- (e + 1))"
    have k: "nat (- e) = Suc ?k" "\<not> 0 \<le> e" "\<not> 0 \<le> e + 1" using False by auto
    have pad: "pad_left (Suc (Suc ?k)) (decimal c @ ''0'') = pad_left (Suc ?k) (decimal c) @ ''0''"
      by (simp add: pad_left_def)
    let ?d = "pad_left (Suc ?k) (decimal c)"
    have "?k < length ?d" using pad_left_facts(3) [of "Suc ?k" c] by simp
    then have "take (length ?d - ?k) (?d @ ''0'') = take (length ?d - ?k) ?d"
      "drop (length ?d - ?k) (?d @ ''0'') = drop (length ?d - ?k) ?d @ ''0''" by auto
    then show ?thesis
      using k ten pad by (simp add: integer_part_def fraction_part_def Let_def rstrip_snoc)
  qed
  then show ?thesis by (simp add: spelling_def)
qed

lemma spelling_shift: "c \<noteq> 0 \<Longrightarrow> spelling s (c * 10 ^ j) (e - int j) = spelling s c e"
proof (induction j)
  case (Suc j)
  have "c * 10 ^ Suc j = 10 * (c * 10 ^ j)" by simp
  then show ?case
    using spelling_step [of "c * 10 ^ j" s "e - int (Suc j)"] Suc by (simp add: algebra_simps)
qed simp

lemma dec_eq_spelling:
  assumes "dec_eq (Dec s c e) (Dec s' c' e')"
  shows "decimal_text (Dec s c e) = decimal_text (Dec s' c' e')"
proof (cases "c = 0")
  case True
  then have "c' = 0" using assms by (auto split: if_splits)
  then show ?thesis using True by simp
next
  case False
  have c': "c' \<noteq> 0"
  proof
    assume "c' = 0"
    then have "dec_signed s c * 10 ^ nat (e - min e e') = 0" using assms by simp
    then show False using False by (simp split: if_splits)
  qed
  let ?j = "nat (e - min e e')" and ?j' = "nat (e' - min e e')"
  have eq: "dec_signed s c * 10 ^ ?j = dec_signed s' c' * 10 ^ ?j'" using assms by simp
  have "int c * 10 ^ ?j > 0" "int c' * 10 ^ ?j' > 0" using False c' by auto
  then have s: "s = s'" using eq by (auto split: if_splits)
  then have "int c * 10 ^ ?j = int c' * 10 ^ ?j'" using eq by (auto split: if_splits)
  then have "int (c * 10 ^ ?j) = int (c' * 10 ^ ?j')" by simp
  then have n: "c * 10 ^ ?j = c' * 10 ^ ?j'" by (simp only: of_nat_eq_iff)
  have "spelling s c e = spelling s' c' e'"
    using spelling_shift [OF False, of s ?j e] spelling_shift [OF c', of s' ?j' e'] n s by simp
  then show ?thesis using False c' by (simp add: decimal_text_spelling del: decimal_text.simps)
qed

section \<open>Reading the spelling back\<close>

lemma spelling_split:
  assumes "c \<noteq> 0"
  shows "starts_with ''-'' (spelling s c e) \<longleftrightarrow> s"
    and "u = (if starts_with ''-'' (spelling s c e) then tl (spelling s c e) else spelling s c e) \<Longrightarrow>
      takeWhile (\<lambda>c. c \<noteq> CHR ''.'') u = integer_part c e
      \<and> dropWhile (\<lambda>c. c \<noteq> CHR ''.'') u = (if fraction_part c e = [] then [] else ''.'' @ fraction_part c e)"
proof -
  have "integer_part c e \<noteq> []"
    using integer_part_canonical [OF assms, of e] by (auto simp: canonical_integer_def)
  moreover have "\<forall>x \<in> set (integer_part c e). x \<noteq> CHR ''.'' \<and> x \<noteq> CHR ''-''"
    using parts_digits(1) [of c e] digit_not_special unfolding list_all_iff by blast
  ultimately have i: "integer_part c e \<noteq> []" "\<forall>x \<in> set (integer_part c e). x \<noteq> CHR ''.'' \<and> x \<noteq> CHR ''-''"
    by auto
  show s: "starts_with ''-'' (spelling s c e) \<longleftrightarrow> s"
    using i by (cases "integer_part c e") (auto simp: starts_with_def spelling_def)
  assume "u = (if starts_with ''-'' (spelling s c e) then tl (spelling s c e) else spelling s c e)"
  then have u: "u = integer_part c e @ (if fraction_part c e = [] then [] else ''.'' @ fraction_part c e)"
    using s by (auto simp: spelling_def)
  have "takeWhile (\<lambda>c. c \<noteq> CHR ''.'') (integer_part c e @ r) = integer_part c e @ takeWhile (\<lambda>c. c \<noteq> CHR ''.'') r" for r
    using i(2) by (intro takeWhile_append2) simp
  moreover have "dropWhile (\<lambda>c. c \<noteq> CHR ''.'') (integer_part c e @ r) = dropWhile (\<lambda>c. c \<noteq> CHR ''.'') r" for r
    using i(2) by (intro dropWhile_append2) simp
  ultimately show "takeWhile (\<lambda>c. c \<noteq> CHR ''.'') u = integer_part c e
      \<and> dropWhile (\<lambda>c. c \<noteq> CHR ''.'') u = (if fraction_part c e = [] then [] else ''.'' @ fraction_part c e)"
    unfolding u by simp
qed

lemma spelling_canonical:
  assumes "c \<noteq> 0"
  shows "canonical_decimal (spelling s c e)"
  using spelling_split(2) [OF assms refl] integer_part_canonical [OF assms, of e] parts_digits [of c e]
  unfolding canonical_decimal_def Let_def by (simp only:) (auto split: if_splits)

lemma decimal_of_spelling:
  assumes "c \<noteq> 0"
  shows "decimal_of_text (spelling s c e)
    = Dec s (nat (digits_value (integer_part c e @ fraction_part c e))) (- int (length (fraction_part c e)))"
proof -
  have "tl (if fraction_part c e = [] then [] else ''.'' @ fraction_part c e) = fraction_part c e" by simp
  then show ?thesis
    using spelling_split(1) [OF assms] spelling_split(2) [OF assms refl]
    unfolding decimal_of_text_def Let_def by simp
qed

lemma spelling_read:
  assumes "c \<noteq> 0"
  shows "dec_eq (decimal_of_text (spelling s c e)) (Dec s c e)"
proof -
  let ?f = "fraction_part c e" and ?v = "digits_value (integer_part c e @ fraction_part c e)"
  note r = decimal_of_spelling [OF assms, of s e]
  show ?thesis
  proof (cases "0 \<le> e")
    case True
    then show ?thesis using parts_value(1) [OF True, of c] unfolding r by (simp add: min_absorb1)
  next
    case False
    then have p: "int (length ?f) \<le> - e" "?v * 10 ^ nat (- e - int (length ?f)) = int c"
      using parts_value(2) [of e c] by auto
    have "0 \<le> ?v"
    proof (rule ccontr)
      assume "\<not> 0 \<le> ?v"
      then have "?v * 10 ^ nat (- e - int (length ?f)) < 0" by (simp add: mult_neg_pos)
      then show False using p(2) by simp
    qed
    moreover have "nat (- e - int (length ?f)) = nat (- int (length ?f) - e)" by (rule arg_cong) simp
    ultimately show ?thesis using p unfolding r by (simp add: min_absorb2)
  qed
qed

lemma zero_read: "canonical_decimal ''0''" "decimal_of_text ''0'' = Dec False 0 0"
  by (simp_all add: canonical_decimal_def canonical_integer_def decimal_of_text_def starts_with_def digits_value_def)

lemma decimal_text_read:
  assumes "decimal_text d = Inr t"
  shows "canonical_decimal t" "dec_eq (decimal_of_text t) d" "dec_finite (decimal_of_text t)"
proof -
  from assms obtain s c e where d: "d = Dec s c e" by (cases d) auto
  show "dec_finite (decimal_of_text t)" by (simp add: decimal_of_text_def Let_def)
  show "canonical_decimal t" "dec_eq (decimal_of_text t) d"
  proof (atomize (full), cases "c = 0")
    case True
    then have "t = ''0''" using assms d by simp
    then show "canonical_decimal t \<and> dec_eq (decimal_of_text t) d" using True d by (simp add: zero_read)
  next
    case False
    then have "t = spelling s c e" using assms decimal_text_spelling [OF False, of s e] d by simp
    then show "canonical_decimal t \<and> dec_eq (decimal_of_text t) d"
      using spelling_canonical [OF False] spelling_read [OF False] d by simp
  qed
qed

text \<open>
  C38. Every finite decimal has a canonical spelling; two decimals have the same spelling exactly when
  they are equal; and the spelling reads back to an equal decimal, unless the digits or the scale
  spelled out exceed 128.
\<close>

theorem decimal_spelling:
  assumes "dec_finite d" "dec_finite d'"
  shows "\<exists>t. decimal_text d = Inr t \<and> canonical_decimal t
    \<and> (decimal_text d' = Inr t \<longleftrightarrow> dec_eq d d')
    \<and> (case parse_without_binary_float (InText t) of
         Inr r \<Rightarrow> dec_eq r d
       | Inl e \<Rightarrow> e = ValueError ''decimal value exceeds the configured precision or scale'')"
proof -
  obtain s c e s' c' e' where d: "d = Dec s c e" "d' = Dec s' c' e'" using assms by (cases d; cases d') auto
  have ex: "\<exists>t. decimal_text (Dec s c e) = Inr t" for s c e
    by (cases "c = 0") (simp_all add: decimal_text_spelling del: decimal_text.simps, simp)
  obtain t t' where t: "decimal_text d = Inr t" "decimal_text d' = Inr t'" using ex d by blast
  note r = decimal_text_read [OF t(1)] and r' = decimal_text_read [OF t(2)]
  have "t = t' \<longleftrightarrow> dec_eq d d'"
    using dec_eq_spelling [of s c e s' c' e'] t r r' d dec_eq_trans [of d "decimal_of_text t" d'] assms dec_eq_sym
    by (metis sum.inject(2))
  moreover have "case parse_without_binary_float (InText t) of
         Inr r \<Rightarrow> dec_eq r d
       | Inl e \<Rightarrow> e = ValueError ''decimal value exceeds the configured precision or scale''"
    using r by (cases "decimal_of_text t") (auto simp: decimal_limits_def)
  ultimately show ?thesis using t r(1) by auto
qed

theorem decimal_spelling_witness:
  "\<exists>t. decimal_text (Dec True 1250 (- 2)) = Inr t \<and> canonical_decimal t
    \<and> (decimal_text (Dec True 125 (- 1)) = Inr t \<longleftrightarrow> dec_eq (Dec True 1250 (- 2)) (Dec True 125 (- 1)))
    \<and> (case parse_without_binary_float (InText t) of
         Inr r \<Rightarrow> dec_eq r (Dec True 1250 (- 2))
       | Inl e \<Rightarrow> e = ValueError ''decimal value exceeds the configured precision or scale'')"
  by (rule decimal_spelling) simp_all

text \<open>The spelling of a decimal within the limits can exceed them.\<close>

lemma length_decimal_power: "length (decimal (10 ^ k)) = Suc k"
  by (induction k) (simp_all add: decimal_times_ten decimal_simps)

lemma spelling_beyond_limits:
  "parse_without_binary_float (InDecimal (Dec False 1 128)) = Inr (Dec False 1 128)
    \<and> (\<exists>t e. decimal_text (Dec False 1 128) = Inr t \<and> parse_without_binary_float (InText t) = Inl e)"
proof
  show "parse_without_binary_float (InDecimal (Dec False 1 128)) = Inr (Dec False 1 128)"
    by (simp add: decimal_limits_def decimal_simps)
  have t: "decimal_text (Dec False 1 128) = Inr (spelling False 1 128)"
    by (rule decimal_text_spelling) simp
  have f: "fraction_part 1 128 = []" "digits_value (integer_part 1 128) = 10 ^ 128"
    using parts_value(1) [of 128 1] by simp_all
  have "decimal_of_text (spelling False 1 128) = Dec False (10 ^ 128) 0"
    using decimal_of_spelling [of 1 False 128] f by simp
  moreover have "length (decimal (10 ^ 128)) > 128" by (simp only: length_decimal_power)
  ultimately have "decimal_limits (decimal_of_text (spelling False 1 128))
      = Inl (ValueError ''decimal value exceeds the configured precision or scale'')"
    by (simp add: decimal_limits_def del: power_numeral)
  then show "\<exists>t e. decimal_text (Dec False 1 128) = Inr t \<and> parse_without_binary_float (InText t) = Inl e"
    using t spelling_canonical [of 1 False 128] by (intro exI conjI) (rule t, simp)
qed

end
