(* ===== verification/Json_Text.thy ===== *)
theory Json_Text
  imports Decimal_Props "HOL-Library.Multiset"
begin

text \<open>
  What RFC 8785 promises of the text of a value without floating-point numbers, stated of the
  third-party serializer and of the JSON scanner only (\<open>jcs_text_law\<close>), and what the strict reader
  and writer of \<^verbatim>\<open>src/src/assurance_lab/evidence/canonical.py\<close> make of it: different values have
  different canonical texts up to the order of object members, and JSON lines read back.

  Floating-point numbers are left out of the law because they are not kept apart: \<open>1\<close> and \<open>1.0\<close>
  have the same canonical text. The order of members is not kept either, at any level.
\<close>

section \<open>Values up to the order of members\<close>

fun key_text :: "pykey \<Rightarrow> code_points" where
  "key_text (KStr k) = k"
| "key_text KOther = []"

text \<open>No floating-point number, no foreign value, and dictionaries with distinct string keys.\<close>

fun plain_json :: "json \<Rightarrow> bool" where
  "plain_json (JArr items) = list_all plain_json items"
| "plain_json (JObj members) = (distinct (map fst members) \<and> list_all (\<lambda>m. fst m \<noteq> KOther) members
     \<and> list_all plain_json (map snd members))"
| "plain_json (JFloat _) = False"
| "plain_json (JOther _) = False"
| "plain_json _ = True"

text \<open>The value with the members of every object in the order of their keys.\<close>

fun sort_members :: "json \<Rightarrow> json" where
  "sort_members (JArr items) = JArr (map sort_members items)"
| "sort_members (JObj members) =
     JObj (sort_key (\<lambda>m. key_text (fst m)) (zip (map fst members) (map sort_members (map snd members))))"
| "sort_members v = v"

definition same_json :: "json \<Rightarrow> json \<Rightarrow> bool" where
  "same_json v w \<longleftrightarrow> sort_members v = sort_members w"

text \<open>The tree the scanner makes of the text of a plain value, its integers as decimal literals.\<close>

definition int_literal :: "int \<Rightarrow> string" where
  "int_literal n = (if n < 0 then CHR ''-'' # decimal (nat (- n)) else decimal (nat n))"

fun raw_of :: "json \<Rightarrow> raw_json" where
  "raw_of JNull = RNull"
| "raw_of (JBool b) = RBool b"
| "raw_of (JInt n) = RInt (int_literal n)"
| "raw_of (JStr s) = RStr s"
| "raw_of (JArr items) = RArr (map raw_of items)"
| "raw_of (JObj members) = RObj (zip (map key_text (map fst members)) (map raw_of (map snd members)))"
| "raw_of _ = RConst []"

text \<open>
  The law. For a plain value within the limits that the serializer writes: the text has no control
  character, the text of an object begins with a brace, a value that differs in the order of members
  only has the same text, and the text is UTF-8 that the scanner reads as the value, up to that order.
\<close>

definition jcs_text_law :: "'e json_env_scheme \<Rightarrow> json_limits \<Rightarrow> bool" where
  "jcs_text_law E L \<longleftrightarrow> (\<forall>v b. plain_json v \<longrightarrow> validate_tree L 0 v = Inr ()
     \<longrightarrow> snd (rfc8785_dump E v) = None \<longrightarrow> b = concat (fst (rfc8785_dump E v)) \<longrightarrow>
     (\<forall>c \<in> set b. 0x20 \<le> c) \<and> (is_object v \<longrightarrow> starts_with [0x7B] b)
     \<and> (\<forall>w. same_json v w \<longrightarrow> snd (rfc8785_dump E w) = None \<and> concat (fst (rfc8785_dump E w)) = b)
     \<and> (\<exists>cps w. utf8_decode b = Some cps \<and> json_scan E cps = Some (raw_of w) \<and> same_json v w))"

section \<open>Sorting the members keeps what the code looks at\<close>

lemma zip_fst_map_snd: "zip (map fst ms) (map f (map snd ms)) = map (\<lambda>m. (fst m, f (snd m))) ms"
  by (induction ms) auto

lemma sort_members_object:
  "sort_members (JObj ms) = JObj (sort_key (\<lambda>m. key_text (fst m)) (map (\<lambda>m. (fst m, sort_members (snd m))) ms))"
  by (simp only: sort_members.simps zip_fst_map_snd)

declare sort_members.simps(2) [simp del]
declare sort_members_object [simp]

lemma distinct_keys_sort: "distinct (map fst (sort_key f ms)) \<longleftrightarrow> distinct (map fst ms)"
  by (rule mset_eq_imp_distinct_iff) simp

lemma plain_sort_members [simp]: "plain_json (sort_members v) \<longleftrightarrow> plain_json v"
proof (induction v)
  case (JObj ms)
  then have "plain_json (sort_members (snd m)) \<longleftrightarrow> plain_json (snd m)" if "m \<in> set ms" for m
    using that by (cases m) force
  then show ?case by (auto simp: distinct_keys_sort list_all_iff comp_def)
qed (auto simp: list_all_iff)

lemma same_json_plain: "same_json v w \<Longrightarrow> plain_json v \<longleftrightarrow> plain_json w"
  unfolding same_json_def by (metis plain_sort_members)

lemma same_json_sym: "same_json v w \<Longrightarrow> same_json w v"
  by (simp add: same_json_def)

lemma same_json_trans: "same_json u v \<Longrightarrow> same_json v w \<Longrightarrow> same_json u w"
  by (simp add: same_json_def)

lemma is_object_sort_members: "is_object (sort_members v) \<longleftrightarrow> is_object v"
  by (cases v) auto

lemma same_json_object: "same_json v w \<Longrightarrow> is_object v \<longleftrightarrow> is_object w"
  unfolding same_json_def by (metis is_object_sort_members)

lemma map_of_sort_key:
  assumes "distinct (map fst ms)"
  shows "map_of (sort_key f ms) = map_of ms"
proof -
  have "distinct (map fst (sort_key f ms))" using assms by (simp add: distinct_keys_sort)
  then show ?thesis using assms by (simp add: map_of_inject_set)
qed

lemma map_of_map_snd: "map_of (map (\<lambda>m. (fst m, g (snd m))) ms) k = map_option g (map_of ms k)"
  by (induction ms) auto

lemma dict_get_sort_members:
  assumes "plain_json v"
  shows "dict_get (sort_members v) k = map_option sort_members (dict_get v k)"
proof (cases v)
  case (JObj ms)
  have "distinct (map fst (map (\<lambda>m. (fst m, sort_members (snd m))) ms))"
    using assms JObj by (simp add: comp_def)
  from map_of_sort_key [OF this, of "\<lambda>m. key_text (fst m)"] show ?thesis using JObj by (simp add: map_of_map_snd)
qed simp_all

text \<open>A member without structure is the same in both.\<close>

fun scalar :: "json \<Rightarrow> bool" where
  "scalar (JArr _) = False"
| "scalar (JObj _) = False"
| "scalar _ = True"

lemma scalar_sort_members: "scalar v \<Longrightarrow> sort_members u = v \<longleftrightarrow> u = v"
  by (cases u) auto

lemma same_json_member_eq:
  assumes "same_json v w" "plain_json v" "pred_option scalar (dict_get v k)"
  shows "dict_get w k = dict_get v k"
proof -
  have "map_option sort_members (dict_get w k) = map_option sort_members (dict_get v k)"
    using assms(1,2) same_json_plain [OF assms(1)] dict_get_sort_members unfolding same_json_def by metis
  moreover have "map_option sort_members (dict_get v k) = dict_get v k"
    using assms(3) scalar_sort_members by (cases "dict_get v k") auto
  ultimately show ?thesis using assms(3) scalar_sort_members by (cases "dict_get v k") auto
qed

lemma same_json_member:
  assumes "same_json v w" "plain_json v" "dict_get v k = Some u" "scalar u"
  shows "dict_get w k = Some u"
  using same_json_member_eq [OF assms(1,2)] assms(3,4) by simp

text \<open>The bodies the models serialize: objects with string keys.\<close>

lemma text_of_eq [simp]: "text_of a = text_of b \<longleftrightarrow> a = b"
  unfolding text_of_def by (rule inj_map_eq_map) (simp add: inj_def)

lemma dict_get_jobject: "dict_get (jobject ms) k = map_of ms k"
  by (induction ms) (auto simp: jobject_def)

lemma plain_scalar [simp]: "plain_json (jtext s)" "plain_json (jopt v)" "scalar (jtext s)" "scalar (jopt v)"
  by (simp_all add: jtext_def jopt_def split: option.split)

lemma plain_jobject [simp]:
  "plain_json (jobject ms) \<longleftrightarrow> distinct (map fst ms) \<and> list_all (\<lambda>m. plain_json (snd m)) ms"
proof -
  have body: "jobject ms = JObj (map (\<lambda>m. (KStr (text_of (fst m)), snd m)) ms)"
    by (simp add: jobject_def split_def)
  have "distinct (map (\<lambda>m. KStr (text_of (fst m))) ms) \<longleftrightarrow> distinct (map fst ms)"
    by (simp add: distinct_map inj_on_def)
  then show ?thesis unfolding body by (simp add: list_all_iff comp_def)
qed

lemma same_body_member:
  assumes "same_json (jobject ms) (jobject ms')" "plain_json (jobject ms)" "map_of ms k = Some u" "scalar u"
  shows "map_of ms' k = Some u"
  using same_json_member [OF assms(1,2) _ assms(4)] assms(3) by (simp add: dict_get_jobject)

section \<open>Sorting the members keeps validity\<close>

lemma items_depth_le: "items_depth xs \<le> n \<longleftrightarrow> (\<forall>x \<in> set xs. Suc (json_depth x) \<le> n)"
  by (induction xs) auto

lemma members_depth_le: "members_depth ms \<le> n \<longleftrightarrow> (\<forall>m \<in> set ms. Suc (json_depth (snd m)) \<le> n)"
  by (induction ms) auto

lemma depth_sort_members: "json_depth (sort_members v) \<le> n \<longleftrightarrow> json_depth v \<le> n"
proof (induction v arbitrary: n)
  case (JArr xs)
  then have "Suc (json_depth (sort_members x)) \<le> n \<longleftrightarrow> Suc (json_depth x) \<le> n" if "x \<in> set xs" for x
    using that by (cases n) auto
  then show ?case by (simp add: items_depth_le del: le_zero_eq)
next
  case (JObj ms)
  then have "json_depth (sort_members (snd m)) \<le> n \<longleftrightarrow> json_depth (snd m) \<le> n" if "m \<in> set ms" for m n
    using that by (cases m) force
  then have "Suc (json_depth (sort_members (snd m))) \<le> n \<longleftrightarrow> Suc (json_depth (snd m)) \<le> n" if "m \<in> set ms" for m
    using that by (cases n) auto
  then show ?case by (simp add: members_depth_le del: le_zero_eq)
qed auto

lemma set_items_nodes: "set (items_nodes xs) = (\<Union>x \<in> set xs. set (json_nodes x))"
  by (induction xs) auto

lemma set_members_nodes: "set (members_nodes ms) = (\<Union>m \<in> set ms. set (json_nodes (snd m)))"
  by (induction ms) auto

lemma nodes_sort_members:
  "(\<forall>u \<in> set (json_nodes (sort_members v)). node_ok L u) \<longleftrightarrow> (\<forall>u \<in> set (json_nodes v). node_ok L u)"
proof (induction v)
  case (JObj ms)
  then have "(\<forall>u \<in> set (json_nodes (sort_members (snd m))). node_ok L u)
      \<longleftrightarrow> (\<forall>u \<in> set (json_nodes (snd m)). node_ok L u)" if "m \<in> set ms" for m
    using that by (cases m) force
  then show ?case by (simp add: set_members_nodes list_all_iff ball_Un)
qed (auto simp: set_items_nodes)

lemma valid_sort_members: "validate_tree L 0 (sort_members v) = Inr () \<longleftrightarrow> validate_tree L 0 v = Inr ()"
  unfolding validate_tree_iff list_all_iff by (simp only: depth_sort_members nodes_sort_members)

lemma same_json_valid: "same_json v w \<Longrightarrow> validate_tree L 0 v = Inr () \<longleftrightarrow> validate_tree L 0 w = Inr ()"
  unfolding same_json_def by (metis valid_sort_members)

section \<open>Reading back\<close>

lemma int_literal_parse:
  assumes "\<bar>n\<bar> \<le> I_JSON_MAX_INTEGER"
  shows "parse_int (int_literal n) = Inr (JInt n)"
proof -
  have len: "length (decimal m) \<le> 16" if "m < 10 ^ 16" for m
  proof (cases "m = 0")
    case False
    then have "10 ^ (length (decimal m) - 1) \<le> m" using decimal_lower by simp
    then have "(10 :: nat) ^ (length (decimal m) - 1) < 10 ^ 16" using that by (rule le_less_trans)
    then have "length (decimal m) - 1 < 16" by (simp only: power_strict_increasing_iff)
    then show ?thesis by simp
  qed (simp add: decimal_simps)
  have digits: "hd (decimal m) \<noteq> CHR ''-''" "decimal m \<noteq> []" for m
    using decimal_digits(1,3) [of m] by (cases "decimal m"; auto simp: digit_char_def less_eq_char_def)+
  have minus: "\<not> starts_with ''-'' (decimal m)" for m
    using digits [of m] by (cases "decimal m") (auto simp: starts_with_def)
  have "nat \<bar>n\<bar> < 10 ^ 16" using assms by (simp add: I_JSON_MAX_INTEGER_def)
  note bound = len [OF this]
  show ?thesis
  proof (cases "n < 0")
    case True
    then have abs: "nat (- n) = nat \<bar>n\<bar>" "nat (- n) \<noteq> 0" by simp_all
    have "decimal (nat (- n)) \<noteq> ''0''"
      using decimal_digits(4) [OF abs(2)] by auto
    moreover have "starts_with ''-'' (CHR ''-'' # s)" for s by (simp add: starts_with_def)
    ultimately show ?thesis
      using True bound assms decimal_digits [of "nat (- n)"]
      by (simp add: int_literal_def parse_int_def py_int_def Let_def abs(1) [symmetric])
  next
    case False
    have "decimal (nat n) \<noteq> ''-0''" using digits [of "nat n"] by auto
    then show ?thesis
      using False bound assms minus [of "nat n"] decimal_digits [of "nat n"]
      by (simp add: int_literal_def parse_int_def py_int_def Let_def)
  qed
qed

lemma object_without_duplicates_ok:
  "distinct (map fst (acc @ ps)) \<Longrightarrow> object_without_duplicates acc ps = Inr (acc @ ps)"
  by (induction acc ps rule: object_without_duplicates.induct) auto

lemma apply_hooks_items_raw:
  "(\<And>v. v \<in> set vs \<Longrightarrow> apply_hooks E (raw_of v) = Inr v) \<Longrightarrow> apply_hooks_items E (map raw_of vs) = Inr vs"
  by (induction vs) auto

lemma apply_hooks_pairs_raw:
  "(\<And>m. m \<in> set ms \<Longrightarrow> apply_hooks E (raw_of (snd m)) = Inr (snd m)) \<Longrightarrow>
    apply_hooks_pairs E (zip (map key_text (map fst ms)) (map raw_of (map snd ms)))
      = Inr (map (\<lambda>m. (key_text (fst m), snd m)) ms)"
  by (induction ms) auto

lemma key_text_inj: "k \<noteq> KOther \<Longrightarrow> k' \<noteq> KOther \<Longrightarrow> key_text k = key_text k' \<longleftrightarrow> k = k'"
  by (cases k; cases k') auto

lemma hooks_read_raw:
  "plain_json v \<Longrightarrow> (\<forall>u \<in> set (json_nodes v). node_ok L u) \<Longrightarrow> apply_hooks E (raw_of v) = Inr v"
proof (induction v)
  case (JInt n)
  then show ?case by (simp add: int_literal_parse)
next
  case (JArr vs)
  then have "apply_hooks E (raw_of v) = Inr v" if "v \<in> set vs" for v
    using that by (auto simp: set_items_nodes list_all_iff)
  then show ?case by (simp add: apply_hooks_items_raw)
next
  case (JObj ms)
  have "apply_hooks E (raw_of (snd m)) = Inr (snd m)" if "m \<in> set ms" for m
    using JObj.IH [OF that, of "snd m"] JObj.prems that by (cases m) (auto simp: set_members_nodes list_all_iff)
  then have pairs: "apply_hooks_pairs E (zip (map key_text (map fst ms)) (map raw_of (map snd ms)))
      = Inr (map (\<lambda>m. (key_text (fst m), snd m)) ms)"
    by (rule apply_hooks_pairs_raw)
  have str: "fst m \<noteq> KOther" if "m \<in> set ms" for m using JObj.prems that by (auto simp: list_all_iff)
  have "inj_on (key_text \<circ> fst) (set ms)"
    using JObj.prems str by (auto simp: distinct_map inj_on_def key_text_inj)
  then have "distinct (map fst (map (\<lambda>m. (key_text (fst m), snd m)) ms))"
    using JObj.prems by (auto simp: distinct_map comp_def)
  then have "object_without_duplicates [] (map (\<lambda>m. (key_text (fst m), snd m)) ms)
      = Inr (map (\<lambda>m. (key_text (fst m), snd m)) ms)"
    using object_without_duplicates_ok [of "[]"] by simp
  moreover have "KStr (key_text (fst m)) = fst m" if "m \<in> set ms" for m using str [OF that] by (cases "fst m") auto
  ultimately show ?case using pairs by (simp add: comp_def map_idI)
qed auto

text \<open>The text of an accepted plain value, and what is read from it.\<close>

lemma canonical_text:
  assumes "jcs_text_law E L" "plain_json v" "canonical_json_bytes E L v = Inr b"
  obtains cps w where "utf8_decode b = Some cps" "json_scan E cps = Some (raw_of w)" "same_json v w"
    "apply_hooks E (raw_of w) = Inr w" "validate_tree L 0 w = Inr ()" "canonical_json_bytes E L w = Inr b"
    "\<forall>c \<in> set b. 0x20 \<le> c" "is_object v \<longrightarrow> starts_with [0x7B] b"
proof -
  have v: "validate_tree L 0 v = Inr ()" "snd (rfc8785_dump E v) = None" "b = concat (fst (rfc8785_dump E v))"
    "length b \<le> max_bytes L"
    using assms(3) by (auto simp: canonical_json_bytes_Inr)
  note law = assms(1) [unfolded jcs_text_law_def, rule_format, OF assms(2) v(1,2,3)]
  then obtain cps w where w: "utf8_decode b = Some cps" "json_scan E cps = Some (raw_of w)" "same_json v w"
    by blast
  have valid: "validate_tree L 0 w = Inr ()" using same_json_valid [OF w(3)] v(1) by blast
  have "plain_json w" using same_json_plain [OF w(3)] assms(2) by blast
  with valid have "apply_hooks E (raw_of w) = Inr w"
    by (auto simp: validate_tree_iff list_all_iff intro!: hooks_read_raw [where L = L])
  moreover have "canonical_json_bytes E L w = Inr b"
    using valid law w(3) v(4) by (auto simp: canonical_json_bytes_Inr)
  ultimately show thesis using that w valid law by blast
qed

lemma canonical_injective:
  assumes "jcs_text_law E L" "plain_json v" "plain_json w"
    and "canonical_json_bytes E L v = Inr b" "canonical_json_bytes E L w = Inr b"
  shows "same_json v w"
proof -
  obtain cps v' where v: "utf8_decode b = Some cps" "json_scan E cps = Some (raw_of v')" "same_json v v'"
    "apply_hooks E (raw_of v') = Inr v'"
    using canonical_text [OF assms(1,2,4)] by metis
  obtain cps' w' where w: "utf8_decode b = Some cps'" "json_scan E cps' = Some (raw_of w')" "same_json w w'"
    "apply_hooks E (raw_of w') = Inr w'"
    using canonical_text [OF assms(1,3,5)] by metis
  have "v' = w'" using v w by simp
  then show ?thesis using v(3) w(3) same_json_sym same_json_trans by blast
qed

lemma canonical_reads_back:
  assumes "jcs_text_law E L" "plain_json v" "is_object v" "canonical_json_bytes E L v = Inr b"
  obtains w where "strict_json_loads E L b = Inr w" "same_json v w" "canonical_json_bytes E L w = Inr b"
    "b \<noteq> []" "\<not> bytes_isspace b" "0x0A \<notin> set b" "0x0D \<notin> set b"
proof -
  obtain cps w where w: "utf8_decode b = Some cps" "json_scan E cps = Some (raw_of w)" "same_json v w"
    "apply_hooks E (raw_of w) = Inr w" "validate_tree L 0 w = Inr ()" "canonical_json_bytes E L w = Inr b"
    "\<forall>c \<in> set b. 0x20 \<le> c" "starts_with [0x7B] b"
    using canonical_text [OF assms(1,2,4)] assms(3) by metis
  obtain r where r: "b = 0x7B # r" using w(8) by (cases b) (auto simp: starts_with_def)
  have "length b \<le> max_bytes L" using canonical_json_bytes_Inr_D(2) [OF assms(4)] .
  moreover have "\<not> starts_with UTF8_BOM b" using r by (simp add: starts_with_def UTF8_BOM_def)
  ultimately have "strict_json_loads E L b = Inr w" using w by (simp add: strict_json_loads_def)
  moreover have "0x0A \<notin> set b" "0x0D \<notin> set b" using w(7) by (auto dest: bspec)
  moreover have "b \<noteq> []" "\<not> bytes_isspace b" using r by (simp_all add: bytes_isspace_def)
  ultimately show thesis using that w(3,6) by blast
qed

section \<open>JSON lines\<close>

lemma same_json_id:
  assumes "same_json v w" "plain_json v" "dict_get v ''id'' = Some (JStr (json_id v))"
  shows "json_id w = json_id v" "dict_get w ''id'' = Some (JStr (json_id w))"
  using same_json_member [OF assms(1,2,3)] by (simp_all add: json_id_def)

lemma lines_read_back:
  assumes "jcs_text_law E L"
    and "list_all2 (\<lambda>v l. canonical_json_bytes E L v = Inr l \<and> length l \<le> max_line_bytes L) recs lines"
    and "\<And>r. r \<in> set recs \<Longrightarrow> is_object r \<and> plain_json r \<and> dict_get r ''id'' = Some (JStr (json_id r))"
  shows "\<exists>new. list_all2 (\<lambda>line v. line \<noteq> [] \<and> \<not> bytes_isspace line \<and> length line \<le> max_line_bytes L
      \<and> strict_json_loads E L line = Inr v \<and> is_object v \<and> canonical_json_bytes E L v = Inr line
      \<and> dict_get v ''id'' = Some (JStr (json_id v))) lines new
      \<and> list_all2 same_json recs new \<and> map json_id new = map json_id recs
      \<and> (\<forall>l \<in> set lines. 0x0A \<notin> set l \<and> 0x0D \<notin> set l)"
  using assms(2,3)
proof (induction recs lines rule: list_all2_induct)
  case (Cons r recs l lines)
  then obtain new where new:
      "list_all2 (\<lambda>line v. line \<noteq> [] \<and> \<not> bytes_isspace line \<and> length line \<le> max_line_bytes L
      \<and> strict_json_loads E L line = Inr v \<and> is_object v \<and> canonical_json_bytes E L v = Inr line
      \<and> dict_get v ''id'' = Some (JStr (json_id v))) lines new"
      "list_all2 same_json recs new" "map json_id new = map json_id recs"
      "\<forall>l \<in> set lines. 0x0A \<notin> set l \<and> 0x0D \<notin> set l"
    by auto
  have r: "is_object r" "plain_json r" "dict_get r ''id'' = Some (JStr (json_id r))" using Cons.prems by auto
  have can: "canonical_json_bytes E L r = Inr l" using Cons.hyps by simp
  obtain v where v: "strict_json_loads E L l = Inr v" "same_json r v" "canonical_json_bytes E L v = Inr l"
    "l \<noteq> []" "\<not> bytes_isspace l" "0x0A \<notin> set l" "0x0D \<notin> set l"
    using canonical_reads_back [OF assms(1) r(2,1) can] by blast
  show ?case
    using new v same_json_id [OF v(2) r(2,3)] same_json_object [OF v(2)] r(1) Cons.hyps
    by (intro exI [of _ "v # new"]) simp
qed simp

text \<open>
  C40. Round trip: for records without floating-point numbers, the payload
  \<open>canonical_jsonl_bytes\<close> writes is accepted by \<open>strict_jsonl_loads\<close> with sorted ids required, and
  reading it returns the records themselves in the order of their ids, each up to the order of its
  members; writing these again gives the same payload.
\<close>

theorem jsonl_round_trip:
  assumes "jcs_text_law E L" "list_all plain_json recs" "canonical_jsonl_bytes E L record_id recs = Inr payload"
  shows "\<exists>recs'. strict_jsonl_loads E L True payload = Inr recs'
     \<and> list_all2 same_json (sort_key json_id recs) recs'
     \<and> canonical_jsonl_bytes E L record_id recs' = Inr payload"
proof -
  obtain ord where ord: "ord = sort_key json_id recs" "sorted_wrt (<) (map json_id ord)"
      "length recs \<le> max_collection_items L"
      "\<And>r. r \<in> set ord \<Longrightarrow> is_object r \<and> dict_get r ''id'' = Some (JStr (json_id r))"
      and enc: "encode_lines E L [] ord = Inr payload"
    using canonical_jsonl_bytes_Inr [OF assms(3)] by metis
  have plain: "is_object r \<and> plain_json r \<and> dict_get r ''id'' = Some (JStr (json_id r))" if "r \<in> set ord" for r
    using ord(4) [OF that] assms(2) that by (auto simp: ord(1) list_all_iff)
  obtain lines where lines: "payload = concat (map (\<lambda>l. l @ [0x0A]) lines)"
      "list_all2 (\<lambda>v l. canonical_json_bytes E L v = Inr l \<and> length l \<le> max_line_bytes L) ord lines"
      "ord \<noteq> [] \<longrightarrow> length payload \<le> max_bytes L"
    using encode_lines_Inr [OF enc] by auto
  obtain new where new:
      "list_all2 (\<lambda>line v. line \<noteq> [] \<and> \<not> bytes_isspace line \<and> length line \<le> max_line_bytes L
      \<and> strict_json_loads E L line = Inr v \<and> is_object v \<and> canonical_json_bytes E L v = Inr line
      \<and> dict_get v ''id'' = Some (JStr (json_id v))) lines new"
      "list_all2 same_json ord new" "map json_id new = map json_id ord"
      "\<forall>l \<in> set lines. 0x0A \<notin> set l \<and> 0x0D \<notin> set l"
    using lines_read_back [OF assms(1) lines(2) plain] by blast
  have "length new = length recs" using list_all2_lengthD [OF new(2)] ord(1) by simp
  then have len: "length payload \<le> max_bytes L" "length new \<le> max_collection_items L"
    using lines ord(3) by (cases "ord = []"; auto)+
  have split: "butlast (split_on 0x0A payload) = lines"
    unfolding lines(1) using new(4) by (subst split_on_lines) auto
  have "jsonl_loop E L True None [] lines = Inr ([] @ new)"
    using new len ord(2) by (intro jsonl_loop_complete) auto
  moreover have "payload \<noteq> [] \<Longrightarrow> last payload = 0x0A"
    unfolding lines(1) by (induction lines rule: rev_induct) auto
  moreover have "0x0D \<notin> set payload"
    unfolding lines(1) using new(4) by (auto simp: set_lines)
  ultimately have "strict_jsonl_loads E L True payload = Inr new"
    using len split by (auto simp: strict_jsonl_loads_def)
  moreover have "canonical_jsonl_bytes E L record_id new = Inr payload"
    by (rule jsonl_reencode [OF new(1) _ _ lines(1)]) (use new(3) ord(2) len in auto)
  ultimately show ?thesis using new(2) ord(1) by blast
qed

section \<open>A serializer for given values\<close>

text \<open>
  An environment whose serializer and scanner know the values of a table, each with its text and
  with the members of every object in the order of their keys. It satisfies the law as soon as the
  texts are ASCII, tell the values apart and begin with a brace.
\<close>

definition table_dump :: "(json \<times> bytes) list \<Rightarrow> json \<Rightarrow> bytes list \<times> string option" where
  "table_dump tbl v = (case find (\<lambda>e. same_json (fst e) v) tbl of
     Some e \<Rightarrow> ([snd e], None) | None \<Rightarrow> ([], Some ''unknown value''))"

definition table_scan :: "(json \<times> bytes) list \<Rightarrow> code_points \<Rightarrow> raw_json option" where
  "table_scan tbl cps = (case find (\<lambda>e. map unat (snd e) = cps) tbl of
     Some e \<Rightarrow> Some (raw_of (fst e)) | None \<Rightarrow> None)"

definition table_ok :: "(json \<times> bytes) list \<Rightarrow> bool" where
  "table_ok tbl \<longleftrightarrow> distinct (map snd tbl) \<and>
     list_all (\<lambda>e. starts_with [0x7B] (snd e) \<and> list_all (\<lambda>c. 0x20 \<le> c \<and> c < 0x80) (snd e)) tbl"

lemma utf8_decode_ascii: "list_all (\<lambda>c. c < 0x80) b \<Longrightarrow> utf8_decode b = Some (map unat b)"
  by (induction b) (simp_all add: word_less_nat_alt)

lemma find_unique_entry:
  assumes "e \<in> set tbl" "p e" "\<And>e'. e' \<in> set tbl \<Longrightarrow> p e' \<Longrightarrow> e' = e"
  shows "find p tbl = Some e"
proof (cases "find p tbl")
  case None
  then show ?thesis using assms(1,2) by (auto simp: find_None_iff)
next
  case (Some e')
  then have "e' \<in> set tbl" "p e'" by (auto simp: find_Some_iff)
  then show ?thesis using Some assms(3) by blast
qed

lemma table_law:
  assumes "table_ok tbl" "rfc8785_dump E = table_dump tbl" "json_scan E = table_scan tbl"
  shows "jcs_text_law E L"
  unfolding jcs_text_law_def
proof (intro allI impI)
  fix v b assume v: "plain_json v" "snd (rfc8785_dump E v) = None" "b = concat (fst (rfc8785_dump E v))"
  then obtain e where e: "find (\<lambda>e. same_json (fst e) v) tbl = Some e" "b = snd e"
    by (auto simp: assms(2) table_dump_def split: option.splits)
  then have in_tbl: "e \<in> set tbl" "same_json (fst e) v" by (auto simp: find_Some_iff)
  have ascii: "starts_with [0x7B] b" "\<forall>c \<in> set b. 0x20 \<le> c \<and> c < 0x80"
    using assms(1) in_tbl(1) e(2) by (auto simp: table_ok_def list_all_iff)
  have "e' = e" if "e' \<in> set tbl" "map unat (snd e') = map unat b" for e'
  proof -
    have "inj (unat :: byte \<Rightarrow> nat)" by (simp add: inj_def word_unat_eq_iff)
    then have "snd e' = snd e" using that(2) e(2) inj_map_eq_map by blast
    then show ?thesis using assms(1) that(1) in_tbl(1) by (auto simp: table_ok_def distinct_map dest: inj_onD)
  qed
  then have "find (\<lambda>e. map unat (snd e) = map unat b) tbl = Some e"
    using in_tbl(1) e(2) by (intro find_unique_entry) auto
  then have "json_scan E (map unat b) = Some (raw_of (fst e))" by (simp add: assms(3) table_scan_def)
  moreover have "utf8_decode b = Some (map unat b)" using ascii(2) by (intro utf8_decode_ascii) (simp add: list_all_iff)
  moreover have "rfc8785_dump E w = rfc8785_dump E v" if "same_json v w" for w
    using that by (simp add: assms(2) table_dump_def same_json_def)
  moreover have "same_json v (fst e)" using in_tbl(2) by (rule same_json_sym)
  ultimately show "(\<forall>c \<in> set b. 0x20 \<le> c) \<and> (is_object v \<longrightarrow> starts_with [0x7B] b)
     \<and> (\<forall>w. same_json v w \<longrightarrow> snd (rfc8785_dump E w) = None \<and> concat (fst (rfc8785_dump E w)) = b)
     \<and> (\<exists>cps w. utf8_decode b = Some cps \<and> json_scan E cps = Some (raw_of w) \<and> same_json v w)"
    using ascii v(2,3) by metis
qed

lemma table_dump_known:
  assumes "(v, b) \<in> set tbl" "\<And>e. e \<in> set tbl \<Longrightarrow> same_json (fst e) v \<Longrightarrow> e = (v, b)"
  shows "table_dump tbl v = ([b], None)"
proof -
  have "find (\<lambda>e. same_json (fst e) v) tbl = Some (v, b)"
    by (rule find_unique_entry [OF assms(1) _ assms(2)]) (simp_all add: same_json_def)
  then show ?thesis by (simp add: table_dump_def)
qed

section \<open>Two records\<close>

text \<open>
  The records \<^verbatim>\<open>{"n": -2, "id": "b"}\<close> and \<^verbatim>\<open>{"id": "a", "t": [true, null]}\<close>, and their canonical lines.
\<close>

definition record_b :: json where
  "record_b = JObj [(KStr (text_of ''n''), JInt (- 2)), (KStr (text_of ''id''), JStr (text_of ''b''))]"

definition record_a :: json where
  "record_a = JObj [(KStr (text_of ''id''), JStr (text_of ''a'')),
     (KStr (text_of ''t''), JArr [JBool True, JNull])]"

definition line_b :: bytes where
  "line_b = [0x7B, 0x22, 0x69, 0x64, 0x22, 0x3A, 0x22, 0x62, 0x22, 0x2C, 0x22, 0x6E, 0x22, 0x3A,
     0x2D, 0x32, 0x7D]"

definition line_a :: bytes where
  "line_a = [0x7B, 0x22, 0x69, 0x64, 0x22, 0x3A, 0x22, 0x61, 0x22, 0x2C, 0x22, 0x74, 0x22, 0x3A,
     0x5B, 0x74, 0x72, 0x75, 0x65, 0x2C, 0x6E, 0x75, 0x6C, 0x6C, 0x5D, 0x7D]"

definition lines_table :: "(json \<times> bytes) list" where
  "lines_table = [(sort_members record_a, line_a), (sort_members record_b, line_b)]"

definition lines_env :: json_env where
  "lines_env = \<lparr>rfc8785_dump = table_dump lines_table, json_scan = table_scan lines_table,
     py_float = (\<lambda>_. Finite False 0 0)\<rparr>"

lemmas record_defs_ab = record_a_def record_b_def

lemma lines_law: "jcs_text_law lines_env DEFAULT_JSON_LIMITS"
  by (rule table_law [of lines_table])
    (simp_all add: lines_env_def table_ok_def lines_table_def line_a_def line_b_def starts_with_def)

lemma lines_valid:
  "validate_tree DEFAULT_JSON_LIMITS 0 record_a = Inr ()" "validate_tree DEFAULT_JSON_LIMITS 0 record_b = Inr ()"
  by (simp_all add: record_defs_ab validate_tree_iff no_surrogate_def text_of_def DEFAULT_JSON_LIMITS_def
      I_JSON_MAX_INTEGER_def)

lemma lines_sorted:
  "sort_members record_a = record_a"
  "sort_members record_b = JObj [(KStr (text_of ''id''), JStr (text_of ''b'')), (KStr (text_of ''n''), JInt (- 2))]"
  by (simp_all add: record_defs_ab text_of_def)

lemma lines_dump:
  "rfc8785_dump lines_env record_a = ([line_a], None)" "rfc8785_dump lines_env record_b = ([line_b], None)"
  by (simp_all add: lines_env_def table_dump_def lines_table_def same_json_def lines_sorted)
    (simp_all add: record_defs_ab text_of_def)

lemma lines_canonical:
  "canonical_json_bytes lines_env DEFAULT_JSON_LIMITS record_a = Inr line_a"
  "canonical_json_bytes lines_env DEFAULT_JSON_LIMITS record_b = Inr line_b"
  using lines_valid by (simp_all add: canonical_json_bytes_Inr lines_dump)
    (simp_all add: DEFAULT_JSON_LIMITS_def line_a_def line_b_def)

lemma lines_encode:
  "canonical_jsonl_bytes lines_env DEFAULT_JSON_LIMITS record_id [record_b, record_a]
     = Inr (line_a @ [0x0A] @ line_b @ [0x0A])"
proof -
  have ids: "record_id record_a = Inr (JStr (text_of ''a''))" "record_id record_b = Inr (JStr (text_of ''b''))"
    "is_object record_a" "is_object record_b" "\<not> text_of ''b'' \<le> text_of ''a''" "text_of ''a'' \<noteq> text_of ''b''"
    by (simp_all add: record_defs_ab record_id_def text_of_def)
  moreover have "length line_a \<le> max_line_bytes DEFAULT_JSON_LIMITS" "length line_b \<le> max_line_bytes DEFAULT_JSON_LIMITS"
    "length line_a + length line_b + 2 \<le> max_bytes DEFAULT_JSON_LIMITS"
    by (simp_all add: DEFAULT_JSON_LIMITS_def line_a_def line_b_def)
  ultimately show ?thesis
    by (simp add: canonical_jsonl_bytes_def lines_canonical) (simp add: DEFAULT_JSON_LIMITS_def)
qed

theorem jsonl_round_trip_witness:
  "canonical_jsonl_bytes lines_env DEFAULT_JSON_LIMITS record_id [record_b, record_a]
     = Inr (line_a @ [0x0A] @ line_b @ [0x0A])
   \<and> (\<exists>recs'. strict_jsonl_loads lines_env DEFAULT_JSON_LIMITS True (line_a @ [0x0A] @ line_b @ [0x0A]) = Inr recs'
         \<and> list_all2 same_json [record_a, record_b] recs'
         \<and> canonical_jsonl_bytes lines_env DEFAULT_JSON_LIMITS record_id recs'
           = Inr (line_a @ [0x0A] @ line_b @ [0x0A]))"
proof -
  have "list_all plain_json [record_b, record_a]" by (simp add: record_defs_ab text_of_def)
  moreover have "sort_key json_id [record_b, record_a] = [record_a, record_b]"
    by (simp add: record_defs_ab json_id_def text_of_def)
  ultimately show ?thesis
    using jsonl_round_trip [OF lines_law _ lines_encode] lines_encode by simp
qed

end
