(* ===== verification/Example.thy ===== *)
theory Example
  imports Store_Refine Json_Text
begin

text \<open>
  A concrete environment and a concrete history of the store, used to apply the theorems of the
  development to real executions: the serializer keeps of an object only its \<open>sequence\<close> member
  (one digit), the scanner reads that form back, and the hexdigest of such a text is its digit
  padded with zeros. The environment satisfies every law the theorems assume.
\<close>

section \<open>The environment\<close>

definition example_cfg :: control_configuration where
  "example_cfg = \<lparr>cfg_tenant_id = ''acme'', cfg_control_id = ''edr'', cfg_display_name = ''EDR'',
     cfg_description = ''Endpoint detection'', cfg_environment = Production,
     cfg_owner_group = ''soc'', cfg_control_profile_id = ''edr-1'',
     cfg_control_profile_digest = GENESIS_DIGEST,
     cfg_source = Defender \<lparr>def_cloud = CloudGlobal,
       def_tenant_id = ''00000000-0000-1000-8000-000000000000'',
       def_client_id = ''00000000-0000-1000-8000-000000000000'',
       client_credential_ref = ''vault://v/c''\<rparr>,
     cfg_schedule = \<lparr>interval_seconds = 3600, collection_lag_seconds = 60, window_seconds = 3600\<rparr>,
     cfg_evidence = \<lparr>custody_ref = ''s3-object-lock://v/c'', signing_key_ref = ''aws-kms://v/c'',
       retention_days = 365, legal_hold = False\<rparr>,
     cfg_enabled = True\<rparr>"

definition digit_of :: "json \<Rightarrow> int" where
  "digit_of v = (case dict_get v ''sequence'' of Some (JInt n) \<Rightarrow> n | _ \<Rightarrow> 0)"

definition line_of :: "int \<Rightarrow> bytes" where
  "line_of k = [0x7B, word_of_int (48 + k), 0x7D]"

definition example_dump :: "json \<Rightarrow> bytes list \<times> string option" where
  "example_dump v =
     (if is_object v \<and> dict_get v ''id'' = None \<and> 0 \<le> digit_of v \<and> digit_of v \<le> 9
         \<and> (dict_get v ''schema_version'' = None \<or> v = configuration_json example_cfg)
      then ([line_of (digit_of v)], None) else ([], Some ''not serialized''))"

definition example_scan :: "code_points \<Rightarrow> raw_json option" where
  "example_scan t = (case t of
     [a, c, b] \<Rightarrow> if a = 0x7B \<and> b = 0x7D \<and> 48 \<le> c \<and> c \<le> 57
       then Some (RObj [(text_of ''sequence'', RInt [char_of c])]) else None
   | _ \<Rightarrow> None)"

definition example_hexdigest :: "bytes \<Rightarrow> string" where
  "example_hexdigest b = replicate 63 (CHR ''0'') @
     [case b of [_, c, _] \<Rightarrow> if 48 \<le> unat c \<and> unat c \<le> 57 then char_of (unat c) else CHR ''0''
      | _ \<Rightarrow> CHR ''0'']"

definition example_url :: "string \<Rightarrow> url_parts option" where
  "example_url s = Some \<lparr>url_scheme = takeWhile (\<lambda>c. c \<noteq> CHR '':'') s, url_netloc = ''v'', url_path = ''/c'',
     url_query = [], url_fragment = [], url_username = None, url_password = None,
     url_hostname = Some ''v'', url_port = Some None\<rparr>"

definition example_env :: model_env where
  "example_env = \<lparr>rfc8785_dump = example_dump, json_scan = example_scan,
     py_float = (\<lambda>_. Finite False 0 0), sha256_hexdigest = example_hexdigest,
     model_validate_json = (\<lambda>_. Some example_cfg), urlsplit = example_url\<rparr>"

lemma example_env_simps [simp]:
  "rfc8785_dump example_env = example_dump" "json_scan example_env = example_scan"
  "sha256_hexdigest example_env = example_hexdigest"
  "model_validate_json example_env b = Some example_cfg" "urlsplit example_env = example_url"
  by (simp_all add: example_env_def)

lemma line_length [simp]: "length (line_of k) = 3"
  by (simp add: line_of_def)

lemma example_canonical:
  assumes "validate_tree L 0 v = Inr ()" "3 \<le> max_bytes L" "is_object v" "dict_get v ''id'' = None"
    "0 \<le> digit_of v" "digit_of v \<le> 9"
    "dict_get v ''schema_version'' = None \<or> v = configuration_json example_cfg"
  shows "canonical_json_bytes example_env L v = Inr (line_of (digit_of v))"
  using assms by (simp add: canonical_json_bytes_def example_dump_def)

lemma example_canonical_D:
  assumes "canonical_json_bytes example_env L v = Inr b"
  shows "b = line_of (digit_of v)" "is_object v" "dict_get v ''id'' = None" "0 \<le> digit_of v"
    "digit_of v \<le> 9" "3 \<le> max_bytes L" "validate_tree L 0 v = Inr ()"
    "dict_get v ''schema_version'' = None \<or> v = configuration_json example_cfg"
  using assms
  by (auto simp: canonical_json_bytes_def example_dump_def rbind_eq_Inr split: if_splits)

section \<open>Its laws\<close>

lemma digit_cases:
  assumes "0 \<le> (k::int)" "k \<le> 9"
  shows "k \<in> {0, 1, 2, 3, 4, 5, 6, 7, 8, 9}"
  using assms by simp presburger

lemma example_parse:
  assumes "0 \<le> k" "k \<le> 9"
  shows "utf8_decode (line_of k) = Some [0x7B, nat (48 + k), 0x7D]"
    "py_int [char_of (nat (48 + k))] = Some k" "length (line_of k) = 3"
  using digit_cases [OF assms]
  by (auto simp: line_of_def py_int_def starts_with_def digits_value_def digit_char_def less_eq_char_def
      char_of_def bit_0)


definition read_of :: "int \<Rightarrow> json" where
  "read_of k = JObj [(KStr (text_of ''sequence''), JInt k)]"

lemma read_of_fields [simp]: "digit_of (read_of k) = k" "is_object (read_of k)"
  "dict_get (read_of k) ''id'' = None" "dict_get (read_of k) ''schema_version'' = None"
  by (simp_all add: digit_of_def read_of_def)

lemma read_of_valid: "0 \<le> k \<Longrightarrow> k \<le> 9 \<Longrightarrow> validate_tree DETAIL_LIMITS 0 (read_of k) = Inr ()"
  by (simp add: read_of_def validate_tree_iff DETAIL_LIMITS_def no_surrogate_def text_of_def
      I_JSON_MAX_INTEGER_def)

lemma example_loads:
  assumes "0 \<le> k" "k \<le> 9"
  shows "strict_json_loads example_env DETAIL_LIMITS (line_of k) = Inr (read_of k)"
proof -
  have "apply_hooks example_env (RObj [(text_of ''sequence'', RInt [char_of (nat (48 + k))])])
      = Inr (read_of k)"
    using digit_cases [OF assms] example_parse(2) [OF assms]
    by (auto simp: parse_int_def read_of_def I_JSON_MAX_INTEGER_def)
  moreover have "\<not> starts_with UTF8_BOM (line_of k)" "length (line_of k) \<le> max_bytes DETAIL_LIMITS"
    by (simp_all add: starts_with_def UTF8_BOM_def line_of_def DETAIL_LIMITS_def)
  moreover have "example_scan [123, nat (48 + k), 125]
      = Some (RObj [(text_of ''sequence'', RInt [char_of (nat (48 + k))])])"
    using assms by (simp add: example_scan_def nat_le_iff le_nat_iff)
  ultimately show ?thesis
    using example_parse(1) [OF assms] read_of_valid [OF assms]
    by (simp add: strict_json_loads_def)
qed

lemma example_jcs_law: "jcs_law example_env DETAIL_LIMITS"
  unfolding jcs_law_def
proof (intro allI impI)
  fix v b assume can: "canonical_json_bytes example_env DETAIL_LIMITS v = Inr b"
  note D = example_canonical_D [OF can]
  have "canonical_json_bytes example_env DETAIL_LIMITS (read_of (digit_of v)) = Inr b"
    using example_canonical [OF read_of_valid, of "digit_of v"] D by (simp add: DETAIL_LIMITS_def)
  moreover have "b \<noteq> [] \<and> \<not> bytes_isspace b \<and> 0x0A \<notin> set b \<and> 0x0D \<notin> set b"
    using digit_cases [OF D(4,5)] D(1) by (auto simp: line_of_def bytes_isspace_def)
  ultimately show "b \<noteq> [] \<and> \<not> bytes_isspace b \<and> 0x0A \<notin> set b \<and> 0x0D \<notin> set b \<and>
     (\<exists>v'. strict_json_loads example_env DETAIL_LIMITS b = Inr v'
        \<and> canonical_json_bytes example_env DETAIL_LIMITS v' = Inr b
        \<and> (is_object v' \<longleftrightarrow> is_object v)
        \<and> (\<forall>s. dict_get v ''id'' = Some (JStr s) \<longrightarrow> dict_get v' ''id'' = Some (JStr s)))"
    using example_loads [OF D(4,5)] D by auto
qed

lemma configuration_json_schema: "dict_get (configuration_json c) ''schema_version'' \<noteq> None"
  by (simp add: configuration_json_def jobject_def)

lemma jtext_eq [simp]: "jtext a = jtext b \<longleftrightarrow> a = b"
  by (simp add: jtext_def)

lemma jopt_eq [simp]: "jopt a = jopt b \<longleftrightarrow> a = b"
  by (cases a; cases b) (simp_all add: jopt_def jtext_def)

lemma environment_name_eq [simp]: "environment_name a = environment_name b \<longleftrightarrow> a = b"
  by (cases a; cases b) simp_all

lemma cloud_name_eq [simp]: "cloud_name a = cloud_name b \<longleftrightarrow> a = b"
  by (cases a; cases b) simp_all

lemma source_json_eq: "source_json a = source_json b \<Longrightarrow> a = b"
  by (cases a; cases b) (auto simp: jobject_def)

lemma configuration_json_eq: "configuration_json a = configuration_json b \<Longrightarrow> a = b"
  by (auto simp: configuration_json_def jobject_def schedule_json_def evidence_json_def
      dest!: source_json_eq intro!: control_configuration.equality schedule_configuration.equality
        evidence_configuration.equality)

lemma example_lawful: "lawful_env example_env"
proof -
  have "hex_char (case b of [_, c, _] \<Rightarrow> if 48 \<le> unat c \<and> unat c \<le> 57 then char_of (unat c) else CHR ''0''
      | _ \<Rightarrow> CHR ''0'')" for b :: bytes
    by (auto simp: hex_char_def digit_char_def less_eq_char_def split: list.splits)
  then have "list_all hex_char (example_hexdigest b)" for b
    by (simp add: example_hexdigest_def list_all_iff hex_char_def digit_char_def less_eq_char_def)
  moreover have "c = example_cfg \<and> length b = 3" if "canonical_bytes example_env c = Inr b" for c b
    using example_canonical_D [of DEFAULT_JSON_LIMITS "configuration_json c" b] that
      configuration_json_schema configuration_json_eq
    by (auto simp: canonical_bytes_def canonical_def)
  ultimately show ?thesis
    by (auto simp: lawful_env_def example_hexdigest_def)
qed

section \<open>Flat objects and audit events in this environment\<close>

definition flat :: "json \<Rightarrow> bool" where
  "flat v \<longleftrightarrow> (case v of JStr s \<Rightarrow> length s \<le> 4096 \<and> no_surrogate s | JNull \<Rightarrow> True
     | JInt n \<Rightarrow> \<bar>n\<bar> \<le> I_JSON_MAX_INTEGER | _ \<Rightarrow> False)"

lemma flat_simps [simp]: "flat (jtext s) \<longleftrightarrow> length s \<le> 4096" "flat (JInt n) \<longleftrightarrow> \<bar>n\<bar> \<le> I_JSON_MAX_INTEGER"
  "flat (jopt None)" "flat (jopt (Some s)) \<longleftrightarrow> length s \<le> 4096"
  by (simp_all add: flat_def jtext_def jopt_def text_of_def)
    (simp_all add: no_surrogate_text [unfolded text_of_def])

definition flat_members :: "(string \<times> json) list \<Rightarrow> bool" where
  "flat_members ms \<longleftrightarrow> length ms \<le> 100 \<and> list_all (\<lambda>(k, v). length k \<le> 100 \<and> flat v) ms"

definition roomy :: "json_limits \<Rightarrow> bool" where
  "roomy L \<longleftrightarrow> 3 \<le> max_bytes L \<and> 1 \<le> max_depth L \<and> 100 \<le> max_collection_items L
     \<and> 4096 \<le> max_string_length L"

lemma roomy_limits [simp]: "roomy DETAIL_LIMITS" "roomy DEFAULT_JSON_LIMITS"
  by (simp_all add: roomy_def DETAIL_LIMITS_def DEFAULT_JSON_LIMITS_def)

lemma flat_valid:
  assumes "flat v" "roomy L"
  shows "json_depth v = 0" "json_nodes v = [v]" "node_ok L v"
  using assms by (auto simp: flat_def roomy_def split: json.splits)

lemma flat_nodes:
  assumes "list_all (\<lambda>(k, v). flat v) ms" "roomy L"
  shows "members_nodes (map (\<lambda>(k, v). (KStr (text_of k), v)) ms) = map snd ms"
    "members_depth (map (\<lambda>(k, v). (KStr (text_of k), v)) ms) \<le> 1"
  using assms by (induction ms) (auto simp: flat_valid)

lemma jobject_valid:
  assumes "flat_members ms" "roomy L"
  shows "validate_tree L 0 (jobject ms) = Inr ()"
proof -
  let ?ms = "map (\<lambda>(k, v). (KStr (text_of k), v)) ms"
  have v: "flat v" "length k \<le> 100" if "(k, v) \<in> set ms" for k v
    using assms(1) that by (auto simp: flat_members_def list_all_iff)
  have nodes: "members_nodes ?ms = map snd ms" "members_depth ?ms \<le> 1"
  proof -
    have "list_all (\<lambda>(k, v). flat v) ms" using v(1) by (auto simp: list_all_iff)
    then show "members_nodes ?ms = map snd ms" "members_depth ?ms \<le> 1"
      using flat_nodes assms(2) by auto
  qed
  have keys: "\<forall>m \<in> set ?ms. key_ok L (fst m)"
    using v(2) assms(2) by (fastforce simp: roomy_def text_of_def
        no_surrogate_text [unfolded text_of_def])
  have "\<forall>w \<in> set (map snd ms). node_ok L w"
    using v(1) flat_valid(3) [OF _ assms(2)] by auto
  then show ?thesis
    using assms nodes keys
    by (auto simp: validate_tree_iff jobject_def list_all_iff roomy_def flat_members_def)
qed

definition sequence_of :: "(string \<times> json) list \<Rightarrow> int" where
  "sequence_of ms = (case map_of ms ''sequence'' of Some (JInt n) \<Rightarrow> n | _ \<Rightarrow> 0)"

lemma example_object:
  assumes "flat_members ms" "roomy L" "map_of ms ''id'' = None" "map_of ms ''schema_version'' = None"
    "0 \<le> sequence_of ms" "sequence_of ms \<le> 9"
  shows "canonical_json_bytes example_env L (jobject ms) = Inr (line_of (sequence_of ms))"
proof -
  have "digit_of (jobject ms) = sequence_of ms"
    by (simp add: digit_of_def sequence_of_def dict_get_jobject)
  moreover have "is_object (jobject ms)" by (simp add: jobject_def)
  ultimately show ?thesis
    using assms jobject_valid [OF assms(1,2)] example_canonical [of L "jobject ms"]
    by (simp add: dict_get_jobject roomy_def)
qed

text \<open>The digest of a text with digit \<open>k\<close>.\<close>

definition D :: "int \<Rightarrow> string" where
  "D k = sha256_bytes example_env (line_of k)"

lemma D_format [simp]: "digest_format (D k)" "length (D k) = 71"
  using digest_format_sha256 [OF example_lawful] by (auto simp: D_def digest_format_def)

lemma sha_line [simp]: "sha256_bytes example_env (line_of k) = D k"
  by (simp add: D_def)

lemma D_last: "0 \<le> k \<Longrightarrow> k \<le> 9 \<Longrightarrow> of_char (last (D k)) = nat k + 48"
  by (drule (1) digit_cases) (auto simp: D_def sha256_bytes_def example_hexdigest_def line_of_def)

lemma D_eq: "0 \<le> j \<Longrightarrow> j \<le> 9 \<Longrightarrow> 0 \<le> k \<Longrightarrow> k \<le> 9 \<Longrightarrow> D j = D k \<longleftrightarrow> j = k"
proof
  assume "0 \<le> j" "j \<le> 9" "0 \<le> k" "k \<le> 9" "D j = D k"
  then have "nat j + 48 = nat k + 48" using D_last [of j] D_last [of k] by (metis)
  with \<open>0 \<le> j\<close> \<open>0 \<le> k\<close> show "j = k" by simp
qed simp

lemma genesis_format [simp]: "digest_format GENESIS_DIGEST" "length GENESIS_DIGEST = 71"
  by (auto simp: GENESIS_DIGEST_def digest_format_def starts_with_def list_all_iff hex_char_def
      digit_char_def less_eq_char_def)

lemma length_decimal_fuel: "length (decimal_fuel k n) \<le> k"
  by (induction k n rule: decimal_fuel.induct) auto

lemma civil_epoch: "civil_of_days 0 = (1970, 1, 1)"
  by code_simp

lemma length_timestamp:
  assumes "0 \<le> t" "t < 86400"
  shows "length (timestamp t) \<le> 2000"
proof -
  have "t div 86400 = 0" using assms by simp
  then have "length (timestamp t) = length (decimal (nat 1970)) + 16"
    by (simp only: timestamp_def civil_epoch two_digits_def Let_def prod.case length_append list.size)
  moreover have "length (decimal (nat 1970)) \<le> Suc (nat 1970)"
    unfolding decimal_def by (rule length_decimal_fuel)
  ultimately show ?thesis by linarith
qed

definition example_event :: "principal \<Rightarrow> audit_action \<Rightarrow> string \<Rightarrow> int \<Rightarrow> int \<Rightarrow> string \<Rightarrow> audit_event" where
  "example_event pr a i t k prev =
     \<lparr>ev_tenant_id = principal_tenant pr, ev_sequence = k, ev_previous_event_digest = prev,
      ev_event_digest = D k, ev_action = a, ev_object_id = i, ev_actor_subject = principal_subject pr,
      ev_actor_session_digest = principal_session pr, ev_occurred_at = t, ev_details_digest = D 0,
      ev_details_bytes = line_of 0, ev_event_bytes = line_of k\<rparr>"

definition principal_ok :: "principal \<Rightarrow> bool" where
  "principal_ok pr \<longleftrightarrow> portable_id (principal_tenant pr) \<and> principal_subject pr \<noteq> []
     \<and> length (principal_subject pr) \<le> 255 \<and> digest_format (principal_session pr)"

lemma portable_length: "portable_id s \<Longrightarrow> length s \<le> 128"
  by (auto simp: portable_id_def split: list.splits)

lemma digest_length: "digest_format s \<Longrightarrow> length s = 71"
  by (simp add: digest_format_def)

lemma action_length: "length (action_name a) \<le> 40"
  by (cases a) simp_all

lemma example_event_bytes:
  assumes "principal_ok pr" "digest_format i" "digest_format prev" "0 \<le> t" "t < 86400"
    "1 \<le> k" "k \<le> 9"
  shows "audit_event_bytes example_env (principal_tenant pr) k prev a i (principal_subject pr)
    (principal_session pr) (instant t) (D 0) = Inr (line_of k)"
proof -
  let ?ms = "[(''action'', jtext (action_name a)),
        (''actor_session_digest'', jtext (principal_session pr)),
        (''actor_subject'', jtext (principal_subject pr)), (''details_digest'', jtext (D 0)),
        (''object_id'', jtext i), (''occurred_at'', jtext (timestamp t)),
        (''previous_event_digest'', jtext prev), (''sequence'', JInt k),
        (''tenant_id'', jtext (principal_tenant pr))]"
  have "length (principal_tenant pr) \<le> 128" "length (action_name a) \<le> 40" "length i = 71"
    "length prev = 71" "length (principal_session pr) = 71" "length (timestamp t) \<le> 2000"
    using assms portable_length action_length digest_length length_timestamp
    by (auto simp: principal_ok_def)
  then have "flat_members ?ms"
    using assms by (auto simp: flat_members_def principal_ok_def I_JSON_MAX_INTEGER_def)
  from example_object [OF this, of DEFAULT_JSON_LIMITS] assms(6,7)
  have "canonical example_env (jobject ?ms) = Inr (line_of k)"
    by (simp add: canonical_def sequence_of_def)
  then show ?thesis
    using assms by (simp add: audit_event_bytes_def principal_ok_def)
qed

lemma example_append:
  assumes "principal_ok pr" "digest_format i" "0 \<le> t" "t < 86400" "flat_members ms"
    "map_of ms ''id'' = None" "map_of ms ''schema_version'' = None" "map_of ms ''sequence'' = None"
    and vs: "tenant_events (principal_tenant pr) d = vs" "linked 0 GENESIS_DIGEST vs"
      "digest_format (chain_head vs)" "k = int (length vs) + 1" "k \<le> 9"
      "D k \<notin> ev_event_digest ` set (control_audit_events d)"
  shows "append_audit example_env pr a i (instant t) (jobject ms) d =
    Inr (example_event pr a i t k (chain_head vs), logged (example_event pr a i t k (chain_head vs)) d)"
proof -
  let ?v = "example_event pr a i t k (chain_head vs)"
  have details: "canonical_json_bytes example_env DETAIL_LIMITS (jobject ms) = Inr (line_of 0)"
    using example_object [OF assms(5), of DETAIL_LIMITS] assms(6-8) by (simp add: sequence_of_def)
  have bytes: "audit_event_bytes example_env (principal_tenant pr) k (chain_head vs) a i
      (principal_subject pr) (principal_session pr) (instant t) (D 0) = Inr (line_of k)"
    using assms vs by (intro example_event_bytes) auto
  have lst: "fetchone (order_by_desc ev_sequence (tenant_events (principal_tenant pr) d))
      = (if vs = [] then None else Some (last vs))"
    using last_event_linked [OF vs(2)] vs(1) by simp
  have seq: "vs \<noteq> [] \<Longrightarrow> ev_sequence (last vs) = int (length vs)"
    using linked_nth [OF vs(2), of "length vs - 1"] by (cases vs rule: rev_cases) auto
  have val: "validate_event example_env ?v = Inr ?v"
    using assms vs bytes
    by (simp add: validate_event_def event_fields_ok_def example_event_def principal_ok_def
        between_def INT64_MAX_def text_between_def Suc_le_eq field_error_def)
  have "event_key ?v \<notin> event_key ` set (control_audit_events d)"
  proof
    assume "event_key ?v \<in> event_key ` set (control_audit_events d)"
    then obtain w where "w \<in> set vs" "ev_sequence w = k"
      using vs(1) by (auto simp: event_key_def example_event_def tenant_events_def table_simps)
    then show False using linked_nth [OF vs(2)] vs(4) by (auto simp: in_set_conv_nth)
  qed
  then have ins: "insert_event ?v d = Inr (logged ?v d)"
    using vs by (simp add: insert_event_Inr logged_def example_event_def)
  show ?thesis
    using val ins bytes details lst seq vs(4)
    by (cases "vs = []") (simp_all add: append_audit_def Let_def chain_head_def example_event_def)
qed

section \<open>A history of the store\<close>

definition alice :: actor where
  "alice = \<lparr>actor_tenant_id = ''acme'', actor_subject = ''alice'', actor_display_name = ''Alice'',
     actor_roles = [Editor], actor_groups = [''soc''], actor_authenticated_at = 900,
     actor_session_id_digest = D 0, actor_mfa = True\<rparr>"

definition bob :: actor where
  "bob = alice\<lparr>actor_subject := ''bob'', actor_roles := [Approver]\<rparr>"

definition carol :: actor where
  "carol = alice\<lparr>actor_subject := ''carol'', actor_roles := [Deployer]\<rparr>"

definition walter :: worker_identity where
  "walter = \<lparr>worker_tenant_id = ''acme'', worker_id = ''w1'', worker_credential_digest = D 0\<rparr>"

lemmas actor_defs = alice_def bob_def carol_def walter_def

lemma char_classes: "lower_char c \<longleftrightarrow> 97 \<le> (of_char c :: nat) \<and> (of_char c :: nat) \<le> 122"
  "digit_char c \<longleftrightarrow> 48 \<le> (of_char c :: nat) \<and> (of_char c :: nat) \<le> 57"
  "upper_char c \<longleftrightarrow> 65 \<le> (of_char c :: nat) \<and> (of_char c :: nat) \<le> 90"
  by (simp_all add: lower_char_def digit_char_def upper_char_def less_eq_char_def)

lemma example_ids [simp]: "portable_id ''acme''" "portable_id ''edr''" "portable_id ''edr-1''"
  "portable_id ''w1''" "group_format ''soc''"
  "uuid_format ''00000000-0000-1000-8000-000000000000''"
  "to_lower ''00000000-0000-1000-8000-000000000000'' = ''00000000-0000-1000-8000-000000000000''"
proof -
  show "portable_id ''acme''" "portable_id ''edr''" "portable_id ''edr-1''" "portable_id ''w1''"
    "group_format ''soc''"
    by (simp_all add: portable_id_def group_format_def char_classes)
  show "uuid_format ''00000000-0000-1000-8000-000000000000''"
    by code_simp
  show "to_lower ''00000000-0000-1000-8000-000000000000'' = ''00000000-0000-1000-8000-000000000000''"
    by (simp add: to_lower_def char_classes)
qed

lemma example_principals [simp]: "principal_ok (Human alice)" "principal_ok (Human bob)"
  "principal_ok (Human carol)" "principal_ok (Worker walter)"
  by (simp_all add: principal_ok_def actor_defs)

lemma example_valid_actor: "valid_actor alice"
  by (simp add: valid_actor_def alice_def text_between_def)

lemma example_cfg_valid: "validate_configuration example_env example_cfg = Inr example_cfg"
  by (simp add: validate_configuration_def example_cfg_def text_between_def validate_source_def
      validate_defender_source_def validate_schedule_def validate_evidence_def reference_def
      absent_or_long_def example_url_def reference_rejected_def SECRET_REF_SCHEMES_def
      CUSTODY_REF_SCHEMES_def SIGNER_REF_SCHEMES_def space_char_def field_error_def)

lemma example_cfg_bytes: "canonical_bytes example_env example_cfg = Inr (line_of 0)"
proof -
  have "json_depth (configuration_json example_cfg) \<le> 2"
    by (simp add: configuration_json_def example_cfg_def schedule_json_def evidence_json_def
        jobject_def jtext_def)
  moreover have "list_all (node_ok DEFAULT_JSON_LIMITS) (json_nodes (configuration_json example_cfg))"
    by (simp add: configuration_json_def example_cfg_def schedule_json_def evidence_json_def
        jobject_def jtext_def DEFAULT_JSON_LIMITS_def I_JSON_MAX_INTEGER_def)
      (simp add: text_of_def genesis_format(2) [unfolded GENESIS_DIGEST_def])
  ultimately have "validate_tree DEFAULT_JSON_LIMITS 0 (configuration_json example_cfg) = Inr ()"
    by (simp add: validate_tree_iff DEFAULT_JSON_LIMITS_def)
  moreover have "is_object (configuration_json example_cfg)"
    "dict_get (configuration_json example_cfg) ''id'' = None" "digit_of (configuration_json example_cfg) = 0"
    by (simp_all add: configuration_json_def jobject_def digit_of_def)
  ultimately show ?thesis
    using example_canonical [of DEFAULT_JSON_LIMITS "configuration_json example_cfg"]
    by (simp add: canonical_bytes_def canonical_def DEFAULT_JSON_LIMITS_def)
qed

lemma example_plain:
  assumes "flat_members ms" "map_of ms ''id'' = None" "map_of ms ''schema_version'' = None"
    "map_of ms ''sequence'' = None"
  shows "canonical example_env (jobject ms) = Inr (line_of 0)"
  using example_object [OF assms(1), of DEFAULT_JSON_LIMITS] assms(2-4)
  by (simp add: canonical_def sequence_of_def)

definition draft0 :: revision where
  "draft0 = \<lparr>rev_revision_id = D 0, rev_tenant_id = ''acme'', rev_control_id = ''edr'',
     rev_generation = 1, rev_parent_revision_id = None, rev_configuration_digest = D 0,
     rev_configuration_bytes = line_of 0, rev_state = Draft, rev_state_version = 0,
     rev_created_by = ''alice'', rev_created_at = 1000, rev_submitted_at = None,
     rev_decided_at = None\<rparr>"

definition submitted0 :: revision where
  "submitted0 = moved Submitted (Some 1100) None draft0"

definition approved0 :: revision where
  "approved0 = moved Approved (Some 1100) (Some 1200) submitted0"

definition decision0 :: approval_decision where
  "decision0 = \<lparr>dec_decision_id = D 0, dec_revision_id = D 0, dec_tenant_id = ''acme'',
     dec_decision = DecApproved, dec_decided_by = ''bob'', dec_decided_at = 1200,
     dec_comment = ''ok'', dec_actor_session_digest = D 0\<rparr>"

definition pointer0 :: active_deployment where
  "pointer0 = new_pointer carol approved0 1300 1"

definition pending0 :: operation where
  "pending0 = \<lparr>op_operation_id = D 0, op_tenant_id = ''acme'', op_control_id = ''edr'',
     op_sequence = 1, op_kind = Apply, op_revision_id = D 0, op_configuration_digest = D 0,
     op_predecessor = None, op_retry_of = None, op_requested_by = ''carol'', op_requested_at = 1300,
     op_requester_session = D 0, op_state = Pending, op_state_version = 0, op_attempt_count = 0,
     op_lease_fence = 0, op_lease_owner = None, op_lease_token = None, op_leased_at = None,
     op_lease_expires_at = None, op_retry_at = None, op_applied_at = None, op_applied_digest = None,
     op_target_receipt = None, op_failed_at = None, op_failure_digest = None\<rparr>"

definition leased0 :: operation where
  "leased0 = lease_update walter (D 0) 1400 60 1 pending0"

definition event1 :: audit_event where
  "event1 = example_event (Human alice) RevisionCreated (D 0) 1000 1 GENESIS_DIGEST"
definition event2 :: audit_event where
  "event2 = example_event (Human alice) RevisionSubmitted (D 0) 1100 2 (D 1)"
definition event3 :: audit_event where
  "event3 = example_event (Human bob) RevisionApproved (D 0) 1200 3 (D 2)"
definition event4 :: audit_event where
  "event4 = example_event (Human carol) RevisionActivated (D 0) 1300 4 (D 3)"
definition event5 :: audit_event where
  "event5 = example_event (Worker walter) DeploymentLeased (D 0) 1400 5 (D 4)"
definition event6 :: audit_event where
  "event6 = example_event (Worker walter) DeploymentApplied (D 0) 1410 6 (D 5)"

lemmas event_defs = event1_def event2_def event3_def event4_def event5_def event6_def example_event_def
lemmas row_defs = draft0_def submitted0_def approved0_def decision0_def pending0_def leased0_def

lemma event_fields [simp]: "ev_tenant_id event1 = ''acme''" "ev_tenant_id event2 = ''acme''"
  "ev_tenant_id event3 = ''acme''" "ev_tenant_id event4 = ''acme''" "ev_tenant_id event5 = ''acme''"
  "ev_event_digest event1 = D 1" "ev_event_digest event2 = D 2" "ev_event_digest event3 = D 3"
  "ev_event_digest event4 = D 4" "ev_event_digest event5 = D 5"
  by (simp_all add: event_defs actor_defs)

definition db1 :: db where
  "db1 = empty_db\<lparr>control_revisions := [draft0], control_audit_events := [event1]\<rparr>"
definition db2 :: db where
  "db2 = db1\<lparr>control_revisions := [submitted0], control_audit_events := [event1, event2]\<rparr>"
definition db3 :: db where
  "db3 = db2\<lparr>control_revisions := [approved0], approval_decisions := [decision0],
     control_audit_events := [event1, event2, event3]\<rparr>"
definition db4 :: db where
  "db4 = db3\<lparr>active_deployments := [pointer0], deployment_operations := [pending0],
     control_audit_events := [event1, event2, event3, event4]\<rparr>"
definition db5 :: db where
  "db5 = db4\<lparr>deployment_operations := [leased0],
     control_audit_events := [event1, event2, event3, event4, event5]\<rparr>"
definition db6 :: db where
  "db6 = db5\<lparr>deployment_operations := [applied_row 1410 (D 0) (D 0) leased0],
     control_audit_events := [event1, event2, event3, event4, event5, event6]\<rparr>"

lemmas db_defs = db6_def db5_def db4_def db3_def db2_def db1_def empty_db_def

lemma example_linked: "linked 0 GENESIS_DIGEST [event1]" "linked 0 GENESIS_DIGEST [event1, event2]"
  "linked 0 GENESIS_DIGEST [event1, event2, event3]"
  "linked 0 GENESIS_DIGEST [event1, event2, event3, event4]"
  "linked 0 GENESIS_DIGEST [event1, event2, event3, event4, event5]"
  by (simp_all add: event_defs)

lemma draft0_valid: "validate_revision example_env draft0 = Inr draft0"
  and example_identity: "revision_identity example_env ''acme'' ''edr'' 1 None (D 0) = Inr (D 0)"
proof -
  have "flat_members [(''configuration_digest'', jtext (D 0)), (''control_id'', jtext ''edr''),
      (''generation'', JInt 1), (''parent_revision_id'', jopt None), (''tenant_id'', jtext ''acme'')]"
    by (simp add: flat_members_def I_JSON_MAX_INTEGER_def)
  from example_plain [OF this]
  show id: "revision_identity example_env ''acme'' ''edr'' 1 None (D 0) = Inr (D 0)"
    by (simp add: revision_identity_def opt_ok_def)
  have "text_between 1 255 ''alice''" by (simp add: text_between_def)
  then show "validate_revision example_env draft0 = Inr draft0"
    using draft_row_valid [OF example_lawful example_cfg_valid example_cfg_bytes, of 1 None "D 0" "''alice''" 1000]
      id by (simp add: draft0_def example_cfg_def)
qed

lemma call1: "create_draft example_env alice example_cfg None (instant 1000) empty_db = (Inr draft0, db1)"
proof -
  let ?ms = "[(''configuration_digest'', jtext (D 0)), (''control_id'', jtext ''edr''),
      (''generation'', JInt 1), (''parent_revision_id'', jopt None)]"
  let ?d = "empty_db\<lparr>control_revisions := [draft0]\<rparr>"
  have "flat_members ?ms" by (simp add: flat_members_def I_JSON_MAX_INTEGER_def)
  then have "append_audit example_env (Human alice) RevisionCreated (D 0) (instant 1000) (jobject ?ms) ?d
      = Inr (event1, logged event1 ?d)"
    using example_append [of "Human alice" "D 0" 1000 ?ms ?d "[]" 1 RevisionCreated]
    by (simp add: event1_def chain_head_def tenant_events_def where_rows_def empty_db_def)
  moreover have "insert_revision draft0 empty_db = Inr ?d"
    by (simp add: insert_revision_Inr empty_db_def draft0_def opt_ok_def)
  moreover have "next_generation example_env ''acme'' ''edr'' None empty_db = Inr (1, None)"
    by (simp add: next_generation_def latest_revision_row_def empty_db_def where_rows_def
        order_by_desc_def)
  moreover have cfg: "cfg_tenant_id example_cfg = ''acme''" "cfg_control_id example_cfg = ''edr''"
    by (simp_all add: example_cfg_def)
  ultimately have "create_draft_body example_env alice example_cfg (line_of 0) None (instant 1000) empty_db
      = Inr (D 0, logged event1 ?d)"
    using example_identity example_cfg_bytes
    by (simp add: create_draft_body_def configuration_digest_of_def draft0_def alice_def)
  moreover have "logged event1 ?d = db1" by (simp add: logged_def db_defs)
  moreover have "get_revision example_env ''acme'' (D 0) db1 = Inr draft0"
    using draft0_valid by (simp add: get_revision_def tenant_revision_def where_rows_def db_defs
        load_revision_def) (simp add: draft0_def)
  ultimately show ?thesis
    using example_cfg_bytes cfg
    by (simp add: create_draft_def transaction_def integrity_conflict_def alice_def)
qed

lemma inv1: "store_inv example_env db1"
  using create_draft.keeps_inv [of example_env alice example_cfg empty_db None "instant 1000"]
    store_inv_empty call1 example_lawful example_valid_actor example_cfg_valid
  by (auto simp: draft_call_def)

lemma row_keys [simp]: "rev_tenant_id draft0 = ''acme''" "rev_revision_id draft0 = D 0"
  "rev_control_id draft0 = ''edr''" "rev_generation draft0 = 1" "rev_state draft0 = Draft"
  "rev_state_version draft0 = 0" "rev_decided_at draft0 = None" "rev_created_by draft0 = ''alice''"
  "rev_configuration_digest draft0 = D 0"
  by (simp_all add: draft0_def)

lemma revision_row_valid:
  "store_inv E d \<Longrightarrow> r \<in> set (control_revisions d) \<Longrightarrow> load_revision E r = Inr r"
  by (auto simp: store_inv_def revisions_ok_def load_revision_def)

lemma call2: "submit example_env alice (D 0) 0 (instant 1100) db1 = (Inr submitted0, db2)"
proof -
  let ?ms = "[(''control_id'', jtext ''edr''), (''from_state'', jtext ''draft''),
    (''generation'', JInt 1), (''to_state'', jtext ''submitted'')]"
  let ?d = "db1\<lparr>control_revisions := [submitted0]\<rparr>"
  have "flat_members ?ms" by (simp add: flat_members_def I_JSON_MAX_INTEGER_def)
  then have "append_audit example_env (Human alice) RevisionSubmitted (D 0) (instant 1100) (jobject ?ms) ?d
      = Inr (event2, logged event2 ?d)"
    using example_append [of "Human alice" "D 0" 1100 ?ms ?d "[event1]" 2 RevisionSubmitted] example_linked
    by (simp add: event2_def chain_head_def tenant_events_def where_rows_def db_defs D_eq)
      (simp add: alice_def)
  moreover have "logged event2 ?d = db2" by (simp add: logged_def db_defs)
  moreover have "tenant_revision ''acme'' (D 0) db1 = Some draft0"
    by (simp add: tenant_revision_def where_rows_def db_defs)
  moreover have "load_revision example_env draft0 = Inr draft0"
    by (rule revision_row_valid [OF inv1]) (simp add: db_defs)
  ultimately have body: "transition_body example_env alice (D 0) Draft Submitted 0 (instant 1100)
      RevisionSubmitted db1 = Inr ((), db2)"
    by (simp add: transition_body_def update_revisions_def where_rows_def update_where_def db_defs
        submitted0_def moved_def alice_def)
  from submit_outcome [OF inv1, of alice "D 0" 0 "instant 1100"] body
  show ?thesis
    by (simp add: submit_def transition_def transaction_def alice_def)
      (auto simp: db_defs submitted0_def split: sum.splits)
qed

lemma inv2: "store_inv example_env db2"
  using submit.keeps_inv [OF _ inv1, of alice "D 0" 0 "instant 1100"] call2 by simp

lemma submitted_keys [simp]: "rev_tenant_id submitted0 = ''acme''" "rev_revision_id submitted0 = D 0"
  "rev_control_id submitted0 = ''edr''" "rev_generation submitted0 = 1"
  "rev_state submitted0 = Submitted" "rev_state_version submitted0 = 1"
  "rev_submitted_at submitted0 = Some 1100"
  by (simp_all add: submitted0_def)

lemma decision0_valid: "validate_decision example_env decision0 = Inr decision0"
  and example_decision: "decision_identity example_env (D 0) ''acme'' DecApproved ''bob'' (instant 1200)
    ''ok'' (D 0) = Inr (D 0)"
proof -
  let ?ms = "[(''actor_session_digest'', jtext (D 0)), (''comment'', jtext ''ok''),
        (''decided_at'', jtext (timestamp 1200)), (''decided_by'', jtext ''bob''),
        (''decision'', jtext (decision_name DecApproved)), (''revision_id'', jtext (D 0)),
        (''tenant_id'', jtext ''acme'')]"
  have "flat_members ?ms" using length_timestamp [of 1200] by (simp add: flat_members_def)
  from example_plain [OF this] have "canonical example_env (decision_body (D 0) ''ok'' 1200 ''bob''
      DecApproved (D 0) ''acme'') = Inr (line_of 0)" by (simp add: decision_body_def)
  then show "validate_decision example_env decision0 = Inr decision0"
    "decision_identity example_env (D 0) ''acme'' DecApproved ''bob'' (instant 1200) ''ok'' (D 0) = Inr (D 0)"
    by (simp_all add: validate_decision_def decision_identity_def decision0_def text_between_def
        field_error_def)
qed

lemma approved_alt:
  "approved0 = submitted0\<lparr>rev_state := Approved, rev_state_version := 2, rev_decided_at := Some 1200\<rparr>"
  by (simp add: approved0_def submitted0_def moved_def draft0_def)

lemma call3: "decide example_env bob (D 0) 1 ''approved'' ''ok'' (instant 1200) db2
    = (Inr (approved0, decision0), db3)"
proof -
  let ?c = "sha256_bytes example_env (utf8_bytes ''ok'')"
  let ?ms = "[(''comment_digest'', jtext ?c), (''control_id'', jtext ''edr''),
    (''decision_id'', jtext (D 0)), (''generation'', JInt 1)]"
  let ?d = "db2\<lparr>control_revisions := [approved0], approval_decisions := [decision0]\<rparr>"
  have "length ?c = 71" using digest_format_sha256 [OF example_lawful] digest_length by blast
  then have "flat_members ?ms" by (simp add: flat_members_def I_JSON_MAX_INTEGER_def)
  then have "append_audit example_env (Human bob) RevisionApproved (D 0) (instant 1200) (jobject ?ms) ?d
      = Inr (event3, logged event3 ?d)"
    using example_append [of "Human bob" "D 0" 1200 ?ms ?d "[event1, event2]" 3 RevisionApproved] example_linked
    by (simp add: event3_def chain_head_def tenant_events_def where_rows_def db_defs D_eq)
      (simp add: bob_def alice_def)
  moreover have "logged event3 ?d = db3" by (simp add: logged_def db_defs)
  moreover have "tenant_revision ''acme'' (D 0) db2 = Some submitted0"
    by (simp add: tenant_revision_def where_rows_def db_defs)
  moreover have "load_revision example_env submitted0 = Inr submitted0"
    by (rule revision_row_valid [OF inv2]) (simp add: db_defs)
  moreover have "insert_decision decision0 db2 = Inr (db2\<lparr>approval_decisions := [decision0]\<rparr>)"
    by (simp add: insert_decision_Inr db_defs revision_exists_def) (simp add: decision0_def)
  ultimately have body: "decide_body example_env bob (D 0) 1 DecApproved ''ok'' (instant 1200) db2
      = Inr (decision0, db3)"
    using example_decision decision0_valid
    by (simp add: decide_body_def update_revisions_def where_rows_def update_where_def db_defs
        approved_alt bob_def alice_def decision0_def)
  from decide_outcome [OF inv2, of bob "D 0" 1 "''approved''" "''ok''" "instant 1200"] body
  show ?thesis
    by (simp add: decide_def transaction_def integrity_conflict_def bob_def alice_def)
      (auto simp: db_defs approved0_def decision0_def rbind_eq_Inr split: sum.splits)
qed

lemma inv3: "store_inv example_env db3"
  using decide.keeps_inv [OF _ inv2, of bob "D 0" 1 "''approved''" "''ok''" "instant 1200"] call3 by simp

lemma approved_keys [simp]: "rev_tenant_id approved0 = ''acme''" "rev_revision_id approved0 = D 0"
  "rev_control_id approved0 = ''edr''" "rev_state approved0 = Approved"
  "rev_configuration_digest approved0 = D 0" "rev_created_by approved0 = ''alice''"
  by (simp_all add: approved0_def submitted0_def)

lemma example_operation: "deployment_operation_identity example_env ''acme'' ''edr'' 1 Apply (D 0) (D 0)
    None None ''carol'' (instant 1300) (D 0) = Inr (D 0)"
  and pending0_valid: "validate_operation example_env pending0 = Inr pending0"
proof -
  let ?ms = "[(''configuration_digest'', jtext (D 0)), (''control_id'', jtext ''edr''),
         (''kind'', jtext (kind_name Apply)), (''operation_sequence'', JInt 1),
         (''predecessor_operation_id'', jopt None),
         (''requested_at'', jtext (timestamp 1300)), (''requested_by'', jtext ''carol''),
         (''requester_session_digest'', jtext (D 0)),
         (''revision_id'', jtext (D 0)), (''tenant_id'', jtext ''acme'')]"
  have "flat_members ?ms"
    using length_timestamp [of 1300] by (simp add: flat_members_def I_JSON_MAX_INTEGER_def)
  from example_plain [OF this] have "canonical example_env (operation_body ''acme'' ''edr'' 1 Apply (D 0) (D 0)
      None None ''carol'' 1300 (D 0)) = Inr (line_of 0)" by (simp add: operation_body_def)
  then show id: "deployment_operation_identity example_env ''acme'' ''edr'' 1 Apply (D 0) (D 0)
    None None ''carol'' (instant 1300) (D 0) = Inr (D 0)"
    by (simp add: deployment_operation_identity_def opt_ok_def)
  then show "validate_operation example_env pending0 = Inr pending0"
    by (simp add: validate_operation_def operation_fields_ok_def pending0_def between_def INT64_MAX_def
        opt_ok_def text_between_def field_error_def operation_state_checks_def no_lease_def
        no_applied_def no_failed_def)
qed

lemma pending_keys [simp]: "op_tenant_id pending0 = ''acme''" "op_control_id pending0 = ''edr''"
  "op_operation_id pending0 = D 0" "op_sequence pending0 = 1" "op_state pending0 = Pending"
  "op_requested_at pending0 = 1300" "op_state_version pending0 = 0" "op_attempt_count pending0 = 0"
  "op_revision_id pending0 = D 0" "op_requested_by pending0 = ''carol''"
  by (simp_all add: pending0_def)

lemma call4: "activate_with_operation example_env carol (D 0) None (instant 1300) db3
    = (Inr (pointer0, pending0), db4)"
proof -
  let ?ms = "[(''configuration_digest'', jtext (D 0)), (''control_id'', jtext ''edr''),
    (''deployment_version'', JInt 1), (''operation_id'', jtext (D 0)), (''operation_sequence'', JInt 1),
    (''previous_revision_id'', jopt None)]"
  let ?d1 = "db3\<lparr>active_deployments := [pointer0]\<rparr>"
  let ?d2 = "?d1\<lparr>deployment_operations := [pending0]\<rparr>"
  have "flat_members ?ms" by (simp add: flat_members_def I_JSON_MAX_INTEGER_def)
  then have ev: "append_audit example_env (Human carol) RevisionActivated (D 0) (instant 1300) (jobject ?ms) ?d2
      = Inr (event4, logged event4 ?d2)"
    using example_append [of "Human carol" "D 0" 1300 ?ms ?d2 "[event1, event2, event3]" 4 RevisionActivated]
      example_linked
    by (simp add: event4_def chain_head_def tenant_events_def where_rows_def db_defs D_eq)
      (simp add: carol_def alice_def)
  have ptr: "pointer0 = \<lparr>dep_tenant_id = ''acme'', dep_control_id = ''edr'', dep_revision_id = D 0,
      dep_configuration_digest = D 0, dep_activated_by = ''carol'', dep_activated_at = 1300,
      dep_deployment_version = 1\<rparr>"
    by (simp add: pointer0_def new_pointer_def carol_def alice_def)
  have sel: "select_revision carol approved0 None 1300 db3 = Inr ((1, None), ?d1)"
    by (simp add: select_revision_def pointer_of_def where_rows_def insert_deployment_def
        sqlite_check_def revision_exists_def deployment_key_def ptr carol_def alice_def db_defs)
  have none: "latest_applied_row ''acme'' ''edr'' [] = None" "next_sequence ''acme'' ''edr'' [] = 1"
    by (simp_all add: latest_applied_row_def next_sequence_def where_rows_def order_by_desc_def)
  have "insert_operation pending0 ?d1 = Inr ?d2"
    unfolding insert_operation_Inr
    by (simp add: db_defs revision_exists_def opt_ok_def operation_row_check_def insert_guard_def
        guard_revision_def one_unresolved_def none where_rows_def no_lease_def no_applied_def
        no_failed_def pending0_def)
  then have op: "create_deployment_operation example_env carol approved0 Apply (instant 1300) None None ?d1
      = Inr (pending0, ?d2)"
    using example_operation pending0_valid none
    by (simp add: create_deployment_operation_def where_rows_def carol_def alice_def pending0_def
        db_defs Let_def)
  have "validate_deployment pointer0 = Inr pointer0"
    by (simp add: validate_deployment_def ptr text_between_def between_def INT64_MAX_def)
  moreover have "tenant_revision ''acme'' (D 0) db3 = Some approved0"
    by (simp add: tenant_revision_def where_rows_def db_defs)
  moreover have "load_revision example_env approved0 = Inr approved0"
    by (rule revision_row_valid [OF inv3]) (simp add: db_defs)
  moreover have "logged event4 ?d2 = db4" by (simp add: logged_def db_defs)
  moreover have "pending0 = pending0" "actor_tenant_id carol = ''acme''" "actor_subject carol = ''carol''"
    by (simp_all add: carol_def alice_def)
  ultimately have "activate_body example_env carol (D 0) None 1300 db3 = Inr ((pointer0, pending0), db4)"
    using sel op ev by (simp add: activate_body_def ptr [symmetric])
  then show ?thesis
    by (simp add: activate_with_operation_def transaction_def integrity_conflict_def)
qed

lemma inv4: "store_inv example_env db4"
  using activate_with_operation.keeps_inv [OF _ inv3, of carol "D 0" None "instant 1300"] call4 by simp

lemma hex_char_in:
  assumes "hex_char c"
  shows "c \<in> set ''0123456789abcdef''"
proof -
  have "of_char c \<in> {48::nat, 49, 50, 51, 52, 53, 54, 55, 56, 57, 97, 98, 99, 100, 101, 102}"
    using assms by (simp add: hex_char_def digit_char_def less_eq_char_def) presburger
  moreover have "c = char_of (of_char c :: nat)" by simp
  ultimately show ?thesis by (auto simp: char_of_def bit_0)
qed

lemma require_digest_format: "digest_format s \<Longrightarrow> require_digest l s = Inr s"
  using hex_char_in by (fastforce simp: require_digest_def digest_format_def list_all_iff list_ex_iff)

lemma leased_keys [simp]: "op_tenant_id leased0 = ''acme''" "op_operation_id leased0 = D 0"
  "op_control_id leased0 = ''edr''" "op_configuration_digest leased0 = D 0"
  "op_state_version leased0 = 1" "op_lease_fence leased0 = 1" "op_state leased0 = Leased"
  "op_lease_owner leased0 = Some ''w1''" "op_lease_token leased0 = Some (D 0)"
  "op_lease_expires_at leased0 = Some 1460"
  by (simp_all add: leased0_def lease_update_def pending0_def walter_def)

lemma leased0_valid: "validate_operation example_env leased0 = Inr leased0"
  and applied0_valid: "validate_operation example_env (applied_row 1410 (D 0) (D 0) leased0)
    = Inr (applied_row 1410 (D 0) (D 0) leased0)"
  using example_operation
  by (simp_all add: validate_operation_def operation_fields_ok_def leased0_def lease_update_def
      applied_row_def release_lease_def pending0_def walter_def between_def INT64_MAX_def opt_ok_def
      text_between_def field_error_def operation_state_checks_def no_lease_def full_lease_def
      no_applied_def full_applied_def no_failed_def)

lemma call5: "lease_next_deployment_operation example_env walter (D 0) (instant 1400) 60 db4
    = (Inr (Some leased0), db5)"
proof -
  let ?ms = "[(''attempt_count'', JInt 1), (''control_id'', jtext ''edr''),
    (''lease_expires_at'', jtext (timestamp 1460)), (''lease_fence'', JInt 1),
    (''recovered_from_state'', jtext ''pending''), (''worker_id'', jtext ''w1'')]"
  let ?d = "db4\<lparr>deployment_operations := [leased0]\<rparr>"
  have "flat_members ?ms"
    using length_timestamp [of 1460] by (simp add: flat_members_def I_JSON_MAX_INTEGER_def)
  then have ev: "append_audit example_env (Worker walter) DeploymentLeased (D 0) (instant 1400) (jobject ?ms) ?d
      = Inr (event5, logged event5 ?d)"
    using example_append [of "Worker walter" "D 0" 1400 ?ms ?d "[event1, event2, event3, event4]" 5
        DeploymentLeased] example_linked
    by (simp add: event5_def chain_head_def tenant_events_def where_rows_def db_defs D_eq)
      (simp add: walter_def)
  have db5: "logged event5 ?d = db5" by (simp add: logged_def db_defs)
  have el: "eligible 1400 pending0" by (simp add: eligible_def)
  have upd: "update_operations (\<lambda>p. op_tenant_id p = ''acme'' \<and> op_operation_id p = D 0
        \<and> op_state_version p = 0 \<and> eligible 1400 p) (lease_update walter (D 0) 1400 60 1) db4
      = Inr (1, ?d)"
    using el by (simp add: update_operations_def sqlite_check_def where_rows_def update_where_def db_defs
        one_unresolved_def leased0_def transition_guard_def operation_row_check_def)
      (simp add: lease_update_def pending0_def walter_def no_applied_def no_failed_def not_false_le_def
        not_false_less_def)
  have "tenant_operation ''acme'' (D 0) db5 = Some leased0"
    by (simp add: tenant_operation_def where_rows_def db_defs)
  moreover have "load_operation example_env pending0 = Inr pending0"
    "load_operation example_env leased0 = Inr leased0"
    using pending0_valid leased0_valid by (simp_all add: load_operation_def)
  ultimately have "lease_body example_env walter (D 0) 1400 60 db4 = Inr (Some leased0, db5)"
    using el upd ev db5
    by (simp add: lease_body_def walter_def where_rows_def order_by_def db4_def)
  then show ?thesis
    by (simp add: lease_next_deployment_operation_def require_digest_format transaction_def
        integrity_conflict_def)
qed

lemma inv5: "store_inv example_env db5"
  using lease_next_deployment_operation.keeps_inv [OF _ inv4, of walter "D 0" "instant 1400" 60] call5
  by simp

lemma call6: "acknowledge_deployment_applied example_env walter (D 0) (D 0) 1 (D 0) (D 0) (instant 1410) db5
    = (Inr (applied_row 1410 (D 0) (D 0) leased0), db6)"
proof -
  let ?p = "applied_row 1410 (D 0) (D 0) leased0"
  let ?ms = "[(''applied_configuration_digest'', jtext (D 0)), (''control_id'', jtext ''edr''),
    (''lease_fence'', JInt 1), (''target_receipt_digest'', jtext (D 0)), (''worker_id'', jtext ''w1'')]"
  let ?d = "db5\<lparr>deployment_operations := [?p]\<rparr>"
  have "flat_members ?ms" by (simp add: flat_members_def I_JSON_MAX_INTEGER_def)
  then have ev: "append_audit example_env (Worker walter) DeploymentApplied (D 0) (instant 1410) (jobject ?ms) ?d
      = Inr (event6, logged event6 ?d)"
    using example_append [of "Worker walter" "D 0" 1410 ?ms ?d "[event1, event2, event3, event4, event5]" 6
        DeploymentApplied] example_linked
    by (simp add: event6_def chain_head_def tenant_events_def where_rows_def db_defs D_eq)
      (simp add: walter_def)
  have db6: "logged event6 ?d = db6" by (simp add: logged_def db_defs)
  have hold: "holds_lease walter (D 0) 1 1410 leased0" by (simp add: holds_lease_def walter_def)
  have upd: "update_operations (\<lambda>p. op_tenant_id p = ''acme'' \<and> op_operation_id p = D 0
        \<and> op_state_version p = 1 \<and> holds_lease walter (D 0) 1 1410 p) (applied_row 1410 (D 0) (D 0)) db5
      = Inr (1, ?d)"
    using hold by (simp add: update_operations_def sqlite_check_def where_rows_def update_where_def db_defs
        one_unresolved_def unresolved_def transition_guard_def operation_row_check_def applied_row_def
        release_lease_def)
      (simp add: leased0_def lease_update_def pending0_def walter_def no_lease_def no_failed_def
        not_false_le_def opt_ok_def)
  have id: "op_operation_id ?p = D 0" "op_tenant_id ?p = ''acme''"
    by (simp_all add: applied_row_def release_lease_def)
  then have "tenant_operation ''acme'' (D 0) db6 = Some ?p" "tenant_operation ''acme'' (D 0) db5 = Some leased0"
    by (simp_all add: tenant_operation_def where_rows_def db_defs)
  moreover have "load_operation example_env ?p = Inr ?p" "load_operation example_env leased0 = Inr leased0"
    using applied0_valid leased0_valid by (simp_all add: load_operation_def)
  ultimately have "acknowledge_body example_env walter (D 0) (D 0) 1 (D 0) (D 0) 1410 db5 = Inr (?p, db6)"
    using hold upd ev db6
    by (simp add: acknowledge_body_def close_lease_def walter_def)
  then show ?thesis
    by (simp add: acknowledge_deployment_applied_def require_digest_format transaction_def)
qed

definition example_calls :: "call list" where
  "example_calls = [CreateDraft alice example_cfg None (instant 1000), Submit alice (D 0) 0 (instant 1100),
     Decide bob (D 0) 1 ''approved'' ''ok'' (instant 1200), Activate carol (D 0) None (instant 1300),
     Lease walter (D 0) (instant 1400) 60,
     Acknowledge walter (D 0) (D 0) 1 (D 0) (D 0) (instant 1410)]"

lemma example_calls_ok: "list_all (call_ok example_env) example_calls"
  by (simp add: example_calls_def example_valid_actor example_cfg_valid)

lemma example_history: "after_calls example_env example_calls = db6"
  "after_calls example_env (take 5 example_calls) = db5" "after_calls example_env (take 4 example_calls) = db4"
  "after_calls example_env (take 3 example_calls) = db3"
  using call1 call2 call3 call4 call5 call6 by (simp_all add: after_calls_def example_calls_def)

lemma inv6: "store_inv example_env db6"
  using after_calls_inv [OF example_lawful example_calls_ok] example_history by simp

end
