(* ===== verification/Store_Props.thy ===== *)
theory Store_Props
  imports Example
begin

text \<open>
  The properties of the store, over every sequence of calls on a new database: the audit chain,
  separation of duties, the desired-selection pointer, the order of deployment operations, leases
  and fencing, history, isolation and atomicity. The witnesses use the history of \<open>Example\<close>.
\<close>

section \<open>Verification of the audit chain\<close>

lemma verify_details_ok:
  assumes "jcs_law E DETAIL_LIMITS" "canonical_json_bytes E DETAIL_LIMITS details = Inr b"
  shows "verify_details E b = Inr ()"
proof -
  obtain v where "strict_json_loads E DETAIL_LIMITS b = Inr v" "canonical_json_bytes E DETAIL_LIMITS v = Inr b"
    using assms unfolding jcs_law_def by blast
  then show ?thesis by (simp add: verify_details_def)
qed

definition event_sound :: "'e model_env_scheme \<Rightarrow> audit_event \<Rightarrow> bool" where
  "event_sound E v \<longleftrightarrow> validate_event E v = Inr v \<and> verify_details E (ev_details_bytes v) = Inr ()"

lemma event_sound_digest: "event_sound E v \<Longrightarrow> sha256_bytes E (ev_event_bytes v) = ev_event_digest v"
  by (auto simp: event_sound_def validate_event_def split: if_splits)

lemma verify_events_ok:
  assumes "linked s p vs" "list_all (event_sound E) vs"
  shows "verify_events E vs s p = Inr (s + int (length vs), if vs = [] then p else ev_event_digest (last vs))"
  using assms
proof (induction vs arbitrary: s p)
  case (Cons v vs)
  then have "verify_events E vs (s + 1) (ev_event_digest v)
      = Inr (s + 1 + int (length vs), if vs = [] then ev_event_digest v else ev_event_digest (last vs))"
    by (intro Cons.IH) auto
  moreover have "sha256_bytes E (ev_event_bytes v) = ev_event_digest v"
    "verify_details E (ev_details_bytes v) = Inr ()"
    using Cons.prems(2) event_sound_digest by (auto simp: event_sound_def)
  ultimately show ?case using Cons.prems(1) by simp
qed simp

lemma filter_after:
  assumes "linked 0 p vs" "k \<le> length vs"
  shows "filter (\<lambda>v. ev_sequence v > int k) vs = drop k vs"
proof -
  have "filter (\<lambda>v. ev_sequence v > int k) (take k vs) = []"
    using linked_nth [OF assms(1)] by (auto simp: filter_empty_conv in_set_conv_nth)
  moreover have "filter (\<lambda>v. ev_sequence v > int k) (drop k vs) = drop k vs"
    using linked_nth [OF assms(1)] assms(2) by (auto simp: filter_id_conv in_set_conv_nth)
  ultimately show ?thesis
    by (metis append_self_conv2 append_take_drop_id filter_append)
qed

lemma audit_events_page:
  assumes "linked 0 GENESIS_DIGEST (tenant_events t d)" "list_all (event_sound E) (tenant_events t d)"
    and "k \<le> length (tenant_events t d)"
  shows "audit_events E t (int k) 1000 d = Inr (take 1000 (drop k (tenant_events t d)))"
proof -
  let ?vs = "tenant_events t d"
  have "where_rows (\<lambda>v. ev_tenant_id v = t \<and> ev_sequence v > int k) (control_audit_events d)
      = filter (\<lambda>v. ev_sequence v > int k) ?vs"
    by (simp add: tenant_events_def where_rows_def conj_commute)
  also have "\<dots> = drop k ?vs" by (rule filter_after [OF assms(1,3)])
  finally have rows: "where_rows (\<lambda>v. ev_tenant_id v = t \<and> ev_sequence v > int k) (control_audit_events d)
      = drop k ?vs" .
  have "linked (int k) (if k = 0 then GENESIS_DIGEST else ev_event_digest (last (take k ?vs))) (drop k ?vs)"
    using assms(1,3) linked_append [of 0 GENESIS_DIGEST "take k ?vs" "drop k ?vs"]
    by (cases "k = 0") (auto simp: min_def split: if_splits)
  then have "order_by ev_sequence (drop k ?vs) = drop k ?vs" by (rule order_by_linked)
  moreover have "rmap (load_audit E) (take 1000 (drop k ?vs)) = Inr (map id (take 1000 (drop k ?vs)))"
    using assms(2)
    by (intro rmap_all_ok) (auto simp: list_all_iff event_sound_def load_audit_def
        dest!: in_set_takeD in_set_dropD)
  ultimately show ?thesis
    by (simp add: audit_events_def list_limit_def rows)
qed

definition head_at :: "audit_event list \<Rightarrow> nat \<Rightarrow> string" where
  "head_at vs k = chain_head (take k vs)"

lemma verify_pages_ok:
  assumes "linked 0 GENESIS_DIGEST (tenant_events t d)" "list_all (event_sound E) (tenant_events t d)"
    and "k \<le> length (tenant_events t d)"
  shows "verify_pages E t d (int k) (head_at (tenant_events t d) k)
    = Inr (int (length (tenant_events t d)), chain_head (tenant_events t d))"
  using assms(3)
proof (induction "length (tenant_events t d) - k" arbitrary: k rule: less_induct)
  case less
  let ?vs = "tenant_events t d" and ?page = "take 1000 (drop k (tenant_events t d))"
  note page = audit_events_page [OF assms(1,2) less.prems]
  show ?case
  proof (cases "k = length ?vs")
    case True
    then show ?thesis using page by (subst verify_pages.simps) (simp add: head_at_def)
  next
    case False
    then have ne: "?page \<noteq> []" using less.prems by auto
    have split: "take (k + length ?page) ?vs = take k ?vs @ ?page"
      by (simp add: take_add min_def)
    have "linked 0 GENESIS_DIGEST (take k ?vs @ ?page @ drop 1000 (drop k ?vs))"
      using assms(1) by (metis append_take_drop_id)
    moreover have "length (take k ?vs) = k" using less.prems by simp
    ultimately have "linked (int k) (head_at ?vs k) ?page"
      unfolding linked_append head_at_def chain_head_def by simp
    moreover have "list_all (event_sound E) ?page"
      using assms(2) by (auto simp: list_all_iff dest!: in_set_takeD in_set_dropD)
    ultimately have ver: "verify_events E ?page (int k) (head_at ?vs k)
        = Inr (int (k + length ?page), head_at ?vs (k + length ?page))"
      using verify_events_ok ne unfolding head_at_def split by (fastforce simp: chain_head_def)
    show ?thesis
    proof (cases "length ?page < 1000")
      case True
      then have "k + length ?page = length ?vs" using less.prems by auto
      then show ?thesis
        using page ne ver True by (subst verify_pages.simps) (simp add: head_at_def)
    next
      case long: False
      have "k + length ?page \<le> length ?vs" using less.prems by auto
      moreover have "length ?vs - (k + length ?page) < length ?vs - k"
        using long less.prems by auto
      ultimately have "verify_pages E t d (int (k + length ?page)) (head_at ?vs (k + length ?page))
          = Inr (int (length ?vs), chain_head ?vs)"
        by (intro less.hyps)
      then show ?thesis
        using page ne ver long by (subst verify_pages.simps) simp
    qed
  qed
qed

lemma verify_audit_chain_ok:
  assumes "jcs_law E DETAIL_LIMITS" "store_inv E d"
  shows "verify_audit_chain E t d
    = Inr (int (length (tenant_events t d)), chain_head (tenant_events t d))"
proof -
  have "linked 0 GENESIS_DIGEST (tenant_events t d)"
    using assms(2) by (simp add: store_inv_def chain_ok_def)
  moreover have "list_all (event_sound E) (tenant_events t d)"
    using assms verify_details_ok [OF assms(1)]
    by (auto simp: store_inv_def chain_ok_def list_all_iff tenant_events_def event_sound_def table_simps)
  ultimately show ?thesis
    using verify_pages_ok [of t d E 0] by (simp add: verify_audit_chain_def head_at_def chain_head_def)
qed

text \<open>Soundness on any database whose primary key holds: what verification accepts is a chain.\<close>

definition events_from :: "string \<Rightarrow> int \<Rightarrow> db \<Rightarrow> audit_event list" where
  "events_from t s d = order_by ev_sequence
     (where_rows (\<lambda>v. ev_tenant_id v = t \<and> ev_sequence v > s) (control_audit_events d))"

lemma audit_events_Inr:
  assumes "audit_events E t s n d = Inr vs"
  shows "vs = take (nat n) (events_from t s d)" "\<forall>v \<in> set vs. validate_event E v = Inr v"
proof -
  have l: "list_all2 (\<lambda>x y. load_audit E x = Inr y) (take (nat n) (events_from t s d)) vs"
    using assms by (auto simp: audit_events_def events_from_def rbind_eq_Inr rmap_Inr split: if_splits)
  then have "list_all2 (=) (take (nat n) (events_from t s d)) vs"
    by (rule list_all2_mono) (auto dest: load_audit_Inr)
  then show "vs = take (nat n) (events_from t s d)" by (simp add: list.rel_eq)
  show "\<forall>v \<in> set vs. validate_event E v = Inr v"
    by (auto dest!: list_all2_in_right [OF l] dest: load_audit_Inr)
qed

lemma verify_events_sound:
  assumes "verify_events E vs s p = Inr (s', p')"
  shows "linked s p vs" "s' = s + int (length vs)" "p' = (if vs = [] then p else ev_event_digest (last vs))"
    "\<forall>v \<in> set vs. verify_details E (ev_details_bytes v) = Inr ()"
proof -
  show "s' = s + int (length vs)" by (rule verify_events_sequence [OF assms])
  show "linked s p vs" "p' = (if vs = [] then p else ev_event_digest (last vs))"
    "\<forall>v \<in> set vs. verify_details E (ev_details_bytes v) = Inr ()"
    using assms by (induction vs arbitrary: s p) (auto simp: rbind_eq_Inr split: if_splits)
qed

lemma events_from_strict:
  assumes "distinct (map event_key (control_audit_events d))"
  shows "sorted_wrt (<) (map ev_sequence (events_from t s d))"
proof -
  let ?rows = "where_rows (\<lambda>v. ev_tenant_id v = t \<and> ev_sequence v > s) (control_audit_events d)"
  have "distinct (map ev_sequence ?rows)"
    using assms by (auto simp: distinct_map inj_on_def where_rows_def event_key_def)
  then have "distinct (map ev_sequence (events_from t s d))"
    unfolding events_from_def order_by_def by (metis sort_key_map_key distinct_sort)
  moreover have "sorted (map ev_sequence (events_from t s d))"
    unfolding events_from_def order_by_def by simp
  ultimately show ?thesis by (simp add: strict_sorted_iff)
qed

lemma events_from_drop:
  assumes "distinct (map event_key (control_audit_events d))"
    and "linked s p (take n (events_from t s d))" "n \<le> length (events_from t s d)"
  shows "events_from t (s + int n) d = drop n (events_from t s d)"
proof -
  let ?vs = "events_from t s d"
  have strict: "sorted_wrt (<) (map ev_sequence ?vs)" by (rule events_from_strict [OF assms(1)])
  have idx: "ev_sequence (?vs ! i) = s + int i + 1" if "i < n" for i
    using linked_nth [OF assms(2), of i] that assms(3) by simp
  have low: "filter (\<lambda>v. ev_sequence v > s + int n) (take n ?vs) = []"
    using idx assms(3) by (auto simp: filter_empty_conv in_set_conv_nth)
  have "ev_sequence (?vs ! j) > s + int n" if "n \<le> j" "j < length ?vs" for j
  proof (cases n)
    case 0
    have "?vs ! j \<in> set ?vs" using that by simp
    then show ?thesis using 0 by (simp add: events_from_def table_simps)
  next
    case (Suc m)
    then have "ev_sequence (?vs ! m) < ev_sequence (?vs ! j)"
      using strict that assms(3) by (auto simp: sorted_wrt_iff_nth_less)
    then show ?thesis using idx [of m] Suc by simp
  qed
  then have high: "filter (\<lambda>v. ev_sequence v > s + int n) (drop n ?vs) = drop n ?vs"
    by (auto simp: filter_id_conv in_set_conv_nth)
  have "events_from t (s + int n) d = filter (\<lambda>v. ev_sequence v > s + int n) ?vs"
    unfolding events_from_def order_by_def where_rows_def filter_sort
    by (intro arg_cong [where f = "sort_key ev_sequence"]) (auto intro: filter_cong)
  also have "\<dots> = drop n ?vs"
    using low high by (metis append_self_conv2 append_take_drop_id filter_append)
  finally show ?thesis .
qed

lemma verify_pages_sound:
  assumes "distinct (map event_key (control_audit_events d))"
    and "verify_pages E t d s p = Inr (n, h)"
  shows "linked s p (events_from t s d) \<and> n = s + int (length (events_from t s d))
    \<and> h = (if events_from t s d = [] then p else ev_event_digest (last (events_from t s d)))
    \<and> list_all (event_sound E) (events_from t s d)"
  using assms
proof (induction E t d s p rule: verify_pages.induct)
  case (1 E t d s p)
  let ?vs = "events_from t s d"
  obtain page where page: "audit_events E t s 1000 d = Inr page"
    using "1.prems"(2) by (subst (asm) verify_pages.simps) (auto simp: rbind_eq_Inr)
  have pv: "page = take 1000 ?vs" "\<forall>v \<in> set page. validate_event E v = Inr v"
    using audit_events_Inr [OF page] by simp_all
  show ?case
  proof (cases "page = []")
    case True
    then have "?vs = []" using pv by simp
    then show ?thesis
      using "1.prems"(2) page True by (subst (asm) verify_pages.simps) auto
  next
    case False
    obtain s' p' where ver: "verify_events E page s p = Inr (s', p')"
      using "1.prems"(2) page False by (subst (asm) verify_pages.simps) (auto simp: rbind_eq_Inr)
    note vs = verify_events_sound [OF ver]
    have sound: "list_all (event_sound E) page" using vs(4) pv(2) by (simp add: list_all_iff event_sound_def)
    show ?thesis
    proof (cases "length page < 1000")
      case True
      then have "page = ?vs" using pv(1) by auto
      then show ?thesis
        using "1.prems"(2) page False ver True vs sound by (subst (asm) verify_pages.simps) auto
    next
      case long: False
      then have len: "length page = 1000" "1000 \<le> length ?vs" using pv(1) by auto
      have rest: "events_from t s' d = drop 1000 ?vs"
        using events_from_drop [OF "1.prems"(1), of s p 1000 t] vs(1,2) pv(1) len by simp
      have "verify_pages E t d s' p' = Inr (n, h)"
        using "1.prems"(2) page False ver long by (subst (asm) verify_pages.simps) auto
      from "1.IH" [OF page False ver refl long "1.prems"(1) this]
      have ih: "linked s' p' (drop 1000 ?vs)" "n = s' + int (length (drop 1000 ?vs))"
        "h = (if drop 1000 ?vs = [] then p' else ev_event_digest (last (drop 1000 ?vs)))"
        "list_all (event_sound E) (drop 1000 ?vs)" using rest by auto
      have eq: "?vs = page @ drop 1000 ?vs" using pv(1) by (metis append_take_drop_id)
      have "linked s p (page @ drop 1000 ?vs)"
        using vs ih(1) False by (simp add: linked_append)
      moreover have "n = s + int (length (page @ drop 1000 ?vs))" using ih(2) vs(2) by simp
      moreover have "h = ev_event_digest (last (page @ drop 1000 ?vs))"
        using ih(3) vs(3) False by (cases "drop 1000 ?vs = []") auto
      moreover have "list_all (event_sound E) (page @ drop 1000 ?vs)" using sound ih(4) by simp
      ultimately show ?thesis using eq False by (metis append_is_Nil_conv)
    qed
  qed
qed

text \<open>
  C2. After any sequence of store calls by any callers, \<open>verify_audit_chain\<close> succeeds for every
  tenant: it terminates without an integrity error and returns the number of that tenant's events
  and the digest of the last one (the genesis digest when there is none).
\<close>

theorem audit_chain_always_verifies:
  assumes "lawful_env E" "jcs_law E DETAIL_LIMITS" "list_all (call_ok E) cs"
  shows "verify_audit_chain E t (after_calls E cs)
    = Inr (int (length (tenant_events t (after_calls E cs))), chain_head (tenant_events t (after_calls E cs)))"
  by (rule verify_audit_chain_ok [OF assms(2) after_calls_inv [OF assms(1,3)]])

theorem audit_chain_always_verifies_witness:
  "verify_audit_chain example_env ''acme'' (after_calls example_env example_calls) = Inr (6, D 6)"
proof -
  have "tenant_events ''acme'' db6 = [event1, event2, event3, event4, event5, event6]"
    by (simp add: tenant_events_def where_rows_def db_defs) (simp add: event_defs actor_defs)
  then show ?thesis
    using audit_chain_always_verifies [OF example_lawful example_jcs_law example_calls_ok, of "''acme''"]
    by (simp add: example_history chain_head_def) (simp add: event_defs)
qed

text \<open>The texts a chain hashes, and a collision between the texts of two chains.\<close>

definition hashed_texts :: "audit_event list \<Rightarrow> bytes set" where
  "hashed_texts vs = set (map ev_event_bytes vs) \<union> set (map ev_details_bytes vs)"

definition collision_between :: "'e model_env_scheme \<Rightarrow> audit_event list \<Rightarrow> audit_event list \<Rightarrow> bool" where
  "collision_between E vs ws \<longleftrightarrow>
     (\<exists>a \<in> hashed_texts vs. \<exists>b \<in> hashed_texts ws. a \<noteq> b \<and> sha256_bytes E a = sha256_bytes E b)"

definition event_members :: "audit_event \<Rightarrow> (string \<times> json) list" where
  "event_members v =
     [(''action'', jtext (action_name (ev_action v))),
      (''actor_session_digest'', jtext (ev_actor_session_digest v)),
      (''actor_subject'', jtext (ev_actor_subject v)), (''details_digest'', jtext (ev_details_digest v)),
      (''object_id'', jtext (ev_object_id v)), (''occurred_at'', jtext (timestamp (ev_occurred_at v))),
      (''previous_event_digest'', jtext (ev_previous_event_digest v)), (''sequence'', JInt (ev_sequence v)),
      (''tenant_id'', jtext (ev_tenant_id v))]"

lemma event_members_plain: "plain_json (jobject (event_members v))"
  by (simp add: event_members_def)

lemma event_bytes_link:
  assumes "jcs_text_law E DEFAULT_JSON_LIMITS" "validate_event E v = Inr v" "validate_event E w = Inr w"
    and "ev_event_bytes v = ev_event_bytes w"
  shows "ev_previous_event_digest v = ev_previous_event_digest w" "ev_details_digest v = ev_details_digest w"
proof -
  have bytes: "canonical_json_bytes E DEFAULT_JSON_LIMITS (jobject (event_members v)) = Inr (ev_event_bytes v)"
    if "validate_event E v = Inr v" for v
    using that by (auto simp: validate_event_def field_error_def audit_event_bytes_def rbind_eq_Inr canonical_def
        event_members_def split: if_splits sum.splits)
  have same: "same_json (jobject (event_members v)) (jobject (event_members w))"
    using canonical_injective [OF assms(1) event_members_plain event_members_plain bytes [OF assms(2)]]
      bytes [OF assms(3)] assms(4) by simp
  have member: "map_of (event_members w) k = Some (jtext s)" if "map_of (event_members v) k = Some (jtext s)" for k s
    using same_body_member [OF same event_members_plain that] by simp
  show "ev_previous_event_digest v = ev_previous_event_digest w"
    using member [of "''previous_event_digest''"] by (simp add: event_members_def)
  show "ev_details_digest v = ev_details_digest w"
    using member [of "''details_digest''"] by (simp add: event_members_def)
qed

lemma event_sound_bytes:
  assumes "event_sound E v"
  shows "validate_event E v = Inr v" "sha256_bytes E (ev_event_bytes v) = ev_event_digest v"
    "sha256_bytes E (ev_details_bytes v) = ev_details_digest v"
  using assms by (auto simp: event_sound_def validate_event_def split: if_splits)

lemma linked_chains_equal:
  assumes "jcs_text_law E DEFAULT_JSON_LIMITS" "\<not> collision_between E vs ws"
    and "length vs = length ws" "linked 0 GENESIS_DIGEST vs" "linked 0 GENESIS_DIGEST ws"
    and "chain_head vs = chain_head ws" "list_all (event_sound E) vs" "list_all (event_sound E) ws"
  shows "map ev_event_bytes vs = map ev_event_bytes ws \<and> map ev_details_bytes vs = map ev_details_bytes ws"
  using assms(2-8)
proof (induction vs arbitrary: ws rule: rev_induct)
  case (snoc v vs)
  then obtain w ws' where ws: "ws = ws' @ [w]" by (cases ws rule: rev_cases) auto
  have nc: "a = b" if "sha256_bytes E a = sha256_bytes E b" "a \<in> hashed_texts (vs @ [v])"
    "b \<in> hashed_texts ws" for a b
    using snoc.prems(1) that by (auto simp: collision_between_def)
  have sound: "event_sound E v" "event_sound E w" using snoc.prems ws by auto
  have "sha256_bytes E (ev_event_bytes v) = sha256_bytes E (ev_event_bytes w)"
    using snoc.prems(5) ws event_sound_bytes(2) [OF sound(1)] event_sound_bytes(2) [OF sound(2)]
    by (simp add: chain_head_def)
  then have bytes: "ev_event_bytes v = ev_event_bytes w"
    by (rule nc) (simp_all add: hashed_texts_def ws)
  note link = event_bytes_link [OF assms(1) event_sound_bytes(1) [OF sound(1)]
      event_sound_bytes(1) [OF sound(2)] bytes]
  have "sha256_bytes E (ev_details_bytes v) = sha256_bytes E (ev_details_bytes w)"
    using event_sound_bytes(3) [OF sound(1)] event_sound_bytes(3) [OF sound(2)] link(2) by simp
  then have details: "ev_details_bytes v = ev_details_bytes w"
    by (rule nc) (simp_all add: hashed_texts_def ws)
  have "ev_previous_event_digest v = chain_head vs" "ev_previous_event_digest w = chain_head ws'"
    using snoc.prems(3,4) ws by (auto simp: linked_append chain_head_def)
  then have "map ev_event_bytes vs = map ev_event_bytes ws' \<and> map ev_details_bytes vs = map ev_details_bytes ws'"
    using snoc.prems ws link(1)
    by (intro snoc.IH) (auto simp: linked_append collision_between_def hashed_texts_def)
  then show ?case using ws bytes details by simp
qed simp

text \<open>
  C3. The chain is tamper evident: if verification accepts two databases for a tenant (only the
  primary key of the event table is assumed of them) with the same count and head digest, then
  they hold byte for byte the same events and details for it, unless two different texts among
  theirs have the same SHA-256 digest.
\<close>

theorem audit_chain_tamper_evident:
  assumes "jcs_text_law E DEFAULT_JSON_LIMITS"
    and "distinct (map event_key (control_audit_events d))" "verify_audit_chain E t d = Inr (n, h)"
    and "distinct (map event_key (control_audit_events d'))" "verify_audit_chain E t d' = Inr (n, h)"
  shows "collision_between E (events_from t 0 d) (events_from t 0 d')
    \<or> map ev_event_bytes (events_from t 0 d) = map ev_event_bytes (events_from t 0 d')
    \<and> map ev_details_bytes (events_from t 0 d) = map ev_details_bytes (events_from t 0 d')"
proof -
  note a = verify_pages_sound [OF assms(2) assms(3) [unfolded verify_audit_chain_def]]
  note b = verify_pages_sound [OF assms(4) assms(5) [unfolded verify_audit_chain_def]]
  have "length (events_from t 0 d) = length (events_from t 0 d')" using a b by auto
  moreover have "chain_head (events_from t 0 d) = chain_head (events_from t 0 d')"
    using a b by (simp add: chain_head_def split: if_splits)
  ultimately show ?thesis
    using linked_chains_equal [OF assms(1)] a b by blast
qed

text \<open>An environment whose serializer knows the details and the body of one event, and two databases with it.\<close>

definition sealed_table :: "(json \<times> bytes) list" where
  "sealed_table = [(read_of 0, line_of 0), (jobject (event_members event1), line_of 1)]"

definition sealed_env :: model_env where
  "sealed_env = example_env\<lparr>rfc8785_dump := table_dump sealed_table, json_scan := table_scan sealed_table\<rparr>"

definition sealed_db :: db where
  "sealed_db = empty_db\<lparr>control_audit_events := [event1]\<rparr>"

lemma sealed_sha [simp]: "sha256_bytes sealed_env = sha256_bytes example_env"
  by (simp add: sealed_env_def sha256_bytes_def fun_eq_iff)

lemma read_of_jobject: "read_of k = jobject [(''sequence'', JInt k)]"
  by (simp add: read_of_def jobject_def)

lemma jobject_eq: "jobject a = jobject b \<Longrightarrow> a = b"
proof (induction a arbitrary: b)
  case (Cons x a)
  then show ?case by (cases b; cases x) (auto simp: jobject_def)
qed (simp add: jobject_def)

lemma sealed_law: "jcs_text_law sealed_env L"
  by (rule table_law [of sealed_table])
    (simp_all add: sealed_env_def table_ok_def sealed_table_def line_of_def starts_with_def)

lemma sealed_event_apart: "\<not> same_json (read_of 0) (jobject (event_members event1))"
proof
  assume "same_json (read_of 0) (jobject (event_members event1))"
  from same_body_member [OF same_json_sym [OF this, unfolded read_of_jobject] event_members_plain,
      of "''action''" "jtext (action_name (ev_action event1))"]
  show False by (simp add: event_members_def)
qed

lemma sealed_dump:
  "rfc8785_dump sealed_env (read_of 0) = ([line_of 0], None)"
  "rfc8785_dump sealed_env (jobject (event_members event1)) = ([line_of 1], None)"
  using sealed_event_apart
  by (simp_all add: sealed_env_def sealed_table_def table_dump_def) (simp add: same_json_def)+

lemma sealed_verifies:
  assumes "tenant_events ''acme'' d = [event1]"
  shows "verify_audit_chain sealed_env ''acme'' d = Inr (1, D 1)"
proof -
  have flat: "flat_members (event_members event1)"
    using length_timestamp [of 1000]
    by (simp add: flat_members_def event_members_def event1_def example_event_def alice_def I_JSON_MAX_INTEGER_def)
  have "canonical sealed_env (jobject (event_members event1)) = Inr (line_of 1)"
    using jobject_valid [OF flat roomy_limits(2)]
    by (simp add: canonical_def canonical_json_bytes_def sealed_dump) (simp add: DEFAULT_JSON_LIMITS_def)
  then have "validate_event sealed_env event1 = Inr event1"
    by (simp add: validate_event_def event_fields_ok_def event1_def example_event_def alice_def
        between_def INT64_MAX_def text_between_def field_error_def audit_event_bytes_def event_members_def)
  moreover have can: "canonical_json_bytes sealed_env DETAIL_LIMITS (read_of 0) = Inr (line_of 0)"
    using read_of_valid [of 0] by (simp add: canonical_json_bytes_def sealed_dump) (simp add: DETAIL_LIMITS_def)
  obtain w where "strict_json_loads sealed_env DETAIL_LIMITS (line_of 0) = Inr w"
    "canonical_json_bytes sealed_env DETAIL_LIMITS w = Inr (line_of 0)"
    using canonical_reads_back [OF sealed_law _ _ can] by (auto simp: read_of_jobject jobject_def)
  then have "verify_details sealed_env (line_of 0) = Inr ()" by (simp add: verify_details_def)
  ultimately have "event_sound sealed_env event1"
    by (simp add: event_sound_def) (simp add: event1_def example_event_def)
  then show ?thesis
    using verify_pages_ok [of "''acme''" d sealed_env 0] example_linked(1) assms
    by (simp add: verify_audit_chain_def head_at_def chain_head_def)
qed

theorem audit_chain_tamper_evident_witness:
  "jcs_text_law sealed_env DEFAULT_JSON_LIMITS \<and> sealed_db \<noteq> sealed_db\<lparr>control_revisions := [draft0]\<rparr>
   \<and> (collision_between sealed_env (events_from ''acme'' 0 sealed_db)
        (events_from ''acme'' 0 (sealed_db\<lparr>control_revisions := [draft0]\<rparr>))
    \<or> map ev_event_bytes (events_from ''acme'' 0 sealed_db)
        = map ev_event_bytes (events_from ''acme'' 0 (sealed_db\<lparr>control_revisions := [draft0]\<rparr>))
      \<and> map ev_details_bytes (events_from ''acme'' 0 sealed_db)
        = map ev_details_bytes (events_from ''acme'' 0 (sealed_db\<lparr>control_revisions := [draft0]\<rparr>)))"
proof -
  let ?d = "sealed_db\<lparr>control_revisions := [draft0]\<rparr>"
  have "tenant_events ''acme'' sealed_db = [event1]" "tenant_events ''acme'' ?d = [event1]"
    by (simp_all add: tenant_events_def where_rows_def sealed_db_def empty_db_def)
  note ver = this [THEN sealed_verifies]
  have "distinct (map event_key (control_audit_events sealed_db))"
    "distinct (map event_key (control_audit_events ?d))"
    by (simp_all add: sealed_db_def empty_db_def)
  from audit_chain_tamper_evident [OF sealed_law this(1) ver(1) this(2) ver(2)]
  show ?thesis
    using sealed_law by (simp add: sealed_db_def empty_db_def)
qed

end
