(* ===== verification/Store_Safety.thy ===== *)
theory Store_Safety
  imports Store_Props
begin

text \<open>
  Safety of the store's state over every sequence of calls: refinement of the abstract steps,
  separation of duties, lineage, the desired-selection pointer, the order of operations, fenced
  leases, history, tenant isolation and atomicity.
\<close>

section \<open>Refinement\<close>

lemma fold_exec_reachable:
  "lawful_env E \<Longrightarrow> list_all (call_ok E) cs \<Longrightarrow> reachable E d \<Longrightarrow> reachable E (fold (exec E) cs d)"
proof (induction cs arbitrary: d)
  case (Cons c cs)
  then have "reachable E (exec E c d)"
    using exec_outcome [of E c d] reachable_inv reachable.step by fastforce
  with Cons show ?case by simp
qed simp

text \<open>
  C4. The methods refine the abstract step relation: every database that a sequence of calls
  leaves is reachable from the empty database by abstract steps.
\<close>

theorem calls_refine_steps:
  assumes "lawful_env E" "list_all (call_ok E) cs"
  shows "reachable E (after_calls E cs)"
  unfolding after_calls_def by (rule fold_exec_reachable [OF assms reachable.initial])

theorem calls_refine_steps_witness: "reachable example_env db6"
  using calls_refine_steps [OF example_lawful example_calls_ok] by (simp add: example_history)

section \<open>Separation of duties\<close>

lemma approved_decision:
  assumes "store_inv E d" "r \<in> set (control_revisions d)" "rev_state r \<in> {Approved, Retired}"
  shows "\<exists>x \<in> set (approval_decisions d). decision_matches x r \<and> dec_decision x = DecApproved"
proof -
  have inv: "decisions_ok E d" "keys_ok d" using assms(1) by (auto simp: store_inv_def)
  have "\<not> in_flight (rev_state r)" using assms(3) by (auto simp: in_flight_def)
  then obtain x where x: "x \<in> set (approval_decisions d)" "dec_revision_id x = rev_revision_id r"
    using inv(1) assms(2) unfolding decisions_ok_def by blast
  obtain q where q: "q \<in> set (control_revisions d)" "decision_matches x q"
    using inv(1) x(1) unfolding decisions_ok_def by blast
  have "q = r"
    using revision_unique [OF inv(2) q(1) assms(2)] q(2) x(2) by (simp add: decision_matches_def)
  with q x show ?thesis
    using assms(3) by (intro bexI [of _ x]) (auto simp: decision_matches_def split: decision_kind.splits)
qed

text \<open>
  C21. Separation of duties: every deployment operation in the database was requested by somebody
  other than the author of the revision it deploys, for the exact configuration digest of that
  revision, and that revision carries an approval.
\<close>

theorem operation_separation_of_duties:
  assumes "lawful_env E" "list_all (call_ok E) cs" "p \<in> set (deployment_operations (after_calls E cs))"
  shows "\<exists>r \<in> set (control_revisions (after_calls E cs)). rev_revision_id r = op_revision_id p
    \<and> rev_tenant_id r = op_tenant_id p \<and> rev_control_id r = op_control_id p
    \<and> rev_configuration_digest r = op_configuration_digest p
    \<and> rev_created_by r \<noteq> op_requested_by p
    \<and> (\<exists>x \<in> set (approval_decisions (after_calls E cs)).
         dec_revision_id x = rev_revision_id r \<and> dec_tenant_id x = rev_tenant_id r
         \<and> dec_decision x = DecApproved)"
proof -
  have inv: "store_inv E (after_calls E cs)" by (rule after_calls_inv [OF assms(1,2)])
  then obtain r where r: "r \<in> set (control_revisions (after_calls E cs))" "deploys p r"
    using operations_ok_D(2) [OF _ assms(3), of E] by (auto simp: store_inv_def)
  obtain x where "x \<in> set (approval_decisions (after_calls E cs))" "decision_matches x r"
      "dec_decision x = DecApproved"
    using approved_decision [OF inv r(1)] r(2) by (auto simp: deploys_def)
  then show ?thesis
    using r by (intro bexI [of _ r] conjI bexI [of _ x]) (auto simp: deploys_def decision_matches_def)
qed

theorem operation_separation_of_duties_witness:
  "\<exists>r \<in> set (control_revisions (after_calls example_env (take 4 example_calls))).
    rev_revision_id r = op_revision_id pending0
    \<and> rev_tenant_id r = op_tenant_id pending0 \<and> rev_control_id r = op_control_id pending0
    \<and> rev_configuration_digest r = op_configuration_digest pending0
    \<and> rev_created_by r \<noteq> op_requested_by pending0
    \<and> (\<exists>x \<in> set (approval_decisions (after_calls example_env (take 4 example_calls))).
         dec_revision_id x = rev_revision_id r \<and> dec_tenant_id x = rev_tenant_id r
         \<and> dec_decision x = DecApproved)"
proof -
  have "list_all (call_ok example_env) (take 4 example_calls)"
    using example_calls_ok by (auto simp: list_all_iff dest: in_set_takeD)
  moreover have "pending0 \<in> set (deployment_operations (after_calls example_env (take 4 example_calls)))"
    by (simp add: example_history db4_def)
  ultimately show ?thesis by (rule operation_separation_of_duties [OF example_lawful])
qed

section \<open>Contiguous numbering\<close>

lemma contiguous_ints:
  assumes "finite S" "\<And>n. n \<in> S \<Longrightarrow> 1 \<le> n" "\<And>n. n \<in> S \<Longrightarrow> n = 1 \<or> n - 1 \<in> S"
  shows "S = {1..int (card S)}"
proof (cases "S = {}")
  case False
  define m where "m = Max S"
  have m: "m \<in> S" "\<And>n. n \<in> S \<Longrightarrow> n \<le> m" using assms(1) False by (auto simp: m_def)
  have down: "int k < m \<Longrightarrow> m - int k \<in> S" for k
  proof (induction k)
    case 0
    then show ?case using m(1) by simp
  next
    case (Suc k)
    then have "m - int k \<in> S" "m - int k \<noteq> 1" by auto
    then have "m - int k - 1 \<in> S" using assms(3) by blast
    then show ?case by (simp add: algebra_simps)
  qed
  have "n \<in> S" if "1 \<le> n" "n \<le> m" for n
    using down [of "nat (m - n)"] that by simp
  then have "{1..m} \<subseteq> S" by auto
  moreover have "S \<subseteq> {1..m}" using m(2) assms(2) by (meson atLeastAtMost_iff subsetI)
  ultimately have "S = {1..m}" by blast
  moreover have "1 \<le> m" by (rule assms(2) [OF m(1)])
  ultimately show ?thesis by simp
qed simp

text \<open>
  C22. The operations of a control are numbered 1, 2, ..., n without gaps, at most one of them is
  unresolved, and an unresolved operation is the last.
\<close>

theorem operations_totally_ordered:
  assumes "lawful_env E" "list_all (call_ok E) cs" "d = after_calls E cs"
    and "ps = {p \<in> set (deployment_operations d). same_control t c p}"
  shows "op_sequence ` ps = {1..int (card ps)} \<and> inj_on op_sequence ps
    \<and> (\<forall>p \<in> ps. unresolved p \<longrightarrow> op_sequence p = int (card ps))"
proof -
  have inv: "keys_ok d" "operations_ok E d"
    using after_calls_inv [OF assms(1,2)] assms(3) by (auto simp: store_inv_def)
  have inj: "inj_on op_sequence ps"
    using keys_ok_D(6) [OF inv(1)] assms(4)
    by (auto simp: distinct_map inj_on_def operation_key_def same_control_def)
  have "op_sequence ` ps = {1..int (card (op_sequence ` ps))}"
  proof (rule contiguous_ints)
    show "finite (op_sequence ` ps)" using assms(4) by simp
  next
    fix n assume "n \<in> op_sequence ` ps"
    then obtain p where p: "p \<in> ps" "n = op_sequence p" by blast
    then have p': "p \<in> set (deployment_operations d)" using assms(4) by simp
    show "1 \<le> n"
      using operations_ok_D(1) [OF inv(2) p'] p(2)
      by (auto simp: validate_operation_def operation_fields_ok_def between_def split: if_splits)
    show "n = 1 \<or> n - 1 \<in> op_sequence ` ps"
      using operations_ok_D(3) [OF inv(2) p'] p assms(4)
      by (auto simp: follows_def same_control_def image_iff)
  qed
  then have eq: "op_sequence ` ps = {1..int (card ps)}" using card_image [OF inj] by simp
  have "op_sequence p = int (card ps)" if "p \<in> ps" "unresolved p" for p
  proof (rule ccontr)
    assume "op_sequence p \<noteq> int (card ps)"
    moreover have "op_sequence p \<in> {1..int (card ps)}" using that(1) eq by blast
    ultimately have "op_sequence p + 1 \<in> op_sequence ` ps" using eq by auto
    then obtain q where q: "q \<in> ps" "op_sequence q = op_sequence p + 1" by force
    then have "earlier q p" using that(1) assms(4) by (auto simp: earlier_def same_control_def)
    then show False
      using operations_ok_D(4) [OF inv(2), of q p] q(1) that assms(4) by auto
  qed
  then show ?thesis using eq inj by blast
qed

theorem operations_totally_ordered_witness:
  "op_sequence ` {p \<in> set (deployment_operations (after_calls example_env example_calls)).
     same_control ''acme'' ''edr'' p} = {1..1}"
proof -
  have ps: "{p \<in> set (deployment_operations (after_calls example_env example_calls)). same_control ''acme'' ''edr'' p}
      = {applied_row 1410 (D 0) (D 0) leased0}"
    by (auto simp: example_history db6_def same_control_def applied_row_def release_lease_def)
  show ?thesis
    using operations_totally_ordered [OF example_lawful example_calls_ok refl refl, of "''acme''" "''edr''"]
    unfolding ps by simp
qed

text \<open>
  C23. Every operation names as its predecessor exactly the operation of the same control that was
  applied last before it, and none when there was none: the predecessors form the applied history.
\<close>

theorem predecessor_is_last_applied:
  assumes "lawful_env E" "list_all (call_ok E) cs" "p \<in> set (deployment_operations (after_calls E cs))"
  shows "latest_applied_before (set (deployment_operations (after_calls E cs))) p (op_predecessor p)"
  using operations_ok_D(5) [OF _ assms(3), of E] after_calls_inv [OF assms(1,2)]
  by (simp add: store_inv_def)

theorem predecessor_is_last_applied_witness:
  "latest_applied_before (set (deployment_operations (after_calls example_env (take 5 example_calls))))
     leased0 (op_predecessor leased0)"
proof -
  have "list_all (call_ok example_env) (take 5 example_calls)"
    using example_calls_ok by (auto simp: list_all_iff dest: in_set_takeD)
  then show ?thesis
    by (rule predecessor_is_last_applied [OF example_lawful]) (simp add: example_history db5_def)
qed

text \<open>
  C24. The revisions of a control are numbered 1, 2, ..., n without gaps, each names the previous
  generation as its parent, and only the last can still be a draft or submitted.
\<close>

theorem revision_lineage:
  assumes "lawful_env E" "list_all (call_ok E) cs" "d = after_calls E cs"
    and "rs = {r \<in> set (control_revisions d). rev_tenant_id r = t \<and> rev_control_id r = c}"
  shows "rev_generation ` rs = {1..int (card rs)} \<and> inj_on rev_generation rs
    \<and> (\<forall>r \<in> rs. in_flight (rev_state r) \<longrightarrow> rev_generation r = int (card rs))
    \<and> (\<forall>r \<in> rs. \<forall>q \<in> rs. rev_generation r = rev_generation q + 1 \<longrightarrow>
         rev_parent_revision_id r = Some (rev_revision_id q))"
proof -
  have inv: "keys_ok d" "revisions_ok E d"
    using after_calls_inv [OF assms(1,2)] assms(3) by (auto simp: store_inv_def)
  have inj: "inj_on rev_generation rs"
    using keys_ok_D(2) [OF inv(1)] assms(4) by (auto simp: distinct_map inj_on_def revision_key_def)
  have row: "1 \<le> rev_generation r" "has_parent (set (control_revisions d)) r" if "r \<in> rs" for r
    using inv(2) that assms(4)
    by (auto simp: revisions_ok_def validate_revision_iff revision_fields_ok_def between_def)
  have parent: "rev_generation r = 1 \<or> (\<exists>q \<in> rs. rev_generation q = rev_generation r - 1
      \<and> rev_parent_revision_id r = Some (rev_revision_id q) \<and> \<not> in_flight (rev_state q))" if "r \<in> rs" for r
    using row(2) [OF that] that assms(4) by (auto simp: has_parent_def same_lineage_def)
  have "rev_generation ` rs = {1..int (card (rev_generation ` rs))}"
    by (rule contiguous_ints) (use assms(4) row(1) parent in \<open>force+\<close>)
  then have eq: "rev_generation ` rs = {1..int (card rs)}" using card_image [OF inj] by simp
  have link: "rev_parent_revision_id r = Some (rev_revision_id q) \<and> \<not> in_flight (rev_state q)"
    if rq: "r \<in> rs" "q \<in> rs" "rev_generation r = rev_generation q + 1" for r q
  proof -
    obtain q' where "q' \<in> rs" "rev_generation q' = rev_generation q"
      "rev_parent_revision_id r = Some (rev_revision_id q')" "\<not> in_flight (rev_state q')"
      using parent [OF rq(1)] row(1) [OF rq(2)] rq(3) by auto
    then show ?thesis using inj rq(2) by (metis inj_onD)
  qed
  have "rev_generation r = int (card rs)" if "r \<in> rs" "in_flight (rev_state r)" for r
  proof (rule ccontr)
    assume "rev_generation r \<noteq> int (card rs)"
    moreover have "rev_generation r \<in> {1..int (card rs)}" using that(1) eq by blast
    ultimately have "rev_generation r + 1 \<in> rev_generation ` rs" using eq by auto
    then obtain q where "q \<in> rs" "rev_generation q = rev_generation r + 1" by force
    then show False using link that by blast
  qed
  then show ?thesis using eq inj link by blast
qed

theorem revision_lineage_witness:
  "rev_generation ` {r \<in> set (control_revisions (after_calls example_env example_calls)).
     rev_tenant_id r = ''acme'' \<and> rev_control_id r = ''edr''} = {1..1}"
proof -
  have rs: "{r \<in> set (control_revisions (after_calls example_env example_calls)).
      rev_tenant_id r = ''acme'' \<and> rev_control_id r = ''edr''} = {approved0}"
    by (auto simp: example_history db_defs)
  show ?thesis
    using revision_lineage [OF example_lawful example_calls_ok refl refl, of "''acme''" "''edr''"]
    unfolding rs by simp
qed

section \<open>The desired-selection pointer\<close>

lemma get_active_deployment_inv:
  assumes inv: "store_inv E d"
  shows "get_active_deployment t c d = (case pointer_of d t c of
      None \<Rightarrow> Inl (ControlPlaneNotFound ''active deployment was not found'') | Some x \<Rightarrow> Inr x)"
proof -
  let ?ptrs = "where_rows (\<lambda>x. dep_tenant_id x = t \<and> dep_control_id x = c) (active_deployments d)"
  let ?join = "\<lambda>x. map (Pair x) (where_rows (\<lambda>r. rev_revision_id r = dep_revision_id x) (control_revisions d))"
  show ?thesis
  proof (cases ?ptrs)
    case Nil
    then show ?thesis by (simp add: get_active_deployment_def pointer_of_def)
  next
    case (Cons x xs)
    then have x: "x \<in> set (active_deployments d)" "pointer_of d t c = Some x"
      by (auto simp: pointer_of_def where_rows_def dest: filter_eq_ConsD)
    obtain q where q: "q \<in> set (control_revisions d)" "rev_revision_id q = dep_revision_id x"
      using inv x(1) by (auto simp: store_inv_def pointers_ok_def)
    obtain r rs where rows: "where_rows (\<lambda>r. rev_revision_id r = dep_revision_id x) (control_revisions d) = r # rs"
      using q by (cases "where_rows (\<lambda>r. rev_revision_id r = dep_revision_id x) (control_revisions d)")
        (auto simp: where_rows_Nil)
    then have "r \<in> set (where_rows (\<lambda>r. rev_revision_id r = dep_revision_id x) (control_revisions d))" by simp
    then have "pointer_matches x (Some r)"
      using pointed_approved [OF inv x(1)] by (simp add: set_where_rows)
    moreover have "load_deployment x = Inr x"
      using inv x(1) by (auto simp: store_inv_def pointers_ok_def load_deployment_def)
    ultimately show ?thesis using Cons rows x(2) by (simp add: get_active_deployment_def)
  qed
qed

text \<open>
  C31. Reading the active deployment never reports an integrity error: after any calls it returns
  the control's pointer when there is one and "not found" otherwise, and a pointer it returns
  names an approved revision of that tenant and control with the same configuration digest.
\<close>

theorem active_deployment_consistent:
  assumes "lawful_env E" "list_all (call_ok E) cs" "d = after_calls E cs"
  shows "get_active_deployment t c d = (case pointer_of d t c of
      None \<Rightarrow> Inl (ControlPlaneNotFound ''active deployment was not found'') | Some x \<Rightarrow> Inr x)
    \<and> (\<forall>x. get_active_deployment t c d = Inr x \<longrightarrow> dep_tenant_id x = t \<and> dep_control_id x = c
        \<and> (\<exists>r \<in> set (control_revisions d). rev_revision_id r = dep_revision_id x
             \<and> rev_tenant_id r = t \<and> rev_control_id r = c \<and> rev_state r = Approved
             \<and> rev_configuration_digest r = dep_configuration_digest x))"
proof -
  have inv: "store_inv E d" using after_calls_inv [OF assms(1,2)] assms(3) by simp
  note get = get_active_deployment_inv [OF inv, of t c]
  moreover have "dep_tenant_id x = t \<and> dep_control_id x = c
        \<and> (\<exists>r \<in> set (control_revisions d). rev_revision_id r = dep_revision_id x
             \<and> rev_tenant_id r = t \<and> rev_control_id r = c \<and> rev_state r = Approved
             \<and> rev_configuration_digest r = dep_configuration_digest x)"
    if "get_active_deployment t c d = Inr x" for x
  proof -
    have "pointer_of d t c = Some x" using get that by (simp split: option.splits)
    note x = pointer_of_Some [OF this]
    then show ?thesis
      using inv by (force simp: store_inv_def pointers_ok_def pointer_matches_def)
  qed
  ultimately show ?thesis by blast
qed

theorem active_deployment_consistent_witness:
  "get_active_deployment ''acme'' ''edr'' (after_calls example_env example_calls) = Inr pointer0"
proof -
  have "pointer_of db6 ''acme'' ''edr'' = Some pointer0"
    by (simp add: pointer_of_def where_rows_def db_defs pointer0_def new_pointer_def carol_def alice_def)
  then show ?thesis
    using active_deployment_consistent [OF example_lawful example_calls_ok refl, of "''acme''" "''edr''"]
    by (simp add: example_history)
qed

section \<open>History, isolation and atomicity\<close>

text \<open>
  C25. History is append-only and forward-moving: between any two points of a run every revision
  keeps its content and only moves to a later lifecycle state, approval decisions and audit events
  are only appended, an operation that was applied or failed for good never changes again, and an
  open operation keeps its request while its fence and version only grow.
\<close>

theorem history_is_append_only:
  assumes "lawful_env E" "list_all (call_ok E) (cs @ cs')"
  shows "evolves (after_calls E cs) (after_calls E (cs @ cs'))"
  unfolding after_calls_append
  using assms fold_exec_evolves [OF assms(1), of cs'] after_calls_inv [OF assms(1), of cs] by simp

theorem history_is_append_only_witness: "evolves db4 db6"
proof -
  have "example_calls = take 4 example_calls @ drop 4 example_calls" by simp
  then have "evolves (after_calls example_env (take 4 example_calls)) (after_calls example_env example_calls)"
    using history_is_append_only [OF example_lawful, of "take 4 example_calls" "drop 4 example_calls"]
      example_calls_ok by simp
  then show ?thesis by (simp add: example_history)
qed

text \<open>
  C26. Tenant isolation: a call changes nothing in the rows of another tenant, in any table.
\<close>

theorem tenant_isolation:
  assumes "lawful_env E" "list_all (call_ok E) (cs @ [c])" "u \<noteq> caller_tenant c"
  shows "tenant_view u (after_calls E (cs @ [c])) = tenant_view u (after_calls E cs)"
  unfolding after_calls_append
  using assms exec_view [OF assms(1), of c "after_calls E cs" u] after_calls_inv [OF assms(1), of cs]
  by simp

theorem tenant_isolation_witness:
  "tenant_view ''other'' (after_calls example_env (take 4 example_calls @ [Lease walter (D 0) (instant 1400) 60]))
     = tenant_view ''other'' (after_calls example_env (take 4 example_calls))"
proof (rule tenant_isolation [OF example_lawful])
  show "list_all (call_ok example_env) (take 4 example_calls @ [Lease walter (D 0) (instant 1400) 60])"
    using example_calls_ok by (auto simp: list_all_iff dest: in_set_takeD)
qed (simp add: walter_def)

text \<open>Whether a call ended in an exception.\<close>

fun call_raises :: "'e model_env_scheme \<Rightarrow> call \<Rightarrow> db \<Rightarrow> bool" where
  "call_raises E (CreateDraft a c parent t) d = isl (fst (create_draft E a c parent t d))"
| "call_raises E (Submit a i n t) d = isl (fst (submit E a i n t d))"
| "call_raises E (Decide a i n k m t) d = isl (fst (decide E a i n k m t d))"
| "call_raises E (Activate a i n t) d = isl (fst (activate_with_operation E a i n t d))"
| "call_raises E (RequestRollback a i p t) d = isl (fst (request_rollback E a i p t d))"
| "call_raises E (RequestRetry a i t) d = isl (fst (request_deployment_retry E a i t d))"
| "call_raises E (Lease w tok t ttl) d = isl (fst (lease_next_deployment_operation E w tok t ttl d))"
| "call_raises E (Acknowledge w i tok f g r t) d = isl (fst (acknowledge_deployment_applied E w i tok f g r t d))"
| "call_raises E (Fail w i tok f h t r) d = isl (fst (fail_deployment_operation E w i tok f h t r d))"

lemma atomic_of:
  assumes "store_method E pre t run" pre "store_inv E d" "isl (fst (run d))"
  shows "snd (run d) = d"
  using store_method.atomic [OF assms(1-3)] assms(4) by (cases "run d") (auto simp: isl_def)

text \<open>
  C27. Atomicity: a call that raises, on any path and including the reads after its commit, leaves
  the database exactly as it was.
\<close>

theorem failed_call_changes_nothing:
  assumes "lawful_env E" "list_all (call_ok E) (cs @ [c])" "call_raises E c (after_calls E cs)"
  shows "after_calls E (cs @ [c]) = after_calls E cs"
proof -
  have inv: "store_inv E (after_calls E cs)" using after_calls_inv [OF assms(1)] assms(2) by simp
  have "exec E c (after_calls E cs) = after_calls E cs"
  proof (cases c)
    case (CreateDraft a cfg parent t)
    then have "draft_call E a cfg" using assms(1,2) by (auto simp: draft_call_def)
    then show ?thesis
      using CreateDraft assms(3) atomic_of [OF create_draft.store_method_axioms _ inv] by simp
  qed (use assms(3) atomic_of [OF submit.store_method_axioms _ inv]
      atomic_of [OF decide.store_method_axioms _ inv]
      atomic_of [OF activate_with_operation.store_method_axioms _ inv]
      atomic_of [OF request_rollback.store_method_axioms _ inv]
      atomic_of [OF request_deployment_retry.store_method_axioms _ inv]
      atomic_of [OF lease_next_deployment_operation.store_method_axioms _ inv]
      atomic_of [OF acknowledge_deployment_applied.store_method_axioms _ inv]
      atomic_of [OF fail_deployment_operation.store_method_axioms _ inv] in simp_all)
  then show ?thesis by (simp add: after_calls_append)
qed

theorem failed_call_changes_nothing_witness:
  "call_raises example_env (Submit alice (D 0) 0 (instant 1500)) (after_calls example_env example_calls)
   \<and> after_calls example_env (example_calls @ [Submit alice (D 0) 0 (instant 1500)])
     = after_calls example_env example_calls"
proof -
  have "tenant_revision ''acme'' (D 0) db6 = Some approved0"
    by (simp add: tenant_revision_def where_rows_def db_defs)
  moreover have "load_revision example_env approved0 = Inr approved0"
    by (rule revision_row_valid [OF inv6]) (simp add: db_defs)
  ultimately have raises: "call_raises example_env (Submit alice (D 0) 0 (instant 1500)) (after_calls example_env example_calls)"
    by (simp add: example_history submit_def transition_def transition_body_def transaction_def alice_def)
  moreover have "list_all (call_ok example_env) (example_calls @ [Submit alice (D 0) 0 (instant 1500)])"
    using example_calls_ok by simp
  ultimately show ?thesis using failed_call_changes_nothing [OF example_lawful] by blast
qed

text \<open>
  C28. Every committed change is attributed: a call that changes the database appends exactly one
  audit event, in the caller's tenant, linked to the previous event of that tenant.
\<close>

theorem every_change_is_audited:
  assumes "lawful_env E" "list_all (call_ok E) (cs @ [c])"
    and "after_calls E (cs @ [c]) \<noteq> after_calls E cs"
  shows "\<exists>v. control_audit_events (after_calls E (cs @ [c])) = control_audit_events (after_calls E cs) @ [v]
    \<and> ev_tenant_id v = caller_tenant c
    \<and> ev_sequence v = int (length (tenant_events (caller_tenant c) (after_calls E cs))) + 1
    \<and> ev_previous_event_digest v = chain_head (tenant_events (caller_tenant c) (after_calls E cs))"
proof -
  let ?d = "after_calls E cs" and ?t = "caller_tenant c"
  have inv: "store_inv E ?d" using after_calls_inv [OF assms(1)] assms(2) by simp
  then have "store_step E ?t ?d (after_calls E (cs @ [c]))"
    using exec_outcome [OF assms(1) _ inv, of c] assms(2,3) by (simp add: after_calls_append)
  then obtain v where v: "next_event E ?t ?d v"
    "control_audit_events (after_calls E (cs @ [c])) = control_audit_events ?d @ [v]"
    by (cases rule: store_step.cases) (auto dest: new_request_D)
  have lnk: "linked 0 GENESIS_DIGEST (tenant_events ?t ?d)"
    using inv by (simp add: store_inv_def chain_ok_def)
  have "tenant_events ?t ?d \<noteq> [] \<Longrightarrow> ev_sequence (last (tenant_events ?t ?d)) = int (length (tenant_events ?t ?d))"
    using linked_nth [OF lnk, of "length (tenant_events ?t ?d) - 1"]
    by (cases "tenant_events ?t ?d" rule: rev_cases) auto
  then show ?thesis
    using v last_event_linked [OF lnk]
    by (intro exI [of _ v]) (auto simp: next_event_def chain_head_def split: if_splits)
qed

theorem every_change_is_audited_witness:
  "\<exists>v. control_audit_events db5 = control_audit_events db4 @ [v] \<and> ev_tenant_id v = ''acme''
    \<and> ev_sequence v = 5"
proof -
  let ?c = "Lease walter (D 0) (instant 1400) 60"
  have d: "after_calls example_env (take 4 example_calls @ [?c]) = db5"
    using call5 by (simp only: after_calls_append example_history) simp
  have "list_all (call_ok example_env) (take 4 example_calls @ [?c])"
    using example_calls_ok by (auto simp: list_all_iff dest: in_set_takeD)
  moreover have "db5 \<noteq> db4" by (simp add: db_defs)
  ultimately show ?thesis
    using every_change_is_audited [OF example_lawful, of "take 4 example_calls" ?c]
    unfolding d example_history
    by (simp add: walter_def) (simp add: tenant_events_def where_rows_def db_defs)
qed

section \<open>Leases and fencing\<close>

text \<open>
  C5. Fencing: an acknowledgement is accepted only from the worker that holds the lease, under its
  exact token and current fence, before the lease expires and for the operation's own
  configuration digest; it then makes the operation applied and changes nothing else of it. Any
  other report is an error and leaves the database unchanged.
\<close>

theorem acknowledgement_is_fenced:
  assumes "lawful_env E" "list_all (call_ok E) cs" "d = after_calls E cs"
    and "acknowledge_deployment_applied E w i tok fence digest receipt at d = (res, d')"
  shows "(isl res \<and> d' = d) \<or> (\<exists>t. \<exists>p \<in> set (deployment_operations d).
      utc_second ''deployment application time'' at = Inr t \<and> op_operation_id p = i
      \<and> op_tenant_id p = worker_tenant_id w \<and> op_state p = Leased
      \<and> op_lease_owner p = Some (worker_id w) \<and> op_lease_token p = Some tok
      \<and> op_lease_fence p = fence \<and> t < the (op_lease_expires_at p)
      \<and> op_configuration_digest p = digest \<and> res = Inr (applied_row t digest receipt p)
      \<and> deployment_operations d' = modify_row op_operation_id i
          (\<lambda>_. applied_row t digest receipt p) (deployment_operations d)
      \<and> control_revisions d' = control_revisions d \<and> active_deployments d' = active_deployments d)"
proof -
  have inv: "store_inv E d" using after_calls_inv [OF assms(1,2)] assms(3) by simp
  show ?thesis
  proof (cases res)
    case (Inl e)
    then show ?thesis using acknowledge_outcome [OF inv assms(4)] by simp
  next
    case (Inr p')
    then obtain t where t: "utc_second ''deployment application time'' at = Inr t"
      "accepted E w i tok fence t (applied_row t digest receipt) p' d d'" "op_configuration_digest p' = digest"
      using acknowledge_outcome [OF inv assms(4)] by auto
    from t(2) obtain p v where p: "p \<in> set (deployment_operations d)" "op_operation_id p = i"
      "op_tenant_id p = worker_tenant_id w" "holds_lease w tok fence t p" "p' = applied_row t digest receipt p"
      "d' = logged v (move_operation p p' d)"
      unfolding accepted_def by blast
    have "op_configuration_digest p = digest"
      using t(3) p(5) closed_rows(1) [of p t digest receipt] by (simp add: same_request_def)
    then show ?thesis
      using t(1) p Inr
      by (intro disjI2 exI [of _ t] bexI [of _ p]) (auto simp: holds_lease_def move_operation_def)
  qed
qed

theorem acknowledgement_is_fenced_witness:
  "fst (acknowledge_deployment_applied example_env walter (D 0) (D 0) 1 (D 0) (D 0) (instant 1410) db5)
     = Inr (applied_row 1410 (D 0) (D 0) leased0)
   \<and> control_revisions db6 = control_revisions db5"
proof -
  have ok: "list_all (call_ok example_env) (take 5 example_calls)"
    using example_calls_ok by (auto simp: list_all_iff dest: in_set_takeD)
  from acknowledgement_is_fenced [OF example_lawful ok example_history(2) [symmetric] call6]
  show ?thesis using call6 by auto
qed

text \<open>
  C29. A lease request takes, among the operations of the worker's tenant that are eligible at that
  instant, the first by request time, control and sequence; the operation is then leased to that
  worker until the given time with a fence one above its previous attempt count. It returns
  nothing exactly when no operation is eligible, and then changes nothing.
\<close>

theorem lease_takes_first_eligible:
  assumes "lawful_env E" "list_all (call_ok E) cs" "d = after_calls E cs"
    and "lease_next_deployment_operation E w tok at ttl d = (Inr res, d')"
  shows "\<exists>t. utc_second ''deployment lease time'' at = Inr t \<and> 15 \<le> ttl \<and> ttl \<le> 3600 \<and>
    (case res of
      None \<Rightarrow> d' = d \<and> (\<forall>p \<in> set (deployment_operations d).
          op_tenant_id p = worker_tenant_id w \<longrightarrow> \<not> eligible t p)
    | Some p' \<Rightarrow> \<exists>p \<in> set (deployment_operations d).
        op_tenant_id p = worker_tenant_id w \<and> eligible t p
        \<and> (\<forall>q \<in> set (deployment_operations d). op_tenant_id q = worker_tenant_id w \<longrightarrow> eligible t q
             \<longrightarrow> poll_order p \<le> poll_order q)
        \<and> p' = lease_update w tok t ttl (op_attempt_count p + 1) p
        \<and> op_lease_fence p < op_lease_fence p'
        \<and> deployment_operations d' = modify_row op_operation_id (op_operation_id p) (\<lambda>_. p')
            (deployment_operations d))"
proof -
  have inv: "store_inv E d" using after_calls_inv [OF assms(1,2)] assms(3) by simp
  from lease_outcome [OF assms(4)] obtain t where t: "utc_second ''deployment lease time'' at = Inr t"
    "15 \<le> ttl" "ttl \<le> 3600" "lease_body E w tok t ttl d = Inr (res, d')" by auto
  note step = lease_step [OF inv t(4)]
  show ?thesis
  proof (cases res)
    case None
    then show ?thesis using step t by (intro exI [of _ t]) auto
  next
    case (Some p')
    with step obtain p v where p: "p \<in> set (deployment_operations d)" "op_tenant_id p = worker_tenant_id w"
      "eligible t p" "\<forall>q \<in> set (deployment_operations d). op_tenant_id q = worker_tenant_id w \<longrightarrow>
        eligible t q \<longrightarrow> poll_order p \<le> poll_order q"
      "p' = lease_update w tok t ttl (op_attempt_count p + 1) p" "op_move E p p'"
      "d' = logged v (move_operation p p' d)" by auto
    have "validate_operation E p = Inr p" using inv p(1) by (auto simp: store_inv_def operations_ok_def)
    then have "op_lease_fence p = op_attempt_count p"
      by (auto simp: validate_operation_def operation_state_checks_def rbind_eq_Inr
          split: if_splits operation_state.splits)
    then have "op_lease_fence p < op_lease_fence p'" using p(5) lease_row(4) by simp
    then show ?thesis
      using Some t p by (intro exI [of _ t]) (auto simp: move_operation_def)
  qed
qed

theorem lease_takes_first_eligible_witness:
  "\<exists>p \<in> set (deployment_operations db4). eligible 1400 p
    \<and> (\<forall>q \<in> set (deployment_operations db4). op_tenant_id q = ''acme'' \<longrightarrow> eligible 1400 q
         \<longrightarrow> poll_order p \<le> poll_order q)
    \<and> op_lease_fence p < op_lease_fence leased0"
proof -
  have ok: "list_all (call_ok example_env) (take 4 example_calls)"
    using example_calls_ok by (auto simp: list_all_iff dest: in_set_takeD)
  from lease_takes_first_eligible [OF example_lawful ok example_history(3) [symmetric] call5]
  show ?thesis by (auto simp: walter_def)
qed

lemma accepted_fence:
  assumes "store_inv E d" "accepted E w (op_operation_id p) tok f t g p' d d'" "p \<in> set (deployment_operations d)"
  shows "op_lease_fence p = f"
proof -
  obtain q where q: "q \<in> set (deployment_operations d)" "op_operation_id q = op_operation_id p"
    "holds_lease w tok f t q"
    using assms(2) unfolding accepted_def by blast
  then have "q = p" using operation_unique [of d q p] assms(1,3) by (simp add: store_inv_def)
  then show ?thesis using q(3) by (simp add: holds_lease_def)
qed

text \<open>
  C6. A fence that was passed is dead for ever: once an operation's fence is above \<open>f\<close> (another
  lease was granted), every later report under \<open>f\<close>, success or failure, is refused, whatever calls
  happen in between.
\<close>

theorem stale_fence_never_accepted:
  assumes "lawful_env E" "list_all (call_ok E) (cs @ cs')"
    and "p \<in> set (deployment_operations (after_calls E cs))" "f < op_lease_fence p"
  shows "isl (fst (acknowledge_deployment_applied E w (op_operation_id p) tok f digest receipt at
      (after_calls E (cs @ cs'))))
    \<and> isl (fst (fail_deployment_operation E w (op_operation_id p) tok f failure at retry
      (after_calls E (cs @ cs'))))"
proof -
  let ?d = "after_calls E (cs @ cs')"
  have inv: "store_inv E ?d" by (rule after_calls_inv [OF assms(1,2)])
  have "evolves (after_calls E cs) ?d"
    unfolding after_calls_append
    using assms(1,2) fold_exec_evolves [OF assms(1), of cs'] after_calls_inv [OF assms(1), of cs] by simp
  then obtain p' where p': "p' \<in> set (deployment_operations ?d)" "op_evolves p p'"
    using assms(3) unfolding evolves_def operations_evolve_def by blast
  then have fence: "op_operation_id p' = op_operation_id p" "f < op_lease_fence p'"
    using assms(4) by (auto simp: op_evolves_def same_request_def)
  have no: "\<not> accepted E w (op_operation_id p) tok f t g q ?d d'" for t g q d'
    using accepted_fence [OF inv _ p'(1)] fence by fastforce
  obtain res1 d1 where 1: "acknowledge_deployment_applied E w (op_operation_id p) tok f digest receipt at ?d = (res1, d1)"
    by fastforce
  obtain res2 d2 where 2: "fail_deployment_operation E w (op_operation_id p) tok f failure at retry ?d = (res2, d2)"
    by fastforce
  have "isl res1" using acknowledge_outcome [OF inv 1] no by (cases res1) auto
  moreover have "isl res2" using fail_outcome [OF inv 2] no by (cases res2) auto
  ultimately show ?thesis using 1 2 by simp
qed

theorem stale_fence_never_accepted_witness:
  "isl (fst (acknowledge_deployment_applied example_env walter (D 0) (D 0) 0 (D 0) (D 0) (instant 1410)
      (after_calls example_env example_calls)))"
proof -
  have eq: "example_calls = take 5 example_calls @ drop 5 example_calls" by simp
  have "leased0 \<in> set (deployment_operations (after_calls example_env (take 5 example_calls)))"
    by (simp add: example_history db5_def)
  from stale_fence_never_accepted [OF example_lawful _ this, of "drop 5 example_calls" 0]
  show ?thesis using example_calls_ok eq by simp
qed

section \<open>Activation and rollback\<close>

lemma create_operation_state:
  "create_deployment_operation E actor r k at expected retry d = Inr (p, d') \<Longrightarrow> op_state p = Pending"
  by (auto simp: create_deployment_operation_def Let_def rbind_eq_Inr split: if_splits
      dest!: validate_operation_Inr)

text \<open>
  C30. Activation: a successful activation was given the version of the pointer it replaced (none
  for the first), its revision is approved and by somebody else than the activating actor, the
  new pointer names it with the next version, and one pending apply operation for it is opened.
\<close>

theorem activation_effect:
  assumes "lawful_env E" "list_all (call_ok E) cs" "d = after_calls E cs"
    and "activate_with_operation E actor i expected at d = (Inr (x, p), d')"
  shows "\<exists>r \<in> set (control_revisions d). rev_revision_id r = i \<and> rev_state r = Approved
    \<and> rev_tenant_id r = actor_tenant_id actor \<and> rev_created_by r \<noteq> actor_subject actor
    \<and> expected = map_option dep_deployment_version (pointer_of d (actor_tenant_id actor) (rev_control_id r))
    \<and> dep_revision_id x = i \<and> dep_configuration_digest x = rev_configuration_digest r
    \<and> dep_deployment_version x = (case expected of None \<Rightarrow> 1 | Some n \<Rightarrow> n + 1)
    \<and> pointer_of d' (actor_tenant_id actor) (rev_control_id r) = Some x
    \<and> op_state p = Pending \<and> op_kind p = Apply \<and> op_revision_id p = i
    \<and> op_requested_by p = actor_subject actor \<and> p \<in> set (deployment_operations d')"
proof -
  have inv: "store_inv E d" using after_calls_inv [OF assms(1,2)] assms(3) by simp
  obtain t where body: "activate_body E actor i expected t d = Inr ((x, p), d')"
    using activate_outcome [OF inv assms(4)] by auto
  have inv': "store_inv E d'" by (rule store_step_inv [OF activate_step(1) [OF inv body] inv])
  obtain r where r: "r \<in> set (control_revisions d)" "rev_tenant_id r = actor_tenant_id actor"
    "rev_revision_id r = i" "rev_state r = Approved" "x = new_pointer actor r t (dep_deployment_version x)"
    "dep_deployment_version x = (case expected of None \<Rightarrow> 1 | Some n \<Rightarrow> n + 1)"
    "expected = map_option dep_deployment_version (pointer_of d (actor_tenant_id actor) (rev_control_id r))"
    "op_kind p = Apply" "op_revision_id p = i" "op_requested_by p = actor_subject actor"
    "op_control_id p = rev_control_id r"
    "x \<in> set (active_deployments d')" "p \<in> set (deployment_operations d')"
    using activate_step(2) [OF inv body] by blast
  have xf: "dep_tenant_id x = actor_tenant_id actor" "dep_control_id x = rev_control_id r"
    "dep_revision_id x = i" "dep_configuration_digest x = rev_configuration_digest r"
    using r(3) by (subst r(5), simp add: new_pointer_def)+
  have "pointer_of d' (actor_tenant_id actor) (rev_control_id r) = Some x"
    unfolding pointer_of_def
  proof (rule fetchone_where_unique [OF r(12)])
    fix y assume "y \<in> set (active_deployments d')"
      "dep_tenant_id y = actor_tenant_id actor \<and> dep_control_id y = rev_control_id r"
    then show "y = x"
      using deployment_table.find_unique [OF keys_ok_D(4), of d' y x] inv' r(12) xf
      by (simp add: store_inv_def deployment_key_def)
  qed (use xf in simp)
  moreover obtain q where "q \<in> set (control_revisions d')" "deploys p q"
    using operations_ok_D(2) [OF _ r(13), of E] inv' by (auto simp: store_inv_def)
  moreover obtain r' where "r' \<in> set (control_revisions d')" "rev_evolves r r'"
    using store_step_evolves [OF activate_step(1) [OF inv body] inv] r(1)
    unfolding evolves_def revisions_evolve_def by blast
  ultimately have "rev_created_by r \<noteq> actor_subject actor"
    using revision_unique [of d' q r'] inv' r(3,9,10)
    by (auto simp: store_inv_def deploys_def rev_evolves_def same_content_def)
  moreover have "op_state p = Pending"
    using body by (auto simp: activate_body_def rbind_eq_Inr split_beta new_request_def
        split: option.splits if_splits dest!: create_operation_state)
  ultimately show ?thesis
    using r xf \<open>pointer_of d' (actor_tenant_id actor) (rev_control_id r) = Some x\<close>
    by (intro bexI [of _ r]) auto
qed

theorem activation_effect_witness:
  "\<exists>r \<in> set (control_revisions db3). rev_revision_id r = D 0 \<and> rev_state r = Approved
    \<and> rev_created_by r \<noteq> actor_subject carol \<and> dep_deployment_version pointer0 = 1
    \<and> pointer_of db4 (actor_tenant_id carol) (rev_control_id r) = Some pointer0
    \<and> op_state pending0 = Pending \<and> pending0 \<in> set (deployment_operations db4)"
proof -
  have ok: "list_all (call_ok example_env) (take 3 example_calls)"
    using example_calls_ok by (auto simp: list_all_iff dest: in_set_takeD)
  from activation_effect [OF example_lawful ok example_history(4) [symmetric] call4]
  show ?thesis by (elim bexE) (rule bexI, auto)
qed

end
