(* ===== verification/Service.thy ===== *)
theory Service
  imports Store_Safety
begin

text \<open>
  Authorization and maker-checker rules, from
  \<^verbatim>\<open>src/src/assurance_lab/control_plane/service.py\<close>. A method of \<open>ControlPlaneService\<close> reads
  the clock, authorizes the actor, in most cases reads the revision concerned, and calls one
  method of the store. Its checks are a function \<open>_guard\<close> that returns the instant they ran at;
  \<open>guarded\<close> runs the store call after them. The reads of the guard and the store call are separate
  transactions, so \<open>meanwhile\<close> stands for what other processes did to the database in between.
\<close>

section \<open>Clock and authorization\<close>

definition PRIVILEGED_SESSION_MAX_AGE :: int where
  "PRIVILEGED_SESSION_MAX_AGE = 3600"

definition FUTURE_CLOCK_TOLERANCE :: int where
  "FUTURE_CLOCK_TOLERANCE = 5 * 60"

definition service_time :: "datetime \<Rightarrow> int result" where
  "service_time value =
     (if \<not> dt_aware value
      then Inl (RuntimeError ''control-plane clock must return a timezone-aware datetime'')
      else if dt_micros value mod 1000000 \<noteq> 0
      then Inl (RuntimeError ''control-plane clock must return whole UTC seconds'')
      else Inr (dt_micros value div 1000000))"

fun role_name :: "role \<Rightarrow> string" where
  "role_name Viewer = ''viewer''"
| "role_name Editor = ''editor''"
| "role_name Approver = ''approver''"
| "role_name Deployer = ''deployer''"
| "role_name Auditor = ''auditor''"
| "role_name Administrator = ''administrator''"

definition authorize :: "actor \<Rightarrow> role \<Rightarrow> bool \<Rightarrow> int \<Rightarrow> unit result" where
  "authorize actor role privileged now =
     (if Administrator \<notin> set (actor_roles actor) \<and> role \<notin> set (actor_roles actor)
      then Inl (ControlPlaneAuthorizationError (role_name role @ '' role is required''))
      else
      let age = now - actor_authenticated_at actor in
      if age < - FUTURE_CLOCK_TOLERANCE
      then Inl (ControlPlaneAuthorizationError ''authentication time is in the future'')
      else if privileged \<and> (\<not> actor_mfa actor \<or> age < 0 \<or> age > PRIVILEGED_SESSION_MAX_AGE)
      then Inl (ControlPlaneAuthorizationError ''fresh MFA authentication is required for this action'')
      else Inr ())"

definition same_tenant :: "actor \<Rightarrow> string \<Rightarrow> unit result" where
  "same_tenant actor tenant_id =
     (if actor_tenant_id actor \<noteq> tenant_id
      then Inl (ControlPlaneAuthorizationError ''cross-tenant access is denied'') else Inr ())"

definition owns_control :: "actor \<Rightarrow> control_configuration \<Rightarrow> unit result" where
  "owns_control actor cfg =
     (if Administrator \<notin> set (actor_roles actor) \<and> cfg_owner_group cfg \<notin> set (actor_groups actor)
      then Inl (ControlPlaneAuthorizationError ''actor is not a member of the control owner group'')
      else Inr ())"

text \<open>The property \<open>ConfigurationRevision.configuration\<close> parses the stored bytes again.\<close>

definition revision_configuration :: "'e model_env_scheme \<Rightarrow> revision \<Rightarrow> control_configuration result" where
  "revision_configuration E r =
     (case model_validate_json E (rev_configuration_bytes r) of
        None \<Rightarrow> Inl (invalid ''configuration'') | Some c \<Rightarrow> Inr c)"

text \<open>\<open>now = self._time()\<close> and \<open>self._authorize(...)\<close>, the first two lines of every method.\<close>

definition enter :: "datetime \<Rightarrow> actor \<Rightarrow> role \<Rightarrow> bool \<Rightarrow> int result" where
  "enter now actor role privileged =
     rbind (service_time now) (\<lambda>t. rbind (authorize actor role privileged t) (\<lambda>_. Inr t))"

definition not_author :: "string \<Rightarrow> actor \<Rightarrow> revision \<Rightarrow> unit result" where
  "not_author message actor r =
     (if rev_created_by r = actor_subject actor
      then Inl (ControlPlaneAuthorizationError message) else Inr ())"

definition guarded ::
  "(db \<Rightarrow> int result) \<Rightarrow> (int \<Rightarrow> db \<Rightarrow> 'a result \<times> db) \<Rightarrow> (db \<Rightarrow> db) \<Rightarrow> db \<Rightarrow> 'a result \<times> db" where
  "guarded g call meanwhile d =
     (case g d of Inl e \<Rightarrow> (Inl e, d) | Inr t \<Rightarrow> call t (meanwhile d))"

section \<open>Methods that write\<close>

definition create_guard :: "datetime \<Rightarrow> actor \<Rightarrow> control_configuration \<Rightarrow> int result" where
  "create_guard now actor cfg =
     rbind (enter now actor Editor False) (\<lambda>t.
     rbind (same_tenant actor (cfg_tenant_id cfg)) (\<lambda>_.
     rbind (owns_control actor cfg) (\<lambda>_. Inr t)))"

definition create_revision ::
  "'e model_env_scheme \<Rightarrow> datetime \<Rightarrow> (db \<Rightarrow> db) \<Rightarrow> actor \<Rightarrow> control_configuration \<Rightarrow> string option \<Rightarrow> db
     \<Rightarrow> revision result \<times> db" where
  "create_revision E now meanwhile actor cfg expected_parent_revision_id =
     guarded (\<lambda>_. create_guard now actor cfg)
       (\<lambda>t. create_draft E actor cfg expected_parent_revision_id (instant t)) meanwhile"

definition submit_guard ::
  "'e model_env_scheme \<Rightarrow> datetime \<Rightarrow> actor \<Rightarrow> string \<Rightarrow> db \<Rightarrow> int result" where
  "submit_guard E now actor revision_id d =
     rbind (enter now actor Editor False) (\<lambda>t.
     rbind (get_revision E (actor_tenant_id actor) revision_id d) (\<lambda>revision.
     rbind (if rev_created_by revision \<noteq> actor_subject actor
               \<and> Administrator \<notin> set (actor_roles actor)
            then Inl (ControlPlaneAuthorizationError ''only the revision author may submit it'')
            else Inr ()) (\<lambda>_.
     rbind (revision_configuration E revision) (\<lambda>c.
     rbind (owns_control actor c) (\<lambda>_. Inr t)))))"

definition submit_revision ::
  "'e model_env_scheme \<Rightarrow> datetime \<Rightarrow> (db \<Rightarrow> db) \<Rightarrow> actor \<Rightarrow> string \<Rightarrow> int \<Rightarrow> db \<Rightarrow> revision result \<times> db" where
  "submit_revision E now meanwhile actor revision_id expected_state_version =
     guarded (submit_guard E now actor revision_id)
       (\<lambda>t. submit E actor revision_id expected_state_version (instant t)) meanwhile"

text \<open>The guard that decisions, activations and rollbacks share, each with its role and message.\<close>

definition author_guard ::
  "'e model_env_scheme \<Rightarrow> datetime \<Rightarrow> role \<Rightarrow> string \<Rightarrow> actor \<Rightarrow> string \<Rightarrow> db \<Rightarrow> int result" where
  "author_guard E now role message actor revision_id d =
     rbind (enter now actor role True) (\<lambda>t.
     rbind (get_revision E (actor_tenant_id actor) revision_id d) (\<lambda>revision.
     rbind (not_author message actor revision) (\<lambda>_. Inr t)))"

definition decide_guard where
  "decide_guard E now =
     author_guard E now Approver ''revision author cannot approve or reject their own change''"

definition decide_revision ::
  "'e model_env_scheme \<Rightarrow> datetime \<Rightarrow> (db \<Rightarrow> db) \<Rightarrow> actor \<Rightarrow> string \<Rightarrow> int \<Rightarrow> string \<Rightarrow> string \<Rightarrow> db
     \<Rightarrow> (revision \<times> approval_decision) result \<times> db" where
  "decide_revision E now meanwhile actor revision_id expected_state_version decision comment =
     guarded (decide_guard E now actor revision_id)
       (\<lambda>t. decide E actor revision_id expected_state_version decision comment (instant t)) meanwhile"

definition activate_guard where
  "activate_guard E now =
     author_guard E now Deployer ''revision author cannot activate their own change''"

definition activate_revision_with_operation ::
  "'e model_env_scheme \<Rightarrow> datetime \<Rightarrow> (db \<Rightarrow> db) \<Rightarrow> actor \<Rightarrow> string \<Rightarrow> int option \<Rightarrow> db
     \<Rightarrow> (active_deployment \<times> operation) result \<times> db" where
  "activate_revision_with_operation E now meanwhile actor revision_id expected_deployment_version =
     guarded (activate_guard E now actor revision_id)
       (\<lambda>t. activate_with_operation E actor revision_id expected_deployment_version (instant t))
       meanwhile"

definition activate_revision ::
  "'e model_env_scheme \<Rightarrow> datetime \<Rightarrow> (db \<Rightarrow> db) \<Rightarrow> actor \<Rightarrow> string \<Rightarrow> int option \<Rightarrow> db
     \<Rightarrow> active_deployment result \<times> db" where
  "activate_revision E now meanwhile actor revision_id expected_deployment_version d =
     (case activate_revision_with_operation E now meanwhile actor revision_id
             expected_deployment_version d of
        (Inl e, d') \<Rightarrow> (Inl e, d')
      | (Inr (deployment, _), d') \<Rightarrow> (Inr deployment, d'))"

definition rollback_guard where
  "rollback_guard E now =
     author_guard E now Deployer ''revision author cannot request their own rollback deployment''"

definition request_rollback_service ::
  "'e model_env_scheme \<Rightarrow> datetime \<Rightarrow> (db \<Rightarrow> db) \<Rightarrow> actor \<Rightarrow> string \<Rightarrow> string \<Rightarrow> db
     \<Rightarrow> operation result \<times> db" where
  "request_rollback_service E now meanwhile actor revision_id expected_predecessor_operation_id =
     guarded (rollback_guard E now actor revision_id)
       (\<lambda>t. request_rollback E actor revision_id expected_predecessor_operation_id (instant t))
       meanwhile"

definition retry_guard ::
  "'e model_env_scheme \<Rightarrow> datetime \<Rightarrow> actor \<Rightarrow> string \<Rightarrow> db \<Rightarrow> int result" where
  "retry_guard E now actor failed_operation_id d =
     rbind (enter now actor Deployer True) (\<lambda>t.
     rbind (get_deployment_operation E (actor_tenant_id actor) failed_operation_id d) (\<lambda>failed.
     rbind (get_revision E (actor_tenant_id actor) (op_revision_id failed) d) (\<lambda>revision.
     rbind (not_author ''revision author cannot request their own deployment retry'' actor revision)
       (\<lambda>_. Inr t))))"

definition retry_deployment ::
  "'e model_env_scheme \<Rightarrow> datetime \<Rightarrow> (db \<Rightarrow> db) \<Rightarrow> actor \<Rightarrow> string \<Rightarrow> db \<Rightarrow> operation result \<times> db" where
  "retry_deployment E now meanwhile actor failed_operation_id =
     guarded (retry_guard E now actor failed_operation_id)
       (\<lambda>t. request_deployment_retry E actor failed_operation_id (instant t)) meanwhile"

section \<open>Methods that read\<close>

definition read_as :: "datetime \<Rightarrow> actor \<Rightarrow> role \<Rightarrow> 'a result \<Rightarrow> 'a result" where
  "read_as now actor role answer = rbind (enter now actor role False) (\<lambda>_. answer)"

definition get_revision_service where
  "get_revision_service E now actor revision_id d =
     read_as now actor Viewer (get_revision E (actor_tenant_id actor) revision_id d)"

definition list_revisions_service where
  "list_revisions_service E now actor control_id limit d =
     read_as now actor Viewer (list_revisions E (actor_tenant_id actor) control_id limit d)"

definition list_controls_service where
  "list_controls_service E now actor limit d =
     read_as now actor Viewer (list_controls E (actor_tenant_id actor) limit d)"

definition active_deployment_service where
  "active_deployment_service now actor control_id d =
     read_as now actor Viewer (get_active_deployment (actor_tenant_id actor) control_id d)"

definition deployment_operation_service where
  "deployment_operation_service E now actor operation_id d =
     read_as now actor Viewer (get_deployment_operation E (actor_tenant_id actor) operation_id d)"

definition deployment_operations_service where
  "deployment_operations_service E now actor control_id limit d =
     read_as now actor Viewer (list_deployment_operations E (actor_tenant_id actor) control_id limit d)"

definition applied_deployment_operation_service where
  "applied_deployment_operation_service E now actor control_id d =
     read_as now actor Viewer (latest_applied_operation E (actor_tenant_id actor) control_id d)"

definition audit_events_service where
  "audit_events_service E now actor after_sequence limit d =
     read_as now actor Auditor (audit_events E (actor_tenant_id actor) after_sequence limit d)"

definition verify_audit_chain_service where
  "verify_audit_chain_service E now actor d =
     read_as now actor Auditor (verify_audit_chain E (actor_tenant_id actor) d)"

end
