(* ===== verification/Service_Props.thy ===== *)
theory Service_Props
  imports Service
begin

text \<open>
  Properties of the service: what authorization demands, that privileged methods refuse a stale or
  weak session, and the four-eyes rule for requests that run concurrently. Concurrency is an
  interleaving: a request is admitted by its guard on one database and issues its store call later,
  on whatever database the other requests and workers have produced by then.
\<close>

section \<open>Authorization\<close>

lemma enter_Inr:
  "enter now a role p = Inr t \<longleftrightarrow> service_time now = Inr t \<and> authorize a role p t = Inr ()"
  by (auto simp: enter_def rbind_eq_Inr)

lemma service_time_instant [simp]: "service_time (instant t) = Inr t"
  by (simp add: service_time_def instant_def)

text \<open>
  Authorization accepts exactly the actors that hold the role or are administrators and whose
  authentication lies at most five minutes in the future; a privileged action also needs MFA and an
  authentication that is not in the future and at most one hour old.
\<close>

theorem authorize_exact:
  "authorize a role privileged now = Inr () \<longleftrightarrow>
    (Administrator \<in> set (actor_roles a) \<or> role \<in> set (actor_roles a))
    \<and> (if privileged then actor_mfa a \<and> actor_authenticated_at a \<le> now
         \<and> now \<le> actor_authenticated_at a + 3600
       else actor_authenticated_at a \<le> now + 300)"
  by (auto simp: authorize_def Let_def FUTURE_CLOCK_TOLERANCE_def PRIVILEGED_SESSION_MAX_AGE_def)

lemma authorize_privileged:
  "authorize a role True t = Inr () \<Longrightarrow>
    actor_mfa a \<and> actor_authenticated_at a \<le> t \<and> t \<le> actor_authenticated_at a + 3600"
  by (auto simp: authorize_def Let_def PRIVILEGED_SESSION_MAX_AGE_def split: if_splits)

definition fresh_session :: "actor \<Rightarrow> datetime \<Rightarrow> bool" where
  "fresh_session a now = (case service_time now of Inl _ \<Rightarrow> False
     | Inr t \<Rightarrow> actor_mfa a \<and> actor_authenticated_at a \<le> t \<and> t \<le> actor_authenticated_at a + 3600)"

lemma privileged_enter: "\<not> fresh_session a now \<Longrightarrow> \<exists>e. enter now a role True = Inl e"
  by (cases "enter now a role True")
    (auto simp: enter_Inr fresh_session_def dest: authorize_privileged)

lemma privileged_guards:
  assumes "\<not> fresh_session a now"
  shows "isl (author_guard E now role m a i d)" "isl (retry_guard E now a i d)"
  using privileged_enter [OF assms, of role] privileged_enter [OF assms, of Deployer]
  by (auto simp: author_guard_def retry_guard_def)

lemma guarded_refused: "isl (g d) \<Longrightarrow> isl (fst (guarded g call mw d)) \<and> snd (guarded g call mw d) = d"
  by (auto simp: guarded_def isl_def)

text \<open>
  C32. Without MFA, or with an authentication older than an hour or in the future, every decision,
  activation, rollback and retry raises and leaves the database as it was.
\<close>

theorem privileged_methods_need_fresh_mfa:
  assumes "\<not> fresh_session a now"
  shows "(isl (fst (decide_revision E now mw a i n k m d)) \<and> snd (decide_revision E now mw a i n k m d) = d)
    \<and> (isl (fst (activate_revision_with_operation E now mw a i v d))
      \<and> snd (activate_revision_with_operation E now mw a i v d) = d)
    \<and> (isl (fst (request_rollback_service E now mw a i p d))
      \<and> snd (request_rollback_service E now mw a i p d) = d)
    \<and> (isl (fst (retry_deployment E now mw a i d)) \<and> snd (retry_deployment E now mw a i d) = d)"
  unfolding decide_revision_def activate_revision_with_operation_def request_rollback_service_def
    retry_deployment_def decide_guard_def activate_guard_def rollback_guard_def
  by (intro conjI [OF guarded_refused [OF privileged_guards(1) [OF assms]]]
      guarded_refused [OF privileged_guards(1) [OF assms]] guarded_refused [OF privileged_guards(2) [OF assms]])

theorem privileged_methods_need_fresh_mfa_witness:
  "isl (fst (decide_revision example_env (instant 5000) id bob (D 0) 1 ''approved'' ''ok'' db2))
    \<and> snd (retry_deployment example_env (instant 5000) id bob (D 0) db2) = db2"
proof -
  have "\<not> fresh_session bob (instant 5000)" by (simp add: fresh_session_def actor_defs)
  from privileged_methods_need_fresh_mfa [OF this] show ?thesis by blast
qed

section \<open>Concurrent requests\<close>

datatype request =
    CreateRevision actor control_configuration "string option"
  | SubmitRevision actor string int
  | DecideRevision actor string int string string
  | ActivateRevision actor string "int option"
  | RollbackRevision actor string string
  | RetryDeployment actor string

text \<open>The guard of a request on a database: refused, or the store call it goes on to issue.\<close>

fun admit :: "'e model_env_scheme \<Rightarrow> datetime \<Rightarrow> request \<Rightarrow> db \<Rightarrow> call result" where
  "admit E now (CreateRevision a cfg parent) d =
     rbind (create_guard now a cfg) (\<lambda>t. Inr (CreateDraft a cfg parent (instant t)))"
| "admit E now (SubmitRevision a i n) d =
     rbind (submit_guard E now a i d) (\<lambda>t. Inr (Submit a i n (instant t)))"
| "admit E now (DecideRevision a i n k m) d =
     rbind (decide_guard E now a i d) (\<lambda>t. Inr (Decide a i n k m (instant t)))"
| "admit E now (ActivateRevision a i v) d =
     rbind (activate_guard E now a i d) (\<lambda>t. Inr (Activate a i v (instant t)))"
| "admit E now (RollbackRevision a i p) d =
     rbind (rollback_guard E now a i d) (\<lambda>t. Inr (RequestRollback a i p (instant t)))"
| "admit E now (RetryDeployment a i) d =
     rbind (retry_guard E now a i d) (\<lambda>t. Inr (RequestRetry a i (instant t)))"

fun respond :: "'e model_env_scheme \<Rightarrow> datetime \<Rightarrow> (db \<Rightarrow> db) \<Rightarrow> request \<Rightarrow> db \<Rightarrow> db" where
  "respond E now mw (CreateRevision a cfg parent) d = snd (create_revision E now mw a cfg parent d)"
| "respond E now mw (SubmitRevision a i n) d = snd (submit_revision E now mw a i n d)"
| "respond E now mw (DecideRevision a i n k m) d = snd (decide_revision E now mw a i n k m d)"
| "respond E now mw (ActivateRevision a i v) d = snd (activate_revision_with_operation E now mw a i v d)"
| "respond E now mw (RollbackRevision a i p) d = snd (request_rollback_service E now mw a i p d)"
| "respond E now mw (RetryDeployment a i) d = snd (retry_deployment E now mw a i d)"

text \<open>The methods are their guard followed by that call.\<close>

lemma respond_admit:
  "respond E now mw q d = (case admit E now q d of Inl e \<Rightarrow> d | Inr c \<Rightarrow> exec E c (mw d))"
  by (cases q)
    (auto simp: create_revision_def submit_revision_def decide_revision_def
      activate_revision_with_operation_def request_rollback_service_def retry_deployment_def
      guarded_def split: sum.split)

fun request_ok :: "'e model_env_scheme \<Rightarrow> request \<Rightarrow> bool" where
  "request_ok E (CreateRevision a cfg parent) \<longleftrightarrow> valid_actor a \<and> validate_configuration E cfg = Inr cfg"
| "request_ok E _ \<longleftrightarrow> True"

fun worker_call :: "call \<Rightarrow> bool" where
  "worker_call (Lease w tok t ttl) = True"
| "worker_call (Acknowledge w i tok f g r t) = True"
| "worker_call (Fail w i tok f h t r) = True"
| "worker_call _ = False"

text \<open>
  States of the running service: the database and the admitted calls that have not been issued.
  An admitted call is issued at any later time or lost with its process; workers call the store
  directly.
\<close>

inductive service_step :: "'e model_env_scheme \<Rightarrow> db \<times> call list \<Rightarrow> db \<times> call list \<Rightarrow> bool"
  for E :: "'e model_env_scheme" where
  admitted: "request_ok E q \<Longrightarrow> admit E now q d = Inr c \<Longrightarrow> service_step E (d, cs) (d, c # cs)"
| issued: "service_step E (d, cs @ c # cs') (exec E c d, cs @ cs')"
| lost: "service_step E (d, cs @ c # cs') (d, cs @ cs')"
| worked: "worker_call c \<Longrightarrow> service_step E (d, cs) (exec E c d, cs)"

inductive service_reachable :: "'e model_env_scheme \<Rightarrow> db \<times> call list \<Rightarrow> bool"
  for E :: "'e model_env_scheme" where
  started: "service_reachable E (empty_db, [])"
| stepped: "service_reachable E s \<Longrightarrow> service_step E s s' \<Longrightarrow> service_reachable E s'"

inductive_cases service_stepE: "service_step E (d, cs) (d', cs')"

subsection \<open>Who changes decisions\<close>

named_theorems decision_frame \<open>bodies that leave the decision table alone\<close>

lemma append_audit_decisions [decision_frame]:
  "append_audit E pr a i at ds d = Inr (v, d') \<Longrightarrow> approval_decisions d' = approval_decisions d"
  by (drule append_audit_Inr(1)) simp

lemma insert_operation_decisions [decision_frame]:
  "insert_operation p d = Inr d' \<Longrightarrow> approval_decisions d' = approval_decisions d"
  by (auto simp: insert_operation_def result_simps)

lemma create_operation_decisions [decision_frame]:
  "create_deployment_operation E actor r k at expected retry d = Inr (p, d') \<Longrightarrow>
    approval_decisions d' = approval_decisions d"
  by (auto simp: create_deployment_operation_def Let_def rbind_eq_Inr split: if_splits dest: decision_frame)

lemma select_revision_decisions [decision_frame]:
  "select_revision actor r expected t d = Inr (x, d') \<Longrightarrow> approval_decisions d' = approval_decisions d"
  by (auto simp: select_revision_def rbind_eq_Inr split_beta Let_def insert_deployment_Inr
      update_deployments_def update_revisions_def sqlite_check_Inr split: option.splits if_splits)

lemma create_draft_decisions [decision_frame]:
  "create_draft_body E actor cfg b parent at d = Inr (x, d') \<Longrightarrow> approval_decisions d' = approval_decisions d"
  by (auto simp: create_draft_body_def rbind_eq_Inr split_beta insert_revision_Inr dest!: append_audit_decisions)

lemma transition_decisions [decision_frame]:
  "transition_body E actor i s s' n at a d = Inr (x, d') \<Longrightarrow> approval_decisions d' = approval_decisions d"
  by (auto simp: transition_body_def rbind_eq_Inr split_beta Let_def update_revisions_def
      split: option.splits if_splits dest!: append_audit_decisions)

lemma activate_decisions [decision_frame]:
  "activate_body E actor i expected t d = Inr (x, d') \<Longrightarrow> approval_decisions d' = approval_decisions d"
  by (auto simp: activate_body_def rbind_eq_Inr split_beta split: option.splits if_splits dest!: decision_frame)

lemma rollback_decisions [decision_frame]:
  "request_rollback_body E actor i expected t d = Inr (x, d') \<Longrightarrow> approval_decisions d' = approval_decisions d"
  by (auto simp: request_rollback_body_def rbind_eq_Inr split_beta split: option.splits if_splits dest!: decision_frame)

lemma retry_decisions [decision_frame]:
  "request_retry_body E actor i t d = Inr (x, d') \<Longrightarrow> approval_decisions d' = approval_decisions d"
  by (auto simp: request_retry_body_def rbind_eq_Inr split_beta split: option.splits if_splits dest!: decision_frame)

lemma lease_decisions [decision_frame]:
  "lease_body E w tok t ttl d = Inr (x, d') \<Longrightarrow> approval_decisions d' = approval_decisions d"
  by (auto simp: lease_body_def rbind_eq_Inr split_beta Let_def update_operations_def sqlite_check_Inr
      split: option.splits if_splits dest!: append_audit_decisions)

lemma close_decisions [decision_frame]:
  "close_lease E w i tok f t g a ds m p d = Inr (x, d') \<Longrightarrow> approval_decisions d' = approval_decisions d"
  by (auto simp: close_lease_def rbind_eq_Inr split_beta update_operations_def sqlite_check_Inr
      split: option.splits if_splits dest!: append_audit_decisions)

fun decides :: "call \<Rightarrow> bool" where
  "decides (Decide a i n k m t) = True"
| "decides _ = False"

lemma exec_keeps_decisions: "\<not> decides c \<Longrightarrow> approval_decisions (exec E c d) = approval_decisions d"
  by (cases c)
    (auto simp: create_draft_def submit_def transition_def activate_with_operation_def
      request_rollback_def request_deployment_retry_def lease_next_deployment_operation_def
      acknowledge_deployment_applied_def fail_deployment_operation_def acknowledge_body_def fail_body_def
      integrity_conflict_Inr rbind_eq_Inr transaction_def
      split: sum.split prod.split option.splits if_splits dest: decision_frame)

lemma exec_decide:
  assumes "store_inv E d"
  shows "exec E (Decide a i n k m t) d = d \<or> (\<exists>x. dec_revision_id x = i \<and> dec_decided_by x = actor_subject a
    \<and> approval_decisions (exec E (Decide a i n k m t) d) = approval_decisions d @ [x])"
proof -
  obtain res d' where run: "decide E a i n k m t d = (res, d')" by fastforce
  show ?thesis
  proof (cases "d' = d")
    case False
    then obtain kd x where "decide_body E a i n kd m t d = Inr (x, d')"
      using run by (auto simp: decide_def transaction_def integrity_conflict_Inr split: option.splits if_splits
          sum.splits prod.splits)
    from decide_step [OF assms this] show ?thesis
      using run by (auto simp: new_decision_def)
  qed (use run in simp)
qed

subsection \<open>The four-eyes invariant\<close>

definition maker_checker :: "db \<Rightarrow> bool" where
  "maker_checker d \<longleftrightarrow> (\<forall>x \<in> set (approval_decisions d). \<forall>r \<in> set (control_revisions d).
     dec_revision_id x = rev_revision_id r \<longrightarrow> dec_decided_by x \<noteq> rev_created_by r)"

definition made_by_other :: "db \<Rightarrow> actor \<Rightarrow> string \<Rightarrow> bool" where
  "made_by_other d a i \<longleftrightarrow> (\<exists>r \<in> set (control_revisions d). rev_revision_id r = i
     \<and> rev_created_by r \<noteq> actor_subject a)"

fun call_separated :: "db \<Rightarrow> call \<Rightarrow> bool" where
  "call_separated d (Decide a i n k m t) \<longleftrightarrow> made_by_other d a i"
| "call_separated d _ \<longleftrightarrow> True"

definition service_inv :: "'e model_env_scheme \<Rightarrow> db \<times> call list \<Rightarrow> bool" where
  "service_inv E s \<longleftrightarrow> store_inv E (fst s) \<and> maker_checker (fst s)
     \<and> (\<forall>c \<in> set (snd s). call_ok E c \<and> call_separated (fst s) c)"

lemma author_guard_made_by_other:
  "author_guard E now role m a i d = Inr t \<Longrightarrow> made_by_other d a i"
  by (auto simp: author_guard_def rbind_eq_Inr get_revision_def not_author_def made_by_other_def
      split: option.splits if_splits dest!: load_revision_Inr tenant_revision_Some)

lemma admit_ok: "request_ok E q \<Longrightarrow> admit E now q d = Inr c \<Longrightarrow> call_ok E c \<and> call_separated d c"
  by (cases q) (auto simp: rbind_eq_Inr decide_guard_def dest: author_guard_made_by_other)

lemma made_by_other_evolves: "evolves d d' \<Longrightarrow> made_by_other d a i \<Longrightarrow> made_by_other d' a i"
  by (fastforce simp: made_by_other_def evolves_def revisions_evolve_def rev_evolves_def same_content_def)

lemma call_separated_evolves: "evolves d d' \<Longrightarrow> call_separated d c \<Longrightarrow> call_separated d' c"
  by (cases c) (auto intro: made_by_other_evolves)

text \<open>A decided revision is never created later: its decision would name no revision.\<close>

lemma maker_checker_evolves:
  assumes "store_inv E d" "store_inv E d'" "evolves d d'" "maker_checker d"
    and "\<And>x. x \<in> set (approval_decisions d') \<Longrightarrow> x \<in> set (approval_decisions d)
      \<or> (\<exists>r \<in> set (control_revisions d). rev_revision_id r = dec_revision_id x \<and> rev_created_by r \<noteq> dec_decided_by x)"
  shows "maker_checker d'"
  unfolding maker_checker_def
proof (intro ballI impI)
  fix x r' assume *: "x \<in> set (approval_decisions d')" "r' \<in> set (control_revisions d')"
    "dec_revision_id x = rev_revision_id r'"
  have "\<exists>r \<in> set (control_revisions d). rev_revision_id r = dec_revision_id x \<and> rev_created_by r \<noteq> dec_decided_by x"
    if x: "x \<in> set (approval_decisions d)"
  proof -
    obtain q where "q \<in> set (control_revisions d)" "decision_matches x q"
      using assms(1) x unfolding store_inv_def decisions_ok_def by blast
    moreover from this have "dec_decided_by x \<noteq> rev_created_by q"
      using assms(4) x unfolding maker_checker_def decision_matches_def by metis
    ultimately show ?thesis by (metis decision_matches_def)
  qed
  with assms(5) *(1) obtain r where r: "r \<in> set (control_revisions d)" "rev_revision_id r = dec_revision_id x"
    "rev_created_by r \<noteq> dec_decided_by x" by blast
  then obtain q where "q \<in> set (control_revisions d')" "same_content r q"
    using assms(3) unfolding evolves_def revisions_evolve_def rev_evolves_def by blast
  then show "dec_decided_by x \<noteq> rev_created_by r'"
    using revision_unique [of d' q r'] assms(2) r * by (auto simp: store_inv_def same_content_def)
qed

lemma exec_service_inv:
  assumes "lawful_env E" "store_inv E d" "maker_checker d" "call_ok E c" "call_separated d c"
  shows "store_inv E (exec E c d) \<and> maker_checker (exec E c d) \<and> evolves d (exec E c d)"
proof -
  note inv = exec_inv [OF assms(1,4,2)] and ev = exec_evolves [OF assms(1,4,2)]
  have "maker_checker (exec E c d)"
  proof (cases "decides c")
    case False
    then show ?thesis
      using maker_checker_evolves [OF assms(2) inv ev assms(3)] exec_keeps_decisions by metis
  next
    case True
    then obtain a i n k m t where c: "c = Decide a i n k m t" by (cases c) auto
    from exec_decide [OF assms(2)] show ?thesis
    proof
      assume "exec E (Decide a i n k m t) d = d"
      then show ?thesis using c assms(3) by simp
    next
      assume "\<exists>x. dec_revision_id x = i \<and> dec_decided_by x = actor_subject a
        \<and> approval_decisions (exec E (Decide a i n k m t) d) = approval_decisions d @ [x]"
      then show ?thesis
        using c assms(5) by (intro maker_checker_evolves [OF assms(2) inv ev assms(3)])
          (auto simp: made_by_other_def)
    qed
  qed
  with inv ev show ?thesis by blast
qed

lemma worker_call_ok: "worker_call c \<Longrightarrow> call_ok E c \<and> call_separated d c"
  by (cases c) auto

lemma service_step_inv:
  assumes "lawful_env E" "service_step E s s'" "service_inv E s"
  shows "service_inv E s'"
  using assms(2,3)
proof (cases rule: service_step.cases)
  case (issued d cs c cs')
  then have "store_inv E (exec E c d) \<and> maker_checker (exec E c d) \<and> evolves d (exec E c d)"
    using assms(1,3) by (intro exec_service_inv) (auto simp: service_inv_def)
  then show ?thesis using issued assms(3) by (auto simp: service_inv_def intro: call_separated_evolves)
next
  case (worked c d cs)
  then have "store_inv E (exec E c d) \<and> maker_checker (exec E c d) \<and> evolves d (exec E c d)"
    using assms(1,3) worker_call_ok [OF worked(3)] by (intro exec_service_inv) (auto simp: service_inv_def)
  then show ?thesis using worked assms(3) by (auto simp: service_inv_def intro: call_separated_evolves)
qed (auto simp: service_inv_def dest: admit_ok)

lemma service_reachable_inv:
  assumes "lawful_env E" "service_reachable E s"
  shows "service_inv E s"
  using assms(2)
proof (induction rule: service_reachable.induct)
  case started
  then show ?case by (simp add: service_inv_def store_inv_empty maker_checker_def) (simp add: empty_db_def)
next
  case (stepped s s')
  then show ?case using service_step_inv [OF assms(1)] by blast
qed

text \<open>
  C1. Four eyes, for requests and workers that interleave in any way: every deployment operation
  concerns a revision whose approval was given by somebody other than its author, and was itself
  requested by somebody other than its author.
\<close>

theorem four_eyes:
  assumes "lawful_env E" "service_reachable E (d, cs)" "p \<in> set (deployment_operations d)"
  shows "\<exists>r \<in> set (control_revisions d). \<exists>x \<in> set (approval_decisions d).
    rev_revision_id r = op_revision_id p \<and> rev_configuration_digest r = op_configuration_digest p
    \<and> dec_revision_id x = rev_revision_id r \<and> dec_decision x = DecApproved
    \<and> dec_decided_by x \<noteq> rev_created_by r \<and> op_requested_by p \<noteq> rev_created_by r"
proof -
  have inv: "store_inv E d" "maker_checker d"
    using service_reachable_inv [OF assms(1,2)] by (auto simp: service_inv_def)
  then obtain r where r: "r \<in> set (control_revisions d)" "deploys p r"
    using operations_ok_D(2) [OF _ assms(3), of E] by (auto simp: store_inv_def)
  obtain x where x: "x \<in> set (approval_decisions d)" "decision_matches x r" "dec_decision x = DecApproved"
    using approved_decision [OF inv(1) r(1)] r(2) by (auto simp: deploys_def)
  moreover have "dec_decided_by x \<noteq> rev_created_by r"
    using inv(2) r(1) x(1,2) unfolding maker_checker_def decision_matches_def by metis
  ultimately show ?thesis
    using r by (intro bexI [of _ r] bexI [of _ x]) (auto simp: deploys_def decision_matches_def)
qed

lemma service_run:
  "service_reachable E (d, []) \<Longrightarrow> request_ok E q \<Longrightarrow> admit E now q d = Inr c \<Longrightarrow> exec E c d = d' \<Longrightarrow>
    service_reachable E (d', [])"
  using service_step.issued [of E d "[]" c "[]"]
  by (auto intro: service_reachable.stepped service_step.admitted)

lemma example_reads:
  "get_revision example_env ''acme'' (D 0) db1 = Inr draft0"
  "get_revision example_env ''acme'' (D 0) db2 = Inr submitted0"
  "get_revision example_env ''acme'' (D 0) db3 = Inr approved0"
  using get_revision_present [OF inv1, of draft0] get_revision_present [OF inv2, of submitted0]
    get_revision_present [OF inv3, of approved0] by (simp_all add: db_defs)

lemma example_service_run: "service_reachable example_env (db4, [])"
proof -
  note guards = create_guard_def submit_guard_def decide_guard_def activate_guard_def author_guard_def
    enter_Inr rbind_eq_Inr same_tenant_def owns_control_def not_author_def
    example_reads revision_configuration_def actor_defs
  have 1: "admit example_env (instant 1000) (CreateRevision alice example_cfg None) empty_db
      = Inr (CreateDraft alice example_cfg None (instant 1000))"
    by (simp add: guards enter_def authorize_def FUTURE_CLOCK_TOLERANCE_def example_cfg_def)
  have 2: "admit example_env (instant 1100) (SubmitRevision alice (D 0) 0) db1
      = Inr (Submit alice (D 0) 0 (instant 1100))"
    by (simp add: guards enter_def authorize_def FUTURE_CLOCK_TOLERANCE_def example_cfg_def draft0_def)
  have 3: "admit example_env (instant 1200) (DecideRevision bob (D 0) 1 ''approved'' ''ok'') db2
      = Inr (Decide bob (D 0) 1 ''approved'' ''ok'' (instant 1200))"
    by (simp add: guards enter_def authorize_def FUTURE_CLOCK_TOLERANCE_def
        PRIVILEGED_SESSION_MAX_AGE_def row_defs moved_def)
  have 4: "admit example_env (instant 1300) (ActivateRevision carol (D 0) None) db3
      = Inr (Activate carol (D 0) None (instant 1300))"
    by (simp add: guards enter_def authorize_def FUTURE_CLOCK_TOLERANCE_def
        PRIVILEGED_SESSION_MAX_AGE_def row_defs moved_def)
  have "service_reachable example_env (db1, [])"
    by (rule service_run [OF service_reachable.started _ 1])
      (simp_all add: call1 example_valid_actor example_cfg_valid)
  from service_run [OF this _ 2] have "service_reachable example_env (db2, [])" by (simp add: call2)
  from service_run [OF this _ 3] have "service_reachable example_env (db3, [])" by (simp add: call3)
  from service_run [OF this _ 4] show ?thesis by (simp add: call4)
qed

theorem four_eyes_witness:
  "\<exists>r \<in> set (control_revisions db4). \<exists>x \<in> set (approval_decisions db4).
    rev_revision_id r = D 0 \<and> dec_decision x = DecApproved
    \<and> dec_decided_by x \<noteq> rev_created_by r \<and> op_requested_by pending0 \<noteq> rev_created_by r"
proof -
  have "pending0 \<in> set (deployment_operations db4)" by (simp add: db4_def)
  from four_eyes [OF example_lawful example_service_run this]
  show ?thesis by (elim bexE) (intro bexI, auto)
qed

end
