(* ===== verification/Reconciler.thy ===== *)
theory Reconciler
  imports Service_Props
begin

text \<open>
  The fenced reconciliation of deployment operations, from
  \<^verbatim>\<open>src/src/assurance_lab/control_plane/deployment.py\<close>: the adapter's request with its
  validator, failure classification and backoff, and \<open>run_once\<close>.

  The reconciler is written against the protocol \<open>_DeploymentStore\<close>, a record of four functions
  here; \<open>sqlite_store\<close> is the store of the previous theories. What a run takes from outside is a
  \<open>world\<close>: the token bytes, the two clock readings, the target adapter (a parameter, the code
  only fixes its protocol), and what other processes do to the database after the lease was taken
  and while the target works.
\<close>

section \<open>Requests and acknowledgements\<close>

record apply_request =
  req_operation_id :: string
  req_tenant_id :: string
  req_control_id :: string
  req_revision_id :: string
  req_configuration_digest :: string
  req_configuration_bytes :: bytes
  req_operation_sequence :: int
  req_lease_fence :: int

definition request_fields_ok :: "apply_request \<Rightarrow> bool" where
  "request_fields_ok r \<longleftrightarrow>
     digest_format (req_operation_id r) \<and> portable_id (req_tenant_id r) \<and> portable_id (req_control_id r)
     \<and> digest_format (req_revision_id r) \<and> digest_format (req_configuration_digest r)
     \<and> 2 \<le> length (req_configuration_bytes r) \<and> length (req_configuration_bytes r) \<le> 1024 * 1024
     \<and> between 1 INT64_MAX (req_operation_sequence r) \<and> between 1 INT64_MAX (req_lease_fence r)"

definition validate_request :: "'e model_env_scheme \<Rightarrow> apply_request \<Rightarrow> apply_request result" where
  "validate_request E r =
     (if \<not> request_fields_ok r then Inl (invalid ''deployment request fields'')
      else if sha256_bytes E (req_configuration_bytes r) \<noteq> req_configuration_digest r
      then Inl (invalid ''deployment request configuration digest differs'')
      else case model_validate_json E (req_configuration_bytes r) of
        None \<Rightarrow> Inl (invalid ''deployment request configuration is invalid'')
      | Some c \<Rightarrow>
          let crosses = Inl (invalid ''deployment request crosses its configuration boundary'') in
          if cfg_tenant_id c \<noteq> req_tenant_id r \<or> cfg_control_id c \<noteq> req_control_id r then crosses
          else rbind (field_error (configuration_digest_of E c)) (\<lambda>g.
            if g \<noteq> req_configuration_digest r then crosses else Inr r))"

definition idempotency_key :: "apply_request \<Rightarrow> string" where
  "idempotency_key r = req_operation_id r"

record acknowledgement =
  ack_operation_id :: string
  ack_lease_fence :: int
  ack_applied_configuration_digest :: string
  ack_target_receipt_digest :: string

definition validate_acknowledgement :: "acknowledgement \<Rightarrow> acknowledgement result" where
  "validate_acknowledgement a =
     (if digest_format (ack_operation_id a) \<and> between 1 INT64_MAX (ack_lease_fence a)
         \<and> digest_format (ack_applied_configuration_digest a)
         \<and> digest_format (ack_target_receipt_digest a)
      then Inr a else Inl (invalid ''deployment acknowledgement fields''))"

text \<open>
  What \<open>ensure_applied\<close> does: it returns an acknowledgement or some other object, or raises
  \<open>DeploymentApplyError\<close> or another exception.
\<close>

datatype target_outcome =
    TargetAck acknowledgement
  | TargetOther
  | TargetError string bool
  | TargetRaised

definition error_code_format :: "string \<Rightarrow> bool" where
  "error_code_format s \<longleftrightarrow> (case s of [] \<Rightarrow> False
     | c # cs \<Rightarrow> lower_char c \<and> length cs \<le> 63
         \<and> list_all (\<lambda>c. lower_char c \<or> digit_char c \<or> c \<in> set ''.-'') cs)"

definition apply_error :: "string \<Rightarrow> bool \<Rightarrow> target_outcome result" where
  "apply_error code may_retry =
     (if \<not> error_code_format code then Inl (ValueError ''deployment error code is invalid'')
      else Inr (TargetError code may_retry))"

definition outcome_unknown :: "string \<Rightarrow> target_outcome result" where
  "outcome_unknown code = apply_error code True"

section \<open>The store protocol\<close>

record 'd deployment_store =
  ds_lease :: "worker_identity \<Rightarrow> string \<Rightarrow> datetime \<Rightarrow> int \<Rightarrow> 'd \<Rightarrow> operation option result \<times> 'd"
  ds_get_revision :: "string \<Rightarrow> string \<Rightarrow> 'd \<Rightarrow> revision result"
  ds_acknowledge :: "worker_identity \<Rightarrow> string \<Rightarrow> string \<Rightarrow> int \<Rightarrow> string \<Rightarrow> string \<Rightarrow> datetime \<Rightarrow> 'd
    \<Rightarrow> operation result \<times> 'd"
  ds_fail :: "worker_identity \<Rightarrow> string \<Rightarrow> string \<Rightarrow> int \<Rightarrow> string \<Rightarrow> datetime \<Rightarrow> datetime option \<Rightarrow> 'd
    \<Rightarrow> operation result \<times> 'd"

definition sqlite_store :: "'e model_env_scheme \<Rightarrow> db deployment_store" where
  "sqlite_store E = \<lparr>ds_lease = lease_next_deployment_operation E, ds_get_revision = get_revision E,
     ds_acknowledge = acknowledge_deployment_applied E, ds_fail = fail_deployment_operation E\<rparr>"

section \<open>The reconciler\<close>

record reconciler =
  rc_worker :: worker_identity
  rc_lease_ttl_seconds :: int
  rc_max_attempts :: int
  rc_base_retry_seconds :: int
  rc_max_retry_seconds :: int

definition new_reconciler :: "worker_identity \<Rightarrow> int \<Rightarrow> int \<Rightarrow> int \<Rightarrow> int \<Rightarrow> reconciler result" where
  "new_reconciler worker lease_ttl max_attempts base_retry max_retry =
     rbind (raise_first
       [(lease_ttl < 15 \<or> lease_ttl > 3600,
           ValueError ''deployment lease TTL is outside the supported range''),
        (max_attempts < 1 \<or> max_attempts > 32,
           ValueError ''deployment attempt limit is outside the supported range''),
        (base_retry < 1 \<or> max_retry < base_retry \<or> max_retry > 86400,
           ValueError ''deployment retry backoff is outside the supported range'')]) (\<lambda>_.
     Inr \<lparr>rc_worker = worker, rc_lease_ttl_seconds = lease_ttl, rc_max_attempts = max_attempts,
          rc_base_retry_seconds = base_retry, rc_max_retry_seconds = max_retry\<rparr>)"

record 'd world =
  token_bytes :: bytes
  lease_clock :: datetime
  close_clock :: datetime
  after_lease :: "'d \<Rightarrow> 'd"
  ensure_applied :: "apply_request \<Rightarrow> target_outcome"
  after_target :: "'d \<Rightarrow> 'd"

definition reconciler_time :: "datetime \<Rightarrow> int result" where
  "reconciler_time value =
     (if \<not> dt_aware value
      then Inl (RuntimeError ''deployment clock must return a timezone-aware datetime'')
      else if dt_micros value mod 1000000 \<noteq> 0
      then Inl (RuntimeError ''deployment clock must return whole UTC seconds'')
      else Inr (dt_micros value div 1000000))"

definition lease_token_digest :: "'e model_env_scheme \<Rightarrow> bytes \<Rightarrow> string result" where
  "lease_token_digest E token =
     (if length token < 16
      then Inl (RuntimeError ''deployment lease entropy source returned invalid bytes'')
      else Inr (sha256_bytes E token))"

definition failure_digest :: "'e model_env_scheme \<Rightarrow> operation \<Rightarrow> string \<Rightarrow> bool \<Rightarrow> string result" where
  "failure_digest E p code may_retry =
     rbind (canonical E (jobject
       [(''attempt_count'', JInt (op_attempt_count p)), (''code'', jtext code),
        (''lease_fence'', JInt (op_lease_fence p)), (''operation_id'', jtext (op_operation_id p)),
        (''retryable'', JBool may_retry)])) (\<lambda>body.
     Inr (sha256_bytes E body))"

text \<open>The exponential backoff of \<open>_failure\<close>.\<close>

definition can_retry :: "reconciler \<Rightarrow> operation \<Rightarrow> bool \<Rightarrow> bool" where
  "can_retry R p may_retry \<longleftrightarrow> may_retry \<and> op_attempt_count p < rc_max_attempts R"

definition retry_delay :: "reconciler \<Rightarrow> int \<Rightarrow> int" where
  "retry_delay R attempt_count =
     min (rc_base_retry_seconds R * 2 ^ nat (min (attempt_count - 1) 30)) (rc_max_retry_seconds R)"

definition some_result :: "'a result \<times> 'd \<Rightarrow> 'a option result \<times> 'd" where
  "some_result r = (rbind (fst r) (\<lambda>x. Inr (Some x)), snd r)"

definition failure ::
  "'e model_env_scheme \<Rightarrow> 'd deployment_store \<Rightarrow> reconciler \<Rightarrow> 'd world \<Rightarrow> operation \<Rightarrow> string \<Rightarrow> string \<Rightarrow> bool
     \<Rightarrow> 'd \<Rightarrow> operation option result \<times> 'd" where
  "failure E S R W p token code may_retry d =
     (case reconciler_time (close_clock W) of
        Inl e \<Rightarrow> (Inl e, d)
      | Inr failed_at \<Rightarrow>
          let retry = can_retry R p may_retry;
              retry_at = (if retry then Some (instant (failed_at + retry_delay R (op_attempt_count p)))
                          else None)
          in case failure_digest E p code retry of
               Inl e \<Rightarrow> (Inl e, d)
             | Inr g \<Rightarrow> some_result (ds_fail S (rc_worker R) (op_operation_id p) token
                 (op_lease_fence p) g (instant failed_at) retry_at d))"

definition request_of :: "'e model_env_scheme \<Rightarrow> operation \<Rightarrow> revision \<Rightarrow> apply_request result" where
  "request_of E p r = validate_request E
     \<lparr>req_operation_id = op_operation_id p, req_tenant_id = op_tenant_id p,
      req_control_id = op_control_id p, req_revision_id = op_revision_id p,
      req_configuration_digest = op_configuration_digest p,
      req_configuration_bytes = rev_configuration_bytes r,
      req_operation_sequence = op_sequence p, req_lease_fence = op_lease_fence p\<rparr>"

definition ack_matches :: "operation \<Rightarrow> acknowledgement \<Rightarrow> bool" where
  "ack_matches p a \<longleftrightarrow> ack_operation_id a = op_operation_id p \<and> ack_lease_fence a = op_lease_fence p
     \<and> ack_applied_configuration_digest a = op_configuration_digest p"

text \<open>The part of \<open>run_once\<close> after the target was called.\<close>

definition conclude ::
  "'e model_env_scheme \<Rightarrow> 'd deployment_store \<Rightarrow> reconciler \<Rightarrow> 'd world \<Rightarrow> operation \<Rightarrow> string \<Rightarrow> target_outcome
     \<Rightarrow> 'd \<Rightarrow> operation option result \<times> 'd" where
  "conclude E S R W p token outcome d =
     (case outcome of
        TargetError code may_retry \<Rightarrow> failure E S R W p token code may_retry d
      | TargetRaised \<Rightarrow> failure E S R W p token ''adapter-unhandled'' True d
      | TargetOther \<Rightarrow> failure E S R W p token ''target-acknowledgement-mismatch'' False d
      | TargetAck a \<Rightarrow>
          if \<not> ack_matches p a
          then failure E S R W p token ''target-acknowledgement-mismatch'' False d
          else case reconciler_time (close_clock W) of
              Inl e \<Rightarrow> (Inl e, d)
            | Inr applied_at \<Rightarrow> some_result (ds_acknowledge S (rc_worker R) (op_operation_id p) token
                (op_lease_fence p) (ack_applied_configuration_digest a) (ack_target_receipt_digest a)
                (instant applied_at) d))"

definition reconcile ::
  "'e model_env_scheme \<Rightarrow> 'd deployment_store \<Rightarrow> reconciler \<Rightarrow> 'd world \<Rightarrow> string \<Rightarrow> operation \<Rightarrow> 'd
     \<Rightarrow> operation option result \<times> 'd" where
  "reconcile E S R W token p d =
     (case ds_get_revision S (op_tenant_id p) (op_revision_id p) d of
        Inl e \<Rightarrow> (Inl e, d)
      | Inr r \<Rightarrow>
          if rev_control_id r \<noteq> op_control_id p
             \<or> rev_configuration_digest r \<noteq> op_configuration_digest p
          then failure E S R W p token ''revision-integrity-mismatch'' False d
          else case request_of E p r of
              Inl e \<Rightarrow> (Inl e, d)
            | Inr request \<Rightarrow>
                conclude E S R W p token (ensure_applied W request) (after_target W d))"

definition run_once ::
  "'e model_env_scheme \<Rightarrow> 'd deployment_store \<Rightarrow> reconciler \<Rightarrow> 'd world \<Rightarrow> 'd
     \<Rightarrow> operation option result \<times> 'd" where
  "run_once E S R W d =
     (case rbind (lease_token_digest E (token_bytes W)) (\<lambda>token.
           rbind (reconciler_time (lease_clock W)) (\<lambda>t. Inr (token, t))) of
        Inl e \<Rightarrow> (Inl e, d)
      | Inr (token, t) \<Rightarrow>
          (case ds_lease S (rc_worker R) token (instant t) (rc_lease_ttl_seconds R) d of
             (Inl e, d1) \<Rightarrow> (Inl e, d1)
           | (Inr None, d1) \<Rightarrow> (Inr None, d1)
           | (Inr (Some p), d1) \<Rightarrow> reconcile E S R W token p (after_lease W d1)))"

text \<open>The request a run hands to the target, if it gets that far.\<close>

definition target_request ::
  "'e model_env_scheme \<Rightarrow> 'd deployment_store \<Rightarrow> reconciler \<Rightarrow> 'd world \<Rightarrow> 'd \<Rightarrow> apply_request option" where
  "target_request E S R W d =
     (case rbind (lease_token_digest E (token_bytes W)) (\<lambda>token.
           rbind (reconciler_time (lease_clock W)) (\<lambda>t. Inr (token, t))) of
        Inl e \<Rightarrow> None
      | Inr (token, t) \<Rightarrow>
          (case ds_lease S (rc_worker R) token (instant t) (rc_lease_ttl_seconds R) d of
             (Inr (Some p), d1) \<Rightarrow>
               (case ds_get_revision S (op_tenant_id p) (op_revision_id p) (after_lease W d1) of
                  Inl e \<Rightarrow> None
                | Inr r \<Rightarrow>
                    if rev_control_id r \<noteq> op_control_id p
                       \<or> rev_configuration_digest r \<noteq> op_configuration_digest p
                    then None
                    else (case request_of E p r of Inl e \<Rightarrow> None | Inr request \<Rightarrow> Some request))
           | _ \<Rightarrow> None))"

lemma some_result_Inr: "some_result r = (Inr res, d') \<longleftrightarrow> (\<exists>x. r = (Inr x, d') \<and> res = Some x)"
  by (cases r) (auto simp: some_result_def rbind_eq_Inr)

lemma request_of_Inr:
  assumes "request_of E p r = Inr req"
  shows "req = \<lparr>req_operation_id = op_operation_id p, req_tenant_id = op_tenant_id p,
      req_control_id = op_control_id p, req_revision_id = op_revision_id p,
      req_configuration_digest = op_configuration_digest p,
      req_configuration_bytes = rev_configuration_bytes r,
      req_operation_sequence = op_sequence p, req_lease_fence = op_lease_fence p\<rparr>"
    "sha256_bytes E (req_configuration_bytes req) = req_configuration_digest req"
  using assms
  by (auto simp: request_of_def validate_request_def Let_def rbind_eq_Inr split: if_splits option.splits)

section \<open>The laws of the store protocol\<close>

text \<open>
  What the reconciler relies on, for any store: which rows a lease, an acknowledgement and a
  failure return, which revision a lookup returns, and an invariant that every call keeps.
\<close>

locale fenced_store =
  fixes E :: "'e model_env_scheme" and inv :: "'d \<Rightarrow> bool" and S :: "'d deployment_store"
  assumes lease_inv: "inv d \<Longrightarrow> inv (snd (ds_lease S w tok at ttl d))"
    and ack_inv: "inv d \<Longrightarrow> inv (snd (ds_acknowledge S w i tok f g r at d))"
    and fail_inv: "inv d \<Longrightarrow> inv (snd (ds_fail S w i tok f h at retry d))"
    and lease_grants: "inv d \<Longrightarrow> ds_lease S w tok at ttl d = (Inr (Some p), d') \<Longrightarrow>
      op_tenant_id p = worker_tenant_id w \<and> op_state p = Leased \<and> 1 \<le> op_attempt_count p
      \<and> op_lease_fence p = op_attempt_count p"
    and acknowledges: "inv d \<Longrightarrow> ds_acknowledge S w i tok f g r at d = (Inr p, d') \<Longrightarrow>
      op_operation_id p = i \<and> op_state p = Applied \<and> op_configuration_digest p = g
      \<and> op_applied_digest p = Some g \<and> op_target_receipt p = Some r \<and> op_lease_fence p = f"
    and fails: "inv d \<Longrightarrow> ds_fail S w i tok f h (instant t) retry d = (Inr p, d') \<Longrightarrow>
      op_operation_id p = i \<and> op_state p = Failed \<and> op_failure_digest p = Some h
      \<and> op_failed_at p = Some t \<and> op_retry_at p = map_option stored_second retry \<and> op_lease_fence p = f"
    and reads: "inv d \<Longrightarrow> ds_get_revision S tenant i d = Inr row \<Longrightarrow>
      rev_tenant_id row = tenant \<and> rev_revision_id row = i
      \<and> sha256_bytes E (rev_configuration_bytes row) = rev_configuration_digest row"
begin

lemma failure_inv: "inv d \<Longrightarrow> inv (snd (failure E S R W p tok code b d))"
  by (simp add: failure_def Let_def some_result_def fail_inv split: sum.split)

lemma conclude_inv: "inv d \<Longrightarrow> inv (snd (conclude E S R W p tok out d))"
  by (simp add: conclude_def some_result_def failure_inv ack_inv split: target_outcome.split sum.split)

lemma run_once_inv:
  assumes "inv d" "\<And>d. inv d \<Longrightarrow> inv (after_lease W d)" "\<And>d. inv d \<Longrightarrow> inv (after_target W d)"
  shows "inv (snd (run_once E S R W d))"
proof -
  have rec: "inv (snd (reconcile E S R W tok p d1))" if "inv d1" for tok p d1
    using that assms(3) by (simp add: reconcile_def failure_inv conclude_inv split: sum.split)
  have "inv d1" if "ds_lease S (rc_worker R) tok (instant t) (rc_lease_ttl_seconds R) d = (res, d1)"
    for tok t res d1
    using lease_inv [OF assms(1)] that by (metis snd_conv)
  then show ?thesis
    using assms(1,2) rec by (auto simp: run_once_def split: sum.split prod.split option.split)
qed

text \<open>A failure is reported under the fence of the lease, with the backoff as its retry time.\<close>

lemma failure_result:
  assumes "inv d" "failure E S R W p tok code b d = (Inr res, d')"
  shows "\<exists>q t. res = Some q \<and> op_operation_id q = op_operation_id p \<and> op_state q = Failed
    \<and> op_lease_fence q = op_lease_fence p \<and> reconciler_time (close_clock W) = Inr t
    \<and> op_failed_at q = Some t
    \<and> op_retry_at q = (if can_retry R p b then Some (t + retry_delay R (op_attempt_count p)) else None)"
proof -
  let ?retry = "\<lambda>t. if can_retry R p b then Some (instant (t + retry_delay R (op_attempt_count p))) else None"
  from assms(2) obtain t g q where t: "reconciler_time (close_clock W) = Inr t"
    and run: "ds_fail S (rc_worker R) (op_operation_id p) tok (op_lease_fence p) g (instant t) (?retry t) d
      = (Inr q, d')" "res = Some q"
    by (auto simp: failure_def Let_def some_result_Inr split: sum.splits if_splits)
  have "op_retry_at q = map_option stored_second (?retry t)" using fails [OF assms(1) run(1)] by simp
  then show ?thesis using fails [OF assms(1) run(1)] run(2) t by simp
qed

text \<open>
  The outcome of the part after the target's answer: the operation is applied on a matching
  acknowledgement and failed otherwise.
\<close>

lemma conclude_result:
  assumes "inv d" "conclude E S R W p tok out d = (Inr res, d')"
  shows "\<exists>q. res = Some q \<and> op_operation_id q = op_operation_id p \<and> op_lease_fence q = op_lease_fence p
    \<and> (op_state q = Failed \<and> (op_retry_at q \<noteq> None \<longrightarrow> op_attempt_count p < rc_max_attempts R)
       \<or> op_state q = Applied
       \<and> (\<exists>a. out = TargetAck a \<and> ack_matches p a \<and> op_configuration_digest q = op_configuration_digest p
           \<and> op_applied_digest q = Some (op_configuration_digest p)
           \<and> op_target_receipt q = Some (ack_target_receipt_digest a)))"
proof (cases "\<exists>a. out = TargetAck a \<and> ack_matches p a")
  case True
  then obtain a where a: "out = TargetAck a" "ack_matches p a" by blast
  with assms(2) obtain t q where "ds_acknowledge S (rc_worker R) (op_operation_id p) tok (op_lease_fence p)
      (ack_applied_configuration_digest a) (ack_target_receipt_digest a) (instant t) d = (Inr q, d')"
    "res = Some q"
    by (auto simp: conclude_def some_result_Inr split: sum.splits)
  with acknowledges [OF assms(1) this(1)] a show ?thesis by (auto simp: ack_matches_def)
next
  case False
  then obtain code b where "failure E S R W p tok code b d = (Inr res, d')"
    using assms(2) by (auto simp: conclude_def split: target_outcome.splits if_splits)
  from failure_result [OF assms(1) this] show ?thesis
    by (auto simp: can_retry_def split: if_splits)
qed

lemma run_once_result:
  assumes inv: "inv d" "\<And>d. inv d \<Longrightarrow> inv (after_lease W d)" "\<And>d. inv d \<Longrightarrow> inv (after_target W d)"
    and run: "run_once E S R W d = (Inr (Some q), d')"
  shows "op_state q = Failed \<and> (op_retry_at q \<noteq> None \<longrightarrow> op_lease_fence q < rc_max_attempts R)
    \<or> op_state q = Applied \<and> (\<exists>req a. target_request E S R W d = Some req
    \<and> ensure_applied W req = TargetAck a \<and> ack_operation_id a = req_operation_id req
    \<and> ack_lease_fence a = req_lease_fence req
    \<and> ack_applied_configuration_digest a = req_configuration_digest req
    \<and> sha256_bytes E (req_configuration_bytes req) = req_configuration_digest req
    \<and> op_operation_id q = req_operation_id req \<and> op_lease_fence q = req_lease_fence req
    \<and> op_applied_digest q = Some (req_configuration_digest req)
    \<and> op_target_receipt q = Some (ack_target_receipt_digest a))"
proof -
  from run obtain tok t p d1 where tok: "lease_token_digest E (token_bytes W) = Inr tok"
      "reconciler_time (lease_clock W) = Inr t"
    and lease: "ds_lease S (rc_worker R) tok (instant t) (rc_lease_ttl_seconds R) d = (Inr (Some p), d1)"
    and rec: "reconcile E S R W tok p (after_lease W d1) = (Inr (Some q), d')"
    by (auto simp: run_once_def rbind_eq_Inr split: sum.splits prod.splits option.splits)
  have fence: "op_lease_fence p = op_attempt_count p" using lease_grants [OF inv(1) lease] by simp
  have inv1: "inv (after_lease W d1)" using lease_inv [OF inv(1)] lease inv(2) by (metis snd_conv)
  show ?thesis
  proof (cases "\<exists>code b. failure E S R W p tok code b (after_lease W d1) = (Inr (Some q), d')")
    case True
    then obtain code b where "failure E S R W p tok code b (after_lease W d1) = (Inr (Some q), d')" by blast
    from failure_result [OF inv1 this] show ?thesis
      using fence by (auto simp: can_retry_def split: if_splits)
  next
    case False
    with rec obtain r req where r: "ds_get_revision S (op_tenant_id p) (op_revision_id p) (after_lease W d1) = Inr r"
      "rev_control_id r = op_control_id p" "rev_configuration_digest r = op_configuration_digest p"
      and req: "request_of E p r = Inr req"
      and con: "conclude E S R W p tok (ensure_applied W req) (after_target W (after_lease W d1)) = (Inr (Some q), d')"
      by (auto simp: reconcile_def split: sum.splits if_splits)
    have "target_request E S R W d = Some req"
      using tok lease r req by (simp add: target_request_def)
    moreover have "req_operation_id req = op_operation_id p" "req_lease_fence req = op_lease_fence p"
      "req_configuration_digest req = op_configuration_digest p"
      "sha256_bytes E (req_configuration_bytes req) = req_configuration_digest req"
      using request_of_Inr [OF req] by auto
    ultimately show ?thesis
      using conclude_result [OF inv(3) [OF inv1] con] fence by (auto simp: ack_matches_def)
  qed
qed

end

end
