(* ===== verification/Reconciler_Props.thy ===== *)
theory Reconciler_Props
  imports Reconciler
begin

text \<open>
  The SQLite store satisfies the laws the reconciler relies on, and what follows for the reconciler
  that runs on it: nothing becomes applied without an exact acknowledgement, the backoff stays
  inside the store's retry window, a run that closes the last allowed attempt resolves the operation,
  and repeated requests are the same request under a higher fence.
\<close>

section \<open>The store satisfies the protocol\<close>

lemma lease_grants_row:
  assumes "store_inv E d" "lease_next_deployment_operation E w tok at ttl d = (Inr (Some p'), d')"
  shows "\<exists>p \<in> set (deployment_operations d). \<exists>t. op_tenant_id p = worker_tenant_id w
    \<and> p' = lease_update w tok t ttl (op_attempt_count p + 1) p \<and> op_move E p p'
    \<and> p' \<in> set (deployment_operations d') \<and> validate_operation E p = Inr p"
proof -
  from lease_outcome [OF assms(2)] obtain t where "lease_body E w tok t ttl d = Inr (Some p', d')" by auto
  from lease_step [OF assms(1) this] obtain p v where p: "p \<in> set (deployment_operations d)"
    "op_tenant_id p = worker_tenant_id w" "p' = lease_update w tok t ttl (op_attempt_count p + 1) p"
    "op_move E p p'" "d' = logged v (move_operation p p' d)" by auto
  moreover have "p' \<in> set (deployment_operations d')"
    using operations_after_move [of d p] assms(1) p by (simp add: store_inv_def)
  moreover have "validate_operation E p = Inr p" using assms(1) p(1) by (auto simp: store_inv_def operations_ok_def)
  ultimately show ?thesis by blast
qed

lemma fence_is_attempt: "validate_operation E p = Inr p \<Longrightarrow> op_lease_fence p = op_attempt_count p \<and> 0 \<le> op_attempt_count p"
  by (auto simp: validate_operation_def operation_state_checks_def operation_fields_ok_def between_def rbind_eq_Inr
      split: if_splits operation_state.splits)

lemma retry_second_Inr: "retry_second t retry = Inr r \<Longrightarrow> r = map_option stored_second retry"
  by (auto simp: retry_second_def rbind_eq_Inr utc_second_def stored_second_def split: option.splits if_splits)

interpretation sqlite: fenced_store E "store_inv E" "sqlite_store E" for E :: "'e model_env_scheme"
proof
  fix d w tok at ttl assume inv: "store_inv E d"
  show "store_inv E (snd (ds_lease (sqlite_store E) w tok at ttl d))"
    using lease_next_deployment_operation.keeps_inv [OF _ inv] by (simp add: sqlite_store_def)
next
  fix d w i tok f g r at assume inv: "store_inv E d"
  show "store_inv E (snd (ds_acknowledge (sqlite_store E) w i tok f g r at d))"
    using acknowledge_deployment_applied.keeps_inv [OF _ inv] by (simp add: sqlite_store_def)
next
  fix d w i tok f h at retry assume inv: "store_inv E d"
  show "store_inv E (snd (ds_fail (sqlite_store E) w i tok f h at retry d))"
    using fail_deployment_operation.keeps_inv [OF _ inv] by (simp add: sqlite_store_def)
next
  fix d w tok at ttl p' d' assume inv: "store_inv E d"
    and "ds_lease (sqlite_store E) w tok at ttl d = (Inr (Some p'), d')"
  then have "lease_next_deployment_operation E w tok at ttl d = (Inr (Some p'), d')" by (simp add: sqlite_store_def)
  from lease_grants_row [OF inv this] obtain p t where "op_tenant_id p = worker_tenant_id w"
    "p' = lease_update w tok t ttl (op_attempt_count p + 1) p" "validate_operation E p = Inr p" by blast
  then show "op_tenant_id p' = worker_tenant_id w \<and> op_state p' = Leased \<and> 1 \<le> op_attempt_count p'
      \<and> op_lease_fence p' = op_attempt_count p'"
    using fence_is_attempt [of E p] by (simp add: lease_update_def)
next
  fix d w i tok f g r at p d' assume inv: "store_inv E d"
    and "ds_acknowledge (sqlite_store E) w i tok f g r at d = (Inr p, d')"
  then have "acknowledge_deployment_applied E w i tok f g r at d = (Inr p, d')" by (simp add: sqlite_store_def)
  from acknowledge_outcome [OF inv this] obtain t p0 where p0: "op_operation_id p0 = i"
    "op_lease_fence p0 = f" "p = applied_row t g r p0" and g: "op_configuration_digest p = g"
    by (auto simp: accepted_def holds_lease_def)
  from p0 have "op_operation_id p = i \<and> op_state p = Applied \<and> op_applied_digest p = Some g
      \<and> op_target_receipt p = Some r \<and> op_lease_fence p = f"
    by (simp add: applied_row_def release_lease_def)
  with g show "op_operation_id p = i \<and> op_state p = Applied \<and> op_configuration_digest p = g
      \<and> op_applied_digest p = Some g \<and> op_target_receipt p = Some r \<and> op_lease_fence p = f"
    by blast
next
  fix d w i tok f h t retry p d' assume inv: "store_inv E d"
    and "ds_fail (sqlite_store E) w i tok f h (instant t) retry d = (Inr p, d')"
  then have "fail_deployment_operation E w i tok f h (instant t) retry d = (Inr p, d')" by (simp add: sqlite_store_def)
  from fail_outcome [OF inv this] show "op_operation_id p = i \<and> op_state p = Failed \<and> op_failure_digest p = Some h
      \<and> op_failed_at p = Some t \<and> op_retry_at p = map_option stored_second retry \<and> op_lease_fence p = f"
    by (auto simp: accepted_def failed_row_def release_lease_def holds_lease_def dest!: retry_second_Inr)
next
  fix d tenant i row assume "store_inv E d" "ds_get_revision (sqlite_store E) tenant i d = Inr row"
  then have "tenant_revision tenant i d = Some row" "content_ok E row"
    by (auto simp: sqlite_store_def get_revision_def load_revision_def on_error_Inr validate_revision_iff
        split: option.splits)
  then show "rev_tenant_id row = tenant \<and> rev_revision_id row = i
      \<and> sha256_bytes E (rev_configuration_bytes row) = rev_configuration_digest row"
    using tenant_revision_Some by (simp add: content_ok_def)
qed

section \<open>Applied means acknowledged\<close>

text \<open>Interference by other processes: it keeps the invariant and only extends history.\<close>

definition interference :: "'e model_env_scheme \<Rightarrow> (db \<Rightarrow> db) \<Rightarrow> bool" where
  "interference E f \<longleftrightarrow> (\<forall>d. store_inv E d \<longrightarrow> store_inv E (f d) \<and> evolves d (f d))"

lemma interference_calls:
  "lawful_env E \<Longrightarrow> list_all (call_ok E) cs \<Longrightarrow> interference E (fold (exec E) cs)"
  by (simp add: interference_def fold_exec_inv fold_exec_evolves)

lemma interference_id: "interference E id"
  by (simp add: interference_def evolves_refl)

text \<open>
  C8. A run of the reconciler returns an operation as applied only when the target acknowledged that
  very request: same operation, same fence, and the configuration digest of the bytes it was given,
  which is the digest the operation then records with the target's receipt. Otherwise the operation
  it returns is failed. This holds under any interference of other processes.
\<close>

theorem applied_means_acknowledged:
  assumes "store_inv E d" "interference E (after_lease W)" "interference E (after_target W)"
    and "run_once E (sqlite_store E) R W d = (Inr (Some q), d')"
  shows "op_state q = Failed \<or> op_state q = Applied \<and> (\<exists>req a.
    target_request E (sqlite_store E) R W d = Some req
    \<and> ensure_applied W req = TargetAck a \<and> ack_operation_id a = req_operation_id req
    \<and> ack_lease_fence a = req_lease_fence req
    \<and> ack_applied_configuration_digest a = req_configuration_digest req
    \<and> sha256_bytes E (req_configuration_bytes req) = req_configuration_digest req
    \<and> op_operation_id q = req_operation_id req \<and> op_lease_fence q = req_lease_fence req
    \<and> op_applied_digest q = Some (req_configuration_digest req)
    \<and> op_target_receipt q = Some (ack_target_receipt_digest a))"
proof -
  note keeps = assms(2,3) [unfolded interference_def]
  show ?thesis using sqlite.run_once_result [OF assms(1) _ _ assms(4)] keeps by blast
qed

section \<open>Backoff\<close>

lemma new_reconciler_Inr:
  "new_reconciler w ttl m b x = Inr R \<Longrightarrow> 15 \<le> ttl \<and> ttl \<le> 3600 \<and> 1 \<le> m \<and> m \<le> 32 \<and> 1 \<le> b \<and> b \<le> x
    \<and> x \<le> 86400 \<and> R = \<lparr>rc_worker = w, rc_lease_ttl_seconds = ttl, rc_max_attempts = m,
      rc_base_retry_seconds = b, rc_max_retry_seconds = x\<rparr>"
  by (auto simp: new_reconciler_def rbind_eq_Inr split: if_splits)

text \<open>
  C34. For every accepted configuration the delay before a retry lies between the base and the
  maximum, never shrinks from one attempt to the next, and the retry instant it gives lies inside
  the window of at most 24 hours that the store accepts.
\<close>

theorem backoff_bounds:
  assumes "new_reconciler w ttl m b x = Inr R" "1 \<le> n"
  shows "b \<le> retry_delay R n \<and> retry_delay R n \<le> x \<and> retry_delay R n \<le> retry_delay R (n + 1)
    \<and> retry_second t (Some (instant (t + retry_delay R n))) = Inr (Some (t + retry_delay R n))"
proof -
  note R = new_reconciler_Inr [OF assms(1)]
  have pow: "1 \<le> (2::int) ^ k" for k by simp
  have lower: "b \<le> retry_delay R n"
    using R pow [of "nat (min (n - 1) 30)"] mult_left_mono [OF pow, of b "nat (min (n - 1) 30)"]
    by (simp add: retry_delay_def)
  have "(2::int) ^ nat (min (n - 1) 30) \<le> 2 ^ nat (min n 30)"
    by (rule power_increasing) auto
  then have "b * 2 ^ nat (min (n - 1) 30) \<le> b * 2 ^ nat (min n 30)" using R by (intro mult_left_mono) auto
  then have mono: "retry_delay R n \<le> retry_delay R (n + 1)" using R by (simp add: retry_delay_def min_le_iff_disj)
  have upper: "retry_delay R n \<le> x" using R by (simp add: retry_delay_def)
  with lower R have "0 < retry_delay R n" "retry_delay R n \<le> 86400" by auto
  then show ?thesis using lower upper mono by (simp add: retry_second_def)
qed

theorem backoff_bounds_witness:
  "new_reconciler walter 120 8 30 3600 = Inr \<lparr>rc_worker = walter, rc_lease_ttl_seconds = 120,
     rc_max_attempts = 8, rc_base_retry_seconds = 30, rc_max_retry_seconds = 3600\<rparr>
   \<and> retry_delay \<lparr>rc_worker = walter, rc_lease_ttl_seconds = 120,
     rc_max_attempts = 8, rc_base_retry_seconds = 30, rc_max_retry_seconds = 3600\<rparr> 7 = 1920
   \<and> retry_delay \<lparr>rc_worker = walter, rc_lease_ttl_seconds = 120,
     rc_max_attempts = 8, rc_base_retry_seconds = 30, rc_max_retry_seconds = 3600\<rparr> 7 \<le> 3600"
proof -
  let ?R = "\<lparr>rc_worker = walter, rc_lease_ttl_seconds = 120,
     rc_max_attempts = 8, rc_base_retry_seconds = 30, rc_max_retry_seconds = 3600\<rparr>"
  have R: "new_reconciler walter 120 8 30 3600 = Inr ?R" by (simp add: new_reconciler_def)
  from backoff_bounds [OF R, of 7] R show ?thesis by (simp add: retry_delay_def)
qed

section \<open>Bounded attempts\<close>

text \<open>
  C33. A run that returns normally after using the last allowed attempt has resolved its operation:
  when the fence of the lease has reached the attempt limit, the operation returned is applied, or failed
  with no further retry. This says nothing of a run that raises instead of closing its lease: it leaves
  the operation leased, and the store leases it again, under a fence beyond the limit, once that lease
  has expired.
\<close>

theorem last_attempt_resolves:
  assumes "store_inv E d" "interference E (after_lease W)" "interference E (after_target W)"
    and "run_once E (sqlite_store E) R W d = (Inr (Some q), d')"
    and "rc_max_attempts R \<le> op_lease_fence q"
  shows "\<not> unresolved q"
proof -
  have "op_state q = Failed \<and> (op_retry_at q \<noteq> None \<longrightarrow> op_lease_fence q < rc_max_attempts R) \<or> op_state q = Applied"
    using sqlite.run_once_result [OF assms(1) _ _ assms(4)] assms(2,3) by (auto simp: interference_def)
  then show ?thesis using assms(5) by (auto simp: unresolved_def)
qed

section \<open>Repeated requests\<close>

lemma conclude_evolves:
  assumes "store_inv E d"
  shows "evolves d (snd (conclude E (sqlite_store E) R W p tok out d))"
proof -
  have "evolves d (snd (failure E (sqlite_store E) R W p tok code b d))" for code b
    using fail_deployment_operation.grows [OF _ assms]
    by (simp add: failure_def Let_def some_result_def sqlite_store_def evolves_refl split: sum.split)
  then show ?thesis
    using acknowledge_deployment_applied.grows [OF _ assms]
    by (simp add: conclude_def some_result_def sqlite_store_def evolves_refl split: target_outcome.split sum.split)
qed

text \<open>
  The request of a run: the operation it leased, the revision it read, and that everything the run
  does afterwards only extends the history of the database it read them from.
\<close>

lemma target_request_run:
  assumes "store_inv E d" "interference E (after_lease W)" "interference E (after_target W)"
    and "target_request E (sqlite_store E) R W d = Some req"
  shows "\<exists>p0 p r d1. p0 \<in> set (deployment_operations d) \<and> p \<in> set (deployment_operations d1)
    \<and> same_request p0 p \<and> op_lease_fence p0 < op_lease_fence p \<and> op_lease_fence p = req_lease_fence req
    \<and> store_inv E d1 \<and> evolves d d1 \<and> evolves d1 (snd (run_once E (sqlite_store E) R W d))
    \<and> (\<exists>d2. store_inv E d2 \<and> evolves d1 d2 \<and> evolves d2 (snd (run_once E (sqlite_store E) R W d))
         \<and> r \<in> set (control_revisions d2)) \<and> rev_revision_id r = op_revision_id p
    \<and> request_of E p r = Inr req"
proof -
  from assms(4) obtain tok t p d1 r where tok: "lease_token_digest E (token_bytes W) = Inr tok"
      "reconciler_time (lease_clock W) = Inr t"
    and lease: "lease_next_deployment_operation E (rc_worker R) tok (instant t) (rc_lease_ttl_seconds R) d
      = (Inr (Some p), d1)"
    and r: "get_revision E (op_tenant_id p) (op_revision_id p) (after_lease W d1) = Inr r"
      "\<not> (rev_control_id r \<noteq> op_control_id p \<or> rev_configuration_digest r \<noteq> op_configuration_digest p)"
    and req: "request_of E p r = Inr req"
    by (auto simp: target_request_def sqlite_store_def rbind_eq_Inr
        split: sum.splits prod.splits option.splits if_splits)
  let ?d2 = "after_lease W d1" and ?out = "ensure_applied W req"
  have inv: "store_inv E d1" "evolves d d1"
    using lease_next_deployment_operation.keeps_inv [OF _ assms(1)]
      lease_next_deployment_operation.grows [OF _ assms(1)] lease by (metis snd_conv)+
  then have inv2: "store_inv E ?d2" "evolves d1 ?d2" "store_inv E (after_target W ?d2)"
      "evolves ?d2 (after_target W ?d2)"
    using assms(2,3) by (auto simp: interference_def)
  have "run_once E (sqlite_store E) R W d = conclude E (sqlite_store E) R W p tok ?out (after_target W ?d2)"
    using tok lease r req by (simp add: run_once_def reconcile_def sqlite_store_def)
  then have ev: "evolves ?d2 (snd (run_once E (sqlite_store E) R W d))"
    using evolves_trans [OF inv2(4) conclude_evolves [OF inv2(3)]] by simp
  obtain p0 where p0: "p0 \<in> set (deployment_operations d)" "same_request p0 p"
    "op_lease_fence p = op_attempt_count p0 + 1" "p \<in> set (deployment_operations d1)"
    "op_lease_fence p0 = op_attempt_count p0"
  proof -
    from lease_grants_row [OF assms(1) lease] obtain p0 u where "p0 \<in> set (deployment_operations d)"
      "p = lease_update (rc_worker R) tok u (rc_lease_ttl_seconds R) (op_attempt_count p0 + 1) p0"
      "op_move E p0 p" "p \<in> set (deployment_operations d1)" "validate_operation E p0 = Inr p0" by blast
    moreover from this have "op_lease_fence p = op_attempt_count p0 + 1" by (simp add: lease_row(4))
    ultimately show thesis using that [of p0] fence_is_attempt by (auto simp: op_move_def)
  qed
  have row: "r \<in> set (control_revisions ?d2)" "rev_revision_id r = op_revision_id p"
    using r(1) by (auto simp: get_revision_def split: option.splits dest!: load_revision_Inr tenant_revision_Some)
  have "op_lease_fence p0 < op_lease_fence p" "op_lease_fence p = req_lease_fence req"
    using p0 request_of_Inr(1) [OF req] by simp_all
  then show ?thesis
    using p0(1,2,4) inv inv2(1,2) ev row req evolves_trans [OF inv2(2) ev] by blast
qed

text \<open>
  C7. Idempotency towards the target: when a later run hands the target a request for an operation it
  was already given, whatever happened in between, the request is the same in every field (operation,
  revision, digest and configuration bytes) except for its fence, which is strictly higher.
\<close>

theorem repeated_requests_are_fenced:
  assumes "store_inv E d" "interference E (after_lease W)" "interference E (after_target W)"
    and "target_request E (sqlite_store E) R W d = Some req"
    and "interference E mw" "interference E (after_lease W')" "interference E (after_target W')"
    and "target_request E (sqlite_store E) R' W' (mw (snd (run_once E (sqlite_store E) R W d))) = Some req'"
    and "idempotency_key req' = idempotency_key req"
  shows "req' = req\<lparr>req_lease_fence := req_lease_fence req'\<rparr> \<and> req_lease_fence req < req_lease_fence req'"
proof -
  let ?e = "snd (run_once E (sqlite_store E) R W d)"
  have keep: "store_inv E x \<Longrightarrow> store_inv E (f x)" if "interference E f" for f x
    using that by (simp add: interference_def)
  have inv: "store_inv E ?e"
    by (rule sqlite.run_once_inv [OF assms(1)]) (use assms(2,3) keep in blast)+
  have inv': "store_inv E (mw ?e)" "evolves ?e (mw ?e)"
    using assms(5) inv by (auto simp: interference_def)
  from target_request_run [OF assms(1-4)] obtain p r d1 d2 where p: "p \<in> set (deployment_operations d1)"
    "op_lease_fence p = req_lease_fence req" "evolves d1 ?e" "evolves d2 ?e"
    "r \<in> set (control_revisions d2)" "rev_revision_id r = op_revision_id p" "request_of E p r = Inr req" by blast
  from target_request_run [OF inv'(1) assms(6-8)] obtain p0 p' r' d1' d2' where
    p': "p0 \<in> set (deployment_operations (mw ?e))" "same_request p0 p'"
    "op_lease_fence p0 < op_lease_fence p'" "op_lease_fence p' = req_lease_fence req'"
    "evolves (mw ?e) d1'" "evolves d1' d2'" "store_inv E d2'" "r' \<in> set (control_revisions d2')"
    "rev_revision_id r' = op_revision_id p'" "request_of E p' r' = Inr req'" by blast
  have id: "op_operation_id p' = op_operation_id p"
    using assms(9) request_of_Inr(1) [OF p(7)] request_of_Inr(1) [OF p'(10)] by (simp add: idempotency_key_def)
  obtain q where q: "q \<in> set (deployment_operations (mw ?e))" "op_evolves p q"
    using p(1) evolves_trans [OF p(3) inv'(2)] unfolding evolves_def operations_evolve_def by blast
  then have same: "same_request p q" "op_lease_fence p \<le> op_lease_fence q"
    by (auto simp: op_evolves_def same_request_def)
  have "q = p0"
    using operation_unique [OF _ q(1) p'(1)] inv'(1) same(1) p'(2) id
    by (simp add: store_inv_def same_request_def)
  then have req: "same_request p p'" "req_lease_fence req < req_lease_fence req'"
    using same same_request_trans [OF same(1)] p' p(2) by auto
  obtain s where s: "s \<in> set (control_revisions d2')" "same_content r s"
    using p(5) evolves_trans [OF evolves_trans [OF evolves_trans [OF p(4) inv'(2)] p'(5)] p'(6)]
    unfolding evolves_def revisions_evolve_def rev_evolves_def by blast
  then have "s = r'"
    using revision_unique [OF _ s(1) p'(8)] p'(7,9) p(6) req(1)
    by (simp add: store_inv_def same_content_def same_request_def)
  then have "rev_configuration_bytes r' = rev_configuration_bytes r" using s(2) by (simp add: same_content_def)
  then show ?thesis
    using req request_of_Inr(1) [OF p(7)] request_of_Inr(1) [OF p'(10)] by (simp add: same_request_def)
qed

section \<open>Example runs\<close>

definition example_reconciler :: reconciler where
  "example_reconciler = \<lparr>rc_worker = walter, rc_lease_ttl_seconds = 60, rc_max_attempts = 1,
     rc_base_retry_seconds = 30, rc_max_retry_seconds = 3600\<rparr>"

definition obedient_target :: "apply_request \<Rightarrow> target_outcome" where
  "obedient_target r = TargetAck \<lparr>ack_operation_id = req_operation_id r, ack_lease_fence = req_lease_fence r,
     ack_applied_configuration_digest = req_configuration_digest r, ack_target_receipt_digest = D 0\<rparr>"

definition example_world :: "int \<Rightarrow> int \<Rightarrow> db world" where
  "example_world t u = \<lparr>token_bytes = [0, 0, 0, 0, 0, 0, 0, 0, 0, 0, 0, 0, 0, 0, 0, 0], lease_clock = instant t,
     close_clock = instant u, after_lease = id, ensure_applied = obedient_target, after_target = id\<rparr>"

definition example_request :: "int \<Rightarrow> apply_request" where
  "example_request fence = \<lparr>req_operation_id = D 0, req_tenant_id = ''acme'', req_control_id = ''edr'',
     req_revision_id = D 0, req_configuration_digest = D 0, req_configuration_bytes = line_of 0,
     req_operation_sequence = 1, req_lease_fence = fence\<rparr>"

lemma reconciler_time_instant [simp]: "reconciler_time (instant t) = Inr t"
  by (simp add: reconciler_time_def instant_def)

lemma example_token: "lease_token_digest example_env [0, 0, 0, 0, 0, 0, 0, 0, 0, 0, 0, 0, 0, 0, 0, 0] = Inr (D 0)"
proof -
  have "char_of (48::nat) = CHR ''0''" by (simp add: char_of_eq_iff)
  then show ?thesis
    by (simp add: lease_token_digest_def D_def sha256_bytes_def example_hexdigest_def line_of_def)
qed

lemma example_request_valid:
  "1 \<le> f \<Longrightarrow> f \<le> 9 \<Longrightarrow> validate_request example_env (example_request f) = Inr (example_request f)"
proof -
  assume "1 \<le> f" "f \<le> 9"
  moreover have "cfg_tenant_id example_cfg = ''acme''" "cfg_control_id example_cfg = ''edr''"
    by (simp_all add: example_cfg_def)
  moreover have "configuration_digest_of example_env example_cfg = Inr (D 0)"
    by (simp add: configuration_digest_of_def example_cfg_bytes)
  ultimately show ?thesis
    by (simp add: validate_request_def request_fields_ok_def example_request_def between_def INT64_MAX_def
        field_error_def)
qed

lemma example_leased_read: "get_revision example_env ''acme'' (D 0) db5 = Inr approved0"
  using get_revision_present [OF inv5, of approved0] by (simp add: db_defs)

lemma example_request_of:
  assumes "f \<in> {1, 2}" "p = leased0\<lparr>op_lease_fence := f\<rparr>"
  shows "request_of example_env p approved0 = Inr (example_request f)"
  using example_request_valid [of f] assms
  by (auto simp: request_of_def example_request_def row_defs moved_def lease_update_def)

lemma example_run: "run_once example_env (sqlite_store example_env) example_reconciler (example_world 1400 1410) db4
    = (Inr (Some (applied_row 1410 (D 0) (D 0) leased0)), db6)"
  and example_target_request: "target_request example_env (sqlite_store example_env) example_reconciler
    (example_world 1400 u) db4 = Some (example_request 1)"
proof -
  have fence: "leased0\<lparr>op_lease_fence := 1\<rparr> = leased0" "op_lease_fence leased0 = 1" "op_control_id leased0 = ''edr''"
    "op_configuration_digest leased0 = D 0" "rev_control_id approved0 = ''edr''"
    "rev_configuration_digest approved0 = D 0" "op_revision_id leased0 = D 0"
    by (simp_all add: row_defs lease_update_def moved_def)
  have req: "request_of example_env leased0 approved0 = Inr (example_request 1)"
    using example_request_of [of 1 leased0] fence by simp
  note defs = sqlite_store_def example_world_def example_reconciler_def example_token call5 example_leased_read fence req
  show "target_request example_env (sqlite_store example_env) example_reconciler (example_world 1400 u) db4
      = Some (example_request 1)"
    by (simp add: target_request_def defs)
  show "run_once example_env (sqlite_store example_env) example_reconciler (example_world 1400 1410) db4
      = (Inr (Some (applied_row 1410 (D 0) (D 0) leased0)), db6)"
    by (simp add: run_once_def reconcile_def conclude_def ack_matches_def obedient_target_def defs call6
        some_result_def) (simp add: example_request_def call6)
qed

text \<open>A run that outlives its lease is refused, and the operation is leased again under fence 2.\<close>

definition leased1 :: operation where
  "leased1 = lease_update walter (D 0) 1500 60 2 leased0"

definition event6' :: audit_event where
  "event6' = example_event (Worker walter) DeploymentLeased (D 0) 1500 6 (D 5)"

definition db6' :: db where
  "db6' = db5\<lparr>deployment_operations := [leased1], control_audit_events := control_audit_events db5 @ [event6']\<rparr>"

lemma leased1_valid: "validate_operation example_env leased1 = Inr leased1"
  using example_operation
  by (simp add: validate_operation_def operation_fields_ok_def leased1_def leased0_def lease_update_def
      pending0_def walter_def between_def INT64_MAX_def opt_ok_def text_between_def field_error_def
      operation_state_checks_def full_lease_def no_applied_def no_failed_def)

lemma call5': "lease_next_deployment_operation example_env walter (D 0) (instant 1500) 60 db5
    = (Inr (Some leased1), db6')"
proof -
  let ?ms = "[(''attempt_count'', JInt 2), (''control_id'', jtext ''edr''),
    (''lease_expires_at'', jtext (timestamp 1560)), (''lease_fence'', JInt 2),
    (''recovered_from_state'', jtext ''leased''), (''worker_id'', jtext ''w1'')]"
  let ?d = "db5\<lparr>deployment_operations := [leased1]\<rparr>"
  have "flat_members ?ms"
    using length_timestamp [of 1560] by (simp add: flat_members_def I_JSON_MAX_INTEGER_def)
  then have ev: "append_audit example_env (Worker walter) DeploymentLeased (D 0) (instant 1500) (jobject ?ms) ?d
      = Inr (event6', logged event6' ?d)"
    using example_append [of "Worker walter" "D 0" 1500 ?ms ?d "[event1, event2, event3, event4, event5]" 6
        DeploymentLeased] example_linked
    by (simp add: event6'_def chain_head_def tenant_events_def where_rows_def db_defs D_eq)
      (simp add: walter_def)
  have db6: "logged event6' ?d = db6'" by (simp add: logged_def db6'_def)
  have el: "eligible 1500 leased0" by (simp add: eligible_def leased0_def lease_update_def)
  have upd: "update_operations (\<lambda>p. op_tenant_id p = ''acme'' \<and> op_operation_id p = D 0
        \<and> op_state_version p = op_state_version leased0 \<and> eligible 1500 p) (lease_update walter (D 0) 1500 60 2) db5
      = Inr (1, ?d)"
    using el by (simp add: update_operations_def sqlite_check_def where_rows_def update_where_def db_defs
        one_unresolved_def leased1_def transition_guard_def operation_row_check_def)
      (simp add: leased0_def lease_update_def pending0_def walter_def no_applied_def no_failed_def not_false_le_def
        not_false_less_def)
  have "tenant_operation ''acme'' (D 0) db6' = Some leased1"
    by (simp add: tenant_operation_def where_rows_def db6'_def leased1_def lease_update_def)
  moreover have "load_operation example_env leased0 = Inr leased0"
    "load_operation example_env leased1 = Inr leased1"
    using leased0_valid leased1_valid by (simp_all add: load_operation_def)
  moreover have "op_attempt_count leased0 = 1" "op_state leased0 = Leased"
    by (simp_all add: leased0_def lease_update_def)
  ultimately have "lease_body example_env walter (D 0) 1500 60 db5 = Inr (Some leased1, db6')"
    using el upd ev db6
    by (simp add: lease_body_def walter_def where_rows_def order_by_def db5_def)
  then show ?thesis
    by (simp add: lease_next_deployment_operation_def require_digest_format transaction_def
        integrity_conflict_def)
qed

lemma example_late_run: "snd (run_once example_env (sqlite_store example_env) example_reconciler
    (example_world 1400 1470) db4) = db5"
  and example_second_request: "target_request example_env (sqlite_store example_env) example_reconciler
    (example_world 1500 1510) db5 = Some (example_request 2)"
proof -
  have fence: "op_lease_fence leased0 = 1" "op_control_id leased0 = ''edr''"
    "op_configuration_digest leased0 = D 0" "rev_control_id approved0 = ''edr''"
    "rev_configuration_digest approved0 = D 0" "op_revision_id leased0 = D 0"
    "op_revision_id leased1 = D 0" "op_control_id leased1 = ''edr''" "op_tenant_id leased1 = ''acme''"
    "op_configuration_digest leased1 = D 0"
    by (simp_all add: row_defs leased1_def lease_update_def moved_def)
  have req: "request_of example_env leased0 approved0 = Inr (example_request 1)"
    "request_of example_env leased1 approved0 = Inr (example_request 2)"
    using example_request_valid [of 1] example_request_valid [of 2]
    by (simp_all add: request_of_def example_request_def row_defs leased1_def moved_def lease_update_def)
  have "get_revision example_env ''acme'' (D 0) db6' = Inr approved0"
    using example_leased_read by (simp add: get_revision_def tenant_revision_def db6'_def)
  note defs = sqlite_store_def example_world_def example_reconciler_def example_token call5 call5'
    example_leased_read fence req this
  show "target_request example_env (sqlite_store example_env) example_reconciler (example_world 1500 1510) db5
      = Some (example_request 2)"
    by (simp add: target_request_def defs)
  have "\<not> holds_lease walter (D 0) 1 1470 leased0" by (simp add: holds_lease_def leased0_def lease_update_def)
  moreover have "tenant_operation ''acme'' (D 0) db5 = Some leased0"
    by (simp add: tenant_operation_def where_rows_def db_defs)
  ultimately have "acknowledge_deployment_applied example_env walter (D 0) (D 0) 1 (D 0) (D 0) (instant 1470) db5
      = (Inl stale_lease, db5)"
    using leased0_valid fence
    by (simp add: acknowledge_deployment_applied_def require_digest_format transaction_def acknowledge_body_def
        load_operation_def close_lease_def walter_def)
  then show "snd (run_once example_env (sqlite_store example_env) example_reconciler
      (example_world 1400 1470) db4) = db5"
    by (simp add: run_once_def reconcile_def conclude_def ack_matches_def obedient_target_def defs
        some_result_def) (simp add: example_request_def)
qed

lemma example_world_interference [simp]:
  "interference E (after_lease (example_world t u))" "interference E (after_target (example_world t u))"
  by (simp_all add: example_world_def interference_id)

theorem applied_means_acknowledged_witness:
  "\<exists>req a. target_request example_env (sqlite_store example_env) example_reconciler (example_world 1400 1410) db4
      = Some req \<and> ensure_applied (example_world 1400 1410) req = TargetAck a
    \<and> ack_applied_configuration_digest a = req_configuration_digest req
    \<and> op_applied_digest (applied_row 1410 (D 0) (D 0) leased0) = Some (req_configuration_digest req)"
  using applied_means_acknowledged [OF inv4 example_world_interference example_run]
  by (auto simp: closed_rows)

theorem last_attempt_resolves_witness: "\<not> unresolved (applied_row 1410 (D 0) (D 0) leased0)"
  by (rule last_attempt_resolves [OF inv4 example_world_interference example_run])
    (simp add: example_reconciler_def closed_rows leased0_def lease_update_def)

theorem repeated_requests_are_fenced_witness:
  "example_request 2 = (example_request 1)\<lparr>req_lease_fence := 2\<rparr> \<and> (1::int) < 2"
proof -
  have "target_request example_env (sqlite_store example_env) example_reconciler (example_world 1500 1510)
      (id (snd (run_once example_env (sqlite_store example_env) example_reconciler (example_world 1400 1470) db4)))
    = Some (example_request 2)"
    by (simp add: example_late_run example_second_request)
  from repeated_requests_are_fenced [OF inv4 example_world_interference example_target_request
      interference_id example_world_interference this]
  show ?thesis by (simp add: idempotency_key_def example_request_def)
qed

end
