(* ===== verification/Lifecycle.thy ===== *)
theory Lifecycle
  imports Models
begin

text \<open>
  Incident lifecycles, from \<^verbatim>\<open>src/src/assurance_lab/lifecycle.py\<close>: the enumerations and value
  objects with their validators, content digests, and the verification of the two recorded branches
  of an incident.

  An aware datetime is its instant in microseconds and its UTC offset: Python compares and hashes
  aware datetimes by the instant, and pydantic writes both into JSON (\<open>datetime_json\<close>, a parameter).
  The sets Python iterates in hash order are walked in the order of the tuples they were built from;
  the order decides only which of several violations is named.
\<close>

section \<open>Enumerations\<close>

datatype lifecycle_phase =
    SourceBound | DetectionClosed | ResponseProbed | RestoreApplied | SessionRotated | Retested | Finalized

fun phase_name :: "lifecycle_phase \<Rightarrow> string" where
  "phase_name SourceBound = ''source_bound''"
| "phase_name DetectionClosed = ''detection_closed''"
| "phase_name ResponseProbed = ''response_probed''"
| "phase_name RestoreApplied = ''restore_applied''"
| "phase_name SessionRotated = ''session_rotated''"
| "phase_name Retested = ''retested''"
| "phase_name Finalized = ''finalized''"

fun phase_rank :: "lifecycle_phase \<Rightarrow> nat" where
  "phase_rank SourceBound = 0"
| "phase_rank DetectionClosed = 1"
| "phase_rank ResponseProbed = 2"
| "phase_rank RestoreApplied = 3"
| "phase_rank SessionRotated = 4"
| "phase_rank Retested = 5"
| "phase_rank Finalized = 6"

datatype branch_kind = Actual | MatchedComparison

fun branch_kind_name :: "branch_kind \<Rightarrow> string" where
  "branch_kind_name Actual = ''actual''"
| "branch_kind_name MatchedComparison = ''matched-comparison''"

datatype compromised_session_state = CompromisedActive | CompromisedRevoked | CompromisedUnknown

fun compromised_name :: "compromised_session_state \<Rightarrow> string" where
  "compromised_name CompromisedActive = ''active''"
| "compromised_name CompromisedRevoked = ''revoked''"
| "compromised_name CompromisedUnknown = ''unknown''"

datatype quarantine_state = Normal | Quarantined | QuarantineUnknown

fun quarantine_name :: "quarantine_state \<Rightarrow> string" where
  "quarantine_name Normal = ''normal''"
| "quarantine_name Quarantined = ''quarantined''"
| "quarantine_name QuarantineUnknown = ''unknown''"

datatype replacement_session_state =
    ReplacementNone | ReplacementActive | ReplacementRevoked | ReplacementUnknown

fun replacement_name :: "replacement_session_state \<Rightarrow> string" where
  "replacement_name ReplacementNone = ''none''"
| "replacement_name ReplacementActive = ''active''"
| "replacement_name ReplacementRevoked = ''revoked''"
| "replacement_name ReplacementUnknown = ''unknown''"

datatype confidentiality_status = NoneObserved | PriorDisclosure | ConfidentialityUnknown

fun confidentiality_name :: "confidentiality_status \<Rightarrow> string" where
  "confidentiality_name NoneObserved = ''none_observed_on_tested_branch''"
| "confidentiality_name PriorDisclosure = ''prior_disclosure_occurred''"
| "confidentiality_name ConfidentialityUnknown = ''unknown''"

datatype lifecycle_action =
    BindSource | CloseDetection | ProbeResponse | ApplyRestore | RotateSession | Retest | Finalize

fun lifecycle_action_name :: "lifecycle_action \<Rightarrow> string" where
  "lifecycle_action_name BindSource = ''bind_source''"
| "lifecycle_action_name CloseDetection = ''close_detection''"
| "lifecycle_action_name ProbeResponse = ''probe_response''"
| "lifecycle_action_name ApplyRestore = ''apply_restore''"
| "lifecycle_action_name RotateSession = ''rotate_session''"
| "lifecycle_action_name Retest = ''retest''"
| "lifecycle_action_name Finalize = ''finalize''"

fun action_destination :: "lifecycle_action \<Rightarrow> lifecycle_phase" where
  "action_destination BindSource = SourceBound"
| "action_destination CloseDetection = DetectionClosed"
| "action_destination ProbeResponse = ResponseProbed"
| "action_destination ApplyRestore = RestoreApplied"
| "action_destination RotateSession = SessionRotated"
| "action_destination Retest = Retested"
| "action_destination Finalize = Finalized"

fun action_origin :: "lifecycle_action \<Rightarrow> lifecycle_phase" where
  "action_origin BindSource = SourceBound"
| "action_origin CloseDetection = SourceBound"
| "action_origin ProbeResponse = DetectionClosed"
| "action_origin ApplyRestore = ResponseProbed"
| "action_origin RotateSession = RestoreApplied"
| "action_origin Retest = SessionRotated"
| "action_origin Finalize = Retested"

datatype disposition = LifecycleCompleted | NoRelatedAlert

fun disposition_name :: "disposition \<Rightarrow> string" where
  "disposition_name LifecycleCompleted = ''lifecycle_completed''"
| "disposition_name NoRelatedAlert = ''no_related_alert''"

section \<open>Value objects\<close>

record aware =
  aw_micros :: int
  aw_offset :: int

record lifecycle_env = model_env +
  datetime_json :: "aware \<Rightarrow> string"

definition bundle_format :: "string \<Rightarrow> bool" where
  "bundle_format s \<longleftrightarrow>
     starts_with ''cab:sha256:'' s \<and> length s = 75 \<and> list_all hex_char (drop 11 s)"

abbreviation nonempty_text :: "string \<Rightarrow> bool" where
  "nonempty_text \<equiv> text_between 1 512"

record disclosure_entry =
  de_record_token :: string
  de_trace_id :: string
  de_event_digest :: string
  de_observed_at :: aware

definition entry_fields_ok :: "disclosure_entry \<Rightarrow> bool" where
  "entry_fields_ok e \<longleftrightarrow> nonempty_text (de_record_token e) \<and> nonempty_text (de_trace_id e)
     \<and> digest_format (de_event_digest e)"

definition validate_ledger :: "disclosure_entry list \<Rightarrow> unit result" where
  "validate_ledger entries =
     (let tokens = map de_record_token entries in
      if \<not> list_all entry_fields_ok entries then Inl (invalid ''disclosure entry fields'')
      else if length tokens \<noteq> card (set tokens)
      then Inl (invalid ''disclosure ledger record tokens must be unique'')
      else if tokens \<noteq> sort tokens
      then Inl (invalid ''disclosure ledger entries must be sorted by record token'')
      else Inr ())"

record snapshot =
  sn_incident_id :: string
  sn_branch_id :: string
  sn_branch_kind :: branch_kind
  sn_ordinal :: int
  sn_phase :: lifecycle_phase
  sn_source_bundle_id :: string
  sn_source_trial_key :: string
  sn_source_trace_id :: string
  sn_principal_id :: string
  sn_entitlement_digest :: string
  sn_compromised_digest :: string
  sn_compromised_state :: compromised_session_state
  sn_quarantine_state :: quarantine_state
  sn_replacement_digest :: "string option"
  sn_replacement_state :: replacement_session_state
  sn_replacement_entitlement :: "string option"
  sn_confidentiality :: confidentiality_status
  sn_ledger :: "disclosure_entry list"
  sn_last_alert_id :: "string option"
  sn_observed_at :: aware
  sn_previous_digest :: "string option"
  sn_evidence_ids :: "string list"

definition snapshot_fields_ok :: "snapshot \<Rightarrow> bool" where
  "snapshot_fields_ok s \<longleftrightarrow>
     nonempty_text (sn_incident_id s) \<and> nonempty_text (sn_branch_id s) \<and> sn_ordinal s \<ge> 1
     \<and> bundle_format (sn_source_bundle_id s) \<and> digest_format (sn_source_trial_key s)
     \<and> nonempty_text (sn_source_trace_id s) \<and> sn_principal_id s = ''support-017''
     \<and> digest_format (sn_entitlement_digest s) \<and> digest_format (sn_compromised_digest s)
     \<and> opt_ok digest_format (sn_replacement_digest s)
     \<and> opt_ok digest_format (sn_replacement_entitlement s)
     \<and> opt_ok nonempty_text (sn_last_alert_id s) \<and> opt_ok digest_format (sn_previous_digest s)
     \<and> list_all digest_format (sn_evidence_ids s) \<and> length (sn_evidence_ids s) \<le> 256"

definition replacement_coherence :: "snapshot \<Rightarrow> unit result" where
  "replacement_coherence s =
     (case sn_replacement_state s of
        ReplacementNone \<Rightarrow>
          if sn_replacement_digest s \<noteq> None \<or> sn_replacement_entitlement s \<noteq> None
          then Inl (invalid ''replacement state none cannot carry replacement material'') else Inr ()
      | ReplacementUnknown \<Rightarrow>
          if sn_replacement_digest s = None \<and> sn_replacement_entitlement s \<noteq> None
          then Inl (invalid ''replacement entitlement cannot exist without a replacement session'')
          else Inr ()
      | _ \<Rightarrow>
          if sn_replacement_digest s = None \<or> sn_replacement_entitlement s = None
          then Inl (invalid ''an active or revoked replacement requires session and entitlement digests'')
          else Inr ())"

definition validate_snapshot :: "snapshot \<Rightarrow> snapshot result" where
  "validate_snapshot s =
     (if \<not> snapshot_fields_ok s then Inl (invalid ''snapshot fields'')
      else rbind (validate_ledger (sn_ledger s)) (\<lambda>_.
      rbind (raise_first
        [(length (sn_evidence_ids s) \<noteq> card (set (sn_evidence_ids s)),
            invalid ''snapshot evidence ids must be unique''),
         (sn_evidence_ids s \<noteq> sort (sn_evidence_ids s),
            invalid ''snapshot evidence ids must be sorted''),
         (sn_ledger s \<noteq> [] \<and> sn_confidentiality s \<noteq> PriorDisclosure,
            invalid ''a non-empty disclosure ledger requires prior_disclosure_occurred''),
         (sn_ledger s = [] \<and> sn_confidentiality s = PriorDisclosure,
            invalid ''prior_disclosure_occurred requires a disclosure ledger entry'')]) (\<lambda>_.
      rbind (replacement_coherence s) (\<lambda>_. Inr s))))"

record transition_body =
  tr_case_spec_digest :: string
  tr_incident_id :: string
  tr_branch_id :: string
  tr_ordinal :: int
  tr_action :: lifecycle_action
  tr_from_digest :: string
  tr_to_digest :: string
  tr_previous_digest :: "string option"
  tr_factor_digest :: string
  tr_trace_id :: string
  tr_started_at :: aware
  tr_ended_at :: aware
  tr_event_artifact_ids :: "string list"
  tr_attestation_bundle :: string
  tr_cleanup_bundle :: string
  tr_disposition :: "disposition option"
  tr_reason :: "string option"

record transition_record = transition_body +
  tr_transition_id :: string

definition transition_fields_ok :: "'a transition_body_scheme \<Rightarrow> bool" where
  "transition_fields_ok b \<longleftrightarrow>
     digest_format (tr_case_spec_digest b) \<and> nonempty_text (tr_incident_id b)
     \<and> nonempty_text (tr_branch_id b) \<and> tr_ordinal b \<ge> 1 \<and> digest_format (tr_from_digest b)
     \<and> digest_format (tr_to_digest b) \<and> opt_ok digest_format (tr_previous_digest b)
     \<and> digest_format (tr_factor_digest b) \<and> nonempty_text (tr_trace_id b)
     \<and> list_all digest_format (tr_event_artifact_ids b) \<and> tr_event_artifact_ids b \<noteq> []
     \<and> length (tr_event_artifact_ids b) \<le> 256 \<and> bundle_format (tr_attestation_bundle b)
     \<and> bundle_format (tr_cleanup_bundle b) \<and> opt_ok nonempty_text (tr_reason b)"

definition validate_transition_body :: "'a transition_body_scheme \<Rightarrow> unit result" where
  "validate_transition_body b =
     (if \<not> transition_fields_ok b then Inl (invalid ''transition fields'')
      else raise_first
        [(aw_micros (tr_ended_at b) \<le> aw_micros (tr_started_at b),
            invalid ''lifecycle transition must have positive duration''),
         (length (tr_event_artifact_ids b) \<noteq> card (set (tr_event_artifact_ids b)),
            invalid ''transition event artifact ids must be unique''),
         (tr_event_artifact_ids b \<noteq> sort (tr_event_artifact_ids b),
            invalid ''transition event artifact ids must be sorted''),
         (tr_action b = Finalize \<and> (tr_disposition b = None \<or> tr_reason b = None),
            invalid ''finalize requires an explicit disposition and reason''),
         (tr_action b \<noteq> Finalize \<and> (tr_disposition b \<noteq> None \<or> tr_reason b \<noteq> None),
            invalid ''only finalize can carry a finalization disposition'')])"

record incident_branch =
  br_branch_kind :: branch_kind
  br_snapshots :: "snapshot list"
  br_transitions :: "transition_record list"

record incident_lifecycle =
  lc_actual :: incident_branch
  lc_matched_comparison :: incident_branch
  lc_current_digest :: string

record admitted_receipt =
  rc_record_token :: string
  rc_trace_id :: string
  rc_event_digest :: string
  rc_observed_at :: aware

record verified_lifecycle =
  vl_incident_id :: string
  vl_current_digest :: string
  vl_actual_head :: string
  vl_comparison_head :: string
  vl_actual_transition_ids :: "string list"
  vl_comparison_transition_ids :: "string list"

section \<open>Content digests\<close>

definition jtexts :: "string list \<Rightarrow> json" where
  "jtexts ss = JArr (map jtext ss)"

definition entry_json :: "'e lifecycle_env_scheme \<Rightarrow> disclosure_entry \<Rightarrow> json" where
  "entry_json E e = jobject
     [(''record_token'', jtext (de_record_token e)),
      (''first_delivery_trace_id'', jtext (de_trace_id e)),
      (''first_delivery_event_digest'', jtext (de_event_digest e)),
      (''first_observed_at'', jtext (datetime_json E (de_observed_at e)))]"

definition snapshot_json :: "'e lifecycle_env_scheme \<Rightarrow> snapshot \<Rightarrow> json" where
  "snapshot_json E s = jobject
     [(''schema_name'', jtext ''assurance-lab.incident-snapshot/v1''),
      (''incident_id'', jtext (sn_incident_id s)), (''branch_id'', jtext (sn_branch_id s)),
      (''branch_kind'', jtext (branch_kind_name (sn_branch_kind s))),
      (''ordinal'', JInt (sn_ordinal s)), (''phase'', jtext (phase_name (sn_phase s))),
      (''source_prevention_bundle_id'', jtext (sn_source_bundle_id s)),
      (''source_trial_key'', jtext (sn_source_trial_key s)),
      (''source_trace_id'', jtext (sn_source_trace_id s)),
      (''principal_id'', jtext (sn_principal_id s)),
      (''entitlement_set_digest'', jtext (sn_entitlement_digest s)),
      (''compromised_session_digest'', jtext (sn_compromised_digest s)),
      (''compromised_session_state'', jtext (compromised_name (sn_compromised_state s))),
      (''quarantine_state'', jtext (quarantine_name (sn_quarantine_state s))),
      (''replacement_session_digest'', jopt (sn_replacement_digest s)),
      (''replacement_session_state'', jtext (replacement_name (sn_replacement_state s))),
      (''replacement_entitlement_digest'', jopt (sn_replacement_entitlement s)),
      (''confidentiality_status'', jtext (confidentiality_name (sn_confidentiality s))),
      (''disclosure_ledger'', jobject
         [(''data_class'', jtext ''customer_confidential''),
          (''entries'', JArr (map (entry_json E) (sn_ledger s)))]),
      (''last_alert_id'', jopt (sn_last_alert_id s)),
      (''observed_at'', jtext (datetime_json E (sn_observed_at s))),
      (''previous_snapshot_digest'', jopt (sn_previous_digest s)),
      (''evidence_ids'', jtexts (sn_evidence_ids s))]"

definition transition_json :: "'e lifecycle_env_scheme \<Rightarrow> 'a transition_body_scheme \<Rightarrow> json" where
  "transition_json E b = jobject
     [(''case_spec_digest'', jtext (tr_case_spec_digest b)),
      (''incident_id'', jtext (tr_incident_id b)), (''branch_id'', jtext (tr_branch_id b)),
      (''ordinal'', JInt (tr_ordinal b)), (''action'', jtext (lifecycle_action_name (tr_action b))),
      (''from_snapshot_digest'', jtext (tr_from_digest b)),
      (''to_snapshot_digest'', jtext (tr_to_digest b)),
      (''previous_transition_digest'', jopt (tr_previous_digest b)),
      (''factor_assignment_digest'', jtext (tr_factor_digest b)),
      (''trace_id'', jtext (tr_trace_id b)),
      (''started_at'', jtext (datetime_json E (tr_started_at b))),
      (''ended_at'', jtext (datetime_json E (tr_ended_at b))),
      (''event_artifact_ids'', jtexts (tr_event_artifact_ids b)),
      (''attestation_bundle_digest'', jtext (tr_attestation_bundle b)),
      (''cleanup_bundle_digest'', jtext (tr_cleanup_bundle b)),
      (''finalization_disposition'', jopt (map_option disposition_name (tr_disposition b))),
      (''finalization_reason'', jopt (tr_reason b))]"

definition incident_snapshot_digest :: "'e lifecycle_env_scheme \<Rightarrow> snapshot \<Rightarrow> string result" where
  "incident_snapshot_digest E s =
     rbind (canonical E (snapshot_json E s)) (\<lambda>b. Inr (sha256_bytes E b))"

definition incident_transition_body_digest ::
  "'e lifecycle_env_scheme \<Rightarrow> 'a transition_body_scheme \<Rightarrow> string result" where
  "incident_transition_body_digest E b =
     rbind (canonical E (transition_json E b)) (\<lambda>c. Inr (sha256_bytes E c))"

text \<open>The digest of a record revalidates its body, without the id, first.\<close>

definition incident_transition_digest ::
  "'e lifecycle_env_scheme \<Rightarrow> transition_record \<Rightarrow> string result" where
  "incident_transition_digest E t =
     rbind (validate_transition_body t) (\<lambda>_. incident_transition_body_digest E t)"

definition validate_transition_record ::
  "'e lifecycle_env_scheme \<Rightarrow> transition_record \<Rightarrow> transition_record result" where
  "validate_transition_record E t =
     rbind (validate_transition_body t) (\<lambda>_.
     if \<not> digest_format (tr_transition_id t) then Inl (invalid ''transition_id'')
     else rbind (field_error (incident_transition_digest E t)) (\<lambda>i.
       if tr_transition_id t \<noteq> i
       then Inl (invalid ''transition_id does not match the canonical transition body'')
       else Inr t))"

definition from_body :: "'e lifecycle_env_scheme \<Rightarrow> transition_body \<Rightarrow> transition_record result" where
  "from_body E b =
     rbind (incident_transition_body_digest E b) (\<lambda>i.
     validate_transition_record E (transition_body.extend b \<lparr>tr_transition_id = i\<rparr>))"

section \<open>Evidence keys\<close>

type_synonym receipt_key = "string \<times> string \<times> string \<times> int"

definition receipt_key :: "admitted_receipt \<Rightarrow> receipt_key" where
  "receipt_key r = (rc_record_token r, rc_trace_id r, rc_event_digest r, aw_micros (rc_observed_at r))"

definition entry_key :: "disclosure_entry \<Rightarrow> receipt_key" where
  "entry_key e = (de_record_token e, de_trace_id e, de_event_digest e, aw_micros (de_observed_at e))"

text \<open>Two entries are equal in Python when their fields are, instants compared as instants.\<close>

definition same_entry :: "disclosure_entry \<Rightarrow> disclosure_entry \<Rightarrow> bool" where
  "same_entry e f \<longleftrightarrow> entry_key e = entry_key f"

text \<open>\<open>{entry.record_token: entry for entry in entries}\<close>: a later entry replaces an earlier one.\<close>

definition ledger_dict :: "disclosure_entry list \<Rightarrow> string \<Rightarrow> disclosure_entry option" where
  "ledger_dict entries = map_of (rev (map (\<lambda>e. (de_record_token e, e)) entries))"

definition branch_identity :: "snapshot \<Rightarrow> string \<times> string \<times> string \<times> string \<times> string \<times> string" where
  "branch_identity s = (sn_incident_id s, sn_source_bundle_id s, sn_source_trial_key s,
     sn_source_trace_id s, sn_principal_id s, sn_compromised_digest s)"

definition snapshot_event_keys :: "snapshot \<Rightarrow> snapshot \<Rightarrow> (string \<times> string) list" where
  "snapshot_event_keys source s =
     map (Pair ''artifact'') (filter (\<lambda>v. v \<notin> set (sn_evidence_ids source)) (sn_evidence_ids s))
     @ (case sn_last_alert_id s of None \<Rightarrow> [] | Some a \<Rightarrow> [(''alert'', a)])
     @ map (\<lambda>e. (''delivery'', de_event_digest e))
         (filter (\<lambda>e. \<not> (case ledger_dict (sn_ledger source) (de_record_token e) of
             None \<Rightarrow> False | Some f \<Rightarrow> same_entry f e)) (sn_ledger s))"

definition transition_event_keys :: "transition_record \<Rightarrow> (string \<times> string) list" where
  "transition_event_keys t =
     (''trace'', tr_trace_id t) # map (Pair ''artifact'') (tr_event_artifact_ids t)
     @ [(''bundle'', tr_attestation_bundle t), (''bundle'', tr_cleanup_bundle t)]"

definition branch_event_keys :: "incident_branch \<Rightarrow> (string \<times> string) list" where
  "branch_event_keys b =
     (case br_snapshots b of [] \<Rightarrow> []
      | source # later \<Rightarrow> concat (map (snapshot_event_keys source) later))
     @ concat (map transition_event_keys (br_transitions b))"

section \<open>Verification of one branch\<close>

abbreviation fault :: "string \<Rightarrow> py_error" where
  "fault \<equiv> LifecycleVerificationError"

fun each :: "('a \<Rightarrow> unit result) \<Rightarrow> 'a list \<Rightarrow> unit result" where
  "each f [] = Inr ()"
| "each f (x # xs) = rbind (f x) (\<lambda>_. each f xs)"

definition verify_replacement :: "snapshot \<Rightarrow> unit result" where
  "verify_replacement s =
     (if sn_replacement_digest s = Some (sn_compromised_digest s)
      then Inl (fault ''replacement session must be distinct from the compromised session'')
      else Inr ())"

definition verify_new_entry ::
  "receipt_key set \<Rightarrow> string list \<Rightarrow> aware option \<Rightarrow> aware \<Rightarrow> disclosure_entry \<Rightarrow> unit result" where
  "verify_new_entry receipt_keys evidence_ids observed_after observed_before e = raise_first
     [(entry_key e \<notin> receipt_keys,
         fault ''new disclosure requires matching admitted receipt evidence''),
      (de_event_digest e \<notin> set evidence_ids,
         fault ''new disclosure receipt must be referenced by the admitting evidence''),
      (\<not> opt_ok (\<lambda>t. aw_micros t \<le> aw_micros (de_observed_at e)) observed_after,
         fault ''new disclosure receipt predates the transition that admits it''),
      (aw_micros (de_observed_at e) > aw_micros observed_before,
         fault ''new disclosure receipt postdates the snapshot that records it'')]"

definition verify_disclosure_delta ::
  "disclosure_entry list \<Rightarrow> disclosure_entry list \<Rightarrow> receipt_key set \<Rightarrow> string list \<Rightarrow> aware option \<Rightarrow> aware
     \<Rightarrow> unit result" where
  "verify_disclosure_delta prior current receipt_keys evidence_ids observed_after observed_before =
     (let previous = map de_record_token prior; present = map de_record_token current in
      if list_ex (\<lambda>k. k \<notin> set present) previous
      then Inl (fault ''disclosure ledger entries cannot be removed'')
      else if list_ex (\<lambda>k. \<not> same_entry (the (ledger_dict current k)) (the (ledger_dict prior k))) previous
      then Inl (fault ''disclosure ledger entries cannot be rewritten'')
      else each (\<lambda>k. verify_new_entry receipt_keys evidence_ids observed_after observed_before
                   (the (ledger_dict current k)))
             (filter (\<lambda>k. k \<notin> set previous) present))"

definition no_alert_finalization :: "branch_kind \<Rightarrow> snapshot \<Rightarrow> snapshot \<Rightarrow> transition_record \<Rightarrow> bool" where
  "no_alert_finalization kind source target t \<longleftrightarrow>
     kind = Actual \<and> sn_phase source = DetectionClosed \<and> sn_phase target = Finalized
     \<and> tr_action t = Finalize \<and> tr_disposition t = Some NoRelatedAlert
     \<and> sn_last_alert_id source = None \<and> sn_last_alert_id target = None"

definition verify_phase_transition ::
  "branch_kind \<Rightarrow> snapshot \<Rightarrow> snapshot \<Rightarrow> transition_record \<Rightarrow> unit result" where
  "verify_phase_transition kind source target t =
     (if phase_rank (sn_phase target) < phase_rank (sn_phase source)
      then Inl (fault ''lifecycle phase rollback is not allowed'')
      else if sn_phase target \<noteq> action_destination (tr_action t)
      then Inl (fault ''transition action does not match destination phase'')
      else if sn_phase source = action_origin (tr_action t)
      then (if tr_action t = Finalize \<and> tr_disposition t \<noteq> Some LifecycleCompleted
            then Inl (fault ''normal finalization requires lifecycle_completed disposition'')
            else Inr ())
      else if \<not> no_alert_finalization kind source target t
      then Inl (fault ''transition skipped a required lifecycle phase'') else Inr ())"

text \<open>The checks of the loop body that concern one snapshot; the state is the replacement seen last.\<close>

definition is_no_alert_final :: "transition_record option \<Rightarrow> snapshot \<Rightarrow> bool" where
  "is_no_alert_final t s = (case t of None \<Rightarrow> False
     | Some t \<Rightarrow> sn_phase s = Finalized \<and> tr_action t = Finalize
         \<and> tr_disposition t = Some NoRelatedAlert)"

definition rotated_checks :: "snapshot \<Rightarrow> (bool \<times> py_error) list" where
  "rotated_checks s =
     [(sn_compromised_state s \<noteq> CompromisedRevoked,
         fault ''session_rotated and later snapshots require the compromised session revoked''),
      (sn_replacement_digest s = None,
         fault ''session_rotated and later snapshots require a replacement session''),
      (sn_replacement_state s \<noteq> ReplacementActive,
         fault ''session_rotated and later snapshots require an active replacement session''),
      (sn_replacement_entitlement s \<noteq> Some (sn_entitlement_digest s),
         fault ''replacement entitlement must equal the restored current entitlement''),
      (sn_quarantine_state s \<noteq> Normal,
         fault ''session_rotated and later snapshots require principal quarantine released'')]"

definition verify_snapshot ::
  "incident_branch \<Rightarrow> snapshot \<Rightarrow> nat \<Rightarrow> transition_record option \<Rightarrow> string option
     \<Rightarrow> replacement_session_state \<Rightarrow> snapshot \<Rightarrow> (string option \<times> replacement_session_state) result" where
  "verify_snapshot b first index t previous_replacement previous_state s =
     rbind (raise_first
       [(sn_ordinal s \<noteq> int index + 1, fault ''snapshot ordinals must be contiguous from one''),
        (sn_branch_kind s \<noteq> br_branch_kind b \<or> sn_branch_id s \<noteq> sn_branch_id first,
           fault ''snapshot crossed its declared branch boundary''),
        (branch_identity s \<noteq> branch_identity first,
           fault ''incident, source, principal, or compromised session changed within a branch'')]) (\<lambda>_.
     rbind (verify_replacement s) (\<lambda>_.
     rbind (raise_first
       [(previous_replacement \<noteq> None \<and> sn_replacement_digest s \<noteq> previous_replacement,
           fault ''replacement session identity cannot change after rotation''),
        (previous_state = ReplacementRevoked \<and> sn_replacement_state s \<noteq> ReplacementRevoked,
           fault ''a revoked replacement session cannot reactivate''),
        (previous_state \<in> {ReplacementActive, ReplacementRevoked}
           \<and> sn_replacement_state s = ReplacementUnknown,
           fault ''a known replacement session state cannot regress to unknown''),
        (phase_rank (sn_phase s) < phase_rank SessionRotated \<and> sn_replacement_digest s \<noteq> None,
           fault ''a replacement session cannot exist before rotate_session'')]) (\<lambda>_.
     rbind (if phase_rank (sn_phase s) \<ge> phase_rank SessionRotated \<and> \<not> is_no_alert_final t s
            then raise_first (rotated_checks s) else Inr ()) (\<lambda>_.
     Inr (if sn_replacement_digest s \<noteq> None then sn_replacement_digest s else previous_replacement,
          sn_replacement_state s)))))"

text \<open>The checks of the loop body that concern a snapshot, its predecessor and their transition.\<close>

definition alert_established :: "snapshot \<Rightarrow> snapshot \<Rightarrow> transition_record \<Rightarrow> bool" where
  "alert_established source s t \<longleftrightarrow> tr_action t = CloseDetection \<and> sn_last_alert_id source = None
     \<and> sn_last_alert_id s \<noteq> None"

definition valid_revocation :: "snapshot \<Rightarrow> snapshot \<Rightarrow> transition_record \<Rightarrow> bool" where
  "valid_revocation source s t \<longleftrightarrow> tr_action t = ProbeResponse
     \<and> sn_compromised_state source = CompromisedActive \<and> sn_compromised_state s = CompromisedRevoked"

definition link_checks ::
  "snapshot \<Rightarrow> nat \<Rightarrow> snapshot \<Rightarrow> string \<Rightarrow> string \<Rightarrow> string option \<Rightarrow> transition_record \<Rightarrow> snapshot
     \<Rightarrow> (bool \<times> py_error) list" where
  "link_checks first index source source_digest digest previous_transition t s =
     [(sn_previous_digest s \<noteq> Some source_digest, fault ''snapshot predecessor digest is broken''),
      (aw_micros (sn_observed_at s) < aw_micros (sn_observed_at source),
         fault ''snapshot observation times must be monotone''),
      (tr_ordinal t \<noteq> int index, fault ''transition ordinals must be contiguous from one''),
      (tr_incident_id t \<noteq> sn_incident_id first \<or> tr_branch_id t \<noteq> sn_branch_id first,
         fault ''transition crossed its incident or branch boundary''),
      (tr_from_digest t \<noteq> source_digest, fault ''transition input is not the preceding snapshot''),
      (tr_to_digest t \<noteq> digest, fault ''transition output is not the following snapshot''),
      (aw_micros (tr_started_at t) < aw_micros (sn_observed_at source),
         fault ''transition starts before its input snapshot''),
      (aw_micros (tr_ended_at t) > aw_micros (sn_observed_at s),
         fault ''transition ends after its output snapshot''),
      (\<not> list_all (\<lambda>v. v \<in> set (sn_evidence_ids s)) (tr_event_artifact_ids t),
         fault ''transition event artifacts must be bound into the target snapshot''),
      (tr_previous_digest t \<noteq> previous_transition, fault ''transition predecessor digest is broken'')]"

definition verify_link ::
  "'e lifecycle_env_scheme \<Rightarrow> incident_branch \<Rightarrow> snapshot \<Rightarrow> receipt_key set \<Rightarrow> nat \<Rightarrow> snapshot \<Rightarrow> string option
     \<Rightarrow> transition_record \<Rightarrow> snapshot \<Rightarrow> unit result" where
  "verify_link E b first receipt_keys index source previous_transition t s =
     rbind (incident_snapshot_digest E source) (\<lambda>source_digest.
     rbind (incident_snapshot_digest E s) (\<lambda>digest.
     rbind (raise_first (link_checks first index source source_digest digest previous_transition t s)) (\<lambda>_.
     rbind (incident_transition_digest E t) (\<lambda>i.
     rbind (if tr_transition_id t \<noteq> i
            then Inl (fault ''transition content address is invalid'') else Inr ()) (\<lambda>_.
     rbind (verify_phase_transition (br_branch_kind b) source s t) (\<lambda>_.
     rbind (raise_first
       [(sn_entitlement_digest s \<noteq> sn_entitlement_digest source \<and> tr_action t \<noteq> ApplyRestore,
           fault ''entitlement set can change only during apply_restore''),
        (sn_last_alert_id s \<noteq> sn_last_alert_id source \<and> \<not> alert_established source s t,
           fault (''alert identity can only be established during close_detection ''
             @ ''and cannot later change or disappear'')),
        (sn_compromised_state s \<noteq> sn_compromised_state source \<and> \<not> valid_revocation source s t,
           fault (''compromised session state can only change active to revoked ''
             @ ''during probe_response''))]) (\<lambda>_.
     rbind (verify_disclosure_delta (sn_ledger source) (sn_ledger s) receipt_keys
              (tr_event_artifact_ids t) (Some (tr_started_at t)) (tr_ended_at t)) (\<lambda>_.
     raise_first
       [(tr_action t = RotateSession \<and> sn_replacement_state s \<noteq> ReplacementActive,
           fault ''rotate_session must produce an active replacement session''),
        (tr_action t = RotateSession \<and> sn_compromised_state s \<noteq> CompromisedRevoked,
           fault ''rotate_session must revoke the compromised session'')]))))))))"

text \<open>The loop over the snapshots after the first.\<close>

fun verify_steps ::
  "'e lifecycle_env_scheme \<Rightarrow> incident_branch \<Rightarrow> snapshot \<Rightarrow> receipt_key set \<Rightarrow> nat \<Rightarrow> snapshot \<Rightarrow> string option
     \<Rightarrow> string option \<times> replacement_session_state \<Rightarrow> snapshot list \<Rightarrow> transition_record list \<Rightarrow> unit result" where
  "verify_steps E b first receipt_keys index source previous_transition st [] ts = Inr ()"
| "verify_steps E b first receipt_keys index source previous_transition st (s # ss) [] =
     Inl (IndexError ''tuple index out of range'')"
| "verify_steps E b first receipt_keys index source previous_transition st (s # ss) (t # ts) =
     rbind (verify_snapshot b first index (Some t) (fst st) (snd st) s) (\<lambda>st'.
     rbind (verify_link E b first receipt_keys index source previous_transition t s) (\<lambda>_.
     verify_steps E b first receipt_keys (index + 1) s (Some (tr_transition_id t)) st' ss ts))"

definition transition_bundle_ids :: "transition_record list \<Rightarrow> string list" where
  "transition_bundle_ids ts = concat (map (\<lambda>t. [tr_attestation_bundle t, tr_cleanup_bundle t]) ts)"

definition branch_checks :: "snapshot \<Rightarrow> transition_record list \<Rightarrow> (bool \<times> py_error) list" where
  "branch_checks first ts =
     (let trace_ids = map tr_trace_id ts;
          event_artifact_ids = concat (map tr_event_artifact_ids ts);
          bundle_ids = transition_bundle_ids ts in
      [(card (set (map tr_case_spec_digest ts)) > 1, fault ''case specification changed within a branch''),
       (length trace_ids \<noteq> card (set trace_ids),
          fault ''transition traces cannot be reused within a branch''),
       (length event_artifact_ids \<noteq> card (set event_artifact_ids),
          fault ''transition event artifacts cannot be reused within a branch''),
       (length bundle_ids \<noteq> card (set bundle_ids),
          fault ''attestation and cleanup bundles cannot be reused within a branch''),
       (sn_source_trace_id first \<in> set trace_ids,
          fault ''post-fork transitions cannot reuse the source trace''),
       (sn_source_bundle_id first \<in> set bundle_ids,
          fault ''post-fork transitions cannot reuse the source prevention bundle''),
       (list_ex (\<lambda>v. v \<in> set event_artifact_ids)
          (sn_evidence_ids first @ map de_event_digest (sn_ledger first)),
          fault ''post-fork transitions cannot reuse source-fixture event evidence'')])"

definition source_checks :: "incident_branch \<Rightarrow> snapshot \<Rightarrow> (bool \<times> py_error) list" where
  "source_checks b first =
     [(br_branch_kind b \<noteq> sn_branch_kind first, fault ''branch kind does not match its snapshots''),
      (sn_ordinal first \<noteq> 1 \<or> sn_phase first \<noteq> SourceBound,
         fault ''a lifecycle branch must begin at source_bound ordinal 1''),
      (sn_previous_digest first \<noteq> None, fault ''the source-bound snapshot cannot have a predecessor''),
      (sn_compromised_state first \<noteq> CompromisedActive,
         fault ''the source-bound snapshot must begin with the compromised session active''),
      (sn_quarantine_state first \<noteq> Normal,
         fault ''the source-bound snapshot must begin before principal quarantine''),
      (sn_last_alert_id first \<noteq> None,
         fault ''the source-bound snapshot cannot claim a later detection alert''),
      (length (br_transitions b) \<noteq> length (br_snapshots b) - 1,
         fault ''each adjacent snapshot pair requires one transition'')]"

definition verify_branch ::
  "'e lifecycle_env_scheme \<Rightarrow> incident_branch \<Rightarrow> receipt_key set \<Rightarrow> unit result" where
  "verify_branch E b receipt_keys =
     (case br_snapshots b of
        [] \<Rightarrow> Inl (IndexError ''tuple index out of range'')
      | first # later \<Rightarrow>
          rbind (raise_first (source_checks b first)) (\<lambda>_.
          rbind (verify_replacement first) (\<lambda>_.
          rbind (verify_disclosure_delta [] (sn_ledger first) receipt_keys (sn_evidence_ids first) None
                   (sn_observed_at first)) (\<lambda>_.
          rbind (verify_snapshot b first 0 None None ReplacementNone first) (\<lambda>st.
          rbind (verify_steps E b first receipt_keys 1 first None st later (br_transitions b)) (\<lambda>_.
          raise_first (branch_checks first (br_transitions b))))))))"

section \<open>Verification of a lifecycle\<close>

definition branch_entries :: "incident_branch \<Rightarrow> disclosure_entry list" where
  "branch_entries b = concat (map sn_ledger (br_snapshots b))"

definition branch_replacements :: "incident_branch \<Rightarrow> string list" where
  "branch_replacements b = concat (map (\<lambda>s. case sn_replacement_digest s of None \<Rightarrow> [] | Some d \<Rightarrow> [d])
     (br_snapshots b))"

definition kind_checks :: "incident_lifecycle \<Rightarrow> (bool \<times> py_error) list" where
  "kind_checks l =
     [(br_branch_kind (lc_actual l) \<noteq> Actual, fault ''actual slot requires an actual branch''),
      (br_branch_kind (lc_matched_comparison l) \<noteq> MatchedComparison,
         fault ''matched_comparison slot requires a matched-comparison branch'')]"

definition matching_checks :: "incident_branch \<Rightarrow> incident_branch \<Rightarrow> (bool \<times> py_error) list" where
  "matching_checks a c =
     (let a0 = hd (br_snapshots a); c0 = hd (br_snapshots c) in
      [(sn_branch_id a0 = sn_branch_id c0, fault ''actual and comparison branch ids must differ''),
       (branch_identity a0 \<noteq> branch_identity c0,
          fault ''comparison is not matched to the same incident and preventive source''),
       (sn_entitlement_digest a0 \<noteq> sn_entitlement_digest c0,
          fault ''comparison is not matched to the same source entitlement set''),
       (set (map tr_case_spec_digest (br_transitions a)) \<noteq> set (map tr_case_spec_digest (br_transitions c)),
          fault ''branches do not share one case specification''),
       (set (map tr_factor_digest (br_transitions a)) \<inter> set (map tr_factor_digest (br_transitions c)) \<noteq> {},
          fault ''matched branches require distinct factor assignments''),
       (set (branch_event_keys a) \<inter> set (branch_event_keys c) \<noteq> {},
          fault (''actual and comparison branches cannot reuse event or ''
            @ ''transition-bundle evidence'')),
       (set (branch_replacements a) \<inter> set (branch_replacements c) \<noteq> {},
          fault ''actual and comparison branches require distinct replacement sessions'')])"

definition verify_current ::
  "string \<Rightarrow> string list \<Rightarrow> string list \<Rightarrow> string result" where
  "verify_current current actual_digests comparison_digests =
     (if current \<in> set comparison_digests
      then Inl (fault ''a matched-comparison snapshot cannot qualify as current evidence'')
      else let head = last actual_digests in
      if current \<noteq> head
      then (if current \<in> set actual_digests
            then Inl (fault ''only the actual branch head can qualify as current evidence'')
            else Inl (fault ''current snapshot is not part of the actual branch''))
      else Inr head)"

definition verify_lifecycle ::
  "'e lifecycle_env_scheme \<Rightarrow> incident_lifecycle \<Rightarrow> admitted_receipt list \<Rightarrow> verified_lifecycle result" where
  "verify_lifecycle E l admitted_receipts =
     (let actual = lc_actual l; comparison = lc_matched_comparison l;
          receipt_values = map receipt_key admitted_receipts; receipt_keys = set receipt_values in
      rbind (raise_first (kind_checks l)) (\<lambda>_.
      if length receipt_values \<noteq> card receipt_keys
      then Inl (fault ''admitted receipt evidence must be unique'')
      else rbind (verify_branch E actual receipt_keys) (\<lambda>_.
      rbind (verify_branch E comparison receipt_keys) (\<lambda>_.
      if receipt_keys \<noteq> set (map entry_key (branch_entries actual @ branch_entries comparison))
      then Inl (fault ''admitted receipt evidence must exactly match disclosed ledger entries'')
      else rbind (raise_first (matching_checks actual comparison)) (\<lambda>_.
      rbind (rmap (incident_snapshot_digest E) (br_snapshots actual)) (\<lambda>actual_digests.
      rbind (rmap (incident_snapshot_digest E) (br_snapshots comparison)) (\<lambda>comparison_digests.
      rbind (verify_current (lc_current_digest l) actual_digests comparison_digests) (\<lambda>head.
      Inr \<lparr>vl_incident_id = sn_incident_id (hd (br_snapshots actual)),
           vl_current_digest = lc_current_digest l, vl_actual_head = head,
           vl_comparison_head = last comparison_digests,
           vl_actual_transition_ids = map tr_transition_id (br_transitions actual),
           vl_comparison_transition_ids = map tr_transition_id (br_transitions comparison)\<rparr>))))))))"

end
