(* ===== verification/Lifecycle_Props.thy ===== *)
theory Lifecycle_Props
  imports Lifecycle Reconciler_Props
begin

text \<open>
  Properties of verified lifecycles: what every pair of adjacent snapshots satisfies, the facts that
  hold between any two snapshots of a branch because they are preserved by every step, the order of
  phases, the current-state claim, and tamper evidence of the digest chain.
\<close>

section \<open>Steps of a verified branch\<close>

text \<open>One verified step from a snapshot through its transition to the next.\<close>

definition lifecycle_step ::
  "'e lifecycle_env_scheme \<Rightarrow> incident_branch \<Rightarrow> receipt_key set \<Rightarrow> snapshot \<Rightarrow> transition_record \<Rightarrow> snapshot \<Rightarrow> bool" where
  "lifecycle_step E b keys s t s' \<longleftrightarrow>
     (\<exists>first index prev. verify_link E b first keys index s prev t s' = Inr ())
     \<and> (\<exists>first index r st st'. verify_snapshot b first index (Some t) r st s' = Inr st'
          \<and> (sn_replacement_digest s \<noteq> None \<longrightarrow> r = sn_replacement_digest s) \<and> st = sn_replacement_state s)"

fun step_path ::
  "(snapshot \<Rightarrow> transition_record \<Rightarrow> snapshot \<Rightarrow> bool) \<Rightarrow> snapshot \<Rightarrow> snapshot list \<Rightarrow> transition_record list \<Rightarrow> bool" where
  "step_path R s [] ts \<longleftrightarrow> ts = []"
| "step_path R s (s' # ss) [] \<longleftrightarrow> False"
| "step_path R s (s' # ss) (t # ts) \<longleftrightarrow> R s t s' \<and> step_path R s' ss ts"

lemma verify_snapshot_state:
  "verify_snapshot b first i t r st s = Inr st' \<Longrightarrow>
    st' = (if sn_replacement_digest s \<noteq> None then sn_replacement_digest s else r, sn_replacement_state s)"
  by (auto simp: verify_snapshot_def rbind_eq_Inr)

lemma verify_steps_path:
  "verify_steps E b first keys i s prev st ss ts = Inr () \<Longrightarrow> length ts = length ss \<Longrightarrow>
    (sn_replacement_digest s \<noteq> None \<longrightarrow> fst st = sn_replacement_digest s) \<Longrightarrow> snd st = sn_replacement_state s \<Longrightarrow>
    step_path (lifecycle_step E b keys) s ss ts"
proof (induction E b first keys i s prev st ss ts rule: verify_steps.induct)
  case (3 E b first keys i s prev st s' ss t ts)
  from 3(2) obtain st' where v: "verify_snapshot b first i (Some t) (fst st) (snd st) s' = Inr st'"
    "verify_link E b first keys i s prev t s' = Inr ()"
    "verify_steps E b first keys (i + 1) s' (Some (tr_transition_id t)) st' ss ts = Inr ()"
    by (auto simp: rbind_eq_Inr)
  then have "lifecycle_step E b keys s t s'" using 3(4,5) unfolding lifecycle_step_def by blast
  moreover have "step_path (lifecycle_step E b keys) s' ss ts"
    using 3(1) [OF v(1,2,3)] 3(3) verify_snapshot_state [OF v(1)] by simp
  ultimately show ?case by simp
qed simp_all

lemma verify_branch_path:
  assumes "verify_branch E b keys = Inr ()"
  shows "\<exists>first later. br_snapshots b = first # later \<and> sn_phase first = SourceBound
    \<and> sn_ordinal first = 1 \<and> sn_previous_digest first = None
    \<and> step_path (lifecycle_step E b keys) first later (br_transitions b)"
proof -
  from assms obtain first later st where b: "br_snapshots b = first # later"
    and src: "raise_first (source_checks b first) = Inr ()"
    and st: "verify_snapshot b first 0 None None ReplacementNone first = Inr st"
    and steps: "verify_steps E b first keys 1 first None st later (br_transitions b) = Inr ()"
    by (auto simp: verify_branch_def rbind_eq_Inr split: list.splits)
  have "length (br_transitions b) = length later" "sn_phase first = SourceBound" "sn_ordinal first = 1"
    "sn_previous_digest first = None"
    using src b by (auto simp: raise_first_Inr source_checks_def simp del: raise_first.simps)
  moreover have "step_path (lifecycle_step E b keys) first later (br_transitions b)"
    using verify_steps_path [OF steps] calculation(1) verify_snapshot_state [OF st] by simp
  ultimately show ?thesis using b by blast
qed

text \<open>A reflexive and transitive relation that every step satisfies holds along the path.\<close>

lemma step_path_forward:
  assumes "step_path R s ss ts" "\<And>s t s'. R s t s' \<Longrightarrow> Q s s'" "reflp Q" "transp Q"
    and "i \<le> j" "j < length (s # ss)"
  shows "Q ((s # ss) ! i) ((s # ss) ! j)"
  using assms(1,5,6)
proof (induction ss arbitrary: s ts i j)
  case Nil
  then show ?case using assms(3) by (simp add: reflpD)
next
  case (Cons s' ss)
  then obtain t ts' where ts: "ts = t # ts'" "R s t s'" "step_path R s' ss ts'" by (cases ts) auto
  show ?case
  proof (cases i)
    case 0
    show ?thesis
    proof (cases j)
      case 0
      with \<open>i = 0\<close> show ?thesis using assms(3) by (simp add: reflpD)
    next
      case (Suc k)
      then have "Q s' ((s' # ss) ! k)" using Cons.IH [OF ts(3), of 0 k] Cons.prems(3) by simp
      then show ?thesis using assms(2) [OF ts(2)] assms(4) \<open>i = 0\<close> Suc by (auto elim: transpE)
    qed
  next
    case (Suc k)
    then show ?thesis using Cons.IH [OF ts(3), of k "j - 1"] Cons.prems by (cases j) auto
  qed
qed

section \<open>What a step preserves\<close>

definition forward :: "snapshot \<Rightarrow> snapshot \<Rightarrow> bool" where
  "forward s s' \<longleftrightarrow> phase_rank (sn_phase s) \<le> phase_rank (sn_phase s')
     \<and> aw_micros (sn_observed_at s) \<le> aw_micros (sn_observed_at s')
     \<and> (sn_compromised_state s = CompromisedRevoked \<longrightarrow> sn_compromised_state s' = CompromisedRevoked)
     \<and> (sn_last_alert_id s \<noteq> None \<longrightarrow> sn_last_alert_id s' = sn_last_alert_id s)
     \<and> (sn_replacement_digest s \<noteq> None \<longrightarrow> sn_replacement_digest s' = sn_replacement_digest s)
     \<and> (sn_replacement_state s = ReplacementRevoked \<longrightarrow> sn_replacement_state s' = ReplacementRevoked)
     \<and> (\<forall>k e. ledger_dict (sn_ledger s) k = Some e \<longrightarrow>
          (\<exists>e'. ledger_dict (sn_ledger s') k = Some e' \<and> entry_key e' = entry_key e))"

lemma forward_preorder: "reflp forward" "transp forward"
  by (auto simp: reflp_def) (fastforce simp: forward_def transp_def)+

lemma ledger_dict_None: "ledger_dict es k = None \<longleftrightarrow> k \<notin> set (map de_record_token es)"
  by (force simp: ledger_dict_def map_of_eq_None_iff)

lemma disclosure_delta_keeps:
  assumes "verify_disclosure_delta prior current keys ids a b = Inr ()" "ledger_dict prior k = Some e"
  shows "\<exists>e'. ledger_dict current k = Some e' \<and> entry_key e' = entry_key e"
proof -
  have k: "k \<in> set (map de_record_token prior)" using assms(2) ledger_dict_None [of prior k] by force
  then have "k \<in> set (map de_record_token current)"
    "same_entry (the (ledger_dict current k)) (the (ledger_dict prior k))"
    using assms(1) by (auto simp: verify_disclosure_delta_def Let_def list_ex_iff split: if_splits)
  moreover from this(1) obtain e' where "ledger_dict current k = Some e'" using ledger_dict_None by blast
  ultimately show ?thesis using assms(2) by (simp add: same_entry_def)
qed

lemma lifecycle_step_forward:
  assumes "lifecycle_step E b keys s t s'"
  shows "forward s s'"
proof -
  from assms obtain first i prev where l: "verify_link E b first keys i s prev t s' = Inr ()"
    by (auto simp: lifecycle_step_def)
  from assms obtain first' i' r st st' where v: "verify_snapshot b first' i' (Some t) r st s' = Inr st'"
    "sn_replacement_digest s \<noteq> None \<longrightarrow> r = sn_replacement_digest s" "st = sn_replacement_state s"
    by (auto simp: lifecycle_step_def)
  have "verify_disclosure_delta (sn_ledger s) (sn_ledger s') keys (tr_event_artifact_ids t)
      (Some (tr_started_at t)) (tr_ended_at t) = Inr ()"
    and ph: "verify_phase_transition (br_branch_kind b) s s' t = Inr ()"
    and "aw_micros (sn_observed_at s) \<le> aw_micros (sn_observed_at s')"
    and "sn_last_alert_id s' \<noteq> sn_last_alert_id s \<longrightarrow> alert_established s s' t"
    and "sn_compromised_state s' \<noteq> sn_compromised_state s \<longrightarrow> valid_revocation s s' t"
    using l by (auto simp: verify_link_def rbind_eq_Inr raise_first_Inr link_checks_def simp del: raise_first.simps)
  moreover have "phase_rank (sn_phase s) \<le> phase_rank (sn_phase s')"
    using ph by (auto simp: verify_phase_transition_def split: if_splits)
  moreover have "sn_replacement_digest s \<noteq> None \<longrightarrow> sn_replacement_digest s' = sn_replacement_digest s"
    "sn_replacement_state s = ReplacementRevoked \<longrightarrow> sn_replacement_state s' = ReplacementRevoked"
    using v by (auto simp: verify_snapshot_def rbind_eq_Inr raise_first_Inr simp del: raise_first.simps)
  ultimately show ?thesis
    using disclosure_delta_keeps [of "sn_ledger s" "sn_ledger s'"]
    by (auto simp: forward_def alert_established_def valid_revocation_def)
qed

lemma verify_lifecycle_branches:
  assumes "verify_lifecycle E l rs = Inr v" "b \<in> {lc_actual l, lc_matched_comparison l}"
  shows "verify_branch E b (set (map receipt_key rs)) = Inr ()"
  using assms by (auto simp: verify_lifecycle_def Let_def rbind_eq_Inr split: if_splits)

text \<open>
  C10. In either branch of a verified lifecycle, between any two snapshots in order: phases and
  observation times do not go back, a revoked session stays revoked, an alert or a replacement
  session once recorded stays the same, and every disclosure entry is kept unchanged.
\<close>

theorem lifecycle_moves_forward:
  assumes "verify_lifecycle E l rs = Inr v" "b \<in> {lc_actual l, lc_matched_comparison l}"
    and "i \<le> j" "j < length (br_snapshots b)"
  shows "forward (br_snapshots b ! i) (br_snapshots b ! j)"
proof -
  obtain first later where b: "br_snapshots b = first # later"
    "step_path (lifecycle_step E b (set (map receipt_key rs))) first later (br_transitions b)"
    using verify_branch_path [OF verify_lifecycle_branches [OF assms(1,2)]] by blast
  show ?thesis
    using step_path_forward [OF b(2) _ forward_preorder assms(3)] lifecycle_step_forward assms(4)
    unfolding b(1) by blast
qed

section \<open>The order of phases\<close>

lemma action_rank: "phase_rank (action_destination a) \<le> phase_rank (action_origin a) + 1"
  by (cases a) auto

lemma lifecycle_step_phase:
  assumes "lifecycle_step E b keys s t s'"
  shows "sn_phase s \<noteq> Finalized"
    and "no_alert_finalization (br_branch_kind b) s s' t \<or> phase_rank (sn_phase s') \<le> phase_rank (sn_phase s) + 1"
proof -
  have ph: "verify_phase_transition (br_branch_kind b) s s' t = Inr ()"
    using assms by (auto simp: lifecycle_step_def verify_link_def rbind_eq_Inr simp del: raise_first.simps)
  show "sn_phase s \<noteq> Finalized"
  proof
    assume f: "sn_phase s = Finalized"
    have "action_origin a \<noteq> Finalized" for a by (cases a) auto
    then have "sn_phase s \<noteq> action_origin (tr_action t)" using f by metis
    then show False using ph f by (auto simp: verify_phase_transition_def no_alert_finalization_def split: if_splits)
  qed
  show "no_alert_finalization (br_branch_kind b) s s' t \<or> phase_rank (sn_phase s') \<le> phase_rank (sn_phase s) + 1"
    using ph action_rank [of "tr_action t"] by (auto simp: verify_phase_transition_def split: if_splits)
qed

lemma step_path_phases:
  assumes "step_path (lifecycle_step E b keys) s ss ts"
    and "\<And>p. phase_rank p \<le> phase_rank (sn_phase s) \<Longrightarrow> p \<in> seen"
    and "j < length (s # ss)" "phase_rank p \<le> phase_rank (sn_phase ((s # ss) ! j))"
  shows "p \<in> seen \<or> p \<in> sn_phase ` set (take (Suc j) (s # ss))
    \<or> 0 < j \<and> no_alert_finalization (br_branch_kind b) ((s # ss) ! (j - 1)) ((s # ss) ! j) (ts ! (j - 1))"
  using assms
proof (induction ss arbitrary: s ts j seen)
  case Nil
  then show ?case by simp
next
  case (Cons s' ss)
  then obtain t ts' where ts: "ts = t # ts'" "lifecycle_step E b keys s t s'"
    "step_path (lifecycle_step E b keys) s' ss ts'" by (cases ts) auto
  show ?case
  proof (cases j)
    case 0
    then show ?thesis using Cons.prems(2,4) by simp
  next
    case (Suc k)
    show ?thesis
    proof (cases "no_alert_finalization (br_branch_kind b) s s' t")
      case True
      then have "ss = []"
        using ts(3) lifecycle_step_phase(1) [of E b keys s']
        by (cases ss; cases ts') (auto simp: no_alert_finalization_def)
      then show ?thesis using True Suc ts Cons.prems(3) by simp
    next
      case False
      have "q \<in> insert (sn_phase s') seen" if "phase_rank q \<le> phase_rank (sn_phase s')" for q
      proof -
        have "phase_rank (sn_phase s') \<le> phase_rank (sn_phase s) + 1"
          using lifecycle_step_phase(2) [OF ts(2)] False by blast
        then have "phase_rank q \<le> phase_rank (sn_phase s) \<or> phase_rank q = phase_rank (sn_phase s')"
          using that by auto
        moreover have "phase_rank q = phase_rank (sn_phase s') \<Longrightarrow> q = sn_phase s'"
          by (cases q; cases "sn_phase s'") auto
        ultimately show ?thesis using Cons.prems(2) by blast
      qed
      from Cons.IH [OF ts(3) this, of k] Cons.prems(3,4) Suc ts(1) show ?thesis
        by (cases k) (auto simp: nth_Cons')
    qed
  qed
qed

text \<open>
  C11. No phase is skipped: when a snapshot of a verified branch has reached a phase, every earlier
  phase occurs in the branch up to it. The only exception is an actual branch whose detection closed
  without any alert and which was finalized from there with that disposition.
\<close>

theorem no_phase_is_skipped:
  assumes "verify_lifecycle E l rs = Inr v" "b \<in> {lc_actual l, lc_matched_comparison l}"
    and "j < length (br_snapshots b)" "phase_rank p \<le> phase_rank (sn_phase (br_snapshots b ! j))"
  shows "p \<in> sn_phase ` set (take (Suc j) (br_snapshots b))
    \<or> 0 < j \<and> no_alert_finalization (br_branch_kind b) (br_snapshots b ! (j - 1)) (br_snapshots b ! j)
        (br_transitions b ! (j - 1))"
proof -
  obtain first later where b: "br_snapshots b = first # later" "sn_phase first = SourceBound"
    "step_path (lifecycle_step E b (set (map receipt_key rs))) first later (br_transitions b)"
    using verify_branch_path [OF verify_lifecycle_branches [OF assms(1,2)]] by blast
  have "q = SourceBound" if "phase_rank q \<le> phase_rank (sn_phase first)" for q
    using that b(2) by (cases q) auto
  then show ?thesis
    using step_path_phases [OF b(3), of "{SourceBound}" j p] assms(3,4) b(1,2) by auto
qed

section \<open>The current state\<close>

lemma rmap_nth: "rmap f xs = Inr ys \<Longrightarrow> length ys = length xs \<and> (\<forall>i < length xs. f (xs ! i) = Inr (ys ! i))"
  by (auto simp: rmap_Inr list_all2_conv_all_nth)

lemma verified_head:
  assumes "verify_lifecycle E l rs = Inr v"
  shows "br_snapshots (lc_actual l) \<noteq> []"
    "incident_snapshot_digest E (last (br_snapshots (lc_actual l))) = Inr (vl_actual_head v)"
    "vl_actual_head v = lc_current_digest l" "vl_current_digest v = lc_current_digest l"
    "\<forall>s \<in> set (br_snapshots (lc_matched_comparison l)). incident_snapshot_digest E s \<noteq> Inr (lc_current_digest l)"
proof -
  let ?a = "br_snapshots (lc_actual l)" and ?c = "br_snapshots (lc_matched_comparison l)"
  show ne: "?a \<noteq> []" using verify_branch_path [OF verify_lifecycle_branches [OF assms, of "lc_actual l"]] by auto
  from assms obtain as cs head where as: "rmap (incident_snapshot_digest E) ?a = Inr as"
    and cs: "rmap (incident_snapshot_digest E) ?c = Inr cs"
    and head: "verify_current (lc_current_digest l) as cs = Inr head"
    and v: "vl_current_digest v = lc_current_digest l" "vl_actual_head v = head"
    by (auto simp: verify_lifecycle_def Let_def rbind_eq_Inr split: if_splits)
  have h: "lc_current_digest l \<notin> set cs" "head = last as" "lc_current_digest l = last as"
    using head by (auto simp: verify_current_def Let_def split: if_splits)
  have "length as = length ?a" "incident_snapshot_digest E (?a ! (length ?a - 1)) = Inr (as ! (length ?a - 1))"
    using rmap_nth [OF as] ne by auto
  moreover from this have "as \<noteq> []" using ne by auto
  ultimately show "incident_snapshot_digest E (last ?a) = Inr (vl_actual_head v)"
    using ne h(2) v(2) by (simp add: last_conv_nth)
  show "vl_actual_head v = lc_current_digest l" "vl_current_digest v = lc_current_digest l" using h v by auto
  show "\<forall>s \<in> set ?c. incident_snapshot_digest E s \<noteq> Inr (lc_current_digest l)"
    using rmap_nth [OF cs] h(1) by (metis Inr_inject in_set_conv_nth)
qed

text \<open>
  C12. A verified lifecycle's current state is the last snapshot of the actual branch: its digest is
  the claimed one, and no snapshot of the matched comparison has that digest.
\<close>

theorem current_state_is_actual_head:
  assumes "verify_lifecycle E l rs = Inr v"
  shows "br_snapshots (lc_actual l) \<noteq> []
    \<and> incident_snapshot_digest E (last (br_snapshots (lc_actual l))) = Inr (lc_current_digest l)
    \<and> vl_current_digest v = lc_current_digest l \<and> vl_actual_head v = lc_current_digest l
    \<and> (\<forall>s \<in> set (br_snapshots (lc_matched_comparison l)).
         incident_snapshot_digest E s \<noteq> Inr (lc_current_digest l))"
  using verified_head [OF assms] by metis

section \<open>Content addresses of transitions\<close>

lemma extend_body [simp]:
  "validate_transition_body (transition_body.extend b \<lparr>tr_transition_id = i\<rparr>) = validate_transition_body b"
  "transition_json E (transition_body.extend b \<lparr>tr_transition_id = i\<rparr>) = transition_json E b"
  by (simp_all add: transition_body.defs validate_transition_body_def transition_fields_ok_def transition_json_def)

text \<open>
  Sealing a valid transition body succeeds exactly when its canonical text exists, and gives the
  body back with its content address: the record validates, and any other id for the same body does
  not.
\<close>

theorem sealed_transitions:
  assumes "\<And>c. digest_format (sha256_bytes E c)" "validate_transition_body b = Inr ()"
  shows "(case canonical E (transition_json E b) of
      Inl e \<Rightarrow> from_body E b = Inl e
    | Inr c \<Rightarrow> from_body E b = Inr (transition_body.extend b \<lparr>tr_transition_id = sha256_bytes E c\<rparr>)
        \<and> (\<forall>i. (\<exists>t. validate_transition_record E (transition_body.extend b \<lparr>tr_transition_id = i\<rparr>) = Inr t)
             \<longleftrightarrow> i = sha256_bytes E c))"
proof (cases "canonical E (transition_json E b)")
  case (Inl e)
  then show ?thesis by (simp add: from_body_def incident_transition_body_digest_def)
next
  case (Inr c)
  have "tr_transition_id (transition_body.extend b \<lparr>tr_transition_id = i\<rparr>) = i" for i
    by (simp add: transition_body.defs)
  then show ?thesis
    using Inr assms
    by (auto simp: from_body_def incident_transition_body_digest_def validate_transition_record_def
        incident_transition_digest_def field_error_def split: if_splits)
qed

section \<open>Tamper evidence\<close>

definition snapshot_texts :: "'e lifecycle_env_scheme \<Rightarrow> incident_branch \<Rightarrow> bytes set" where
  "snapshot_texts E b = {c. \<exists>s \<in> set (br_snapshots b). canonical E (snapshot_json E s) = Inr c}"

lemma snapshot_json_plain: "plain_json (snapshot_json E s)"
  by (simp add: snapshot_json_def jtexts_def entry_json_def list_all_iff)

lemma transition_json_plain: "plain_json (transition_json E t)"
  by (simp add: transition_json_def jtexts_def list_all_iff)

lemma snapshot_json_link:
  assumes "jcs_text_law E DEFAULT_JSON_LIMITS" "canonical E (snapshot_json E s) = Inr c"
    "canonical E (snapshot_json E s') = Inr c"
  shows "sn_previous_digest s = sn_previous_digest s'"
proof -
  have previous: "dict_get (snapshot_json E s) ''previous_snapshot_digest'' = Some (jopt (sn_previous_digest s))" for s
    by (simp add: snapshot_json_def dict_get_jobject)
  have "same_json (snapshot_json E s) (snapshot_json E s')"
    by (rule canonical_injective [OF assms(1) snapshot_json_plain snapshot_json_plain
          assms(2,3) [unfolded canonical_def]])
  from same_json_member [OF this snapshot_json_plain previous] show ?thesis by (simp add: previous)
qed

fun digest_chain :: "'e lifecycle_env_scheme \<Rightarrow> string option \<Rightarrow> snapshot list \<Rightarrow> bool" where
  "digest_chain E prev [] \<longleftrightarrow> True"
| "digest_chain E prev (s # ss) \<longleftrightarrow> sn_previous_digest s = prev
     \<and> (\<exists>d. incident_snapshot_digest E s = Inr d \<and> digest_chain E (Some d) ss)"

lemma step_path_chain:
  "step_path (lifecycle_step E b keys) s ss ts \<Longrightarrow> incident_snapshot_digest E (last (s # ss)) = Inr d \<Longrightarrow>
    digest_chain E (sn_previous_digest s) (s # ss)"
proof (induction ss arbitrary: s ts)
  case (Cons s' ss)
  then obtain t ts' where ts: "ts = t # ts'" "lifecycle_step E b keys s t s'"
    "step_path (lifecycle_step E b keys) s' ss ts'" by (cases ts) auto
  obtain d' where "incident_snapshot_digest E s = Inr d'" "sn_previous_digest s' = Some d'"
    using ts(2) by (auto simp: lifecycle_step_def verify_link_def rbind_eq_Inr raise_first_Inr link_checks_def
        simp del: raise_first.simps)
  then show ?case using Cons.IH [OF ts(3)] Cons.prems(2) by simp
qed simp

lemma digest_chain_snoc:
  "digest_chain E prev (ss @ [s]) \<longleftrightarrow> digest_chain E prev ss
    \<and> (if ss = [] then sn_previous_digest s = prev
       else (\<exists>d. incident_snapshot_digest E (last ss) = Inr d \<and> sn_previous_digest s = Some d))
    \<and> (\<exists>d. incident_snapshot_digest E s = Inr d)"
proof (induction ss arbitrary: prev)
  case (Cons x ss)
  show ?case by (cases ss) (use Cons in auto)
qed auto

lemma digest_chains_equal:
  assumes "jcs_text_law E DEFAULT_JSON_LIMITS"
    and "\<And>c c'. c \<in> C \<Longrightarrow> c' \<in> C' \<Longrightarrow> sha256_bytes E c = sha256_bytes E c' \<Longrightarrow> c = c'"
    and "digest_chain E None xs" "digest_chain E None ys" "xs \<noteq> []" "ys \<noteq> []"
    and "incident_snapshot_digest E (last xs) = incident_snapshot_digest E (last ys)"
    and "\<And>s c. s \<in> set xs \<Longrightarrow> canonical E (snapshot_json E s) = Inr c \<Longrightarrow> c \<in> C"
    and "\<And>s c. s \<in> set ys \<Longrightarrow> canonical E (snapshot_json E s) = Inr c \<Longrightarrow> c \<in> C'"
  shows "map (\<lambda>s. canonical E (snapshot_json E s)) xs = map (\<lambda>s. canonical E (snapshot_json E s)) ys"
  using assms(3-)
proof (induction xs arbitrary: ys rule: rev_induct)
  case (snoc x xs)
  then obtain y ys' where ys: "ys = ys' @ [y]" by (cases ys rule: rev_cases) auto
  obtain c c' where c: "canonical E (snapshot_json E x) = Inr c" "canonical E (snapshot_json E y) = Inr c'"
    using snoc.prems(1,2) ys by (auto simp: digest_chain_snoc incident_snapshot_digest_def rbind_eq_Inr)
  have "sha256_bytes E c = sha256_bytes E c'"
    using snoc.prems(5) c ys by (simp add: incident_snapshot_digest_def)
  moreover have "c \<in> C" "c' \<in> C'" using snoc.prems(6) [of x c] snoc.prems(7) [of y c'] c ys by auto
  ultimately have eq: "c = c'" using assms(2) by blast
  have prev: "sn_previous_digest x = sn_previous_digest y"
    using snapshot_json_link [OF assms(1) c(1) c(2) [folded eq]] .
  have "map (\<lambda>s. canonical E (snapshot_json E s)) xs = map (\<lambda>s. canonical E (snapshot_json E s)) ys'"
  proof (cases "xs = [] \<or> ys' = []")
    case True
    then have "xs = [] \<and> ys' = []"
      using prev snoc.prems(1,2) ys by (auto simp: digest_chain_snoc split: if_splits)
    then show ?thesis by simp
  next
    case False
    then show ?thesis
      using snoc.prems ys prev by (intro snoc.IH) (auto simp: digest_chain_snoc)
  qed
  then show ?case using ys c eq by simp
qed simp

lemma verified_digest_chain:
  assumes "verify_lifecycle E l rs = Inr v"
  shows "digest_chain E None (br_snapshots (lc_actual l)) \<and> br_snapshots (lc_actual l) \<noteq> []
    \<and> incident_snapshot_digest E (last (br_snapshots (lc_actual l))) = Inr (vl_actual_head v)"
proof -
  obtain first later where b: "br_snapshots (lc_actual l) = first # later" "sn_previous_digest first = None"
    "step_path (lifecycle_step E (lc_actual l) (set (map receipt_key rs))) first later (br_transitions (lc_actual l))"
    using verify_branch_path [OF verify_lifecycle_branches [OF assms, of "lc_actual l"]] by blast
  have h: "incident_snapshot_digest E (last (first # later)) = Inr (vl_actual_head v)"
    using verified_head [OF assms] b(1) by simp
  show ?thesis using step_path_chain [OF b(3) h] b h by simp
qed

lemma snapshot_texts_in:
  "s \<in> set (br_snapshots b) \<Longrightarrow> canonical E (snapshot_json E s) = Inr c \<Longrightarrow> c \<in> snapshot_texts E b"
  by (auto simp: snapshot_texts_def)

lemma disjCI_left: "(\<not> P \<Longrightarrow> Q) \<Longrightarrow> P \<or> Q"
  by blast

text \<open>
  C9. The record is tamper evident: two verified lifecycles with the same head digest have, snapshot
  by snapshot, the same canonical text in their actual branches, unless two different snapshot texts
  of theirs have the same SHA-256 digest.
\<close>

theorem lifecycle_tamper_evident:
  assumes "jcs_text_law E DEFAULT_JSON_LIMITS" "verify_lifecycle E l rs = Inr v" "verify_lifecycle E l' rs' = Inr v'"
    and "vl_actual_head v = vl_actual_head v'"
  shows "(\<exists>c \<in> snapshot_texts E (lc_actual l). \<exists>c' \<in> snapshot_texts E (lc_actual l').
      c \<noteq> c' \<and> sha256_bytes E c = sha256_bytes E c')
    \<or> map (\<lambda>s. canonical E (snapshot_json E s)) (br_snapshots (lc_actual l))
      = map (\<lambda>s. canonical E (snapshot_json E s)) (br_snapshots (lc_actual l'))"
proof (rule disjCI_left)
  assume "\<not> (\<exists>c \<in> snapshot_texts E (lc_actual l). \<exists>c' \<in> snapshot_texts E (lc_actual l').
      c \<noteq> c' \<and> sha256_bytes E c = sha256_bytes E c')"
  then have nc: "c = c'" if "c \<in> snapshot_texts E (lc_actual l)" "c' \<in> snapshot_texts E (lc_actual l')"
    "sha256_bytes E c = sha256_bytes E c'" for c c'
    using that by blast
  show "map (\<lambda>s. canonical E (snapshot_json E s)) (br_snapshots (lc_actual l))
      = map (\<lambda>s. canonical E (snapshot_json E s)) (br_snapshots (lc_actual l'))"
    using verified_digest_chain [OF assms(2)] verified_digest_chain [OF assms(3)] assms(4)
    by (intro digest_chains_equal [OF assms(1), where C = "snapshot_texts E (lc_actual l)"
          and C' = "snapshot_texts E (lc_actual l')"])
      (simp_all add: nc snapshot_texts_in)
qed

end
