(* ===== verification/Lifecycle_Example.thy ===== *)
theory Lifecycle_Example
  imports Lifecycle_Props
begin

text \<open>
  A concrete lifecycle of two branches with one transition each, an environment in which it
  verifies, and the properties of the previous theory at this input.
\<close>

section \<open>The record\<close>

definition at_second :: "int \<Rightarrow> aware" where
  "at_second t = \<lparr>aw_micros = t * 1000000, aw_offset = 0\<rparr>"

definition B :: "int \<Rightarrow> string" where
  "B k = ''cab:'' @ D k"

definition entry0 :: disclosure_entry where
  "entry0 = \<lparr>de_record_token = ''rec-1'', de_trace_id = ''src'', de_event_digest = D 0,
     de_observed_at = at_second 5\<rparr>"

definition receipt0 :: admitted_receipt where
  "receipt0 = \<lparr>rc_record_token = ''rec-1'', rc_trace_id = ''src'', rc_event_digest = D 0,
     rc_observed_at = at_second 5\<rparr>"

definition source_snapshot :: "branch_kind \<Rightarrow> string \<Rightarrow> snapshot" where
  "source_snapshot k i = \<lparr>sn_incident_id = ''inc'', sn_branch_id = i, sn_branch_kind = k, sn_ordinal = 1,
     sn_phase = SourceBound, sn_source_bundle_id = B 0, sn_source_trial_key = D 0,
     sn_source_trace_id = ''src'', sn_principal_id = ''support-017'', sn_entitlement_digest = D 0,
     sn_compromised_digest = D 0, sn_compromised_state = CompromisedActive, sn_quarantine_state = Normal,
     sn_replacement_digest = None, sn_replacement_state = ReplacementNone,
     sn_replacement_entitlement = None, sn_confidentiality = PriorDisclosure, sn_ledger = [entry0],
     sn_last_alert_id = None, sn_observed_at = at_second 10, sn_previous_digest = None,
     sn_evidence_ids = [D 0]\<rparr>"

definition detected_snapshot :: "snapshot \<Rightarrow> string \<Rightarrow> string \<Rightarrow> string \<Rightarrow> snapshot" where
  "detected_snapshot s alert prev artifact = s\<lparr>sn_ordinal := 2, sn_phase := DetectionClosed,
     sn_last_alert_id := Some alert, sn_observed_at := at_second 30, sn_previous_digest := Some prev,
     sn_evidence_ids := [artifact]\<rparr>"

definition detection :: "string \<Rightarrow> int \<Rightarrow> int \<Rightarrow> int \<Rightarrow> int \<Rightarrow> transition_record" where
  "detection i src dst factor n = \<lparr>tr_case_spec_digest = D 0, tr_incident_id = ''inc'', tr_branch_id = i,
     tr_ordinal = 1, tr_action = CloseDetection, tr_from_digest = D src, tr_to_digest = D dst,
     tr_previous_digest = None, tr_factor_digest = D factor, tr_trace_id = i,
     tr_started_at = at_second 15, tr_ended_at = at_second 25, tr_event_artifact_ids = [D factor],
     tr_attestation_bundle = B src, tr_cleanup_bundle = B dst, tr_disposition = None, tr_reason = None,
     tr_transition_id = D n\<rparr>"

definition s0 :: snapshot where "s0 = source_snapshot Actual ''a''"
definition s1 :: snapshot where "s1 = detected_snapshot s0 ''alert-a'' (D 1) (D 5)"
definition c0 :: snapshot where "c0 = source_snapshot MatchedComparison ''c''"
definition c1 :: snapshot where "c1 = detected_snapshot c0 ''alert-c'' (D 3) (D 6)"
definition d0 :: snapshot where "d0 = source_snapshot MatchedComparison ''d''"
definition d1 :: snapshot where "d1 = detected_snapshot d0 ''alert-d'' (D 5) (D 6)"
definition t1 :: transition_record where "t1 = detection ''a'' 1 2 5 8"
definition u1 :: transition_record where "u1 = detection ''c'' 3 4 6 9"
definition w1 :: transition_record where "w1 = detection ''d'' 5 6 6 7"

lemmas record_defs = s1_def c1_def d1_def s0_def c0_def d0_def t1_def u1_def w1_def source_snapshot_def detected_snapshot_def
  detection_def

definition example_lifecycle :: incident_lifecycle where
  "example_lifecycle = \<lparr>lc_actual = \<lparr>br_branch_kind = Actual, br_snapshots = [s0, s1], br_transitions = [t1]\<rparr>,
     lc_matched_comparison = \<lparr>br_branch_kind = MatchedComparison, br_snapshots = [c0, c1], br_transitions = [u1]\<rparr>,
     lc_current_digest = D 2\<rparr>"

text \<open>The same actual branch beside another comparison.\<close>

definition other_lifecycle :: incident_lifecycle where
  "other_lifecycle = example_lifecycle\<lparr>lc_matched_comparison :=
     \<lparr>br_branch_kind = MatchedComparison, br_snapshots = [d0, d1], br_transitions = [w1]\<rparr>\<rparr>"

section \<open>The environment\<close>

definition base_env :: lifecycle_env where
  "base_env = model_env.extend example_env \<lparr>datetime_json = (\<lambda>t. ''1970-01-01T00:00:00Z'')\<rparr>"

definition known_texts :: "(json \<times> int) list" where
  "known_texts = [(snapshot_json base_env s0, 1), (snapshot_json base_env s1, 2),
     (snapshot_json base_env c0, 3), (snapshot_json base_env c1, 4),
     (snapshot_json base_env d0, 5), (snapshot_json base_env d1, 6), (transition_json base_env w1, 7),
     (transition_json base_env t1, 8), (transition_json base_env u1, 9)]"

definition known_table :: "(json \<times> bytes) list" where
  "known_table = map (\<lambda>(v, k). (v, line_of k)) known_texts"

definition lifecycle_example_env :: lifecycle_env where
  "lifecycle_example_env = base_env\<lparr>rfc8785_dump := table_dump known_table, json_scan := table_scan known_table\<rparr>"

lemma env_json [simp]:
  "snapshot_json lifecycle_example_env s = snapshot_json base_env s"
  "transition_json lifecycle_example_env t = transition_json base_env t"
  by (simp_all add: lifecycle_example_env_def snapshot_json_def transition_json_def entry_json_def [abs_def])

lemma env_sha [simp]: "sha256_bytes lifecycle_example_env (line_of k) = D k"
  by (simp add: lifecycle_example_env_def base_env_def sha256_bytes_def D_def example_env_def model_env.defs)

text \<open>Values whose texts, keys and collections are short; their trees are valid.\<close>

definition small :: "nat \<Rightarrow> json \<Rightarrow> bool" where
  "small n v \<longleftrightarrow> json_depth v \<le> n \<and> list_all (node_ok DEFAULT_JSON_LIMITS) (json_nodes v)"

lemma small_scalar [simp]:
  "length s \<le> 1000 \<Longrightarrow> small n (jtext s)" "small n JNull" "small n (jopt None)"
  "length s \<le> 1000 \<Longrightarrow> small n (jopt (Some s))" "small n (JInt 1)" "small n (JInt 2)"
  by (simp_all add: small_def jtext_def jopt_def DEFAULT_JSON_LIMITS_def I_JSON_MAX_INTEGER_def text_of_def
      no_surrogate_text [unfolded text_of_def])

lemma small_items:
  "list_all (small n) vs \<Longrightarrow> items_depth vs \<le> Suc n
    \<and> list_all (node_ok DEFAULT_JSON_LIMITS) (items_nodes vs)"
  by (induction vs) (auto simp: small_def)

lemma small_array [simp]:
  "length vs \<le> 1000 \<Longrightarrow> list_all (small n) vs \<Longrightarrow> small (Suc n) (JArr vs)"
  using small_items [of n vs] by (simp add: small_def DEFAULT_JSON_LIMITS_def)

lemma small_members:
  "list_all (\<lambda>(k, v). length k \<le> 1000 \<and> small n v) ms \<Longrightarrow>
    members_depth (map (\<lambda>(k, v). (KStr (text_of k), v)) ms) \<le> Suc n
    \<and> list_all (\<lambda>m. key_ok DEFAULT_JSON_LIMITS (fst m)) (map (\<lambda>(k, v). (KStr (text_of k), v)) ms)
    \<and> list_all (node_ok DEFAULT_JSON_LIMITS) (members_nodes (map (\<lambda>(k, v). (KStr (text_of k), v)) ms))"
  by (induction ms) (auto simp: small_def DEFAULT_JSON_LIMITS_def text_of_def
      no_surrogate_text [unfolded text_of_def])

lemma small_object [simp]:
  "length ms \<le> 1000 \<Longrightarrow> list_all (\<lambda>(k, v). length k \<le> 1000 \<and> small n v) ms \<Longrightarrow> small (Suc n) (jobject ms)"
  using small_members [of n ms] by (simp add: small_def jobject_def DEFAULT_JSON_LIMITS_def)

lemma small_valid: "small n v \<Longrightarrow> n \<le> 64 \<Longrightarrow> validate_tree DEFAULT_JSON_LIMITS 0 v = Inr ()"
  by (simp add: small_def validate_tree_iff DEFAULT_JSON_LIMITS_def)

lemma small_known: "\<forall>(v, k) \<in> set known_texts. small (Suc (Suc (Suc (Suc 0)))) v"
proof -
  have len: "length (B k) = 75" for k by (simp add: B_def)
  have t: "datetime_json base_env t = ''1970-01-01T00:00:00Z''" for t
    by (simp add: base_env_def model_env.defs)
  show ?thesis
    by (simp add: known_texts_def snapshot_json_def transition_json_def record_defs entry_json_def
        entry0_def jtexts_def len t)
qed

text \<open>The schema name, the branch and the ordinal tell the six texts apart.\<close>

definition json_key :: "json \<Rightarrow> json option \<times> json option \<times> json option" where
  "json_key v = (dict_get v ''schema_name'', dict_get v ''branch_id'', dict_get v ''ordinal'')"

lemma json_key_simps [simp]:
  "json_key (snapshot_json E s) = (Some (jtext ''assurance-lab.incident-snapshot/v1''),
     Some (jtext (sn_branch_id s)), Some (JInt (sn_ordinal s)))"
  "json_key (transition_json E t) = (None, Some (jtext (tr_branch_id t)), Some (JInt (tr_ordinal t)))"
  by (simp_all add: json_key_def snapshot_json_def transition_json_def dict_get_jobject)

lemma record_keys [simp]:
  "sn_branch_id d0 = ''d''" "sn_branch_id d1 = ''d''" "sn_ordinal d0 = 1" "sn_ordinal d1 = 2"
  "tr_branch_id w1 = ''d''" "tr_transition_id w1 = D 7" "tr_ordinal w1 = 1"
  "sn_branch_id s0 = ''a''" "sn_branch_id s1 = ''a''" "sn_branch_id c0 = ''c''" "sn_branch_id c1 = ''c''"
  "sn_ordinal s0 = 1" "sn_ordinal s1 = 2" "sn_ordinal c0 = 1" "sn_ordinal c1 = 2"
  "tr_branch_id t1 = ''a''" "tr_branch_id u1 = ''c''" "tr_transition_id t1 = D 8" "tr_transition_id u1 = D 9"
  by (simp_all add: record_defs)

lemma known_plain: "(v, k) \<in> set known_texts \<Longrightarrow> plain_json v"
  by (auto simp: known_texts_def snapshot_json_plain transition_json_plain)

lemma known_scalars: "(v, k) \<in> set known_texts \<Longrightarrow> pred_option scalar (dict_get v m)"
  if "m \<in> {''schema_name'', ''branch_id'', ''ordinal''}"
  using that by (auto simp: known_texts_def snapshot_json_def transition_json_def dict_get_jobject)

lemma known_distinct: "distinct (map (json_key \<circ> fst) known_texts)"
  by (simp add: known_texts_def jtext_def)

lemma known_apart:
  assumes "(v, k) \<in> set known_texts" "(w, j) \<in> set known_texts" "same_json v w"
  shows "v = w \<and> k = j"
proof -
  have "dict_get w m = dict_get v m" if "m \<in> {''schema_name'', ''branch_id'', ''ordinal''}" for m
    using same_json_member_eq [OF assms(3) known_plain [OF assms(1)] known_scalars [OF that assms(1)]] .
  then have "json_key w = json_key v" by (simp add: json_key_def)
  moreover have "inj_on (json_key \<circ> fst) (set known_texts)"
    using known_distinct unfolding distinct_map by blast
  ultimately have "(w, j) = (v, k)" using assms(1,2) by (auto dest: inj_onD [of _ _ "(w, j)" "(v, k)"])
  then show ?thesis by simp
qed

lemma known_dump:
  assumes "(v, k) \<in> set known_texts"
  shows "rfc8785_dump lifecycle_example_env v = ([line_of k], None)"
proof -
  have "table_dump known_table v = ([line_of k], None)"
  proof (rule table_dump_known)
    show "(v, line_of k) \<in> set known_table" using assms by (force simp: known_table_def)
    fix e assume "e \<in> set known_table" "same_json (fst e) v"
    then obtain w j where "e = (w, line_of j)" "(w, j) \<in> set known_texts" "same_json w v"
      by (auto simp: known_table_def)
    then show "e = (v, line_of k)" using known_apart assms by blast
  qed
  then show ?thesis by (simp add: lifecycle_example_env_def)
qed

lemma example_text_law: "jcs_text_law lifecycle_example_env L"
  by (rule table_law [of known_table])
    (simp_all add: lifecycle_example_env_def table_ok_def known_table_def known_texts_def line_of_def starts_with_def)

lemma known_canonical: "(v, k) \<in> set known_texts \<Longrightarrow> canonical lifecycle_example_env v = Inr (line_of k)"
  using small_known known_dump [of v k] small_valid
  by (force simp: canonical_def canonical_json_bytes_def DEFAULT_JSON_LIMITS_def)

lemma example_digests [simp]:
  "incident_snapshot_digest lifecycle_example_env s0 = Inr (D 1)"
  "incident_snapshot_digest lifecycle_example_env s1 = Inr (D 2)"
  "incident_snapshot_digest lifecycle_example_env c0 = Inr (D 3)"
  "incident_snapshot_digest lifecycle_example_env c1 = Inr (D 4)"
  "incident_snapshot_digest lifecycle_example_env d0 = Inr (D 5)"
  "incident_snapshot_digest lifecycle_example_env d1 = Inr (D 6)"
  "incident_transition_body_digest lifecycle_example_env t1 = Inr (D 8)"
  "incident_transition_body_digest lifecycle_example_env u1 = Inr (D 9)"
  "incident_transition_body_digest lifecycle_example_env w1 = Inr (D 7)"
  using known_canonical [of "snapshot_json base_env s0" 1] known_canonical [of "snapshot_json base_env s1" 2]
    known_canonical [of "snapshot_json base_env c0" 3] known_canonical [of "snapshot_json base_env c1" 4]
    known_canonical [of "snapshot_json base_env d0" 5] known_canonical [of "snapshot_json base_env d1" 6]
    known_canonical [of "transition_json base_env w1" 7]
    known_canonical [of "transition_json base_env t1" 8] known_canonical [of "transition_json base_env u1" 9]
  by (simp_all add: incident_snapshot_digest_def incident_transition_body_digest_def known_texts_def)

lemma bundle_facts [simp]: "bundle_format (B k)" "B j = B k \<longleftrightarrow> D j = D k"
  using D_format [of k] by (auto simp: bundle_format_def B_def digest_format_def starts_with_def)

lemma example_transition_ids:
  "incident_transition_digest lifecycle_example_env t1 = Inr (tr_transition_id t1)"
  "incident_transition_digest lifecycle_example_env u1 = Inr (tr_transition_id u1)"
  "incident_transition_digest lifecycle_example_env w1 = Inr (tr_transition_id w1)"
proof -
  have "validate_transition_body t1 = Inr ()" "validate_transition_body u1 = Inr ()"
    "validate_transition_body w1 = Inr ()"
    by (simp_all add: validate_transition_body_def transition_fields_ok_def record_defs at_second_def
        text_between_def opt_ok_def)
  then show "incident_transition_digest lifecycle_example_env t1 = Inr (tr_transition_id t1)"
    "incident_transition_digest lifecycle_example_env u1 = Inr (tr_transition_id u1)"
    "incident_transition_digest lifecycle_example_env w1 = Inr (tr_transition_id w1)"
    unfolding incident_transition_digest_def by simp_all
qed

lemma verify_linkI:
  assumes "incident_snapshot_digest E source = Inr d" "incident_snapshot_digest E s = Inr d'"
    and "incident_transition_digest E t = Inr (tr_transition_id t)"
    and "raise_first (link_checks first i source d d' prev t s) = Inr ()"
    and "verify_phase_transition (br_branch_kind b) source s t = Inr ()"
    and "verify_disclosure_delta (sn_ledger source) (sn_ledger s) keys (tr_event_artifact_ids t)
      (Some (tr_started_at t)) (tr_ended_at t) = Inr ()"
    and "sn_entitlement_digest s = sn_entitlement_digest source"
    and "sn_compromised_state s = sn_compromised_state source"
    and "alert_established source s t" "tr_action t \<noteq> RotateSession"
  shows "verify_link E b first keys i source prev t s = Inr ()"
  unfolding verify_link_def using assms by simp

lemma example_links:
  "verify_link lifecycle_example_env (lc_actual example_lifecycle) s0 {receipt_key receipt0} 1 s0 None t1 s1 = Inr ()"
  "verify_link lifecycle_example_env (lc_matched_comparison example_lifecycle) c0 {receipt_key receipt0} 1 c0 None u1 c1
     = Inr ()"
  "verify_link lifecycle_example_env (lc_matched_comparison other_lifecycle) d0 {receipt_key receipt0} 1 d0 None w1 d1
     = Inr ()"
  by (rule verify_linkI [OF example_digests(1,2) example_transition_ids(1)]
        verify_linkI [OF example_digests(3,4) example_transition_ids(2)]
        verify_linkI [OF example_digests(5,6) example_transition_ids(3)];
      simp add: record_defs link_checks_def at_second_def verify_phase_transition_def
        verify_disclosure_delta_def same_entry_def alert_established_def entry0_def)+

lemma example_snapshots:
  "verify_snapshot (lc_actual example_lifecycle) s0 0 None None ReplacementNone s0 = Inr (None, ReplacementNone)"
  "verify_snapshot (lc_actual example_lifecycle) s0 1 (Some t1) None ReplacementNone s1 = Inr (None, ReplacementNone)"
  "verify_snapshot (lc_matched_comparison example_lifecycle) c0 0 None None ReplacementNone c0
     = Inr (None, ReplacementNone)"
  "verify_snapshot (lc_matched_comparison example_lifecycle) c0 1 (Some u1) None ReplacementNone c1
     = Inr (None, ReplacementNone)"
  "verify_snapshot (lc_matched_comparison other_lifecycle) d0 0 None None ReplacementNone d0
     = Inr (None, ReplacementNone)"
  "verify_snapshot (lc_matched_comparison other_lifecycle) d0 1 (Some w1) None ReplacementNone d1
     = Inr (None, ReplacementNone)"
  by (simp_all add: verify_snapshot_def example_lifecycle_def other_lifecycle_def record_defs verify_replacement_def
      branch_identity_def)

lemma verify_branchI:
  assumes "br_snapshots b = [a, z]" "br_transitions b = [t]"
    and "raise_first (source_checks b a) = Inr ()" "sn_replacement_digest a = None"
    and "verify_disclosure_delta [] (sn_ledger a) keys (sn_evidence_ids a) None (sn_observed_at a) = Inr ()"
    and "verify_snapshot b a 0 None None ReplacementNone a = Inr (None, ReplacementNone)"
    and "verify_snapshot b a 1 (Some t) None ReplacementNone z = Inr (None, ReplacementNone)"
    and "verify_link E b a keys 1 a None t z = Inr ()" "raise_first (branch_checks a [t]) = Inr ()"
  shows "verify_branch E b keys = Inr ()"
  using assms unfolding verify_branch_def by (simp add: verify_replacement_def)

lemma example_branches:
  "verify_branch lifecycle_example_env (lc_actual example_lifecycle) {receipt_key receipt0} = Inr ()"
  "verify_branch lifecycle_example_env (lc_matched_comparison example_lifecycle) {receipt_key receipt0} = Inr ()"
  "verify_branch lifecycle_example_env (lc_matched_comparison other_lifecycle) {receipt_key receipt0} = Inr ()"
proof -
  note facts = record_defs example_lifecycle_def other_lifecycle_def source_checks_def verify_disclosure_delta_def ledger_dict_def
    verify_new_entry_def entry_key_def receipt_key_def entry0_def receipt0_def at_second_def
    branch_checks_def transition_bundle_ids_def D_eq opt_ok_def
  show "verify_branch lifecycle_example_env (lc_actual example_lifecycle) {receipt_key receipt0} = Inr ()"
    by (rule verify_branchI [OF _ _ _ _ _ example_snapshots(1,2) example_links(1)]) (simp_all add: facts)
  show "verify_branch lifecycle_example_env (lc_matched_comparison example_lifecycle) {receipt_key receipt0} = Inr ()"
    by (rule verify_branchI [OF _ _ _ _ _ example_snapshots(3,4) example_links(2)]) (simp_all add: facts)
  show "verify_branch lifecycle_example_env (lc_matched_comparison other_lifecycle) {receipt_key receipt0} = Inr ()"
    by (rule verify_branchI [OF _ _ _ _ _ example_snapshots(5,6) example_links(3)]) (simp_all add: facts)
qed

lemma verify_lifecycleI:
  assumes "raise_first (kind_checks l) = Inr ()"
    and "entry_key ` set (branch_entries (lc_actual l)) = {receipt_key receipt0}"
    and "entry_key ` set (branch_entries (lc_matched_comparison l)) = {receipt_key receipt0}"
    and "raise_first (matching_checks (lc_actual l) (lc_matched_comparison l)) = Inr ()"
    and "verify_branch E (lc_actual l) {receipt_key receipt0} = Inr ()"
    and "verify_branch E (lc_matched_comparison l) {receipt_key receipt0} = Inr ()"
    and "rmap (incident_snapshot_digest E) (br_snapshots (lc_actual l)) = Inr [D a, D b]"
    and "rmap (incident_snapshot_digest E) (br_snapshots (lc_matched_comparison l)) = Inr [D c, D d]"
    and "lc_current_digest l = D b" "D b \<noteq> D c" "D b \<noteq> D d"
  shows "verify_lifecycle E l [receipt0] = Inr
     \<lparr>vl_incident_id = sn_incident_id (hd (br_snapshots (lc_actual l))), vl_current_digest = D b,
      vl_actual_head = D b, vl_comparison_head = D d,
      vl_actual_transition_ids = map tr_transition_id (br_transitions (lc_actual l)),
      vl_comparison_transition_ids = map tr_transition_id (br_transitions (lc_matched_comparison l))\<rparr>"
  unfolding verify_lifecycle_def Let_def using assms by (simp add: verify_current_def)

lemma lifecycle_facts:
  assumes "l = example_lifecycle \<or> l = other_lifecycle"
  shows "raise_first (kind_checks l) = Inr ()"
    and "entry_key ` set (branch_entries (lc_actual l)) = {receipt_key receipt0}"
    and "entry_key ` set (branch_entries (lc_matched_comparison l)) = {receipt_key receipt0}"
    and "raise_first (matching_checks (lc_actual l) (lc_matched_comparison l)) = Inr ()"
    and "lc_current_digest l = D 2" "lc_actual l = lc_actual example_lifecycle"
proof -
  note members = example_lifecycle_def other_lifecycle_def
  show "raise_first (kind_checks l) = Inr ()" "lc_current_digest l = D 2" "lc_actual l = lc_actual example_lifecycle"
    using assms by (auto simp: kind_checks_def members)
  show "entry_key ` set (branch_entries (lc_actual l)) = {receipt_key receipt0}"
    "entry_key ` set (branch_entries (lc_matched_comparison l)) = {receipt_key receipt0}"
    using assms
    by (auto simp: branch_entries_def members record_defs entry_key_def receipt_key_def entry0_def receipt0_def)
  note checks = matching_checks_def members record_defs branch_identity_def branch_event_keys_def
    snapshot_event_keys_def transition_event_keys_def branch_replacements_def D_eq Let_def ledger_dict_def same_entry_def
  have "raise_first (matching_checks (lc_actual example_lifecycle) (lc_matched_comparison example_lifecycle)) = Inr ()"
    "raise_first (matching_checks (lc_actual other_lifecycle) (lc_matched_comparison other_lifecycle)) = Inr ()"
    by (simp_all add: checks)
  then show "raise_first (matching_checks (lc_actual l) (lc_matched_comparison l)) = Inr ()"
    using assms by blast
qed

lemma example_verifies:
  "verify_lifecycle lifecycle_example_env example_lifecycle [receipt0] = Inr
     \<lparr>vl_incident_id = ''inc'', vl_current_digest = D 2, vl_actual_head = D 2, vl_comparison_head = D 4,
      vl_actual_transition_ids = [D 8], vl_comparison_transition_ids = [D 9]\<rparr>"
proof -
  note facts = lifecycle_facts [of example_lifecycle, simplified]
  have "verify_lifecycle lifecycle_example_env example_lifecycle [receipt0] = Inr
     \<lparr>vl_incident_id = sn_incident_id (hd (br_snapshots (lc_actual example_lifecycle))), vl_current_digest = D 2,
      vl_actual_head = D 2, vl_comparison_head = D 4,
      vl_actual_transition_ids = map tr_transition_id (br_transitions (lc_actual example_lifecycle)),
      vl_comparison_transition_ids = map tr_transition_id (br_transitions (lc_matched_comparison example_lifecycle))\<rparr>"
    by (rule verify_lifecycleI [OF facts(1-4) example_branches(1,2), of 1 2 3 4])
      (simp_all add: facts D_eq, simp_all add: example_lifecycle_def)
  then show ?thesis by (simp add: example_lifecycle_def) (simp add: s0_def source_snapshot_def)
qed

lemma other_verifies:
  "verify_lifecycle lifecycle_example_env other_lifecycle [receipt0] = Inr
     \<lparr>vl_incident_id = ''inc'', vl_current_digest = D 2, vl_actual_head = D 2, vl_comparison_head = D 6,
      vl_actual_transition_ids = [D 8], vl_comparison_transition_ids = [D 7]\<rparr>"
proof -
  note facts = lifecycle_facts [of other_lifecycle, simplified]
  have "verify_lifecycle lifecycle_example_env other_lifecycle [receipt0] = Inr
     \<lparr>vl_incident_id = sn_incident_id (hd (br_snapshots (lc_actual other_lifecycle))), vl_current_digest = D 2,
      vl_actual_head = D 2, vl_comparison_head = D 6,
      vl_actual_transition_ids = map tr_transition_id (br_transitions (lc_actual other_lifecycle)),
      vl_comparison_transition_ids = map tr_transition_id (br_transitions (lc_matched_comparison other_lifecycle))\<rparr>"
    by (rule verify_lifecycleI [OF facts(1-4) example_branches(1) [folded facts(6)] example_branches(3), of 1 2 5 6])
      (simp_all add: facts D_eq, simp_all add: example_lifecycle_def other_lifecycle_def)
  then show ?thesis by (simp add: example_lifecycle_def other_lifecycle_def) (simp add: s0_def source_snapshot_def)
qed

section \<open>The properties at this input\<close>

theorem lifecycle_moves_forward_witness:
  "forward (br_snapshots (lc_actual example_lifecycle) ! 0) (br_snapshots (lc_actual example_lifecycle) ! 1)"
  by (rule lifecycle_moves_forward [OF example_verifies]) (simp_all add: example_lifecycle_def)

theorem no_phase_is_skipped_witness:
  "SourceBound \<in> sn_phase ` set (take (Suc 1) (br_snapshots (lc_actual example_lifecycle)))
    \<or> 0 < (1::nat) \<and> no_alert_finalization (br_branch_kind (lc_actual example_lifecycle))
        (br_snapshots (lc_actual example_lifecycle) ! (1 - 1)) (br_snapshots (lc_actual example_lifecycle) ! 1)
        (br_transitions (lc_actual example_lifecycle) ! (1 - 1))"
  by (rule no_phase_is_skipped [OF example_verifies]) (simp_all add: example_lifecycle_def)

theorem current_state_is_actual_head_witness:
  "incident_snapshot_digest lifecycle_example_env (last (br_snapshots (lc_actual example_lifecycle))) = Inr (D 2)
    \<and> incident_snapshot_digest lifecycle_example_env c1 \<noteq> Inr (D 2)"
  using current_state_is_actual_head [OF example_verifies] by (simp add: example_lifecycle_def)

theorem lifecycle_tamper_evident_witness:
  "example_lifecycle \<noteq> other_lifecycle
   \<and> ((\<exists>c \<in> snapshot_texts lifecycle_example_env (lc_actual example_lifecycle).
      \<exists>c' \<in> snapshot_texts lifecycle_example_env (lc_actual other_lifecycle).
      c \<noteq> c' \<and> sha256_bytes lifecycle_example_env c = sha256_bytes lifecycle_example_env c')
    \<or> map (\<lambda>s. canonical lifecycle_example_env (snapshot_json lifecycle_example_env s)) (br_snapshots (lc_actual example_lifecycle))
      = map (\<lambda>s. canonical lifecycle_example_env (snapshot_json lifecycle_example_env s)) (br_snapshots (lc_actual other_lifecycle)))"
proof -
  have "lc_matched_comparison example_lifecycle \<noteq> lc_matched_comparison other_lifecycle"
    by (simp add: example_lifecycle_def other_lifecycle_def) (simp add: record_defs)
  moreover note lifecycle_tamper_evident [OF example_text_law example_verifies other_verifies]
  ultimately show ?thesis by auto
qed

lemma example_digest_format: "digest_format (sha256_bytes lifecycle_example_env c)"
  using digest_format_sha256 [OF example_lawful, of c]
  by (simp add: lifecycle_example_env_def base_env_def sha256_bytes_def example_env_def model_env.defs)

theorem sealed_transitions_witness:
  "from_body lifecycle_example_env (transition_body.truncate t1) = Inr t1"
proof -
  let ?b = "transition_body.truncate t1"
  have "validate_transition_body t1 = Inr ()" "t1 = transition_body.extend ?b \<lparr>tr_transition_id = D 8\<rparr>"
    by (simp_all add: validate_transition_body_def transition_fields_ok_def record_defs at_second_def
        text_between_def opt_ok_def transition_body.defs)
  then have b: "validate_transition_body ?b = Inr ()" "transition_json base_env ?b = transition_json base_env t1"
    by (metis extend_body)+
  have "canonical lifecycle_example_env (transition_json lifecycle_example_env ?b) = Inr (line_of 8)"
    using known_canonical [of "transition_json base_env t1" 8] b(2) by (simp add: known_texts_def)
  moreover note sealed_transitions [OF example_digest_format b(1)]
  ultimately show ?thesis using \<open>t1 = _\<close> by simp
qed

end
