(* ===== verification/Alert_Window.thy ===== *)
theory Alert_Window
  imports Models
begin

text \<open>
  Detective control criteria over one alert window, from
  \<^verbatim>\<open>src/src/assurance_lab/controls/alert_window.py\<close>: profiles with their validators, the reading of
  captured records, the three-valued predicates, the count intervals and the decisions.

  pydantic's JSON parser of a profile is the field \<open>profile_validate_json\<close> of the environment: it
  gives the values of the fields, on which \<open>validate_profile\<close> then runs. Literals of predicates and
  record ids are code points, because they are compared with captured text. The window of an
  evaluation is kept as the whole UTC seconds its validator converts to; in JSON such an instant has,
  from the year 1000 on, the text of \<open>timestamp\<close>.
\<close>

section \<open>Literals\<close>

definition MAX_RECORDS :: nat where
  "MAX_RECORDS = 100000"

definition PROFILE_LIMITS :: json_limits where
  "PROFILE_LIMITS = \<lparr>max_bytes = 1024 * 1024, max_line_bytes = 1024 * 1024, max_depth = 24,
     max_collection_items = 16384, max_string_length = 256 * 1024\<rparr>"

definition RECORD_LIMITS :: json_limits where
  "RECORD_LIMITS = \<lparr>max_bytes = 64 * 1024 * 1024, max_line_bytes = 2 * 1024 * 1024, max_depth = 16,
     max_collection_items = 200000, max_string_length = 1024 * 1024\<rparr>"

definition field_name_format :: "string \<Rightarrow> bool" where
  "field_name_format s \<longleftrightarrow> s = ''@timestamp'' \<or> (case s of [] \<Rightarrow> False
     | c # cs \<Rightarrow> (lower_char c \<or> upper_char c) \<and> length cs \<le> 127
         \<and> list_all (\<lambda>c. lower_char c \<or> upper_char c \<or> digit_char c \<or> c \<in> set ''_.'') cs)"

definition version_format :: "string \<Rightarrow> bool" where
  "version_format s \<longleftrightarrow> (let parts = split_on (CHR ''.'') s in
     length parts = 3 \<and> list_all (\<lambda>p. p \<noteq> [] \<and> list_all digit_char p) parts)"

definition DEFENDER_FIELDS :: "string list" where
  "DEFENDER_FIELDS = [''AlertId'', ''AttackTechniques'', ''Category'', ''DetectionSource'',
     ''ServiceSource'', ''Severity'', ''Timestamp'', ''Title'']"

definition ELASTIC_ALERT_STATUSES :: "string list" where
  "ELASTIC_ALERT_STATUSES = [''active'', ''recovered'']"

definition ELASTIC_WORKFLOW_STATUSES :: "string list" where
  "ELASTIC_WORKFLOW_STATUSES = [''acknowledged'', ''closed'', ''open'']"

datatype source_kind = ElasticSecurity | DefenderXdr

fun source_kind_name :: "source_kind \<Rightarrow> string" where
  "source_kind_name ElasticSecurity = ''elastic-security''"
| "source_kind_name DefenderXdr = ''defender-xdr''"

datatype alert_decision = Supported | Refuted | Unresolved

datatype reason_code = ComparisonSatisfied | ComparisonRefuted | InsufficientFieldEvidence

datatype comparison = CmpEq | CmpGe | CmpLe

fun comparison_name :: "comparison \<Rightarrow> string" where
  "comparison_name CmpEq = ''eq''"
| "comparison_name CmpGe = ''ge''"
| "comparison_name CmpLe = ''le''"

section \<open>Profiles\<close>

datatype scalar = SText code_points | SInt int | SBool bool

fun scalar_json :: "scalar \<Rightarrow> json" where
  "scalar_json (SText s) = JStr s"
| "scalar_json (SInt n) = JInt n"
| "scalar_json (SBool b) = JBool b"

datatype field_predicate =
    ExistsPredicate string
  | EqualsPredicate string scalar
  | ContainsPredicate string scalar

fun pred_field :: "field_predicate \<Rightarrow> string" where
  "pred_field (ExistsPredicate f) = f"
| "pred_field (EqualsPredicate f v) = f"
| "pred_field (ContainsPredicate f v) = f"

fun is_contains :: "field_predicate \<Rightarrow> bool" where
  "is_contains (ContainsPredicate f v) = True"
| "is_contains _ = False"

datatype metric = TotalRecordCount | MatchingRecordCount "field_predicate list"

record criterion =
  cr_criterion_id :: string
  cr_description :: string
  cr_metric :: metric
  cr_comparison :: comparison
  cr_expected_count :: int

record elastic_alert_source =
  es_fields :: "string list"
  es_rule_uuids :: "string list"
  es_workflow_statuses :: "string list"
  es_alert_statuses :: "string list"

datatype alert_source = ElasticAlerts elastic_alert_source | DefenderAlerts

record alert_window_profile =
  pf_profile_id :: string
  pf_profile_version :: string
  pf_title :: string
  pf_source :: alert_source
  pf_criteria :: "criterion list"

record alert_env = model_env +
  profile_validate_json :: "bytes \<Rightarrow> alert_window_profile option"

text \<open>\<open>len(value.encode("utf-8"))\<close>; a surrogate cannot be encoded.\<close>

definition utf8_size :: "nat \<Rightarrow> nat" where
  "utf8_size c = (if c < 0x80 then 1 else if c < 0x800 then 2 else if c < 0x10000 then 3 else 4)"

definition utf8_length :: "code_points \<Rightarrow> nat result" where
  "utf8_length s =
     (if list_ex (\<lambda>c. 0xD800 \<le> c \<and> c \<le> 0xDFFF) s then Inl UnicodeEncodeError
      else Inr (sum_list (map utf8_size s)))"

fun validate_value :: "scalar \<Rightarrow> unit result" where
  "validate_value (SText s) =
     rbind (utf8_length s) (\<lambda>n.
     if n > 4096 then Inl (ValueError ''predicate text exceeds the profile limit'') else Inr ())"
| "validate_value _ = Inr ()"

definition validate_predicate :: "field_predicate \<Rightarrow> unit result" where
  "validate_predicate p =
     (if \<not> field_name_format (pred_field p) then Inl (invalid ''field'')
      else case p of
        ExistsPredicate f \<Rightarrow> Inr ()
      | EqualsPredicate f v \<Rightarrow> field_error (validate_value v)
      | ContainsPredicate f v \<Rightarrow> field_error (validate_value v))"

fun predicate_json :: "field_predicate \<Rightarrow> json" where
  "predicate_json (ExistsPredicate f) = jobject [(''kind'', jtext ''exists''), (''field'', jtext f)]"
| "predicate_json (EqualsPredicate f v) =
     jobject [(''kind'', jtext ''equals''), (''field'', jtext f), (''value'', scalar_json v)]"
| "predicate_json (ContainsPredicate f v) =
     jobject [(''kind'', jtext ''contains''), (''field'', jtext f), (''value'', scalar_json v)]"

fun validate_metric :: "'e model_env_scheme \<Rightarrow> metric \<Rightarrow> unit result" where
  "validate_metric E TotalRecordCount = Inr ()"
| "validate_metric E (MatchingRecordCount ps) =
     rbind (rmap validate_predicate ps) (\<lambda>_.
     if ps = [] \<or> length ps > 16 then Inl (invalid ''all'')
     else rbind (field_error (rmap (\<lambda>p. canonical E (predicate_json p)) ps)) (\<lambda>canon.
       if card (set canon) \<noteq> length canon
       then Inl (invalid ''matching criterion contains duplicate predicates'') else Inr ()))"

definition validate_criterion :: "'e model_env_scheme \<Rightarrow> criterion \<Rightarrow> unit result" where
  "validate_criterion E c =
     (if \<not> portable_id (cr_criterion_id c) then Inl (invalid ''criterion_id'')
      else if \<not> text_between 1 512 (cr_description c) then Inl (invalid ''description'')
      else rbind (validate_metric E (cr_metric c)) (\<lambda>_.
        if \<not> between 0 (int MAX_RECORDS) (cr_expected_count c) then Inl (invalid ''expected_count'')
        else Inr ()))"

definition unique_sorted :: "string list \<Rightarrow> bool" where
  "unique_sorted vs \<longleftrightarrow> card (set vs) = length vs \<and> sort vs = vs"

definition validate_elastic_alert_source :: "elastic_alert_source \<Rightarrow> unit result" where
  "validate_elastic_alert_source s = raise_first
     [(\<not> list_all field_name_format (es_fields s) \<or> es_fields s = [] \<or> length (es_fields s) > 32,
         invalid ''fields''),
      (''@timestamp'' \<notin> set (es_fields s), invalid ''Elastic profile fields must include @timestamp''),
      (\<not> unique_sorted (es_fields s), invalid ''Elastic profile fields must be unique and sorted''),
      (length (es_rule_uuids s) > 256, invalid ''rule_uuids''),
      (\<not> list_all uuid_format (es_rule_uuids s) \<or> \<not> unique_sorted (es_rule_uuids s),
         invalid ''Elastic rule UUIDs must be unique sorted canonical UUIDs''),
      (length (es_workflow_statuses s) > 3, invalid ''workflow_statuses''),
      (\<not> list_all (\<lambda>v. v \<in> set ELASTIC_WORKFLOW_STATUSES) (es_workflow_statuses s)
         \<or> \<not> unique_sorted (es_workflow_statuses s), invalid ''Elastic workflow statuses are invalid''),
      (length (es_alert_statuses s) > 2, invalid ''alert_statuses''),
      (\<not> list_all (\<lambda>v. v \<in> set ELASTIC_ALERT_STATUSES) (es_alert_statuses s)
         \<or> \<not> unique_sorted (es_alert_statuses s), invalid ''Elastic alert statuses are invalid'')]"

fun validate_alert_source :: "alert_source \<Rightarrow> unit result" where
  "validate_alert_source (ElasticAlerts s) = validate_elastic_alert_source s"
| "validate_alert_source DefenderAlerts = Inr ()"

fun allowed_fields :: "alert_source \<Rightarrow> string list" where
  "allowed_fields (ElasticAlerts s) = es_fields s"
| "allowed_fields DefenderAlerts = DEFENDER_FIELDS"

fun profile_source_kind :: "alert_source \<Rightarrow> source_kind" where
  "profile_source_kind (ElasticAlerts s) = ElasticSecurity"
| "profile_source_kind DefenderAlerts = DefenderXdr"

fun metric_predicates :: "metric \<Rightarrow> field_predicate list" where
  "metric_predicates TotalRecordCount = []"
| "metric_predicates (MatchingRecordCount ps) = ps"

text \<open>The nested loops over criteria and predicates, as one list of statements in their order.\<close>

definition predicate_checks :: "alert_source \<Rightarrow> criterion list \<Rightarrow> (bool \<times> py_error) list" where
  "predicate_checks source criteria =
     concat (map (\<lambda>p.
        [(pred_field p \<notin> set (allowed_fields source),
            invalid ''criterion field is not supplied by the selected source''),
         (source = DefenderAlerts \<and> is_contains p,
            invalid ''Defender AlertInfo fields are scalar; contains is invalid'')])
       (concat (map (\<lambda>c. metric_predicates (cr_metric c)) criteria)))"

definition profile_checks :: "alert_window_profile \<Rightarrow> (bool \<times> py_error) list" where
  "profile_checks p =
     [(\<not> portable_id (pf_profile_id p), invalid ''profile_id''),
      (\<not> text_between 1 64 (pf_profile_version p) \<or> \<not> version_format (pf_profile_version p),
         invalid ''profile_version''),
      (\<not> text_between 1 160 (pf_title p), invalid ''title'')]"

definition criteria_checks :: "criterion list \<Rightarrow> (bool \<times> py_error) list" where
  "criteria_checks criteria =
     (let ids = map cr_criterion_id criteria in
      [(criteria = [] \<or> length criteria > 64, invalid ''criteria''),
       (card (set ids) \<noteq> length ids, invalid ''control profile criterion ids must be unique''),
       (sort ids \<noteq> ids, invalid ''control profile criteria must be sorted by id'')])"

definition validate_profile ::
  "'e model_env_scheme \<Rightarrow> alert_window_profile \<Rightarrow> alert_window_profile result" where
  "validate_profile E p =
     rbind (raise_first (profile_checks p)) (\<lambda>_.
     rbind (validate_alert_source (pf_source p)) (\<lambda>_.
     rbind (rmap (validate_criterion E) (pf_criteria p)) (\<lambda>_.
     rbind (raise_first (criteria_checks (pf_criteria p))) (\<lambda>_.
     rbind (raise_first (predicate_checks (pf_source p) (pf_criteria p))) (\<lambda>_. Inr p)))))"

fun metric_json :: "metric \<Rightarrow> json" where
  "metric_json TotalRecordCount = jobject [(''kind'', jtext ''total-record-count'')]"
| "metric_json (MatchingRecordCount ps) =
     jobject [(''kind'', jtext ''matching-record-count''), (''all'', JArr (map predicate_json ps))]"

definition criterion_json :: "criterion \<Rightarrow> json" where
  "criterion_json c = jobject
     [(''criterion_id'', jtext (cr_criterion_id c)), (''description'', jtext (cr_description c)),
      (''metric'', metric_json (cr_metric c)), (''comparison'', jtext (comparison_name (cr_comparison c))),
      (''expected_count'', JInt (cr_expected_count c))]"

fun alert_source_json :: "alert_source \<Rightarrow> json" where
  "alert_source_json (ElasticAlerts s) = jobject
     [(''kind'', jtext ''elastic-security''), (''fields'', JArr (map jtext (es_fields s))),
      (''rule_uuids'', JArr (map jtext (es_rule_uuids s))),
      (''workflow_statuses'', JArr (map jtext (es_workflow_statuses s))),
      (''alert_statuses'', JArr (map jtext (es_alert_statuses s)))]"
| "alert_source_json DefenderAlerts = jobject [(''kind'', jtext ''defender-xdr'')]"

definition profile_json :: "alert_window_profile \<Rightarrow> json" where
  "profile_json p = jobject
     [(''media_type'', jtext ''application/vnd.control-assurance.alert-window-profile.v1+json''),
      (''schema_version'', jtext ''1.0.0''), (''profile_id'', jtext (pf_profile_id p)),
      (''profile_version'', jtext (pf_profile_version p)), (''title'', jtext (pf_title p)),
      (''claim_boundary'', jtext ''observed-source-window-only''),
      (''source'', alert_source_json (pf_source p)),
      (''criteria'', JArr (map criterion_json (pf_criteria p)))]"

definition profile_canonical_bytes :: "'e json_env_scheme \<Rightarrow> alert_window_profile \<Rightarrow> bytes result" where
  "profile_canonical_bytes E p = canonical_json_bytes E PROFILE_LIMITS (profile_json p)"

definition profile_digest :: "'e model_env_scheme \<Rightarrow> alert_window_profile \<Rightarrow> string result" where
  "profile_digest E p = rbind (profile_canonical_bytes E p) (\<lambda>b. Inr (sha256_bytes E b))"

abbreviation alert_error :: "string \<Rightarrow> py_error" where
  "alert_error \<equiv> AlertWindowEvaluationError"

definition parse_alert_window_profile ::
  "'e alert_env_scheme \<Rightarrow> bytes \<Rightarrow> string \<Rightarrow> string \<Rightarrow> alert_window_profile result" where
  "parse_alert_window_profile E b expected_id expected_digest =
     (if b = [] then Inl (alert_error ''control profile is absent'')
      else if \<not> portable_id expected_id then Inl (alert_error ''expected control profile id is invalid'')
      else if \<not> digest_format expected_digest
      then Inl (alert_error ''expected control profile digest is invalid'')
      else rbind (on_error is_value_error (alert_error ''control profile is invalid'')
        (rbind (strict_json_loads E PROFILE_LIMITS b) (\<lambda>_.
         rbind (case profile_validate_json E b of
             None \<Rightarrow> Inl (invalid ''profile'') | Some p \<Rightarrow> validate_profile E p) (\<lambda>p.
         rbind (profile_canonical_bytes E p) (\<lambda>canon. Inr (p, canon)))))) (\<lambda>(p, canon).
      if canon \<noteq> b then Inl (alert_error ''control profile is not canonical JSON'')
      else if pf_profile_id p \<noteq> expected_id
      then Inl (alert_error ''control profile id differs from its reference'')
      else rbind (profile_digest E p) (\<lambda>d.
        if d \<noteq> expected_digest
        then Inl (alert_error ''control profile digest differs from its reference'')
        else Inr p)))"

section \<open>Evaluation\<close>

type_synonym field_map = "(pykey \<times> json) list"

definition predicate_result :: "field_predicate \<Rightarrow> field_map \<Rightarrow> bool option" where
  "predicate_result p fs =
     (case map_of fs (KStr (text_of (pred_field p))) of
        None \<Rightarrow> None
      | Some observed \<Rightarrow>
          (case p of
             ExistsPredicate f \<Rightarrow> Some True
           | EqualsPredicate f v \<Rightarrow> Some (observed = scalar_json v)
           | ContainsPredicate f v \<Rightarrow>
               (case observed of
                  JArr items \<Rightarrow> Some (list_ex (\<lambda>item. item = scalar_json v) items)
                | _ \<Rightarrow> None)))"

fun expected_keys :: "alert_source \<Rightarrow> string list" where
  "expected_keys (ElasticAlerts s) = [''cursor'', ''fields'', ''id'']"
| "expected_keys DefenderAlerts = [''fields'', ''id'']"

fun read_record :: "alert_source \<Rightarrow> json \<Rightarrow> (code_points \<times> field_map) result" where
  "read_record source (JObj members) =
     (if set (map fst members) \<noteq> set (map (\<lambda>k. KStr (text_of k)) (expected_keys source))
      then Inl (alert_error ''source record has an unexpected envelope'')
      else case (dict_get (JObj members) ''id'', dict_get (JObj members) ''fields'') of
        (Some (JStr i), Some (JObj fs)) \<Rightarrow>
          if i = [] \<or> length i > 256
             \<or> list_ex (\<lambda>m. fst m \<notin> set (map (\<lambda>k. KStr (text_of k)) (allowed_fields source))) fs
          then Inl (alert_error ''source record fields are outside the control profile'')
          else Inr (i, fs)
      | _ \<Rightarrow> Inl (alert_error ''source record fields are outside the control profile''))"
| "read_record source _ = Inl (alert_error ''source record has an unexpected envelope'')"

definition read_records ::
  "'e json_env_scheme \<Rightarrow> alert_window_profile \<Rightarrow> bytes \<Rightarrow> (code_points \<times> field_map) list result" where
  "read_records E p payload =
     rbind (on_error is_strict_json_error (alert_error ''source records are not canonical sorted JSONL'')
       (strict_jsonl_loads E RECORD_LIMITS True payload)) (\<lambda>parsed.
     if length parsed > MAX_RECORDS then Inl (alert_error ''source record count exceeds the profile'')
     else rmap (read_record (pf_source p)) parsed)"

definition ids_digest :: "'e model_env_scheme \<Rightarrow> code_points list \<Rightarrow> string result" where
  "ids_digest E ids = rbind (canonical E (JArr (map JStr ids))) (\<lambda>b. Inr (sha256_bytes E b))"

fun comparison_decision :: "comparison \<Rightarrow> int \<Rightarrow> int \<Rightarrow> int \<Rightarrow> alert_decision" where
  "comparison_decision CmpGe expected lower upper =
     (if lower \<ge> expected then Supported else if upper < expected then Refuted else Unresolved)"
| "comparison_decision CmpLe expected lower upper =
     (if upper \<le> expected then Supported else if lower > expected then Refuted else Unresolved)"
| "comparison_decision CmpEq expected lower upper =
     (if lower = upper \<and> upper = expected then Supported
      else if expected < lower \<or> expected > upper then Refuted else Unresolved)"

record criterion_evaluation =
  ce_criterion_id :: string
  ce_comparison :: comparison
  ce_expected_count :: int
  ce_lower_bound :: int
  ce_upper_bound :: int
  ce_indeterminate_count :: int
  ce_matched_digest :: string
  ce_indeterminate_digest :: string
  ce_decision :: alert_decision
  ce_reason :: reason_code

fun expected_reason :: "alert_decision \<Rightarrow> reason_code" where
  "expected_reason Supported = ComparisonSatisfied"
| "expected_reason Refuted = ComparisonRefuted"
| "expected_reason Unresolved = InsufficientFieldEvidence"

definition validate_interval :: "criterion_evaluation \<Rightarrow> criterion_evaluation result" where
  "validate_interval c =
     (let count_ok = between 0 (int MAX_RECORDS) in
      rbind (raise_first
        [(\<not> portable_id (ce_criterion_id c), invalid ''criterion_id''),
         (\<not> count_ok (ce_expected_count c) \<or> \<not> count_ok (ce_lower_bound c)
            \<or> \<not> count_ok (ce_upper_bound c) \<or> \<not> count_ok (ce_indeterminate_count c),
            invalid ''counts''),
         (\<not> digest_format (ce_matched_digest c) \<or> \<not> digest_format (ce_indeterminate_digest c),
            invalid ''digests''),
         (ce_upper_bound c < ce_lower_bound c, invalid ''criterion evaluation interval is reversed''),
         (ce_upper_bound c - ce_lower_bound c \<noteq> ce_indeterminate_count c,
            invalid ''criterion interval does not close over uncertainty''),
         (ce_reason c \<noteq> expected_reason (ce_decision c),
            invalid ''criterion decision and reason disagree'')]) (\<lambda>_. Inr c))"

text \<open>The two lists the loop of \<open>_evaluate_criterion\<close> collects.\<close>

definition all_true :: "field_predicate list \<Rightarrow> field_map \<Rightarrow> bool" where
  "all_true ps fs \<longleftrightarrow> list_all (\<lambda>p. predicate_result p fs = Some True) ps"

definition any_false :: "field_predicate list \<Rightarrow> field_map \<Rightarrow> bool" where
  "any_false ps fs \<longleftrightarrow> list_ex (\<lambda>p. predicate_result p fs = Some False) ps"

fun matched_ids :: "metric \<Rightarrow> (code_points \<times> field_map) list \<Rightarrow> code_points list" where
  "matched_ids TotalRecordCount records = map fst records"
| "matched_ids (MatchingRecordCount ps) records = map fst (filter (\<lambda>r. all_true ps (snd r)) records)"

fun indeterminate_ids :: "metric \<Rightarrow> (code_points \<times> field_map) list \<Rightarrow> code_points list" where
  "indeterminate_ids TotalRecordCount records = []"
| "indeterminate_ids (MatchingRecordCount ps) records =
     map fst (filter (\<lambda>r. \<not> all_true ps (snd r) \<and> \<not> any_false ps (snd r)) records)"

definition evaluate_criterion ::
  "'e model_env_scheme \<Rightarrow> (code_points \<times> field_map) list \<Rightarrow> criterion \<Rightarrow> criterion_evaluation result" where
  "evaluate_criterion E records c =
     (let matched = matched_ids (cr_metric c) records;
          indeterminate = indeterminate_ids (cr_metric c) records;
          lower = int (length matched); upper = lower + int (length indeterminate);
          decision = comparison_decision (cr_comparison c) (cr_expected_count c) lower upper in
      rbind (ids_digest E matched) (\<lambda>matched_digest.
      rbind (ids_digest E indeterminate) (\<lambda>indeterminate_digest.
      validate_interval \<lparr>ce_criterion_id = cr_criterion_id c, ce_comparison = cr_comparison c,
        ce_expected_count = cr_expected_count c, ce_lower_bound = lower, ce_upper_bound = upper,
        ce_indeterminate_count = int (length indeterminate), ce_matched_digest = matched_digest,
        ce_indeterminate_digest = indeterminate_digest, ce_decision = decision,
        ce_reason = (if decision = Supported then ComparisonSatisfied
          else if decision = Refuted then ComparisonRefuted else InsufficientFieldEvidence)\<rparr>)))"

record alert_window_evaluation =
  av_profile_id :: string
  av_profile_digest :: string
  av_source_kind :: source_kind
  av_records_digest :: string
  av_record_count :: int
  av_window_start :: int
  av_window_end :: int
  av_criteria :: "criterion_evaluation list"
  av_decision :: alert_decision

definition overall_decision :: "criterion_evaluation list \<Rightarrow> alert_decision" where
  "overall_decision cs =
     (if list_ex (\<lambda>c. ce_decision c = Refuted) cs then Refuted
      else if list_ex (\<lambda>c. ce_decision c = Unresolved) cs then Unresolved else Supported)"

definition validate_result :: "alert_window_evaluation \<Rightarrow> alert_window_evaluation result" where
  "validate_result v =
     (let ids = map ce_criterion_id (av_criteria v) in
      rbind (raise_first
        [(\<not> portable_id (av_profile_id v), invalid ''profile_id''),
         (\<not> digest_format (av_profile_digest v) \<or> \<not> digest_format (av_records_digest v),
            invalid ''digests''),
         (\<not> between 0 (int MAX_RECORDS) (av_record_count v), invalid ''record_count''),
         (av_criteria v = [] \<or> length (av_criteria v) > 64, invalid ''criteria''),
         (av_window_end v \<le> av_window_start v, invalid ''evaluation window must be non-empty''),
         (card (set ids) \<noteq> length ids \<or> sort ids \<noteq> ids,
            invalid ''evaluation criteria must be unique and sorted''),
         (av_decision v \<noteq> overall_decision (av_criteria v),
            invalid ''overall decision does not follow criterion decisions'')]) (\<lambda>_. Inr v))"

fun alert_decision_name :: "alert_decision \<Rightarrow> string" where
  "alert_decision_name Supported = ''supported''"
| "alert_decision_name Refuted = ''refuted''"
| "alert_decision_name Unresolved = ''unresolved''"

fun reason_name :: "reason_code \<Rightarrow> string" where
  "reason_name ComparisonSatisfied = ''comparison-satisfied''"
| "reason_name ComparisonRefuted = ''comparison-refuted''"
| "reason_name InsufficientFieldEvidence = ''insufficient-field-evidence''"

definition criterion_evaluation_json :: "criterion_evaluation \<Rightarrow> json" where
  "criterion_evaluation_json c = jobject
     [(''criterion_id'', jtext (ce_criterion_id c)),
      (''comparison'', jtext (comparison_name (ce_comparison c))),
      (''expected_count'', JInt (ce_expected_count c)),
      (''observed_lower_bound'', JInt (ce_lower_bound c)),
      (''observed_upper_bound'', JInt (ce_upper_bound c)),
      (''indeterminate_record_count'', JInt (ce_indeterminate_count c)),
      (''matched_record_ids_digest'', jtext (ce_matched_digest c)),
      (''indeterminate_record_ids_digest'', jtext (ce_indeterminate_digest c)),
      (''decision'', jtext (alert_decision_name (ce_decision c))),
      (''reason_code'', jtext (reason_name (ce_reason c)))]"

definition evaluation_json :: "alert_window_evaluation \<Rightarrow> json" where
  "evaluation_json v = jobject
     [(''media_type'', jtext ''application/vnd.control-assurance.alert-window-evaluation.v1+json''),
      (''schema_version'', jtext ''1.0.0''), (''profile_id'', jtext (av_profile_id v)),
      (''profile_digest'', jtext (av_profile_digest v)),
      (''source_kind'', jtext (source_kind_name (av_source_kind v))),
      (''records_digest'', jtext (av_records_digest v)), (''record_count'', JInt (av_record_count v)),
      (''window_start'', jtext (timestamp (av_window_start v))),
      (''window_end'', jtext (timestamp (av_window_end v))),
      (''claim_boundary'', jtext ''observed-source-window-only''),
      (''criteria'', JArr (map criterion_evaluation_json (av_criteria v))),
      (''decision'', jtext (alert_decision_name (av_decision v)))]"

definition evaluation_canonical_bytes :: "'e model_env_scheme \<Rightarrow> alert_window_evaluation \<Rightarrow> bytes result" where
  "evaluation_canonical_bytes E v = canonical E (evaluation_json v)"

definition evaluation_digest :: "'e model_env_scheme \<Rightarrow> alert_window_evaluation \<Rightarrow> string result" where
  "evaluation_digest E v = rbind (evaluation_canonical_bytes E v) (\<lambda>b. Inr (sha256_bytes E b))"

definition evaluate_alert_window ::
  "'e model_env_scheme \<Rightarrow> alert_window_profile \<Rightarrow> string \<Rightarrow> source_kind \<Rightarrow> bytes \<Rightarrow> datetime \<Rightarrow> datetime
     \<Rightarrow> alert_window_evaluation result" where
  "evaluate_alert_window E p expected_digest kind records_jsonl window_start window_end =
     (if \<not> digest_format expected_digest
      then Inl (alert_error ''profile digest does not match its external anchor'')
      else rbind (profile_digest E p) (\<lambda>d.
      if d \<noteq> expected_digest then Inl (alert_error ''profile digest does not match its external anchor'')
      else if kind \<noteq> profile_source_kind (pf_source p)
      then Inl (alert_error ''profile and connector source kinds differ'')
      else rbind (on_error is_value_error (alert_error ''evaluation window is invalid'')
        (rbind (utc_second ''evaluation window start'' window_start) (\<lambda>start.
         rbind (utc_second ''evaluation window end'' window_end) (\<lambda>finish.
         Inr (start, finish))))) (\<lambda>(start, finish).
      if finish \<le> start then Inl (alert_error ''evaluation window must be non-empty'')
      else rbind (read_records E p records_jsonl) (\<lambda>records.
      rbind (rmap (evaluate_criterion E records) (pf_criteria p)) (\<lambda>criteria.
      validate_result \<lparr>av_profile_id = pf_profile_id p, av_profile_digest = d, av_source_kind = kind,
        av_records_digest = sha256_bytes E records_jsonl, av_record_count = int (length records),
        av_window_start = start, av_window_end = finish, av_criteria = criteria,
        av_decision = overall_decision criteria\<rparr>)))))"

end
