(* ===== verification/Strict_Errors.thy ===== *)
theory Strict_Errors
  imports Canonical
begin

text \<open>
  Which exceptions a fallible step can raise, as a calculus over the result type, and that everything
  the canonical layer raises is a \<open>StrictJSONError\<close>.
\<close>

definition raises_only :: "(py_error \<Rightarrow> bool) \<Rightarrow> 'a result \<Rightarrow> bool" where
  "raises_only P m \<longleftrightarrow> (case m of Inl e \<Rightarrow> P e | Inr x \<Rightarrow> True)"

lemma raises_only_simps [simp]:
  "raises_only P (Inl e) \<longleftrightarrow> P e" "raises_only P (Inr x)"
  by (simp_all add: raises_only_def)

lemma raises_only_rbind:
  "raises_only P m \<Longrightarrow> (\<And>x. m = Inr x \<Longrightarrow> raises_only P (f x)) \<Longrightarrow> raises_only P (rbind m f)"
  by (cases m) auto

lemma raises_only_on_error:
  "raises_only (\<lambda>e. Q e \<or> P e) m \<Longrightarrow> P e' \<Longrightarrow> raises_only P (on_error Q e' m)"
  by (cases m) auto

lemma raises_only_rmap: "(\<And>x. x \<in> set xs \<Longrightarrow> raises_only P (f x)) \<Longrightarrow> raises_only P (rmap f xs)"
  by (induction xs) (auto intro!: raises_only_rbind)

lemma raises_only_mono: "raises_only P m \<Longrightarrow> (\<And>e. P e \<Longrightarrow> Q e) \<Longrightarrow> raises_only Q m"
  by (cases m) auto

lemma raises_only_first: "(\<And>c. c \<in> set cs \<Longrightarrow> P (snd c)) \<Longrightarrow> raises_only P (raise_first cs)"
  by (cases "raise_first cs") (auto dest: raise_first_Inl)

abbreviation strict :: "'a result \<Rightarrow> bool" where
  "strict \<equiv> raises_only is_strict_json_error"

lemma strict_surrogates [simp]: "strict (reject_surrogates s)"
  by (simp add: reject_surrogates_def)

lemma strict_validate_tree:
  "strict (validate_tree L d v)" "strict (validate_items L d vs)" "strict (validate_members L d ms)"
proof (induction L d v and L d vs and L d ms rule: validate_tree_validate_items_validate_members.induct)
  case (1 L d v)
  then show ?case by (cases v) (auto simp: validate_tree.simps intro!: raises_only_first)
qed (auto intro!: raises_only_rbind split: pykey.splits)

lemma strict_sink: "strict (sink_writes m c vs)"
  by (induction m c vs rule: sink_writes.induct) (auto intro!: raises_only_rbind)

lemma strict_canonical [simp]: "strict (canonical_json_bytes E L v)"
  unfolding canonical_json_bytes_def
  by (intro raises_only_rbind strict_validate_tree strict_sink) (auto split: option.splits)

lemma strict_parse: "strict (parse_int s)" "strict (parse_float E s)" "strict (reject_constant s)"
  by (auto simp: parse_int_def parse_float_def reject_constant_def Let_def
      intro!: raises_only_rbind raises_only_first split: option.splits simp del: raise_first.simps)

lemma strict_duplicates: "strict (object_without_duplicates acc ps)"
  by (induction acc ps rule: object_without_duplicates.induct) auto

lemma strict_hooks:
  "strict (apply_hooks E r)" "strict (apply_hooks_items E rs)" "strict (apply_hooks_pairs E ps)"
  by (induction E r and E rs and E ps rule: apply_hooks_apply_hooks_items_apply_hooks_pairs.induct)
    (auto simp: strict_parse strict_duplicates intro!: raises_only_rbind)

lemma strict_loads [simp]: "strict (strict_json_loads E L b)"
  unfolding strict_json_loads_def
  by (auto intro!: raises_only_rbind strict_hooks strict_validate_tree split: option.splits)

lemma strict_check_id: "strict (check_sorted_id prev v)"
  by (auto simp: check_sorted_id_def split: option.splits json.splits)

lemma strict_jsonl: "strict (jsonl_loop E L srt prev acc lines)"
proof (induction E L srt prev acc lines rule: jsonl_loop.induct)
  case (2 E L srt prev acc line lines)
  then show ?case by (auto intro!: raises_only_rbind strict_check_id)
qed simp

lemma strict_jsonl_loads_strict [simp]: "strict (strict_jsonl_loads E L srt b)"
  by (simp add: strict_jsonl_loads_def strict_jsonl)

end
