(* ===== verification/Alert_Window_Props.thy ===== *)
theory Alert_Window_Props
  imports Alert_Window Store_Props Strict_Errors
begin

text \<open>
  What an alert-window decision means. A reading of a record settles every predicate the captured
  fields leave open; the counts over all readings are exactly the interval the evaluator reports,
  and a decision is taken exactly when all of them agree. More evidence never flips a decision, the
  errors are classified, and a profile is accepted only under its two anchors.
\<close>

section \<open>Readings of incomplete evidence\<close>

definition agrees :: "(field_predicate \<Rightarrow> bool) \<Rightarrow> field_map \<Rightarrow> bool" where
  "agrees h fs \<longleftrightarrow> (\<forall>p b. predicate_result p fs = Some b \<longrightarrow> h p = b)"

definition possible_counts :: "metric \<Rightarrow> (code_points \<times> field_map) list \<Rightarrow> int set" where
  "possible_counts m records =
     {int (length (filter (\<lambda>h. list_all h (metric_predicates m)) hs)) |hs.
        list_all2 (\<lambda>r h. agrees h (snd r)) records hs}"

fun compare_holds :: "comparison \<Rightarrow> int \<Rightarrow> int \<Rightarrow> bool" where
  "compare_holds CmpEq expected n \<longleftrightarrow> n = expected"
| "compare_holds CmpGe expected n \<longleftrightarrow> n \<ge> expected"
| "compare_holds CmpLe expected n \<longleftrightarrow> n \<le> expected"

lemma matched_uniform:
  "matched_ids m rs = map fst (filter (\<lambda>r. all_true (metric_predicates m) (snd r)) rs)"
  "indeterminate_ids m rs = map fst (filter (\<lambda>r. \<not> all_true (metric_predicates m) (snd r)
     \<and> \<not> any_false (metric_predicates m) (snd r)) rs)"
  by (cases m; simp add: all_true_def)+

lemma agrees_cases:
  "agrees h fs \<Longrightarrow> all_true ps fs \<Longrightarrow> list_all h ps"
  "agrees h fs \<Longrightarrow> any_false ps fs \<Longrightarrow> \<not> list_all h ps"
  "\<exists>h. agrees h fs \<and> (list_all h ps \<longleftrightarrow> all_true ps fs)"
  "\<exists>h. agrees h fs \<and> (list_all h ps \<longleftrightarrow> \<not> any_false ps fs)"
proof -
  show "agrees h fs \<Longrightarrow> all_true ps fs \<Longrightarrow> list_all h ps"
    "agrees h fs \<Longrightarrow> any_false ps fs \<Longrightarrow> \<not> list_all h ps"
    by (auto simp: agrees_def all_true_def any_false_def list_all_iff list_ex_iff)
  show "\<exists>h. agrees h fs \<and> (list_all h ps \<longleftrightarrow> all_true ps fs)"
    by (rule exI [of _ "\<lambda>p. predicate_result p fs = Some True"])
      (auto simp: agrees_def all_true_def)
  show "\<exists>h. agrees h fs \<and> (list_all h ps \<longleftrightarrow> \<not> any_false ps fs)"
    by (rule exI [of _ "\<lambda>p. predicate_result p fs \<noteq> Some False"])
      (auto simp: agrees_def any_false_def list_all_iff list_ex_iff)
qed

lemma true_not_false: "all_true ps fs \<Longrightarrow> \<not> any_false ps fs"
  by (auto simp: all_true_def any_false_def list_all_iff list_ex_iff)

lemma reading_choice:
  "(\<exists>h. agrees h fs \<and> (if list_all h ps then P else Q)) \<longleftrightarrow> \<not> any_false ps fs \<and> P \<or> \<not> all_true ps fs \<and> Q"
proof
  assume "\<exists>h. agrees h fs \<and> (if list_all h ps then P else Q)"
  then show "\<not> any_false ps fs \<and> P \<or> \<not> all_true ps fs \<and> Q"
    using agrees_cases(1,2) by (metis (full_types))
next
  assume "\<not> any_false ps fs \<and> P \<or> \<not> all_true ps fs \<and> Q"
  then show "\<exists>h. agrees h fs \<and> (if list_all h ps then P else Q)"
    using agrees_cases(3,4) by (metis (full_types))
qed

lemma readings_count:
  "(\<exists>hs. list_all2 (\<lambda>r h. agrees h (snd r)) rs hs \<and> length (filter (\<lambda>h. list_all h ps) hs) = n) \<longleftrightarrow>
     length (filter (\<lambda>r. all_true ps (snd r)) rs) \<le> n \<and>
     n \<le> length (filter (\<lambda>r. all_true ps (snd r)) rs)
       + length (filter (\<lambda>r. \<not> all_true ps (snd r) \<and> \<not> any_false ps (snd r)) rs)"
proof (induction rs arbitrary: n)
  case (Cons r rs)
  let ?C = "\<lambda>hs. length (filter (\<lambda>h. list_all h ps) hs)"
  let ?R = "\<lambda>rs n. \<exists>hs. list_all2 (\<lambda>r h. agrees h (snd r)) rs hs \<and> ?C hs = n"
  have step: "?R (r # rs) n \<longleftrightarrow> (\<exists>h. agrees h (snd r) \<and> (if list_all h ps then 0 < n \<and> ?R rs (n - 1) else ?R rs n))"
    (is "?lhs \<longleftrightarrow> ?rhs")
  proof
    assume ?lhs
    then obtain h hs where "agrees h (snd r)" "list_all2 (\<lambda>r h. agrees h (snd r)) rs hs" "?C (h # hs) = n"
      by (auto simp: list_all2_Cons1)
    then show ?rhs by (intro exI [of _ h]) auto
  next
    assume ?rhs
    then obtain h where h: "agrees h (snd r)" "if list_all h ps then 0 < n \<and> ?R rs (n - 1) else ?R rs n" by blast
    then obtain hs where "list_all2 (\<lambda>r h. agrees h (snd r)) rs hs" "?C (h # hs) = n"
      by (cases "list_all h ps") auto
    with h(1) show ?lhs by blast
  qed
  have "?R (r # rs) n \<longleftrightarrow> \<not> any_false ps (snd r) \<and> 0 < n \<and> ?R rs (n - 1) \<or> \<not> all_true ps (snd r) \<and> ?R rs n"
    unfolding step by (rule reading_choice)
  then show ?case
    unfolding Cons.IH using true_not_false [of ps "snd r"]
    by (cases "all_true ps (snd r)"; cases "any_false ps (snd r)"; simp; linarith)
qed simp

lemma possible_counts_interval:
  "possible_counts m rs = {int (length (matched_ids m rs)) ..
     int (length (matched_ids m rs)) + int (length (indeterminate_ids m rs))}"
proof (rule set_eqI)
  fix n :: int
  let ?L = "length (matched_ids m rs)" and ?U = "length (matched_ids m rs) + length (indeterminate_ids m rs)"
  have "n \<in> possible_counts m rs \<longleftrightarrow> (\<exists>k. n = int k \<and> ?L \<le> k \<and> k \<le> ?U)"
  proof -
    have "n \<in> possible_counts m rs \<longleftrightarrow> (\<exists>k. n = int k \<and> (\<exists>hs. list_all2 (\<lambda>r h. agrees h (snd r)) rs hs
        \<and> length (filter (\<lambda>h. list_all h (metric_predicates m)) hs) = k))"
      unfolding possible_counts_def by blast
    then show ?thesis unfolding readings_count matched_uniform length_map .
  qed
  also have "\<dots> \<longleftrightarrow> n \<in> {int ?L .. int ?U}"
    by (cases n) auto
  finally show "n \<in> possible_counts m rs \<longleftrightarrow> n \<in> {int ?L .. int ?L + int (length (indeterminate_ids m rs))}"
    by simp
qed

lemma comparison_decision_exact:
  assumes "l \<le> u"
  shows "comparison_decision c e l u = Supported \<longleftrightarrow> (\<forall>n \<in> {l..u}. compare_holds c e n)"
    "comparison_decision c e l u = Refuted \<longleftrightarrow> (\<forall>n \<in> {l..u}. \<not> compare_holds c e n)"
proof -
  have ends: "l \<in> {l..u}" "u \<in> {l..u}" using assms by auto
  have "(\<forall>n \<in> {l..u}. n = e) \<longleftrightarrow> l = e \<and> u = e" "(\<forall>n \<in> {l..u}. e \<le> n) \<longleftrightarrow> e \<le> l"
    "(\<forall>n \<in> {l..u}. n \<le> e) \<longleftrightarrow> u \<le> e" "(\<forall>n \<in> {l..u}. n \<noteq> e) \<longleftrightarrow> e < l \<or> u < e"
    "(\<forall>n \<in> {l..u}. n < e) \<longleftrightarrow> u < e" "(\<forall>n \<in> {l..u}. e < n) \<longleftrightarrow> e < l"
    using bspec [OF _ ends(1)] bspec [OF _ ends(2)] by (auto simp: not_less)
  then show "comparison_decision c e l u = Supported \<longleftrightarrow> (\<forall>n \<in> {l..u}. compare_holds c e n)"
    "comparison_decision c e l u = Refuted \<longleftrightarrow> (\<forall>n \<in> {l..u}. \<not> compare_holds c e n)"
    using assms by (cases c; auto simp: not_le)+
qed

section \<open>Decisions\<close>

lemma evaluate_criterion_Inr:
  assumes "evaluate_criterion E rs c = Inr e"
  shows "ce_criterion_id e = cr_criterion_id c"
    "possible_counts (cr_metric c) rs = {ce_lower_bound e .. ce_upper_bound e}"
    "ce_lower_bound e \<le> ce_upper_bound e"
    "ce_decision e = Supported \<longleftrightarrow>
      (\<forall>n \<in> possible_counts (cr_metric c) rs. compare_holds (cr_comparison c) (cr_expected_count c) n)"
    "ce_decision e = Refuted \<longleftrightarrow>
      (\<forall>n \<in> possible_counts (cr_metric c) rs. \<not> compare_holds (cr_comparison c) (cr_expected_count c) n)"
proof -
  let ?l = "int (length (matched_ids (cr_metric c) rs))"
  let ?u = "?l + int (length (indeterminate_ids (cr_metric c) rs))"
  have e: "ce_criterion_id e = cr_criterion_id c" "ce_lower_bound e = ?l" "ce_upper_bound e = ?u"
    "ce_decision e = comparison_decision (cr_comparison c) (cr_expected_count c) ?l ?u"
    using assms by (auto simp: evaluate_criterion_def Let_def validate_interval_def result_simps
        simp del: raise_first.simps)
  show "ce_criterion_id e = cr_criterion_id c" "ce_lower_bound e \<le> ce_upper_bound e"
    "possible_counts (cr_metric c) rs = {ce_lower_bound e .. ce_upper_bound e}"
    using e possible_counts_interval by auto
  show "ce_decision e = Supported \<longleftrightarrow>
      (\<forall>n \<in> possible_counts (cr_metric c) rs. compare_holds (cr_comparison c) (cr_expected_count c) n)"
    "ce_decision e = Refuted \<longleftrightarrow>
      (\<forall>n \<in> possible_counts (cr_metric c) rs. \<not> compare_holds (cr_comparison c) (cr_expected_count c) n)"
    unfolding possible_counts_interval e(4) by (rule comparison_decision_exact; simp)+
qed

lemma overall_decision_iff:
  "overall_decision cs = Supported \<longleftrightarrow> (\<forall>c \<in> set cs. ce_decision c = Supported)"
  "overall_decision cs = Refuted \<longleftrightarrow> (\<exists>c \<in> set cs. ce_decision c = Refuted)"
proof -
  have "ce_decision c = Supported \<longleftrightarrow> ce_decision c \<noteq> Refuted \<and> ce_decision c \<noteq> Unresolved" for c
    by (cases "ce_decision c") auto
  then show "overall_decision cs = Supported \<longleftrightarrow> (\<forall>c \<in> set cs. ce_decision c = Supported)"
    "overall_decision cs = Refuted \<longleftrightarrow> (\<exists>c \<in> set cs. ce_decision c = Refuted)"
    unfolding overall_decision_def list_ex_iff by auto
qed

lemma evaluate_alert_window_Inr:
  assumes "evaluate_alert_window E p d k b t u = Inr v"
  obtains rs where "read_records E p b = Inr rs" "profile_digest E p = Inr d"
    "list_all2 (\<lambda>c e. evaluate_criterion E rs c = Inr e) (pf_criteria p) (av_criteria v)"
    "av_decision v = overall_decision (av_criteria v)" "av_records_digest v = sha256_bytes E b"
    "av_profile_digest v = d" "k = profile_source_kind (pf_source p)" "av_record_count v = int (length rs)"
    "av_window_start v < av_window_end v"
  using assms that
  by (auto simp: evaluate_alert_window_def Let_def result_simps rmap_Inr validate_result_def
      simp del: raise_first.simps split: if_splits prod.splits)

text \<open>
  C13. A decision is exact: for every criterion the counts under all readings of the open predicates
  are the reported interval; the window is supported exactly when every criterion holds under every
  reading, and refuted exactly when one and the same criterion fails under every reading. (Two
  criteria of which every reading fails one or the other, such as a count of at least 1 and at most 0
  over one open record, leave the window unresolved.)
\<close>

theorem alert_decisions_exact:
  assumes "evaluate_alert_window E p d k b t u = Inr v" "read_records E p b = Inr rs"
  shows "list_all2 (\<lambda>c e. ce_criterion_id e = cr_criterion_id c
      \<and> possible_counts (cr_metric c) rs = {ce_lower_bound e .. ce_upper_bound e}) (pf_criteria p) (av_criteria v)
    \<and> (av_decision v = Supported \<longleftrightarrow> (\<forall>c \<in> set (pf_criteria p). \<forall>n \<in> possible_counts (cr_metric c) rs.
         compare_holds (cr_comparison c) (cr_expected_count c) n))
    \<and> (av_decision v = Refuted \<longleftrightarrow> (\<exists>c \<in> set (pf_criteria p). \<forall>n \<in> possible_counts (cr_metric c) rs.
         \<not> compare_holds (cr_comparison c) (cr_expected_count c) n))"
proof -
  from assms have ev: "list_all2 (\<lambda>c e. evaluate_criterion E rs c = Inr e) (pf_criteria p) (av_criteria v)"
    and dec: "av_decision v = overall_decision (av_criteria v)"
    by (auto elim: evaluate_alert_window_Inr)
  have sets: "(\<forall>e \<in> set (av_criteria v). ce_decision e = Supported)
      \<longleftrightarrow> (\<forall>c \<in> set (pf_criteria p). \<forall>n \<in> possible_counts (cr_metric c) rs.
        compare_holds (cr_comparison c) (cr_expected_count c) n)"
    "(\<exists>e \<in> set (av_criteria v). ce_decision e = Refuted)
      \<longleftrightarrow> (\<exists>c \<in> set (pf_criteria p). \<forall>n \<in> possible_counts (cr_metric c) rs.
        \<not> compare_holds (cr_comparison c) (cr_expected_count c) n)"
    using ev by (induction rule: list_all2_induct) (simp_all add: evaluate_criterion_Inr(4,5))
  show ?thesis
    unfolding dec overall_decision_iff sets
    using ev by (auto elim!: list_all2_mono dest: evaluate_criterion_Inr(1,2))
qed

section \<open>More evidence\<close>

text \<open>The same records, with at least the fields they had.\<close>

definition richer :: "(code_points \<times> field_map) list \<Rightarrow> (code_points \<times> field_map) list \<Rightarrow> bool" where
  "richer rs rs' \<longleftrightarrow> list_all2 (\<lambda>r r'. fst r = fst r' \<and> map_of (snd r) \<subseteq>\<^sub>m map_of (snd r')) rs rs'"

lemma predicate_result_mono:
  "map_of fs \<subseteq>\<^sub>m map_of fs' \<Longrightarrow> predicate_result p fs = Some b \<Longrightarrow> predicate_result p fs' = Some b"
  by (auto simp: predicate_result_def map_le_def dom_def split: option.splits)

lemma agrees_mono: "map_of fs \<subseteq>\<^sub>m map_of fs' \<Longrightarrow> agrees h fs' \<Longrightarrow> agrees h fs"
  unfolding agrees_def using predicate_result_mono by blast

lemma possible_counts_mono:
  assumes "richer rs rs'"
  shows "possible_counts m rs' \<subseteq> possible_counts m rs"
proof -
  have "list_all2 (\<lambda>r h. agrees h (snd r)) rs hs" if "list_all2 (\<lambda>r h. agrees h (snd r)) rs' hs" for hs
    using that assms unfolding richer_def list_all2_conv_all_nth
    using agrees_mono by metis
  then show ?thesis unfolding possible_counts_def by blast
qed

lemma possible_counts_nonempty: "possible_counts m rs \<noteq> {}"
  unfolding possible_counts_interval by simp

text \<open>
  C14. More evidence never flips a decision: when the same records are captured again with more of
  their fields, a supported window stays supported and a refuted one refuted.
\<close>

theorem more_evidence_never_flips:
  assumes "evaluate_alert_window E p d k b t u = Inr v" "read_records E p b = Inr rs"
    and "evaluate_alert_window E p d k b' t' u' = Inr v'" "read_records E p b' = Inr rs'"
    and "richer rs rs'" "av_decision v \<noteq> Unresolved"
  shows "av_decision v' = av_decision v"
proof -
  note mono = possible_counts_mono [OF assms(5)] and ne = possible_counts_nonempty
  from assms have ev: "list_all2 (\<lambda>c e. evaluate_criterion E rs c = Inr e) (pf_criteria p) (av_criteria v)"
    "av_decision v = overall_decision (av_criteria v)"
    and ev': "list_all2 (\<lambda>c e. evaluate_criterion E rs' c = Inr e) (pf_criteria p) (av_criteria v')"
    "av_decision v' = overall_decision (av_criteria v')"
    by (auto elim: evaluate_alert_window_Inr)
  have step: "(ce_decision e = Supported \<longrightarrow> ce_decision e' = Supported)
      \<and> (ce_decision e = Refuted \<longrightarrow> ce_decision e' = Refuted)"
    if "evaluate_criterion E rs c = Inr e" "evaluate_criterion E rs' c = Inr e'" for c e e'
    using mono evaluate_criterion_Inr(4,5) [OF that(1)] evaluate_criterion_Inr(4,5) [OF that(2)] by blast
  have "list_all2 (\<lambda>e e'. (ce_decision e = Supported \<longrightarrow> ce_decision e' = Supported)
      \<and> (ce_decision e = Refuted \<longrightarrow> ce_decision e' = Refuted)) (av_criteria v) (av_criteria v')"
    using ev(1) ev'(1) step unfolding list_all2_conv_all_nth by metis
  then have "(overall_decision (av_criteria v) = Supported \<longrightarrow> overall_decision (av_criteria v') = Supported)
      \<and> (overall_decision (av_criteria v) = Refuted \<longrightarrow> overall_decision (av_criteria v') = Refuted)"
    unfolding overall_decision_iff by (induction rule: list_all2_induct) auto
  then show ?thesis using assms(6) ev(2) ev'(2) by (cases "av_decision v") auto
qed

section \<open>The evaluation never contradicts itself\<close>

lemma read_records_length: "read_records E p b = Inr rs \<Longrightarrow> length rs \<le> MAX_RECORDS"
  by (auto simp: read_records_def result_simps rmap_Inr split: if_splits dest: list_all2_lengthD)

lemma matched_bound: "length (matched_ids m rs) + length (indeterminate_ids m rs) \<le> length rs"
proof -
  have "length (filter P rs) + length (filter (\<lambda>r. \<not> P r \<and> Q r) rs) \<le> length rs" for P Q
    by (induction rs) auto
  then show ?thesis unfolding matched_uniform length_map .
qed

lemma rmap_in: "rmap f xs = Inr ys \<Longrightarrow> x \<in> set xs \<Longrightarrow> \<exists>y. f x = Inr y"
  by (induction xs arbitrary: ys) (auto simp: result_simps)

lemma validate_profile_D:
  assumes "validate_profile E p = Inr q"
  shows "portable_id (pf_profile_id p)" "pf_criteria p \<noteq> []" "length (pf_criteria p) \<le> 64"
    "card (set (map cr_criterion_id (pf_criteria p))) = length (map cr_criterion_id (pf_criteria p))"
    "sort (map cr_criterion_id (pf_criteria p)) = map cr_criterion_id (pf_criteria p)"
    "\<And>c. c \<in> set (pf_criteria p) \<Longrightarrow>
      portable_id (cr_criterion_id c) \<and> between 0 (int MAX_RECORDS) (cr_expected_count c)"
proof -
  from assms obtain ys where ys: "rmap (validate_criterion E) (pf_criteria p) = Inr ys"
    and checks: "raise_first (profile_checks p) = Inr ()" "raise_first (criteria_checks (pf_criteria p)) = Inr ()"
    unfolding validate_profile_def rbind_eq_Inr by auto
  have "validate_criterion E c = Inr ()" if "c \<in> set (pf_criteria p)" for c
    using rmap_in [OF ys that] by simp
  then show "portable_id (cr_criterion_id c) \<and> between 0 (int MAX_RECORDS) (cr_expected_count c)"
    if "c \<in> set (pf_criteria p)" for c
    using that by (fastforce simp: validate_criterion_def result_simps split: if_splits)
  show "portable_id (pf_profile_id p)" "pf_criteria p \<noteq> []" "length (pf_criteria p) \<le> 64"
    "card (set (map cr_criterion_id (pf_criteria p))) = length (map cr_criterion_id (pf_criteria p))"
    "sort (map cr_criterion_id (pf_criteria p)) = map cr_criterion_id (pf_criteria p)"
    using checks unfolding raise_first_Inr profile_checks_def criteria_checks_def Let_def by simp_all
qed

lemma validate_interval_ok:
  assumes "portable_id i" "between 0 (int MAX_RECORDS) n" "l + k \<le> MAX_RECORDS" "digest_format d" "digest_format d'"
    and "r = expected_reason q"
  shows "validate_interval \<lparr>ce_criterion_id = i, ce_comparison = c, ce_expected_count = n, ce_lower_bound = int l,
      ce_upper_bound = int l + int k, ce_indeterminate_count = int k, ce_matched_digest = d,
      ce_indeterminate_digest = d', ce_decision = q, ce_reason = r\<rparr>
    = Inr \<lparr>ce_criterion_id = i, ce_comparison = c, ce_expected_count = n, ce_lower_bound = int l,
      ce_upper_bound = int l + int k, ce_indeterminate_count = int k, ce_matched_digest = d,
      ce_indeterminate_digest = d', ce_decision = q, ce_reason = r\<rparr>"
  using assms by (simp add: validate_interval_def between_def)

definition ids_encoded :: "'e model_env_scheme \<Rightarrow> (code_points \<times> field_map) list \<Rightarrow> criterion \<Rightarrow> unit result" where
  "ids_encoded E rs c = rbind (ids_digest E (matched_ids (cr_metric c) rs)) (\<lambda>_.
     rbind (ids_digest E (indeterminate_ids (cr_metric c) rs)) (\<lambda>_. Inr ()))"

lemma evaluate_criterion_total:
  assumes "\<And>b. digest_format (sha256_bytes E b)" "length rs \<le> MAX_RECORDS"
    "portable_id (cr_criterion_id c)" "between 0 (int MAX_RECORDS) (cr_expected_count c)"
  shows "evaluate_criterion E rs c = Inl e \<longleftrightarrow> ids_encoded E rs c = Inl e"
    "\<exists>x. ids_encoded E rs c = Inr () \<longrightarrow> evaluate_criterion E rs c = Inr x \<and> ce_criterion_id x = cr_criterion_id c"
proof -
  have digests: "digest_format d" if "ids_digest E ids = Inr d" for ids d
    using that assms(1) by (auto simp: ids_digest_def result_simps)
  have reason: "(if d = Supported then ComparisonSatisfied else if d = Refuted then ComparisonRefuted
      else InsufficientFieldEvidence) = expected_reason d" for d
    by (cases d) auto
  have bounds: "length (matched_ids (cr_metric c) rs) + length (indeterminate_ids (cr_metric c) rs) \<le> MAX_RECORDS"
    using matched_bound [of "cr_metric c" rs] assms(2) by linarith
  show "evaluate_criterion E rs c = Inl e \<longleftrightarrow> ids_encoded E rs c = Inl e"
    "\<exists>x. ids_encoded E rs c = Inr () \<longrightarrow> evaluate_criterion E rs c = Inr x \<and> ce_criterion_id x = cr_criterion_id c"
    unfolding evaluate_criterion_def ids_encoded_def Let_def reason
    using validate_interval_ok [OF assms(3,4) bounds digests digests refl]
    by (cases "ids_digest E (matched_ids (cr_metric c) rs)";
        cases "ids_digest E (indeterminate_ids (cr_metric c) rs)"; fastforce)+
qed

lemma read_records_errors: "raises_only (\<lambda>e. \<exists>m. e = AlertWindowEvaluationError m) (read_records E p b)"
proof -
  have rec: "raises_only (\<lambda>e. \<exists>m. e = AlertWindowEvaluationError m) (read_record src v)" for src v
    by (cases v) (auto split: option.splits json.splits)
  show ?thesis
    unfolding read_records_def
    by (intro raises_only_rbind raises_only_on_error)
      (auto intro!: raises_only_rmap rec raises_only_mono [OF strict_jsonl_loads_strict])
qed

lemma utc_second_errors: "raises_only is_value_error (utc_second label t)"
  by (simp add: utc_second_def)

lemma ids_encoded_errors: "strict (ids_encoded E rs c)" "strict (profile_digest E p)"
  unfolding ids_encoded_def ids_digest_def profile_digest_def profile_canonical_bytes_def canonical_def
  by (intro raises_only_rbind; simp)+

lemma validate_result_ok:
  assumes "\<And>c. digest_format (sha256_bytes E c)" "validate_profile E p = Inr q" "read_records E p b = Inr rs"
    and "list_all2 (\<lambda>c e. evaluate_criterion E rs c = Inr e) (pf_criteria p) es" "t < u" "digest_format d"
  shows "validate_result \<lparr>av_profile_id = pf_profile_id p, av_profile_digest = d, av_source_kind = k,
      av_records_digest = sha256_bytes E b, av_record_count = int (length rs), av_window_start = t,
      av_window_end = u, av_criteria = es, av_decision = overall_decision es\<rparr>
    = Inr \<lparr>av_profile_id = pf_profile_id p, av_profile_digest = d, av_source_kind = k,
      av_records_digest = sha256_bytes E b, av_record_count = int (length rs), av_window_start = t,
      av_window_end = u, av_criteria = es, av_decision = overall_decision es\<rparr>"
proof -
  have "map ce_criterion_id es = map cr_criterion_id (pf_criteria p)"
    using assms(4) by (induction rule: list_all2_induct) (auto dest: evaluate_criterion_Inr(1))
  moreover have "length es = length (pf_criteria p)" using assms(4) by (simp add: list_all2_lengthD)
  moreover have "es \<noteq> []" using calculation(2) validate_profile_D(2) [OF assms(2)] by auto
  ultimately show ?thesis
    using validate_profile_D(1,3,4,5) [OF assms(2)] read_records_length [OF assms(3)] assms(1,5,6)
    unfolding validate_result_def Let_def by (simp add: between_def)
qed


section \<open>Anchored profiles\<close>

text \<open>
  A profile is accepted only under both anchors: its bytes are the canonical text of the returned
  profile, they have the expected digest and id, and the profile is valid.
\<close>

theorem parsed_profile_is_anchored:
  assumes "parse_alert_window_profile E b i d = Inr p"
  shows "profile_canonical_bytes E p = Inr b \<and> sha256_bytes E b = d \<and> profile_digest E p = Inr d
    \<and> pf_profile_id p = i \<and> digest_format d \<and> validate_profile E p = Inr p"
proof -
  from assms obtain q where q: "validate_profile E q = Inr p" "profile_canonical_bytes E p = Inr b"
    "pf_profile_id p = i" "profile_digest E p = Inr d" "digest_format d"
    by (auto simp: parse_alert_window_profile_def rbind_eq_Inr on_error_Inr split: if_splits option.splits)
  moreover have "q = p" using q(1) unfolding validate_profile_def rbind_eq_Inr by blast
  ultimately show ?thesis by (simp add: profile_digest_def)
qed

end
