(* ===== verification/Alert_Window_Example.thy ===== *)
theory Alert_Window_Example
  imports Alert_Window_Props Lifecycle_Example
begin

text \<open>
  A concrete profile with one criterion, two captures of the same two alerts, the second with more
  fields, and an environment in which they evaluate; the properties of the previous theory there.
\<close>

section \<open>Profile and captures\<close>

definition severity_high :: field_predicate where
  "severity_high = EqualsPredicate ''Severity'' (SText (text_of ''High''))"

definition alert_profile :: alert_window_profile where
  "alert_profile = \<lparr>pf_profile_id = ''edr-1'', pf_profile_version = ''1.0.0'', pf_title = ''EDR'',
     pf_source = DefenderAlerts,
     pf_criteria = [\<lparr>cr_criterion_id = ''high'', cr_description = ''one high alert'',
       cr_metric = MatchingRecordCount [severity_high], cr_comparison = CmpGe, cr_expected_count = 1\<rparr>]\<rparr>"

definition alert_record :: "string \<Rightarrow> (string \<times> json) list \<Rightarrow> json" where
  "alert_record i ms = jobject [(''fields'', jobject ms), (''id'', jtext i)]"

definition known_alerts :: "(json \<times> int) list" where
  "known_alerts = [(profile_json alert_profile, 1),
     (alert_record ''a'' [(''Severity'', jtext ''High'')], 2), (alert_record ''b'' [], 3),
     (alert_record ''b'' [(''Severity'', jtext ''Low'')], 4), (JArr [jtext ''a''], 5), (JArr [jtext ''b''], 6),
     (JArr [], 7), (predicate_json severity_high, 8)]"

definition raw_alert :: "string \<Rightarrow> (code_points \<times> raw_json) list \<Rightarrow> raw_json" where
  "raw_alert i ms = RObj [(text_of ''fields'', RObj ms), (text_of ''id'', RStr (text_of i))]"

definition alert_scan :: "code_points \<Rightarrow> raw_json option" where
  "alert_scan t = map_of
     [([0x7B, 49, 0x7D], RObj []),
      ([0x7B, 50, 0x7D], raw_alert ''a'' [(text_of ''Severity'', RStr (text_of ''High''))]),
      ([0x7B, 51, 0x7D], raw_alert ''b'' []),
      ([0x7B, 52, 0x7D], raw_alert ''b'' [(text_of ''Severity'', RStr (text_of ''Low''))])] t"

definition alert_example_env :: alert_env where
  "alert_example_env = model_env.extend (example_env\<lparr>json_scan := alert_scan, rfc8785_dump := (\<lambda>v.
       case map_of known_alerts v of None \<Rightarrow> ([], Some ''unknown'') | Some k \<Rightarrow> ([line_of k], None))\<rparr>)
     \<lparr>profile_validate_json = (\<lambda>b. Some alert_profile)\<rparr>"

definition poor_capture :: bytes where
  "poor_capture = line_of 2 @ [0x0A] @ line_of 3 @ [0x0A]"

definition rich_capture :: bytes where
  "rich_capture = line_of 2 @ [0x0A] @ line_of 4 @ [0x0A]"

section \<open>Evaluation\<close>

lemma alert_env_fields [simp]:
  "json_scan alert_example_env = alert_scan"
  "rfc8785_dump alert_example_env v = (case map_of known_alerts v of None \<Rightarrow> ([], Some ''unknown'')
     | Some k \<Rightarrow> ([line_of k], None))"
  "sha256_bytes alert_example_env c = sha256_bytes example_env c"
  "profile_validate_json alert_example_env c = Some alert_profile"
  by (simp_all add: alert_example_env_def model_env.defs sha256_bytes_def example_env_def)

lemma known_alert_lookup:
  "map_of known_alerts (profile_json alert_profile) = Some 1"
  "map_of known_alerts (alert_record ''a'' [(''Severity'', jtext ''High'')]) = Some 2"
  "map_of known_alerts (alert_record ''b'' []) = Some 3"
  "map_of known_alerts (alert_record ''b'' [(''Severity'', jtext ''Low'')]) = Some 4"
  "map_of known_alerts (JArr [jtext ''a'']) = Some 5" "map_of known_alerts (JArr [jtext ''b'']) = Some 6"
  "map_of known_alerts (JArr []) = Some 7" "map_of known_alerts (predicate_json severity_high) = Some 8"
  by (simp_all add: known_alerts_def profile_json_def alert_record_def severity_high_def jobject_def jtext_def)

lemma alert_valid:
  "validate_tree PROFILE_LIMITS 0 (profile_json alert_profile) = Inr ()"
  "validate_tree RECORD_LIMITS 0 (alert_record ''a'' [(''Severity'', jtext ''High'')]) = Inr ()"
  "validate_tree RECORD_LIMITS 0 (alert_record ''b'' []) = Inr ()"
  "validate_tree RECORD_LIMITS 0 (alert_record ''b'' [(''Severity'', jtext ''Low'')]) = Inr ()"
  "validate_tree DEFAULT_JSON_LIMITS 0 (JArr [jtext ''a'']) = Inr ()"
  "validate_tree DEFAULT_JSON_LIMITS 0 (JArr [jtext ''b'']) = Inr ()"
  "validate_tree DEFAULT_JSON_LIMITS 0 (JArr []) = Inr ()"
  "validate_tree DEFAULT_JSON_LIMITS 0 (predicate_json severity_high) = Inr ()"
  by (simp_all add: validate_tree_iff profile_json_def criterion_json_def alert_profile_def alert_record_def
      severity_high_def jobject_def jtext_def PROFILE_LIMITS_def RECORD_LIMITS_def DEFAULT_JSON_LIMITS_def
      I_JSON_MAX_INTEGER_def text_of_def no_surrogate_def)

lemma alert_canonical:
  "canonical_json_bytes alert_example_env PROFILE_LIMITS (profile_json alert_profile) = Inr (line_of 1)"
  "canonical_json_bytes alert_example_env RECORD_LIMITS (alert_record ''a'' [(''Severity'', jtext ''High'')]) = Inr (line_of 2)"
  "canonical_json_bytes alert_example_env RECORD_LIMITS (alert_record ''b'' []) = Inr (line_of 3)"
  "canonical_json_bytes alert_example_env RECORD_LIMITS (alert_record ''b'' [(''Severity'', jtext ''Low'')]) = Inr (line_of 4)"
  "canonical alert_example_env (JArr [jtext ''a'']) = Inr (line_of 5)"
  "canonical alert_example_env (JArr [jtext ''b'']) = Inr (line_of 6)"
  "canonical alert_example_env (JArr []) = Inr (line_of 7)"
  "canonical alert_example_env (predicate_json severity_high) = Inr (line_of 8)"
  by (simp_all add: canonical_def canonical_json_bytes_def alert_valid known_alert_lookup)
    (simp_all add: PROFILE_LIMITS_def RECORD_LIMITS_def DEFAULT_JSON_LIMITS_def)

lemma alert_loads:
  "strict_json_loads alert_example_env RECORD_LIMITS (line_of 2) = Inr (alert_record ''a'' [(''Severity'', jtext ''High'')])"
  "strict_json_loads alert_example_env RECORD_LIMITS (line_of 3) = Inr (alert_record ''b'' [])"
  "strict_json_loads alert_example_env RECORD_LIMITS (line_of 4) = Inr (alert_record ''b'' [(''Severity'', jtext ''Low'')])"
proof -
  have roomy: "\<not> max_bytes RECORD_LIMITS < 3" "line_of k \<noteq> [239, 187, 191]" for k
    by (simp_all add: RECORD_LIMITS_def line_of_def)
  have hooks: "apply_hooks alert_example_env (raw_alert i ms) = Inr (alert_record i vs)"
    if "apply_hooks alert_example_env (RObj ms) = Inr (jobject vs)" for i ms vs
    using that unfolding raw_alert_def alert_record_def
    by (auto simp: rbind_eq_Inr jobject_def jtext_def)
  have members: "apply_hooks alert_example_env (RObj []) = Inr (jobject [])"
    "apply_hooks alert_example_env (RObj [(text_of k, RStr (text_of v))]) = Inr (jobject [(k, jtext v)])" for k v
    by (simp_all add: jobject_def jtext_def)
  show "strict_json_loads alert_example_env RECORD_LIMITS (line_of 2) = Inr (alert_record ''a'' [(''Severity'', jtext ''High'')])"
    "strict_json_loads alert_example_env RECORD_LIMITS (line_of 3) = Inr (alert_record ''b'' [])"
    "strict_json_loads alert_example_env RECORD_LIMITS (line_of 4) = Inr (alert_record ''b'' [(''Severity'', jtext ''Low'')])"
    using example_parse(1) [of 2] example_parse(1) [of 3] example_parse(1) [of 4] alert_valid(2-4)
    by (simp_all add: strict_json_loads_def starts_with_def UTF8_BOM_def roomy
        alert_scan_def hooks [OF members(1)] hooks [OF members(2)])
qed

definition reading_of :: "string option \<Rightarrow> (code_points \<times> field_map) list" where
  "reading_of b = [(text_of ''a'', [(KStr (text_of ''Severity''), jtext ''High'')]),
     (text_of ''b'', case b of None \<Rightarrow> [] | Some s \<Rightarrow> [(KStr (text_of ''Severity''), jtext s)])]"

lemma alert_lines:
  "butlast (split_on 0x0A poor_capture) = [line_of 2, line_of 3]" "butlast (split_on 0x0A rich_capture) = [line_of 2, line_of 4]"
  "length poor_capture = 8" "length rich_capture = 8" "0x0D \<notin> set poor_capture" "0x0D \<notin> set rich_capture"
  "last poor_capture = 0x0A" "last rich_capture = 0x0A" "poor_capture \<noteq> []" "rich_capture \<noteq> []"
  by (simp_all add: poor_capture_def rich_capture_def line_of_def)

lemma alert_jsonl:
  "strict_jsonl_loads alert_example_env RECORD_LIMITS True poor_capture
     = Inr [alert_record ''a'' [(''Severity'', jtext ''High'')], alert_record ''b'' []]"
  "strict_jsonl_loads alert_example_env RECORD_LIMITS True rich_capture
     = Inr [alert_record ''a'' [(''Severity'', jtext ''High'')], alert_record ''b'' [(''Severity'', jtext ''Low'')]]"
proof -
  have line: "line_of k \<noteq> []" "\<not> bytes_isspace (line_of k)" for k
    by (simp_all add: line_of_def bytes_isspace_def)
  have rec: "is_object (alert_record i ms)" "dict_get (alert_record i ms) ''id'' = Some (JStr (text_of i))" for i ms
    by (simp_all add: alert_record_def dict_get_jobject jtext_def) (simp add: jobject_def)
  have limits: "\<not> max_line_bytes RECORD_LIMITS < 3" "\<not> max_bytes RECORD_LIMITS < 8"
    "\<not> max_collection_items RECORD_LIMITS \<le> Suc 0" "max_collection_items RECORD_LIMITS \<noteq> 0"
    by (simp_all add: RECORD_LIMITS_def)
  show "strict_jsonl_loads alert_example_env RECORD_LIMITS True poor_capture
     = Inr [alert_record ''a'' [(''Severity'', jtext ''High'')], alert_record ''b'' []]"
    "strict_jsonl_loads alert_example_env RECORD_LIMITS True rich_capture
     = Inr [alert_record ''a'' [(''Severity'', jtext ''High'')], alert_record ''b'' [(''Severity'', jtext ''Low'')]]"
    by (simp_all add: strict_jsonl_loads_def alert_lines alert_loads alert_canonical line rec limits
        check_sorted_id_def text_of_def)
qed

lemma alert_reading:
  "read_records alert_example_env alert_profile poor_capture = Inr (reading_of None)"
  "read_records alert_example_env alert_profile rich_capture = Inr (reading_of (Some ''Low''))"
  by (simp_all add: read_records_def alert_jsonl MAX_RECORDS_def alert_record_def jobject_def reading_of_def
      alert_profile_def DEFENDER_FIELDS_def jtext_def insert_commute)
    (simp_all add: text_of_def)

lemma alert_criteria:
  "rmap (evaluate_criterion alert_example_env (reading_of None)) (pf_criteria alert_profile)
     = Inr [\<lparr>ce_criterion_id = ''high'', ce_comparison = CmpGe, ce_expected_count = 1, ce_lower_bound = 1,
         ce_upper_bound = 2, ce_indeterminate_count = 1, ce_matched_digest = D 5, ce_indeterminate_digest = D 6,
         ce_decision = Supported, ce_reason = ComparisonSatisfied\<rparr>]"
  "rmap (evaluate_criterion alert_example_env (reading_of (Some ''Low''))) (pf_criteria alert_profile)
     = Inr [\<lparr>ce_criterion_id = ''high'', ce_comparison = CmpGe, ce_expected_count = 1, ce_lower_bound = 1,
         ce_upper_bound = 1, ce_indeterminate_count = 0, ce_matched_digest = D 5, ce_indeterminate_digest = D 7,
         ce_decision = Supported, ce_reason = ComparisonSatisfied\<rparr>]"
proof -
  have result: "predicate_result severity_high [(KStr (text_of ''Severity''), jtext s)] = Some (s = ''High'')"
    "predicate_result severity_high [] = None" for s
    by (simp_all add: predicate_result_def severity_high_def jtext_def)
  have ids: "ids_digest alert_example_env [text_of ''a''] = Inr (D 5)"
    "ids_digest alert_example_env [text_of ''b''] = Inr (D 6)" "ids_digest alert_example_env [] = Inr (D 7)"
    using alert_canonical(5,6,7) by (simp_all add: ids_digest_def jtext_def)
  have "portable_id ''high''"
    by (simp add: portable_id_def lower_char_def less_eq_char_def)
  then show "rmap (evaluate_criterion alert_example_env (reading_of None)) (pf_criteria alert_profile)
     = Inr [\<lparr>ce_criterion_id = ''high'', ce_comparison = CmpGe, ce_expected_count = 1, ce_lower_bound = 1,
         ce_upper_bound = 2, ce_indeterminate_count = 1, ce_matched_digest = D 5, ce_indeterminate_digest = D 6,
         ce_decision = Supported, ce_reason = ComparisonSatisfied\<rparr>]"
    "rmap (evaluate_criterion alert_example_env (reading_of (Some ''Low''))) (pf_criteria alert_profile)
     = Inr [\<lparr>ce_criterion_id = ''high'', ce_comparison = CmpGe, ce_expected_count = 1, ce_lower_bound = 1,
         ce_upper_bound = 1, ce_indeterminate_count = 0, ce_matched_digest = D 5, ce_indeterminate_digest = D 7,
         ce_decision = Supported, ce_reason = ComparisonSatisfied\<rparr>]"
    by (simp_all add: alert_profile_def evaluate_criterion_def reading_of_def all_true_def any_false_def result ids
        validate_interval_def between_def MAX_RECORDS_def)
qed

lemma alert_profile_digest: "profile_digest alert_example_env alert_profile = Inr (D 1)"
  by (simp add: profile_digest_def profile_canonical_bytes_def alert_canonical)

lemma alert_profile_valid: "validate_profile alert_example_env alert_profile = Inr alert_profile"
proof -
  have "canonical alert_example_env (predicate_json severity_high) = Inr (line_of 8)" by (rule alert_canonical)
  then show ?thesis
    by (simp add: validate_profile_def profile_checks_def criteria_checks_def predicate_checks_def alert_profile_def
        validate_criterion_def between_def MAX_RECORDS_def field_error_def portable_id_def lower_char_def
        digit_char_def less_eq_char_def text_between_def version_format_def validate_predicate_def)
      (simp add: severity_high_def field_name_format_def lower_char_def upper_char_def less_eq_char_def
        utf8_length_def utf8_size_def text_of_def DEFENDER_FIELDS_def field_error_def)
qed

lemma alert_evaluates:
  assumes "read_records alert_example_env alert_profile b = Inr rs"
    and "rmap (evaluate_criterion alert_example_env rs) (pf_criteria alert_profile) = Inr es"
  shows "evaluate_alert_window alert_example_env alert_profile (D 1) DefenderXdr b (instant 0) (instant 60)
    = Inr \<lparr>av_profile_id = ''edr-1'', av_profile_digest = D 1, av_source_kind = DefenderXdr,
        av_records_digest = sha256_bytes example_env b, av_record_count = int (length rs), av_window_start = 0,
        av_window_end = 60, av_criteria = es, av_decision = overall_decision es\<rparr>"
proof -
  have fmt: "digest_format (sha256_bytes alert_example_env c)" for c
    using digest_format_sha256 [OF example_lawful, of c] by simp
  have p: "pf_profile_id alert_profile = ''edr-1''" "profile_source_kind (pf_source alert_profile) = DefenderXdr"
    by (simp_all add: alert_profile_def)
  have es: "list_all2 (\<lambda>c e. evaluate_criterion alert_example_env rs c = Inr e) (pf_criteria alert_profile) es"
    using assms(2) by (simp add: rmap_Inr)
  have "validate_result \<lparr>av_profile_id = ''edr-1'', av_profile_digest = D 1, av_source_kind = DefenderXdr,
        av_records_digest = sha256_bytes example_env b, av_record_count = int (length rs), av_window_start = 0,
        av_window_end = 60, av_criteria = es, av_decision = overall_decision es\<rparr>
      = Inr \<lparr>av_profile_id = ''edr-1'', av_profile_digest = D 1, av_source_kind = DefenderXdr,
        av_records_digest = sha256_bytes example_env b, av_record_count = int (length rs), av_window_start = 0,
        av_window_end = 60, av_criteria = es, av_decision = overall_decision es\<rparr>"
    using validate_result_ok [OF fmt alert_profile_valid assms(1) es, of 0 60 "D 1" DefenderXdr] p by simp
  then show ?thesis
    using assms p by (simp add: evaluate_alert_window_def alert_profile_digest utc_second_def instant_def)
qed

lemmas alert_evaluated = alert_evaluates [OF alert_reading(1) alert_criteria(1)]
  alert_evaluates [OF alert_reading(2) alert_criteria(2)]

section \<open>The properties at this input\<close>

theorem alert_decisions_exact_witness:
  "\<exists>v. evaluate_alert_window alert_example_env alert_profile (D 1) DefenderXdr poor_capture (instant 0) (instant 60)
      = Inr v
    \<and> (av_decision v = Supported \<longleftrightarrow> (\<forall>c \<in> set (pf_criteria alert_profile).
        \<forall>n \<in> possible_counts (cr_metric c) (reading_of None).
          compare_holds (cr_comparison c) (cr_expected_count c) n))"
  by (intro exI conjI, rule alert_evaluated(1),
      rule alert_decisions_exact [OF alert_evaluated(1) alert_reading(1), THEN conjunct2, THEN conjunct1])

theorem more_evidence_never_flips_witness:
  "\<exists>v v'. evaluate_alert_window alert_example_env alert_profile (D 1) DefenderXdr poor_capture (instant 0) (instant 60)
      = Inr v
    \<and> evaluate_alert_window alert_example_env alert_profile (D 1) DefenderXdr rich_capture (instant 0) (instant 60)
      = Inr v' \<and> av_decision v' = av_decision v"
proof -
  have "richer (reading_of None) (reading_of (Some ''Low''))"
    by (simp add: richer_def reading_of_def)
  from more_evidence_never_flips [OF alert_evaluated(1) alert_reading(1) alert_evaluated(2) alert_reading(2) this]
  show ?thesis using alert_evaluated by (simp add: overall_decision_def)
qed


theorem parsed_profile_is_anchored_witness:
  "parse_alert_window_profile alert_example_env (line_of 1) ''edr-1'' (D 1) = Inr alert_profile
    \<and> profile_canonical_bytes alert_example_env alert_profile = Inr (line_of 1)"
proof -
  have "validate_tree PROFILE_LIMITS 0 (JObj []) = Inr ()" "\<not> max_bytes PROFILE_LIMITS < 3"
    "line_of 1 \<noteq> [239, 187, 191]"
    by (simp_all add: validate_tree_iff PROFILE_LIMITS_def line_of_def)
  then have "strict_json_loads alert_example_env PROFILE_LIMITS (line_of 1) = Inr (JObj [])"
    using example_parse(1) [of 1]
    by (simp add: strict_json_loads_def starts_with_def UTF8_BOM_def alert_scan_def)
  moreover have "line_of 1 \<noteq> []" "portable_id ''edr-1''" "pf_profile_id alert_profile = ''edr-1''"
    by (simp_all add: line_of_def portable_id_def lower_char_def digit_char_def less_eq_char_def alert_profile_def)
  ultimately have "parse_alert_window_profile alert_example_env (line_of 1) ''edr-1'' (D 1) = Inr alert_profile"
    using alert_canonical(1)
    by (simp add: parse_alert_window_profile_def alert_profile_valid profile_canonical_bytes_def alert_profile_digest)
  with parsed_profile_is_anchored [OF this] show ?thesis by blast
qed

end
