(* ===== verification/Contract.thy ===== *)
theory Contract
  imports Contract_Values
begin

text \<open>
  The compiler of experiment contracts, from the second half of
  \<^verbatim>\<open>src/src/assurance_lab/contract.py\<close>: validation of the profile and the obligations against the
  metrics, the sixteen cells, the semantic payload and its digest, the trial plan, the coverage of
  obligations and the five contrasts.

  The canonical text is decoded from UTF-8 and encoded again before it is hashed; the model hashes
  the bytes it decoded, which are the same. The field constraints of the generated models (sixteen
  cells, five contrasts, digests, bounded ordinals) hold by construction and are not checked again.
  Error messages name the failed check; not every value the source interpolates is repeated.
\<close>

section \<open>Generated values\<close>

record generated_cell =
  gc_key :: string
  gc_selector :: cell_selector

datatype contrast_id =
    TargetAttackEffect | TargetBenignInvariance | CompensatorBenignInvariance | ShamInvariance
  | CompensatorAttackEffect

datatype axis = AxisInput | AxisTarget | AxisCompensator | AxisSham

record contrast_pair =
  cp_reference :: string
  cp_comparison :: string

record contrast_definition =
  cd_id :: contrast_id
  cd_metric_id :: string
  cd_relation :: relation_operator
  cd_varied_axis :: axis
  cd_pairs :: "contrast_pair list"

record planned_trial =
  pt_key :: string
  pt_ordinal :: int
  pt_cell_key :: string
  pt_block :: string
  pt_replicate :: int

record obligation_coverage =
  oc_obligation_id :: string
  oc_trial_keys :: "string list"

record compiled_experiment =
  ce_contract :: experiment_contract
  ce_canonical_spec :: code_points
  ce_spec_digest :: string
  ce_cells :: "generated_cell list"
  ce_current_selector :: cell_selector
  ce_contrasts :: "contrast_definition list"
  ce_planned_trials :: "planned_trial list"
  ce_coverage :: "obligation_coverage list"

abbreviation compile_error :: "string \<Rightarrow> py_error" where
  "compile_error \<equiv> ContractCompileError"

section \<open>Validation against the metrics\<close>

definition validate_plan_size :: "trial_plan \<Rightarrow> unit result" where
  "validate_plan_size p =
     (if 16 * int (length (tp_blocks p)) * tp_replicates p > MAX_PLANNED_TRIALS
      then Inl (compile_error ''trial plan expands beyond the maximum'') else Inr ())"

fun unique_by_id :: "('a \<Rightarrow> string) \<Rightarrow> string \<Rightarrow> (string \<times> 'a) list \<Rightarrow> 'a list \<Rightarrow> (string \<times> 'a) list result" where
  "unique_by_id key label res [] = Inr res"
| "unique_by_id key label res (x # xs) =
     (if map_of res (key x) \<noteq> None then Inl (compile_error (''duplicate '' @ label @ '' id: '' @ key x))
      else unique_by_id key label (res @ [(key x, x)]) xs)"

fun allowed_relations :: "metric_value_type \<Rightarrow> relation_operator list" where
  "allowed_relations BooleanMetric = [TrueToFalse, FalseToTrue]"
| "allowed_relations IntegerMetric = [Decreases, Increases]"
| "allowed_relations DecimalMetric = [Decreases, Increases]"
| "allowed_relations StringMetric = []"

definition validate_effect_relation ::
  "relation_operator \<Rightarrow> metric_contract \<Rightarrow> string \<Rightarrow> typed_value \<Rightarrow> unit result" where
  "validate_effect_relation r m label safe_value =
     (if r \<notin> set (allowed_relations (mc_value_type m))
      then Inl (compile_error (label @ '' effect relation is incompatible with the metric''))
      else if mc_value_type m = BooleanMetric \<and> safe_value \<noteq> BooleanValue (r = FalseToTrue)
      then Inl (compile_error (label @ '' effect relation moves away from its declared safe value''))
      else Inr ())"

type_synonym metric_binding =
  "string \<times> string \<times> stage \<times> string \<times> relation_operator option \<times> typed_value"

definition bindings :: "masking_profile \<Rightarrow> metric_binding list" where
  "bindings p =
     [(''target'', pr_target_metric_id p, StageTarget, ca_component (pr_target p),
         Some (pr_target_attack_relation p), pr_target_safe p),
      (''compensator'', pr_compensator_metric_id p, StageCompensator, ca_component (pr_compensator p),
         None, pr_compensator_safe p),
      (''outcome'', pr_outcome_metric_id p, StageOutcome, pr_outcome_component p,
         Some (pr_compensator_attack_relation p), pr_outcome_safe p),
      (''benign outcome'', pr_benign_metric_id p, StageOutcome, pr_outcome_component p, None,
         pr_benign_safe p)]"

fun validate_binding :: "(string \<times> metric_contract) list \<Rightarrow> metric_binding \<Rightarrow> unit result" where
  "validate_binding metrics (label, metric_id, stage, component, relation, safe_value) =
     (case map_of metrics metric_id of
        None \<Rightarrow> Inl (compile_error (label @ '' metric does not exist: '' @ metric_id))
      | Some m \<Rightarrow>
          if mc_stage m \<noteq> stage then Inl (compile_error (label @ '' metric must belong to its stage''))
          else if mc_component m \<noteq> component
          then Inl (compile_error (label @ '' metric belongs to another component''))
          else if value_type_name safe_value \<noteq> metric_type_name (mc_value_type m)
          then Inl (compile_error (label @ '' safe value type does not match metric''))
          else opt_valid (\<lambda>r. validate_effect_relation r m label safe_value) relation)"

definition validate_profile_metrics ::
  "masking_profile \<Rightarrow> (string \<times> metric_contract) list \<Rightarrow> unit result" where
  "validate_profile_metrics p metrics =
     rbind (raise_first
       [(card {ca_component (pr_target p), ca_component (pr_compensator p), pr_outcome_component p} \<noteq> 3,
           compile_error ''target, compensator, and outcome components must be distinct''),
        (pr_outcome_metric_id p = pr_benign_metric_id p,
           compile_error ''security outcome and benign outcome metrics must be distinct'')]) (\<lambda>_.
     rbind (rmap (validate_binding metrics) (bindings p)) (\<lambda>_. Inr ()))"

section \<open>Cells\<close>

definition cell_key :: "string \<Rightarrow> string \<Rightarrow> string \<Rightarrow> string \<Rightarrow> string" where
  "cell_key i t c s = ''input='' @ i @ '';target='' @ t @ '';compensator='' @ c @ '';sham='' @ s"

definition full_selector :: "typed_value \<Rightarrow> typed_value \<Rightarrow> typed_value \<Rightarrow> typed_value \<Rightarrow> cell_selector" where
  "full_selector i t c s =
     \<lparr>cs_input = Some i, cs_target = Some t, cs_compensator = Some c, cs_sham = Some s\<rparr>"

definition input_levels :: "masking_profile \<Rightarrow> (string \<times> typed_value) list" where
  "input_levels p = [(''attack'', ia_attack (pr_input p)), (''benign'', ia_benign (pr_input p))]"

definition target_levels :: "masking_profile \<Rightarrow> (string \<times> typed_value) list" where
  "target_levels p = [(''ineffective'', ca_low (pr_target p)), (''effective'', ca_high (pr_target p))]"

definition compensator_levels :: "masking_profile \<Rightarrow> (string \<times> typed_value) list" where
  "compensator_levels p = [(''off'', ca_low (pr_compensator p)), (''on'', ca_high (pr_compensator p))]"

definition sham_levels :: "masking_profile \<Rightarrow> (string \<times> typed_value) list" where
  "sham_levels p = [(''steady'', sa_steady (pr_sham p)), (''redeploy'', sa_redeploy (pr_sham p))]"

definition generate_cells :: "masking_profile \<Rightarrow> generated_cell list" where
  "generate_cells p =
     concat (map (\<lambda>i. concat (map (\<lambda>t. concat (map (\<lambda>c. map (\<lambda>s.
       \<lparr>gc_key = cell_key (fst i) (fst t) (fst c) (fst s),
        gc_selector = full_selector (snd i) (snd t) (snd c) (snd s)\<rparr>)
       (sham_levels p)) (compensator_levels p))) (target_levels p))) (input_levels p))"

definition current_selector :: "masking_profile \<Rightarrow> cell_selector" where
  "current_selector p = full_selector (ia_attack (pr_input p)) (ca_current (pr_target p))
     (ca_current (pr_compensator p)) (sa_steady (pr_sham p))"

definition benign_envelope_selector :: "masking_profile \<Rightarrow> cell_selector" where
  "benign_envelope_selector p =
     \<lparr>cs_input = Some (ia_benign (pr_input p)), cs_target = None, cs_compensator = None, cs_sham = None\<rparr>"

section \<open>Obligations\<close>

definition axis_declared :: "typed_value option \<Rightarrow> (string \<times> typed_value) list \<Rightarrow> bool" where
  "axis_declared v levels \<longleftrightarrow> opt_ok (\<lambda>x. list_ex (\<lambda>l. same_value x (snd l)) levels) v"

definition validate_selector :: "string \<Rightarrow> cell_selector \<Rightarrow> masking_profile \<Rightarrow> unit result" where
  "validate_selector obligation_id s p = raise_first
     [(\<not> axis_declared (cs_input s) (input_levels p),
         compile_error (''obligation '' @ obligation_id @ '' selector has undeclared input level'')),
      (\<not> axis_declared (cs_target s) (target_levels p),
         compile_error (''obligation '' @ obligation_id @ '' selector has undeclared target level'')),
      (\<not> axis_declared (cs_compensator s) (compensator_levels p),
         compile_error (''obligation '' @ obligation_id @ '' selector has undeclared compensator level'')),
      (\<not> axis_declared (cs_sham s) (sham_levels p),
         compile_error (''obligation '' @ obligation_id @ '' selector has undeclared sham level''))]"

fun axis_matches :: "typed_value option \<Rightarrow> typed_value option \<Rightarrow> bool" where
  "axis_matches None e \<longleftrightarrow> True"
| "axis_matches (Some v) (Some e) \<longleftrightarrow> same_value v e"
| "axis_matches (Some v) None \<longleftrightarrow> False"

definition selector_matches :: "cell_selector \<Rightarrow> cell_selector \<Rightarrow> bool" where
  "selector_matches narrow exact \<longleftrightarrow>
     axis_matches (cs_input narrow) (cs_input exact) \<and> axis_matches (cs_target narrow) (cs_target exact)
     \<and> axis_matches (cs_compensator narrow) (cs_compensator exact) \<and> axis_matches (cs_sham narrow) (cs_sham exact)"

fun required_stage :: "obligation_scope \<Rightarrow> stage" where
  "required_stage TargetLocal = StageTarget"
| "required_stage CompensatorLocal = StageCompensator"
| "required_stage PathScope = StageOutcome"

fun required_component :: "masking_profile \<Rightarrow> obligation_scope \<Rightarrow> string" where
  "required_component p TargetLocal = ca_component (pr_target p)"
| "required_component p CompensatorLocal = ca_component (pr_compensator p)"
| "required_component p PathScope = pr_outcome_component p"

definition check_obligation ::
  "masking_profile \<Rightarrow> (string \<times> metric_contract) list \<Rightarrow> generated_cell list \<Rightarrow> obligation \<Rightarrow> unit result" where
  "check_obligation p metrics cells b =
     (case map_of metrics (mp_metric_id (ob_predicate b)) of
        None \<Rightarrow> Inl (compile_error (''obligation '' @ ob_id b @ '' references unknown metric''))
      | Some m \<Rightarrow>
          rbind (raise_first
            [(mc_stage m \<noteq> required_stage (ob_scope b),
                compile_error (''obligation '' @ ob_id b @ '' cannot use the metric of another stage'')),
             (mc_component m \<noteq> required_component p (ob_scope b),
                compile_error (''obligation '' @ ob_id b @ '' must use the component of its scope'')),
             (ob_subject_component b \<noteq> mc_component m,
                compile_error (''obligation '' @ ob_id b @ '' subject and metric components differ'')),
             (value_type_name (mp_expected (ob_predicate b)) \<noteq> metric_type_name (mc_value_type m),
                compile_error (''obligation '' @ ob_id b @ '' expected value type does not match metric''))]) (\<lambda>_.
          rbind (validate_selector (ob_id b) (ob_selector b) p) (\<lambda>_.
          if list_ex (\<lambda>c. selector_matches (ob_selector b) (gc_selector c)) cells then Inr ()
          else Inl (compile_error (''obligation '' @ ob_id b @ '' has no planned cell'')))))"

type_synonym primary_row =
  "string \<times> string \<times> obligation_scope \<times> string \<times> string \<times> cell_selector \<times> typed_value"

definition primary_rows :: "masking_profile \<Rightarrow> cell_selector \<Rightarrow> primary_row list" where
  "primary_rows p current =
     [(''target'', pr_primary_target_id p, TargetLocal, pr_target_metric_id p, ca_component (pr_target p),
         current, pr_target_safe p),
      (''compensator'', pr_primary_compensator_id p, CompensatorLocal, pr_compensator_metric_id p,
         ca_component (pr_compensator p), current, pr_compensator_safe p),
      (''path'', pr_primary_path_id p, PathScope, pr_outcome_metric_id p, pr_outcome_component p, current,
         pr_outcome_safe p),
      (''benign path'', pr_primary_benign_id p, PathScope, pr_benign_metric_id p, pr_outcome_component p,
         benign_envelope_selector p, pr_benign_safe p)]"

fun all_tested :: "quantifier \<Rightarrow> bool" where
  "all_tested (AllTested n) = True"
| "all_tested _ = False"

fun check_primary :: "(string \<times> obligation) list \<Rightarrow> primary_row \<Rightarrow> unit result" where
  "check_primary obligations (label, obligation_id, scope, metric_id, component, selector, safe_value) =
     (case map_of obligations obligation_id of
        None \<Rightarrow> Inl (compile_error (''primary '' @ label @ '' obligation does not exist: '' @ obligation_id))
      | Some b \<Rightarrow> raise_first
          [(ob_scope b \<noteq> scope,
              compile_error (''primary '' @ label @ '' obligation must have scope '' @ scope_name scope)),
           (mp_metric_id (ob_predicate b) \<noteq> metric_id,
              compile_error (''primary '' @ label @ '' obligation must use metric '' @ metric_id)),
           (ob_subject_component b \<noteq> component,
              compile_error (''primary '' @ label @ '' obligation must use component '' @ component)),
           (\<not> selector_eq (ob_selector b) selector,
              compile_error (''primary '' @ label @ '' obligation has the wrong exact selector'')),
           (mp_operator (ob_predicate b) \<noteq> OpEqual \<or> mp_tolerance (ob_predicate b) \<noteq> None
              \<or> \<not> same_value (mp_expected (ob_predicate b)) safe_value,
              compile_error (''primary '' @ label @ '' obligation must equal its declared safe value without tolerance'')),
           (\<not> all_tested (ob_quantifier b),
              compile_error (''primary '' @ label @ '' obligation must use all_tested''))])"

definition validate_obligations ::
  "experiment_contract \<Rightarrow> (string \<times> metric_contract) list \<Rightarrow> (string \<times> obligation) list \<Rightarrow> generated_cell list
     \<Rightarrow> cell_selector \<Rightarrow> unit result" where
  "validate_obligations c metrics obligations cells current =
     rbind (rmap (check_obligation (xc_profile c) metrics cells) (xc_obligations c)) (\<lambda>_.
     rbind (rmap (check_primary obligations) (primary_rows (xc_profile c) current)) (\<lambda>_. Inr ()))"

section \<open>The semantic payload\<close>

definition six_digits :: "int \<Rightarrow> string" where
  "six_digits n = pad_left 6 (decimal (nat n))"

text \<open>\<open>value.astimezone(UTC).isoformat().replace("+00:00", "Z")\<close>.\<close>

definition utc_datetime :: "int \<Rightarrow> string" where
  "utc_datetime micros =
     (let t = micros div 1000000; u = micros mod 1000000; s = t mod 86400 in
      case civil_of_days (t div 86400) of (y, m, d) \<Rightarrow>
        pad_left 4 (decimal (nat y)) @ ''-'' @ two_digits m @ ''-'' @ two_digits d @ ''T''
        @ two_digits (s div 3600) @ '':'' @ two_digits (s div 60 mod 60) @ '':'' @ two_digits (s mod 60)
        @ (if u = 0 then [] else ''.'' @ six_digits u) @ ''Z'')"

definition jvalue :: "typed_value option \<Rightarrow> json" where
  "jvalue v = (case v of None \<Rightarrow> JNull | Some x \<Rightarrow> typed_json x)"

definition metric_contract_json :: "metric_contract \<Rightarrow> json" where
  "metric_contract_json m = jobject
     [(''id'', jtext (mc_id m)), (''component'', jtext (mc_component m)),
      (''stage'', jtext (stage_name (mc_stage m))),
      (''value_type'', jtext (metric_type_name (mc_value_type m))), (''unit'', jopt (mc_unit m)),
      (''extractor_id'', jtext (mc_extractor_id m)), (''evidence_class'', jtext (mc_evidence_class m))]"

definition scope_json :: "experiment_scope \<Rightarrow> json" where
  "scope_json s = jobject
     [(''scenario_id'', jtext (xs_scenario_id s)), (''build_digest'', jtext (xs_build_digest s)),
      (''dataset_digest'', jtext (xs_dataset_digest s)), (''fixture_digest'', jtext (xs_fixture_digest s)),
      (''assessment_as_of'', jtext (utc_datetime (xs_assessment_as_of s))),
      (''evidence_window'', jobject
         [(''start'', jtext (utc_datetime (ew_start (xs_evidence_window s)))),
          (''end'', jtext (utc_datetime (ew_end (xs_evidence_window s))))]),
      (''evidence_policy'', jobject
         [(''id'', jtext (ep_id (xs_evidence_policy s))),
          (''version'', jtext (ep_version (xs_evidence_policy s))),
          (''digest'', jtext (ep_digest (xs_evidence_policy s)))])]"

definition selector_json :: "cell_selector \<Rightarrow> json" where
  "selector_json s = jobject
     [(''input'', jvalue (cs_input s)), (''target'', jvalue (cs_target s)),
      (''compensator'', jvalue (cs_compensator s)), (''sham'', jvalue (cs_sham s))]"

definition jdecimal :: "pydecimal \<Rightarrow> json" where
  "jdecimal d = typed_json (DecimalValue d)"

definition metric_predicate_json :: "metric_predicate \<Rightarrow> json" where
  "metric_predicate_json p = jobject
     [(''metric_id'', jtext (mp_metric_id p)), (''operator'', jtext (operator_name (mp_operator p))),
      (''expected'', typed_json (mp_expected p)),
      (''absolute_tolerance'', case mp_tolerance p of None \<Rightarrow> JNull | Some d \<Rightarrow> jdecimal d)]"

fun quantifier_json :: "quantifier \<Rightarrow> json" where
  "quantifier_json (AllTested n) = jobject [(''type'', jtext ''all_tested''), (''min_trials'', JInt n)]"
| "quantifier_json (AtLeastRate r n) =
     jobject [(''type'', jtext ''at_least_rate''), (''rate'', jdecimal r), (''min_trials'', JInt n)]"
| "quantifier_json (ExistsTrial n) = jobject [(''type'', jtext ''exists''), (''min_trials'', JInt n)]"

definition obligation_json :: "obligation \<Rightarrow> json" where
  "obligation_json b = jobject
     [(''id'', jtext (ob_id b)),
      (''subject'', jobject [(''identifier'', jtext (ob_subject_identifier b)),
         (''component'', jtext (ob_subject_component b))]),
      (''scope'', jtext (scope_name (ob_scope b))), (''selector'', selector_json (ob_selector b)),
      (''predicate'', metric_predicate_json (ob_predicate b)),
      (''quantifier'', quantifier_json (ob_quantifier b))]"

definition relation_json :: "relation_operator \<Rightarrow> json" where
  "relation_json r = jobject [(''operator'', jtext (relation_name r))]"

definition control_axis_json :: "string \<Rightarrow> string \<Rightarrow> control_axis \<Rightarrow> json" where
  "control_axis_json low high a = jobject
     [(''component'', jtext (ca_component a)), (low, typed_json (ca_low a)), (high, typed_json (ca_high a)),
      (''current'', typed_json (ca_current a))]"

definition masking_profile_json :: "masking_profile \<Rightarrow> json" where
  "masking_profile_json p = jobject
     [(''input'', jobject
         [(''component'', jtext (ia_component (pr_input p))), (''attack'', typed_json (ia_attack (pr_input p))),
          (''benign'', typed_json (ia_benign (pr_input p))),
          (''attack_action_digest'', jtext (ia_attack_digest (pr_input p))),
          (''benign_action_digest'', jtext (ia_benign_digest (pr_input p)))]),
      (''target'', control_axis_json ''ineffective'' ''effective'' (pr_target p)),
      (''compensator'', control_axis_json ''off'' ''on'' (pr_compensator p)),
      (''sham'', jobject [(''steady'', typed_json (sa_steady (pr_sham p))),
         (''redeploy'', typed_json (sa_redeploy (pr_sham p)))]),
      (''outcome_component'', jtext (pr_outcome_component p)),
      (''target_metric_id'', jtext (pr_target_metric_id p)),
      (''compensator_metric_id'', jtext (pr_compensator_metric_id p)),
      (''outcome_metric_id'', jtext (pr_outcome_metric_id p)),
      (''benign_outcome_metric_id'', jtext (pr_benign_metric_id p)),
      (''target_safe_value'', typed_json (pr_target_safe p)),
      (''compensator_safe_value'', typed_json (pr_compensator_safe p)),
      (''outcome_safe_value'', typed_json (pr_outcome_safe p)),
      (''benign_safe_value'', typed_json (pr_benign_safe p)),
      (''primary_target_obligation_id'', jtext (pr_primary_target_id p)),
      (''primary_compensator_obligation_id'', jtext (pr_primary_compensator_id p)),
      (''primary_path_obligation_id'', jtext (pr_primary_path_id p)),
      (''primary_benign_obligation_id'', jtext (pr_primary_benign_id p)),
      (''target_attack_relation'', relation_json (pr_target_attack_relation p)),
      (''target_benign_relation'', relation_json (pr_target_benign_relation p)),
      (''sham_relation'', relation_json (pr_sham_relation p)),
      (''compensator_attack_relation'', relation_json (pr_compensator_attack_relation p))]"

definition plan_json :: "trial_plan \<Rightarrow> json" where
  "plan_json p = jobject
     [(''blocks'', JArr (map jtext (sort (tp_blocks p)))), (''replicates'', JInt (tp_replicates p)),
      (''order_seed'', JStr (tp_order_seed p))]"

definition semantic_payload :: "experiment_contract \<Rightarrow> json" where
  "semantic_payload c = jobject
     [(''contract_schema'', jtext ''assurance-lab.preventive-non-masking.v3''),
      (''contract'', jobject
         [(''id'', jtext (xc_id c)), (''version'', jtext ''3.0.0''), (''scope'', scope_json (xc_scope c)),
          (''metrics'', JArr (map metric_contract_json (sort_key mc_id (xc_metrics c)))),
          (''obligations'', JArr (map obligation_json (sort_key ob_id (xc_obligations c)))),
          (''profile'', masking_profile_json (xc_profile c)), (''plan'', plan_json (xc_plan c))])]"

definition canonical_spec :: "'e json_env_scheme \<Rightarrow> experiment_contract \<Rightarrow> (bytes \<times> code_points) result" where
  "canonical_spec E c =
     (let b = concat (fst (rfc8785_dump E (semantic_payload c))) in
      case snd (rfc8785_dump E (semantic_payload c)) of
        Some m \<Rightarrow> Inl (compile_error ''contract canonicalization failed'')
      | None \<Rightarrow>
          (case utf8_decode b of
             None \<Rightarrow> Inl (compile_error ''contract canonicalization failed'')
           | Some t \<Rightarrow> Inr (b, t)))"

section \<open>Trials and coverage\<close>

text \<open>\<open>str.encode()\<close>: UTF-8; a surrogate cannot be encoded.\<close>

definition utf8_code_point :: "nat \<Rightarrow> bytes" where
  "utf8_code_point c =
     (if c < 0x80 then [of_nat c]
      else if c < 0x800 then [of_nat (0xC0 + c div 64), of_nat (0x80 + c mod 64)]
      else if c < 0x10000
      then [of_nat (0xE0 + c div 4096), of_nat (0x80 + c div 64 mod 64), of_nat (0x80 + c mod 64)]
      else [of_nat (0xF0 + c div 262144), of_nat (0x80 + c div 4096 mod 64),
            of_nat (0x80 + c div 64 mod 64), of_nat (0x80 + c mod 64)])"

definition utf8_encode :: "code_points \<Rightarrow> bytes result" where
  "utf8_encode s =
     (if list_ex (\<lambda>c. 0xD800 \<le> c \<and> c \<le> 0xDFFF) s then Inl UnicodeEncodeError
      else Inr (concat (map utf8_code_point s)))"

definition trial_material :: "string \<Rightarrow> string \<Rightarrow> string \<Rightarrow> nat \<Rightarrow> code_points" where
  "trial_material spec_digest cell block rep =
     text_of spec_digest @ [0] @ text_of cell @ [0] @ text_of block @ [0] @ text_of (decimal rep)"

definition raw_trial ::
  "'e model_env_scheme \<Rightarrow> trial_plan \<Rightarrow> string \<Rightarrow> string \<times> string \<times> nat
     \<Rightarrow> (string \<times> string \<times> string \<times> nat \<times> string) result" where
  "raw_trial E plan spec_digest =
     (\<lambda>(cell, block, rep).
        rbind (utf8_encode (trial_material spec_digest cell block rep)) (\<lambda>material.
        let trial_key = sha256_bytes E material in
        rbind (utf8_encode (tp_order_seed plan @ [0] @ text_of trial_key)) (\<lambda>order_material.
        Inr (sha256_hexdigest E order_material, trial_key, cell, rep, block))))"

definition trial_triples :: "trial_plan \<Rightarrow> generated_cell list \<Rightarrow> (string \<times> string \<times> nat) list" where
  "trial_triples plan cells =
     concat (map (\<lambda>c. concat (map (\<lambda>b. map (\<lambda>r. (gc_key c, b, r)) [1..<nat (tp_replicates plan) + 1])
       (sort (tp_blocks plan)))) cells)"

fun number_trials :: "int \<Rightarrow> (string \<times> string \<times> string \<times> nat \<times> string) list \<Rightarrow> planned_trial list" where
  "number_trials n [] = []"
| "number_trials n ((order_key, trial_key, cell, rep, block) # rest) =
     \<lparr>pt_key = trial_key, pt_ordinal = n, pt_cell_key = cell, pt_block = block, pt_replicate = int rep\<rparr>
     # number_trials (n + 1) rest"

definition plan_trials ::
  "'e model_env_scheme \<Rightarrow> trial_plan \<Rightarrow> generated_cell list \<Rightarrow> string \<Rightarrow> planned_trial list result" where
  "plan_trials E plan cells spec_digest =
     rbind (rmap (raw_trial E plan spec_digest) (trial_triples plan cells)) (\<lambda>raw.
     Inr (number_trials 1 (sort_key (\<lambda>(order_key, trial_key, _). (order_key, trial_key)) raw)))"

definition trial_selector :: "generated_cell list \<Rightarrow> planned_trial \<Rightarrow> cell_selector option" where
  "trial_selector cells t =
     map_option gc_selector (map_of (rev (map (\<lambda>c. (gc_key c, c)) cells)) (pt_cell_key t))"

definition covering_trials :: "generated_cell list \<Rightarrow> planned_trial list \<Rightarrow> obligation \<Rightarrow> string list" where
  "covering_trials cells trials b =
     map pt_key (filter (\<lambda>t. opt_ok (selector_matches (ob_selector b)) (trial_selector cells t)) trials)"

definition coverage :: "obligation list \<Rightarrow> generated_cell list \<Rightarrow> planned_trial list \<Rightarrow> obligation_coverage list result" where
  "coverage obligations cells trials =
     rmap (\<lambda>b. let keys = covering_trials cells trials b in
         if keys = [] \<or> int (length keys) > MAX_PLANNED_TRIALS then Inl (invalid ''trial_keys'')
         else Inr \<lparr>oc_obligation_id = ob_id b, oc_trial_keys = keys\<rparr>)
       (sort_key ob_id obligations)"

definition covered_count :: "obligation_coverage list \<Rightarrow> string \<Rightarrow> int" where
  "covered_count cov i =
     (case map_of (rev (map (\<lambda>c. (oc_obligation_id c, int (length (oc_trial_keys c)))) cov)) i of
        None \<Rightarrow> 0 | Some n \<Rightarrow> n)"

definition validate_minimum_trials :: "obligation list \<Rightarrow> obligation_coverage list \<Rightarrow> unit result" where
  "validate_minimum_trials obligations cov =
     raise_first (concat (map (\<lambda>b.
       [(covered_count cov (ob_id b) = 0, compile_error (''obligation '' @ ob_id b @ '' is left unassessed'')),
        (min_trials (ob_quantifier b) > covered_count cov (ob_id b),
           compile_error (''obligation '' @ ob_id b @ '' requires more trials than the plan contains''))]) obligations))"

section \<open>Contrasts\<close>

definition cell_for :: "generated_cell list \<Rightarrow> cell_selector \<Rightarrow> generated_cell result" where
  "cell_for cells s =
     (case filter (\<lambda>c. selector_eq (gc_selector c) s) cells of
        [c] \<Rightarrow> Inr c
      | _ \<Rightarrow> Inl (compile_error ''compiler could not resolve a generated contrast cell''))"

definition pair_of :: "generated_cell list \<Rightarrow> cell_selector \<Rightarrow> cell_selector \<Rightarrow> contrast_pair list result" where
  "pair_of cells a b =
     rbind (cell_for cells a) (\<lambda>r.
     rbind (cell_for cells b) (\<lambda>c.
     Inr [\<lparr>cp_reference = gc_key r, cp_comparison = gc_key c\<rparr>]))"

definition generate_contrasts ::
  "masking_profile \<Rightarrow> generated_cell list \<Rightarrow> contrast_definition list result" where
  "generate_contrasts p cells =
     (let attack = ia_attack (pr_input p); benign = ia_benign (pr_input p);
          target_off = ca_low (pr_target p); target_on = ca_high (pr_target p);
          comp_off = ca_low (pr_compensator p); comp_on = ca_high (pr_compensator p);
          steady = sa_steady (pr_sham p); redeploy = sa_redeploy (pr_sham p);
          current_target = ca_current (pr_target p); current_comp = ca_current (pr_compensator p) in
      rbind (pair_of cells (full_selector attack target_off comp_off steady)
               (full_selector attack target_on comp_off steady)) (\<lambda>target_attack.
      rbind (pair_of cells (full_selector benign target_off comp_off steady)
               (full_selector benign target_on comp_off steady)) (\<lambda>target_benign.
      rbind (pair_of cells (full_selector benign current_target comp_off steady)
               (full_selector benign current_target comp_on steady)) (\<lambda>compensator_benign.
      rbind (pair_of cells (full_selector attack current_target current_comp steady)
               (full_selector attack current_target current_comp redeploy)) (\<lambda>sham.
      rbind (pair_of cells (full_selector attack target_off comp_off steady)
               (full_selector attack target_off comp_on steady)) (\<lambda>compensator_attack.
      Inr
       [\<lparr>cd_id = TargetAttackEffect, cd_metric_id = pr_target_metric_id p,
         cd_relation = pr_target_attack_relation p, cd_varied_axis = AxisTarget, cd_pairs = target_attack\<rparr>,
        \<lparr>cd_id = TargetBenignInvariance, cd_metric_id = pr_benign_metric_id p,
         cd_relation = pr_target_benign_relation p, cd_varied_axis = AxisTarget, cd_pairs = target_benign\<rparr>,
        \<lparr>cd_id = CompensatorBenignInvariance, cd_metric_id = pr_benign_metric_id p, cd_relation = RelEqual,
         cd_varied_axis = AxisCompensator, cd_pairs = compensator_benign\<rparr>,
        \<lparr>cd_id = ShamInvariance, cd_metric_id = pr_outcome_metric_id p, cd_relation = pr_sham_relation p,
         cd_varied_axis = AxisSham, cd_pairs = sham\<rparr>,
        \<lparr>cd_id = CompensatorAttackEffect, cd_metric_id = pr_outcome_metric_id p,
         cd_relation = pr_compensator_attack_relation p, cd_varied_axis = AxisCompensator,
         cd_pairs = compensator_attack\<rparr>]))))))"

section \<open>Compilation\<close>

definition compile_experiment ::
  "'e model_env_scheme \<Rightarrow> experiment_contract \<Rightarrow> compiled_experiment result" where
  "compile_experiment E c =
     rbind (on_error is_value_error (compile_error ''contract revalidation failed'') (validate_contract c)) (\<lambda>_.
     rbind (unique_by_id mc_id ''metric'' [] (xc_metrics c)) (\<lambda>metrics.
     rbind (unique_by_id ob_id ''obligation'' [] (xc_obligations c)) (\<lambda>obligations.
     rbind (validate_plan_size (xc_plan c)) (\<lambda>_.
     rbind (validate_profile_metrics (xc_profile c) metrics) (\<lambda>_.
     let cells = generate_cells (xc_profile c); current = current_selector (xc_profile c) in
     rbind (validate_obligations c metrics obligations cells current) (\<lambda>_.
     rbind (canonical_spec E c) (\<lambda>(b, spec).
     let spec_digest = sha256_bytes E b in
     rbind (plan_trials E (xc_plan c) cells spec_digest) (\<lambda>planned.
     rbind (coverage (xc_obligations c) cells planned) (\<lambda>cov.
     rbind (validate_minimum_trials (xc_obligations c) cov) (\<lambda>_.
     rbind (generate_contrasts (xc_profile c) cells) (\<lambda>contrasts.
     Inr \<lparr>ce_contract = c, ce_canonical_spec = spec, ce_spec_digest = spec_digest, ce_cells = cells,
          ce_current_selector = current, ce_contrasts = contrasts, ce_planned_trials = planned,
          ce_coverage = cov\<rparr>)))))))))))"

end
