(* ===== verification/Evaluation_Values.thy ===== *)
theory Evaluation_Values
  imports Contract
begin

text \<open>
  The values of the experiment evaluator, from the first half of
  \<^verbatim>\<open>src/src/assurance_lab/evaluation.py\<close>: traces of stage events, clones, cleanup evidence, trial
  records, attestations, metric evidence, issues, and the parts of a report, each input with its
  validators. Aware datetimes are instants in microseconds.

  The arithmetic of \<open>decimal.Decimal\<close> the evaluator uses is written out under the default context:
  28 significant digits, rounding half to even. Only the values of results are compared, so zeros
  of different sign or exponent are not told apart.
\<close>

section \<open>Decimal arithmetic\<close>

definition decimal_prec :: nat where
  "decimal_prec = 28"

definition round_half_even :: "nat \<Rightarrow> nat \<Rightarrow> nat" where
  "round_half_even c k =
     (let q = c div 10 ^ k; r = c mod 10 ^ k in
      if 2 * r > 10 ^ k \<or> 2 * r = 10 ^ k \<and> odd q then q + 1 else q)"

fun dec_fix :: "pydecimal \<Rightarrow> pydecimal" where
  "dec_fix (Dec s c e) =
     (let k = length (decimal c) - decimal_prec in
      if k = 0 then Dec s c e
      else let q = round_half_even c k in
        if length (decimal q) > decimal_prec then Dec s (q div 10) (e + int k + 1) else Dec s q (e + int k))"
| "dec_fix d = d"

fun dec_add :: "pydecimal \<Rightarrow> pydecimal \<Rightarrow> pydecimal" where
  "dec_add (Dec s c e) (Dec s' c' e') =
     (let m = min e e'; v = dec_signed s c * 10 ^ nat (e - m) + dec_signed s' c' * 10 ^ nat (e' - m) in
      dec_fix (Dec (v < 0) (nat \<bar>v\<bar>) m))"
| "dec_add _ _ = DecNaN"

fun dec_negate :: "pydecimal \<Rightarrow> pydecimal" where
  "dec_negate (Dec s c e) = Dec (\<not> s) c e"
| "dec_negate (DecInfinite s) = DecInfinite (\<not> s)"
| "dec_negate DecNaN = DecNaN"

definition dec_sub :: "pydecimal \<Rightarrow> pydecimal \<Rightarrow> pydecimal" where
  "dec_sub a b = dec_add a (dec_negate b)"

fun dec_abs :: "pydecimal \<Rightarrow> pydecimal" where
  "dec_abs (Dec s c e) = dec_fix (Dec False c e)"
| "dec_abs (DecInfinite s) = DecInfinite False"
| "dec_abs DecNaN = DecNaN"

fun dec_le :: "pydecimal \<Rightarrow> pydecimal \<Rightarrow> bool" where
  "dec_le (Dec s c e) (Dec s' c' e') \<longleftrightarrow>
     dec_signed s c * 10 ^ nat (e - min e e') \<le> dec_signed s' c' * 10 ^ nat (e' - min e e')"
| "dec_le _ _ \<longleftrightarrow> False"

fun dec_less :: "pydecimal \<Rightarrow> pydecimal \<Rightarrow> bool" where
  "dec_less (Dec s c e) (Dec s' c' e') \<longleftrightarrow>
     dec_signed s c * 10 ^ nat (e - min e e') < dec_signed s' c' * 10 ^ nat (e' - min e e')"
| "dec_less _ _ \<longleftrightarrow> False"

text \<open>
  \<open>Decimal(n) / Decimal(d)\<close>: one digit more than the precision is computed, an inexact quotient that
  ends in 0 or 5 is made odd so that rounding sees it, and an exact one gives up trailing zeros.
\<close>

fun strip_zeros :: "nat \<Rightarrow> nat \<Rightarrow> nat \<times> nat" where
  "strip_zeros c 0 = (c, 0)"
| "strip_zeros c (Suc k) = (if c mod 10 = 0 then strip_zeros (c div 10) k else (c, Suc k))"

definition dec_ratio :: "nat \<Rightarrow> nat \<Rightarrow> pydecimal" where
  "dec_ratio n d =
     (if n = 0 then Dec False 0 0
      else let shift = int (length (decimal d)) - int (length (decimal n)) + int decimal_prec + 1;
               a = n * 10 ^ nat shift; b = d * 10 ^ nat (- shift); q = a div b in
        if a mod b \<noteq> 0 then dec_fix (Dec False (if q mod 5 = 0 then q + 1 else q) (- shift))
        else if shift \<le> 0 then dec_fix (Dec False q (- shift))
        else case strip_zeros q (nat shift) of (c, k) \<Rightarrow> dec_fix (Dec False c (- int k)))"

section \<open>Traces\<close>

record executed_event =
  xe_id :: string
  xe_bundle :: string
  xe_stage :: stage
  xe_started :: int
  xe_ended :: int
  xe_blocks :: bool

record skipped_event =
  sk_id :: string
  sk_stage :: stage
  sk_blocked_by :: string

datatype stage_event = Executed executed_event | Skipped skipped_event

fun event_id :: "stage_event \<Rightarrow> string" where
  "event_id (Executed x) = xe_id x"
| "event_id (Skipped s) = sk_id s"

fun event_stage :: "stage_event \<Rightarrow> stage" where
  "event_stage (Executed x) = xe_stage x"
| "event_stage (Skipped s) = sk_stage s"

fun validate_event_fields :: "stage_event \<Rightarrow> unit result" where
  "validate_event_fields (Executed x) = raise_first
     [(xe_id x = [] \<or> \<not> digest_format (xe_bundle x), invalid ''executed stage event''),
      (xe_ended x \<le> xe_started x, invalid ''stage event must have positive duration'')]"
| "validate_event_fields (Skipped s) =
     (if sk_id s = [] \<or> sk_blocked_by s = [] then Inl (invalid ''skipped stage event'') else Inr ())"

record trace =
  tr_id :: string
  tr_action_digest :: string
  tr_input :: executed_event
  tr_target :: stage_event
  tr_compensator :: stage_event
  tr_outcome :: executed_event

definition trace_events :: "trace \<Rightarrow> stage_event list" where
  "trace_events t = [Executed (tr_input t), tr_target t, tr_compensator t, Executed (tr_outcome t)]"

text \<open>The walk over the events: the executed ones so far, and the last of them.\<close>

fun check_lineage :: "executed_event list \<Rightarrow> stage_event list \<Rightarrow> unit result" where
  "check_lineage done [] = Inr ()"
| "check_lineage done (Skipped s # rest) =
     (case fetchone (filter (\<lambda>x. xe_id x = sk_blocked_by s) done) of
        None \<Rightarrow> Inl (invalid ''skipped stage blocker is not a prior executed event'')
      | Some b \<Rightarrow> if \<not> xe_blocks b then Inl (invalid ''skipped stage blocker did not block downstream'')
          else check_lineage done rest)"
| "check_lineage done (Executed x # rest) =
     (if done \<noteq> [] \<and> xe_started x < xe_ended (last done)
      then Inl (invalid ''executed trace events overlap or run out of order'')
      else check_lineage (done @ [x]) rest)"

fun requires_skip :: "string \<Rightarrow> string \<Rightarrow> stage_event \<Rightarrow> unit result" where
  "requires_skip label blocker (Executed x) = Inl (invalid (label @ '' requires a skipped stage''))"
| "requires_skip label blocker (Skipped s) =
     (if sk_blocked_by s \<noteq> blocker then Inl (invalid (label @ '' must be the blocker'')) else Inr ())"

definition fixed_ordered_lineage :: "trace \<Rightarrow> unit result" where
  "fixed_ordered_lineage t =
     (let events = trace_events t; ids = map event_id events in
      rbind (if map event_stage events \<noteq> [StageInput, StageTarget, StageCompensator, StageOutcome]
             then Inl (invalid ''trace slot has another stage'')
             else if card (set ids) \<noteq> length ids then Inl (invalid ''trace event ids must be unique'')
             else Inr ()) (\<lambda>_.
      rbind (check_lineage [] events) (\<lambda>_.
      rbind (if xe_blocks (tr_input t)
             then rbind (requires_skip ''a blocking input'' (xe_id (tr_input t)) (tr_target t)) (\<lambda>_.
               requires_skip ''a blocking input'' (xe_id (tr_input t)) (tr_compensator t))
             else Inr ()) (\<lambda>_.
      case tr_target t of
        Executed x \<Rightarrow> if xe_blocks x then requires_skip ''a blocking target'' (xe_id x) (tr_compensator t) else Inr ()
      | Skipped s \<Rightarrow> Inr ()))))"

definition validate_trace :: "trace \<Rightarrow> unit result" where
  "validate_trace t =
     rbind (rmap validate_event_fields (trace_events t)) (\<lambda>_.
     if tr_id t = [] \<or> \<not> digest_format (tr_action_digest t) then Inl (invalid ''trace'')
     else fixed_ordered_lineage t)"

fun event_for :: "trace \<Rightarrow> stage \<Rightarrow> stage_event" where
  "event_for t StageInput = Executed (tr_input t)"
| "event_for t StageTarget = tr_target t"
| "event_for t StageCompensator = tr_compensator t"
| "event_for t StageOutcome = Executed (tr_outcome t)"

fun executed_only :: "stage_event list \<Rightarrow> executed_event list" where
  "executed_only [] = []"
| "executed_only (Executed x # es) = x # executed_only es"
| "executed_only (Skipped s # es) = executed_only es"

definition executed_events :: "trace \<Rightarrow> executed_event list" where
  "executed_events t = executed_only (trace_events t)"

section \<open>Records and evidence\<close>

record fresh_clone =
  cl_instance_id :: string
  cl_base_snapshot :: string
  cl_covariate :: string
  cl_attestation_bundle :: string
  cl_runner :: string

record trial_record =
  rc_spec_digest :: string
  rc_trial_key :: string
  rc_cell_key :: string
  rc_block :: string
  rc_replicate :: int
  rc_clone :: fresh_clone
  rc_trace :: trace
  rc_cleanup_bundle :: string

definition validate_record :: "trial_record \<Rightarrow> unit result" where
  "validate_record r =
     (let c = rc_clone r in
      rbind (validate_trace (rc_trace r)) (\<lambda>_.
      if digest_format (rc_spec_digest r) \<and> digest_format (rc_trial_key r) \<and> rc_cell_key r \<noteq> [] \<and> rc_block r \<noteq> []
         \<and> 0 < rc_replicate r \<and> cl_instance_id c \<noteq> [] \<and> digest_format (cl_base_snapshot c)
         \<and> digest_format (cl_covariate c) \<and> digest_format (cl_attestation_bundle c) \<and> cl_runner c \<noteq> []
         \<and> digest_format (rc_cleanup_bundle r)
      then Inr () else Inl (invalid ''trial record'')))"

text \<open>The three failure kinds the verifiers report: rejected, conflicting, missing.\<close>

datatype failure_status = Rejected | Conflicting | Missing

fun failure_name :: "failure_status \<Rightarrow> string" where
  "failure_name Rejected = ''rejected''"
| "failure_name Conflicting = ''conflicting''"
| "failure_name Missing = ''missing''"

record attestation_binding =
  ab_spec_digest :: string
  ab_trial_key :: string
  ab_cell_key :: string
  ab_block :: string
  ab_replicate :: int
  ab_ordinal :: int
  ab_trace_id :: string
  ab_action_digest :: string
  ab_clone_instance :: string
  ab_runner :: string
  ab_attestation_bundle :: string

record attestation =
  at_evidence_id :: string
  at_binding :: attestation_binding
  at_build_digest :: string
  at_dataset_digest :: string
  at_fixture_digest :: string
  at_executed_ordinal :: int
  at_selector :: cell_selector
  at_base_snapshot :: string
  at_covariate :: string
  at_intervention :: string
  at_artifact_ids :: "string list"
  at_started :: int
  at_ended :: int

record attestation_failure =
  af_status :: failure_status
  af_reason :: string
  af_evidence_ids :: "string list"
  af_artifact_ids :: "string list"
  af_selectors :: "cell_selector list"
  af_digests :: "string list"

datatype attestation_result = AttestationAdmitted attestation | AttestationFailed attestation_failure

abbreviation digests_ok :: "string list \<Rightarrow> bool" where
  "digests_ok \<equiv> list_all digest_format"

definition attestation_binding_ok :: "attestation_binding \<Rightarrow> bool" where
  "attestation_binding_ok b \<longleftrightarrow> digest_format (ab_spec_digest b) \<and> digest_format (ab_trial_key b) \<and> ab_cell_key b \<noteq> []
     \<and> ab_block b \<noteq> [] \<and> 0 < ab_replicate b \<and> 0 < ab_ordinal b \<and> ab_trace_id b \<noteq> []
     \<and> digest_format (ab_action_digest b) \<and> ab_clone_instance b \<noteq> [] \<and> ab_runner b \<noteq> []
     \<and> digest_format (ab_attestation_bundle b)"

fun validate_attestation_result :: "attestation_result \<Rightarrow> unit result" where
  "validate_attestation_result (AttestationAdmitted a) =
     rbind (validate_cell_selector (at_selector a)) (\<lambda>_. raise_first
       [(\<not> (digest_format (at_evidence_id a) \<and> attestation_binding_ok (at_binding a)
           \<and> digests_ok [at_build_digest a, at_dataset_digest a, at_fixture_digest a, at_base_snapshot a,
               at_covariate a, at_intervention a]
           \<and> 0 < at_executed_ordinal a \<and> at_artifact_ids a \<noteq> [] \<and> digests_ok (at_artifact_ids a)),
           invalid ''trial attestation''),
        (at_ended a \<le> at_started a, invalid ''trial attestation must have positive duration'')])"
| "validate_attestation_result (AttestationFailed f) =
     rbind (rmap validate_cell_selector (af_selectors f)) (\<lambda>_.
     if af_reason f \<noteq> [] \<and> digests_ok (af_evidence_ids f) \<and> digests_ok (af_artifact_ids f) \<and> digests_ok (af_digests f)
     then Inr () else Inl (invalid ''trial attestation failure''))"

record evidence_binding =
  eb_spec_digest :: string
  eb_trial_key :: string
  eb_trace_id :: string
  eb_event_id :: string
  eb_bundle :: string
  eb_stage :: stage
  eb_metric_id :: string

record metric_evidence =
  me_evidence_id :: string
  me_binding :: evidence_binding
  me_value :: typed_value
  me_observed_at :: int
  me_artifact_ids :: "string list"

record metric_failure =
  mf_status :: failure_status
  mf_reason :: string
  mf_evidence_ids :: "string list"
  mf_artifact_ids :: "string list"
  mf_candidates :: "typed_value list"

datatype metric_result = MetricAdmitted metric_evidence | MetricFailed metric_failure

fun validate_metric_result :: "metric_result \<Rightarrow> unit result" where
  "validate_metric_result (MetricAdmitted m) =
     rbind (validate_typed (me_value m)) (\<lambda>_.
     let b = me_binding m in
     if digest_format (me_evidence_id m) \<and> digest_format (eb_spec_digest b) \<and> digest_format (eb_trial_key b)
        \<and> eb_trace_id b \<noteq> [] \<and> eb_event_id b \<noteq> [] \<and> digest_format (eb_bundle b) \<and> eb_metric_id b \<noteq> []
        \<and> me_artifact_ids m \<noteq> [] \<and> digests_ok (me_artifact_ids m)
     then Inr () else Inl (invalid ''metric evidence''))"
| "validate_metric_result (MetricFailed f) =
     rbind (rmap validate_typed (mf_candidates f)) (\<lambda>_.
     if mf_reason f \<noteq> [] \<and> digests_ok (mf_evidence_ids f) \<and> digests_ok (mf_artifact_ids f)
     then Inr () else Inl (invalid ''metric evidence failure''))"

record cleanup_binding =
  kb_spec_digest :: string
  kb_trial_key :: string
  kb_trace_id :: string
  kb_clone_instance :: string
  kb_runner :: string
  kb_bundle :: string
  kb_outcome_ended :: int

record cleanup_evidence =
  ke_verified :: bool
  ke_binding :: cleanup_binding
  ke_evidence_id :: string
  ke_observed_at :: int
  ke_artifact_ids :: "string list"

record cleanup_failure =
  kf_status :: failure_status
  kf_reason :: string
  kf_evidence_ids :: "string list"
  kf_artifact_ids :: "string list"

datatype cleanup_result = CleanupAdmitted cleanup_evidence | CleanupFailed cleanup_failure

fun validate_cleanup_result :: "cleanup_result \<Rightarrow> unit result" where
  "validate_cleanup_result (CleanupAdmitted k) =
     (let b = ke_binding k in
      if digest_format (ke_evidence_id k) \<and> digest_format (kb_spec_digest b) \<and> digest_format (kb_trial_key b)
        \<and> kb_trace_id b \<noteq> [] \<and> kb_clone_instance b \<noteq> [] \<and> kb_runner b \<noteq> [] \<and> digest_format (kb_bundle b)
        \<and> ke_artifact_ids k \<noteq> [] \<and> digests_ok (ke_artifact_ids k)
      then Inr () else Inl (invalid ''cleanup evidence''))"
| "validate_cleanup_result (CleanupFailed f) =
     (if kf_reason f \<noteq> [] \<and> digests_ok (kf_evidence_ids f) \<and> digests_ok (kf_artifact_ids f)
      then Inr () else Inl (invalid ''cleanup evidence failure''))"

section \<open>Issues and reports\<close>

record evaluation_issue =
  is_code :: string
  is_detail :: code_points
  is_trial_keys :: "string list"
  is_cell_keys :: "string list"
  is_evidence_ids :: "string list"
  is_artifact_ids :: "string list"
  is_expected_selector :: "cell_selector option"
  is_selectors :: "cell_selector list"
  is_digests :: "string list"
  is_value_type :: "metric_value_type option"
  is_candidates :: "typed_value list"

definition text_issue :: "string \<Rightarrow> code_points \<Rightarrow> evaluation_issue" where
  "text_issue code detail =
     \<lparr>is_code = code, is_detail = detail, is_trial_keys = [], is_cell_keys = [], is_evidence_ids = [],
      is_artifact_ids = [], is_expected_selector = None, is_selectors = [], is_digests = [],
      is_value_type = None, is_candidates = []\<rparr>"

definition plain_issue :: "string \<Rightarrow> string \<Rightarrow> evaluation_issue" where
  "plain_issue code detail = text_issue code (text_of detail)"

text \<open>A constrained \<open>str\<close> refuses a text that has no UTF-8 form.\<close>

definition validate_issue :: "evaluation_issue \<Rightarrow> unit result" where
  "validate_issue i =
     rbind (rmap validate_cell_selector
       (case is_expected_selector i of None \<Rightarrow> is_selectors i | Some s \<Rightarrow> s # is_selectors i)) (\<lambda>_.
     rbind (rmap validate_typed (is_candidates i)) (\<lambda>_.
     if is_code i \<noteq> [] \<and> is_detail i \<noteq> [] \<and> no_surrogate (is_detail i) \<and> digests_ok (is_trial_keys i) \<and> digests_ok (is_evidence_ids i)
        \<and> digests_ok (is_artifact_ids i) \<and> digests_ok (is_digests i)
     then Inr () else Inl (invalid ''evaluation issue'')))"

record design_completeness =
  dc_expected :: nat
  dc_received :: nat
  dc_missing :: "string list"
  dc_extra :: "string list"
  dc_duplicate :: "string list"
  dc_missing_cells :: "string list"
  dc_admissible :: nat
  dc_presence :: bool
  dc_evidence :: bool
  dc_cleanup :: bool
  dc_safety :: bool
  dc_protocol :: bool

datatype truth_value = TruthSupported | TruthRefuted | TruthNeither

datatype exercise_state = Exercised | PartiallyExercised | NotExercised | UnknownExercise

datatype point_state = PointPass | PointFail | PointUnresolved

record trial_point =
  tq_trial_key :: string
  tq_state :: point_state
  tq_exercise :: exercise_state
  tq_value :: "typed_value option"
  tq_reason :: "code_points option"
  tq_evidence_ids :: "string list"
  tq_artifact_ids :: "string list"

record obligation_assessment =
  oa_obligation_id :: string
  oa_truth :: truth_value
  oa_exercise :: exercise_state
  oa_expected :: nat
  oa_executed :: nat
  oa_admitted :: nat
  oa_pass :: nat
  oa_fail :: nat
  oa_unresolved :: nat
  oa_not_exercised :: nat
  oa_unknown_exercise :: nat
  oa_lower :: pydecimal
  oa_upper :: pydecimal
  oa_pass_keys :: "string list"
  oa_fail_keys :: "string list"
  oa_unresolved_keys :: "string list"
  oa_evidence_ids :: "string list"
  oa_artifact_ids :: "string list"
  oa_points :: "trial_point list"

record pair_assessment =
  pa_reference :: string
  pa_comparison :: string
  pa_block :: string
  pa_replicate :: int
  pa_truth :: truth_value
  pa_reference_value :: "typed_value option"
  pa_comparison_value :: "typed_value option"
  pa_reason :: "string option"
  pa_evidence_ids :: "string list"
  pa_artifact_ids :: "string list"

record contrast_assessment =
  ka_id :: contrast_id
  ka_metric_id :: string
  ka_truth :: truth_value
  ka_expected :: nat
  ka_supported :: nat
  ka_refuted :: nat
  ka_unresolved :: nat
  ka_pairs :: "pair_assessment list"
  ka_evidence_ids :: "string list"
  ka_artifact_ids :: "string list"

datatype residual_classification = MaskedTargetFailure | ExposedPath | TargetEffective | ResidualUnresolved

record residual_summary =
  rs_classification :: residual_classification
  rs_target_id :: string
  rs_compensator_id :: string
  rs_path_id :: string
  rs_benign_id :: string
  rs_target_truth :: truth_value
  rs_compensator_truth :: truth_value
  rs_path_truth :: truth_value
  rs_benign_truth :: truth_value
  rs_target_exercise :: exercise_state
  rs_compensator_exercise :: exercise_state
  rs_path_exercise :: exercise_state
  rs_benign_exercise :: exercise_state

record evaluation_report =
  er_compiled :: compiled_experiment
  er_completeness :: design_completeness
  er_design_issues :: "evaluation_issue list"
  er_evidence_issues :: "evaluation_issue list"
  er_safety_issues :: "evaluation_issue list"
  er_obligations :: "obligation_assessment list"
  er_contrasts :: "contrast_assessment list"
  er_residual :: residual_summary

end
