(* ===== verification/Evaluation.thy ===== *)
theory Evaluation
  imports Evaluation_Values
begin

text \<open>
  The experiment evaluator, from \<^verbatim>\<open>ExperimentEvaluator.evaluate\<close> and the functions below it in
  \<^verbatim>\<open>src/src/assurance_lab/evaluation.py\<close>: recompilation of the plan, the design and safety checks over
  the trial records, admission of attestations, cleanups and metric evidence, and the assessment of
  obligations and contrasts.

  The lists the code appends issues to and the mutable trial states are one record that is passed
  along; a Python dict is an association list in insertion order. The three verifiers are functions
  of what they are given (a verifier with a memory of its own is not covered); an exception they raise is
  an \<^verbatim>\<open>Inl\<close> with its text. Constructing an issue validates it, so
  every step that reports one can raise. The constraints of the other result models hold by the
  types of their sources, except that a count of expected points must be positive.
\<close>

section \<open>Dictionaries and loops\<close>

fun first_occurrences :: "'k list \<Rightarrow> 'k list" where
  "first_occurrences [] = []"
| "first_occurrences (x # xs) = x # filter (\<lambda>y. y \<noteq> x) (first_occurrences xs)"

text \<open>A \<open>defaultdict(list)\<close> filled by appending each item under its key.\<close>

definition group_by :: "('a \<Rightarrow> 'k) \<Rightarrow> 'a list \<Rightarrow> ('k \<times> 'a list) list" where
  "group_by f xs = map (\<lambda>k. (k, filter (\<lambda>x. f x = k) xs)) (first_occurrences (map f xs))"

fun dict_put :: "'k \<Rightarrow> 'v \<Rightarrow> ('k \<times> 'v) list \<Rightarrow> ('k \<times> 'v) list" where
  "dict_put k v [] = [(k, v)]"
| "dict_put k v ((j, u) # d) = (if j = k then (k, v) # d else (j, u) # dict_put k v d)"

text \<open>A dict comprehension: the last value of a key wins.\<close>

definition dict_of :: "('k \<times> 'v) list \<Rightarrow> 'k \<rightharpoonup> 'v" where
  "dict_of xs = map_of (rev xs)"

definition dict_at :: "('k \<rightharpoonup> 'v) \<Rightarrow> 'k \<Rightarrow> 'v result" where
  "dict_at d k = (case d k of None \<Rightarrow> Inl (KeyError ''key'') | Some v \<Rightarrow> Inr v)"

definition next_of :: "'a list \<Rightarrow> 'a result" where
  "next_of xs = (case xs of [] \<Rightarrow> Inl StopIteration | x # _ \<Rightarrow> Inr x)"

fun each :: "('a \<Rightarrow> 's \<Rightarrow> 's result) \<Rightarrow> 'a list \<Rightarrow> 's \<Rightarrow> 's result" where
  "each f [] s = Inr s"
| "each f (x # xs) s = rbind (f x s) (each f xs)"

text \<open>A loop that threads a state and collects a result per item.\<close>

fun collect :: "('a \<Rightarrow> 's \<Rightarrow> ('b \<times> 's) result) \<Rightarrow> 'a list \<Rightarrow> 's \<Rightarrow> ('b list \<times> 's) result" where
  "collect f [] s = Inr ([], s)"
| "collect f (x # xs) s =
     rbind (f x s) (\<lambda>(y, s). rbind (collect f xs s) (\<lambda>(ys, s). Inr (y # ys, s)))"

fun join_text :: "string \<Rightarrow> string list \<Rightarrow> string" where
  "join_text sep [] = []"
| "join_text sep [x] = x"
| "join_text sep (x # y # xs) = x @ sep @ join_text sep (y # xs)"

definition digests :: "string list \<Rightarrow> string list" where
  "digests xs = sort (remdups xs)"

section \<open>The trust boundary\<close>

fun contrast_name :: "contrast_id \<Rightarrow> string" where
  "contrast_name TargetAttackEffect = ''target-attack-effect''"
| "contrast_name TargetBenignInvariance = ''target-benign-invariance''"
| "contrast_name CompensatorBenignInvariance = ''compensator-benign-invariance''"
| "contrast_name ShamInvariance = ''sham-invariance''"
| "contrast_name CompensatorAttackEffect = ''compensator-attack-effect''"

fun axis_name :: "axis \<Rightarrow> string" where
  "axis_name AxisInput = ''input''"
| "axis_name AxisTarget = ''target''"
| "axis_name AxisCompensator = ''compensator''"
| "axis_name AxisSham = ''sham''"

definition contract_json :: "experiment_contract \<Rightarrow> json" where
  "contract_json c = jobject
     [(''id'', jtext (xc_id c)), (''version'', jtext ''3.0.0''), (''scope'', scope_json (xc_scope c)),
      (''metrics'', JArr (map metric_contract_json (xc_metrics c))),
      (''obligations'', JArr (map obligation_json (xc_obligations c))),
      (''profile'', masking_profile_json (xc_profile c)),
      (''plan'', jobject [(''blocks'', JArr (map jtext (tp_blocks (xc_plan c)))),
         (''replicates'', JInt (tp_replicates (xc_plan c))), (''order_seed'', JStr (tp_order_seed (xc_plan c)))])]"

definition contrast_json :: "contrast_definition \<Rightarrow> json" where
  "contrast_json d = jobject
     [(''id'', jtext (contrast_name (cd_id d))), (''metric_id'', jtext (cd_metric_id d)),
      (''relation'', relation_json (cd_relation d)), (''varied_axis'', jtext (axis_name (cd_varied_axis d))),
      (''pairs'', JArr (map (\<lambda>p. jobject [(''reference_cell_key'', jtext (cp_reference p)),
         (''comparison_cell_key'', jtext (cp_comparison p))]) (cd_pairs d)))]"

definition planned_json :: "planned_trial \<Rightarrow> json" where
  "planned_json t = jobject
     [(''key'', jtext (pt_key t)), (''ordinal'', JInt (pt_ordinal t)), (''cell_key'', jtext (pt_cell_key t)),
      (''block'', jtext (pt_block t)), (''replicate'', JInt (pt_replicate t))]"

definition compiled_json :: "compiled_experiment \<Rightarrow> json" where
  "compiled_json x = jobject
     [(''contract'', contract_json (ce_contract x)), (''canonical_spec'', JStr (ce_canonical_spec x)),
      (''spec_digest'', jtext (ce_spec_digest x)),
      (''cells'', JArr (map (\<lambda>c. jobject [(''key'', jtext (gc_key c)), (''selector'', selector_json (gc_selector c))])
         (ce_cells x))),
      (''current_selector'', selector_json (ce_current_selector x)),
      (''contrasts'', JArr (map contrast_json (ce_contrasts x))),
      (''planned_trials'', JArr (map planned_json (ce_planned_trials x))),
      (''obligation_coverage'', JArr (map (\<lambda>c. jobject [(''obligation_id'', jtext (oc_obligation_id c)),
         (''trial_keys'', JArr (map jtext (oc_trial_keys c)))]) (ce_coverage x)))]"

text \<open>
  The code first validates the given experiment as a \<open>CompiledExperiment\<close>. Here an experiment that would
  not pass is refused by the comparison, since what the compiler produces does: only the message differs.
\<close>

definition recompile :: "'e model_env_scheme \<Rightarrow> compiled_experiment \<Rightarrow> compiled_experiment result" where
  "recompile E x =
     rbind (on_error is_value_error (EvaluationBoundaryError ''compiled experiment revalidation failed'')
       (compile_experiment E (ce_contract x))) (\<lambda>regenerated.
     if compiled_json x \<noteq> compiled_json regenerated
     then Inl (EvaluationBoundaryError ''compiled experiment differs from a fresh compiler result'')
     else Inr regenerated)"

definition revalidate_record :: "trial_record \<Rightarrow> trial_record result" where
  "revalidate_record r =
     on_error is_value_error (EvaluationBoundaryError ''trial record revalidation failed'')
       (rbind (validate_record r) (\<lambda>_. Inr r))"

text \<open>
  A verifier answers, or raises an exception whose text is on the left. The answer is validated, and
  every failure becomes a message that ends with the text of the exception.
\<close>

type_synonym 'r answer = "code_points + 'r"

fun error_text :: "py_error \<Rightarrow> string" where
  "error_text (ValidationError m) = m"
| "error_text (ValueError m) = m"
| "error_text _ = []"

definition verify_with ::
  "('b \<Rightarrow> 'r answer) \<Rightarrow> ('r \<Rightarrow> unit result) \<Rightarrow> string \<Rightarrow> 'b \<Rightarrow> 'r answer" where
  "verify_with verify validate message b =
     (case verify b of
        Inl t \<Rightarrow> Inl (text_of (message @ '': '') @ t)
      | Inr r \<Rightarrow>
          (case validate r of
             Inl e \<Rightarrow> Inl (text_of (message @ '': '' @ error_text e))
           | Inr _ \<Rightarrow> Inr r))"

definition verify_attestation ::
  "(trial_record \<Rightarrow> attestation_result answer) \<Rightarrow> trial_record \<Rightarrow> attestation_result answer" where
  "verify_attestation v = verify_with v validate_attestation_result
     ''trial attestation verifier response failed validation''"

definition verify_metric ::
  "(evidence_binding \<Rightarrow> metric_result answer) \<Rightarrow> evidence_binding \<Rightarrow> metric_result answer" where
  "verify_metric v = verify_with v validate_metric_result
     ''metric evidence verifier response failed validation''"

definition verify_cleanup ::
  "(cleanup_binding \<Rightarrow> cleanup_result answer) \<Rightarrow> cleanup_binding \<Rightarrow> cleanup_result answer" where
  "verify_cleanup v = verify_with v validate_cleanup_result ''cleanup verifier response failed validation''"

section \<open>Trial states and issues\<close>

record trial_state =
  ts_record :: trial_record
  ts_valid :: bool
  ts_reasons :: "string list"
  ts_attestation :: "attestation option"

definition new_state :: "trial_record \<Rightarrow> trial_state" where
  "new_state r = \<lparr>ts_record = r, ts_valid = True, ts_reasons = [], ts_attestation = None\<rparr>"

abbreviation ts_key :: "trial_state \<Rightarrow> string" where
  "ts_key s \<equiv> rc_trial_key (ts_record s)"

record eval_world =
  wd_states :: "trial_state list"
  wd_design :: "evaluation_issue list"
  wd_evidence :: "evaluation_issue list"
  wd_safety :: "evaluation_issue list"

datatype destination = ToDesign | ToEvidence | ToSafety

fun put_issue :: "destination \<Rightarrow> evaluation_issue \<Rightarrow> eval_world \<Rightarrow> eval_world" where
  "put_issue ToDesign i w = w\<lparr>wd_design := wd_design w @ [i]\<rparr>"
| "put_issue ToEvidence i w = w\<lparr>wd_evidence := wd_evidence w @ [i]\<rparr>"
| "put_issue ToSafety i w = w\<lparr>wd_safety := wd_safety w @ [i]\<rparr>"

definition report :: "destination \<Rightarrow> evaluation_issue \<Rightarrow> eval_world \<Rightarrow> eval_world result" where
  "report dest i w = rbind (validate_issue i) (\<lambda>_. Inr (put_issue dest i w))"

definition invalidated :: "string \<Rightarrow> trial_state \<Rightarrow> trial_state" where
  "invalidated code s =
     s\<lparr>ts_valid := False, ts_reasons := if code \<in> set (ts_reasons s) then ts_reasons s else ts_reasons s @ [code]\<rparr>"

definition invalidate_at :: "string \<Rightarrow> nat list \<Rightarrow> trial_state list \<Rightarrow> trial_state list" where
  "invalidate_at code indices states =
     map (\<lambda>(i, s). if i \<in> set indices then invalidated code s else s) (enumerate 0 states)"

definition issue ::
  "destination \<Rightarrow> evaluation_issue \<Rightarrow> nat list \<Rightarrow> bool \<Rightarrow> eval_world \<Rightarrow> eval_world result" where
  "issue dest i indices invalidate w =
     rbind (report dest (i\<lparr>is_trial_keys := digests (map (\<lambda>j. ts_key (wd_states w ! j)) indices)\<rparr>) w) (\<lambda>w.
     Inr (if invalidate then w\<lparr>wd_states := invalidate_at (is_code i) indices (wd_states w)\<rparr> else w))"

text \<open>A row of checks on one trial: what is wrong, and the issue it becomes.\<close>

definition run_checks :: "bool \<Rightarrow> nat \<Rightarrow> (bool \<times> destination \<times> evaluation_issue) list \<Rightarrow> eval_world \<Rightarrow> eval_world result" where
  "run_checks invalidate j =
     each (\<lambda>(bad, dest, i) w. if bad then issue dest i [j] invalidate w else Inr w)"

section \<open>Design checks\<close>

definition occurrences :: "trial_state list \<Rightarrow> (string \<times> nat list) list" where
  "occurrences states = group_by (\<lambda>j. ts_key (states ! j)) [0..<length states]"

definition expected_by_key :: "compiled_experiment \<Rightarrow> string \<rightharpoonup> planned_trial" where
  "expected_by_key x = dict_of (map (\<lambda>t. (pt_key t, t)) (ce_planned_trials x))"

definition expected_keys :: "compiled_experiment \<Rightarrow> string list" where
  "expected_keys x = first_occurrences (map pt_key (ce_planned_trials x))"

definition cells_by_key :: "compiled_experiment \<Rightarrow> string \<rightharpoonup> cell_selector" where
  "cells_by_key x = dict_of (map (\<lambda>c. (gc_key c, gc_selector c)) (ce_cells x))"

definition missing_keys :: "compiled_experiment \<Rightarrow> trial_state list \<Rightarrow> string list" where
  "missing_keys x states = sort (filter (\<lambda>k. k \<notin> fst ` set (occurrences states)) (expected_keys x))"

definition extra_keys :: "compiled_experiment \<Rightarrow> trial_state list \<Rightarrow> string list" where
  "extra_keys x states = sort (filter (\<lambda>k. expected_by_key x k = None) (map fst (occurrences states)))"

definition duplicate_keys :: "trial_state list \<Rightarrow> string list" where
  "duplicate_keys states = sort (map fst (filter (\<lambda>(k, js). length js > 1) (occurrences states)))"

definition present_cell_keys :: "compiled_experiment \<Rightarrow> trial_state list \<Rightarrow> string list" where
  "present_cell_keys x states =
     concat (map (\<lambda>(k, js). case expected_by_key x k of None \<Rightarrow> [] | Some t \<Rightarrow> [pt_cell_key t]) (occurrences states))"

definition missing_cell_keys :: "compiled_experiment \<Rightarrow> trial_state list \<Rightarrow> string list" where
  "missing_cell_keys x states =
     digests (filter (\<lambda>k. k \<notin> set (present_cell_keys x states)) (map gc_key (ce_cells x)))"

definition indices_of :: "trial_state list \<Rightarrow> string \<Rightarrow> nat list" where
  "indices_of states k = filter (\<lambda>j. ts_key (states ! j) = k) [0..<length states]"

definition check_presence :: "compiled_experiment \<Rightarrow> eval_world \<Rightarrow> eval_world result" where
  "check_presence x w =
     (let states = wd_states w; missing = missing_keys x states; cells = missing_cell_keys x states in
      rbind (if missing = [] then Inr w
             else report ToDesign ((plain_issue ''missing-planned-trials''
               ''one or more compiler-planned trial keys are absent'')\<lparr>is_trial_keys := missing\<rparr>) w) (\<lambda>w.
      rbind (if cells = [] then Inr w
             else report ToDesign ((plain_issue ''missing-plan-cells''
               ''one or more compiler-generated cells have no trial record'')
                 \<lparr>is_trial_keys := filter (\<lambda>k. case expected_by_key x k of None \<Rightarrow> False | Some t \<Rightarrow> pt_cell_key t \<in> set cells) missing,
                  is_cell_keys := cells\<rparr>) w) (\<lambda>w.
      rbind (each (\<lambda>k. issue ToDesign (plain_issue ''unknown-trial-key'' ''record has no compiler-planned trial key'')
               (indices_of states k) True) (extra_keys x states) w)
        (each (\<lambda>k. issue ToDesign (plain_issue ''duplicate-trial-key''
               ''compiler-planned trial key occurs more than once'') (indices_of states k) True) (duplicate_keys states)))))"

definition binding_mismatches :: "compiled_experiment \<Rightarrow> planned_trial \<Rightarrow> trial_record \<Rightarrow> string list" where
  "binding_mismatches x t r =
     map snd (filter fst
       [(rc_spec_digest r \<noteq> ce_spec_digest x, ''spec_digest''), (rc_cell_key r \<noteq> pt_cell_key t, ''cell_key''),
        (rc_block r \<noteq> pt_block t, ''block''), (rc_replicate r \<noteq> pt_replicate t, ''replicate'')])"

definition identity_wrong :: "compiled_experiment \<Rightarrow> trial_state list \<Rightarrow> bool" where
  "identity_wrong x states \<longleftrightarrow> list_ex (\<lambda>s. case expected_by_key x (ts_key s) of
     None \<Rightarrow> False | Some t \<Rightarrow> binding_mismatches x t (ts_record s) \<noteq> []) states"

definition expected_action_digest :: "compiled_experiment \<Rightarrow> cell_selector \<Rightarrow> string result" where
  "expected_action_digest x s =
     (let a = pr_input (xc_profile (ce_contract x)) in
      if opt_eq (cs_input s) (Some (ia_attack a)) then Inr (ia_attack_digest a)
      else if opt_eq (cs_input s) (Some (ia_benign a)) then Inr (ia_benign_digest a)
      else Inl (EvaluationBoundaryError ''compiled cell has no declared input action''))"

definition check_identity :: "compiled_experiment \<Rightarrow> nat \<Rightarrow> eval_world \<Rightarrow> eval_world result" where
  "check_identity x j w =
     (let r = ts_record (wd_states w ! j) in
      case expected_by_key x (rc_trial_key r) of
        None \<Rightarrow> Inr w
      | Some t \<Rightarrow>
          let wrong = binding_mismatches x t r in
          rbind (run_checks True j
            [(wrong \<noteq> [], ToDesign, plain_issue ''planned-trial-binding-mismatch''
                (''record disagrees with compiler-owned '' @ join_text '', '' wrong))] w) (\<lambda>w.
          rbind (dict_at (cells_by_key x) (pt_cell_key t)) (\<lambda>s.
          rbind (expected_action_digest x s) (\<lambda>d.
          run_checks True j
            [(tr_action_digest (rc_trace r) \<noteq> d, ToDesign, (plain_issue ''action-digest-mismatch''
                ''trace action does not match the compiler-owned input action'')
                  \<lparr>is_digests := [tr_action_digest (rc_trace r)]\<rparr>)] w))))"

section \<open>Reuse across trials\<close>

definition mark_reuse :: "(trial_state \<Rightarrow> string) \<Rightarrow> string \<Rightarrow> string \<Rightarrow> eval_world \<Rightarrow> eval_world result" where
  "mark_reuse key_for code detail w =
     each (\<lambda>(k, js) w. if length js > 1 then issue ToSafety (plain_issue code detail) js True w else Inr w)
       (group_by (\<lambda>j. key_for (wd_states w ! j)) [0..<length (wd_states w)]) w"

definition mark_executed_event_reuse ::
  "(executed_event \<Rightarrow> string) \<Rightarrow> string \<Rightarrow> string \<Rightarrow> eval_world \<Rightarrow> eval_world result" where
  "mark_executed_event_reuse key_for code detail w =
     (let states = wd_states w;
          pairs = concat (map (\<lambda>j. map (\<lambda>e. (key_for e, j)) (executed_events (rc_trace (ts_record (states ! j)))))
            [0..<length states]) in
      each (\<lambda>(k, ps) w.
          let js = sort (remdups (map snd ps)) in
          if card (set (map (\<lambda>j. ts_key (states ! j)) js)) > 1
          then issue ToSafety ((plain_issue code detail)
            \<lparr>is_digests := if starts_with ''sha256:'' k then [k] else []\<rparr>) js True w
          else Inr w)
        (group_by fst pairs) w)"

definition mark_all_reuse :: "eval_world \<Rightarrow> eval_world result" where
  "mark_all_reuse w =
     rbind (mark_reuse (\<lambda>s. cl_instance_id (rc_clone (ts_record s))) ''clone-instance-reuse''
       ''fresh-clone instance id is reused'' w) (\<lambda>w.
     rbind (mark_reuse (\<lambda>s. cl_attestation_bundle (rc_clone (ts_record s))) ''attestation-bundle-reuse''
       ''trial attestation bundle is reused'' w) (\<lambda>w.
     rbind (mark_reuse (\<lambda>s. tr_id (rc_trace (ts_record s))) ''trace-id-reuse''
       ''trace id is reused across fresh trials'' w) (\<lambda>w.
     rbind (mark_executed_event_reuse xe_id ''event-id-reuse''
       ''executed event id is reused across fresh trials'' w) (\<lambda>w.
     mark_executed_event_reuse xe_bundle ''stage-evidence-bundle-reuse''
       ''executed stage evidence bundle is reused across fresh trials'' w))))"

section \<open>Attestations\<close>

definition expected_binding :: "compiled_experiment \<Rightarrow> planned_trial \<Rightarrow> trial_record \<Rightarrow> attestation_binding" where
  "expected_binding x t r =
     \<lparr>ab_spec_digest = ce_spec_digest x, ab_trial_key = pt_key t, ab_cell_key = pt_cell_key t,
      ab_block = pt_block t, ab_replicate = pt_replicate t, ab_ordinal = pt_ordinal t,
      ab_trace_id = tr_id (rc_trace r), ab_action_digest = tr_action_digest (rc_trace r),
      ab_clone_instance = cl_instance_id (rc_clone r), ab_runner = cl_runner (rc_clone r),
      ab_attestation_bundle = cl_attestation_bundle (rc_clone r)\<rparr>"

definition attested_issue :: "attestation \<Rightarrow> string \<Rightarrow> string \<Rightarrow> evaluation_issue" where
  "attested_issue a code detail =
     (plain_issue code detail)\<lparr>is_evidence_ids := [at_evidence_id a], is_artifact_ids := at_artifact_ids a\<rparr>"

definition attestation_checks ::
  "compiled_experiment \<Rightarrow> planned_trial \<Rightarrow> cell_selector \<Rightarrow> trial_record \<Rightarrow> attestation
     \<Rightarrow> (bool \<times> destination \<times> evaluation_issue) list" where
  "attestation_checks x t s r a =
     (let scope = xc_scope (ce_contract x); c = rc_clone r; window = xs_evidence_window scope in
      [(at_binding a \<noteq> expected_binding x t r, ToEvidence, attested_issue a ''trial-attestation-binding-mismatch''
          ''trial attestation does not echo the exact planned execution binding''),
       (at_build_digest a \<noteq> xs_build_digest scope \<or> at_dataset_digest a \<noteq> xs_dataset_digest scope
          \<or> at_fixture_digest a \<noteq> xs_fixture_digest scope, ToEvidence,
          (attested_issue a ''attested-scope-mismatch''
            ''attested build, dataset, or fixture differs from the contract scope'')
            \<lparr>is_digests := [at_build_digest a, at_dataset_digest a, at_fixture_digest a]\<rparr>),
       (at_executed_ordinal a \<noteq> pt_ordinal t, ToDesign, attested_issue a ''attested-order-mismatch''
          ''attested execution ordinal differs from the compiler plan''),
       (\<not> selector_eq (at_selector a) s, ToDesign, (attested_issue a ''attested-selector-mismatch''
          ''attested factor state differs from the compiler-planned cell'')
            \<lparr>is_expected_selector := Some s, is_selectors := [at_selector a]\<rparr>),
       (at_base_snapshot a \<noteq> cl_base_snapshot c \<or> at_covariate a \<noteq> cl_covariate c, ToEvidence,
          attested_issue a ''attested-clone-state-mismatch''
            ''attested base snapshot or covariate differs from the fresh clone''),
       (cl_attestation_bundle c \<notin> set (at_artifact_ids a), ToEvidence,
          attested_issue a ''attestation-bundle-unbound''
            ''admission artifacts do not bind the declared attestation bundle''),
       (\<not> (ew_start window \<le> at_started a \<and> at_ended a \<le> ew_end window \<and> at_ended a \<le> xs_assessment_as_of scope),
          ToEvidence, attested_issue a ''trial-attestation-outside-window''
            ''attested trial time falls outside the evidence window or as-of''),
       (list_ex (\<lambda>e. xe_started e < at_started a \<or> xe_ended e > at_ended a) (executed_events (rc_trace r)),
          ToEvidence, attested_issue a ''trace-outside-attested-time''
            ''an executed stage lies outside the attested trial time'')])"

definition set_attestation :: "nat \<Rightarrow> attestation \<Rightarrow> eval_world \<Rightarrow> eval_world" where
  "set_attestation j a w = w\<lparr>wd_states := (wd_states w)[j := (wd_states w ! j)\<lparr>ts_attestation := Some a\<rparr>]\<rparr>"

definition attest ::
  "compiled_experiment \<Rightarrow> (trial_record \<Rightarrow> attestation_result answer) \<Rightarrow> nat \<Rightarrow> eval_world \<Rightarrow> eval_world result" where
  "attest x v j w =
     (let r = ts_record (wd_states w ! j) in
      case expected_by_key x (rc_trial_key r) of
        None \<Rightarrow> Inr w
      | Some t \<Rightarrow>
          (case verify_attestation v r of
             Inl message \<Rightarrow>
               issue ToEvidence (text_issue ''invalid-trial-attestation-response'' message) [j] True w
           | Inr (AttestationFailed f) \<Rightarrow>
               rbind (dict_at (cells_by_key x) (pt_cell_key t)) (\<lambda>s.
               issue ToEvidence ((plain_issue (''trial-attestation-'' @ failure_name (af_status f)) (af_reason f))
                 \<lparr>is_evidence_ids := af_evidence_ids f, is_artifact_ids := af_artifact_ids f,
                  is_expected_selector := Some s, is_selectors := af_selectors f, is_digests := af_digests f\<rparr>)
                 [j] True w)
           | Inr (AttestationAdmitted a) \<Rightarrow>
               rbind (dict_at (cells_by_key x) (pt_cell_key t)) (\<lambda>s.
               run_checks True j (attestation_checks x t s r a) (set_attestation j a w))))"

definition attested_indices :: "trial_state list \<Rightarrow> nat list" where
  "attested_indices states = filter (\<lambda>j. ts_attestation (states ! j) \<noteq> None) [0..<length states]"

definition mark_evidence_reuse :: "eval_world \<Rightarrow> eval_world result" where
  "mark_evidence_reuse w =
     (let states = wd_states w in
      each (\<lambda>(e, js) w. if length js > 1
          then issue ToSafety ((plain_issue ''attestation-evidence-reuse''
            ''one attestation evidence id is bound to multiple trials'')\<lparr>is_evidence_ids := [e]\<rparr>) js True w
          else Inr w)
        (group_by (\<lambda>j. at_evidence_id (the (ts_attestation (states ! j)))) (attested_indices states)) w)"

fun pairs_of :: "'a list \<Rightarrow> ('a \<times> 'a) list" where
  "pairs_of [] = []"
| "pairs_of (x # xs) = map (Pair x) xs @ pairs_of xs"

definition overlapping :: "attestation \<Rightarrow> attestation \<Rightarrow> bool" where
  "overlapping a b \<longleftrightarrow> max (at_started a) (at_started b) < min (at_ended a) (at_ended b)"

definition mark_runner_overlaps :: "eval_world \<Rightarrow> eval_world result" where
  "mark_runner_overlaps w =
     (let states = wd_states w in
      each (\<lambda>(runner, js). each (\<lambda>(l, r) w.
          if overlapping (the (ts_attestation (states ! l))) (the (ts_attestation (states ! r)))
          then issue ToSafety (plain_issue ''runner-resource-overlap''
            (''trials overlap on runner resource '' @ runner)) [l, r] True w
          else Inr w) (pairs_of js))
        (group_by (\<lambda>j. cl_runner (rc_clone (ts_record (states ! j)))) (attested_indices states)) w)"

section \<open>Cleanups\<close>

definition cleanup_binding_of :: "compiled_experiment \<Rightarrow> trial_record \<Rightarrow> cleanup_binding" where
  "cleanup_binding_of x r =
     \<lparr>kb_spec_digest = ce_spec_digest x, kb_trial_key = rc_trial_key r, kb_trace_id = tr_id (rc_trace r),
      kb_clone_instance = cl_instance_id (rc_clone r), kb_runner = cl_runner (rc_clone r),
      kb_bundle = rc_cleanup_bundle r, kb_outcome_ended = xe_ended (tr_outcome (rc_trace r))\<rparr>"

definition cleanup_issue :: "cleanup_evidence \<Rightarrow> string \<Rightarrow> string \<Rightarrow> evaluation_issue" where
  "cleanup_issue k code detail =
     (plain_issue code detail)\<lparr>is_evidence_ids := [ke_evidence_id k], is_artifact_ids := ke_artifact_ids k\<rparr>"

definition cleanup_checks ::
  "compiled_experiment \<Rightarrow> cleanup_binding \<Rightarrow> cleanup_evidence \<Rightarrow> (bool \<times> destination \<times> evaluation_issue) list" where
  "cleanup_checks x b k =
     (let scope = xc_scope (ce_contract x); window = xs_evidence_window scope in
      [(ke_binding k \<noteq> b, ToSafety, cleanup_issue k ''cleanup-binding-mismatch''
          ''cleanup admission does not echo the exact cleanup binding''),
       (kb_bundle b \<notin> set (ke_artifact_ids k), ToSafety, cleanup_issue k ''cleanup-bundle-unbound''
          ''cleanup admission artifacts do not bind the cleanup bundle''),
       (\<not> (ke_observed_at k > kb_outcome_ended b \<and> ew_start window \<le> ke_observed_at k
           \<and> ke_observed_at k \<le> ew_end window \<and> ke_observed_at k \<le> xs_assessment_as_of scope), ToSafety,
          cleanup_issue k ''cleanup-time-invalid''
            ''cleanup must be observed after outcome and within the window/as-of''),
       (\<not> ke_verified k, ToSafety, cleanup_issue k ''cleanup-failed'' ''verified cleanup evidence reports failure'')])"

text \<open>What the verifier's answer for one trial gives: an admission or none, and the checks on it.\<close>

definition judge_cleanup ::
  "compiled_experiment \<Rightarrow> (cleanup_binding \<Rightarrow> cleanup_result answer) \<Rightarrow> trial_record
     \<Rightarrow> cleanup_evidence option \<times> (bool \<times> destination \<times> evaluation_issue) list" where
  "judge_cleanup x v r =
     (let b = cleanup_binding_of x r in
      case verify_cleanup v b of
        Inl message \<Rightarrow> (None, [(True, ToSafety, text_issue ''invalid-cleanup-response'' message)])
      | Inr (CleanupFailed f) \<Rightarrow>
          (None, [(True, ToSafety, (plain_issue (''cleanup-'' @ failure_name (kf_status f)) (kf_reason f))
             \<lparr>is_evidence_ids := kf_evidence_ids f, is_artifact_ids := kf_artifact_ids f\<rparr>)])
      | Inr (CleanupAdmitted k) \<Rightarrow> (Some k, cleanup_checks x b k))"

definition planned_indices :: "compiled_experiment \<Rightarrow> trial_state list \<Rightarrow> nat list" where
  "planned_indices x states = filter (\<lambda>j. expected_by_key x (ts_key (states ! j)) \<noteq> None) [0..<length states]"

definition shared_across_trials :: "trial_state list \<Rightarrow> nat list \<Rightarrow> bool" where
  "shared_across_trials states js \<longleftrightarrow> card (set (map (\<lambda>j. ts_key (states ! j)) js)) > 1"

definition admit_cleanups ::
  "compiled_experiment \<Rightarrow> (cleanup_binding \<Rightarrow> cleanup_result answer) \<Rightarrow> eval_world
     \<Rightarrow> (nat list \<times> eval_world) result" where
  "admit_cleanups x v w =
     (let states = wd_states w; planned = planned_indices x states;
          verdict = (\<lambda>j. judge_cleanup x v (ts_record (states ! j)));
          bundles = filter (\<lambda>(d, js). shared_across_trials states js)
            (group_by (\<lambda>j. rc_cleanup_bundle (ts_record (states ! j))) planned);
          admitted = filter (\<lambda>j. fst (verdict j) \<noteq> None) planned;
          admission = (\<lambda>j. the (fst (verdict j)));
          reused = filter (\<lambda>(e, js). shared_across_trials states js)
            (group_by (\<lambda>j. ke_evidence_id (admission j)) admitted);
          bad = (\<lambda>j. list_ex (\<lambda>(d, js). j \<in> set js) bundles \<or> list_ex fst (snd (verdict j))
            \<or> list_ex (\<lambda>(e, js). j \<in> set js) reused) in
      rbind (each (\<lambda>(d, js). issue ToSafety ((plain_issue ''cleanup-bundle-reuse''
          ''cleanup evidence bundle is reused across trials'')\<lparr>is_artifact_ids := [d]\<rparr>) js False) bundles w) (\<lambda>w.
      rbind (each (\<lambda>j. run_checks False j (snd (verdict j))) planned w) (\<lambda>w.
      rbind (each (\<lambda>(e, js). issue ToSafety ((plain_issue ''cleanup-evidence-reuse''
          ''cleanup evidence id is reused across trials'')\<lparr>is_evidence_ids := [e]\<rparr>) js False) reused w) (\<lambda>w.
      Inr (filter (\<lambda>j. \<not> bad j \<and> ke_verified (admission j)) admitted, w)))))"

section \<open>Metric evidence\<close>

type_synonym coordinate = "string \<times> stage \<times> string"
type_synonym cache_key = "string \<times> string \<times> string"

record metric_context =
  cx_issues :: "evaluation_issue list"
  cx_cache :: "(cache_key \<times> metric_evidence option) list"
  cx_reasons :: "(cache_key \<times> code_points) list"

definition metric_by_id :: "compiled_experiment \<Rightarrow> string \<Rightarrow> metric_contract result" where
  "metric_by_id x i = next_of (filter (\<lambda>m. mc_id m = i) (xc_metrics (ce_contract x)))"

definition evidence_binding_of ::
  "compiled_experiment \<Rightarrow> trial_record \<Rightarrow> executed_event \<Rightarrow> metric_contract \<Rightarrow> evidence_binding" where
  "evidence_binding_of x r e m =
     \<lparr>eb_spec_digest = ce_spec_digest x, eb_trial_key = rc_trial_key r, eb_trace_id = tr_id (rc_trace r),
      eb_event_id = xe_id e, eb_bundle = xe_bundle e, eb_stage = xe_stage e, eb_metric_id = mc_id m\<rparr>"

definition metric_in_window :: "compiled_experiment \<Rightarrow> executed_event \<Rightarrow> metric_evidence \<Rightarrow> bool" where
  "metric_in_window x e a \<longleftrightarrow>
     (let scope = xc_scope (ce_contract x); window = xs_evidence_window scope; t = me_observed_at a in
      ew_start window \<le> t \<and> t \<le> ew_end window \<and> t \<le> xs_assessment_as_of scope \<and> xe_started e \<le> t \<and> t \<le> xe_ended e)"

text \<open>The code and the reason of a refusal, or the evidence.\<close>

definition judge_metric ::
  "compiled_experiment \<Rightarrow> evidence_binding \<Rightarrow> executed_event \<Rightarrow> metric_contract \<Rightarrow> metric_result answer
     \<Rightarrow> (string \<times> code_points) + metric_evidence" where
  "judge_metric x b e m answer =
     (case answer of
        Inl message \<Rightarrow> Inl (''invalid-metric-evidence-response'', message)
      | Inr (MetricFailed f) \<Rightarrow>
          Inl (''metric-evidence-'' @ failure_name (mf_status f), text_of (failure_name (mf_status f) @ '': '' @ mf_reason f))
      | Inr (MetricAdmitted a) \<Rightarrow>
          if me_binding a \<noteq> b
          then Inl (''metric-evidence-binding-mismatch'', text_of ''metric admission does not echo the exact evidence binding'')
          else if value_type_name (me_value a) \<noteq> metric_type_name (mc_value_type m)
          then Inl (''metric-value-type-mismatch'', text_of (''admitted value type '' @ value_type_name (me_value a)
                 @ '' does not match '' @ metric_type_name (mc_value_type m)))
          else if \<not> metric_in_window x e a
          then Inl (''metric-evidence-outside-window'',
                 text_of ''metric evidence time falls outside its stage event, evidence window, or as-of'')
          else if xe_bundle e \<notin> set (me_artifact_ids a)
          then Inl (''metric-evidence-bundle-unbound'', text_of ''metric admission does not bind the stage evidence bundle'')
          else Inr a)"

definition refusal_issue ::
  "metric_contract \<Rightarrow> string \<Rightarrow> metric_result answer \<Rightarrow> string \<times> code_points \<Rightarrow> evaluation_issue" where
  "refusal_issue m key answer refusal =
     (text_issue (fst refusal) (snd refusal))
       \<lparr>is_trial_keys := [key], is_value_type := Some (mc_value_type m),
        is_evidence_ids := (case answer of Inr (MetricAdmitted a) \<Rightarrow> [me_evidence_id a]
          | Inr (MetricFailed f) \<Rightarrow> mf_evidence_ids f | Inl _ \<Rightarrow> []),
        is_artifact_ids := (case answer of Inr (MetricAdmitted a) \<Rightarrow> me_artifact_ids a
          | Inr (MetricFailed f) \<Rightarrow> mf_artifact_ids f | Inl _ \<Rightarrow> []),
        is_candidates := (case answer of Inr (MetricFailed f) \<Rightarrow> mf_candidates f | _ \<Rightarrow> [])\<rparr>"

definition metric_evidence_for ::
  "compiled_experiment \<Rightarrow> (evidence_binding \<Rightarrow> metric_result answer) \<Rightarrow> trial_state \<Rightarrow> executed_event
     \<Rightarrow> metric_contract \<Rightarrow> metric_context \<Rightarrow> (metric_evidence option \<times> metric_context) result" where
  "metric_evidence_for x v s e m cx =
     (let key = (ts_key s, xe_id e, mc_id m) in
      case map_of (cx_cache cx) key of
        Some cached \<Rightarrow> Inr (cached, cx)
      | None \<Rightarrow>
          let b = evidence_binding_of x (ts_record s) e m; answer = verify_metric v b in
          (case judge_metric x b e m answer of
             Inr a \<Rightarrow> Inr (Some a, cx\<lparr>cx_cache := dict_put key (Some a) (cx_cache cx)\<rparr>)
           | Inl refusal \<Rightarrow>
               let i = refusal_issue m (ts_key s) answer refusal in
               rbind (validate_issue i) (\<lambda>_.
               Inr (None, cx\<lparr>cx_cache := dict_put key None (cx_cache cx),
                 cx_reasons := dict_put key (snd refusal) (cx_reasons cx), cx_issues := cx_issues cx @ [i]\<rparr>))))"

definition coverage_keys :: "compiled_experiment \<Rightarrow> string \<Rightarrow> string list result" where
  "coverage_keys x i = dict_at (dict_of (map (\<lambda>c. (oc_obligation_id c, oc_trial_keys c)) (ce_coverage x))) i"

definition contrast_cells :: "contrast_definition \<Rightarrow> string list" where
  "contrast_cells d = concat (map (\<lambda>p. [cp_reference p, cp_comparison p]) (cd_pairs d))"

definition required_metric_coordinates :: "compiled_experiment \<Rightarrow> coordinate list result" where
  "required_metric_coordinates x =
     rbind (rmap (\<lambda>b. rbind (coverage_keys x (ob_id b)) (\<lambda>ks.
       Inr (map (\<lambda>k. (k, required_stage (ob_scope b), mp_metric_id (ob_predicate b))) ks)))
       (xc_obligations (ce_contract x))) (\<lambda>obligations.
     rbind (rmap (\<lambda>d. rbind (metric_by_id x (cd_metric_id d)) (\<lambda>m.
       Inr (map (\<lambda>t. (pt_key t, mc_stage m, mc_id m))
         (filter (\<lambda>t. pt_cell_key t \<in> set (contrast_cells d)) (ce_planned_trials x)))))
       (ce_contrasts x)) (\<lambda>contrasts.
     Inr (remdups (concat obligations @ concat contrasts))))"

definition prime_one ::
  "compiled_experiment \<Rightarrow> (evidence_binding \<Rightarrow> metric_result answer) \<Rightarrow> (string \<times> trial_state) list \<Rightarrow> coordinate
     \<Rightarrow> metric_context \<Rightarrow> metric_context result" where
  "prime_one x v by_key c cx =
     (case c of (key, stage, metric_id) \<Rightarrow>
        (case map_of by_key key of
           None \<Rightarrow> Inr cx
         | Some s \<Rightarrow>
             (case event_for (rc_trace (ts_record s)) stage of
                Skipped k \<Rightarrow> Inr cx
              | Executed e \<Rightarrow>
                  rbind (metric_by_id x metric_id) (\<lambda>m.
                  rbind (metric_evidence_for x v s e m cx) (\<lambda>(a, cx). Inr cx)))))"

definition prime_metric_evidence ::
  "compiled_experiment \<Rightarrow> (evidence_binding \<Rightarrow> metric_result answer) \<Rightarrow> (string \<times> trial_state) list
     \<Rightarrow> coordinate list \<Rightarrow> metric_context \<Rightarrow> metric_context result" where
  "prime_metric_evidence x v by_key required =
     each (prime_one x v by_key) (sort_key (\<lambda>(k, s, m). (k, stage_name s, m)) required)"

text \<open>Admissions that rebind an evidence id, or whose bundle yields two values for one metric.\<close>

fun admissions_of :: "(cache_key \<times> metric_evidence option) list \<Rightarrow> (cache_key \<times> metric_evidence) list" where
  "admissions_of [] = []"
| "admissions_of ((k, Some a) # c) = (k, a) # admissions_of c"
| "admissions_of ((k, None) # c) = admissions_of c"

definition rebound_ids :: "(cache_key \<times> metric_evidence) list \<Rightarrow> (string \<times> (cache_key \<times> metric_evidence) list) list" where
  "rebound_ids admissions = filter (\<lambda>(i, owners). card (set (map (me_binding \<circ> snd) owners)) > 1)
     (group_by (me_evidence_id \<circ> snd) admissions)"

definition conflicting_bundles ::
  "(cache_key \<times> metric_evidence) list \<Rightarrow> ((string \<times> string) \<times> (cache_key \<times> metric_evidence) list) list" where
  "conflicting_bundles admissions =
     filter (\<lambda>(b, owners). card (set (map (typed_json \<circ> me_value \<circ> snd) owners)) > 1)
       (group_by (\<lambda>(k, a). (eb_bundle (me_binding a), eb_metric_id (me_binding a))) admissions)"

definition rebound_reason :: string where
  "rebound_reason = ''metric evidence id is rebound across distinct bindings''"

definition conflict_reason :: "string \<times> string \<Rightarrow> string" where
  "conflict_reason b = ''bundle '' @ fst b @ '' yields conflicting values for metric '' @ snd b"

definition owners_issue :: "string \<Rightarrow> string \<Rightarrow> (cache_key \<times> metric_evidence) list \<Rightarrow> evaluation_issue" where
  "owners_issue code detail owners =
     (plain_issue code detail)\<lparr>is_trial_keys := digests (map (fst \<circ> fst) owners),
        is_artifact_ids := digests (concat (map (me_artifact_ids \<circ> snd) owners)),
        is_candidates := map (me_value \<circ> snd) owners\<rparr>"

definition replay_issues :: "(cache_key \<times> metric_evidence) list \<Rightarrow> evaluation_issue list" where
  "replay_issues admissions =
     map (\<lambda>(i, owners). (owners_issue ''metric-evidence-id-reuse'' rebound_reason owners)\<lparr>is_evidence_ids := [i]\<rparr>)
       (rebound_ids admissions)
     @ map (\<lambda>(b, owners). (owners_issue ''metric-bundle-value-conflict'' (conflict_reason b) owners)
         \<lparr>is_evidence_ids := digests (map (me_evidence_id \<circ> snd) owners), is_digests := [fst b]\<rparr>)
       (conflicting_bundles admissions)"

definition bad_reasons :: "(cache_key \<times> metric_evidence) list \<Rightarrow> (cache_key \<times> string) list" where
  "bad_reasons admissions =
     concat (map (\<lambda>(i, owners). map (\<lambda>(k, a). (k, rebound_reason)) owners) (rebound_ids admissions))
     @ concat (map (\<lambda>(b, owners). map (\<lambda>(k, a). (k, conflict_reason b)) owners) (conflicting_bundles admissions))"

definition reject_metric_replays :: "metric_context \<Rightarrow> metric_context result" where
  "reject_metric_replays cx =
     (let admissions = admissions_of (cx_cache cx); issues = replay_issues admissions;
          bad = group_by fst (bad_reasons admissions) in
      rbind (rmap validate_issue issues) (\<lambda>_.
      Inr (cx\<lparr>cx_issues := cx_issues cx @ issues,
         cx_cache := fold (\<lambda>(k, rs). dict_put k None) bad (cx_cache cx),
         cx_reasons := fold (\<lambda>(k, rs). dict_put k (text_of (join_text ''; '' (digests (map snd rs))))) bad (cx_reasons cx)\<rparr>)))"

definition coordinate_complete :: "(string \<times> trial_state) list \<Rightarrow> metric_context \<Rightarrow> coordinate \<Rightarrow> bool" where
  "coordinate_complete by_key cx c \<longleftrightarrow>
     (case c of (key, stage, metric_id) \<Rightarrow>
        (case map_of by_key key of
           None \<Rightarrow> False
         | Some s \<Rightarrow>
             (case event_for (rc_trace (ts_record s)) stage of
                Skipped k \<Rightarrow> True
              | Executed e \<Rightarrow>
                  (case map_of (cx_cache cx) (key, xe_id e, metric_id) of Some (Some a) \<Rightarrow> True | _ \<Rightarrow> False))))"

definition metric_evidence_complete :: "(string \<times> trial_state) list \<Rightarrow> metric_context \<Rightarrow> coordinate list \<Rightarrow> bool" where
  "metric_evidence_complete by_key cx required \<longleftrightarrow> list_all (coordinate_complete by_key cx) required"

definition invalid_reason :: "trial_state list \<Rightarrow> string \<Rightarrow> string" where
  "invalid_reason states key =
     (let matching = filter (\<lambda>s. ts_key s = key) states; reasons = digests (concat (map ts_reasons matching)) in
      if matching = [] then ''missing planned trial''
      else if reasons = [] then ''trial is not admissible'' else join_text '', '' reasons)"

section \<open>Predicates, quantifiers and relations\<close>

fun as_decimal :: "typed_value \<Rightarrow> pydecimal result" where
  "as_decimal (IntegerValue n) = Inr (Dec (n < 0) (nat \<bar>n\<bar>) 0)"
| "as_decimal (DecimalValue d) = Inr d"
| "as_decimal _ = Inl (TypeError ''non-numeric typed value'')"

text \<open>\<open>actual.value == expected.value\<close> of two values of one type.\<close>

definition value_equal :: "typed_value \<Rightarrow> typed_value \<Rightarrow> bool" where
  "value_equal a b \<longleftrightarrow> typed_eq a b"

fun compare_numbers :: "predicate_operator \<Rightarrow> pydecimal \<Rightarrow> pydecimal \<Rightarrow> pydecimal \<Rightarrow> bool" where
  "compare_numbers OpEqual l r tol \<longleftrightarrow> dec_le (dec_abs (dec_sub l r)) tol"
| "compare_numbers OpNotEqual l r tol \<longleftrightarrow> dec_less tol (dec_abs (dec_sub l r))"
| "compare_numbers OpLessOrEqual l r tol \<longleftrightarrow> dec_le l (dec_add r tol)"
| "compare_numbers OpGreaterOrEqual l r tol \<longleftrightarrow> dec_le (dec_sub r tol) l"

definition predicate_matches :: "metric_predicate \<Rightarrow> typed_value \<Rightarrow> bool result" where
  "predicate_matches p actual =
     (let expected = mp_expected p;
          tol = (case mp_tolerance p of None \<Rightarrow> Dec False 0 0 | Some d \<Rightarrow> d) in
      if value_type_name actual \<noteq> value_type_name expected then Inr False
      else if numeric actual
      then rbind (as_decimal actual) (\<lambda>l. rbind (as_decimal expected) (\<lambda>r.
        Inr (compare_numbers (mp_operator p) l r tol)))
      else Inr (case mp_operator p of
          OpEqual \<Rightarrow> value_equal actual expected
        | OpNotEqual \<Rightarrow> \<not> value_equal actual expected
        | _ \<Rightarrow> False))"

fun quantified_truth ::
  "quantifier \<Rightarrow> nat \<Rightarrow> nat \<Rightarrow> nat \<Rightarrow> nat \<Rightarrow> pydecimal \<Rightarrow> pydecimal \<Rightarrow> truth_value" where
  "quantified_truth (AllTested n) passed failed unresolved expected lower upper =
     (if failed \<noteq> 0 then TruthRefuted
      else if unresolved = 0 \<and> passed = expected then TruthSupported else TruthNeither)"
| "quantified_truth (AtLeastRate rate n) passed failed unresolved expected lower upper =
     (if dec_le rate lower \<and> int (passed + failed) \<ge> n then TruthSupported
      else if dec_less upper rate then TruthRefuted else TruthNeither)"
| "quantified_truth (ExistsTrial n) passed failed unresolved expected lower upper =
     (if passed \<noteq> 0 \<and> int (passed + failed) \<ge> n then TruthSupported
      else if unresolved = 0 \<and> passed = 0 then TruthRefuted else TruthNeither)"

fun compare_relation :: "relation_operator \<Rightarrow> pydecimal \<Rightarrow> pydecimal \<Rightarrow> bool" where
  "compare_relation Decreases l r \<longleftrightarrow> dec_less r l"
| "compare_relation Increases l r \<longleftrightarrow> dec_less l r"
| "compare_relation RelLessOrEqual l r \<longleftrightarrow> dec_le l r"
| "compare_relation _ l r \<longleftrightarrow> dec_le r l"

definition relation_matches :: "relation_operator \<Rightarrow> typed_value \<Rightarrow> typed_value \<Rightarrow> bool result" where
  "relation_matches operator left right =
     (if value_type_name left \<noteq> value_type_name right then Inr False
      else if operator = TrueToFalse then Inr (left = BooleanValue True \<and> right = BooleanValue False)
      else if operator = FalseToTrue then Inr (left = BooleanValue False \<and> right = BooleanValue True)
      else if operator = RelEqual then Inr (value_equal left right)
      else if operator = RelNotEqual then Inr (\<not> value_equal left right)
      else if \<not> numeric left then Inr False
      else rbind (as_decimal left) (\<lambda>l. rbind (as_decimal right) (\<lambda>r.
        Inr (compare_relation operator l r))))"

section \<open>Obligations\<close>

text \<open>What an assessment reads besides the context: the plan, the admissible trials, all trials.\<close>

record assessment_env =
  ae_compiled :: compiled_experiment
  ae_verifier :: "evidence_binding \<Rightarrow> metric_result answer"
  ae_by_key :: "(string \<times> trial_state) list"
  ae_states :: "trial_state list"

definition unresolved_point :: "string \<Rightarrow> exercise_state \<Rightarrow> code_points \<Rightarrow> attestation option \<Rightarrow> trial_point" where
  "unresolved_point key exercise reason a =
     \<lparr>tq_trial_key = key, tq_state = PointUnresolved, tq_exercise = exercise, tq_value = None, tq_reason = Some reason,
      tq_evidence_ids = (case a of None \<Rightarrow> [] | Some a \<Rightarrow> [at_evidence_id a]),
      tq_artifact_ids = (case a of None \<Rightarrow> [] | Some a \<Rightarrow> at_artifact_ids a)\<rparr>"

definition assess_point ::
  "assessment_env \<Rightarrow> obligation \<Rightarrow> metric_contract \<Rightarrow> string \<Rightarrow> metric_context \<Rightarrow> (trial_point \<times> metric_context) result" where
  "assess_point A b m key cx =
     (case map_of (ae_by_key A) key of
        None \<Rightarrow> Inr (unresolved_point key UnknownExercise (text_of (invalid_reason (ae_states A) key)) None, cx)
      | Some s \<Rightarrow>
          let a = the (ts_attestation s) in
          (case event_for (rc_trace (ts_record s)) (required_stage (ob_scope b)) of
             Skipped k \<Rightarrow>
               Inr (unresolved_point key NotExercised (text_of (stage_name (required_stage (ob_scope b))
                 @ '' stage skipped; blocked by '' @ sk_blocked_by k)) (Some a), cx)
           | Executed e \<Rightarrow>
               rbind (metric_evidence_for (ae_compiled A) (ae_verifier A) s e m cx) (\<lambda>(admission, cx).
               case admission of
                 None \<Rightarrow>
                   rbind (dict_at (map_of (cx_reasons cx)) (key, xe_id e, mc_id m)) (\<lambda>reason.
                   Inr (unresolved_point key Exercised reason (Some a), cx))
               | Some d \<Rightarrow>
                   rbind (predicate_matches (ob_predicate b) (me_value d)) (\<lambda>passed.
                   Inr (\<lparr>tq_trial_key = key, tq_state = if passed then PointPass else PointFail,
                     tq_exercise = Exercised, tq_value = Some (me_value d), tq_reason = None,
                     tq_evidence_ids = [at_evidence_id a, me_evidence_id d],
                     tq_artifact_ids = digests (at_artifact_ids a @ me_artifact_ids d)\<rparr>, cx)))))"

definition points_in :: "point_state \<Rightarrow> trial_point list \<Rightarrow> trial_point list" where
  "points_in q = filter (\<lambda>p. tq_state p = q)"

definition count_exercise :: "exercise_state \<Rightarrow> trial_point list \<Rightarrow> nat" where
  "count_exercise e ps = length (filter (\<lambda>p. tq_exercise p = e) ps)"

definition overall_exercise :: "trial_point list \<Rightarrow> exercise_state" where
  "overall_exercise ps =
     (if count_exercise UnknownExercise ps = length ps then UnknownExercise
      else if count_exercise NotExercised ps = length ps then NotExercised
      else if count_exercise Exercised ps = length ps then Exercised else PartiallyExercised)"

definition assessment_of :: "obligation \<Rightarrow> trial_point list \<Rightarrow> obligation_assessment" where
  "assessment_of b ps =
     (let passed = length (points_in PointPass ps); failed = length (points_in PointFail ps);
          unresolved = length (points_in PointUnresolved ps); expected = length ps;
          lower = dec_ratio passed expected; upper = dec_ratio (passed + unresolved) expected in
      \<lparr>oa_obligation_id = ob_id b,
       oa_truth = quantified_truth (ob_quantifier b) passed failed unresolved expected lower upper,
       oa_exercise = overall_exercise ps, oa_expected = expected, oa_executed = count_exercise Exercised ps,
       oa_admitted = passed + failed, oa_pass = passed, oa_fail = failed, oa_unresolved = unresolved,
       oa_not_exercised = count_exercise NotExercised ps, oa_unknown_exercise = count_exercise UnknownExercise ps,
       oa_lower = lower, oa_upper = upper,
       oa_pass_keys = map tq_trial_key (points_in PointPass ps),
       oa_fail_keys = map tq_trial_key (points_in PointFail ps),
       oa_unresolved_keys = map tq_trial_key (points_in PointUnresolved ps),
       oa_evidence_ids = digests (concat (map tq_evidence_ids ps)),
       oa_artifact_ids = digests (concat (map tq_artifact_ids ps)), oa_points = ps\<rparr>)"

definition evaluate_obligation ::
  "assessment_env \<Rightarrow> obligation \<Rightarrow> metric_context \<Rightarrow> (obligation_assessment \<times> metric_context) result" where
  "evaluate_obligation A b cx =
     rbind (next_of (filter (\<lambda>c. oc_obligation_id c = ob_id b) (ce_coverage (ae_compiled A)))) (\<lambda>cov.
     rbind (metric_by_id (ae_compiled A) (mp_metric_id (ob_predicate b))) (\<lambda>m.
     rbind (collect (assess_point A b m) (oc_trial_keys cov) cx) (\<lambda>(ps, cx).
     if ps = [] then Inl (invalid ''expected_count'') else Inr (assessment_of b ps, cx))))"

section \<open>Contrasts\<close>

definition unresolved_pair ::
  "string \<Rightarrow> string \<Rightarrow> string \<times> int \<Rightarrow> string \<Rightarrow> string list \<Rightarrow> string list \<Rightarrow> pair_assessment" where
  "unresolved_pair reference_key comparison_key at reason evidence artifacts =
     \<lparr>pa_reference = reference_key, pa_comparison = comparison_key, pa_block = fst at, pa_replicate = snd at,
      pa_truth = TruthNeither, pa_reference_value = None, pa_comparison_value = None, pa_reason = Some reason,
      pa_evidence_ids = evidence, pa_artifact_ids = artifacts\<rparr>"

definition unmatched_reason :: "trial_state \<Rightarrow> trial_state \<Rightarrow> (string \<times> string list \<times> string list) option" where
  "unmatched_reason r c =
     (let ra = the (ts_attestation r); ca = the (ts_attestation c);
          ids = [at_evidence_id ra, at_evidence_id ca];
          artifacts = digests (at_artifact_ids ra @ at_artifact_ids ca) in
      if tr_action_digest (rc_trace (ts_record r)) \<noteq> tr_action_digest (rc_trace (ts_record c))
      then Some (''matched trials differ in action digest'', ids, [])
      else if at_base_snapshot ra \<noteq> at_base_snapshot ca \<or> at_covariate ra \<noteq> at_covariate ca
      then Some (''matched trials differ in base snapshot or covariate'', ids, artifacts)
      else if at_intervention ra = at_intervention ca
      then Some (''attested intervention does not distinguish the matched cells'', ids, artifacts)
      else if cl_instance_id (rc_clone (ts_record r)) = cl_instance_id (rc_clone (ts_record c))
      then Some (''matched trials do not use distinct fresh clones'', [], [])
      else None)"

definition evaluate_contrast_pair ::
  "assessment_env \<Rightarrow> string \<Rightarrow> string \<Rightarrow> string \<times> int \<Rightarrow> metric_contract \<Rightarrow> relation_operator \<Rightarrow> metric_context
     \<Rightarrow> (pair_assessment \<times> metric_context) result" where
  "evaluate_contrast_pair A rk ck at m operator cx =
     (case (map_of (ae_by_key A) rk, map_of (ae_by_key A) ck) of
        (Some r, Some c) \<Rightarrow>
          (case unmatched_reason r c of
             Some (reason, evidence, artifacts) \<Rightarrow> Inr (unresolved_pair rk ck at reason evidence artifacts, cx)
           | None \<Rightarrow>
               (case (event_for (rc_trace (ts_record r)) (mc_stage m), event_for (rc_trace (ts_record c)) (mc_stage m)) of
                  (Executed re, Executed ce) \<Rightarrow>
                    rbind (metric_evidence_for (ae_compiled A) (ae_verifier A) r re m cx) (\<lambda>(rv, cx).
                    rbind (metric_evidence_for (ae_compiled A) (ae_verifier A) c ce m cx) (\<lambda>(cv, cx).
                    case (rv, cv) of
                      (Some rd, Some cd) \<Rightarrow>
                        rbind (relation_matches operator (me_value rd) (me_value cd)) (\<lambda>holds.
                        let ra = the (ts_attestation r); ca = the (ts_attestation c) in
                        Inr (\<lparr>pa_reference = rk, pa_comparison = ck, pa_block = fst at, pa_replicate = snd at,
                          pa_truth = if holds then TruthSupported else TruthRefuted,
                          pa_reference_value = Some (me_value rd), pa_comparison_value = Some (me_value cd),
                          pa_reason = None,
                          pa_evidence_ids = digests [at_evidence_id ra, at_evidence_id ca, me_evidence_id rd, me_evidence_id cd],
                          pa_artifact_ids = digests (at_artifact_ids ra @ at_artifact_ids ca
                            @ me_artifact_ids rd @ me_artifact_ids cd)\<rparr>, cx))
                    | _ \<Rightarrow> Inr (unresolved_pair rk ck at ''matched metric evidence is incomplete'' [] [], cx)))
                | _ \<Rightarrow> Inr (unresolved_pair rk ck at ''metric stage was skipped in a matched trial'' [] [], cx)))
      | (r, c) \<Rightarrow>
          Inr (unresolved_pair rk ck at (join_text ''; ''
            ((if r = None then [''reference: '' @ invalid_reason (ae_states A) rk] else [])
             @ (if c = None then [''comparison: '' @ invalid_reason (ae_states A) ck] else []))) [] [], cx))"

definition planned_by_coordinate :: "compiled_experiment \<Rightarrow> string \<times> string \<times> int \<rightharpoonup> string" where
  "planned_by_coordinate x = dict_of (map (\<lambda>t. ((pt_cell_key t, pt_block t, pt_replicate t), pt_key t)) (ce_planned_trials x))"

definition contrast_coordinates :: "compiled_experiment \<Rightarrow> contrast_definition \<Rightarrow> (contrast_pair \<times> string \<times> int) list" where
  "contrast_coordinates x d =
     concat (map (\<lambda>p. concat (map (\<lambda>b. map (\<lambda>r. (p, b, int r)) [1..<nat (tp_replicates (xc_plan (ce_contract x))) + 1])
       (sort (tp_blocks (xc_plan (ce_contract x)))))) (cd_pairs d))"

definition contrast_assessment_of :: "contrast_definition \<Rightarrow> pair_assessment list \<Rightarrow> contrast_assessment" where
  "contrast_assessment_of d ps =
     (let supported = length (filter (\<lambda>p. pa_truth p = TruthSupported) ps);
          refuted = length (filter (\<lambda>p. pa_truth p = TruthRefuted) ps);
          unresolved = length ps - supported - refuted in
      \<lparr>ka_id = cd_id d, ka_metric_id = cd_metric_id d,
       ka_truth = if refuted \<noteq> 0 then TruthRefuted else if unresolved \<noteq> 0 then TruthNeither else TruthSupported,
       ka_expected = length ps, ka_supported = supported, ka_refuted = refuted, ka_unresolved = unresolved,
       ka_pairs = ps, ka_evidence_ids = digests (concat (map pa_evidence_ids ps)),
       ka_artifact_ids = digests (concat (map pa_artifact_ids ps))\<rparr>)"

definition evaluate_contrast ::
  "assessment_env \<Rightarrow> contrast_definition \<Rightarrow> metric_context \<Rightarrow> (contrast_assessment \<times> metric_context) result" where
  "evaluate_contrast A d cx =
     rbind (metric_by_id (ae_compiled A) (cd_metric_id d)) (\<lambda>m.
     rbind (collect (\<lambda>(p, b, r) cx.
         rbind (dict_at (planned_by_coordinate (ae_compiled A)) (cp_reference p, b, r)) (\<lambda>rk.
         rbind (dict_at (planned_by_coordinate (ae_compiled A)) (cp_comparison p, b, r)) (\<lambda>ck.
         evaluate_contrast_pair A rk ck (b, r) m (cd_relation d) cx)))
       (contrast_coordinates (ae_compiled A) d) cx) (\<lambda>(ps, cx).
     if ps = [] then Inl (invalid ''expected_pair_count'') else Inr (contrast_assessment_of d ps, cx)))"

section \<open>The residual summary\<close>

definition exercised :: "obligation_assessment \<Rightarrow> bool" where
  "exercised a \<longleftrightarrow> oa_exercise a \<in> {Exercised, PartiallyExercised}"

definition contrast_supported :: "contrast_assessment list \<Rightarrow> contrast_id \<Rightarrow> bool result" where
  "contrast_supported ks i =
     rbind (dict_at (dict_of (map (\<lambda>k. (ka_id k, k)) ks)) i) (\<lambda>k. Inr (ka_truth k = TruthSupported))"

fun all_supported :: "contrast_assessment list \<Rightarrow> contrast_id list \<Rightarrow> bool result" where
  "all_supported ks [] = Inr True"
| "all_supported ks (i # is) = rbind (contrast_supported ks i) (\<lambda>b. if b then all_supported ks is else Inr False)"

definition classify ::
  "obligation_assessment \<Rightarrow> obligation_assessment \<Rightarrow> obligation_assessment \<Rightarrow> obligation_assessment
     \<Rightarrow> contrast_assessment list \<Rightarrow> bool \<Rightarrow> residual_classification result" where
  "classify target compensator path benign ks protocol_complete =
     (if oa_truth target = TruthRefuted \<and> oa_truth compensator = TruthSupported \<and> oa_truth path = TruthSupported
         \<and> exercised target \<and> exercised compensator \<and> exercised path
      then Inr MaskedTargetFailure
      else if oa_truth path = TruthRefuted \<and> exercised path then Inr ExposedPath
      else if oa_truth target = TruthSupported \<and> oa_truth path = TruthSupported \<and> oa_truth benign = TruthSupported
         \<and> protocol_complete
      then rbind (all_supported ks [TargetAttackEffect, TargetBenignInvariance, CompensatorBenignInvariance,
             ShamInvariance]) (\<lambda>ok.
           Inr (if ok \<and> exercised target \<and> exercised path \<and> exercised benign then TargetEffective
                else ResidualUnresolved))
      else Inr ResidualUnresolved)"

definition residual_summary_of ::
  "compiled_experiment \<Rightarrow> obligation_assessment list \<Rightarrow> contrast_assessment list \<Rightarrow> bool \<Rightarrow> residual_summary result" where
  "residual_summary_of x as ks protocol_complete =
     (let by_id = dict_of (map (\<lambda>a. (oa_obligation_id a, a)) as); p = xc_profile (ce_contract x) in
      rbind (dict_at by_id (pr_primary_target_id p)) (\<lambda>target.
      rbind (dict_at by_id (pr_primary_compensator_id p)) (\<lambda>compensator.
      rbind (dict_at by_id (pr_primary_path_id p)) (\<lambda>path.
      rbind (dict_at by_id (pr_primary_benign_id p)) (\<lambda>benign.
      rbind (classify target compensator path benign ks protocol_complete) (\<lambda>c.
      Inr \<lparr>rs_classification = c, rs_target_id = oa_obligation_id target,
        rs_compensator_id = oa_obligation_id compensator, rs_path_id = oa_obligation_id path,
        rs_benign_id = oa_obligation_id benign, rs_target_truth = oa_truth target,
        rs_compensator_truth = oa_truth compensator, rs_path_truth = oa_truth path,
        rs_benign_truth = oa_truth benign, rs_target_exercise = oa_exercise target,
        rs_compensator_exercise = oa_exercise compensator, rs_path_exercise = oa_exercise path,
        rs_benign_exercise = oa_exercise benign\<rparr>))))))"

section \<open>Evaluation\<close>

definition unique_states :: "compiled_experiment \<Rightarrow> trial_state list \<Rightarrow> (string \<times> trial_state) list" where
  "unique_states x states =
     map (\<lambda>(k, js). (k, states ! hd js))
       (filter (\<lambda>(k, js). expected_by_key x k \<noteq> None \<and> length js = 1 \<and> ts_attestation (states ! hd js) \<noteq> None)
         (occurrences states))"

definition inspect_records ::
  "compiled_experiment \<Rightarrow> (trial_record \<Rightarrow> attestation_result answer) \<Rightarrow> trial_record list \<Rightarrow> eval_world result" where
  "inspect_records x v records =
     (let w = \<lparr>wd_states = map new_state records, wd_design = [], wd_evidence = [], wd_safety = []\<rparr>;
          js = [0..<length records] in
      rbind (check_presence x w) (\<lambda>w.
      rbind (each (check_identity x) js w) (\<lambda>w.
      rbind (mark_all_reuse w) (\<lambda>w.
      rbind (each (attest x v) js w) (\<lambda>w.
      rbind (mark_evidence_reuse w) mark_runner_overlaps)))))"

definition admissible :: "compiled_experiment \<Rightarrow> trial_state list \<Rightarrow> (string \<times> trial_state) list" where
  "admissible x states = filter (\<lambda>(k, s). ts_valid s) (unique_states x states)"

definition completeness_of ::
  "compiled_experiment \<Rightarrow> trial_state list \<Rightarrow> bool \<Rightarrow> nat list \<Rightarrow> evaluation_issue list \<Rightarrow> design_completeness" where
  "completeness_of x states evidence_complete cleaned safety =
     (let missing = missing_keys x states; extra = extra_keys x states; duplicate = duplicate_keys states;
          presence_complete = (missing = [] \<and> extra = [] \<and> duplicate = [] \<and> \<not> identity_wrong x states);
          cleanup_complete = (presence_complete
            \<and> list_all (\<lambda>(k, js). expected_by_key x k \<noteq> None \<and> length js = 1 \<longrightarrow> hd js \<in> set cleaned) (occurrences states)
            \<and> length cleaned = length (expected_keys x)) in
      \<lparr>dc_expected = length (expected_keys x), dc_received = length states, dc_missing = missing,
       dc_extra = extra, dc_duplicate = duplicate, dc_missing_cells = missing_cell_keys x states,
       dc_admissible = length (admissible x states), dc_presence = presence_complete,
       dc_evidence = evidence_complete, dc_cleanup = cleanup_complete, dc_safety = (safety = []),
       dc_protocol = (presence_complete \<and> length (admissible x states) = length (expected_keys x) \<and> evidence_complete
         \<and> cleanup_complete \<and> safety = [])\<rparr>)"

definition evaluate ::
  "'e model_env_scheme \<Rightarrow> compiled_experiment \<Rightarrow> trial_record list \<Rightarrow> (trial_record \<Rightarrow> attestation_result answer)
     \<Rightarrow> (evidence_binding \<Rightarrow> metric_result answer) \<Rightarrow> (cleanup_binding \<Rightarrow> cleanup_result answer)
     \<Rightarrow> evaluation_report result" where
  "evaluate E compiled records attestation_verifier evidence_verifier cleanup_verifier =
     rbind (recompile E compiled) (\<lambda>x.
     rbind (rmap revalidate_record records) (\<lambda>records.
     rbind (inspect_records x attestation_verifier records) (\<lambda>w.
     rbind (admit_cleanups x cleanup_verifier w) (\<lambda>(cleaned, w).
     let states = wd_states w; by_key = admissible x states in
     rbind (required_metric_coordinates x) (\<lambda>required.
     rbind (prime_metric_evidence x evidence_verifier (unique_states x states) required
       \<lparr>cx_issues = wd_evidence w, cx_cache = [], cx_reasons = []\<rparr>) (\<lambda>cx.
     rbind (reject_metric_replays cx) (\<lambda>cx.
     let completeness = completeness_of x states (metric_evidence_complete by_key cx required) cleaned (wd_safety w);
         A = \<lparr>ae_compiled = x, ae_verifier = evidence_verifier, ae_by_key = by_key, ae_states = states\<rparr> in
     rbind (collect (evaluate_obligation A) (xc_obligations (ce_contract x)) cx) (\<lambda>(assessments, cx).
     rbind (collect (evaluate_contrast A) (ce_contrasts x) cx) (\<lambda>(contrasts, cx).
     rbind (residual_summary_of x assessments contrasts (dc_protocol completeness)) (\<lambda>residual.
     Inr \<lparr>er_compiled = x, er_completeness = completeness, er_design_issues = wd_design w,
       er_evidence_issues = cx_issues cx, er_safety_issues = wd_safety w, er_obligations = assessments,
       er_contrasts = contrasts, er_residual = residual\<rparr>))))))))))"

end
