(* ===== verification/Baseline.thy ===== *)
theory Baseline
  imports Evaluation
begin

text \<open>
  The outcome-only baseline, from \<^verbatim>\<open>src/src/assurance_lab/baseline.py\<close>: it judges the
  current attack cell by the final delivered count alone and is placed beside the verdict of the
  evaluator. Observations are validated when they are built and again when they become part of a
  result; the model repeats the second validation.
\<close>

section \<open>Values\<close>

datatype baseline_verdict = BaselinePass | BaselineFail

record metric_observation =
  mo_trial_key :: string
  mo_stage :: stage
  mo_metric_id :: string
  mo_value :: typed_value

definition validate_observation :: "metric_observation \<Rightarrow> unit result" where
  "validate_observation ob = raise_first
     [(\<not> digest_format (mo_trial_key ob), invalid ''trial_key''),
      (mo_metric_id ob = [], invalid ''metric_id''),
      (validate_typed (mo_value ob) \<noteq> Inr (), invalid ''value'')]"

record final_outcome_only_result =
  fo_verdict :: baseline_verdict
  fo_outcome_metric_id :: string
  fo_safe_value :: int
  fo_evaluated :: "metric_observation list"
  fo_ignored_count :: int

definition validate_final_outcome :: "final_outcome_only_result \<Rightarrow> unit result" where
  "validate_final_outcome r =
     rbind (raise_first
       [(fo_outcome_metric_id r = [], invalid ''outcome_metric_id''),
        (validate_typed (IntegerValue (fo_safe_value r)) \<noteq> Inr (), invalid ''safe_value''),
        (fo_evaluated r = [], invalid ''evaluated_observations'')]) (\<lambda>_.
     rbind (rmap validate_observation (fo_evaluated r)) (\<lambda>_.
     if fo_ignored_count r < 0 then Inl (invalid ''ignored_observation_count'') else Inr ()))"

record v3_result_summary =
  v3_target_truth :: truth_value
  v3_residual_classification :: residual_classification

record baseline_comparison =
  bc_spec_digest :: string
  bc_raw_observations :: "metric_observation list"
  bc_baseline :: final_outcome_only_result
  bc_v3 :: v3_result_summary

definition validate_comparison :: "baseline_comparison \<Rightarrow> unit result" where
  "validate_comparison k =
     rbind (raise_first
       [(\<not> digest_format (bc_spec_digest k), invalid ''spec_digest''),
        (bc_raw_observations k = [], invalid ''raw_observations'')]) (\<lambda>_.
     rbind (rmap validate_observation (bc_raw_observations k)) (\<lambda>_.
     validate_final_outcome (bc_baseline k)))"

section \<open>The baseline\<close>

fun integer_of :: "typed_value \<Rightarrow> int option" where
  "integer_of (IntegerValue n) = Some n"
| "integer_of _ = None"

text \<open>The trials of the one cell whose selector is the current one.\<close>

definition current_trial_keys :: "compiled_experiment \<Rightarrow> string list result" where
  "current_trial_keys x =
     (case filter (\<lambda>c. selector_eq (gc_selector c) (ce_current_selector x)) (ce_cells x) of
        [cell] \<Rightarrow> Inr (map pt_key (filter (\<lambda>t. pt_cell_key t = gc_key cell) (ce_planned_trials x)))
      | _ \<Rightarrow> Inl (ValueError ''compiled experiment must contain exactly one current cell''))"

definition is_relevant :: "string list \<Rightarrow> string \<Rightarrow> metric_observation \<Rightarrow> bool" where
  "is_relevant keys metric_id ob \<longleftrightarrow>
     mo_trial_key ob \<in> set keys \<and> mo_stage ob = StageOutcome \<and> mo_metric_id ob = metric_id"

text \<open>The loop over the observations, with the dictionary by trial key it fills.\<close>

fun collect_relevant ::
  "string list \<Rightarrow> string \<Rightarrow> metric_observation list \<Rightarrow> (string \<rightharpoonup> metric_observation) \<Rightarrow> (string \<rightharpoonup> metric_observation) result" where
  "collect_relevant keys metric_id [] relevant = Inr relevant"
| "collect_relevant keys metric_id (ob # obs) relevant =
     (if \<not> is_relevant keys metric_id ob then collect_relevant keys metric_id obs relevant
      else if relevant (mo_trial_key ob) \<noteq> None
      then Inl (ValueError ''duplicate current-cell final outcome observation'')
      else if integer_of (mo_value ob) = None
      then Inl (ValueError ''final delivered metric observation must be an integer'')
      else collect_relevant keys metric_id obs (relevant(mo_trial_key ob \<mapsto> ob)))"

definition evaluate_final_outcome_only ::
  "compiled_experiment \<Rightarrow> metric_observation list \<Rightarrow> final_outcome_only_result result" where
  "evaluate_final_outcome_only x observations =
     (let p = xc_profile (ce_contract x) in
      if \<not> opt_eq (cs_input (ce_current_selector x)) (Some (ia_attack (pr_input p)))
      then Inl (ValueError ''compiled current selector is not the attack input'')
      else case integer_of (pr_outcome_safe p) of
        None \<Rightarrow> Inl (ValueError ''final_outcome_only requires an integer outcome safe value'')
      | Some safe \<Rightarrow>
          if safe \<noteq> 0 then Inl (ValueError ''final_outcome_only requires safe delivered count 0'')
          else rbind (current_trial_keys x) (\<lambda>expected.
            rbind (collect_relevant expected (pr_outcome_metric_id p) observations Map.empty) (\<lambda>relevant.
            if list_ex (\<lambda>k. relevant k = None) expected
            then Inl (ValueError ''missing current-cell final outcome observation'')
            else let evaluated = map (\<lambda>k. the (relevant k)) expected;
                     r = \<lparr>fo_verdict = if list_all (\<lambda>ob. integer_of (mo_value ob) = Some safe) evaluated
                            then BaselinePass else BaselineFail,
                          fo_outcome_metric_id = pr_outcome_metric_id p, fo_safe_value = safe,
                          fo_evaluated = evaluated,
                          fo_ignored_count = int (length observations) - int (length evaluated)\<rparr> in
              rbind (validate_final_outcome r) (\<lambda>_. Inr r))))"

section \<open>The comparison\<close>

definition compare_final_outcome_only_with_v3 ::
  "compiled_experiment \<Rightarrow> metric_observation list \<Rightarrow> evaluation_report \<Rightarrow> baseline_comparison result" where
  "compare_final_outcome_only_with_v3 x observations v3_report =
     (if ce_spec_digest (er_compiled v3_report) \<noteq> ce_spec_digest x
      then Inl (ValueError ''v3 report does not belong to the compiled experiment'')
      else case filter (\<lambda>a. oa_obligation_id a = pr_primary_target_id (xc_profile (ce_contract x))) (er_obligations v3_report) of
        [] \<Rightarrow> Inl (ValueError ''v3 report is missing the primary target assessment'')
      | target # _ \<Rightarrow>
          rbind (evaluate_final_outcome_only x observations) (\<lambda>b.
          let k = \<lparr>bc_spec_digest = ce_spec_digest x, bc_raw_observations = observations, bc_baseline = b,
                   bc_v3 = \<lparr>v3_target_truth = oa_truth target,
                     v3_residual_classification = rs_classification (er_residual v3_report)\<rparr>\<rparr> in
          rbind (validate_comparison k) (\<lambda>_. Inr k)))"

end
