(* ===== verification/Evaluation_Steps.thy ===== *)
theory Evaluation_Steps
  imports Evaluation
begin

text \<open>
  The inspection of trial records as a sequence of steps. A step never changes a record, never makes
  an invalid trial valid again and only appends safety issues; only admission of an attestation
  changes the attestation of a trial. Loops inherit such orders from their bodies.
\<close>

section \<open>Loops and preorders\<close>

locale step_order =
  fixes le :: "'s \<Rightarrow> 's \<Rightarrow> bool"
  assumes le_refl: "le w w"
    and le_trans: "le u v \<Longrightarrow> le v w \<Longrightarrow> le u w"
begin

lemma each_le:
  assumes "\<And>x u v. x \<in> set xs \<Longrightarrow> f x u = Inr v \<Longrightarrow> le u v" "each f xs w = Inr w'"
  shows "le w w'"
  using assms
proof (induction xs arbitrary: w)
  case Nil
  then show ?case by (simp add: le_refl)
next
  case (Cons x xs)
  then obtain v where v: "f x w = Inr v" "each f xs v = Inr w'" by (auto simp: rbind_eq_Inr)
  have "le v w'" using Cons.IH [of v] Cons.prems(1) v(2) by (meson list.set_intros(2))
  moreover have "le w v" using Cons.prems(1) v(1) by (meson list.set_intros(1))
  ultimately show ?case by (meson le_trans)
qed

lemma each_at:
  assumes "\<And>x u v. x \<in> set xs \<Longrightarrow> f x u = Inr v \<Longrightarrow> le u v" "each f xs w = Inr w'" "x \<in> set xs"
  shows "\<exists>u v. le w u \<and> f x u = Inr v \<and> le v w'"
  using assms
proof (induction xs arbitrary: w)
  case (Cons y ys)
  then obtain v where v: "f y w = Inr v" "each f ys v = Inr w'" by (auto simp: rbind_eq_Inr)
  have step: "le w v" using Cons.prems(1) v(1) by (meson list.set_intros(1))
  show ?case
  proof (cases "x = y")
    case True
    have "le v w'" by (rule each_le [OF _ v(2)]) (use Cons.prems(1) in auto)
    then show ?thesis using True v(1) le_refl by blast
  next
    case False
    then have "\<exists>u z. le v u \<and> f x u = Inr z \<and> le z w'"
      using Cons.IH [of v] Cons.prems v(2) by (metis list.set_intros(2) set_ConsD)
    then show ?thesis using step le_trans by blast
  qed
qed simp

lemma collect_le:
  assumes "\<And>x u y v. x \<in> set xs \<Longrightarrow> f x u = Inr (y, v) \<Longrightarrow> le u v" "collect f xs w = Inr (ys, w')"
  shows "le w w'"
  using assms
proof (induction xs arbitrary: w ys)
  case Nil
  then show ?case by (simp add: le_refl)
next
  case (Cons x xs)
  then obtain y v zs where v: "f x w = Inr (y, v)" "collect f xs v = Inr (zs, w')"
    by (auto simp: rbind_eq_Inr split: prod.splits)
  have "le v w'" using Cons.IH [of v zs] Cons.prems(1) v(2) by (meson list.set_intros(2))
  moreover have "le w v" using Cons.prems(1) v(1) by (meson list.set_intros(1))
  ultimately show ?case by (meson le_trans)
qed

lemma collect_at:
  assumes "\<And>x u y v. x \<in> set xs \<Longrightarrow> f x u = Inr (y, v) \<Longrightarrow> le u v" "collect f xs w = Inr (ys, w')" "y \<in> set ys"
  shows "\<exists>x u v. x \<in> set xs \<and> le w u \<and> f x u = Inr (y, v) \<and> le v w'"
  using assms
proof (induction xs arbitrary: w ys)
  case (Cons x xs)
  then obtain z v zs where v: "f x w = Inr (z, v)" "collect f xs v = Inr (zs, w')" "ys = z # zs"
    by (auto simp: rbind_eq_Inr split: prod.splits)
  have step: "le w v" using Cons.prems(1) v(1) by (meson list.set_intros(1))
  have rest: "\<And>a u b c. a \<in> set xs \<Longrightarrow> f a u = Inr (b, c) \<Longrightarrow> le u c" using Cons.prems(1) by auto
  show ?case
  proof (cases "y \<in> set zs")
    case True
    have "\<exists>x u b. x \<in> set xs \<and> le v u \<and> f x u = Inr (y, b) \<and> le b w'"
      by (rule Cons.IH [OF _ v(2) True]) (rule rest)
    then obtain a u b where "a \<in> set xs" "le v u" "f a u = Inr (y, b)" "le b w'" by blast
    then show ?thesis using step le_trans by (meson list.set_intros(2))
  next
    case False
    then have "y = z" using Cons.prems(3) v(3) by simp
    moreover have "le v w'" by (rule collect_le [OF rest v(2)])
    ultimately show ?thesis using v(1) le_refl by (meson list.set_intros(1))
  qed
qed simp

end

lemma collect_length: "collect f xs w = Inr (ys, w') \<Longrightarrow> length ys = length xs"
  by (induction xs arbitrary: w ys) (auto simp: rbind_eq_Inr split: prod.splits)

section \<open>Issues\<close>

lemma invalidate_at_nth:
  "j < length ss \<Longrightarrow> invalidate_at code js ss ! j = (if j \<in> set js then invalidated code (ss ! j) else ss ! j)"
  by (simp add: invalidate_at_def nth_enumerate_eq)

lemma invalidate_at_fields:
  "length (invalidate_at code js ss) = length ss" "map ts_record (invalidate_at code js ss) = map ts_record ss"
  "map ts_attestation (invalidate_at code js ss) = map ts_attestation ss"
  by (auto simp: invalidate_at_def invalidated_def list_eq_iff_nth_eq nth_enumerate_eq)

definition evolves :: "eval_world \<Rightarrow> eval_world \<Rightarrow> bool" where
  "evolves w w' \<longleftrightarrow> map ts_record (wd_states w') = map ts_record (wd_states w)
     \<and> (\<forall>j < length (wd_states w). ts_valid (wd_states w' ! j) \<longrightarrow> ts_valid (wd_states w ! j))
     \<and> (\<exists>is. wd_safety w' = wd_safety w @ is)"

definition marks :: "eval_world \<Rightarrow> eval_world \<Rightarrow> bool" where
  "marks w w' \<longleftrightarrow> evolves w w' \<and> map ts_attestation (wd_states w') = map ts_attestation (wd_states w)"

lemma evolves_length: "evolves w w' \<Longrightarrow> length (wd_states w') = length (wd_states w)"
  by (metis evolves_def length_map)

interpretation ev: step_order evolves
proof
  show "evolves w w" for w by (simp add: evolves_def)
  fix u v w assume uv: "evolves u v" and vw: "evolves v w"
  then show "evolves u w" using evolves_length [OF uv] by (auto simp: evolves_def)
qed

interpretation mk: step_order marks
  by unfold_locales (auto simp: marks_def intro: ev.le_refl ev.le_trans)

lemma evolves_record:
  assumes "evolves w w'" "j < length (wd_states w)"
  shows "ts_record (wd_states w' ! j) = ts_record (wd_states w ! j)"
  using assms evolves_length [OF assms(1)] by (metis evolves_def nth_map)

lemma evolves_valid:
  "evolves w w' \<Longrightarrow> j < length (wd_states w) \<Longrightarrow> ts_valid (wd_states w' ! j) \<Longrightarrow> ts_valid (wd_states w ! j)"
  by (simp add: evolves_def)

lemma marks_attestation:
  assumes "marks w w'" "j < length (wd_states w)"
  shows "ts_attestation (wd_states w' ! j) = ts_attestation (wd_states w ! j)"
proof -
  have "map ts_attestation (wd_states w') ! j = map ts_attestation (wd_states w) ! j" "j < length (wd_states w')"
    using assms evolves_length [of w w'] by (simp_all add: marks_def)
  then show ?thesis using assms(2) by simp
qed

lemma put_issue_fields:
  "wd_states (put_issue dest i w) = wd_states w" "\<exists>is. wd_safety (put_issue dest i w) = wd_safety w @ is"
  by (cases dest; simp)+

lemma report_marks: "report dest i w = Inr w' \<Longrightarrow> marks w w' \<and> wd_states w' = wd_states w"
  using put_issue_fields [of dest i w] by (auto simp: report_def rbind_eq_Inr marks_def evolves_def)

lemma issue_marks:
  assumes "issue dest i js invalidate w = Inr w'"
  shows "marks w w'"
    and "invalidate \<Longrightarrow> j \<in> set js \<Longrightarrow> j < length (wd_states w) \<Longrightarrow> \<not> ts_valid (wd_states w' ! j)"
proof -
  obtain v where v: "report dest (i\<lparr>is_trial_keys := digests (map (\<lambda>j. ts_key (wd_states w ! j)) js)\<rparr>) w = Inr v"
    "w' = (if invalidate then v\<lparr>wd_states := invalidate_at (is_code i) js (wd_states v)\<rparr> else v)"
    using assms by (auto simp: issue_def rbind_eq_Inr)
  note r = report_marks [OF v(1)]
  have "marks v w'"
    using v(2) by (auto simp: marks_def evolves_def invalidate_at_fields invalidate_at_nth invalidated_def)
  then show "marks w w'" using r mk.le_trans by blast
  show "\<not> ts_valid (wd_states w' ! j)" if "invalidate" "j \<in> set js" "j < length (wd_states w)"
    using that v(2) r by (simp add: invalidate_at_nth invalidated_def)
qed

lemma run_checks_marks:
  assumes "run_checks invalidate j rows w = Inr w'"
  shows "marks w w'"
    and "invalidate \<Longrightarrow> j < length (wd_states w) \<Longrightarrow> ts_valid (wd_states w' ! j) \<Longrightarrow> \<forall>row \<in> set rows. \<not> fst row"
proof -
  let ?f = "\<lambda>(bad, dest, i) w. if bad then issue dest i [j] invalidate w else Inr w"
  have step: "marks u v" if "?f row u = Inr v" for row u v
    using that issue_marks(1) by (auto split: prod.splits if_splits intro: mk.le_refl)
  show "marks w w'" by (rule mk.each_le [OF _ assms [unfolded run_checks_def]]) (rule step)
  assume j: invalidate "j < length (wd_states w)" "ts_valid (wd_states w' ! j)"
  show "\<forall>row \<in> set rows. \<not> fst row"
  proof (rule ballI, rule notI)
    fix row assume row: "row \<in> set rows" "fst row"
    have "\<exists>u v. marks w u \<and> ?f row u = Inr v \<and> marks v w'"
      by (rule mk.each_at [OF _ assms [unfolded run_checks_def] row(1)]) (rule step)
    then obtain u v where uv: "marks w u" "?f row u = Inr v" "marks v w'" by blast
    then have l: "j < length (wd_states u)" "j < length (wd_states v)"
      using j(2) step [OF uv(2)] evolves_length by (metis marks_def)+
    obtain dest i where "row = (True, dest, i)" using row(2) by (cases row) auto
    then have "\<not> ts_valid (wd_states v ! j)" using uv(2) issue_marks(2) [of dest i "[j]" invalidate u v j] j(1) l by simp
    then show False using uv(3) l(2) j(3) by (auto simp: marks_def dest: evolves_valid)
  qed
qed

end
