(* ===== verification/Evaluation_Inspect.thy ===== *)
theory Evaluation_Inspect
  imports Evaluation_Steps
begin

text \<open>
  What a trial that stays valid through the inspection has passed: it agrees with the plan, its
  attestation was admitted and passed every check, and it shares no clone, bundle, trace, event or
  busy runner with another trial.
\<close>

section \<open>Groups\<close>

lemma set_first_occurrences: "set (first_occurrences xs) = set xs"
  by (induction xs) auto

lemma distinct_first_occurrences: "distinct (first_occurrences xs)"
  by (induction xs) auto

lemma group_by_iff: "(k, ys) \<in> set (group_by f xs) \<longleftrightarrow> k \<in> f ` set xs \<and> ys = filter (\<lambda>x. f x = k) xs"
  by (auto simp: group_by_def set_first_occurrences)

lemma group_of: "x \<in> set xs \<Longrightarrow> (f x, filter (\<lambda>y. f y = f x) xs) \<in> set (group_by f xs)"
  by (simp add: group_by_iff)

lemma group_shared:
  assumes "i \<in> set xs" "j \<in> set xs" "i \<noteq> j" "f i = f j"
  shows "\<exists>k ys. (k, ys) \<in> set (group_by f xs) \<and> i \<in> set ys \<and> j \<in> set ys \<and> length ys > 1"
proof -
  let ?ys = "filter (\<lambda>y. f y = f j) xs"
  have "(f j, ?ys) \<in> set (group_by f xs)" using assms(2) by (rule group_of)
  moreover have m: "i \<in> set ?ys" "j \<in> set ?ys" using assms by auto
  moreover have "length ?ys > 1"
  proof (rule ccontr)
    assume "\<not> length ?ys > 1"
    then show False using m assms(3) by (cases ?ys; cases "tl ?ys") auto
  qed
  ultimately show ?thesis by blast
qed

lemma marks_length: "marks w w' \<Longrightarrow> length (wd_states w') = length (wd_states w)"
  by (auto simp: marks_def dest: evolves_length)

lemma marks_valid:
  "marks w w' \<Longrightarrow> j < length (wd_states w) \<Longrightarrow> ts_valid (wd_states w' ! j) \<Longrightarrow> ts_valid (wd_states w ! j)"
  by (auto simp: marks_def dest: evolves_valid)

section \<open>The phases only mark trials\<close>

lemma dict_at_Inr: "dict_at d k = Inr v \<longleftrightarrow> d k = Some v"
  by (simp add: dict_at_def split: option.splits)

lemma next_of_Inr: "next_of xs = Inr y \<longleftrightarrow> (\<exists>ys. xs = y # ys)"
  by (cases xs) (auto simp: next_of_def)

lemma each_append: "each f (xs @ ys) w = rbind (each f xs w) (each f ys)"
  by (induction xs arbitrary: w) (auto simp: rbind_def split: sum.splits)

lemma check_presence_marks:
  assumes "check_presence x w = Inr w'"
  shows "marks w w'"
proof -
  obtain u v z where steps: "marks w u" "marks u v"
    "each (\<lambda>k. issue ToDesign (plain_issue ''unknown-trial-key'' ''record has no compiler-planned trial key'')
       (indices_of (wd_states w) k) True) (extra_keys x (wd_states w)) v = Inr z"
    "each (\<lambda>k. issue ToDesign (plain_issue ''duplicate-trial-key'' ''compiler-planned trial key occurs more than once'')
       (indices_of (wd_states w) k) True) (duplicate_keys (wd_states w)) z = Inr w'"
    using assms unfolding check_presence_def
    by (auto simp: Let_def rbind_eq_Inr split: if_splits dest: report_marks intro: mk.le_refl)
  have "marks v z" by (rule mk.each_le [OF _ steps(3)]) (rule issue_marks(1))
  moreover have "marks z w'" by (rule mk.each_le [OF _ steps(4)]) (rule issue_marks(1))
  ultimately show ?thesis using steps(1,2) mk.le_trans by blast
qed

lemma check_identity_marks:
  assumes "check_identity x j w = Inr w'"
  shows "marks w w'"
    and "j < length (wd_states w) \<Longrightarrow> ts_valid (wd_states w' ! j) \<Longrightarrow>
      expected_by_key x (ts_key (wd_states w ! j)) = Some t \<Longrightarrow>
      binding_mismatches x t (ts_record (wd_states w ! j)) = []
      \<and> (\<exists>s. cells_by_key x (pt_cell_key t) = Some s
          \<and> expected_action_digest x s = Inr (tr_action_digest (rc_trace (ts_record (wd_states w ! j)))))"
proof -
  have split: "w' = w \<and> expected_by_key x (ts_key (wd_states w ! j)) = None \<or>
    (\<exists>t v s d rows. expected_by_key x (ts_key (wd_states w ! j)) = Some t
      \<and> run_checks True j [(binding_mismatches x t (ts_record (wd_states w ! j)) \<noteq> [], rows)] w = Inr v
      \<and> cells_by_key x (pt_cell_key t) = Some s \<and> expected_action_digest x s = Inr d
      \<and> (\<exists>row. run_checks True j [(tr_action_digest (rc_trace (ts_record (wd_states w ! j))) \<noteq> d, row)] v = Inr w'))"
    using assms unfolding check_identity_def Let_def
    by (cases "expected_by_key x (ts_key (wd_states w ! j))")
      (simp_all add: rbind_eq_Inr dict_at_Inr, blast)
  then show "marks w w'" using run_checks_marks(1) mk.le_trans mk.le_refl by metis
  assume j: "j < length (wd_states w)" "ts_valid (wd_states w' ! j)" "expected_by_key x (ts_key (wd_states w ! j)) = Some t"
  obtain v s d rows row where *: "run_checks True j [(binding_mismatches x t (ts_record (wd_states w ! j)) \<noteq> [], rows)] w = Inr v"
    "cells_by_key x (pt_cell_key t) = Some s" "expected_action_digest x s = Inr d"
    "run_checks True j [(tr_action_digest (rc_trace (ts_record (wd_states w ! j))) \<noteq> d, row)] v = Inr w'"
    using split j(3) by auto
  note m = run_checks_marks(1) [OF *(1)] run_checks_marks(1) [OF *(4)]
  have l: "j < length (wd_states v)" using j(1) marks_length [OF m(1)] by simp
  have "ts_valid (wd_states v ! j)" by (rule marks_valid [OF m(2) l j(2)])
  then show "binding_mismatches x t (ts_record (wd_states w ! j)) = []
      \<and> (\<exists>s. cells_by_key x (pt_cell_key t) = Some s
          \<and> expected_action_digest x s = Inr (tr_action_digest (rc_trace (ts_record (wd_states w ! j)))))"
    using run_checks_marks(2) [OF *(1) TrueI j(1)] run_checks_marks(2) [OF *(4) TrueI l j(2)] *(2,3) by auto
qed

lemma mark_reuse_marks:
  assumes "mark_reuse key_for code detail w = Inr w'"
  shows "marks w w'"
    and "i < length (wd_states w) \<Longrightarrow> j < length (wd_states w) \<Longrightarrow> i \<noteq> j \<Longrightarrow>
      key_for (wd_states w ! i) = key_for (wd_states w ! j) \<Longrightarrow> \<not> ts_valid (wd_states w' ! j)"
proof -
  let ?f = "\<lambda>(k, js) w. if length js > 1 then issue ToSafety (plain_issue code detail) js True w else Inr w"
  let ?groups = "group_by (\<lambda>j. key_for (wd_states w ! j)) [0..<length (wd_states w)]"
  have step: "marks u v" if "?f g u = Inr v" for g u v
    using that issue_marks(1) by (auto split: prod.splits if_splits intro: mk.le_refl)
  note run = assms [unfolded mark_reuse_def]
  show "marks w w'" by (rule mk.each_le [OF _ run]) (rule step)
  assume ij: "i < length (wd_states w)" "j < length (wd_states w)" "i \<noteq> j"
    "key_for (wd_states w ! i) = key_for (wd_states w ! j)"
  then obtain k js where g: "(k, js) \<in> set ?groups" "j \<in> set js" "length js > 1"
    using group_shared [of i "[0..<length (wd_states w)]" j "\<lambda>j. key_for (wd_states w ! j)"] by auto
  have "\<exists>u v. marks w u \<and> ?f (k, js) u = Inr v \<and> marks v w'"
    by (rule mk.each_at [OF _ run g(1)]) (rule step)
  then obtain u v where uv: "marks w u" "issue ToSafety (plain_issue code detail) js True u = Inr v" "marks v w'"
    using g(3) by auto
  have l: "j < length (wd_states u)" "j < length (wd_states v)"
    using ij(2) marks_length [OF uv(1)] marks_length [OF issue_marks(1) [OF uv(2)]] by simp_all
  then have "\<not> ts_valid (wd_states v ! j)" using issue_marks(2) [OF uv(2) TrueI g(2)] by simp
  then show "\<not> ts_valid (wd_states w' ! j)" using marks_valid [OF uv(3) l(2)] by blast
qed

lemma mark_executed_event_reuse_marks:
  assumes "mark_executed_event_reuse key_for code detail w = Inr w'"
  shows "marks w w'"
  using assms unfolding mark_executed_event_reuse_def Let_def
  by (elim mk.each_le [rotated]) (auto split: prod.splits if_splits intro: mk.le_refl issue_marks(1))

lemma mark_all_reuse_marks: "mark_all_reuse w = Inr w' \<Longrightarrow> marks w w'"
  unfolding mark_all_reuse_def rbind_eq_Inr
  by (elim exE conjE)
    ((rule mk.le_trans, erule mark_reuse_marks(1) mark_executed_event_reuse_marks)+, rule mk.le_refl)

lemma mark_evidence_reuse_marks: "mark_evidence_reuse w = Inr w' \<Longrightarrow> marks w w'"
  unfolding mark_evidence_reuse_def Let_def
  by (elim mk.each_le [rotated]) (auto split: prod.splits if_splits intro: mk.le_refl issue_marks(1))

lemma mark_runner_overlaps_marks: "mark_runner_overlaps w = Inr w' \<Longrightarrow> marks w w'"
  unfolding mark_runner_overlaps_def Let_def
proof (elim mk.each_le [rotated])
  fix g :: "string \<times> nat list" and u v
  assume "(case g of (runner, js) \<Rightarrow> each (\<lambda>(l, r) z. if overlapping (the (ts_attestation (wd_states w ! l)))
      (the (ts_attestation (wd_states w ! r)))
    then issue ToSafety (plain_issue ''runner-resource-overlap'' (''trials overlap on runner resource '' @ runner)) [l, r] True z
    else Inr z) (pairs_of js)) u = Inr v"
  then show "marks u v"
    by (cases g, hypsubst, unfold prod.case, elim mk.each_le [rotated])
      (auto split: if_splits intro: mk.le_refl issue_marks(1))
qed

section \<open>Attestation of one trial\<close>

definition others_keep :: "nat \<Rightarrow> eval_world \<Rightarrow> eval_world \<Rightarrow> bool" where
  "others_keep j w w' \<longleftrightarrow> evolves w w' \<and>
     (j < length (wd_states w) \<longrightarrow> ts_attestation (wd_states w' ! j) = ts_attestation (wd_states w ! j))"

interpretation ok: step_order "others_keep j" for j
  by unfold_locales (auto simp: others_keep_def intro: ev.le_refl ev.le_trans dest: evolves_length)

lemma marks_keep: "marks w w' \<Longrightarrow> others_keep j w w'"
  using marks_attestation by (auto simp: others_keep_def marks_def)

lemma set_attestation_keeps:
  "evolves w (set_attestation i a w)" "i \<noteq> j \<Longrightarrow> others_keep j w (set_attestation i a w)"
  "i < length (wd_states w) \<Longrightarrow> ts_attestation (wd_states (set_attestation i a w) ! i) = Some a"
proof -
  have "map ts_record (wd_states (set_attestation i a w)) = map ts_record (wd_states w)"
    by (cases "i < length (wd_states w)")
      (auto simp: set_attestation_def list_eq_iff_nth_eq nth_list_update)
  moreover have "ts_valid (wd_states (set_attestation i a w) ! k) = ts_valid (wd_states w ! k)" if "k < length (wd_states w)" for k
    using that by (cases "i = k") (auto simp: set_attestation_def nth_list_update)
  ultimately show e: "evolves w (set_attestation i a w)" by (simp add: evolves_def set_attestation_def)
  show "others_keep j w (set_attestation i a w)" if "i \<noteq> j"
    using e that by (simp add: others_keep_def) (simp add: set_attestation_def)
  show "ts_attestation (wd_states (set_attestation i a w) ! i) = Some a" if "i < length (wd_states w)"
    using that by (simp add: set_attestation_def)
qed

text \<open>What a valid trial's attestation passed.\<close>

definition attested :: "compiled_experiment \<Rightarrow> (trial_record \<Rightarrow> attestation_result answer) \<Rightarrow> planned_trial \<Rightarrow> trial_record
    \<Rightarrow> attestation \<Rightarrow> bool" where
  "attested x v t r a \<longleftrightarrow> verify_attestation v r = Inr (AttestationAdmitted a)
     \<and> (\<exists>s. cells_by_key x (pt_cell_key t) = Some s \<and> (\<forall>row \<in> set (attestation_checks x t s r a). \<not> fst row))"

lemma attest_cases:
  assumes "attest x v i w = Inr w'"
  obtains (skip) "expected_by_key x (ts_key (wd_states w ! i)) = None" "w' = w"
  | (refused) t dest iss where "expected_by_key x (ts_key (wd_states w ! i)) = Some t" "issue dest iss [i] True w = Inr w'"
      "\<nexists>a. verify_attestation v (ts_record (wd_states w ! i)) = Inr (AttestationAdmitted a)"
  | (admitted) t a s where "expected_by_key x (ts_key (wd_states w ! i)) = Some t"
      "verify_attestation v (ts_record (wd_states w ! i)) = Inr (AttestationAdmitted a)"
      "cells_by_key x (pt_cell_key t) = Some s"
      "run_checks True i (attestation_checks x t s (ts_record (wd_states w ! i)) a) (set_attestation i a w) = Inr w'"
proof (cases "expected_by_key x (ts_key (wd_states w ! i))")
  case None
  have "w' = w" using assms None by (simp add: attest_def)
  then show thesis by (rule skip [OF None])
next
  case (Some t)
  show thesis
  proof (cases "verify_attestation v (ts_record (wd_states w ! i))")
    case (Inl m)
    show thesis
    proof (rule refused [OF Some])
      show "issue ToEvidence (text_issue ''invalid-trial-attestation-response'' m) [i] True w = Inr w'"
        using assms Some Inl by (simp add: attest_def)
    qed (use Inl in simp)
  next
    case (Inr q)
    show thesis
    proof (cases q)
      case (AttestationAdmitted a)
      then have "\<exists>s. cells_by_key x (pt_cell_key t) = Some s \<and>
          run_checks True i (attestation_checks x t s (ts_record (wd_states w ! i)) a) (set_attestation i a w) = Inr w'"
        using assms Some Inr by (simp add: attest_def rbind_eq_Inr dict_at_Inr)
      then show thesis using admitted [OF Some] Inr AttestationAdmitted by blast
    next
      case (AttestationFailed f)
      then have "\<exists>dest iss. issue dest iss [i] True w = Inr w'"
        using assms Some Inr by (auto simp: attest_def rbind_eq_Inr)
      then obtain dest iss where "issue dest iss [i] True w = Inr w'" by blast
      then show thesis by (rule refused [OF Some]) (use Inr AttestationFailed in simp)
    qed
  qed
qed

lemma attest_step:
  assumes "attest x v i w = Inr w'"
  shows "evolves w w'" "i \<noteq> j \<Longrightarrow> others_keep j w w'"
    and "i < length (wd_states w) \<Longrightarrow> ts_valid (wd_states w' ! i) \<Longrightarrow>
      expected_by_key x (ts_key (wd_states w ! i)) = Some t \<Longrightarrow>
      \<exists>a. ts_attestation (wd_states w' ! i) = Some a \<and> attested x v t (ts_record (wd_states w ! i)) a"
proof -
  have keep: "evolves w w' \<and> (i \<noteq> j \<longrightarrow> others_keep j w w')" for j
    using assms
  proof (cases rule: attest_cases)
    case (admitted t a s)
    note m = run_checks_marks(1) [OF admitted(4)]
    have "evolves (set_attestation i a w) w'" using m by (simp add: marks_def)
    then have "evolves w w'" by (rule ev.le_trans [OF set_attestation_keeps(1)])
    moreover have "others_keep j w w'" if "i \<noteq> j"
      by (rule ok.le_trans [OF set_attestation_keeps(2) [OF that] marks_keep [OF m]])
    ultimately show ?thesis by blast
  next
    case (refused t dest iss)
    note m = issue_marks(1) [OF refused(2)]
    show ?thesis using m marks_keep [OF m] by (simp add: marks_def)
  qed (auto intro: ev.le_refl ok.le_refl)
  show "evolves w w'" using keep by blast
  show "others_keep j w w'" if "i \<noteq> j" using keep that by blast
  assume i: "i < length (wd_states w)" "ts_valid (wd_states w' ! i)" "expected_by_key x (ts_key (wd_states w ! i)) = Some t"
  from assms show "\<exists>a. ts_attestation (wd_states w' ! i) = Some a \<and> attested x v t (ts_record (wd_states w ! i)) a"
  proof (cases rule: attest_cases)
    case (refused t' dest iss)
    then show ?thesis using issue_marks(2) [OF refused(2) TrueI _ i(1)] i(2) by simp
  next
    case (admitted t' a s)
    have l: "i < length (wd_states (set_attestation i a w))" using i(1) by (simp add: set_attestation_def)
    have "ts_attestation (wd_states w' ! i) = Some a"
      using marks_attestation [OF run_checks_marks(1) [OF admitted(4)] l] set_attestation_keeps(3) [OF i(1)] by simp
    moreover have "\<forall>row \<in> set (attestation_checks x t s (ts_record (wd_states w ! i)) a). \<not> fst row"
      using run_checks_marks(2) [OF admitted(4) TrueI l i(2)] admitted(1) i(3) by simp
    ultimately show ?thesis using admitted i(3) by (auto simp: attested_def)
  qed (use i in simp)
qed

section \<open>The whole inspection\<close>

definition fresh_apart :: "trial_record \<Rightarrow> trial_record \<Rightarrow> bool" where
  "fresh_apart r r' \<longleftrightarrow> cl_instance_id (rc_clone r) \<noteq> cl_instance_id (rc_clone r')
     \<and> cl_attestation_bundle (rc_clone r) \<noteq> cl_attestation_bundle (rc_clone r')
     \<and> tr_id (rc_trace r) \<noteq> tr_id (rc_trace r')"

lemma mark_all_reuse_fresh:
  assumes "mark_all_reuse w = Inr w'" "i < length (wd_states w)" "j < length (wd_states w)" "i \<noteq> j"
    "ts_valid (wd_states w' ! j)"
  shows "fresh_apart (ts_record (wd_states w ! i)) (ts_record (wd_states w ! j))"
proof -
  obtain a b c d where s: "mark_reuse (\<lambda>s. cl_instance_id (rc_clone (ts_record s))) ''clone-instance-reuse''
       ''fresh-clone instance id is reused'' w = Inr a"
    "mark_reuse (\<lambda>s. cl_attestation_bundle (rc_clone (ts_record s))) ''attestation-bundle-reuse''
       ''trial attestation bundle is reused'' a = Inr b"
    "mark_reuse (\<lambda>s. tr_id (rc_trace (ts_record s))) ''trace-id-reuse'' ''trace id is reused across fresh trials'' b = Inr c"
    "mark_executed_event_reuse xe_id ''event-id-reuse'' ''executed event id is reused across fresh trials'' c = Inr d"
    "mark_executed_event_reuse xe_bundle ''stage-evidence-bundle-reuse''
       ''executed stage evidence bundle is reused across fresh trials'' d = Inr w'"
    using assms(1) unfolding mark_all_reuse_def rbind_eq_Inr by blast
  note m = mark_reuse_marks(1) [OF s(1)] mark_reuse_marks(1) [OF s(2)] mark_reuse_marks(1) [OF s(3)]
    mk.le_trans [OF mark_executed_event_reuse_marks [OF s(4)] mark_executed_event_reuse_marks [OF s(5)]]
  note l = marks_length [OF m(1)] marks_length [OF m(2)] marks_length [OF m(3)]
  have "ts_valid (wd_states c ! j)" using marks_valid [OF m(4)] assms(3,5) l by simp
  then have "ts_valid (wd_states b ! j)" "ts_valid (wd_states c ! j)" "ts_valid (wd_states a ! j)"
    using marks_valid [OF m(3)] marks_valid [OF m(2)] assms(3) l by auto
  moreover have "ts_record (wd_states a ! k) = ts_record (wd_states w ! k)"
    "ts_record (wd_states b ! k) = ts_record (wd_states w ! k)" if "k < length (wd_states w)" for k
    using that evolves_record [of w a k] evolves_record [of a b k] m(1,2) l by (simp_all add: marks_def)
  ultimately show ?thesis
    using mark_reuse_marks(2) [OF s(1), of i j] mark_reuse_marks(2) [OF s(2), of i j] mark_reuse_marks(2) [OF s(3), of i j]
      assms(2-4) l unfolding fresh_apart_def by auto
qed

lemma attest_loop:
  assumes "each (attest x v) js w = Inr w'" "distinct js" "j \<in> set js" "j < length (wd_states w)"
    "ts_valid (wd_states w' ! j)" "expected_by_key x (ts_key (wd_states w ! j)) = Some t"
  shows "\<exists>a. ts_attestation (wd_states w' ! j) = Some a \<and> attested x v t (ts_record (wd_states w ! j)) a"
proof -
  obtain xs ys where js: "js = xs @ j # ys" "j \<notin> set ys" using assms(2,3) by (metis split_list distinct.simps(2) distinct_append)
  obtain u z where uz: "each (attest x v) xs w = Inr u" "attest x v j u = Inr z" "each (attest x v) ys z = Inr w'"
    using assms(1) unfolding js(1) each_append by (auto simp: rbind_eq_Inr)
  have wu: "evolves w u" by (rule ev.each_le [OF _ uz(1)]) (rule attest_step(1))
  have uz': "evolves u z" by (rule attest_step(1) [OF uz(2)])
  have zw: "others_keep j z w'" by (rule ok.each_le [OF _ uz(3)]) (use js(2) in \<open>auto intro: attest_step(2)\<close>)
  have l: "j < length (wd_states u)" "j < length (wd_states z)"
    using assms(4) evolves_length [OF wu] evolves_length [OF uz'] by simp_all
  have "ts_valid (wd_states z ! j)" "ts_attestation (wd_states w' ! j) = ts_attestation (wd_states z ! j)"
    using zw l(2) assms(5) by (auto simp: others_keep_def dest: evolves_valid)
  then show ?thesis
    using attest_step(3) [OF uz(2) l(1)] assms(6) evolves_record [OF wu assms(4)] by simp
qed

theorem inspected_trial:
  assumes "inspect_records x v rs = Inr w"
  shows "map ts_record (wd_states w) = rs"
    and "j < length rs \<Longrightarrow> ts_valid (wd_states w ! j) \<Longrightarrow> expected_by_key x (rc_trial_key (rs ! j)) = Some t \<Longrightarrow>
      binding_mismatches x t (rs ! j) = []
      \<and> (\<exists>s. cells_by_key x (pt_cell_key t) = Some s \<and> expected_action_digest x s = Inr (tr_action_digest (rc_trace (rs ! j))))
      \<and> (\<exists>a. ts_attestation (wd_states w ! j) = Some a \<and> attested x v t (rs ! j) a)
      \<and> (\<forall>i < length rs. i \<noteq> j \<longrightarrow> fresh_apart (rs ! i) (rs ! j))"
proof -
  let ?w = "\<lparr>wd_states = map new_state rs, wd_design = [], wd_evidence = [], wd_safety = []\<rparr>"
  obtain a b c d e where s: "check_presence x ?w = Inr a" "each (check_identity x) [0..<length rs] a = Inr b"
    "mark_all_reuse b = Inr c" "each (attest x v) [0..<length rs] c = Inr d" "mark_evidence_reuse d = Inr e"
    "mark_runner_overlaps e = Inr w"
    using assms unfolding inspect_records_def Let_def rbind_eq_Inr by blast
  have ab: "marks a b" by (rule mk.each_le [OF _ s(2)]) (rule check_identity_marks(1))
  have cd: "evolves c d" by (rule ev.each_le [OF _ s(4)]) (rule attest_step(1))
  have de: "marks d w" by (rule mk.le_trans [OF mark_evidence_reuse_marks [OF s(5)] mark_runner_overlaps_marks [OF s(6)]])
  note pa = check_presence_marks [OF s(1)] and bc = mark_all_reuse_marks [OF s(3)]
  have wa: "evolves ?w a" and "evolves a b" and "evolves b c" and "evolves d w" using pa ab bc de by (simp_all add: marks_def)
  note e = wa ev.le_trans [OF wa \<open>evolves a b\<close>] ev.le_trans [OF ev.le_trans [OF wa \<open>evolves a b\<close>] \<open>evolves b c\<close>]
  have all: "evolves ?w w" by (rule ev.le_trans [OF e(3) ev.le_trans [OF cd \<open>evolves d w\<close>]])
  then show "map ts_record (wd_states w) = rs" by (simp add: evolves_def comp_def new_state_def)
  assume j: "j < length rs" "ts_valid (wd_states w ! j)" "expected_by_key x (rc_trial_key (rs ! j)) = Some t"
  have len: "length (wd_states a) = length rs" "length (wd_states b) = length rs" "length (wd_states c) = length rs"
    "length (wd_states d) = length rs"
    using evolves_length [OF e(1)] evolves_length [OF e(2)] evolves_length [OF e(3)] evolves_length [OF cd] by simp_all
  have rec: "ts_record (wd_states a ! k) = rs ! k" "ts_record (wd_states b ! k) = rs ! k" "ts_record (wd_states c ! k) = rs ! k"
    if "k < length rs" for k
    using that evolves_record [OF e(1), of k] evolves_record [OF e(2), of k] evolves_record [OF e(3), of k]
    by (simp_all add: new_state_def)
  have vd: "ts_valid (wd_states d ! j)" using marks_valid [OF de] j len by simp
  then have vc: "ts_valid (wd_states c ! j)" using evolves_valid [OF cd] j len by simp
  have vb: "ts_valid (wd_states b ! j)" using marks_valid [OF bc] vc j len by simp
  have "\<exists>u z. marks a u \<and> check_identity x j u = Inr z \<and> marks z b"
    by (rule mk.each_at [OF _ s(2)]) (use j(1) in \<open>auto intro: check_identity_marks(1)\<close>)
  then obtain u z where uz: "marks a u" "check_identity x j u = Inr z" "marks z b" by blast
  have l: "length (wd_states u) = length rs" "length (wd_states z) = length rs"
    using marks_length [OF uz(1)] marks_length [OF uz(3)] len by simp_all
  have "ts_valid (wd_states z ! j)" "ts_record (wd_states u ! j) = rs ! j"
    using marks_valid [OF uz(3)] vb evolves_record [of a u j] uz(1) rec(1) j(1) l len by (simp_all add: marks_def)
  then have id: "binding_mismatches x t (rs ! j) = []" "\<exists>s. cells_by_key x (pt_cell_key t) = Some s
      \<and> expected_action_digest x s = Inr (tr_action_digest (rc_trace (rs ! j)))"
    using check_identity_marks(2) [OF uz(2), of t] j l by auto
  have "\<exists>a. ts_attestation (wd_states d ! j) = Some a \<and> attested x v t (rs ! j) a"
    using attest_loop [OF s(4) distinct_upt, of j t] vd j rec(3) [OF j(1)] len by simp
  then have at: "\<exists>a. ts_attestation (wd_states w ! j) = Some a \<and> attested x v t (rs ! j) a"
    using marks_attestation [OF de] j len by simp
  have "fresh_apart (rs ! i) (rs ! j)" if "i < length rs" "i \<noteq> j" for i
    using mark_all_reuse_fresh [OF s(3), of i j] that j(1) vc len rec(2) by simp
  then show "binding_mismatches x t (rs ! j) = []
      \<and> (\<exists>s. cells_by_key x (pt_cell_key t) = Some s \<and> expected_action_digest x s = Inr (tr_action_digest (rc_trace (rs ! j))))
      \<and> (\<exists>a. ts_attestation (wd_states w ! j) = Some a \<and> attested x v t (rs ! j) a)
      \<and> (\<forall>i < length rs. i \<noteq> j \<longrightarrow> fresh_apart (rs ! i) (rs ! j))"
    using id at by blast
qed

end
