(* ===== verification/Evaluation_Metrics.thy ===== *)
theory Evaluation_Metrics
  imports Evaluation_Inspect
begin

text \<open>
  Admission of metric evidence. Every value the cache holds was admitted by the verifier for the very
  binding of its trial, event and metric and passed every check; a refusal always has a reason; and
  rejecting replays only turns admissions into refusals.
\<close>

section \<open>The cache\<close>

lemma map_of_dict_put: "map_of (dict_put k v d) = (map_of d)(k \<mapsto> v)"
  by (induction d) auto

definition entry_ok ::
  "compiled_experiment \<Rightarrow> (evidence_binding \<Rightarrow> metric_result answer) \<Rightarrow> (string \<times> trial_state) list \<Rightarrow> cache_key
     \<Rightarrow> metric_evidence \<Rightarrow> bool" where
  "entry_ok x v probes k a \<longleftrightarrow> (\<exists>s stage e m. map_of probes (fst k) = Some s
     \<and> event_for (rc_trace (ts_record s)) stage = Executed e \<and> xe_id e = fst (snd k)
     \<and> metric_by_id x (snd (snd k)) = Inr m
     \<and> judge_metric x (evidence_binding_of x (ts_record s) e m) e m
         (verify_metric v (evidence_binding_of x (ts_record s) e m)) = Inr a)"

definition cache_ok ::
  "compiled_experiment \<Rightarrow> (evidence_binding \<Rightarrow> metric_result answer) \<Rightarrow> (string \<times> trial_state) list \<Rightarrow> metric_context \<Rightarrow> bool" where
  "cache_ok x v probes cx \<longleftrightarrow>
     (\<forall>k a. map_of (cx_cache cx) k = Some (Some a) \<longrightarrow> entry_ok x v probes k a)
     \<and> (\<forall>k. map_of (cx_cache cx) k = Some None \<longrightarrow> map_of (cx_reasons cx) k \<noteq> None)"

lemma metric_by_id_id: "metric_by_id x i = Inr m \<Longrightarrow> mc_id m = i \<and> m \<in> set (xc_metrics (ce_contract x))"
  by (auto simp: metric_by_id_def next_of_Inr filter_eq_Cons_iff)

lemma metric_evidence_for_cache:
  assumes "metric_evidence_for x v s e m cx = Inr (a, cx')" "cache_ok x v probes cx"
    and s: "map_of probes (ts_key s) = Some s" "event_for (rc_trace (ts_record s)) stage = Executed e"
      "metric_by_id x i = Inr m"
  shows "cache_ok x v probes cx'" "map_of (cx_cache cx') (ts_key s, xe_id e, mc_id m) = Some a"
    and "map_of (cx_cache cx) k = Some q \<Longrightarrow> map_of (cx_cache cx') k = Some q"
proof -
  let ?k = "(ts_key s, xe_id e, mc_id m)" and ?b = "evidence_binding_of x (ts_record s) e m"
  have m: "metric_by_id x (mc_id m) = Inr m" using s(3) metric_by_id_id by metis
  have "cache_ok x v probes cx' \<and> map_of (cx_cache cx') ?k = Some a \<and> (map_of (cx_cache cx) k = Some q \<longrightarrow> map_of (cx_cache cx') k = Some q)"
  proof (cases "map_of (cx_cache cx) ?k")
    case (Some c)
    then show ?thesis using assms(1,2) by (simp add: metric_evidence_for_def)
  next
    case None
    show ?thesis
    proof (cases "judge_metric x ?b e m (verify_metric v ?b)")
      case (Inr d)
      then have "cx' = cx\<lparr>cx_cache := dict_put ?k (Some d) (cx_cache cx)\<rparr>" "a = Some d"
        using assms(1) None by (auto simp: metric_evidence_for_def Let_def)
      moreover have "entry_ok x v probes ?k d" using s(1,2) m Inr unfolding entry_ok_def by auto
      ultimately show ?thesis using assms(2) None by (auto simp: cache_ok_def map_of_dict_put)
    next
      case (Inl refusal)
      then obtain more where "cx' = cx\<lparr>cx_cache := dict_put ?k None (cx_cache cx),
          cx_reasons := dict_put ?k (snd refusal) (cx_reasons cx), cx_issues := more\<rparr>" "a = None"
        using assms(1) None by (auto simp: metric_evidence_for_def Let_def rbind_eq_Inr)
      then show ?thesis using assms(2) None by (auto simp: cache_ok_def map_of_dict_put)
    qed
  qed
  then show "cache_ok x v probes cx'" "map_of (cx_cache cx') ?k = Some a"
    "map_of (cx_cache cx) k = Some q \<Longrightarrow> map_of (cx_cache cx') k = Some q" by auto
qed

text \<open>An invariant of a loop body is an invariant of the loop.\<close>

interpretation inv: step_order "\<lambda>u v. P u \<longrightarrow> P v" for P
  by unfold_locales auto

definition probes_ok :: "(string \<times> trial_state) list \<Rightarrow> bool" where
  "probes_ok probes \<longleftrightarrow> (\<forall>k s. map_of probes k = Some s \<longrightarrow> ts_key s = k)"

lemma prime_cache:
  assumes "prime_metric_evidence x v probes required cx = Inr cx'" "cache_ok x v probes cx" "probes_ok probes"
  shows "cache_ok x v probes cx'"
proof -
  have "cache_ok x v probes cx \<longrightarrow> cache_ok x v probes cx'"
  proof (rule inv.each_le [OF _ assms(1) [unfolded prime_metric_evidence_def]], intro impI)
    fix c u w assume c: "prime_one x v probes c u = Inr w" "cache_ok x v probes u"
    obtain k stage i where c': "c = (k, stage, i)" by (cases c)
    show "cache_ok x v probes w"
    proof (cases "map_of probes k")
      case (Some s)
      then have k: "ts_key s = k" using assms(3) by (simp add: probes_ok_def)
      show ?thesis
      proof (cases "event_for (rc_trace (ts_record s)) stage")
        case (Executed e)
        then obtain m a where "metric_by_id x i = Inr m" "metric_evidence_for x v s e m u = Inr (a, w)"
          using c(1) c' Some by (auto simp: prime_one_def rbind_eq_Inr)
        then show ?thesis using metric_evidence_for_cache(1) c(2) Some k Executed by blast
      qed (use c c' Some in \<open>auto simp: prime_one_def\<close>)
    qed (use c c' in \<open>auto simp: prime_one_def\<close>)
  qed
  then show ?thesis using assms(2) by blast
qed

lemma map_of_fold_put:
  "map_of (fold (\<lambda>(k, rs). dict_put k (g k rs)) xs d) k = (if k \<in> fst ` set xs then
     Some (g k (snd (last (filter (\<lambda>y. fst y = k) xs)))) else map_of d k)"
proof (induction xs rule: rev_induct)
  case (snoc y ys)
  then show ?case by (cases y) (auto simp: map_of_dict_put)
qed simp

lemma reject_cache:
  assumes "reject_metric_replays cx = Inr cx'" "cache_ok x v probes cx"
  shows "cache_ok x v probes cx'"
    and "map_of (cx_cache cx) k \<noteq> None \<Longrightarrow> map_of (cx_cache cx') k \<noteq> None"
proof -
  let ?bad = "group_by fst (bad_reasons (admissions_of (cx_cache cx)))"
  let ?join = "\<lambda>k rs. text_of (join_text ''; '' (digests (map snd rs)))"
  have c: "cx_cache cx' = fold (\<lambda>(k, rs). dict_put k ((\<lambda>_ _. None) k rs)) ?bad (cx_cache cx)"
    "cx_reasons cx' = fold (\<lambda>(k, rs). dict_put k (?join k rs)) ?bad (cx_reasons cx)"
    using assms(1) by (auto simp: reject_metric_replays_def Let_def rbind_eq_Inr)
  show "cache_ok x v probes cx'"
    using assms(2) unfolding cache_ok_def c map_of_fold_put by (auto split: if_splits)
  show "map_of (cx_cache cx) k \<noteq> None \<Longrightarrow> map_of (cx_cache cx') k \<noteq> None"
    unfolding c map_of_fold_put by simp
qed

end
