(* ===== verification/Evaluation_Props.thy ===== *)
theory Evaluation_Props
  imports Evaluation_Metrics
begin

text \<open>
  Properties of evaluation reports: every decided point rests on admitted evidence for exactly that
  trial, and the classification of the residual follows from the points of the primary obligations.
\<close>

section \<open>Admissible trials\<close>

lemma distinct_occurrences: "distinct (map fst (occurrences ss))"
  by (simp add: occurrences_def group_by_def comp_def distinct_first_occurrences)

lemma map_of_filter_Some:
  assumes "distinct (map fst xs)" "map_of (filter P xs) k = Some s"
  shows "map_of xs k = Some s" "P (k, s)"
proof -
  have "(k, s) \<in> set (filter P xs)" using assms(2) by (rule map_of_SomeD)
  then show "map_of xs k = Some s" "P (k, s)" using assms(1) by auto
qed

lemma occurrence_single:
  assumes "(k, js) \<in> set (occurrences ss)" "length js = 1"
  shows "hd js < length ss" "ts_key (ss ! hd js) = k" "i < length ss \<Longrightarrow> ts_key (ss ! i) = k \<Longrightarrow> i = hd js"
proof -
  have js: "js = filter (\<lambda>j. ts_key (ss ! j) = k) [0..<length ss]"
    using assms(1) by (simp add: occurrences_def group_by_iff)
  obtain j where j: "js = [j]" using assms(2) by (cases js) auto
  then have "j \<in> set (filter (\<lambda>j. ts_key (ss ! j) = k) [0..<length ss])" using js by simp
  then show "hd js < length ss" "ts_key (ss ! hd js) = k" using j by auto
  assume "i < length ss" "ts_key (ss ! i) = k"
  then have "i \<in> set js" unfolding js by simp
  then show "i = hd js" using j by simp
qed

lemma unique_states_distinct: "distinct (map fst (unique_states x ss))"
proof -
  have "map fst (unique_states x ss)
      = map fst (filter (\<lambda>(k, js). expected_by_key x k \<noteq> None \<and> length js = 1 \<and> ts_attestation (ss ! hd js) \<noteq> None) (occurrences ss))"
    by (auto simp: unique_states_def)
  then show ?thesis using distinct_occurrences [of ss] by (simp add: distinct_map_filter)
qed

lemma unique_states_Some:
  assumes "map_of (unique_states x ss) k = Some s"
  shows "\<exists>j < length ss. s = ss ! j \<and> ts_key s = k \<and> expected_by_key x k \<noteq> None \<and> ts_attestation s \<noteq> None
    \<and> (\<forall>i < length ss. ts_key (ss ! i) = k \<longrightarrow> i = j)"
proof -
  have "(k, s) \<in> set (unique_states x ss)" using assms by (rule map_of_SomeD)
  then obtain js where js: "(k, js) \<in> set (occurrences ss)" "expected_by_key x k \<noteq> None" "length js = 1"
    "ts_attestation (ss ! hd js) \<noteq> None" "s = ss ! hd js"
    by (auto simp: unique_states_def)
  then show ?thesis using occurrence_single [OF js(1,3)] by blast
qed

lemma unique_states_probes: "probes_ok (unique_states x ss)"
  using unique_states_Some by (fastforce simp: probes_ok_def)

lemma trace_event_unique:
  assumes "validate_trace t = Inr ()" "event_for t s = Executed e" "event_for t s' = Executed e'" "xe_id e = xe_id e'"
  shows "e = e'"
proof -
  have "card (set (map event_id (trace_events t))) = length (map event_id (trace_events t))"
    using assms(1) by (auto simp: validate_trace_def fixed_ordered_lineage_def Let_def rbind_eq_Inr split: if_splits)
  then have "distinct (map event_id (trace_events t))" by (rule card_distinct)
  then have inj: "inj_on event_id (set (trace_events t))" by (simp only: distinct_map)
  have "event_for t s \<in> set (trace_events t)" "event_for t s' \<in> set (trace_events t)"
    by (cases s; simp add: trace_events_def) (cases s'; simp add: trace_events_def)
  then have "Executed e = Executed e'" using inj assms(2-4) by (intro inj_onD [OF inj]) simp_all
  then show ?thesis by simp
qed

lemma filter_single:
  assumes "j < length xs" "P (xs ! j)" "\<And>i. i < length xs \<Longrightarrow> P (xs ! i) \<Longrightarrow> i = j"
  shows "filter P xs = [xs ! j]"
proof -
  have "\<not> P y" if "y \<in> set (take j xs) \<union> set (drop (Suc j) xs)" for y
  proof
    assume y: "P y"
    from that obtain i where "i < length xs" "i \<noteq> j" "y = xs ! i"
    proof
      assume "y \<in> set (take j xs)"
      then obtain i where "i < j" "y = xs ! i" using assms(1) by (auto simp: in_set_conv_nth)
      then show thesis using that [of i] assms(1) by simp
    next
      assume "y \<in> set (drop (Suc j) xs)"
      then obtain i where "i < length xs - Suc j" "y = xs ! (Suc j + i)" by (auto simp: in_set_conv_nth)
      then show thesis using that [of "Suc j + i"] by simp
    qed
    then show False using assms(3) y by blast
  qed
  then have "filter P (take j xs) = []" "filter P (drop (Suc j) xs) = []" by (simp_all add: filter_empty_conv)
  then show ?thesis using assms(2) id_take_nth_drop [OF assms(1)] by (metis append_Nil filter.simps(2) filter_append)
qed

section \<open>Decided points\<close>

text \<open>The evidence behind a decided point of an obligation.\<close>

definition grounded ::
  "compiled_experiment \<Rightarrow> (trial_record \<Rightarrow> attestation_result answer) \<Rightarrow> (evidence_binding \<Rightarrow> metric_result answer)
     \<Rightarrow> trial_record list \<Rightarrow> obligation \<Rightarrow> trial_point \<Rightarrow> bool" where
  "grounded x va vm rs b p \<longleftrightarrow> (\<exists>r t a e m d.
     filter (\<lambda>r. rc_trial_key r = tq_trial_key p) rs = [r]
     \<and> expected_by_key x (tq_trial_key p) = Some t \<and> binding_mismatches x t r = [] \<and> attested x va t r a
     \<and> event_for (rc_trace r) (required_stage (ob_scope b)) = Executed e
     \<and> metric_by_id x (mp_metric_id (ob_predicate b)) = Inr m
     \<and> judge_metric x (evidence_binding_of x r e m) e m (verify_metric vm (evidence_binding_of x r e m)) = Inr d
     \<and> tq_value p = Some (me_value d) \<and> predicate_matches (ob_predicate b) (me_value d) = Inr (tq_state p = PointPass))"

text \<open>The admissible trials of an inspection.\<close>

lemma admissible_trial:
  assumes "inspect_records x va rs = Inr w" "map_of (filter (\<lambda>(k, s). ts_valid s) (unique_states x (wd_states w))) k = Some s"
  shows "map_of (unique_states x (wd_states w)) k = Some s"
    "\<exists>t a. filter (\<lambda>r. rc_trial_key r = k) rs = [ts_record s] \<and> ts_record s \<in> set rs \<and> expected_by_key x k = Some t
      \<and> binding_mismatches x t (ts_record s) = [] \<and> ts_attestation s = Some a \<and> attested x va t (ts_record s) a"
proof -
  let ?ss = "wd_states w"
  note rec = inspected_trial(1) [OF assms(1)]
  show probe: "map_of (unique_states x ?ss) k = Some s"
    using map_of_filter_Some(1) [OF unique_states_distinct assms(2)] .
  have valid: "ts_valid s" using map_of_filter_Some(2) [OF unique_states_distinct assms(2)] by simp
  obtain j where j: "j < length ?ss" "s = ?ss ! j" "ts_key s = k" "expected_by_key x k \<noteq> None"
    "\<forall>i < length ?ss. ts_key (?ss ! i) = k \<longrightarrow> i = j" using unique_states_Some [OF probe] by blast
  have len: "length rs = length ?ss" using rec by (metis length_map)
  have at: "rs ! i = ts_record (?ss ! i)" if "i < length ?ss" for i
    unfolding rec [symmetric] using that by simp
  obtain t where t: "expected_by_key x k = Some t" using j(4) by blast
  have key: "rc_trial_key (rs ! j) = k" using at [OF j(1)] j(2,3) by simp
  then have "binding_mismatches x t (rs ! j) = []" "\<exists>a. ts_attestation s = Some a \<and> attested x va t (rs ! j) a"
    using inspected_trial(2) [OF assms(1), of j t] j(1,2) valid len t by simp_all
  moreover have "filter (\<lambda>r. rc_trial_key r = k) rs = [rs ! j]"
  proof (rule filter_single)
    show "j < length rs" using j(1) len by simp
    show "rc_trial_key (rs ! j) = k" by (rule key)
    fix i assume i: "i < length rs" "rc_trial_key (rs ! i) = k"
    then have "ts_key (?ss ! i) = k" using at [of i] len by simp
    then show "i = j" using j(5) i(1) len by simp
  qed
  moreover have r: "rs ! j = ts_record s" "ts_record s \<in> set rs"
    using at [OF j(1)] nth_mem [of j rs] j(1,2) len by simp_all
  ultimately show "\<exists>t a. filter (\<lambda>r. rc_trial_key r = k) rs = [ts_record s] \<and> ts_record s \<in> set rs \<and> expected_by_key x k = Some t
      \<and> binding_mismatches x t (ts_record s) = [] \<and> ts_attestation s = Some a \<and> attested x va t (ts_record s) a"
    using t r by auto
qed

lemma cached_for:
  assumes "cache_ok x v probes cx" "map_of (cx_cache cx) (k, xe_id e, i) = Some (Some d)"
    and "map_of probes k = Some s" "event_for (rc_trace (ts_record s)) stage = Executed e" "metric_by_id x i = Inr m"
    and "validate_trace (rc_trace (ts_record s)) = Inr ()"
  shows "judge_metric x (evidence_binding_of x (ts_record s) e m) e m
    (verify_metric v (evidence_binding_of x (ts_record s) e m)) = Inr d"
proof -
  have "entry_ok x v probes (k, xe_id e, i) d" using assms(1,2) by (simp add: cache_ok_def)
  then obtain stage' e' where e': "event_for (rc_trace (ts_record s)) stage' = Executed e'" "xe_id e' = xe_id e"
    "judge_metric x (evidence_binding_of x (ts_record s) e' m) e' m
       (verify_metric v (evidence_binding_of x (ts_record s) e' m)) = Inr d"
    using assms(3,5) by (auto simp: entry_ok_def)
  have "e' = e" using trace_event_unique [OF assms(6) e'(1) assms(4) e'(2)] .
  then show ?thesis using e'(3) by simp
qed

lemma assess_point_grounded:
  assumes run: "assess_point A b m key cx = Inr (p, cx')"
    and A: "ae_compiled A = x" "ae_verifier A = vm" "ae_by_key A = admissible x (wd_states w)"
    and w: "inspect_records x va rs = Inr w" "\<forall>r \<in> set rs. validate_record r = Inr ()"
    and ok: "cache_ok x vm (unique_states x (wd_states w)) cx" and m: "metric_by_id x (mp_metric_id (ob_predicate b)) = Inr m"
  shows "cache_ok x vm (unique_states x (wd_states w)) cx' \<and> tq_trial_key p = key
    \<and> (tq_state p \<noteq> PointUnresolved \<longrightarrow> grounded x va vm rs b p)"
proof (cases "map_of (admissible x (wd_states w)) key")
  case None
  then show ?thesis using run ok A by (auto simp: assess_point_def unresolved_point_def)
next
  case (Some s)
  note adm = admissible_trial [OF w(1) Some [unfolded admissible_def]]
  have key: "ts_key s = key" using unique_states_probes adm(1) by (simp add: probes_ok_def)
  show ?thesis
  proof (cases "event_for (rc_trace (ts_record s)) (required_stage (ob_scope b))")
    case (Skipped k)
    then show ?thesis using run ok A Some by (auto simp: assess_point_def unresolved_point_def Let_def)
  next
    case (Executed e)
    obtain q cx1 where q: "metric_evidence_for x vm s e m cx = Inr (q, cx1)"
      using run A Some Executed by (auto simp: assess_point_def Let_def rbind_eq_Inr)
    have mid: "mc_id m = mp_metric_id (ob_predicate b)" using metric_by_id_id [OF m] by simp
    note c = metric_evidence_for_cache(1,2) [OF q ok adm(1) [folded key] Executed m, unfolded key]
    show ?thesis
    proof (cases q)
      case None
      then show ?thesis using run A Some Executed q c(1)
        by (auto simp: assess_point_def Let_def rbind_eq_Inr unresolved_point_def)
    next
      case (Some d)
      obtain passed where passed: "predicate_matches (ob_predicate b) (me_value d) = Inr passed" "cx' = cx1"
        "tq_trial_key p = key" "tq_value p = Some (me_value d)" "tq_state p = (if passed then PointPass else PointFail)"
        using run A \<open>map_of (admissible x (wd_states w)) key = Some s\<close> Executed q Some
        by (auto simp: assess_point_def Let_def rbind_eq_Inr)
      obtain t a where t: "filter (\<lambda>r. rc_trial_key r = key) rs = [ts_record s]" "ts_record s \<in> set rs"
        "expected_by_key x key = Some t" "binding_mismatches x t (ts_record s) = []" "attested x va t (ts_record s) a"
        using adm(2) by blast
      have "validate_trace (rc_trace (ts_record s)) = Inr ()"
        using w(2) t(2) by (auto simp: validate_record_def Let_def rbind_eq_Inr)
      then have j: "judge_metric x (evidence_binding_of x (ts_record s) e m) e m
          (verify_metric vm (evidence_binding_of x (ts_record s) e m)) = Inr d"
        using cached_for [OF c(1) _ adm(1) Executed m] c(2) Some mid by simp
      have "predicate_matches (ob_predicate b) (me_value d) = Inr (tq_state p = PointPass)"
        using passed(1,5) by (cases passed) simp_all
      then have "grounded x va vm rs b p"
        using t j Executed m passed(3,4) unfolding grounded_def by metis
      then show ?thesis using c(1) passed(2,3) by simp
    qed
  qed
qed

section \<open>The parts of an evaluation\<close>

lemma revalidate_records:
  assumes "rmap revalidate_record rs = Inr rs'"
  shows "rs' = rs" "\<forall>r \<in> set rs. validate_record r = Inr ()"
proof -
  have one: "r' = r \<and> validate_record r = Inr ()" if "revalidate_record r = Inr r'" for r r'
    using that by (auto simp: revalidate_record_def on_error_Inr rbind_eq_Inr)
  show "rs' = rs" "\<forall>r \<in> set rs. validate_record r = Inr ()"
    using assms unfolding rmap_Inr by (induction rule: list_all2_induct) (auto dest: one)
qed

lemma issue_states: "issue dest i js False w = Inr w' \<Longrightarrow> wd_states w' = wd_states w"
  by (auto simp: issue_def rbind_eq_Inr dest: report_marks)

interpretation st: step_order "\<lambda>w w'. wd_states w' = wd_states w"
  by unfold_locales auto

lemma run_checks_states: "run_checks False j rows u = Inr v \<Longrightarrow> wd_states v = wd_states u"
  unfolding run_checks_def
  by (erule st.each_le [rotated]) (auto split: prod.splits if_splits dest: issue_states)

lemma cleanup_loops:
  "each (\<lambda>(d, js). issue ToSafety (f d) js False) gs u = Inr v \<Longrightarrow> wd_states v = wd_states u"
  "each (\<lambda>j. run_checks False j (rows j)) js u = Inr v \<Longrightarrow> wd_states v = wd_states u"
  by (erule st.each_le [rotated], auto split: prod.splits dest: issue_states)
    (erule st.each_le [rotated], rule run_checks_states)

lemma admit_cleanups_states: "admit_cleanups x vk w = Inr (cleaned, w') \<Longrightarrow> wd_states w' = wd_states w"
  unfolding admit_cleanups_def Let_def rbind_eq_Inr
  by (elim exE conjE, drule cleanup_loops(1), drule cleanup_loops(2), drule cleanup_loops(1), simp)

lemma evaluate_parts:
  assumes "evaluate E c rs va vm vk = Inr rep"
  obtains x w cleaned w' required cx1 cx2 cx3 cx4 A where
    "recompile E c = Inr x" "\<forall>r \<in> set rs. validate_record r = Inr ()"
    "inspect_records x va rs = Inr w" "admit_cleanups x vk w = Inr (cleaned, w')" "wd_states w' = wd_states w"
    "required_metric_coordinates x = Inr required"
    "prime_metric_evidence x vm (unique_states x (wd_states w)) required
       \<lparr>cx_issues = wd_evidence w', cx_cache = [], cx_reasons = []\<rparr> = Inr cx1"
    "reject_metric_replays cx1 = Inr cx2"
    "A = \<lparr>ae_compiled = x, ae_verifier = vm, ae_by_key = admissible x (wd_states w), ae_states = wd_states w\<rparr>"
    "collect (evaluate_obligation A) (xc_obligations (ce_contract x)) cx2 = Inr (er_obligations rep, cx3)"
    "collect (evaluate_contrast A) (ce_contrasts x) cx3 = Inr (er_contrasts rep, cx4)"
    "residual_summary_of x (er_obligations rep) (er_contrasts rep) (dc_protocol (er_completeness rep)) = Inr (er_residual rep)"
    "er_compiled rep = x" "er_safety_issues rep = wd_safety w'"
    "er_completeness rep = completeness_of x (wd_states w)
       (metric_evidence_complete (admissible x (wd_states w)) cx2 required) cleaned (wd_safety w')"
proof -
  obtain x rs' w cleaned w' required cx1 cx2 where
    p: "recompile E c = Inr x" "rmap revalidate_record rs = Inr rs'" "inspect_records x va rs' = Inr w"
      "admit_cleanups x vk w = Inr (cleaned, w')" "required_metric_coordinates x = Inr required"
      "prime_metric_evidence x vm (unique_states x (wd_states w')) required
         \<lparr>cx_issues = wd_evidence w', cx_cache = [], cx_reasons = []\<rparr> = Inr cx1"
      "reject_metric_replays cx1 = Inr cx2"
    using assms unfolding evaluate_def by (auto simp: Let_def rbind_eq_Inr split: prod.splits)
  note r = revalidate_records [OF p(2)] and s = admit_cleanups_states [OF p(4)]
  define A where "A = \<lparr>ae_compiled = x, ae_verifier = vm, ae_by_key = admissible x (wd_states w), ae_states = wd_states w\<rparr>"
  obtain as cx3 ks cx4 res where q: "collect (evaluate_obligation A) (xc_obligations (ce_contract x)) cx2 = Inr (as, cx3)"
      "collect (evaluate_contrast A) (ce_contrasts x) cx3 = Inr (ks, cx4)"
      "residual_summary_of x as ks (dc_protocol (completeness_of x (wd_states w)
         (metric_evidence_complete (admissible x (wd_states w)) cx2 required) cleaned (wd_safety w'))) = Inr res"
      "rep = \<lparr>er_compiled = x, er_completeness = completeness_of x (wd_states w)
         (metric_evidence_complete (admissible x (wd_states w)) cx2 required) cleaned (wd_safety w'),
         er_design_issues = wd_design w', er_evidence_issues = cx_issues cx4, er_safety_issues = wd_safety w',
         er_obligations = as, er_contrasts = ks, er_residual = res\<rparr>"
    using assms p s unfolding evaluate_def A_def by (auto simp: Let_def rbind_eq_Inr split: prod.splits)
  show thesis
    by (rule that [OF p(1) r(2) p(3) [unfolded r(1)] p(4) s p(5) p(6) [unfolded s] p(7) A_def])
      (use q in simp_all)
qed

section \<open>Reports\<close>

lemma evaluate_obligation_Inr:
  assumes "evaluate_obligation A b cx = Inr (a, cx')"
  obtains cov m ps where "cov \<in> set (ce_coverage (ae_compiled A))" "oc_obligation_id cov = ob_id b"
    "metric_by_id (ae_compiled A) (mp_metric_id (ob_predicate b)) = Inr m"
    "collect (assess_point A b m) (oc_trial_keys cov) cx = Inr (ps, cx')" "ps \<noteq> []" "a = assessment_of b ps"
proof -
  obtain cov m ps where c: "next_of (filter (\<lambda>c. oc_obligation_id c = ob_id b) (ce_coverage (ae_compiled A))) = Inr cov"
    "metric_by_id (ae_compiled A) (mp_metric_id (ob_predicate b)) = Inr m"
    "collect (assess_point A b m) (oc_trial_keys cov) cx = Inr (ps, cx')" "ps \<noteq> []" "a = assessment_of b ps"
    using assms by (auto simp: evaluate_obligation_def rbind_eq_Inr split: prod.splits if_splits)
  have "cov \<in> set (filter (\<lambda>c. oc_obligation_id c = ob_id b) (ce_coverage (ae_compiled A)))"
    using c(1) by (metis next_of_Inr list.set_intros(1))
  then show thesis using that c(2-5) by auto
qed

text \<open>The setting of the assessments: an inspected set of records and a sound cache.\<close>

definition assessing ::
  "assessment_env \<Rightarrow> compiled_experiment \<Rightarrow> (trial_record \<Rightarrow> attestation_result answer)
     \<Rightarrow> (evidence_binding \<Rightarrow> metric_result answer) \<Rightarrow> trial_record list \<Rightarrow> eval_world \<Rightarrow> bool" where
  "assessing A x va vm rs w \<longleftrightarrow>
     A = \<lparr>ae_compiled = x, ae_verifier = vm, ae_by_key = admissible x (wd_states w), ae_states = wd_states w\<rparr>
     \<and> inspect_records x va rs = Inr w \<and> (\<forall>r \<in> set rs. validate_record r = Inr ())"

lemma obligation_points:
  assumes "assessing A x va vm rs w" "evaluate_obligation A b cx = Inr (a, cx')" "cache_ok x vm (unique_states x (wd_states w)) cx"
  shows "cache_ok x vm (unique_states x (wd_states w)) cx'"
    "p \<in> set (oa_points a) \<Longrightarrow> tq_state p \<noteq> PointUnresolved \<Longrightarrow> grounded x va vm rs b p"
proof -
  let ?ok = "cache_ok x vm (unique_states x (wd_states w))"
  have A: "ae_compiled A = x" "ae_verifier A = vm" "ae_by_key A = admissible x (wd_states w)"
    and w: "inspect_records x va rs = Inr w" "\<forall>r \<in> set rs. validate_record r = Inr ()"
    using assms(1) by (simp_all add: assessing_def)
  have "\<exists>keys m ps. metric_by_id x (mp_metric_id (ob_predicate b)) = Inr m
      \<and> collect (assess_point A b m) keys cx = Inr (ps, cx') \<and> a = assessment_of b ps"
    by (rule evaluate_obligation_Inr [OF assms(2), unfolded A(1)]) (intro exI conjI; assumption)
  then obtain keys m ps where c: "metric_by_id x (mp_metric_id (ob_predicate b)) = Inr m"
    "collect (assess_point A b m) keys cx = Inr (ps, cx')" "a = assessment_of b ps" by blast
  have step: "?ok u \<longrightarrow> ?ok v" if "assess_point A b m k u = Inr (q, v)" for k u q v
    using assess_point_grounded [OF that A w _ c(1)] by blast
  have "?ok cx \<longrightarrow> ?ok cx'" by (rule inv.collect_le [OF _ c(2)]) (rule step)
  then show "?ok cx'" using assms(3) by blast
  assume p: "p \<in> set (oa_points a)" "tq_state p \<noteq> PointUnresolved"
  then have "p \<in> set ps" using c(3) by (simp add: assessment_of_def Let_def)
  then have "\<exists>k u v. k \<in> set keys \<and> (?ok cx \<longrightarrow> ?ok u) \<and> assess_point A b m k u = Inr (p, v) \<and> (?ok v \<longrightarrow> ?ok cx')"
    by (intro inv.collect_at [OF _ c(2)] step)
  then show "grounded x va vm rs b p" using assess_point_grounded [OF _ A w _ c(1)] assms(3) p(2) by blast
qed

lemma evaluated_obligation:
  assumes "evaluate E c rs va vm vk = Inr rep" "a \<in> set (er_obligations rep)"
  obtains A w b u v where "assessing A (er_compiled rep) va vm rs w" "b \<in> set (xc_obligations (ce_contract (er_compiled rep)))"
    "evaluate_obligation A b u = Inr (a, v)" "cache_ok (er_compiled rep) vm (unique_states (er_compiled rep) (wd_states w)) u"
proof (rule evaluate_parts [OF assms(1)])
  fix x w w' required cx1 cx2 cx3 A
  assume e: "\<forall>r \<in> set rs. validate_record r = Inr ()" "inspect_records x va rs = Inr w"
    "prime_metric_evidence x vm (unique_states x (wd_states w)) required
       \<lparr>cx_issues = wd_evidence w', cx_cache = [], cx_reasons = []\<rparr> = Inr cx1"
    "reject_metric_replays cx1 = Inr cx2"
    "A = \<lparr>ae_compiled = x, ae_verifier = vm, ae_by_key = admissible x (wd_states w), ae_states = wd_states w\<rparr>"
    "collect (evaluate_obligation A) (xc_obligations (ce_contract x)) cx2 = Inr (er_obligations rep, cx3)"
    "er_compiled rep = x"
  let ?ok = "cache_ok x vm (unique_states x (wd_states w))"
  have A: "assessing A x va vm rs w" using e by (simp add: assessing_def)
  have "?ok cx1" by (rule prime_cache [OF e(3) _ unique_states_probes]) (simp add: cache_ok_def)
  then have "?ok cx2" by (rule reject_cache(1) [OF e(4)])
  moreover have "\<exists>b u v. b \<in> set (xc_obligations (ce_contract x)) \<and> (?ok cx2 \<longrightarrow> ?ok u)
      \<and> evaluate_obligation A b u = Inr (a, v) \<and> (?ok v \<longrightarrow> ?ok cx3)"
    by (rule inv.collect_at [OF _ e(6) assms(2)]) (use obligation_points(1) [OF A] in blast)
  ultimately show thesis using that A e(7) by blast
qed

text \<open>What the verifiers must have said, spelled out.\<close>

definition attestation_trusted ::
  "compiled_experiment \<Rightarrow> (trial_record \<Rightarrow> attestation_result answer) \<Rightarrow> planned_trial \<Rightarrow> trial_record \<Rightarrow> attestation \<Rightarrow> bool" where
  "attestation_trusted x va t r a \<longleftrightarrow> (let scope = xc_scope (ce_contract x); c = rc_clone r in
     verify_attestation va r = Inr (AttestationAdmitted a) \<and> at_binding a = expected_binding x t r
     \<and> (at_build_digest a, at_dataset_digest a, at_fixture_digest a)
         = (xs_build_digest scope, xs_dataset_digest scope, xs_fixture_digest scope)
     \<and> at_executed_ordinal a = pt_ordinal t
     \<and> (\<exists>s. cells_by_key x (pt_cell_key t) = Some s \<and> selector_eq (at_selector a) s)
     \<and> at_base_snapshot a = cl_base_snapshot c \<and> at_covariate a = cl_covariate c
     \<and> cl_attestation_bundle c \<in> set (at_artifact_ids a)
     \<and> ew_start (xs_evidence_window scope) \<le> at_started a
     \<and> at_ended a \<le> min (ew_end (xs_evidence_window scope)) (xs_assessment_as_of scope)
     \<and> (\<forall>e \<in> set (executed_events (rc_trace r)). at_started a \<le> xe_started e \<and> xe_ended e \<le> at_ended a))"

definition evidence_trusted ::
  "compiled_experiment \<Rightarrow> (evidence_binding \<Rightarrow> metric_result answer) \<Rightarrow> trial_record \<Rightarrow> executed_event \<Rightarrow> metric_contract
     \<Rightarrow> metric_evidence \<Rightarrow> bool" where
  "evidence_trusted x vm r e m d \<longleftrightarrow> (let scope = xc_scope (ce_contract x); b = evidence_binding_of x r e m in
     verify_metric vm b = Inr (MetricAdmitted d) \<and> me_binding d = b
     \<and> value_type_name (me_value d) = metric_type_name (mc_value_type m)
     \<and> ew_start (xs_evidence_window scope) \<le> me_observed_at d
     \<and> me_observed_at d \<le> min (ew_end (xs_evidence_window scope)) (xs_assessment_as_of scope)
     \<and> xe_started e \<le> me_observed_at d \<and> me_observed_at d \<le> xe_ended e \<and> xe_bundle e \<in> set (me_artifact_ids d))"

definition rests_on_evidence ::
  "compiled_experiment \<Rightarrow> (trial_record \<Rightarrow> attestation_result answer) \<Rightarrow> (evidence_binding \<Rightarrow> metric_result answer)
     \<Rightarrow> trial_record list \<Rightarrow> obligation \<Rightarrow> trial_point \<Rightarrow> bool" where
  "rests_on_evidence x va vm rs b p \<longleftrightarrow> (\<exists>r t a e m d.
     filter (\<lambda>r. rc_trial_key r = tq_trial_key p) rs = [r]
     \<and> t \<in> set (ce_planned_trials x) \<and> pt_key t = tq_trial_key p
     \<and> (rc_spec_digest r, rc_cell_key r, rc_block r, rc_replicate r)
         = (ce_spec_digest x, pt_cell_key t, pt_block t, pt_replicate t)
     \<and> attestation_trusted x va t r a
     \<and> event_for (rc_trace r) (required_stage (ob_scope b)) = Executed e
     \<and> metric_by_id x (mp_metric_id (ob_predicate b)) = Inr m \<and> evidence_trusted x vm r e m d
     \<and> tq_value p = Some (me_value d) \<and> predicate_matches (ob_predicate b) (me_value d) = Inr (tq_state p = PointPass))"

lemma attested_trusted: "attested x va t r a \<Longrightarrow> attestation_trusted x va t r a"
  unfolding attested_def attestation_trusted_def attestation_checks_def Let_def
  by (clarsimp simp: list_ex_iff not_less)

lemma judged_trusted:
  "judge_metric x (evidence_binding_of x r e m) e m (verify_metric vm (evidence_binding_of x r e m)) = Inr d
    \<Longrightarrow> evidence_trusted x vm r e m d"
  by (auto simp: judge_metric_def evidence_trusted_def metric_in_window_def Let_def split: sum.splits metric_result.splits if_splits)

lemma binding_agrees:
  "binding_mismatches x t r = [] \<longleftrightarrow> (rc_spec_digest r, rc_cell_key r, rc_block r, rc_replicate r)
     = (ce_spec_digest x, pt_cell_key t, pt_block t, pt_replicate t)"
  by (auto simp: binding_mismatches_def)

lemma dict_of_in: "dict_of (map (\<lambda>a. (f a, a)) as) i = Some a \<Longrightarrow> a \<in> set as \<and> f a = i"
  by (auto simp: dict_of_def rev_map dest!: map_of_SomeD)

lemma grounded_rests:
  assumes "grounded x va vm rs b p"
  shows "rests_on_evidence x va vm rs b p"
proof -
  obtain r t a e m d where g: "filter (\<lambda>r. rc_trial_key r = tq_trial_key p) rs = [r]"
    "expected_by_key x (tq_trial_key p) = Some t" "binding_mismatches x t r = []" "attested x va t r a"
    "event_for (rc_trace r) (required_stage (ob_scope b)) = Executed e"
    "metric_by_id x (mp_metric_id (ob_predicate b)) = Inr m"
    "judge_metric x (evidence_binding_of x r e m) e m (verify_metric vm (evidence_binding_of x r e m)) = Inr d"
    "tq_value p = Some (me_value d)" "predicate_matches (ob_predicate b) (me_value d) = Inr (tq_state p = PointPass)"
    using assms unfolding grounded_def by blast
  have "t \<in> set (ce_planned_trials x) \<and> pt_key t = tq_trial_key p"
    by (rule dict_of_in) (use g(2) in \<open>simp add: expected_by_key_def\<close>)
  then show ?thesis
    unfolding rests_on_evidence_def
    using g(1,5,6,8,9) g(3) [unfolded binding_agrees] attested_trusted [OF g(4)] judged_trusted [OF g(7)] by blast
qed

lemma resolved_rests:
  assumes "evaluate E c rs va vm vk = Inr rep" "a \<in> set (er_obligations rep)" "p \<in> set (oa_points a)"
    "tq_state p \<noteq> PointUnresolved"
  shows "\<exists>b \<in> set (xc_obligations (ce_contract (er_compiled rep))).
    ob_id b = oa_obligation_id a \<and> rests_on_evidence (er_compiled rep) va vm rs b p"
proof -
  obtain A w b u v where e: "assessing A (er_compiled rep) va vm rs w" "b \<in> set (xc_obligations (ce_contract (er_compiled rep)))"
    "evaluate_obligation A b u = Inr (a, v)" "cache_ok (er_compiled rep) vm (unique_states (er_compiled rep) (wd_states w)) u"
    using assms(1,2) by (rule evaluated_obligation)
  have "ob_id b = oa_obligation_id a"
    using e(3) by (rule evaluate_obligation_Inr) (simp add: assessment_of_def Let_def)
  then show ?thesis using grounded_rests [OF obligation_points(2) [OF e(1,3,4) assms(3,4)]] e(2) by blast
qed

text \<open>
  C15. A report never rests on what a record says about itself. Every point an obligation counts as
  passed or failed belongs to a planned trial with exactly one record, which agrees with the plan;
  its attestation was admitted by the verifier and echoes the planned binding, scope, order, factor
  levels, clone and time window; its stage was executed; and the value is one the metric verifier
  admitted for exactly that event and metric, of the right type, in time and bound to the bundle of
  the stage.
\<close>

theorem verdicts_rest_on_evidence:
  assumes "evaluate E c rs va vm vk = Inr rep" "a \<in> set (er_obligations rep)" "p \<in> set (oa_points a)"
    "tq_state p \<noteq> PointUnresolved"
  shows "\<exists>b \<in> set (xc_obligations (ce_contract (er_compiled rep))).
    ob_id b = oa_obligation_id a \<and> rests_on_evidence (er_compiled rep) va vm rs b p"
  using assms by (rule resolved_rests)

end
