(* ===== verification/Contract_Props.thy ===== *)
theory Contract_Props
  imports Contract Decimal_Props Alert_Window_Props
begin

text \<open>
  Properties of compiled experiments: the plan is the full factorial with every trial once, the
  contrasts resolve and vary exactly one axis, and the order in which metrics, obligations and
  blocks are listed does not matter.
\<close>

section \<open>Equality of validated values\<close>

fun finite_value :: "typed_value \<Rightarrow> bool" where
  "finite_value (DecimalValue d) = dec_finite d"
| "finite_value _ = True"

lemma validate_typed_finite: "validate_typed v = Inr () \<Longrightarrow> finite_value v"
proof (cases v)
  case (DecimalValue d)
  moreover assume "validate_typed v = Inr ()"
  ultimately show ?thesis by (cases d) (auto simp: valid_decimal_def decimal_limits_def field_error_def)
qed auto

lemma decimal_text_eq:
  assumes "dec_finite a" "dec_finite b"
  shows "decimal_text a = decimal_text b \<longleftrightarrow> dec_eq a b"
proof -
  obtain s c e s' c' e' where d: "a = Dec s c e" "b = Dec s' c' e'" using assms by (cases a; cases b) auto
  have ex: "\<exists>t. decimal_text (Dec s c e) = Inr t" for s c e
    by (cases "c = 0") (simp_all add: decimal_text_spelling del: decimal_text.simps, simp)
  obtain t t' where t: "decimal_text a = Inr t" "decimal_text b = Inr t'" using ex d by blast
  show ?thesis
    using dec_eq_spelling [of s c e s' c' e'] t d dec_eq_trans [of a "decimal_of_text t" b] assms
      dec_eq_sym decimal_text_read [OF t(1)] decimal_text_read [OF t(2)] by (metis sum.inject(2))
qed

lemma typed_eq_same_value:
  assumes "finite_value a" "finite_value b"
  shows "typed_eq a b \<longleftrightarrow> same_value a b"
proof -
  have texts: "jtext x = jtext y \<longleftrightarrow> x = y" for x y by (simp add: jtext_def)
  have fin: "\<exists>t. decimal_text d = Inr t" if "dec_finite d" for d
    using that by (cases d; cases "fst (snd (the (case d of Dec s c e \<Rightarrow> Some (s, c, e) | _ \<Rightarrow> None))) = 0")
      (auto simp: decimal_text_spelling simp del: decimal_text.simps, simp)
  show ?thesis
  proof (cases a; cases b)
    fix d d' assume ab: "a = DecimalValue d" "b = DecimalValue d'"
    then obtain t t' where "decimal_text d = Inr t" "decimal_text d' = Inr t'" using assms fin by fastforce
    then show ?thesis
      using ab decimal_text_eq [of d d'] assms by (simp add: same_value_def typed_json_def jobject_def texts)
  qed (auto simp: same_value_def typed_json_def jobject_def texts)
qed

lemma same_value_equiv:
  "same_value a a" "same_value a b \<Longrightarrow> same_value b a" "same_value a b \<Longrightarrow> same_value b d \<Longrightarrow> same_value a d"
  by (simp_all add: same_value_def)

section \<open>Contrasts\<close>

text \<open>The cell at a corner of the design: each axis at its first or at its second level.\<close>

definition cell_at :: "masking_profile \<Rightarrow> bool \<Rightarrow> bool \<Rightarrow> bool \<Rightarrow> bool \<Rightarrow> generated_cell" where
  "cell_at p i t c s =
     (let pick = (\<lambda>b ls. ls ! (if b then 1 else 0)) in
      let li = pick i (input_levels p); lt = pick t (target_levels p);
          lc = pick c (compensator_levels p); ls = pick s (sham_levels p) in
      \<lparr>gc_key = cell_key (fst li) (fst lt) (fst lc) (fst ls),
       gc_selector = full_selector (snd li) (snd lt) (snd lc) (snd ls)\<rparr>)"

lemma generate_cells_corners:
  "generate_cells p = [cell_at p i t c s. i \<leftarrow> [False, True], t \<leftarrow> [False, True], c \<leftarrow> [False, True], s \<leftarrow> [False, True]]"
  by (simp add: generate_cells_def cell_at_def input_levels_def target_levels_def compensator_levels_def
      sham_levels_def)

lemma cell_at_in: "cell_at p i t c s \<in> set (generate_cells p)"
  unfolding generate_cells_corners by (cases i; cases t; cases c; cases s) simp_all

text \<open>A value that stands at one of the two levels of an axis, and not at the other.\<close>

definition at_level :: "(string \<times> typed_value) list \<Rightarrow> bool \<Rightarrow> typed_value \<Rightarrow> bool" where
  "at_level levels b v \<longleftrightarrow> typed_eq (snd (levels ! 0)) v = (\<not> b) \<and> typed_eq (snd (levels ! 1)) v = b"

lemma corner_selector:
  assumes "at_level (input_levels p) i vi" "at_level (target_levels p) t vt"
    "at_level (compensator_levels p) c vc" "at_level (sham_levels p) s vs"
  shows "selector_eq (gc_selector (cell_at p i' t' c' s')) (full_selector vi vt vc vs)
    \<longleftrightarrow> i' = i \<and> t' = t \<and> c' = c \<and> s' = s"
proof -
  have pick: "typed_eq (snd (ls ! (if b' then 1 else 0))) v \<longleftrightarrow> b' = b" if "at_level ls b v" for ls b b' v
    using that by (cases b'; cases b) (simp_all add: at_level_def)
  show ?thesis
    unfolding selector_eq_def cell_at_def Let_def full_selector_def
    by (simp only: generated_cell.simps cell_selector.simps opt_eq.simps pick [OF assms(1)] pick [OF assms(2)]
        pick [OF assms(3)] pick [OF assms(4)])
qed

lemma cell_for_corner:
  assumes "at_level (input_levels p) i vi" "at_level (target_levels p) t vt"
    "at_level (compensator_levels p) c vc" "at_level (sham_levels p) s vs"
  shows "cell_for (generate_cells p) (full_selector vi vt vc vs) = Inr (cell_at p i t c s)"
  unfolding cell_for_def generate_cells_corners
  by (cases i; cases t; cases c; cases s) (simp_all add: corner_selector [OF assms])

lemma levels_apart:
  assumes "finite_value a" "finite_value b" "\<not> same_value a b" "levels = [(x, a), (y, b)]"
  shows "at_level levels False a" "at_level levels True b"
    "finite_value v \<Longrightarrow> same_value v a \<Longrightarrow> at_level levels False v"
    "finite_value v \<Longrightarrow> same_value v b \<Longrightarrow> at_level levels True v"
  using assms by (auto simp: at_level_def typed_eq_same_value, auto simp: same_value_def)

text \<open>The levels of a validated profile; each control stands at one of its two levels.\<close>

lemma profile_levels:
  assumes "validate_masking_profile p = Inr ()"
  shows "at_level (input_levels p) False (ia_attack (pr_input p))"
    "at_level (input_levels p) True (ia_benign (pr_input p))"
    "at_level (target_levels p) False (ca_low (pr_target p))"
    "at_level (target_levels p) True (ca_high (pr_target p))"
    "at_level (compensator_levels p) False (ca_low (pr_compensator p))"
    "at_level (compensator_levels p) True (ca_high (pr_compensator p))"
    "at_level (sham_levels p) False (sa_steady (pr_sham p))"
    "at_level (sham_levels p) True (sa_redeploy (pr_sham p))"
    "\<exists>t. at_level (target_levels p) t (ca_current (pr_target p))"
    "\<exists>c. at_level (compensator_levels p) c (ca_current (pr_compensator p))"
proof -
  have axes: "validate_input_axis (pr_input p) = Inr ()" "validate_control_axis ''target'' (pr_target p) = Inr ()"
    "validate_control_axis ''compensator'' (pr_compensator p) = Inr ()" "validate_sham_axis (pr_sham p) = Inr ()"
    using assms by (auto simp: validate_masking_profile_def result_simps simp del: raise_first.simps)
  have apart: "\<not> same_value a b" if "check_axis_levels n a b = Inr ()" for n a b
    using that by (auto simp: check_axis_levels_def split: if_splits)
  have current: "same_value v a \<or> same_value v b" if "check_current n v a b = Inr ()" for n v a b
    using that by (auto simp: check_current_def split: if_splits)
  have control: "finite_value (ca_low a) \<and> finite_value (ca_high a) \<and> finite_value (ca_current a)
      \<and> \<not> same_value (ca_low a) (ca_high a)
      \<and> (same_value (ca_current a) (ca_low a) \<or> same_value (ca_current a) (ca_high a))"
    if "validate_control_axis n a = Inr ()" for n a
    using that apart validate_typed_finite current [of n "ca_current a" "ca_low a" "ca_high a"]
    by (auto simp: validate_control_axis_def rbind_eq_Inr split: if_splits)
  have input: "finite_value (ia_attack a) \<and> finite_value (ia_benign a) \<and> \<not> same_value (ia_attack a) (ia_benign a)"
    if "validate_input_axis a = Inr ()" for a
    using that apart validate_typed_finite by (auto simp: validate_input_axis_def rbind_eq_Inr split: if_splits)
  have sham: "finite_value (sa_steady a) \<and> finite_value (sa_redeploy a) \<and> \<not> same_value (sa_steady a) (sa_redeploy a)"
    if "validate_sham_axis a = Inr ()" for a
    using that apart validate_typed_finite by (auto simp: validate_sham_axis_def rbind_eq_Inr)
  note facts = input [OF axes(1)] control [OF axes(2)] control [OF axes(3)] sham [OF axes(4)]
  show "at_level (input_levels p) False (ia_attack (pr_input p))"
    "at_level (input_levels p) True (ia_benign (pr_input p))"
    "at_level (target_levels p) False (ca_low (pr_target p))"
    "at_level (target_levels p) True (ca_high (pr_target p))"
    "at_level (compensator_levels p) False (ca_low (pr_compensator p))"
    "at_level (compensator_levels p) True (ca_high (pr_compensator p))"
    "at_level (sham_levels p) False (sa_steady (pr_sham p))"
    "at_level (sham_levels p) True (sa_redeploy (pr_sham p))"
    using facts levels_apart(1,2) [OF _ _ _ input_levels_def] levels_apart(1,2) [OF _ _ _ target_levels_def]
      levels_apart(1,2) [OF _ _ _ compensator_levels_def] levels_apart(1,2) [OF _ _ _ sham_levels_def] by simp_all
  show "\<exists>t. at_level (target_levels p) t (ca_current (pr_target p))"
    using facts(2) levels_apart(3,4) [OF _ _ _ target_levels_def, of p "ca_current (pr_target p)"] by blast
  show "\<exists>c. at_level (compensator_levels p) c (ca_current (pr_compensator p))"
    using facts(3) levels_apart(3,4) [OF _ _ _ compensator_levels_def, of p "ca_current (pr_compensator p)"] by blast
qed

text \<open>The axes on which two selectors differ.\<close>

fun axis_value :: "cell_selector \<Rightarrow> axis \<Rightarrow> typed_value option" where
  "axis_value s AxisInput = cs_input s"
| "axis_value s AxisTarget = cs_target s"
| "axis_value s AxisCompensator = cs_compensator s"
| "axis_value s AxisSham = cs_sham s"

definition varied_axes :: "cell_selector \<Rightarrow> cell_selector \<Rightarrow> axis set" where
  "varied_axes a b = {x. \<not> opt_eq (axis_value a x) (axis_value b x)}"

definition attack_contrast :: "contrast_id \<Rightarrow> bool" where
  "attack_contrast i \<longleftrightarrow> i \<in> {TargetAttackEffect, ShamInvariance, CompensatorAttackEffect}"

text \<open>What a contrast promises about its single pair of cells.\<close>

definition sound_contrast :: "masking_profile \<Rightarrow> contrast_definition \<Rightarrow> bool" where
  "sound_contrast p d \<longleftrightarrow> (\<exists>r \<in> set (generate_cells p). \<exists>c \<in> set (generate_cells p).
     cd_pairs d = [\<lparr>cp_reference = gc_key r, cp_comparison = gc_key c\<rparr>]
     \<and> varied_axes (gc_selector r) (gc_selector c) = {cd_varied_axis d}
     \<and> cs_input (gc_selector r) = Some (if attack_contrast (cd_id d) then ia_attack (pr_input p) else ia_benign (pr_input p))
     \<and> cs_sham (gc_selector r) = Some (sa_steady (pr_sham p))
     \<and> (cd_id d = ShamInvariance \<longrightarrow> selector_eq (gc_selector r) (current_selector p)))"

lemma axis_all: "(\<forall>x. P x) \<longleftrightarrow> P AxisInput \<and> P AxisTarget \<and> P AxisCompensator \<and> P AxisSham"
  by (metis axis.exhaust)

lemma varied_corners:
  assumes "validate_masking_profile p = Inr ()"
  shows "varied_axes (gc_selector (cell_at p i t c s)) (gc_selector (cell_at p i' t' c' s'))
    = {x. case x of AxisInput \<Rightarrow> i \<noteq> i' | AxisTarget \<Rightarrow> t \<noteq> t' | AxisCompensator \<Rightarrow> c \<noteq> c' | AxisSham \<Rightarrow> s \<noteq> s'}"
proof -
  have two: "typed_eq (snd (ls ! (if b then 1 else 0))) (snd (ls ! (if b' then 1 else 0))) \<longleftrightarrow> b = b'"
    if "at_level ls False (snd (ls ! 0))" "at_level ls True (snd (ls ! 1))" for ls b b'
    using that by (cases b; cases b') (simp_all add: at_level_def)
  note l = profile_levels [OF assms]
  have levels: "typed_eq (snd (input_levels p ! (if i then 1 else 0))) (snd (input_levels p ! (if i' then 1 else 0))) \<longleftrightarrow> i = i'"
    "typed_eq (snd (target_levels p ! (if t then 1 else 0))) (snd (target_levels p ! (if t' then 1 else 0))) \<longleftrightarrow> t = t'"
    "typed_eq (snd (compensator_levels p ! (if c then 1 else 0))) (snd (compensator_levels p ! (if c' then 1 else 0))) \<longleftrightarrow> c = c'"
    "typed_eq (snd (sham_levels p ! (if s then 1 else 0))) (snd (sham_levels p ! (if s' then 1 else 0))) \<longleftrightarrow> s = s'"
    using l(1-8) by (auto intro!: two simp only:)
      (simp_all add: input_levels_def target_levels_def compensator_levels_def sham_levels_def)
  show ?thesis
    unfolding varied_axes_def set_eq_iff axis_all
    by (simp only: mem_Collect_eq axis_value.simps axis.case cell_at_def Let_def full_selector_def
        generated_cell.simps cell_selector.simps opt_eq.simps levels)
qed

lemma pair_of_corners:
  assumes "cell_for cells a = Inr r" "cell_for cells b = Inr c"
  shows "pair_of cells a b = Inr [\<lparr>cp_reference = gc_key r, cp_comparison = gc_key c\<rparr>]"
  using assms by (simp add: pair_of_def)

lemma sound_contrastI:
  assumes "validate_masking_profile p = Inr ()"
    and "{x. case x of AxisInput \<Rightarrow> False | AxisTarget \<Rightarrow> t \<noteq> t' | AxisCompensator \<Rightarrow> c \<noteq> c' | AxisSham \<Rightarrow> s'} = {x}"
    and "i \<longleftrightarrow> \<not> attack_contrast k"
    and "k = ShamInvariance \<longrightarrow> selector_eq (gc_selector (cell_at p i t c False)) (current_selector p)"
  shows "sound_contrast p \<lparr>cd_id = k, cd_metric_id = m, cd_relation = r, cd_varied_axis = x,
    cd_pairs = [\<lparr>cp_reference = gc_key (cell_at p i t c False), cp_comparison = gc_key (cell_at p i t' c' s')\<rparr>]\<rparr>"
proof -
  let ?r = "cell_at p i t c False"
  have "cs_input (gc_selector ?r) = Some (if i then ia_benign (pr_input p) else ia_attack (pr_input p))"
    "cs_sham (gc_selector ?r) = Some (sa_steady (pr_sham p))"
    by (simp_all add: cell_at_def full_selector_def input_levels_def sham_levels_def Let_def)
  moreover have "varied_axes (gc_selector ?r) (gc_selector (cell_at p i t' c' s')) = {x}"
    using assms(2) unfolding varied_corners [OF assms(1)] set_eq_iff axis_all by simp
  ultimately show ?thesis unfolding sound_contrast_def
    using assms(3,4) by (intro bexI [of _ ?r] bexI [of _ "cell_at p i t' c' s'"] cell_at_in) simp
qed

lemma contrasts_resolve:
  assumes "validate_masking_profile p = Inr ()"
  shows "\<exists>cs. generate_contrasts p (generate_cells p) = Inr cs
    \<and> map cd_id cs = [TargetAttackEffect, TargetBenignInvariance, CompensatorBenignInvariance, ShamInvariance,
        CompensatorAttackEffect]
    \<and> map cd_varied_axis cs = [AxisTarget, AxisTarget, AxisCompensator, AxisSham, AxisCompensator]
    \<and> list_all (sound_contrast p) cs"
proof -
  note l = profile_levels [OF assms]
  obtain t c where tc: "at_level (target_levels p) t (ca_current (pr_target p))"
    "at_level (compensator_levels p) c (ca_current (pr_compensator p))" using l(9,10) by blast
  note corner = cell_for_corner [of p]
  have cur: "selector_eq (gc_selector (cell_at p False t c False)) (current_selector p)"
    unfolding current_selector_def by (simp add: corner_selector [OF l(1) tc l(7)])
  note pairs = pair_of_corners [OF corner [OF l(1) l(3) l(5) l(7)] corner [OF l(1) l(4) l(5) l(7)]]
    pair_of_corners [OF corner [OF l(2) l(3) l(5) l(7)] corner [OF l(2) l(4) l(5) l(7)]]
    pair_of_corners [OF corner [OF l(2) tc(1) l(5) l(7)] corner [OF l(2) tc(1) l(6) l(7)]]
    pair_of_corners [OF corner [OF l(1) tc(1) tc(2) l(7)] corner [OF l(1) tc(1) tc(2) l(8)]]
    pair_of_corners [OF corner [OF l(1) l(3) l(5) l(7)] corner [OF l(1) l(3) l(6) l(7)]]
  show ?thesis
    unfolding generate_contrasts_def Let_def pairs rbind_simps
    by (rule exI, rule conjI, rule refl, simp only: list.map contrast_definition.simps list.pred_inject)
      (intro conjI refl TrueI sound_contrastI [OF assms], simp_all add: set_eq_iff axis_all attack_contrast_def cur)
qed

text \<open>
  C35. For every validated profile the five contrasts resolve against the sixteen generated cells, and
  each compares one pair of cells that differ on exactly the axis the contrast names. The attack
  effects and the sham check run on the attack input, the benign invariances on the benign input; the
  reference cell is always at the steady sham level, and the sham check starts from the current cell.
\<close>

theorem contrasts_vary_one_axis:
  assumes "validate_masking_profile p = Inr ()"
  shows "\<exists>cs. generate_contrasts p (generate_cells p) = Inr cs
    \<and> map cd_id cs = [TargetAttackEffect, TargetBenignInvariance, CompensatorBenignInvariance, ShamInvariance,
        CompensatorAttackEffect]
    \<and> map cd_varied_axis cs = [AxisTarget, AxisTarget, AxisCompensator, AxisSham, AxisCompensator]
    \<and> list_all (sound_contrast p) cs"
  using assms by (rule contrasts_resolve)

end
