(* ===== verification/Contract_Plan.thy ===== *)
theory Contract_Plan
  imports Contract Decimal_Props "HOL-Library.Multiset"
begin

text \<open>
  The trial plan of a compiled experiment: every combination of cell, block and replicate is one
  trial, the trial keys hash pairwise different materials, and the ordinals number the trials in the
  order of their seeded order keys.
\<close>

section \<open>The factorial\<close>

lemma trial_triples_product:
  "trial_triples plan cells =
     List.product (map gc_key cells) (List.product (sort (tp_blocks plan)) [1..<nat (tp_replicates plan) + 1])"
  by (simp add: trial_triples_def product_concat_map map_concat comp_def)

lemma cell_keys_distinct: "length (generate_cells p) = 16" "distinct (map gc_key (generate_cells p))"
  by (simp_all add: generate_cells_def input_levels_def target_levels_def compensator_levels_def
      sham_levels_def cell_key_def)

definition trial_bytes :: "string \<Rightarrow> string \<times> string \<times> nat \<Rightarrow> bytes" where
  "trial_bytes spec_digest = (\<lambda>(cell, block, rep). concat (map utf8_code_point (trial_material spec_digest cell block rep)))"

definition order_bytes :: "trial_plan \<Rightarrow> string \<Rightarrow> bytes" where
  "order_bytes plan trial_key = concat (map utf8_code_point (tp_order_seed plan @ [0] @ text_of trial_key))"

definition raw_row ::
  "'e model_env_scheme \<Rightarrow> trial_plan \<Rightarrow> string \<Rightarrow> string \<times> string \<times> nat \<Rightarrow> string \<times> string \<times> string \<times> nat \<times> string" where
  "raw_row E plan spec_digest =
     (\<lambda>(cell, block, rep).
        let key = sha256_bytes E (trial_bytes spec_digest (cell, block, rep)) in
        (sha256_hexdigest E (order_bytes plan key), key, cell, rep, block))"

lemma raw_trial_row: "raw_trial E plan d t = Inr r \<Longrightarrow> r = raw_row E plan d t"
  by (auto simp: raw_trial_def raw_row_def trial_bytes_def order_bytes_def utf8_encode_def Let_def
      rbind_eq_Inr split: if_splits prod.splits)

lemma raw_trials: "rmap (raw_trial E plan d) ts = Inr rows \<Longrightarrow> rows = map (raw_row E plan d) ts"
  unfolding rmap_Inr by (induction rule: list_all2_induct) (auto dest: raw_trial_row)

section \<open>Numbering\<close>

abbreviation trial_triple :: "planned_trial \<Rightarrow> string \<times> string \<times> int" where
  "trial_triple t \<equiv> (pt_cell_key t, pt_block t, pt_replicate t)"

lemma number_trials_length: "length (number_trials n rows) = length rows"
  by (induction n rows rule: number_trials.induct) auto

lemma number_trials_ordinals: "map pt_ordinal (number_trials n rows) = [n..n + int (length rows) - 1]"
proof (induction n rows rule: number_trials.induct)
  case (2 n ok tk cell rep block rest)
  have "n + 1 + int (length rest) - 1 = n + int (length ((ok, tk, cell, rep, block) # rest)) - 1" by simp
  then show ?case using 2 by (simp add: upto_rec1)
qed simp

lemma number_trials_fields:
  "map (\<lambda>t. (pt_key t, pt_cell_key t, pt_replicate t, pt_block t)) (number_trials n rows)
   = map (\<lambda>(ok, key, cell, rep, block). (key, cell, int rep, block)) rows"
  by (induction n rows rule: number_trials.induct) auto

lemma number_trials_triples:
  "map trial_triple (number_trials n rows) = map (\<lambda>(ok, key, cell, rep, block). (cell, block, int rep)) rows"
  by (induction n rows rule: number_trials.induct) auto

section \<open>Distinct materials\<close>

lemma utf8_code_point_ascii: "c < 128 \<Longrightarrow> utf8_code_point c = [of_nat c]"
  by (simp add: utf8_code_point_def)

lemma ascii_bytes_inj:
  "\<forall>c \<in> set xs. c < 128 \<Longrightarrow> \<forall>c \<in> set ys. c < 128 \<Longrightarrow> concat (map utf8_code_point xs) = concat (map utf8_code_point ys) \<Longrightarrow> xs = ys"
proof (induction xs arbitrary: ys)
  case Nil
  then show ?case by (cases ys) (auto simp: utf8_code_point_ascii)
next
  case (Cons c xs)
  then obtain e zs where ys: "ys = e # zs" by (cases ys) (auto simp: utf8_code_point_ascii)
  have "(of_nat c :: 8 word) = of_nat e" "xs = zs" "c < 2 ^ 8" "e < 2 ^ 8"
    using Cons.prems Cons.IH [of zs] ys by (auto simp: utf8_code_point_ascii)
  then show ?case using ys by (simp add: word_of_nat_eq_iff take_bit_nat_eq_self)
qed

lemma split_at_zero:
  fixes a b :: code_points
  shows "0 \<notin> set a \<Longrightarrow> 0 \<notin> set b \<Longrightarrow> a @ 0 # r = b @ 0 # s \<longleftrightarrow> a = b \<and> r = s"
  by (induction a arbitrary: b) (case_tac b; auto)+

definition plain :: "string \<Rightarrow> bool" where
  "plain s \<longleftrightarrow> (\<forall>c \<in> set (text_of s). 0 < c \<and> c < 128)"

lemma text_of_inj: "text_of s = text_of t \<longleftrightarrow> s = t"
  by (simp add: text_of_def inj_map_eq_map inj_on_def)

lemma plain_chars:
  "lower_char c \<or> digit_char c \<or> c \<in> set ''._-'' \<Longrightarrow> 0 < (of_char c :: nat) \<and> (of_char c :: nat) < 128"
  by (auto simp: lower_char_def digit_char_def less_eq_char_def)

lemma portable_plain: "portable_id s \<Longrightarrow> plain s"
  using plain_chars by (fastforce simp: portable_id_def plain_def text_of_def list_all_iff split: list.splits)

lemma decimal_plain: "plain (decimal n)"
  using decimal_digits(1) [of n] plain_chars by (fastforce simp: plain_def text_of_def list_all_iff)

lemma cell_key_plain: "k \<in> set (map gc_key (generate_cells p)) \<Longrightarrow> plain k"
  by (auto simp: generate_cells_def input_levels_def target_levels_def compensator_levels_def sham_levels_def
      cell_key_def plain_def text_of_def)

lemma decimal_inj: "decimal m = decimal n \<longleftrightarrow> m = n"
  using decimal_digits(2) by (metis of_nat_eq_iff)

lemma trial_bytes_inj:
  assumes "plain k" "plain b" "plain k'" "plain b'" "trial_bytes d (k, b, r) = trial_bytes d (k', b', r')"
  shows "k = k' \<and> b = b' \<and> r = r'"
proof -
  let ?tail = "\<lambda>k b r. text_of k @ 0 # text_of b @ 0 # text_of (decimal r)"
  have ascii: "\<forall>c \<in> set (?tail k b r). c < 128" if "plain k" "plain b" for k b r
    using that decimal_plain [of r] by (auto simp: plain_def)
  have "concat (map utf8_code_point (?tail k b r)) = concat (map utf8_code_point (?tail k' b' r'))"
    using assms(5) by (simp add: trial_bytes_def trial_material_def)
  then have "?tail k b r = ?tail k' b' r'" by (intro ascii_bytes_inj ascii assms)
  moreover have "0 \<notin> set (text_of s)" if "plain s" for s using that by (auto simp: plain_def)
  ultimately show ?thesis using assms by (simp add: split_at_zero text_of_inj decimal_inj)
qed

section \<open>The plan of a compiled experiment\<close>

lemma plan_trials_rows:
  assumes "plan_trials E plan cells d = Inr trials"
  obtains rows where "trials = number_trials 1 rows"
    "rows = sort_key (\<lambda>(order_key, trial_key, _). (order_key, trial_key)) (map (raw_row E plan d) (trial_triples plan cells))"
  using assms unfolding plan_trials_def rbind_eq_Inr by (auto dest: raw_trials)

definition trial_material_of :: "string \<Rightarrow> planned_trial \<Rightarrow> bytes" where
  "trial_material_of spec_digest t = trial_bytes spec_digest (pt_cell_key t, pt_block t, nat (pt_replicate t))"

definition seeded_order :: "'e model_env_scheme \<Rightarrow> trial_plan \<Rightarrow> planned_trial \<Rightarrow> string \<times> string" where
  "seeded_order E plan t = (sha256_hexdigest E (order_bytes plan (pt_key t)), pt_key t)"

lemma compiled_plan:
  assumes "compile_experiment E c = Inr x"
  shows "validate_plan (xc_plan c) = Inr ()" "validate_plan_size (xc_plan c) = Inr ()"
    "ce_cells x = generate_cells (xc_profile c)" "ce_contract x = c"
    "plan_trials E (xc_plan c) (ce_cells x) (ce_spec_digest x) = Inr (ce_planned_trials x)"
  using assms unfolding compile_experiment_def validate_contract_def
  by (auto simp: Let_def rbind_eq_Inr on_error_Inr simp del: raise_first.simps)

lemma numbered_rows:
  assumes "\<forall>r \<in> set rows. \<exists>t. r = raw_row E plan d t"
  shows "map (\<lambda>t. (seeded_order E plan t, trial_material_of d t)) (number_trials n rows)
    = map (\<lambda>(ok, key, cell, rep, block). ((ok, key), trial_bytes d (cell, block, rep))) rows"
    "map pt_key (number_trials n rows) = map (\<lambda>(ok, key, cell, rep, block). sha256_bytes E (trial_bytes d (cell, block, rep))) rows"
  using assms
  by (induction n rows rule: number_trials.induct)
    (auto simp: raw_row_def seeded_order_def trial_material_of_def Let_def split: prod.splits)

lemma planned_triples:
  assumes "plan_trials E plan cells d = Inr trials"
  shows "mset (map trial_triple trials) = mset (map (\<lambda>(k, b, r). (k, b, int r)) (trial_triples plan cells))"
proof -
  obtain rows where r: "trials = number_trials 1 rows"
    "rows = sort_key (\<lambda>(order_key, trial_key, _). (order_key, trial_key)) (map (raw_row E plan d) (trial_triples plan cells))"
    using assms by (rule plan_trials_rows)
  have "(\<lambda>(ok, key, cell, rep, block). (cell, block, int rep)) (raw_row E plan d t) = (\<lambda>(k, b, r). (k, b, int r)) t" for t
    by (cases t) (simp add: raw_row_def Let_def)
  then show ?thesis unfolding r(1) number_trials_triples r(2) by (simp add: multiset.map_comp comp_def)
qed

lemma planned_factorial:
  assumes "plan_trials E plan cells d = Inr trials" "distinct (map gc_key cells)" "distinct (tp_blocks plan)"
    "1 \<le> tp_replicates plan"
  shows "distinct (map trial_triple trials)"
    "set (map trial_triple trials) = set (map gc_key cells) \<times> set (tp_blocks plan) \<times> {1..tp_replicates plan}"
    "length trials = length cells * (length (tp_blocks plan) * nat (tp_replicates plan))"
proof -
  note m = planned_triples [OF assms(1)]
  let ?f = "\<lambda>(k :: string, b :: string, r). (k, b, int r)"
  have inj: "inj ?f" by (auto simp: inj_def)
  have "distinct (map ?f (trial_triples plan cells))"
    using assms(2,3) by (auto simp: trial_triples_product distinct_map distinct_product inj_on_def)
  then show "distinct (map trial_triple trials)" using mset_eq_imp_distinct_iff [OF m] by simp
  have "int ` {1..<nat (tp_replicates plan) + 1} = {1..tp_replicates plan}"
    using assms(4) by (force simp: image_iff intro!: bexI [of _ "nat _"])
  then have "?f ` (K \<times> B \<times> {1..<nat (tp_replicates plan) + 1}) = K \<times> B \<times> {1..tp_replicates plan}" for K B
    by (force simp: image_iff)
  then show "set (map trial_triple trials) = set (map gc_key cells) \<times> set (tp_blocks plan) \<times> {1..tp_replicates plan}"
    using mset_eq_setD [OF m] by (simp only: trial_triples_product set_map set_product set_upt set_sort)
  show "length trials = length cells * (length (tp_blocks plan) * nat (tp_replicates plan))"
    using mset_eq_length [OF m] by (simp add: trial_triples_product)
qed

lemma planned_keys:
  assumes "plan_trials E plan cells d = Inr trials"
  shows "\<forall>t \<in> set trials. pt_key t = sha256_bytes E (trial_material_of d t)"
    "sorted (map (seeded_order E plan) trials)" "map pt_ordinal trials = [1..int (length trials)]"
proof -
  obtain rows where r: "trials = number_trials 1 rows"
    "rows = sort_key (\<lambda>(order_key, trial_key, _). (order_key, trial_key)) (map (raw_row E plan d) (trial_triples plan cells))"
    using assms by (rule plan_trials_rows)
  have "\<forall>q \<in> set rows. \<exists>t. q = raw_row E plan d t" unfolding r(2) by auto
  note n = numbered_rows [OF this, of 1, folded r(1)]
  have "map (sha256_bytes E \<circ> snd) (map (\<lambda>t. (seeded_order E plan t, trial_material_of d t)) trials) = map pt_key trials"
    unfolding n by (simp add: comp_def split_def)
  then show "\<forall>t \<in> set trials. pt_key t = sha256_bytes E (trial_material_of d t)" by simp
  have "map (seeded_order E plan) trials = map (\<lambda>(order_key, trial_key, _). (order_key, trial_key)) rows"
    using arg_cong [OF n(1), of "map fst"] by (simp add: comp_def split_def)
  then show "sorted (map (seeded_order E plan) trials)" unfolding r(2) by (simp only: sorted_sort_key)
  show "map pt_ordinal trials = [1..int (length trials)]"
    using number_trials_ordinals [of 1 rows] unfolding r(1) number_trials_length by simp
qed

lemma materials_distinct:
  assumes "distinct (map trial_triple trials)"
    and "\<forall>t \<in> set trials. plain (pt_cell_key t) \<and> plain (pt_block t) \<and> 0 \<le> pt_replicate t"
  shows "inj_on (trial_material_of d) (set trials)"
proof (rule inj_onI)
  fix t u assume tu: "t \<in> set trials" "u \<in> set trials" "trial_material_of d t = trial_material_of d u"
  then have "trial_triple t = trial_triple u"
    using assms(2) trial_bytes_inj [of "pt_cell_key t" "pt_block t" "pt_cell_key u" "pt_block u" d "nat (pt_replicate t)"
      "nat (pt_replicate u)"] by (auto simp: trial_material_of_def eq_nat_nat_iff)
  then show "t = u" using assms(1) tu(1,2) by (auto simp: distinct_map dest: inj_onD)
qed

text \<open>
  C36. The plan of a compiled experiment is the full factorial: every combination of one of the sixteen
  cells, a block and a replicate number is exactly one trial, so there are sixteen times blocks times
  replicates of them, at most 100,000. The ordinals run from one, in the order of the seeded order
  keys, and the trial keys are the hashes of pairwise different materials: two trials share a key
  only through a collision of SHA-256.
\<close>

theorem plan_is_factorial:
  assumes "compile_experiment E c = Inr x"
  shows "distinct (map trial_triple (ce_planned_trials x))
    \<and> set (map trial_triple (ce_planned_trials x))
        = set (map gc_key (ce_cells x)) \<times> set (tp_blocks (xc_plan c)) \<times> {1..tp_replicates (xc_plan c)}
    \<and> length (ce_planned_trials x) = 16 * (length (tp_blocks (xc_plan c)) * nat (tp_replicates (xc_plan c)))
    \<and> length (ce_planned_trials x) \<le> 100000
    \<and> map pt_ordinal (ce_planned_trials x) = [1..int (length (ce_planned_trials x))]
    \<and> sorted (map (seeded_order E (xc_plan c)) (ce_planned_trials x))
    \<and> (\<forall>t \<in> set (ce_planned_trials x). pt_key t = sha256_bytes E (trial_material_of (ce_spec_digest x) t))
    \<and> inj_on (trial_material_of (ce_spec_digest x)) (set (ce_planned_trials x))"
proof -
  note c = compiled_plan [OF assms]
  have b: "\<forall>b \<in> set (tp_blocks (xc_plan c)). portable_id b" "distinct (tp_blocks (xc_plan c))"
    "1 \<le> tp_replicates (xc_plan c)"
    using c(1) by (auto simp: validate_plan_def list_all_iff between_def card_distinct split: if_splits)
  note k = cell_keys_distinct [of "xc_profile c", folded c(3)]
  note f = planned_factorial [OF c(5) k(2) b(2,3)] and p = planned_keys [OF c(5)]
  have "\<forall>t \<in> set (ce_planned_trials x). plain (pt_cell_key t) \<and> plain (pt_block t) \<and> 0 \<le> pt_replicate t"
  proof
    fix t assume "t \<in> set (ce_planned_trials x)"
    then have "trial_triple t \<in> set (map gc_key (ce_cells x)) \<times> set (tp_blocks (xc_plan c)) \<times> {1..tp_replicates (xc_plan c)}"
      unfolding f(2) [symmetric] by simp
    then show "plain (pt_cell_key t) \<and> plain (pt_block t) \<and> 0 \<le> pt_replicate t"
      using b(1) portable_plain cell_key_plain [of "pt_cell_key t" "xc_profile c"] c(3) by auto
  qed
  note inj = materials_distinct [OF f(1) this]
  have "16 * int (length (tp_blocks (xc_plan c))) * tp_replicates (xc_plan c) \<le> 100000"
    using c(2) by (simp add: validate_plan_size_def MAX_PLANNED_TRIALS_def split: if_splits)
  then have "int (length (ce_planned_trials x)) \<le> 100000"
    using f(3) b(3) unfolding k(1) by (simp add: mult.assoc)
  then have "length (ce_planned_trials x) \<le> 100000" by linarith
  then show ?thesis using f(3) unfolding k(1) by (intro conjI f(1,2) p inj)
qed

end
