(* ===== verification/Contract_Order.thy ===== *)
theory Contract_Order
  imports Contract "HOL-Library.Multiset"
begin

text \<open>
  The order in which a contract lists its metrics, obligations and blocks has no effect on what the
  compiler produces: the specification digest, the cells, the trials, the coverage and the contrasts.
\<close>

section \<open>Checks that read a list as a set\<close>

definition succeeds :: "'a result \<Rightarrow> bool" where
  "succeeds m \<longleftrightarrow> (\<exists>x. m = Inr x)"

lemma succeeds_rbind: "succeeds (rbind m f) \<longleftrightarrow> (\<exists>x. m = Inr x \<and> succeeds (f x))"
  by (auto simp: succeeds_def rbind_eq_Inr)

lemma succeeds_rmap: "succeeds (rmap f xs) \<longleftrightarrow> (\<forall>x \<in> set xs. succeeds (f x))"
  by (induction xs) (auto simp: succeeds_def rbind_eq_Inr)

lemma succeeds_unit: "(m :: unit result) = Inr () \<longleftrightarrow> succeeds m"
  by (simp add: succeeds_def)

lemma then_unit: "rbind m (\<lambda>_. f) = Inr y \<longleftrightarrow> succeeds m \<and> f = Inr y"
  by (auto simp: succeeds_def rbind_eq_Inr)

lemma rmap_permuted:
  "mset xs = mset ys \<Longrightarrow> succeeds (rmap f xs) \<longleftrightarrow> succeeds (rmap f ys)"
  by (drule mset_eq_setD) (simp add: succeeds_rmap)

section \<open>Unique identifiers\<close>

lemma unique_by_id_Inr:
  "unique_by_id key label acc xs = Inr res \<longleftrightarrow>
     distinct (map key xs) \<and> (\<forall>x \<in> set xs. key x \<notin> fst ` set acc) \<and> res = acc @ map (\<lambda>x. (key x, x)) xs"
proof (induction key label acc xs rule: unique_by_id.induct)
  case (2 key label acc x xs)
  show ?case
  proof (cases "key x \<in> fst ` set acc")
    case True
    then have "map_of acc (key x) \<noteq> None" by (simp add: map_of_eq_None_iff)
    then show ?thesis using True by simp
  next
    case False
    then have "map_of acc (key x) = None" by (simp add: map_of_eq_None_iff)
    then show ?thesis using 2 False by (auto simp: image_iff; metis)
  qed
qed auto

lemma unique_by_id_ok:
  "unique_by_id key label [] xs = Inr res \<longleftrightarrow> distinct (map key xs) \<and> res = map (\<lambda>x. (key x, x)) xs"
  by (simp add: unique_by_id_Inr)

lemma permuted_ids:
  assumes "mset xs = mset ys" "distinct (map key xs)"
  shows "distinct (map key ys)" "map_of (map (\<lambda>x. (key x, x)) xs) = map_of (map (\<lambda>x. (key x, x)) ys)"
    "sort_key key xs = sort_key (key :: 'a \<Rightarrow> string) ys"
proof -
  have "mset (map key xs) = mset (map key ys)" using assms(1) by simp
  then show d: "distinct (map key ys)" using assms(2) mset_eq_imp_distinct_iff by blast
  have "map fst (map (\<lambda>x. (key x, x)) zs) = map key zs" for zs by simp
  then show "map_of (map (\<lambda>x. (key x, x)) xs) = map_of (map (\<lambda>x. (key x, x)) ys)"
    using assms(2) d mset_eq_setD [OF assms(1)] by (subst map_of_inject_set) (simp_all del: map_map)
  show "sort_key key xs = sort_key key ys"
    using assms by (intro sort_key_inj_key_eq) (simp_all add: distinct_map)
qed

lemma sort_permuted: "mset (xs :: string list) = mset ys \<Longrightarrow> sort xs = sort ys"
  by (rule sort_key_inj_key_eq) simp_all

section \<open>Contracts up to order\<close>

definition same_up_to_order :: "experiment_contract \<Rightarrow> experiment_contract \<Rightarrow> bool" where
  "same_up_to_order c c' \<longleftrightarrow>
     xc_id c = xc_id c' \<and> xc_scope c = xc_scope c' \<and> xc_profile c = xc_profile c'
     \<and> mset (xc_metrics c) = mset (xc_metrics c') \<and> mset (xc_obligations c) = mset (xc_obligations c')
     \<and> mset (tp_blocks (xc_plan c)) = mset (tp_blocks (xc_plan c'))
     \<and> tp_replicates (xc_plan c) = tp_replicates (xc_plan c') \<and> tp_order_seed (xc_plan c) = tp_order_seed (xc_plan c')"

lemma same_lists:
  assumes "same_up_to_order c c'"
  shows "set (xc_metrics c) = set (xc_metrics c')" "length (xc_metrics c) = length (xc_metrics c')"
    "set (xc_obligations c) = set (xc_obligations c')" "length (xc_obligations c) = length (xc_obligations c')"
    "set (tp_blocks (xc_plan c)) = set (tp_blocks (xc_plan c'))"
    "length (tp_blocks (xc_plan c)) = length (tp_blocks (xc_plan c'))"
    "xc_metrics c = [] \<longleftrightarrow> xc_metrics c' = []" "xc_obligations c = [] \<longleftrightarrow> xc_obligations c' = []"
    "tp_blocks (xc_plan c) = [] \<longleftrightarrow> tp_blocks (xc_plan c') = []"
  using assms unfolding same_up_to_order_def
  by (auto dest: mset_eq_setD mset_eq_length)

lemma validate_contract_permuted:
  assumes "same_up_to_order c c'"
  shows "validate_contract c = Inr () \<longleftrightarrow> validate_contract c' = Inr ()"
proof -
  note l = same_lists [OF assms]
  have "validate_plan (xc_plan c) = validate_plan (xc_plan c')"
    using assms l by (simp only: validate_plan_def list_all_iff list_ex_iff l same_up_to_order_def)
  then show ?thesis
    using assms l by (simp only: validate_contract_def then_unit succeeds_rmap l same_up_to_order_def)
qed

lemma plan_permuted:
  assumes "same_up_to_order c c'"
  shows "validate_plan_size (xc_plan c) = validate_plan_size (xc_plan c')"
    "plan_trials E (xc_plan c) = plan_trials E (xc_plan c')"
proof -
  have s: "sort (tp_blocks (xc_plan c)) = sort (tp_blocks (xc_plan c'))"
    using assms by (intro sort_permuted) (simp add: same_up_to_order_def)
  show "validate_plan_size (xc_plan c) = validate_plan_size (xc_plan c')"
    using assms same_lists(6) [OF assms] by (simp add: validate_plan_size_def same_up_to_order_def)
  have "trial_triples (xc_plan c) = trial_triples (xc_plan c')" "raw_trial E (xc_plan c) = raw_trial E (xc_plan c')"
    using assms s by (simp_all add: fun_eq_iff trial_triples_def raw_trial_def same_up_to_order_def)
  then show "plan_trials E (xc_plan c) = plan_trials E (xc_plan c')" by (intro ext) (simp add: plan_trials_def)
qed

lemma payload_permuted:
  assumes "same_up_to_order c c'" "distinct (map mc_id (xc_metrics c))" "distinct (map ob_id (xc_obligations c))"
  shows "canonical_spec E c = canonical_spec E c'"
proof -
  have "sort (tp_blocks (xc_plan c)) = sort (tp_blocks (xc_plan c'))"
    "sort_key mc_id (xc_metrics c) = sort_key mc_id (xc_metrics c')"
    "sort_key ob_id (xc_obligations c) = sort_key ob_id (xc_obligations c')"
    using assms(1) permuted_ids(3) [OF _ assms(2)] permuted_ids(3) [OF _ assms(3)] sort_permuted
    unfolding same_up_to_order_def by blast+
  then have "semantic_payload c = semantic_payload c'"
    using assms(1) by (simp add: semantic_payload_def plan_json_def same_up_to_order_def)
  then show ?thesis by (simp add: canonical_spec_def)
qed

section \<open>Checks that look identifiers up\<close>

lemma lookups_only:
  assumes "map_of m = map_of m'"
  shows "validate_profile_metrics p m = validate_profile_metrics p m'"
    "check_obligation p m cells = check_obligation p m' cells"
  using assms by (auto simp: fun_eq_iff validate_profile_metrics_def bindings_def check_obligation_def)

lemma check_primary_lookups: "map_of m = map_of m' \<Longrightarrow> check_primary m = check_primary m'"
  by (auto simp: fun_eq_iff)

lemma validate_obligations_permuted:
  assumes "same_up_to_order c c'" "map_of m = map_of m'" "map_of q = map_of q'"
  shows "validate_obligations c m q cells current = Inr () \<longleftrightarrow> validate_obligations c' m' q' cells current = Inr ()"
  using assms(1) same_lists(3) [OF assms(1)] lookups_only(2) [OF assms(2)] check_primary_lookups [OF assms(3)]
  by (simp only: validate_obligations_def then_unit succeeds_rmap same_up_to_order_def)

lemma coverage_permuted:
  assumes "mset bs = mset bs'" "distinct (map ob_id bs)"
  shows "coverage bs cells trials = coverage bs' cells trials"
    "validate_minimum_trials bs cov = Inr () \<longleftrightarrow> validate_minimum_trials bs' cov = Inr ()"
  using permuted_ids(3) [OF assms] mset_eq_setD [OF assms(1)]
  by (simp_all add: coverage_def validate_minimum_trials_def raise_first_Inr del: raise_first.simps)

text \<open>
  C37. Two contracts that differ only in the order of their metrics, obligations and blocks compile to
  the same experiment: when one compiles, so does the other, with the same canonical specification
  and digest, cells, trials, coverage and contrasts.
\<close>

theorem compilation_order_independent:
  assumes "same_up_to_order c c'" "compile_experiment E c = Inr x"
  shows "compile_experiment E c' = Inr (x\<lparr>ce_contract := c'\<rparr>)"
proof -
  let ?m = "map (\<lambda>m. (mc_id m, m)) (xc_metrics c)" and ?m' = "map (\<lambda>m. (mc_id m, m)) (xc_metrics c')"
  let ?q = "map (\<lambda>b. (ob_id b, b)) (xc_obligations c)" and ?q' = "map (\<lambda>b. (ob_id b, b)) (xc_obligations c')"
  have ms: "mset (xc_metrics c) = mset (xc_metrics c')" "mset (xc_obligations c) = mset (xc_obligations c')"
    and p: "xc_profile c = xc_profile c'" using assms(1) by (simp_all add: same_up_to_order_def)
  have d: "distinct (map mc_id (xc_metrics c))" "distinct (map ob_id (xc_obligations c))"
    using assms(2) unfolding compile_experiment_def by (auto simp: rbind_eq_Inr unique_by_id_ok)
  note pm = permuted_ids [OF ms(1) d(1)] and po = permuted_ids [OF ms(2) d(2)]
  have u: "unique_by_id mc_id l [] (xc_metrics c) = Inr ?m" "unique_by_id mc_id l [] (xc_metrics c') = Inr ?m'"
    "unique_by_id ob_id l [] (xc_obligations c) = Inr ?q" "unique_by_id ob_id l [] (xc_obligations c') = Inr ?q'" for l
    using d pm(1) po(1) by (simp_all add: unique_by_id_ok)
  show ?thesis
    using assms(2) validate_contract_permuted [OF assms(1)] validate_obligations_permuted [OF assms(1) pm(2) po(2)]
    unfolding compile_experiment_def u rbind_simps
    by (auto simp: p Let_def rbind_eq_Inr on_error_Inr plan_permuted [OF assms(1)] lookups_only(1) [OF pm(2)]
        payload_permuted [OF assms(1) d] coverage_permuted [OF ms(2) d(2)])
qed

end
