(* ===== verification/Contract_Total.thy ===== *)
theory Contract_Total
  imports Contract_Props Contract_Plan Contract_Order
begin

text \<open>
  Compilation as a whole: a contract that passes its checks compiles, provided its specification has
  a canonical text, its seed can be encoded and no obligation asks for more than one trial.
\<close>

section \<open>Planning never fails on an encodable seed\<close>

definition encodable :: "code_points \<Rightarrow> bool" where
  "encodable s \<longleftrightarrow> (\<forall>c \<in> set s. c < 0xD800 \<or> 0xDFFF < c)"

lemma encodable_simps [simp]: "encodable (s @ t) \<longleftrightarrow> encodable s \<and> encodable t"
  "encodable (c # s) \<longleftrightarrow> (c < 0xD800 \<or> 0xDFFF < c) \<and> encodable s" "encodable []"
  by (auto simp: encodable_def)

lemma encodable_text [simp]: "encodable (text_of s)"
proof -
  have "(of_char c :: nat) < 256" for c :: char by (rule nat_of_char_less_256)
  then have "(of_char c :: nat) < 0xD800" for c :: char by (rule less_trans) simp
  then show ?thesis by (simp add: encodable_def text_of_def)
qed

lemma utf8_encode_ok: "encodable s \<Longrightarrow> utf8_encode s = Inr (concat (map utf8_code_point s))"
  by (auto simp: utf8_encode_def encodable_def list_ex_iff)

lemma plan_trials_total: "encodable (tp_order_seed plan) \<Longrightarrow> succeeds (plan_trials E plan cells d)"
  by (auto simp: plan_trials_def succeeds_rbind succeeds_rmap raw_trial_def utf8_encode_ok trial_material_def Let_def)
    (auto simp: succeeds_def succeeds_rmap [unfolded succeeds_def] raw_trial_def utf8_encode_ok trial_material_def Let_def)

section \<open>Every obligation with a cell is covered\<close>

lemma cell_of_key:
  assumes "distinct (map gc_key cells)" "c \<in> set cells" "pt_cell_key t = gc_key c"
  shows "trial_selector cells t = Some (gc_selector c)"
proof -
  let ?l = "rev (map (\<lambda>c. (gc_key c, c)) cells)"
  have "map fst ?l = rev (map gc_key cells)" by (simp add: rev_map comp_def)
  then have "distinct (map fst ?l)" using assms(1) by simp
  moreover have "(gc_key c, c) \<in> set ?l" using assms(2) by auto
  ultimately have "map_of ?l (gc_key c) = Some c" by (rule map_of_is_SomeI)
  then show ?thesis using assms(3) by (simp add: trial_selector_def)
qed

lemma covered:
  assumes "plan_trials E plan cells d = Inr trials" "distinct (map gc_key cells)" "distinct (tp_blocks plan)"
    "1 \<le> tp_replicates plan" "tp_blocks plan \<noteq> []"
    and "list_ex (\<lambda>c. selector_matches (ob_selector b) (gc_selector c)) cells"
  shows "covering_trials cells trials b \<noteq> []"
proof -
  obtain c where c: "c \<in> set cells" "selector_matches (ob_selector b) (gc_selector c)"
    using assms(6) by (auto simp: list_ex_iff)
  obtain k where k: "k \<in> set (tp_blocks plan)" using assms(5) by (cases "tp_blocks plan") auto
  have "(gc_key c, k, 1) \<in> set (map trial_triple trials)"
    unfolding planned_factorial(2) [OF assms(1-4)] using c k assms(4) by auto
  then obtain t where t: "t \<in> set trials" "pt_cell_key t = gc_key c" by auto
  then have "opt_ok (selector_matches (ob_selector b)) (trial_selector cells t)"
    using cell_of_key [OF assms(2) c(1) t(2)] c(2) by (simp add: opt_ok_def)
  then show ?thesis using t(1) by (auto simp: covering_trials_def filter_empty_conv)
qed

lemma coverage_rows:
  assumes "\<forall>b \<in> set bs. covering_trials cells trials b \<noteq> []" "int (length trials) \<le> MAX_PLANNED_TRIALS"
  shows "coverage bs cells trials
    = Inr (map (\<lambda>b. \<lparr>oc_obligation_id = ob_id b, oc_trial_keys = covering_trials cells trials b\<rparr>) (sort_key ob_id bs))"
  unfolding coverage_def
proof (rule rmap_all_ok)
  fix b assume "b \<in> set (sort_key ob_id bs)"
  moreover have "length (covering_trials cells trials b) \<le> length trials" by (simp add: covering_trials_def)
  ultimately show "(let keys = covering_trials cells trials b in
      if keys = [] \<or> int (length keys) > MAX_PLANNED_TRIALS then Inl (invalid ''trial_keys'')
      else Inr \<lparr>oc_obligation_id = ob_id b, oc_trial_keys = keys\<rparr>)
    = Inr \<lparr>oc_obligation_id = ob_id b, oc_trial_keys = covering_trials cells trials b\<rparr>"
    using assms by (simp add: Let_def)
qed

lemma covered_count_rows:
  assumes "distinct (map ob_id bs)" "b \<in> set bs"
  shows "covered_count (map (\<lambda>b. \<lparr>oc_obligation_id = ob_id b, oc_trial_keys = f b\<rparr>) (sort_key ob_id bs)) (ob_id b)
    = int (length (f b))"
proof -
  let ?l = "rev (map (\<lambda>b. (ob_id b, int (length (f b)))) (sort_key ob_id bs))"
  have "mset (map ob_id (sort_key ob_id bs)) = mset (map ob_id bs)" by simp
  then have "distinct (map ob_id (sort_key ob_id bs))" using assms(1) mset_eq_imp_distinct_iff by blast
  moreover have "map fst ?l = rev (map ob_id (sort_key ob_id bs))" by (simp add: rev_map comp_def)
  ultimately have "distinct (map fst ?l)" by simp
  moreover have "(ob_id b, int (length (f b))) \<in> set ?l" using assms(2) by auto
  ultimately have "map_of ?l (ob_id b) = Some (int (length (f b)))" by (rule map_of_is_SomeI)
  then show ?thesis by (simp add: covered_count_def comp_def)
qed

lemma checked_obligation_cell:
  assumes "validate_obligations c m q cells current = Inr ()" "b \<in> set (xc_obligations c)"
  shows "list_ex (\<lambda>c. selector_matches (ob_selector b) (gc_selector c)) cells"
proof -
  have "succeeds (check_obligation (xc_profile c) m cells b)"
    using assms unfolding validate_obligations_def then_unit succeeds_rmap by blast
  then show ?thesis
    by (auto simp: succeeds_def check_obligation_def rbind_eq_Inr simp del: raise_first.simps
        split: option.splits if_splits)
qed

lemma compile_succeeds:
  assumes "validate_contract c = Inr ()" "validate_plan_size (xc_plan c) = Inr ()"
    and d: "distinct (map mc_id (xc_metrics c))" "distinct (map ob_id (xc_obligations c))"
    and profile: "validate_profile_metrics (xc_profile c) (map (\<lambda>m. (mc_id m, m)) (xc_metrics c)) = Inr ()"
    and obligations: "validate_obligations c (map (\<lambda>m. (mc_id m, m)) (xc_metrics c))
      (map (\<lambda>b. (ob_id b, b)) (xc_obligations c)) (generate_cells (xc_profile c)) (current_selector (xc_profile c)) = Inr ()"
    and spec: "canonical_spec E c = Inr (b, spec)" and seed: "encodable (tp_order_seed (xc_plan c))"
    and few: "\<forall>b \<in> set (xc_obligations c). min_trials (ob_quantifier b) \<le> 1"
  shows "succeeds (compile_experiment E c)"
proof -
  let ?cells = "generate_cells (xc_profile c)" and ?bs = "xc_obligations c"
  obtain trials where trials: "plan_trials E (xc_plan c) ?cells (sha256_bytes E b) = Inr trials"
    using plan_trials_total [OF seed, of E ?cells "sha256_bytes E b"] by (auto simp: succeeds_def)
  have v: "validate_plan (xc_plan c) = Inr ()" "validate_masking_profile (xc_profile c) = Inr ()"
    using assms(1) unfolding validate_contract_def by (auto simp: rbind_eq_Inr simp del: raise_first.simps)
  have plan: "distinct (tp_blocks (xc_plan c))" "1 \<le> tp_replicates (xc_plan c)" "tp_blocks (xc_plan c) \<noteq> []"
    using v(1) by (auto simp: validate_plan_def between_def card_distinct split: if_splits)
  note keys = cell_keys_distinct [of "xc_profile c"]
  have cov: "\<forall>b \<in> set ?bs. covering_trials ?cells trials b \<noteq> []"
    using covered [OF trials keys(2) plan] checked_obligation_cell [OF obligations] by blast
  have "int (length trials) \<le> MAX_PLANNED_TRIALS"
    using planned_factorial(3) [OF trials keys(2) plan(1,2)] assms(2) plan(2) unfolding keys(1)
    by (simp add: validate_plan_size_def mult.assoc split: if_splits)
  note rows = coverage_rows [OF cov this]
  let ?cov = "map (\<lambda>b. \<lparr>oc_obligation_id = ob_id b, oc_trial_keys = covering_trials ?cells trials b\<rparr>) (sort_key ob_id ?bs)"
  have "1 \<le> covered_count ?cov (ob_id b) \<and> min_trials (ob_quantifier b) \<le> covered_count ?cov (ob_id b)"
    if "b \<in> set ?bs" for b
    using that cov few unfolding covered_count_rows [OF d(2) that]
    by (cases "covering_trials ?cells trials b") auto
  then have "validate_minimum_trials ?bs ?cov = Inr ()"
    unfolding validate_minimum_trials_def raise_first_Inr by fastforce
  moreover obtain cs where "generate_contrasts (xc_profile c) ?cells = Inr cs"
    using contrasts_resolve [OF v(2)] by blast
  ultimately show ?thesis
    using assms(1,2) profile obligations spec trials rows
    by (simp add: succeeds_def compile_experiment_def unique_by_id_ok [THEN iffD2, OF conjI [OF d(1) refl]]
        unique_by_id_ok [THEN iffD2, OF conjI [OF d(2) refl]] Let_def)
qed

end
