(* ===== verification/Evaluation_Residual.thy ===== *)
theory Evaluation_Residual
  imports Evaluation_Props Contract_Total
begin

text \<open>
  What the classification of a report means for the trials: the primary obligations are assessed on
  the trials of the current cell, or of the benign input, and every one of them counts.
\<close>

section \<open>The compiled plan behind a report\<close>

lemma compiled_parts:
  assumes "compile_experiment E c = Inr x"
  shows "validate_contract c = Inr ()" "distinct (map mc_id (xc_metrics c))" "distinct (map ob_id (xc_obligations c))"
    "ce_contract x = c" "ce_cells x = generate_cells (xc_profile c)" "ce_current_selector x = current_selector (xc_profile c)"
    "validate_obligations c (map (\<lambda>m. (mc_id m, m)) (xc_metrics c)) (map (\<lambda>b. (ob_id b, b)) (xc_obligations c))
       (ce_cells x) (ce_current_selector x) = Inr ()"
    "coverage (xc_obligations c) (ce_cells x) (ce_planned_trials x) = Inr (ce_coverage x)"
    "plan_trials E (xc_plan c) (ce_cells x) (ce_spec_digest x) = Inr (ce_planned_trials x)"
    "generate_contrasts (xc_profile c) (ce_cells x) = Inr (ce_contrasts x)"
    "validate_profile_metrics (xc_profile c) (map (\<lambda>m. (mc_id m, m)) (xc_metrics c)) = Inr ()"
    "\<exists>b. ce_spec_digest x = sha256_bytes E b"
  using assms unfolding compile_experiment_def
  by (auto simp: Let_def rbind_eq_Inr on_error_Inr unique_by_id_ok)

lemma recompiled: "recompile E c = Inr x \<Longrightarrow> compile_experiment E (ce_contract c) = Inr x"
  by (auto simp: recompile_def rbind_eq_Inr on_error_Inr split: if_splits)

lemma coverage_row:
  assumes "coverage bs cells trials = Inr covs" "cov \<in> set covs"
  shows "\<exists>b \<in> set bs. oc_obligation_id cov = ob_id b \<and> oc_trial_keys cov = covering_trials cells trials b
    \<and> oc_trial_keys cov \<noteq> []"
proof -
  obtain i where i: "i < length covs" "covs ! i = cov" using assms(2) by (auto simp: in_set_conv_nth)
  let ?bs = "sort_key ob_id bs"
  have "list_all2 (\<lambda>b c. (let keys = covering_trials cells trials b in
      if keys = [] \<or> int (length keys) > MAX_PLANNED_TRIALS then Inl (invalid ''trial_keys'')
      else Inr \<lparr>oc_obligation_id = ob_id b, oc_trial_keys = keys\<rparr>) = Inr c) ?bs covs"
    using assms(1) unfolding coverage_def rmap_Inr .
  then have "(let keys = covering_trials cells trials (?bs ! i) in
      if keys = [] \<or> int (length keys) > MAX_PLANNED_TRIALS then Inl (invalid ''trial_keys'')
      else Inr \<lparr>oc_obligation_id = ob_id (?bs ! i), oc_trial_keys = keys\<rparr>) = Inr cov" "i < length ?bs"
    using i list_all2_lengthD by (force simp: list_all2_conv_all_nth)+
  then have "oc_obligation_id cov = ob_id (?bs ! i)" "oc_trial_keys cov = covering_trials cells trials (?bs ! i)"
    "oc_trial_keys cov \<noteq> []" "?bs ! i \<in> set bs"
    using nth_mem [of i ?bs] by (auto simp: Let_def split: if_splits)
  then show ?thesis by blast
qed

lemma collect_map:
  assumes "\<And>k u q v. f k u = Inr (q, v) \<Longrightarrow> g q = h k" "collect f ks cx = Inr (qs, cx')"
  shows "map g qs = map h ks"
  using assms(2)
proof (induction ks arbitrary: cx qs)
  case (Cons k ks)
  then obtain q u qs' where "f k cx = Inr (q, u)" "collect f ks u = Inr (qs', cx')" "qs = q # qs'"
    by (auto simp: rbind_eq_Inr split: prod.splits)
  then show ?case using Cons.IH assms(1) by simp
qed simp

lemma assessed_points:
  assumes "collect (assess_point A b m) keys cx = Inr (ps, cx')"
  shows "map tq_trial_key ps = keys"
proof -
  have "tq_trial_key p = k" if "assess_point A b m k u = Inr (p, v)" for k u p v
    using that by (auto simp: assess_point_def unresolved_point_def Let_def rbind_eq_Inr
        split: option.splits stage_event.splits prod.splits)
  then have "map tq_trial_key ps = map (\<lambda>k. k) keys" using assms by (rule collect_map)
  then show ?thesis by simp
qed

text \<open>Each assessment of a report is the one of an obligation of the contract, over its planned trials.\<close>

lemma report_assessment:
  assumes "evaluate E c rs va vm vk = Inr rep" "a \<in> set (er_obligations rep)" "x = er_compiled rep"
  shows "\<exists>b ps. b \<in> set (xc_obligations (ce_contract x)) \<and> a = assessment_of b ps \<and> ps \<noteq> []
    \<and> map tq_trial_key ps = covering_trials (ce_cells x) (ce_planned_trials x) b"
proof -
  obtain A w b u v where e: "assessing A x va vm rs w" "b \<in> set (xc_obligations (ce_contract x))"
    "evaluate_obligation A b u = Inr (a, v)"
    using evaluated_obligation [OF assms(1,2)] assms(3) by metis
  have x: "recompile E c = Inr x" by (rule evaluate_parts [OF assms(1)]) (simp add: assms(3))
  note p = compiled_parts [OF recompiled [OF x]]
  from e(3) show ?thesis
  proof (rule evaluate_obligation_Inr)
    fix cov m ps
    assume o: "cov \<in> set (ce_coverage (ae_compiled A))" "oc_obligation_id cov = ob_id b"
      "collect (assess_point A b m) (oc_trial_keys cov) u = Inr (ps, v)" "ps \<noteq> []" "a = assessment_of b ps"
    have "ae_compiled A = x" using e(1) by (simp add: assessing_def)
    then obtain b' where "b' \<in> set (xc_obligations (ce_contract x))" "oc_obligation_id cov = ob_id b'"
      "oc_trial_keys cov = covering_trials (ce_cells x) (ce_planned_trials x) b'"
      using coverage_row [OF p(8)] o(1) p(4) by auto
    moreover have "b' = b" using calculation(1,2) o(2) e(2) p(3,4) by (auto simp: distinct_map dest: inj_onD)
    ultimately show ?thesis using assessed_points [OF o(3)] o(4,5) e(2) by auto
  qed
qed

section \<open>Primary obligations\<close>

definition finite_selector :: "cell_selector \<Rightarrow> bool" where
  "finite_selector s \<longleftrightarrow> opt_ok finite_value (cs_input s) \<and> opt_ok finite_value (cs_target s)
     \<and> opt_ok finite_value (cs_compensator s) \<and> opt_ok finite_value (cs_sham s)"

lemma validate_cell_selector_finite: "validate_cell_selector s = Inr () \<Longrightarrow> finite_selector s"
  using validate_typed_finite
  by (auto simp: validate_cell_selector_def finite_selector_def opt_valid_def opt_ok_def rbind_eq_Inr split: option.splits)

lemma axis_matches_cong:
  assumes "opt_eq a b" "opt_ok finite_value a" "opt_ok finite_value b"
  shows "axis_matches a e = axis_matches b e"
proof (cases a; cases b)
  fix v u assume ab: "a = Some v" "b = Some u"
  then have "same_value v u" using assms typed_eq_same_value by (simp add: opt_ok_def)
  then show ?thesis using ab by (cases e) (simp_all add: same_value_def)
qed (use assms in simp_all)

lemma selector_matches_cong:
  assumes "selector_eq a b" "finite_selector a" "finite_selector b"
  shows "selector_matches a e = selector_matches b e"
  unfolding selector_matches_def using assms
  by (intro arg_cong2 [where f = "(\<and>)"] axis_matches_cong) (simp_all add: selector_eq_def finite_selector_def)

lemma profile_selectors_finite:
  assumes "validate_masking_profile p = Inr ()"
  shows "finite_selector (current_selector p)" "finite_selector (benign_envelope_selector p)"
proof -
  have "validate_input_axis (pr_input p) = Inr ()" "validate_control_axis ''target'' (pr_target p) = Inr ()"
    "validate_control_axis ''compensator'' (pr_compensator p) = Inr ()" "validate_sham_axis (pr_sham p) = Inr ()"
    using assms by (auto simp: validate_masking_profile_def rbind_eq_Inr simp del: raise_first.simps)
  then have "finite_value (ia_attack (pr_input p))" "finite_value (ia_benign (pr_input p))"
    "finite_value (ca_current (pr_target p))" "finite_value (ca_current (pr_compensator p))" "finite_value (sa_steady (pr_sham p))"
    by (auto simp: validate_input_axis_def validate_control_axis_def validate_sham_axis_def rbind_eq_Inr
        intro: validate_typed_finite split: if_splits)
  then show "finite_selector (current_selector p)" "finite_selector (benign_envelope_selector p)"
    by (simp_all add: finite_selector_def current_selector_def benign_envelope_selector_def full_selector_def opt_ok_def)
qed

text \<open>The keys of the planned trials whose cell a selector admits.\<close>

definition trials_in :: "compiled_experiment \<Rightarrow> cell_selector \<Rightarrow> string list" where
  "trials_in x s = map pt_key (filter (\<lambda>t. opt_ok (selector_matches s) (trial_selector (ce_cells x) t)) (ce_planned_trials x))"

lemma covering_selector:
  assumes "selector_eq (ob_selector b) s" "finite_selector (ob_selector b)" "finite_selector s"
  shows "covering_trials (ce_cells x) (ce_planned_trials x) b = trials_in x s"
proof -
  have "selector_matches (ob_selector b) = selector_matches s" using selector_matches_cong [OF assms] by blast
  then show ?thesis by (simp add: covering_trials_def trials_in_def)
qed

lemma primary_obligation:
  assumes "compile_experiment E c = Inr x" "b \<in> set (xc_obligations c)" "ob_id b = i"
    and "(label, i, scope, metric, component, s, safe) \<in> set (primary_rows (xc_profile c) (ce_current_selector x))"
  shows "\<exists>n. ob_quantifier b = AllTested n" "covering_trials (ce_cells x) (ce_planned_trials x) b = trials_in x s"
    "mp_operator (ob_predicate b) = OpEqual" "mp_tolerance (ob_predicate b) = None" "same_value (mp_expected (ob_predicate b)) safe"
proof -
  note p = compiled_parts [OF assms(1)]
  let ?q = "map (\<lambda>b. (ob_id b, b)) (xc_obligations c)"
  have "succeeds (rmap (check_primary ?q) (primary_rows (xc_profile c) (ce_current_selector x)))"
    using p(7) unfolding validate_obligations_def then_unit by blast
  then have "succeeds (check_primary ?q (label, i, scope, metric, component, s, safe))"
    using assms(4) unfolding succeeds_rmap by blast
  moreover have "map_of ?q i = Some b"
    using assms(2,3) p(3) by (intro map_of_is_SomeI) (auto simp: comp_def)
  ultimately have c: "selector_eq (ob_selector b) s" "all_tested (ob_quantifier b)" and q: "mp_operator (ob_predicate b) = OpEqual"
    "mp_tolerance (ob_predicate b) = None" "same_value (mp_expected (ob_predicate b)) safe"
    by (auto simp: succeeds_def split: if_splits)
  show "mp_operator (ob_predicate b) = OpEqual" "mp_tolerance (ob_predicate b) = None" "same_value (mp_expected (ob_predicate b)) safe"
    by (rule q)+
  show "\<exists>n. ob_quantifier b = AllTested n" using c(2) by (cases "ob_quantifier b") auto
  have v: "succeeds (rmap validate_obligation (xc_obligations c))" "validate_masking_profile (xc_profile c) = Inr ()"
    using p(1) unfolding validate_contract_def by (auto simp: then_unit succeeds_def rbind_eq_Inr simp del: raise_first.simps)
  then have "validate_cell_selector (ob_selector b) = Inr ()"
    using assms(2) by (auto simp: succeeds_rmap validate_obligation_def succeeds_rbind)
  then have "finite_selector (ob_selector b)" by (rule validate_cell_selector_finite)
  moreover have "finite_selector s"
    using assms(4) profile_selectors_finite [OF v(2)] p(6) by (auto simp: primary_rows_def)
  ultimately show "covering_trials (ce_cells x) (ce_planned_trials x) b = trials_in x s"
    using covering_selector c(1) by blast
qed

lemma points_partition:
  "length ps = length (points_in PointPass ps) + length (points_in PointFail ps) + length (points_in PointUnresolved ps)"
proof (induction ps)
  case (Cons p ps)
  then show ?case by (cases "tq_state p") (simp_all add: points_in_def)
qed (simp add: points_in_def)

lemma filter_full: "length (filter P xs) = length xs \<longleftrightarrow> (\<forall>x \<in> set xs. P x)"
proof (induction xs)
  case (Cons x xs)
  moreover have "length (filter P xs) < Suc (length xs)" by (simp add: le_imp_less_Suc)
  ultimately show ?case by (cases "P x") auto
qed simp

lemma all_tested_truth:
  assumes "ob_quantifier b = AllTested n"
  shows "oa_truth (assessment_of b ps) = TruthSupported \<longleftrightarrow> (\<forall>p \<in> set ps. tq_state p = PointPass)"
    "oa_truth (assessment_of b ps) = TruthRefuted \<longleftrightarrow> (\<exists>p \<in> set ps. tq_state p = PointFail)"
proof -
  have "oa_truth (assessment_of b ps) = TruthRefuted \<longleftrightarrow> points_in PointFail ps \<noteq> []"
    using assms by (simp add: assessment_of_def Let_def)
  then show "oa_truth (assessment_of b ps) = TruthRefuted \<longleftrightarrow> (\<exists>p \<in> set ps. tq_state p = PointFail)"
    by (simp add: points_in_def filter_empty_conv)
  have "oa_truth (assessment_of b ps) = TruthSupported \<longleftrightarrow> length (points_in PointPass ps) = length ps"
    using assms points_partition [of ps] by (auto simp: assessment_of_def Let_def)
  also have "\<dots> \<longleftrightarrow> (\<forall>p \<in> set ps. tq_state p = PointPass)"
    unfolding points_in_def by (rule filter_full)
  finally show "oa_truth (assessment_of b ps) = TruthSupported \<longleftrightarrow> (\<forall>p \<in> set ps. tq_state p = PointPass)" .
qed

section \<open>The classification\<close>

text \<open>The assessment of a primary obligation, with the selector its trials come from.\<close>

definition primary_assessment :: "evaluation_report \<Rightarrow> string \<Rightarrow> cell_selector \<Rightarrow> obligation_assessment \<Rightarrow> bool" where
  "primary_assessment rep i s a \<longleftrightarrow> a \<in> set (er_obligations rep) \<and> oa_obligation_id a = i
     \<and> map tq_trial_key (oa_points a) = trials_in (er_compiled rep) s"

lemma assessment_fields: "oa_points (assessment_of b ps) = ps" "oa_obligation_id (assessment_of b ps) = ob_id b"
  by (simp_all add: assessment_of_def Let_def)

lemma primary_assessed:
  assumes "evaluate E c rs va vm vk = Inr rep" "a \<in> set (er_obligations rep)" "oa_obligation_id a = i" "x = er_compiled rep"
    and "(label, i, scope, metric, component, s, safe) \<in> set (primary_rows (xc_profile (ce_contract x)) (ce_current_selector x))"
  shows "primary_assessment rep i s a"
    "oa_truth a = TruthSupported \<longleftrightarrow> (\<forall>p \<in> set (oa_points a). tq_state p = PointPass)"
    "oa_truth a = TruthRefuted \<longleftrightarrow> (\<exists>p \<in> set (oa_points a). tq_state p = PointFail)"
proof -
  obtain b ps where b: "b \<in> set (xc_obligations (ce_contract x))" "a = assessment_of b ps"
    "map tq_trial_key ps = covering_trials (ce_cells x) (ce_planned_trials x) b"
    using report_assessment [OF assms(1,2,4)] by blast
  have x: "compile_experiment E (ce_contract c) = Inr x"
    by (rule evaluate_parts [OF assms(1)]) (simp add: assms(4) recompiled)
  have c: "ce_contract x = ce_contract c" using compiled_parts(4) [OF x] .
  have i: "ob_id b = i" using assms(3) b(2) by (simp add: assessment_fields)
  note q = primary_obligation [OF x b(1) [unfolded c] i assms(5) [unfolded c]]
  show "primary_assessment rep i s a"
    using assms(2-4) b q(2) by (simp add: primary_assessment_def assessment_fields)
  show "oa_truth a = TruthSupported \<longleftrightarrow> (\<forall>p \<in> set (oa_points a). tq_state p = PointPass)"
    "oa_truth a = TruthRefuted \<longleftrightarrow> (\<exists>p \<in> set (oa_points a). tq_state p = PointFail)"
    using q(1) all_tested_truth b(2) by (auto simp: assessment_fields)
qed

lemma summary_parts:
  assumes "residual_summary_of x obs ks complete = Inr r"
  obtains target compensator path benign s where
    "target \<in> set obs" "oa_obligation_id target = pr_primary_target_id (xc_profile (ce_contract x))"
    "compensator \<in> set obs" "oa_obligation_id compensator = pr_primary_compensator_id (xc_profile (ce_contract x))"
    "path \<in> set obs" "oa_obligation_id path = pr_primary_path_id (xc_profile (ce_contract x))"
    "benign \<in> set obs" "oa_obligation_id benign = pr_primary_benign_id (xc_profile (ce_contract x))"
    "classify target compensator path benign ks complete = Inr s" "s = rs_classification r"
  using assms unfolding residual_summary_of_def
  by (auto simp: Let_def rbind_eq_Inr dict_at_Inr dest!: dict_of_in)

lemma contrast_supported_in:
  "contrast_supported ks i = Inr True \<Longrightarrow> \<exists>k \<in> set ks. ka_id k = i \<and> ka_truth k = TruthSupported"
  by (auto simp: contrast_supported_def rbind_eq_Inr dict_at_Inr dest!: dict_of_in)

lemma all_supported_in: "all_supported ks is = Inr True \<Longrightarrow> i \<in> set is \<Longrightarrow> \<exists>k \<in> set ks. ka_id k = i \<and> ka_truth k = TruthSupported"
  by (induction ks "is" rule: all_supported.induct) (auto simp: rbind_eq_Inr dest: contrast_supported_in split: if_splits)

text \<open>A primary assessment whose truth is decided by its points.\<close>

definition judged :: "evaluation_report \<Rightarrow> string \<Rightarrow> cell_selector \<Rightarrow> obligation_assessment \<Rightarrow> bool" where
  "judged rep i s a \<longleftrightarrow> primary_assessment rep i s a
     \<and> (oa_truth a = TruthSupported \<longleftrightarrow> (\<forall>p \<in> set (oa_points a). tq_state p = PointPass))
     \<and> (oa_truth a = TruthRefuted \<longleftrightarrow> (\<exists>p \<in> set (oa_points a). tq_state p = PointFail))"

lemma residual_judged:
  assumes "evaluate E c rs va vm vk = Inr rep" "x = er_compiled rep" "p = xc_profile (ce_contract x)"
  obtains target compensator path benign where
    "judged rep (pr_primary_target_id p) (ce_current_selector x) target"
    "judged rep (pr_primary_compensator_id p) (ce_current_selector x) compensator"
    "judged rep (pr_primary_path_id p) (ce_current_selector x) path"
    "judged rep (pr_primary_benign_id p) (benign_envelope_selector p) benign"
    "classify target compensator path benign (er_contrasts rep) (dc_protocol (er_completeness rep))
       = Inr (rs_classification (er_residual rep))"
proof -
  have row: "judged rep i s a" if "a \<in> set (er_obligations rep)" "oa_obligation_id a = i"
    "\<exists>label scope metric component safe. (label, i, scope, metric, component, s, safe) \<in> set (primary_rows p (ce_current_selector x))" for i s a
    using primary_assessed [OF assms(1) that(1,2) assms(2), folded assms(3)] that(3) unfolding judged_def by blast
  have "residual_summary_of x (er_obligations rep) (er_contrasts rep) (dc_protocol (er_completeness rep)) = Inr (er_residual rep)"
    by (rule evaluate_parts [OF assms(1)]) (simp add: assms(2))
  then show thesis
  proof (rule summary_parts, fold assms(3))
    fix target compensator path benign s
    assume a: "target \<in> set (er_obligations rep)" "oa_obligation_id target = pr_primary_target_id p"
      "compensator \<in> set (er_obligations rep)" "oa_obligation_id compensator = pr_primary_compensator_id p"
      "path \<in> set (er_obligations rep)" "oa_obligation_id path = pr_primary_path_id p"
      "benign \<in> set (er_obligations rep)" "oa_obligation_id benign = pr_primary_benign_id p"
      and s: "classify target compensator path benign (er_contrasts rep) (dc_protocol (er_completeness rep)) = Inr s"
        "s = rs_classification (er_residual rep)"
    note rows = row [OF a(1,2)] row [OF a(3,4)] row [OF a(5,6)] row [OF a(7,8)]
    show thesis by (rule that [OF rows s(1) [unfolded s(2)]]) (simp_all add: primary_rows_def ex_disj_distrib)
  qed
qed

lemma classify_meaning:
  assumes "classify target compensator path benign ks complete = Inr s"
  shows "s = MaskedTargetFailure \<Longrightarrow> oa_truth target = TruthRefuted \<and> oa_truth compensator = TruthSupported \<and> oa_truth path = TruthSupported"
    "s = ExposedPath \<Longrightarrow> oa_truth path = TruthRefuted"
    "s = TargetEffective \<Longrightarrow> all_supported ks [TargetAttackEffect, TargetBenignInvariance, CompensatorBenignInvariance, ShamInvariance] = Inr True
       \<and> oa_truth target = TruthSupported \<and> oa_truth path = TruthSupported \<and> oa_truth benign = TruthSupported \<and> complete"
  using assms by (auto simp: classify_def rbind_eq_Inr split: if_splits)

text \<open>
  C16. The classification of a report means what it says about the trials. A masked target failure: on
  the trials of the current cell at least one fails the target obligation, while all pass the
  compensator and the path obligation. An exposed path: some trial of the current cell fails the path
  obligation. An effective target: every trial of the current cell passes the target and the path
  obligation, every trial with the benign input passes the benign obligation, the protocol is
  complete, and the four guard contrasts are supported.
\<close>

theorem classification_sound:
  assumes "evaluate E c rs va vm vk = Inr rep" "x = er_compiled rep" "p = xc_profile (ce_contract x)"
  shows "case rs_classification (er_residual rep) of
      MaskedTargetFailure \<Rightarrow> \<exists>target compensator path.
        primary_assessment rep (pr_primary_target_id p) (ce_current_selector x) target
        \<and> primary_assessment rep (pr_primary_compensator_id p) (ce_current_selector x) compensator
        \<and> primary_assessment rep (pr_primary_path_id p) (ce_current_selector x) path
        \<and> (\<exists>q \<in> set (oa_points target). tq_state q = PointFail)
        \<and> (\<forall>q \<in> set (oa_points compensator) \<union> set (oa_points path). tq_state q = PointPass)
    | ExposedPath \<Rightarrow> \<exists>path. primary_assessment rep (pr_primary_path_id p) (ce_current_selector x) path
        \<and> (\<exists>q \<in> set (oa_points path). tq_state q = PointFail)
    | TargetEffective \<Rightarrow> \<exists>target path benign.
        primary_assessment rep (pr_primary_target_id p) (ce_current_selector x) target
        \<and> primary_assessment rep (pr_primary_path_id p) (ce_current_selector x) path
        \<and> primary_assessment rep (pr_primary_benign_id p) (benign_envelope_selector p) benign
        \<and> (\<forall>q \<in> set (oa_points target) \<union> set (oa_points path) \<union> set (oa_points benign). tq_state q = PointPass)
        \<and> dc_protocol (er_completeness rep)
        \<and> (\<forall>i \<in> {TargetAttackEffect, TargetBenignInvariance, CompensatorBenignInvariance, ShamInvariance}.
             \<exists>k \<in> set (er_contrasts rep). ka_id k = i \<and> ka_truth k = TruthSupported)
    | ResidualUnresolved \<Rightarrow> True"
proof (rule residual_judged [OF assms])
  fix target compensator path benign
  assume j: "judged rep (pr_primary_target_id p) (ce_current_selector x) target"
    "judged rep (pr_primary_compensator_id p) (ce_current_selector x) compensator"
    "judged rep (pr_primary_path_id p) (ce_current_selector x) path"
    "judged rep (pr_primary_benign_id p) (benign_envelope_selector p) benign"
    and k: "classify target compensator path benign (er_contrasts rep) (dc_protocol (er_completeness rep))
      = Inr (rs_classification (er_residual rep))"
  show ?thesis
  proof (cases "rs_classification (er_residual rep)")
    case MaskedTargetFailure
    note m = classify_meaning(1) [OF k MaskedTargetFailure]
    show ?thesis unfolding MaskedTargetFailure residual_classification.case
      using j(1-3) m unfolding judged_def by blast
  next
    case ExposedPath
    then show ?thesis using j(3) classify_meaning(2) [OF k] unfolding judged_def by auto
  next
    case TargetEffective
    note e = classify_meaning(3) [OF k TargetEffective]
    then have "\<forall>i \<in> {TargetAttackEffect, TargetBenignInvariance, CompensatorBenignInvariance, ShamInvariance}.
        \<exists>k \<in> set (er_contrasts rep). ka_id k = i \<and> ka_truth k = TruthSupported"
      using all_supported_in by fastforce
    then show ?thesis unfolding TargetEffective residual_classification.case
      using j(1,3,4) e unfolding judged_def by blast
  qed simp
qed

end
