(* ===== verification/Evaluation_Total.thy ===== *)
theory Evaluation_Total
  imports Evaluation_Residual
begin

text \<open>
  Evaluation always ends in a report. Whatever the verifiers answer or raise, on valid records every
  step of the evaluation of a compiled experiment has a result; a small calculus of total correctness
  carries this through the loops.
\<close>

section \<open>Total correctness of results\<close>

definition yields :: "('a \<Rightarrow> bool) \<Rightarrow> 'a result \<Rightarrow> bool" where
  "yields P r \<longleftrightarrow> (\<exists>v. r = Inr v \<and> P v)"

lemma yields_simps [simp]: "yields P (Inr v) \<longleftrightarrow> P v" "\<not> yields P (Inl e)"
  by (simp_all add: yields_def)

lemma yields_rbind: "yields P r \<Longrightarrow> (\<And>v. P v \<Longrightarrow> yields Q (f v)) \<Longrightarrow> yields Q (rbind r f)"
  by (auto simp: yields_def)

lemma yields_weaken: "yields P r \<Longrightarrow> (\<And>v. P v \<Longrightarrow> Q v) \<Longrightarrow> yields Q r"
  by (auto simp: yields_def)

lemma yields_each:
  assumes "\<And>x w. x \<in> set xs \<Longrightarrow> P w \<Longrightarrow> yields P (f x w)" "P w"
  shows "yields P (each f xs w)"
  using assms
proof (induction xs arbitrary: w)
  case (Cons x xs)
  have "yields P (f x w)" using Cons.prems by simp
  then show ?case unfolding each.simps by (rule yields_rbind) (rule Cons.IH, use Cons.prems in simp_all)
qed simp

lemma yields_collect:
  assumes "\<And>x w. x \<in> set xs \<Longrightarrow> P w \<Longrightarrow> yields (\<lambda>(y, w'). R x y \<and> P w') (f x w)" "P w"
  shows "yields (\<lambda>(ys, w'). list_all2 R xs ys \<and> P w') (collect f xs w)"
  using assms
proof (induction xs arbitrary: w)
  case (Cons x xs)
  obtain y u where y: "f x w = Inr (y, u)" "R x y" "P u" using Cons.prems by (force simp: yields_def)
  have "yields (\<lambda>(ys, w'). list_all2 R xs ys \<and> P w') (collect f xs u)"
    by (rule Cons.IH) (use Cons.prems y(3) in simp_all)
  then show ?case using y(1,2) by (auto simp: yields_def rbind_eq_Inr)
qed simp

lemma yields_rmap: "(\<And>x. x \<in> set xs \<Longrightarrow> succeeds (f x)) \<Longrightarrow> yields (\<lambda>_. True) (rmap f xs)"
  using succeeds_rmap [of f xs] by (auto simp: yields_def succeeds_def)

section \<open>Issues\<close>

definition sound_issue :: "evaluation_issue \<Rightarrow> bool" where
  "sound_issue i \<longleftrightarrow> (\<forall>s \<in> set (is_selectors i) \<union> set_option (is_expected_selector i). validate_cell_selector s = Inr ())
     \<and> (\<forall>v \<in> set (is_candidates i). validate_typed v = Inr ())
     \<and> is_code i \<noteq> [] \<and> is_detail i \<noteq> [] \<and> no_surrogate (is_detail i)
     \<and> digests_ok (is_evidence_ids i @ is_artifact_ids i @ is_digests i)"

lemma sound_issue_valid: "sound_issue i \<Longrightarrow> digests_ok (is_trial_keys i) \<Longrightarrow> validate_issue i = Inr ()"
  unfolding validate_issue_def then_unit succeeds_rmap
  by (auto simp: sound_issue_def succeeds_def split: option.splits)

lemma sound_text [simp]: "sound_issue (text_issue code detail) \<longleftrightarrow> code \<noteq> [] \<and> detail \<noteq> [] \<and> no_surrogate detail"
  by (simp add: sound_issue_def text_issue_def)

lemma sound_plain [simp]: "sound_issue (plain_issue code detail) \<longleftrightarrow> code \<noteq> [] \<and> detail \<noteq> []"
  by (simp add: plain_issue_def)

lemma digests_ok_digests [simp]: "digests_ok (digests ks) \<longleftrightarrow> digests_ok ks"
  by (simp add: digests_def list_all_iff)

text \<open>The states hold these records, and only valid attestations.\<close>

definition steady :: "trial_record list \<Rightarrow> eval_world \<Rightarrow> bool" where
  "steady rs w \<longleftrightarrow> map ts_record (wd_states w) = rs
     \<and> (\<forall>s \<in> set (wd_states w). \<forall>a. ts_attestation s = Some a \<longrightarrow> validate_attestation_result (AttestationAdmitted a) = Inr ())"

definition valid_records :: "trial_record list \<Rightarrow> bool" where
  "valid_records rs \<longleftrightarrow> (\<forall>r \<in> set rs. validate_record r = Inr ())"

lemma valid_record_fields:
  assumes "validate_record r = Inr ()"
  shows "digest_format (rc_trial_key r)" "validate_trace (rc_trace r) = Inr ()" "digest_format (rc_cleanup_bundle r)"
    "digest_format (cl_attestation_bundle (rc_clone r))"
  using assms by (auto simp: validate_record_def Let_def rbind_eq_Inr split: if_splits)

lemma steady_length: "steady rs w \<Longrightarrow> length (wd_states w) = length rs"
  by (auto simp: steady_def)

lemma steady_record: "steady rs w \<Longrightarrow> j < length rs \<Longrightarrow> ts_record (wd_states w ! j) = rs ! j"
  by (auto simp: steady_def)

lemma steady_keys: "steady rs w \<Longrightarrow> valid_records rs \<Longrightarrow> set js \<subseteq> {..<length rs}
    \<Longrightarrow> digests_ok (map (\<lambda>j. ts_key (wd_states w ! j)) js)"
  using valid_record_fields(1) by (force simp: list_all_iff valid_records_def steady_record)

lemma steady_put [simp]: "steady rs (put_issue dest i w) = steady rs w"
  by (simp add: steady_def put_issue_fields)

lemma steady_invalidate:
  assumes "steady rs w"
  shows "steady rs (w\<lparr>wd_states := invalidate_at code js (wd_states w)\<rparr>)"
proof -
  have "ts_attestation ` set (invalidate_at code js (wd_states w)) = ts_attestation ` set (wd_states w)"
    using arg_cong [OF invalidate_at_fields(3), of set] by simp
  then have "\<exists>u \<in> set (wd_states w). ts_attestation u = ts_attestation s"
    if "s \<in> set (invalidate_at code js (wd_states w))" for s
    using that by (metis (no_types, lifting) imageE imageI)
  then show ?thesis using assms unfolding steady_def by (fastforce simp: invalidate_at_fields)
qed

lemma yields_report:
  "steady rs w \<Longrightarrow> sound_issue i \<Longrightarrow> digests_ok (is_trial_keys i) \<Longrightarrow> yields (steady rs) (report dest i w)"
  by (simp add: report_def sound_issue_valid)

lemma yields_issue:
  assumes "steady rs w" "valid_records rs" "sound_issue i" "set js \<subseteq> {..<length rs}"
  shows "yields (steady rs) (issue dest i js invalidate w)"
proof -
  let ?i = "i\<lparr>is_trial_keys := digests (map (\<lambda>j. ts_key (wd_states w ! j)) js)\<rparr>"
  have "sound_issue ?i" using assms(3) by (simp add: sound_issue_def)
  then have "yields (steady rs) (report dest ?i w)"
    using assms steady_keys by (intro yields_report) simp_all
  then show ?thesis unfolding issue_def by (rule yields_rbind) (simp add: steady_invalidate)
qed

lemma yields_checks:
  assumes "steady rs w" "valid_records rs" "j < length rs" "\<And>bad dest i. (bad, dest, i) \<in> set rows \<Longrightarrow> bad \<Longrightarrow> sound_issue i"
  shows "yields (steady rs) (run_checks invalidate j rows w)"
  unfolding run_checks_def
  by (rule yields_each) (use assms in \<open>auto intro!: yields_issue split: prod.splits\<close>)

section \<open>The plan\<close>

lemma dict_of_member:
  "dict_of (map (\<lambda>a. (f a, g a)) as) k = Some v \<Longrightarrow> \<exists>a \<in> set as. f a = k \<and> g a = v"
  "k \<in> f ` set as \<Longrightarrow> \<exists>v. dict_of (map (\<lambda>a. (f a, g a)) as) k = Some v"
proof -
  show "dict_of (map (\<lambda>a. (f a, g a)) as) k = Some v \<Longrightarrow> \<exists>a \<in> set as. f a = k \<and> g a = v"
    by (auto simp: dict_of_def rev_map dest!: map_of_SomeD)
  assume "k \<in> f ` set as"
  then have "k \<in> fst ` set (rev (map (\<lambda>a. (f a, g a)) as))" by (force simp: rev_map)
  then show "\<exists>v. dict_of (map (\<lambda>a. (f a, g a)) as) k = Some v"
    unfolding dict_of_def by (metis map_of_eq_None_iff not_None_eq)
qed

lemma expected_planned:
  "expected_by_key x k = Some t \<Longrightarrow> t \<in> set (ce_planned_trials x) \<and> pt_key t = k"
  "t \<in> set (ce_planned_trials x) \<Longrightarrow> expected_by_key x (pt_key t) \<noteq> None"
  unfolding expected_by_key_def using dict_of_member(2) [of "pt_key t" pt_key "ce_planned_trials x" "\<lambda>t. t"]
  by (auto dest!: dict_of_member(1) [where g = "\<lambda>t. t"])

lemma profile_valid: "compile_experiment E c = Inr x \<Longrightarrow> validate_masking_profile (xc_profile c) = Inr ()"
  using compiled_parts(1) [of E c x] unfolding validate_contract_def
  by (auto simp: rbind_eq_Inr simp del: raise_first.simps)

lemma generated_cell_sound:
  assumes "validate_masking_profile p = Inr ()" "g \<in> set (generate_cells p)"
  shows "validate_cell_selector (gc_selector g) = Inr ()"
    "opt_eq (cs_input (gc_selector g)) (Some (ia_attack (pr_input p))) \<or> opt_eq (cs_input (gc_selector g)) (Some (ia_benign (pr_input p)))"
proof -
  have "validate_input_axis (pr_input p) = Inr ()" "validate_control_axis ''target'' (pr_target p) = Inr ()"
    "validate_control_axis ''compensator'' (pr_compensator p) = Inr ()" "validate_sham_axis (pr_sham p) = Inr ()"
    using assms(1) by (auto simp: validate_masking_profile_def rbind_eq_Inr simp del: raise_first.simps)
  then have levels: "\<forall>v \<in> {ia_attack (pr_input p), ia_benign (pr_input p), ca_low (pr_target p), ca_high (pr_target p),
      ca_low (pr_compensator p), ca_high (pr_compensator p), sa_steady (pr_sham p), sa_redeploy (pr_sham p)}. validate_typed v = Inr ()"
    by (auto simp: validate_input_axis_def validate_control_axis_def validate_sham_axis_def rbind_eq_Inr split: if_splits)
  obtain i t c s where g: "g = cell_at p i t c s" using assms(2) unfolding generate_cells_corners by auto
  show "validate_cell_selector (gc_selector g) = Inr ()"
    unfolding g using levels
    by (cases i; cases t; cases c; cases s) (simp_all add: cell_at_def full_selector_def validate_cell_selector_def
        opt_valid_def input_levels_def target_levels_def compensator_levels_def sham_levels_def)
  have "typed_eq (ia_attack (pr_input p)) (ia_attack (pr_input p))" "typed_eq (ia_benign (pr_input p)) (ia_benign (pr_input p))"
    using profile_levels(1,2) [OF assms(1)] by (simp_all add: at_level_def input_levels_def)
  then show "opt_eq (cs_input (gc_selector g)) (Some (ia_attack (pr_input p))) \<or> opt_eq (cs_input (gc_selector g)) (Some (ia_benign (pr_input p)))"
    unfolding g by (cases i) (simp_all add: cell_at_def full_selector_def input_levels_def Let_def)
qed

lemma compiled_factorial:
  assumes "compile_experiment E c = Inr x"
  shows "set (map trial_triple (ce_planned_trials x))
      = set (map gc_key (ce_cells x)) \<times> set (tp_blocks (xc_plan c)) \<times> {1..tp_replicates (xc_plan c)}"
    "\<forall>t \<in> set (ce_planned_trials x). pt_key t = sha256_bytes E (trial_material_of (ce_spec_digest x) t)"
    "tp_blocks (xc_plan c) \<noteq> []" "1 \<le> tp_replicates (xc_plan c)"
proof -
  note p = compiled_plan [OF assms]
  have b: "distinct (tp_blocks (xc_plan c))" "1 \<le> tp_replicates (xc_plan c)" "tp_blocks (xc_plan c) \<noteq> []"
    using p(1) by (auto simp: validate_plan_def list_all_iff between_def card_distinct split: if_splits)
  show "set (map trial_triple (ce_planned_trials x))
      = set (map gc_key (ce_cells x)) \<times> set (tp_blocks (xc_plan c)) \<times> {1..tp_replicates (xc_plan c)}"
    using planned_factorial(2) [OF p(5) cell_keys_distinct(2) [of "xc_profile c", folded p(3)] b(1,2)] .
  show "\<forall>t \<in> set (ce_planned_trials x). pt_key t = sha256_bytes E (trial_material_of (ce_spec_digest x) t)"
    using planned_keys(1) [OF p(5)] .
  show "tp_blocks (xc_plan c) \<noteq> []" "1 \<le> tp_replicates (xc_plan c)" using b by simp_all
qed

text \<open>Every planned trial has a digest for a key, a cell with a valid selector and an input action.\<close>

lemma planned_sound:
  assumes "compile_experiment E c = Inr x" "\<And>b. digest_format (sha256_bytes E b)" "t \<in> set (ce_planned_trials x)"
  shows "digest_format (pt_key t)"
    "\<exists>s. cells_by_key x (pt_cell_key t) = Some s \<and> validate_cell_selector s = Inr () \<and> succeeds (expected_action_digest x s)"
proof -
  note f = compiled_factorial [OF assms(1)]
  have "pt_key t = sha256_bytes E (trial_material_of (ce_spec_digest x) t)" using f(2) assms(3) by blast
  then show "digest_format (pt_key t)" using assms(2) by simp
  have "trial_triple t \<in> set (map trial_triple (ce_planned_trials x))" using assms(3) by simp
  then have "pt_cell_key t \<in> gc_key ` set (ce_cells x)" unfolding f(1) by auto
  then obtain s where s: "cells_by_key x (pt_cell_key t) = Some s"
    unfolding cells_by_key_def using dict_of_member(2) [of "pt_cell_key t" gc_key "ce_cells x" gc_selector] by blast
  then obtain g where g: "g \<in> set (ce_cells x)" "gc_selector g = s"
    unfolding cells_by_key_def using dict_of_member(1) [of gc_key gc_selector "ce_cells x" "pt_cell_key t" s] by blast
  note p = compiled_parts(4,5) [OF assms(1)]
  note v = generated_cell_sound [OF profile_valid [OF assms(1)] g(1) [unfolded p(2)], unfolded g(2)]
  have "succeeds (expected_action_digest x s)"
    using v(2) p(1) by (auto simp: expected_action_digest_def succeeds_def Let_def)
  then show "\<exists>s. cells_by_key x (pt_cell_key t) = Some s \<and> validate_cell_selector s = Inr () \<and> succeeds (expected_action_digest x s)"
    using s v(1) by blast
qed

section \<open>Inspection of the records\<close>

text \<open>
  The one thing a valid record can hold that an issue cannot: an event identifier that starts like a
  digest and is not one. It is copied into the issue when it is shared by two trials.
\<close>

definition event_ids_ok :: "trial_record list \<Rightarrow> bool" where
  "event_ids_ok rs \<longleftrightarrow> (\<forall>r \<in> set rs. \<forall>e \<in> set (executed_events (rc_trace r)).
     starts_with ''sha256:'' (xe_id e) \<longrightarrow> digest_format (xe_id e))"

lemma executed_event_bundle:
  assumes "validate_trace t = Inr ()" "e \<in> set (executed_events t)"
  shows "digest_format (xe_bundle e)"
proof -
  have "e \<in> set (executed_only es) \<Longrightarrow> Executed e \<in> set es" for es
    by (induction es rule: executed_only.induct) auto
  then have "Executed e \<in> set (trace_events t)" using assms(2) by (simp add: executed_events_def)
  then have "succeeds (validate_event_fields (Executed e))"
    using assms(1) unfolding validate_trace_def then_unit succeeds_rmap by blast
  then show ?thesis by (auto simp: succeeds_def split: if_splits)
qed

lemma yields_presence:
  assumes "compile_experiment E c = Inr x" "\<And>b. digest_format (sha256_bytes E b)" "steady rs w" "valid_records rs"
  shows "yields (steady rs) (check_presence x w)"
proof -
  have "set (missing_keys x (wd_states w)) \<subseteq> pt_key ` set (ce_planned_trials x)"
    by (auto simp: missing_keys_def expected_keys_def set_first_occurrences)
  then have missing: "digest_format k" if "k \<in> set (missing_keys x (wd_states w))" for k
    using that planned_sound(1) [OF assms(1,2)] by auto
  have each: "yields (steady rs) (each (\<lambda>k. issue ToDesign (plain_issue (a # code) (b # detail)) (indices_of (wd_states w) k) True) ks u)"
    if "steady rs u" for a b code detail ks u
    by (rule yields_each [OF yields_issue]) (use that assms(4) steady_length [OF assms(3)] in \<open>auto simp: indices_of_def\<close>)
  show ?thesis
    unfolding check_presence_def Let_def
    by (intro yields_rbind [where P = "steady rs"] each)
      (auto intro!: yields_report simp: assms(3) list_all_iff sound_issue_def plain_issue_def text_issue_def dest: missing)
qed

lemma yields_identity:
  assumes "compile_experiment E c = Inr x" "\<And>b. digest_format (sha256_bytes E b)" "steady rs w" "valid_records rs" "j < length rs"
  shows "yields (steady rs) (check_identity x j w)"
proof (cases "expected_by_key x (ts_key (wd_states w ! j))")
  case None
  then show ?thesis using assms(3) by (simp add: check_identity_def Let_def)
next
  case (Some t)
  obtain s d where s: "cells_by_key x (pt_cell_key t) = Some s" "expected_action_digest x s = Inr d"
    using planned_sound(2) [OF assms(1,2), of t] expected_planned(1) [OF Some] by (auto simp: succeeds_def)
  have r: "validate_record (ts_record (wd_states w ! j)) = Inr ()"
    using assms(3-5) by (simp add: steady_record valid_records_def)
  then have "digest_format (tr_action_digest (rc_trace (ts_record (wd_states w ! j))))"
    using valid_record_fields(2) [OF r] by (auto simp: validate_trace_def rbind_eq_Inr split: if_splits)
  then show ?thesis
    unfolding check_identity_def Let_def Some option.case
    by (intro yields_rbind [OF yields_checks [OF assms(3-5)]])
      (use assms(4,5) s in \<open>auto simp: dict_at_def sound_issue_def plain_issue_def text_issue_def intro!: yields_checks\<close>)
qed

lemma yields_reuse:
  assumes "steady rs w" "valid_records rs" "code \<noteq> []" "detail \<noteq> []"
  shows "yields (steady rs) (mark_reuse key_for code detail w)"
  unfolding mark_reuse_def
  by (rule yields_each)
    (use assms in \<open>auto intro!: yields_issue simp: group_by_iff steady_length split: prod.splits\<close>)

lemma yields_event_reuse:
  assumes "steady rs w" "valid_records rs" "code \<noteq> []" "detail \<noteq> []"
    and keys: "\<And>r e. r \<in> set rs \<Longrightarrow> e \<in> set (executed_events (rc_trace r)) \<Longrightarrow> starts_with ''sha256:'' (key_for e)
      \<Longrightarrow> digest_format (key_for e)"
  shows "yields (steady rs) (mark_executed_event_reuse key_for code detail w)"
proof -
  define pairs where "pairs = concat (map (\<lambda>j. map (\<lambda>e. (key_for e, j))
    (executed_events (rc_trace (ts_record (wd_states w ! j))))) [0..<length (wd_states w)])"
  have pair: "snd q < length rs \<and> (starts_with ''sha256:'' (fst q) \<longrightarrow> digest_format (fst q))" if "q \<in> set pairs" for q
    using that keys [of "rs ! snd q"] by (auto simp: pairs_def steady_length [OF assms(1)] steady_record [OF assms(1)])
  have group: "set (sort (remdups (map snd ps))) \<subseteq> {..<length rs} \<and> (starts_with ''sha256:'' k \<longrightarrow> digest_format k)"
    if g: "(k, ps) \<in> set (group_by fst pairs)" for k ps
  proof -
    have ps: "k \<in> fst ` set pairs" "ps = filter (\<lambda>q. fst q = k) pairs" using g unfolding group_by_iff by blast+
    then have "\<forall>q \<in> set ps. snd q < length rs" using pair by simp
    moreover have "starts_with ''sha256:'' k \<longrightarrow> digest_format k" using ps(1) pair by blast
    ultimately show ?thesis by auto
  qed
  show ?thesis
    unfolding mark_executed_event_reuse_def Let_def pairs_def [symmetric]
  proof (rule yields_each, clarify)
    fix k ps u assume u: "(k, ps) \<in> set (group_by fst pairs)" "steady rs u"
    let ?i = "(plain_issue code detail)\<lparr>is_digests := if starts_with ''sha256:'' k then [k] else []\<rparr>"
    have "sound_issue ?i" using group [OF u(1)] assms(3,4) by (simp add: sound_issue_def plain_issue_def text_issue_def)
    then have "yields (steady rs) (issue ToSafety ?i (sort (remdups (map snd ps))) True u)"
      using group [OF u(1)] yields_issue [OF u(2) assms(2)] by blast
    then show "yields (steady rs) (if 1 < card (set (map (\<lambda>j. ts_key (wd_states w ! j)) (sort (remdups (map snd ps)))))
        then issue ToSafety ?i (sort (remdups (map snd ps))) True u else Inr u)"
      using u(2) by simp
  qed (rule assms(1))
qed

lemma yields_all_reuse:
  assumes "steady rs w" "valid_records rs" "event_ids_ok rs"
  shows "yields (steady rs) (mark_all_reuse w)"
proof -
  have bundles: "digest_format (xe_bundle e)" if "r \<in> set rs" "e \<in> set (executed_events (rc_trace r))" for r e
    using that executed_event_bundle valid_record_fields(2) assms(2) by (auto simp: valid_records_def)
  show ?thesis
    unfolding mark_all_reuse_def
    by (intro yields_rbind [where P = "steady rs"] yields_reuse yields_event_reuse)
      (use assms bundles in \<open>auto simp: event_ids_ok_def\<close>)
qed

lemma verify_with_valid: "verify_with v validate message b = Inr r \<Longrightarrow> validate r = Inr ()"
  by (auto simp: verify_with_def split: sum.splits)

text \<open>The exceptions a verifier raises have texts with a UTF-8 form.\<close>

definition encodable_errors :: "('b \<Rightarrow> 'r answer) \<Rightarrow> bool" where
  "encodable_errors v \<longleftrightarrow> (\<forall>b t. v b = Inl t \<longrightarrow> no_surrogate t)"

lemma verify_with_error:
  assumes "encodable_errors v" "verify_with v validate message b = Inl t"
  shows "t \<noteq> [] \<and> no_surrogate t"
  using assms by (auto simp: verify_with_def encodable_errors_def simp del: text_of_simps(2) split: sum.splits)

lemma steady_set_attestation:
  assumes "steady rs w" "validate_attestation_result (AttestationAdmitted a) = Inr ()"
  shows "steady rs (set_attestation j a w)"
proof -
  have "map ts_record (wd_states (set_attestation j a w)) = map ts_record (wd_states w)"
    using set_attestation_keeps(1) [of w j a] by (simp add: Evaluation_Steps.evolves_def)
  moreover have "\<forall>s \<in> set (wd_states (set_attestation j a w)). s \<in> set (wd_states w) \<or> ts_attestation s = Some a"
    using set_update_subset_insert [of "wd_states w" j "(wd_states w ! j)\<lparr>ts_attestation := Some a\<rparr>"]
    by (auto simp: set_attestation_def)
  ultimately show ?thesis using assms unfolding steady_def by (metis option.inject)
qed

lemma attestation_checks_sound:
  assumes "validate_attestation_result (AttestationAdmitted a) = Inr ()" "validate_cell_selector s = Inr ()"
    "(bad, dest, i) \<in> set (attestation_checks x t s r a)"
  shows "sound_issue i"
proof -
  have "digest_format (at_evidence_id a)" "digests_ok (at_artifact_ids a)" "validate_cell_selector (at_selector a) = Inr ()"
    "digests_ok [at_build_digest a, at_dataset_digest a, at_fixture_digest a]"
    using assms(1) by (auto simp: rbind_eq_Inr split: if_splits)
  then have "\<forall>row \<in> set (attestation_checks x t s r a). sound_issue (snd (snd row))"
    using assms(2) by (simp add: attestation_checks_def Let_def sound_issue_def attested_issue_def plain_issue_def text_issue_def)
  then show ?thesis using assms(3) by force
qed

lemma yields_attest:
  assumes "compile_experiment E c = Inr x" "\<And>b. digest_format (sha256_bytes E b)" "steady rs w" "valid_records rs" "j < length rs"
    "encodable_errors v"
  shows "yields (steady rs) (attest x v j w)"
proof (cases "expected_by_key x (ts_key (wd_states w ! j))")
  case None
  then show ?thesis using assms(3) by (simp add: attest_def Let_def)
next
  case (Some t)
  let ?r = "ts_record (wd_states w ! j)"
  obtain s where s: "cells_by_key x (pt_cell_key t) = Some s" "validate_cell_selector s = Inr ()"
    using planned_sound(2) [OF assms(1,2), of t] expected_planned(1) [OF Some] by auto
  note raise = yields_issue [OF assms(3,4)]
  consider (error) m where "verify_attestation v ?r = Inl m" "m \<noteq> [] \<and> no_surrogate m"
    | (failed) f where "verify_attestation v ?r = Inr (AttestationFailed f)"
    | (admitted) a where "verify_attestation v ?r = Inr (AttestationAdmitted a)"
    using verify_with_error [OF assms(6)] unfolding verify_attestation_def
    by (metis attestation_result.exhaust sum.exhaust)
  then show ?thesis
  proof cases
    case error
    then show ?thesis using assms(5) raise Some by (simp add: attest_def Let_def)
  next
    case (failed f)
    have "validate_attestation_result (AttestationFailed f) = Inr ()"
      using verify_with_valid [OF failed [unfolded verify_attestation_def]] .
    then have f: "\<forall>s \<in> set (af_selectors f). validate_cell_selector s = Inr ()" "af_reason f \<noteq> []"
      "digests_ok (af_evidence_ids f @ af_artifact_ids f @ af_digests f)"
      unfolding validate_attestation_result.simps then_unit succeeds_rmap by (auto simp: succeeds_def split: if_splits)
    have "yields (steady rs) (issue ToEvidence ((plain_issue (''trial-attestation-'' @ failure_name (af_status f)) (af_reason f))
        \<lparr>is_evidence_ids := af_evidence_ids f, is_artifact_ids := af_artifact_ids f, is_expected_selector := Some s,
         is_selectors := af_selectors f, is_digests := af_digests f\<rparr>) [j] True w)"
      by (rule raise) (use f s(2) assms(5) in \<open>auto simp: sound_issue_def plain_issue_def text_issue_def\<close>)
    then show ?thesis using failed Some s(1) by (simp add: attest_def Let_def dict_at_def)
  next
    case (admitted a)
    have a: "validate_attestation_result (AttestationAdmitted a) = Inr ()"
      using verify_with_valid [OF admitted [unfolded verify_attestation_def]] .
    have "yields (steady rs) (run_checks True j (attestation_checks x t s ?r a) (set_attestation j a w))"
      by (rule yields_checks [OF steady_set_attestation [OF assms(3) a] assms(4,5)])
        (rule attestation_checks_sound [OF a s(2)])
    then show ?thesis using admitted Some s(1) by (simp add: attest_def Let_def dict_at_def)
  qed
qed

lemma steady_evidence_id:
  assumes "steady rs w" "j \<in> set (attested_indices (wd_states w))"
  shows "digest_format (at_evidence_id (the (ts_attestation (wd_states w ! j))))"
proof -
  obtain a where a: "ts_attestation (wd_states w ! j) = Some a" "j < length (wd_states w)"
    using assms(2) by (auto simp: attested_indices_def)
  then have "validate_attestation_result (AttestationAdmitted a) = Inr ()"
    using assms(1) unfolding steady_def by (meson nth_mem)
  then show ?thesis using a(1) by (auto simp: rbind_eq_Inr split: if_splits)
qed

lemma yields_evidence_reuse:
  assumes "steady rs w" "valid_records rs"
  shows "yields (steady rs) (mark_evidence_reuse w)"
  unfolding mark_evidence_reuse_def Let_def
proof (rule yields_each, clarify)
  fix e js u
  assume u: "(e, js) \<in> set (group_by (\<lambda>j. at_evidence_id (the (ts_attestation (wd_states w ! j))))
      (attested_indices (wd_states w)))" "steady rs u"
  have "digest_format e" using u(1) steady_evidence_id [OF assms(1)] unfolding group_by_iff by blast
  moreover have "set js \<subseteq> {..<length rs}"
    using u(1) steady_length [OF assms(1)] by (auto simp: group_by_iff attested_indices_def)
  ultimately show "yields (steady rs) (if length js > 1
      then issue ToSafety ((plain_issue ''attestation-evidence-reuse'' ''one attestation evidence id is bound to multiple trials'')
        \<lparr>is_evidence_ids := [e]\<rparr>) js True u else Inr u)"
    using yields_issue [OF u(2) assms(2)] u(2) by (simp add: sound_issue_def plain_issue_def text_issue_def)
qed (rule assms(1))

lemma pairs_of_set: "(a, b) \<in> set (pairs_of xs) \<Longrightarrow> a \<in> set xs \<and> b \<in> set xs"
  by (induction xs rule: pairs_of.induct) auto

lemma yields_overlaps:
  assumes "steady rs w" "valid_records rs"
  shows "yields (steady rs) (mark_runner_overlaps w)"
  unfolding mark_runner_overlaps_def Let_def
proof (rule yields_each, clarify)
  fix runner js u
  assume u: "(runner, js) \<in> set (group_by (\<lambda>j. cl_runner (rc_clone (ts_record (wd_states w ! j)))) (attested_indices (wd_states w)))"
    "steady rs u"
  have "set js \<subseteq> {..<length rs}"
    using u(1) steady_length [OF assms(1)] by (auto simp: group_by_iff attested_indices_def)
  then have "l < length rs \<and> r < length rs" if "(l, r) \<in> set (pairs_of js)" for l r
    using pairs_of_set [OF that] by auto
  then show "yields (steady rs) (each (\<lambda>(l, r) w'. if overlapping (the (ts_attestation (wd_states w ! l)))
      (the (ts_attestation (wd_states w ! r))) then issue ToSafety (plain_issue ''runner-resource-overlap''
        (''trials overlap on runner resource '' @ runner)) [l, r] True w' else Inr w') (pairs_of js) u)"
    using u(2) assms(2) by (intro yields_each) (auto intro!: yields_issue)
qed (rule assms(1))

lemma yields_inspect:
  assumes "compile_experiment E c = Inr x" "\<And>b. digest_format (sha256_bytes E b)" "valid_records rs" "event_ids_ok rs"
    "encodable_errors v"
  shows "yields (steady rs) (inspect_records x v rs)"
proof -
  let ?w = "\<lparr>wd_states = map new_state rs, wd_design = [], wd_evidence = [], wd_safety = []\<rparr>"
  have w: "steady rs ?w" by (simp add: steady_def new_state_def comp_def)
  note plan = assms(1,2)
  show ?thesis
    unfolding inspect_records_def Let_def
    by (intro yields_rbind [where P = "steady rs"] yields_presence [OF plan w assms(3)] yields_each
        yields_identity [OF plan] yields_all_reuse yields_attest [OF plan] yields_evidence_reuse yields_overlaps)
      (use assms(3-5) in auto)
qed

section \<open>Cleanups\<close>

lemma cleanup_judged_sound:
  assumes "(bad, dest, i) \<in> set (snd (judge_cleanup x v r))" "encodable_errors v"
  shows "sound_issue i"
proof (cases "verify_cleanup v (cleanup_binding_of x r)")
  case (Inl m)
  then have "m \<noteq> [] \<and> no_surrogate m"
    using verify_with_error [OF assms(2)] unfolding verify_cleanup_def by blast
  then show ?thesis using assms Inl by (simp add: judge_cleanup_def Let_def)
next
  case (Inr k)
  have "validate_cleanup_result k = Inr ()" using verify_with_valid [OF Inr [unfolded verify_cleanup_def]] .
  then show ?thesis
    using assms Inr by (cases k) (auto simp: judge_cleanup_def Let_def cleanup_checks_def cleanup_issue_def sound_issue_def
        plain_issue_def text_issue_def split: if_splits)
qed

lemma cleanup_admitted_id:
  assumes "fst (judge_cleanup x v r) = Some k"
  shows "digest_format (ke_evidence_id k)"
proof (cases "verify_cleanup v (cleanup_binding_of x r)")
  case (Inr q)
  have "validate_cleanup_result q = Inr ()" using verify_with_valid [OF Inr [unfolded verify_cleanup_def]] .
  then show ?thesis using assms Inr by (cases q) (auto simp: judge_cleanup_def Let_def split: if_splits)
qed (use assms in \<open>simp add: judge_cleanup_def Let_def\<close>)

lemma yields_cleanups:
  assumes "steady rs w" "valid_records rs" "encodable_errors v"
  shows "yields (\<lambda>_. True) (admit_cleanups x v w)"
proof -
  have planned: "j < length rs" if "j \<in> set (planned_indices x (wd_states w))" for j
    using that steady_length [OF assms(1)] by (simp add: planned_indices_def)
  have clean: "digest_format (rc_cleanup_bundle (ts_record (wd_states w ! j)))" if "j \<in> set (planned_indices x (wd_states w))" for j
    using planned [OF that] valid_record_fields(3) assms by (simp add: steady_record valid_records_def)
  show ?thesis
    unfolding admit_cleanups_def Let_def
    apply (intro yields_rbind [where P = "steady rs"] yields_each)
    subgoal by (auto intro!: yields_issue simp: assms(2) sound_issue_def plain_issue_def text_issue_def group_by_iff clean dest: planned)
    subgoal by (rule assms(1))
    subgoal by (rule yields_checks [OF _ assms(2) planned]) (auto dest: cleanup_judged_sound [OF _ assms(3)])
    subgoal by assumption
    subgoal by (auto intro!: yields_issue simp: assms(2) sound_issue_def plain_issue_def text_issue_def group_by_iff dest: planned)
      (rule cleanup_admitted_id, assumption)
    subgoal by assumption
    subgoal by simp
    done
qed

end
