(* ===== verification/Baseline_Props.thy ===== *)
theory Baseline_Props
  imports Baseline Evaluation_Total
begin

text \<open>
  What the outcome-only baseline sees and what it cannot see: its verdict is a function of the outcome
  observations of the current cell, so it agrees with the path obligation of the evaluator and passes
  every masked target failure.
\<close>

section \<open>The observations it reads\<close>

lemma collect_relevant_Inr:
  "collect_relevant keys m obs relevant = Inr relevant' \<longleftrightarrow>
     (let R = filter (is_relevant keys m) obs in
      distinct (map mo_trial_key R) \<and> (\<forall>ob \<in> set R. relevant (mo_trial_key ob) = None \<and> integer_of (mo_value ob) \<noteq> None)
      \<and> relevant' = relevant ++ map_of (map (\<lambda>ob. (mo_trial_key ob, ob)) R))"
proof (induction keys m obs relevant rule: collect_relevant.induct)
  case (2 keys m ob obs relevant)
  let ?R = "filter (is_relevant keys m) obs" and ?k = "mo_trial_key ob" and ?u = "relevant(mo_trial_key ob \<mapsto> ob)"
  let ?d = "\<lambda>R. map_of (map (\<lambda>ob. (mo_trial_key ob, ob)) R)"
  show ?case
  proof (cases "is_relevant keys m ob \<and> relevant ?k = None \<and> integer_of (mo_value ob) \<noteq> None")
    case True
    have free: "(\<forall>q \<in> set ?R. ?u (mo_trial_key q) = None \<and> integer_of (mo_value q) \<noteq> None)
        \<longleftrightarrow> ?k \<notin> mo_trial_key ` set ?R \<and> (\<forall>q \<in> set ?R. relevant (mo_trial_key q) = None \<and> integer_of (mo_value q) \<noteq> None)"
      by (auto simp del: set_filter) (metis imageI)
    have upd: "?u ++ ?d ?R = relevant ++ ?d (ob # ?R)" if "?k \<notin> mo_trial_key ` set ?R"
      using that by (simp add: map_add_upd_left dom_map_of_conv_image_fst image_image del: set_filter)
    have "collect_relevant keys m (ob # obs) relevant = collect_relevant keys m obs ?u" using True by auto
    moreover have "collect_relevant keys m obs ?u = Inr relevant' \<longleftrightarrow> distinct (map mo_trial_key ?R)
        \<and> (\<forall>q \<in> set ?R. ?u (mo_trial_key q) = None \<and> integer_of (mo_value q) \<noteq> None) \<and> relevant' = ?u ++ ?d ?R"
      by (rule 2(2) [unfolded Let_def]) (use True in auto)
    moreover have "filter (is_relevant keys m) (ob # obs) = ob # ?R" using True by simp
    ultimately show ?thesis
      unfolding Let_def free using True upd by (auto simp del: set_filter map_add_upd)
  next
    case False
    then show ?thesis using 2(1) by (cases "is_relevant keys m ob") (auto simp: Let_def)
  qed
qed (auto simp: Let_def)

lemma map_of_own_key:
  assumes "distinct (map f xs)"
  shows "map_of (map (\<lambda>x. (f x, x)) xs) k = Some x \<longleftrightarrow> x \<in> set xs \<and> f x = k"
proof -
  have "distinct (map fst (map (\<lambda>x. (f x, x)) xs))" using assms by (simp add: comp_def)
  then show ?thesis by (auto simp: map_of_eq_Some_iff)
qed

text \<open>The outcome observations of the trials with the given keys.\<close>

definition outcomes :: "compiled_experiment \<Rightarrow> string list \<Rightarrow> metric_observation list \<Rightarrow> metric_observation list" where
  "outcomes x keys obs = filter (\<lambda>ob. mo_trial_key ob \<in> set keys \<and> mo_stage ob = StageOutcome
     \<and> mo_metric_id ob = pr_outcome_metric_id (xc_profile (ce_contract x))) obs"

lemma outcomes_relevant: "outcomes x keys obs = filter (is_relevant keys (pr_outcome_metric_id (xc_profile (ce_contract x)))) obs"
  unfolding outcomes_def by (rule filter_cong) (simp_all add: is_relevant_def)

lemma integer_of_Some: "integer_of v = Some n \<longleftrightarrow> v = IntegerValue n"
  by (cases v) auto

lemma baseline_result:
  assumes "evaluate_final_outcome_only x obs = Inr r" "current_trial_keys x = Inr keys"
  shows "distinct (map mo_trial_key (outcomes x keys obs))" "\<forall>ob \<in> set (outcomes x keys obs). integer_of (mo_value ob) \<noteq> None"
    "map mo_trial_key (fo_evaluated r) = keys" "set (fo_evaluated r) = set (outcomes x keys obs)"
    "fo_verdict r = BaselinePass \<longleftrightarrow> (\<forall>ob \<in> set (outcomes x keys obs). mo_value ob = IntegerValue 0)"
    "fo_ignored_count r = int (length obs) - int (length keys)" "keys \<noteq> []"
proof -
  let ?m = "pr_outcome_metric_id (xc_profile (ce_contract x))"
  obtain rel where rel: "collect_relevant keys ?m obs Map.empty = Inr rel" "\<forall>k \<in> set keys. rel k \<noteq> None"
    and f: "r = \<lparr>fo_verdict = if list_all (\<lambda>ob. integer_of (mo_value ob) = Some 0) (map (\<lambda>k. the (rel k)) keys)
        then BaselinePass else BaselineFail, fo_outcome_metric_id = ?m, fo_safe_value = 0,
        fo_evaluated = map (\<lambda>k. the (rel k)) keys, fo_ignored_count = int (length obs) - int (length keys)\<rparr>"
    and v: "validate_final_outcome r = Inr ()"
    using assms unfolding evaluate_final_outcome_only_def Let_def
    by (auto simp: rbind_eq_Inr list_ex_iff simp del: if_split split: if_split_asm option.splits)
  have r: "fo_evaluated r = map (\<lambda>k. the (rel k)) keys" "fo_ignored_count r = int (length obs) - int (length keys)"
    "fo_verdict r = BaselinePass \<longleftrightarrow> (\<forall>ob \<in> set (fo_evaluated r). mo_value ob = IntegerValue 0)"
    unfolding f by (simp_all add: list_all_iff integer_of_Some)
  note c = rel(1) [unfolded collect_relevant_Inr Let_def, folded outcomes_relevant]
  then show d: "distinct (map mo_trial_key (outcomes x keys obs))" "\<forall>ob \<in> set (outcomes x keys obs). integer_of (mo_value ob) \<noteq> None"
    by blast+
  have own: "rel k = Some ob \<longleftrightarrow> ob \<in> set (outcomes x keys obs) \<and> mo_trial_key ob = k" for k ob
    using c map_of_own_key [OF d(1)] by simp
  have found: "the (rel k) \<in> set (outcomes x keys obs) \<and> mo_trial_key (the (rel k)) = k" if "k \<in> set keys" for k
    using own [of k "the (rel k)"] rel(2) that by simp
  then show "map mo_trial_key (fo_evaluated r) = keys" unfolding r(1) by (simp add: map_idI)
  have "ob \<in> (\<lambda>k. the (rel k)) ` set keys" if "ob \<in> set (outcomes x keys obs)" for ob
    using that own [of "mo_trial_key ob" ob]
    by (intro image_eqI [of _ _ "mo_trial_key ob"]) (auto simp: outcomes_relevant is_relevant_def)
  then show e: "set (fo_evaluated r) = set (outcomes x keys obs)"
    unfolding r(1) using found by auto
  show "fo_verdict r = BaselinePass \<longleftrightarrow> (\<forall>ob \<in> set (outcomes x keys obs). mo_value ob = IntegerValue 0)"
    using r(3) unfolding e .
  show "fo_ignored_count r = int (length obs) - int (length keys)" by (rule r(2))
  show "keys \<noteq> []" using v r(1) by (auto simp: validate_final_outcome_def rbind_eq_Inr split: if_splits)
qed

section \<open>The trials it reads\<close>

lemma levels_finite:
  assumes "validate_masking_profile p = Inr ()" "g \<in> set (generate_cells p)"
  shows "finite_selector (gc_selector g)"
proof -
  have "validate_input_axis (pr_input p) = Inr ()" "validate_control_axis ''target'' (pr_target p) = Inr ()"
    "validate_control_axis ''compensator'' (pr_compensator p) = Inr ()" "validate_sham_axis (pr_sham p) = Inr ()"
    using assms(1) by (auto simp: validate_masking_profile_def rbind_eq_Inr simp del: raise_first.simps)
  then have "list_all finite_value [ia_attack (pr_input p), ia_benign (pr_input p), ca_low (pr_target p), ca_high (pr_target p),
      ca_low (pr_compensator p), ca_high (pr_compensator p), sa_steady (pr_sham p), sa_redeploy (pr_sham p)]"
    by (auto simp: validate_input_axis_def validate_control_axis_def validate_sham_axis_def rbind_eq_Inr
        intro: validate_typed_finite split: if_splits)
  then show ?thesis
    using assms(2) by (auto simp: generate_cells_def input_levels_def target_levels_def compensator_levels_def sham_levels_def
        full_selector_def finite_selector_def opt_ok_def)
qed

lemma full_selector_matches:
  assumes "finite_selector (full_selector a b c d)" "finite_selector (full_selector a' b' c' d')"
  shows "selector_matches (full_selector a b c d) (full_selector a' b' c' d')
    \<longleftrightarrow> selector_eq (full_selector a' b' c' d') (full_selector a b c d)"
  using assms typed_eq_same_value same_value_equiv(2)
  by (auto simp: selector_matches_def selector_eq_def full_selector_def finite_selector_def opt_ok_def)

lemma current_keys:
  assumes "compile_experiment E c = Inr x"
  shows "current_trial_keys x = Inr (trials_in x (ce_current_selector x))"
proof -
  note p = compiled_parts [OF assms]
  let ?p = "xc_profile c" and ?s = "ce_current_selector x"
  have v: "validate_masking_profile ?p = Inr ()"
    using p(1) by (auto simp: validate_contract_def rbind_eq_Inr simp del: raise_first.simps)
  note l = profile_levels [OF v]
  obtain t q where "at_level (target_levels ?p) t (ca_current (pr_target ?p))"
    "at_level (compensator_levels ?p) q (ca_current (pr_compensator ?p))" using l(9,10) by blast
  then have "cell_for (ce_cells x) ?s = Inr (cell_at ?p False t q False)"
    unfolding p(5,6) current_selector_def by (rule cell_for_corner [OF l(1) _ _ l(7)])
  then obtain g where g: "filter (\<lambda>c. selector_eq (gc_selector c) ?s) (ce_cells x) = [g]"
    by (auto simp: cell_for_def split: list.splits)
  have only: "selector_eq (gc_selector c) ?s \<longleftrightarrow> c = g" if "c \<in> set (ce_cells x)" for c
    using that arg_cong [OF g, of set] by auto
  have "pt_cell_key t = gc_key g \<longleftrightarrow> opt_ok (selector_matches ?s) (trial_selector (ce_cells x) t)"
    if "t \<in> set (ce_planned_trials x)" for t
  proof -
    have "trial_triple t \<in> set (map trial_triple (ce_planned_trials x))" using that by simp
    then obtain d where d: "d \<in> set (ce_cells x)" "pt_cell_key t = gc_key d"
      unfolding compiled_factorial(1) [OF assms] by auto
    have keys: "distinct (map gc_key (ce_cells x))" unfolding p(5) by (rule cell_keys_distinct)
    have "g \<in> set (ce_cells x)" using arg_cong [OF g, of set] by auto
    then have "gc_key d = gc_key g \<longleftrightarrow> d = g" using d(1) keys by (auto simp: distinct_map dest: inj_onD)
    also have "\<dots> \<longleftrightarrow> selector_eq (gc_selector d) ?s" using only d(1) by blast
    also have "\<dots> \<longleftrightarrow> selector_matches ?s (gc_selector d)"
    proof -
      obtain a b e f where "gc_selector d = full_selector a b e f"
        using d(1) unfolding p(5) generate_cells_def by auto
      then show ?thesis
        using levels_finite [OF v d(1) [unfolded p(5)]] profile_selectors_finite(1) [OF v]
        unfolding p(6) current_selector_def by (simp add: full_selector_matches)
    qed
    finally show ?thesis using cell_of_key [OF keys d] d(2) by (simp add: opt_ok_def)
  qed
  then show ?thesis by (simp add: current_trial_keys_def g trials_in_def cong: filter_cong)
qed

section \<open>Counting to zero\<close>

text \<open>Rounding to the precision of the context keeps zero apart from everything else.\<close>

lemma dec_fix_zero: "\<exists>c' e'. dec_fix (Dec s c e) = Dec s c' e' \<and> (c' = 0 \<longleftrightarrow> c = 0)"
proof (cases "length (decimal c) \<le> decimal_prec")
  case False
  let ?k = "length (decimal c) - decimal_prec"
  have c: "0 < c" using False by (intro gr0I) (simp add: decimal_prec_def decimal_simps)
  have "length (decimal c) - 1 = (decimal_prec - 1) + ?k" using False by (simp add: decimal_prec_def)
  then have "10 ^ (decimal_prec - 1) * 10 ^ ?k \<le> c" using decimal_lower [OF c] by (simp add: power_add)
  then have "10 ^ (decimal_prec - 1) \<le> c div 10 ^ ?k" by (simp add: less_eq_div_iff_mult_less_eq)
  also have "\<dots> \<le> round_half_even c ?k" by (simp add: round_half_even_def Let_def)
  finally have "10 ^ (decimal_prec - 1) \<le> round_half_even c ?k" .
  then have "10 \<le> round_half_even c ?k" by (simp add: decimal_prec_def)
  then show ?thesis using False c by (auto simp: Let_def)
qed (simp add: Let_def)

lemma dec_le_zero: "dec_le (dec_abs (dec_sub (Dec (n < 0) (nat \<bar>n\<bar>) 0) (Dec False 0 0))) (Dec False 0 0) \<longleftrightarrow> n = 0"
proof -
  have "dec_sub (Dec (n < 0) (nat \<bar>n\<bar>) 0) (Dec False 0 0) = dec_fix (Dec (n < 0) (nat \<bar>n\<bar>) 0)"
    by (simp add: dec_sub_def Let_def del: dec_fix.simps)
  then obtain c e where d: "dec_sub (Dec (n < 0) (nat \<bar>n\<bar>) 0) (Dec False 0 0) = Dec (n < 0) c e" "c = 0 \<longleftrightarrow> n = 0"
    using dec_fix_zero [of "n < 0" "nat \<bar>n\<bar>" 0] by auto
  obtain c' e' where "dec_fix (Dec False c e) = Dec False c' e'" "c' = 0 \<longleftrightarrow> c = 0" using dec_fix_zero by blast
  moreover have "\<not> (10 :: int) ^ k \<le> 0" for k by (simp add: not_le)
  ultimately show ?thesis using d by (auto simp: mult_le_0_iff simp del: dec_fix.simps)
qed

lemma zero_predicate:
  assumes "mp_operator q = OpEqual" "mp_tolerance q = None" "mp_expected q = IntegerValue 0" "predicate_matches q v = Inr b"
  shows "b \<longleftrightarrow> v = IntegerValue 0"
proof (cases v)
  case (IntegerValue n)
  then show ?thesis
    using assms dec_le_zero [of n] by (auto simp: predicate_matches_def Let_def numeric_def simp del: dec_abs.simps dec_le.simps)
qed (use assms in \<open>auto simp: predicate_matches_def Let_def\<close>)


section \<open>Complete observations are judged\<close>

lemma distinct_by_filter: "(\<And>x. x \<in> set xs \<Longrightarrow> length (filter (\<lambda>y. f y = f x) xs) \<le> 1) \<Longrightarrow> distinct (map f xs)"
proof (induction xs)
  case (Cons x xs)
  have "length (filter (\<lambda>y. f y = f z) xs) \<le> 1" if "z \<in> set xs" for z
    using Cons.prems [of z] that by (auto split: if_splits)
  moreover have "filter (\<lambda>y. f y = f x) xs = []" using Cons.prems [of x] by simp
  then have "f x \<notin> f ` set xs" by (force simp: filter_empty_conv)
  ultimately show ?case using Cons.IH by simp
qed simp

text \<open>Exactly one outcome observation of a trial, and its integer.\<close>

definition sole_outcome :: "compiled_experiment \<Rightarrow> metric_observation list \<Rightarrow> string \<Rightarrow> metric_observation \<Rightarrow> bool" where
  "sole_outcome x obs key ob \<longleftrightarrow> outcomes x [key] obs = [ob] \<and> integer_of (mo_value ob) \<noteq> None"

lemma sole_outcomes:
  assumes "\<forall>k \<in> set keys. \<exists>ob. sole_outcome x obs k ob"
  shows "distinct (map mo_trial_key (outcomes x keys obs))" "\<forall>ob \<in> set (outcomes x keys obs). integer_of (mo_value ob) \<noteq> None"
    "k \<in> set keys \<Longrightarrow> ob \<in> set (outcomes x keys obs) \<and> mo_trial_key ob = k \<longleftrightarrow> sole_outcome x obs k ob"
proof -
  have one: "filter (\<lambda>q. mo_trial_key q = k) (outcomes x keys obs) = outcomes x [k] obs" if "k \<in> set keys" for k
    using that unfolding outcomes_relevant filter_filter by (intro filter_cong) (auto simp: is_relevant_def)
  have key: "mo_trial_key q \<in> set keys" if "q \<in> set (outcomes x keys obs)" for q
    using that by (simp add: outcomes_relevant is_relevant_def)
  show "distinct (map mo_trial_key (outcomes x keys obs))"
    using key assms one by (intro distinct_by_filter) (metis le_refl length_Cons list.size(3) One_nat_def sole_outcome_def)
  show sole: "ob \<in> set (outcomes x keys obs) \<and> mo_trial_key ob = k \<longleftrightarrow> sole_outcome x obs k ob" if k: "k \<in> set keys" for k ob
  proof -
    obtain q where q: "sole_outcome x obs k q" using assms k by blast
    have "ob \<in> set (outcomes x keys obs) \<and> mo_trial_key ob = k \<longleftrightarrow> ob \<in> set (outcomes x [k] obs)"
      unfolding one [OF k, symmetric] by auto
    then show ?thesis using q by (auto simp: sole_outcome_def)
  qed
  show "\<forall>ob \<in> set (outcomes x keys obs). integer_of (mo_value ob) \<noteq> None"
    using key sole by (auto simp: sole_outcome_def)
qed

lemma baseline_judges:
  assumes "opt_eq (cs_input (ce_current_selector x)) (Some (ia_attack (pr_input p)))" "pr_outcome_safe p = IntegerValue 0"
    and p: "p = xc_profile (ce_contract x)" "pr_outcome_metric_id p \<noteq> []"
    and keys: "current_trial_keys x = Inr keys" "distinct keys" "keys \<noteq> []" "\<forall>k \<in> set keys. \<exists>ob. sole_outcome x obs k ob"
    and valid: "\<forall>ob \<in> set obs. validate_observation ob = Inr ()"
  shows "\<exists>r. evaluate_final_outcome_only x obs = Inr r \<and> validate_final_outcome r = Inr ()"
proof -
  note s = sole_outcomes [OF keys(4)]
  define rel where "rel = map_of (map (\<lambda>ob. (mo_trial_key ob, ob)) (outcomes x keys obs))"
  have own: "rel k = Some ob \<longleftrightarrow> ob \<in> set (outcomes x keys obs) \<and> mo_trial_key ob = k" for k ob
    unfolding rel_def by (rule map_of_own_key [OF s(1)])
  have c: "collect_relevant keys (pr_outcome_metric_id p) obs Map.empty = Inr rel"
    unfolding collect_relevant_Inr Let_def rel_def p(1) using s(1,2) by (simp add: outcomes_relevant)
  have all: "\<exists>ob \<in> set obs. rel k = Some ob \<and> mo_trial_key ob = k" if k: "k \<in> set keys" for k
  proof -
    obtain ob where "sole_outcome x obs k ob" using keys(4) k by blast
    then have "ob \<in> set (outcomes x keys obs)" "mo_trial_key ob = k" using s(3) [OF k] by blast+
    then show ?thesis using own by (auto simp: outcomes_relevant)
  qed
  then have "set keys \<subseteq> mo_trial_key ` set obs" by force
  then have "card (set keys) \<le> card (set obs)" by (meson List.finite_set surj_card_le)
  then have few: "length keys \<le> length obs" using distinct_card [OF keys(2)] card_length [of obs] by simp
  define ev where "ev = map (\<lambda>k. the (rel k)) keys"
  have "\<forall>ob \<in> set ev. validate_observation ob = Inr ()"
    unfolding ev_def using all valid by auto (metis option.sel)
  then have "rmap validate_observation ev = Inr (map (\<lambda>_. ()) ev)" by (intro rmap_all_ok) simp
  moreover have "ev \<noteq> []" "length ev \<le> length obs" using keys(3) few by (simp_all add: ev_def)
  ultimately have v: "validate_final_outcome \<lparr>fo_verdict = d, fo_outcome_metric_id = pr_outcome_metric_id p, fo_safe_value = 0,
      fo_evaluated = ev, fo_ignored_count = int (length obs) - int (length ev)\<rparr> = Inr ()" for d
    using p(2) by (simp add: validate_final_outcome_def between_def I_JSON_MAX_INTEGER_def)
  have "\<not> list_ex (\<lambda>k. rel k = None) keys" using all by (force simp: list_ex_iff)
  then show ?thesis
    unfolding evaluate_final_outcome_only_def Let_def p(1) [symmetric] using assms(1,2) keys(1) c v
    by (simp add: ev_def [symmetric] del: validate_typed.simps)
qed


section \<open>Beside the evaluator\<close>

lemma report_ids:
  assumes "evaluate E c rs va vm vk = Inr rep"
  shows "map oa_obligation_id (er_obligations rep) = map ob_id (xc_obligations (ce_contract (er_compiled rep)))"
proof (rule evaluate_parts [OF assms])
  fix x cx2 cx3 A
  assume e: "collect (evaluate_obligation A) (xc_obligations (ce_contract x)) cx2 = Inr (er_obligations rep, cx3)"
    "er_compiled rep = x"
  have "oa_obligation_id a = ob_id b" if "evaluate_obligation A b u = Inr (a, v)" for a b u v
    using that by (rule evaluate_obligation_Inr) (simp add: assessment_fields)
  then show ?thesis unfolding e(2) using e(1) by (rule collect_map)
qed

lemma summary_truths:
  assumes "residual_summary_of x obs ks complete = Inr r" "p = xc_profile (ce_contract x)"
  shows "\<exists>target \<in> set obs. oa_obligation_id target = pr_primary_target_id p \<and> rs_target_truth r = oa_truth target"
    "\<exists>path \<in> set obs. oa_obligation_id path = pr_primary_path_id p \<and> rs_path_truth r = oa_truth path"
    "rs_classification r = MaskedTargetFailure \<Longrightarrow> rs_target_truth r = TruthRefuted \<and> rs_path_truth r = TruthSupported"
    "rs_classification r = ExposedPath \<Longrightarrow> rs_path_truth r = TruthRefuted"
proof -
  let ?d = "dict_of (map (\<lambda>a. (oa_obligation_id a, a)) obs)"
  obtain target compensator path benign s where d: "?d (pr_primary_target_id p) = Some target" "?d (pr_primary_path_id p) = Some path"
    "classify target compensator path benign ks complete = Inr s"
    "rs_target_truth r = oa_truth target" "rs_path_truth r = oa_truth path" "rs_classification r = s"
    using assms(1) unfolding residual_summary_of_def assms(2) Let_def rbind_eq_Inr dict_at_Inr by (elim exE conjE) auto
  show "\<exists>target \<in> set obs. oa_obligation_id target = pr_primary_target_id p \<and> rs_target_truth r = oa_truth target"
    using dict_of_in [OF d(1)] d(4) by blast
  show "\<exists>path \<in> set obs. oa_obligation_id path = pr_primary_path_id p \<and> rs_path_truth r = oa_truth path"
    using dict_of_in [OF d(2)] d(5) by blast
  show "rs_target_truth r = TruthRefuted \<and> rs_path_truth r = TruthSupported" if "rs_classification r = MaskedTargetFailure"
    using d(3-6) that by (auto simp: classify_def rbind_eq_Inr split: if_splits)
  show "rs_path_truth r = TruthRefuted" if "rs_classification r = ExposedPath"
    using d(3-6) that by (auto simp: classify_def rbind_eq_Inr split: if_splits)
qed

lemma filter_own_key: "distinct (map f xs) \<Longrightarrow> a \<in> set xs \<Longrightarrow> filter (\<lambda>x. f x = f a) xs = [a]"
proof (induction xs)
  case (Cons x xs)
  show ?case
  proof (cases "x = a")
    case True
    then have "filter (\<lambda>y. f y = f a) xs = []" using Cons.prems(1) by (auto simp: filter_empty_conv image_iff)
    then show ?thesis using True by simp
  next
    case False
    then have "a \<in> set xs" "f x \<noteq> f a" using Cons.prems by (auto simp: image_iff)
    then show ?thesis using Cons by simp
  qed
qed simp

lemma profile_baseline:
  assumes "validate_masking_profile p = Inr ()"
  shows "pr_outcome_metric_id p \<noteq> []" "opt_eq (cs_input (current_selector p)) (Some (ia_attack (pr_input p)))"
proof -
  have "portable_id (pr_outcome_metric_id p)"
    using assms by (auto simp: validate_masking_profile_def rbind_eq_Inr split: if_splits)
  then show "pr_outcome_metric_id p \<noteq> []" by (auto simp: portable_id_def)
  show "opt_eq (cs_input (current_selector p)) (Some (ia_attack (pr_input p)))"
    using profile_levels(1) [OF assms] by (simp add: current_selector_def full_selector_def at_level_def input_levels_def)
qed

lemma same_value_integer: "same_value v (IntegerValue n) \<longleftrightarrow> v = IntegerValue n"
  by (cases v) (auto simp: same_value_def typed_json_def jobject_def jtext_def)

text \<open>
  Observations that go with a report: every trial of the current cell has exactly one outcome
  observation, an integer, and where the path obligation was decided it is the value it was decided on.
\<close>

definition observations_of :: "evaluation_report \<Rightarrow> metric_observation list \<Rightarrow> bool" where
  "observations_of rep obs \<longleftrightarrow> (\<forall>ob \<in> set obs. validate_observation ob = Inr ())
     \<and> (\<forall>a \<in> set (er_obligations rep). oa_obligation_id a = pr_primary_path_id (xc_profile (ce_contract (er_compiled rep))) \<longrightarrow>
         (\<forall>q \<in> set (oa_points a). \<exists>ob. sole_outcome (er_compiled rep) obs (tq_trial_key q) ob \<and> tq_value q \<in> {None, Some (mo_value ob)}))"

lemma observed_points:
  assumes "observations_of rep obs" "x = er_compiled rep" "a \<in> set (er_obligations rep)"
    "oa_obligation_id a = pr_primary_path_id (xc_profile (ce_contract x))"
  shows "q \<in> set (oa_points a) \<Longrightarrow> \<exists>ob. sole_outcome x obs (tq_trial_key q) ob \<and> tq_value q \<in> {None, Some (mo_value ob)}"
    "\<forall>k \<in> set (map tq_trial_key (oa_points a)). \<exists>ob. sole_outcome x obs k ob" "oa_points a \<noteq> [] \<Longrightarrow> obs \<noteq> []"
proof -
  show point: "\<exists>ob. sole_outcome x obs (tq_trial_key q) ob \<and> tq_value q \<in> {None, Some (mo_value ob)}" if "q \<in> set (oa_points a)" for q
    using assms that unfolding observations_of_def by blast
  show "\<forall>k \<in> set (map tq_trial_key (oa_points a)). \<exists>ob. sole_outcome x obs k ob" using point by fastforce
  show "obs \<noteq> []" if "oa_points a \<noteq> []"
    using point [OF hd_in_set [OF that]] by (auto simp: sole_outcome_def outcomes_relevant)
qed

lemma path_points:
  assumes "evaluate E c rs va vm vk = Inr rep" "x = er_compiled rep" "a \<in> set (er_obligations rep)"
    "oa_obligation_id a = pr_primary_path_id (xc_profile (ce_contract x))" "pr_outcome_safe (xc_profile (ce_contract x)) = IntegerValue 0"
  shows "map tq_trial_key (oa_points a) = trials_in x (ce_current_selector x)" "oa_points a \<noteq> []"
    "oa_truth a = TruthSupported \<longleftrightarrow> (\<forall>q \<in> set (oa_points a). tq_state q = PointPass)"
    "oa_truth a = TruthRefuted \<longleftrightarrow> (\<exists>q \<in> set (oa_points a). tq_state q = PointFail)"
    "q \<in> set (oa_points a) \<Longrightarrow> tq_state q \<noteq> PointUnresolved \<Longrightarrow>
       \<exists>v. tq_value q = Some v \<and> (tq_state q = PointPass \<longleftrightarrow> v = IntegerValue 0)"
proof -
  let ?p = "xc_profile (ce_contract x)"
  have row: "(''path'', pr_primary_path_id ?p, PathScope, pr_outcome_metric_id ?p, pr_outcome_component ?p,
      ce_current_selector x, IntegerValue 0) \<in> set (primary_rows ?p (ce_current_selector x))"
    using assms(5) by (simp add: primary_rows_def)
  note r = primary_assessed [OF assms(1,3,4,2) row]
  show "map tq_trial_key (oa_points a) = trials_in x (ce_current_selector x)"
    using r(1) assms(2) by (simp add: primary_assessment_def)
  show "oa_truth a = TruthSupported \<longleftrightarrow> (\<forall>q \<in> set (oa_points a). tq_state q = PointPass)"
    "oa_truth a = TruthRefuted \<longleftrightarrow> (\<exists>q \<in> set (oa_points a). tq_state q = PointFail)" by (rule r)+
  show "oa_points a \<noteq> []" using report_assessment [OF assms(1,3,2)] by (auto simp: assessment_fields)
  assume q: "q \<in> set (oa_points a)" "tq_state q \<noteq> PointUnresolved"
  obtain b where b: "b \<in> set (xc_obligations (ce_contract x))" "ob_id b = pr_primary_path_id ?p" "rests_on_evidence x va vm rs b q"
    using resolved_rests [OF assms(1,3) q] assms(2,4) by auto
  have x: "compile_experiment E (ce_contract c) = Inr x"
    by (rule evaluate_parts [OF assms(1)]) (simp add: assms(2) recompiled)
  note c = compiled_parts(4) [OF x]
  note o = primary_obligation(3-5) [OF x b(1) [unfolded c] b(2) [unfolded c] row [unfolded c]]
  have "mp_operator (ob_predicate b) = OpEqual" "mp_tolerance (ob_predicate b) = None" "mp_expected (ob_predicate b) = IntegerValue 0"
    using o by (simp_all add: same_value_integer)
  moreover obtain v where "tq_value q = Some v" "predicate_matches (ob_predicate b) v = Inr (tq_state q = PointPass)"
    using b(3) unfolding rests_on_evidence_def by auto
  ultimately show "\<exists>v. tq_value q = Some v \<and> (tq_state q = PointPass \<longleftrightarrow> v = IntegerValue 0)"
    using zero_predicate by blast
qed

lemma baseline_follows_path:
  assumes rep: "evaluate E c rs va vm vk = Inr rep" "x = er_compiled rep" "a \<in> set (er_obligations rep)"
    "oa_obligation_id a = pr_primary_path_id (xc_profile (ce_contract x))" "pr_outcome_safe (xc_profile (ce_contract x)) = IntegerValue 0"
    and obs: "observations_of rep obs" "evaluate_final_outcome_only x obs = Inr r"
      "current_trial_keys x = Inr (trials_in x (ce_current_selector x))"
  shows "oa_truth a = TruthSupported \<Longrightarrow> fo_verdict r = BaselinePass" "oa_truth a = TruthRefuted \<Longrightarrow> fo_verdict r = BaselineFail"
proof -
  note p = path_points [OF rep]
  let ?keys = "trials_in x (ce_current_selector x)"
  have keys: "k \<in> set ?keys \<longleftrightarrow> (\<exists>q \<in> set (oa_points a). tq_trial_key q = k)" for k unfolding p(1) [symmetric] by auto
  note sole = observed_points(1) [OF obs(1) rep(2-4)] and all = observed_points(2) [OF obs(1) rep(2-4), unfolded p(1)]
  note o = sole_outcomes(3) [OF all]
  have v: "fo_verdict r = BaselinePass \<longleftrightarrow> (\<forall>ob \<in> set (outcomes x ?keys obs). mo_value ob = IntegerValue 0)"
    by (rule baseline_result(5) [OF obs(2,3)])
  have point: "\<exists>ob \<in> set (outcomes x ?keys obs). mo_trial_key ob = tq_trial_key q \<and> (tq_state q = PointPass \<longleftrightarrow> mo_value ob = IntegerValue 0)"
    if q: "q \<in> set (oa_points a)" "tq_state q \<noteq> PointUnresolved" for q
  proof -
    obtain ob where ob: "sole_outcome x obs (tq_trial_key q) ob" "tq_value q \<in> {None, Some (mo_value ob)}" using sole q(1) by blast
    then have "ob \<in> set (outcomes x ?keys obs)" "mo_trial_key ob = tq_trial_key q" using o [of "tq_trial_key q"] keys q(1) by blast+
    then show ?thesis using p(5) [OF q] ob(2) by auto
  qed
  show "fo_verdict r = BaselinePass" if "oa_truth a = TruthSupported"
    unfolding v
  proof
    fix ob assume ob: "ob \<in> set (outcomes x ?keys obs)"
    then have "mo_trial_key ob \<in> set ?keys" by (simp add: outcomes_relevant is_relevant_def)
    then obtain q where q: "q \<in> set (oa_points a)" "tq_trial_key q = mo_trial_key ob" using keys by blast
    then have pass: "tq_state q = PointPass" using p(3) that by blast
    then obtain ob' where "ob' \<in> set (outcomes x ?keys obs)" "mo_trial_key ob' = mo_trial_key ob" "mo_value ob' = IntegerValue 0"
      using point [OF q(1)] q(2) by auto
    moreover have "ob' = ob" using calculation ob sole_outcomes(1) [OF all] by (auto simp: distinct_map dest: inj_onD)
    ultimately show "mo_value ob = IntegerValue 0" by simp
  qed
  show "fo_verdict r = BaselineFail" if refuted: "oa_truth a = TruthRefuted"
  proof -
    obtain q where "q \<in> set (oa_points a)" "tq_state q = PointFail" using p(4) refuted by blast
    then have "fo_verdict r \<noteq> BaselinePass" using point [of q] v by fastforce
    then show ?thesis by (cases "fo_verdict r") simp_all
  qed
qed


text \<open>
  C18. The outcome-only baseline cannot see a masked failure. The code ties the observations given to
  the baseline to the report nowhere, so the theorem assumes what a caller who observes the same
  experiment supplies (\<open>observations_of\<close>): valid observations, and for every trial of the current cell
  exactly one integer observation of the outcome, equal to the outcome the report used for that trial
  where it had one; under a profile whose safe outcome is 0 and a plan with distinct trial keys. Then the comparison succeeds and shows the
  report's own verdict on the target; the baseline passes whenever the path obligation is supported and
  fails whenever it is refuted; so it passes every masked target failure, side by side with a refuted
  target.
\<close>

theorem baseline_blind_to_masking:
  assumes hash: "\<And>b. digest_format (sha256_bytes E b)" and rep: "evaluate E c rs va vm vk = Inr rep" "x = er_compiled rep"
    and safe: "pr_outcome_safe (xc_profile (ce_contract x)) = IntegerValue 0"
    and obs: "observations_of rep obs" "distinct (trials_in x (ce_current_selector x))"
  shows "\<exists>k. compare_final_outcome_only_with_v3 x obs rep = Inr k
    \<and> v3_target_truth (bc_v3 k) = rs_target_truth (er_residual rep)
    \<and> (rs_path_truth (er_residual rep) = TruthSupported \<longrightarrow> fo_verdict (bc_baseline k) = BaselinePass)
    \<and> (rs_path_truth (er_residual rep) = TruthRefuted \<longrightarrow> fo_verdict (bc_baseline k) = BaselineFail)
    \<and> (rs_classification (er_residual rep) = MaskedTargetFailure \<longrightarrow>
         fo_verdict (bc_baseline k) = BaselinePass \<and> v3_target_truth (bc_v3 k) = TruthRefuted)"
proof -
  let ?p = "xc_profile (ce_contract x)" and ?keys = "trials_in x (ce_current_selector x)"
  have x: "compile_experiment E (ce_contract c) = Inr x"
    by (rule evaluate_parts [OF rep(1)]) (simp add: rep(2) recompiled)
  note cp = compiled_parts [OF x]
  have "residual_summary_of x (er_obligations rep) (er_contrasts rep) (dc_protocol (er_completeness rep)) = Inr (er_residual rep)"
    by (rule evaluate_parts [OF rep(1)]) (simp add: rep(2))
  note s = summary_truths [OF this refl]
  obtain target path where t: "target \<in> set (er_obligations rep)" "oa_obligation_id target = pr_primary_target_id ?p"
      "rs_target_truth (er_residual rep) = oa_truth target"
    and a: "path \<in> set (er_obligations rep)" "oa_obligation_id path = pr_primary_path_id ?p" "rs_path_truth (er_residual rep) = oa_truth path"
    using s(1,2) by blast
  note p = path_points [OF rep a(1,2) safe]
  have keys: "current_trial_keys x = Inr ?keys" by (rule current_keys [OF x])
  note sole = observed_points(2,3) [OF obs(1) rep(2) a(1,2)]
  have valid: "\<forall>ob \<in> set obs. validate_observation ob = Inr ()" using obs(1) by (simp add: observations_of_def)
  have "validate_masking_profile ?p = Inr ()"
    using cp(1) unfolding cp(4) by (auto simp: validate_contract_def rbind_eq_Inr simp del: raise_first.simps)
  then have "pr_outcome_metric_id ?p \<noteq> []" "opt_eq (cs_input (ce_current_selector x)) (Some (ia_attack (pr_input ?p)))"
    using profile_baseline unfolding cp(4,6) by blast+
  moreover have nonempty: "?keys \<noteq> []" using p(2) unfolding p(1) [symmetric] by simp
  ultimately obtain r where r: "evaluate_final_outcome_only x obs = Inr r" "validate_final_outcome r = Inr ()"
    using baseline_judges [OF _ safe refl _ keys obs(2) nonempty sole(1) [unfolded p(1)] valid] by auto
  note f = baseline_follows_path [OF rep a(1,2) safe obs(1) r(1) keys]
  have "distinct (map oa_obligation_id (er_obligations rep))" using report_ids [OF rep(1)] cp(3,4) rep(2) by simp
  then have "filter (\<lambda>a. oa_obligation_id a = pr_primary_target_id ?p) (er_obligations rep) = [target]"
    using filter_own_key [OF _ t(1)] t(2) by metis
  moreover have "obs \<noteq> []" using sole(2) p(2) by blast
  moreover have "digest_format (ce_spec_digest x)" using cp(12) hash by auto
  moreover have "rmap validate_observation obs = Inr (map (\<lambda>_. ()) obs)" using valid by (intro rmap_all_ok) simp
  ultimately obtain k where "compare_final_outcome_only_with_v3 x obs rep = Inr k" "bc_baseline k = r" "v3_target_truth (bc_v3 k) = oa_truth target"
    using rep(2) r by (auto simp: compare_final_outcome_only_with_v3_def validate_comparison_def Let_def)
  then show ?thesis using f t(3) a(3) s(3) by auto
qed


end
