(* ===== verification/Evaluation_Report.thy ===== *)
theory Evaluation_Report
  imports Evaluation_Total
begin

text \<open>
  The second half of total correctness: metric evidence, obligations, contrasts and the residual
  summary, and with them the whole evaluation.
\<close>

section \<open>Metric evidence\<close>

lemma metric_found: "i \<in> mc_id ` set (xc_metrics (ce_contract x)) \<Longrightarrow> succeeds (metric_by_id x i)"
  by (auto simp: metric_by_id_def next_of_def succeeds_def filter_empty_conv split: list.splits)

text \<open>The metrics that obligations and contrasts name exist.\<close>

lemma obligation_metric:
  assumes "compile_experiment E c = Inr x" "b \<in> set (xc_obligations c)"
  shows "succeeds (metric_by_id x (mp_metric_id (ob_predicate b)))"
proof -
  note p = compiled_parts [OF assms(1)]
  have "succeeds (check_obligation (xc_profile c) (map (\<lambda>m. (mc_id m, m)) (xc_metrics c)) (ce_cells x) b)"
    using p(7) assms(2) unfolding validate_obligations_def then_unit succeeds_rmap by blast
  then have "map_of (map (\<lambda>m. (mc_id m, m)) (xc_metrics c)) (mp_metric_id (ob_predicate b)) \<noteq> None"
    by (auto simp: check_obligation_def succeeds_def split: option.splits)
  then have "mp_metric_id (ob_predicate b) \<in> mc_id ` set (xc_metrics (ce_contract x))"
    unfolding map_of_eq_None_iff p(4) by (auto simp: comp_def)
  then show ?thesis by (rule metric_found)
qed

lemma generated_metrics:
  "generate_contrasts p cells = Inr ds \<Longrightarrow> d \<in> set ds \<Longrightarrow> cd_metric_id d \<in> (fst \<circ> snd) ` set (bindings p)"
  by (auto simp: generate_contrasts_def bindings_def Let_def rbind_eq_Inr)

lemma contrast_metric:
  assumes "compile_experiment E c = Inr x" "d \<in> set (ce_contrasts x)"
  shows "succeeds (metric_by_id x (cd_metric_id d))"
proof -
  note p = compiled_parts [OF assms(1)]
  let ?ms = "map (\<lambda>m. (mc_id m, m)) (xc_metrics c)"
  have "\<forall>q \<in> set (bindings (xc_profile c)). succeeds (validate_binding ?ms q)"
    using p(11) unfolding validate_profile_metrics_def then_unit succeeds_rmap by blast
  then have "\<forall>q \<in> set (bindings (xc_profile c)). map_of ?ms (fst (snd q)) \<noteq> None"
    by (auto simp: succeeds_def split: option.splits)
  moreover have "cd_metric_id d \<in> (fst \<circ> snd) ` set (bindings (xc_profile c))"
    using generated_metrics [OF p(10) assms(2)] .
  ultimately have "map_of ?ms (cd_metric_id d) \<noteq> None" by auto
  then have "cd_metric_id d \<in> mc_id ` set (xc_metrics (ce_contract x))"
    unfolding map_of_eq_None_iff p(4) by (auto simp: comp_def)
  then show ?thesis by (rule metric_found)
qed

lemma judged_evidence:
  assumes "judge_metric x b e m (verify_metric v b) = Inr a"
  shows "validate_metric_result (MetricAdmitted a) = Inr ()" "me_binding a = b"
proof -
  have "verify_metric v b = Inr (MetricAdmitted a) \<and> me_binding a = b"
    using assms by (auto simp: judge_metric_def split: sum.splits metric_result.splits if_splits)
  then show "validate_metric_result (MetricAdmitted a) = Inr ()" "me_binding a = b"
    using verify_with_valid [of v validate_metric_result _ b "MetricAdmitted a"] unfolding verify_metric_def by auto
qed

lemma refusal_sound:
  assumes "judge_metric x b e m (verify_metric v b) = Inl refusal" "digest_format key" "encodable_errors v"
  shows "validate_issue (refusal_issue m key (verify_metric v b) refusal) = Inr ()"
proof -
  have valid: "verify_metric v b = Inr r \<Longrightarrow> validate_metric_result r = Inr ()" for r
    using verify_with_valid [of v validate_metric_result _ b r] unfolding verify_metric_def .
  have "t \<noteq> [] \<and> no_surrogate t" if "verify_metric v b = Inl t" for t
    using verify_with_error [OF assms(3)] that unfolding verify_metric_def by blast
  then have "fst refusal \<noteq> [] \<and> snd refusal \<noteq> [] \<and> no_surrogate (snd refusal)"
    using assms(1) by (auto simp: judge_metric_def split: sum.splits metric_result.splits if_splits)
  moreover have "sound_issue (refusal_issue m key (verify_metric v b) refusal)"
    if "fst refusal \<noteq> []" "snd refusal \<noteq> []" "no_surrogate (snd refusal)"
  proof (cases "verify_metric v b")
    case (Inl m)
    then show ?thesis using that by (simp add: refusal_issue_def sound_issue_def plain_issue_def text_issue_def)
  next
    case (Inr r)
    show ?thesis
    proof (cases r)
      case (MetricAdmitted a)
      then show ?thesis using that Inr valid [OF Inr]
        by (auto simp: refusal_issue_def sound_issue_def plain_issue_def text_issue_def Let_def rbind_eq_Inr split: if_splits)
    next
      case (MetricFailed f)
      have "\<forall>u \<in> set (mf_candidates f). validate_typed u = Inr ()" "digests_ok (mf_evidence_ids f @ mf_artifact_ids f)"
        using valid [OF Inr] unfolding MetricFailed validate_metric_result.simps then_unit succeeds_rmap
        by (auto simp: succeeds_def split: if_splits)
      then show ?thesis using that Inr MetricFailed by (simp add: refusal_issue_def sound_issue_def plain_issue_def text_issue_def)
    qed
  qed
  ultimately show ?thesis using assms(2) by (intro sound_issue_valid) (simp_all add: refusal_issue_def)
qed

text \<open>The context of the metric phase: sound in its dictionary and in every item of it.\<close>

definition steady_context ::
  "compiled_experiment \<Rightarrow> (evidence_binding \<Rightarrow> metric_result answer) \<Rightarrow> (string \<times> trial_state) list \<Rightarrow> metric_context \<Rightarrow> bool" where
  "steady_context x v probes cx \<longleftrightarrow> encodable_errors v \<and> cache_ok x v probes cx
     \<and> (\<forall>k a. (k, Some a) \<in> set (cx_cache cx) \<longrightarrow> entry_ok x v probes k a)"

lemma set_dict_put: "set (dict_put k v d) \<subseteq> insert (k, v) (set d)"
  by (induction d) (auto split: if_splits)

definition valid_probes :: "(string \<times> trial_state) list \<Rightarrow> bool" where
  "valid_probes probes \<longleftrightarrow> (\<forall>k s. map_of probes k = Some s \<longrightarrow> ts_key s = k \<and> validate_record (ts_record s) = Inr ())"

lemma yields_metric:
  assumes "steady_context x v probes cx" "valid_probes probes"
    and s: "map_of probes (ts_key s) = Some s" "event_for (rc_trace (ts_record s)) stage = Executed e" "metric_by_id x i = Inr m"
  shows "yields (\<lambda>(a, cx'). steady_context x v probes cx' \<and> map_of (cx_cache cx') (ts_key s, xe_id e, mc_id m) = Some a)
    (metric_evidence_for x v s e m cx)"
proof -
  let ?k = "(ts_key s, xe_id e, mc_id m)" and ?b = "evidence_binding_of x (ts_record s) e m"
  have "validate_record (ts_record s) = Inr ()" using assms(2) s(1) unfolding valid_probes_def by blast
  then have key: "digest_format (ts_key s)" by (rule valid_record_fields(1))
  obtain a cx' where run: "metric_evidence_for x v s e m cx = Inr (a, cx')"
  proof (cases "judge_metric x ?b e m (verify_metric v ?b)")
    case (Inl refusal)
    then show thesis using that refusal_sound [OF Inl key] assms(1) [unfolded steady_context_def]
      by (cases "map_of (cx_cache cx) ?k") (auto simp: metric_evidence_for_def Let_def)
  next
    case (Inr a)
    then show thesis using that by (cases "map_of (cx_cache cx) ?k") (auto simp: metric_evidence_for_def Let_def)
  qed
  have c: "cache_ok x v probes cx" using assms(1) by (simp add: steady_context_def)
  note r = metric_evidence_for_cache [OF run c s]
  have "set (cx_cache cx') \<subseteq> insert (?k, a) (set (cx_cache cx))"
    using run set_dict_put by (fastforce simp: metric_evidence_for_def Let_def rbind_eq_Inr split: option.splits sum.splits)
  moreover have "entry_ok x v probes ?k d" if "a = Some d" for d
    using r(1,2) that by (simp add: cache_ok_def)
  ultimately have "steady_context x v probes cx'" using assms(1) r(1) unfolding steady_context_def by blast
  then show ?thesis using run r(2) by simp
qed

lemma yields_prime:
  assumes "steady_context x v probes cx" "valid_probes probes" "\<And>q. q \<in> set required \<Longrightarrow> succeeds (metric_by_id x (snd (snd q)))"
  shows "yields (steady_context x v probes) (prime_metric_evidence x v probes required cx)"
  unfolding prime_metric_evidence_def
proof (rule yields_each)
  fix q u assume q: "q \<in> set (sort_key (\<lambda>(k, s, m). (k, stage_name s, m)) required)" "steady_context x v probes u"
  obtain key stage i where i: "q = (key, stage, i)" by (cases q) auto
  obtain m where m: "metric_by_id x i = Inr m" using assms(3) [of q] q(1) i by (auto simp: succeeds_def)
  show "yields (steady_context x v probes) (prime_one x v probes q u)"
  proof (cases "map_of probes key")
    case (Some s)
    have s: "map_of probes (ts_key s) = Some s" using Some assms(2) by (simp add: valid_probes_def)
    show ?thesis
    proof (cases "event_for (rc_trace (ts_record s)) stage")
      case (Executed e)
      show ?thesis using yields_metric [OF q(2) assms(2) s Executed m] Some Executed m i
        by (auto simp: prime_one_def yields_def)
    qed (use Some i q(2) in \<open>simp add: prime_one_def\<close>)
  qed (use i q(2) in \<open>simp add: prime_one_def\<close>)
qed (rule assms(1))

lemma admissions_of_set: "(k, a) \<in> set (admissions_of c) \<longleftrightarrow> (k, Some a) \<in> set c"
  by (induction c rule: admissions_of.induct) auto

lemma admission_sound:
  assumes "entry_ok x v probes k a" "valid_probes probes"
  shows "digest_format (fst k)" "digest_format (me_evidence_id a)" "digests_ok (me_artifact_ids a)"
    "digest_format (eb_bundle (me_binding a))" "validate_typed (me_value a) = Inr ()"
proof -
  obtain s e m where s: "map_of probes (fst k) = Some s"
    "judge_metric x (evidence_binding_of x (ts_record s) e m) e m (verify_metric v (evidence_binding_of x (ts_record s) e m)) = Inr a"
    using assms(1) unfolding entry_ok_def by blast
  then show "digest_format (fst k)" using assms(2) valid_record_fields(1) unfolding valid_probes_def by metis
  show "digest_format (me_evidence_id a)" "digests_ok (me_artifact_ids a)" "digest_format (eb_bundle (me_binding a))"
    "validate_typed (me_value a) = Inr ()"
    using judged_evidence(1) [OF s(2)] by (auto simp: rbind_eq_Inr Let_def split: if_splits)
qed

lemma replay_issues_sound:
  assumes "\<And>k a. (k, a) \<in> set admissions \<Longrightarrow> entry_ok x v probes k a" "valid_probes probes" "i \<in> set (replay_issues admissions)"
  shows "validate_issue i = Inr ()"
proof -
  note ok = admission_sound [OF assms(1) assms(2)]
  have owners: "validate_issue ((owners_issue code detail owners)\<lparr>is_evidence_ids := es, is_digests := ds\<rparr>) = Inr ()"
    if "set owners \<subseteq> set admissions" "code \<noteq> []" "detail \<noteq> []" "digests_ok (es @ ds)" for code detail owners es ds
  proof -
    have "\<forall>q \<in> set owners. digest_format (fst (fst q)) \<and> digests_ok (me_artifact_ids (snd q)) \<and> validate_typed (me_value (snd q)) = Inr ()"
    proof
      fix q assume "q \<in> set owners"
      then have "(fst q, snd q) \<in> set admissions" using that(1) by auto
      then show "digest_format (fst (fst q)) \<and> digests_ok (me_artifact_ids (snd q)) \<and> validate_typed (me_value (snd q)) = Inr ()"
        by (intro conjI ok(1,3,5))
    qed
    then show ?thesis using that(2-4)
      by (intro sound_issue_valid) (auto simp: sound_issue_def owners_issue_def plain_issue_def text_issue_def list_all_iff digests_def)
  qed
  consider (rebound) e os where "(e, os) \<in> set (rebound_ids admissions)"
      "i = (owners_issue ''metric-evidence-id-reuse'' rebound_reason os)\<lparr>is_evidence_ids := [e]\<rparr>"
    | (conflict) b os where "(b, os) \<in> set (conflicting_bundles admissions)"
      "i = (owners_issue ''metric-bundle-value-conflict'' (conflict_reason b) os)
        \<lparr>is_evidence_ids := digests (map (me_evidence_id \<circ> snd) os), is_digests := [fst b]\<rparr>"
    using assms(3) by (auto simp: replay_issues_def)
  then show ?thesis
  proof cases
    case rebound
    then have "set os \<subseteq> set admissions" "digest_format e" using ok by (auto simp: rebound_ids_def group_by_iff)
    moreover have "i = (owners_issue ''metric-evidence-id-reuse'' rebound_reason os)\<lparr>is_evidence_ids := [e], is_digests := []\<rparr>"
      using rebound(2) by (simp add: owners_issue_def plain_issue_def text_issue_def)
    ultimately show ?thesis using owners by (simp add: rebound_reason_def)
  next
    case conflict
    then have "set os \<subseteq> set admissions" "digest_format (fst b)" using ok by (auto simp: conflicting_bundles_def group_by_iff)
    moreover have "digests_ok (map (me_evidence_id \<circ> snd) os)" 
    proof -
      have "digest_format (me_evidence_id (snd q))" if "q \<in> set os" for q
        using that calculation(1) ok(2) [of "fst q" "snd q"] by auto
      then show ?thesis by (simp add: list_all_iff)
    qed
    ultimately show ?thesis unfolding conflict(2) by (intro owners) (simp_all add: conflict_reason_def)
  qed
qed

lemma fold_put_none: "set (fold (\<lambda>(k, rs). dict_put k None) bad d) \<subseteq> set d \<union> range (\<lambda>k. (k, None))"
proof (induction bad arbitrary: d)
  case (Cons q bad)
  then show ?case using set_dict_put [of "fst q" None d] by (fastforce simp: split_def)
qed simp

lemma yields_reject:
  assumes "steady_context x v probes cx" "valid_probes probes"
  shows "yields (steady_context x v probes) (reject_metric_replays cx)"
proof -
  have entries: "entry_ok x v probes k a" if "(k, a) \<in> set (admissions_of (cx_cache cx))" for k a
    using that assms(1) unfolding admissions_of_set steady_context_def by blast
  have "\<forall>i \<in> set (replay_issues (admissions_of (cx_cache cx))). succeeds (validate_issue i)"
    using replay_issues_sound [OF entries assms(2)] by (simp add: succeeds_def)
  then have "succeeds (rmap validate_issue (replay_issues (admissions_of (cx_cache cx))))" by (simp add: succeeds_rmap)
  then obtain cx' where run: "reject_metric_replays cx = Inr cx'"
    by (auto simp: reject_metric_replays_def Let_def succeeds_def)
  have "cache_ok x v probes cx'" using reject_cache(1) [OF run] assms(1) by (simp add: steady_context_def)
  moreover have "cx_cache cx' = fold (\<lambda>(k, rs). dict_put k None) (group_by fst (bad_reasons (admissions_of (cx_cache cx)))) (cx_cache cx)"
    using run by (auto simp: reject_metric_replays_def Let_def rbind_eq_Inr)
  then have "set (cx_cache cx') \<subseteq> set (cx_cache cx) \<union> range (\<lambda>k. (k, None))" using fold_put_none by metis
  then have "\<forall>k a. (k, Some a) \<in> set (cx_cache cx') \<longrightarrow> (k, Some a) \<in> set (cx_cache cx)" by blast
  ultimately have "steady_context x v probes cx'" using assms(1) unfolding steady_context_def by blast
  then show ?thesis using run by simp
qed

section \<open>Obligations and contrasts\<close>

lemma as_decimal_numeric: "numeric v \<Longrightarrow> succeeds (as_decimal v)"
  by (cases v) (auto simp: numeric_def succeeds_def)

lemma predicate_total: "succeeds (predicate_matches p u)"
proof (cases "value_type_name u = value_type_name (mp_expected p) \<and> numeric u")
  case True
  then have "numeric (mp_expected p)" unfolding numeric_def by metis
  then show ?thesis
    using True as_decimal_numeric [of u] as_decimal_numeric [of "mp_expected p"]
    by (auto simp: predicate_matches_def Let_def succeeds_def)
qed (auto simp: predicate_matches_def Let_def succeeds_def)

lemma relation_total: "succeeds (relation_matches operator l r)"
proof (cases "value_type_name l = value_type_name r \<and> numeric l")
  case True
  then have "numeric r" unfolding numeric_def by metis
  then show ?thesis
    using True as_decimal_numeric [of l] as_decimal_numeric [of r] by (auto simp: relation_matches_def succeeds_def)
qed (auto simp: relation_matches_def succeeds_def)

text \<open>What the assessments need of their environment.\<close>

definition steady_env :: "assessment_env \<Rightarrow> (string \<times> trial_state) list \<Rightarrow> bool" where
  "steady_env A probes \<longleftrightarrow> valid_probes probes
     \<and> (\<forall>k s. map_of (ae_by_key A) k = Some s \<longrightarrow> map_of probes k = Some s)"

lemma yields_point:
  assumes A: "steady_env A probes" and cx: "steady_context (ae_compiled A) (ae_verifier A) probes cx"
    and m: "metric_by_id (ae_compiled A) i = Inr m"
  shows "yields (\<lambda>(p, cx'). steady_context (ae_compiled A) (ae_verifier A) probes cx') (assess_point A b m key cx)"
proof (cases "map_of (ae_by_key A) key")
  case None
  then show ?thesis using cx by (simp add: assess_point_def)
next
  case (Some s)
  have s: "map_of probes (ts_key s) = Some s" "ts_key s = key" using A Some by (auto simp: steady_env_def valid_probes_def)
  show ?thesis
  proof (cases "event_for (rc_trace (ts_record s)) (required_stage (ob_scope b))")
    case (Skipped k)
    then show ?thesis using Some cx by (simp add: assess_point_def Let_def)
  next
    case (Executed e)
    have probes: "valid_probes probes" using A by (simp add: steady_env_def)
    obtain a cx' where a: "metric_evidence_for (ae_compiled A) (ae_verifier A) s e m cx = Inr (a, cx')"
      "steady_context (ae_compiled A) (ae_verifier A) probes cx'" "map_of (cx_cache cx') (key, xe_id e, mc_id m) = Some a"
      using yields_metric [OF cx probes s(1) Executed m] s(2) by (auto simp: yields_def)
    show ?thesis
    proof (cases a)
      case None
      then obtain r where "map_of (cx_reasons cx') (key, xe_id e, mc_id m) = Some r"
        using a(2,3) unfolding steady_context_def cache_ok_def by blast
      then show ?thesis using Some Executed a None by (simp add: assess_point_def Let_def dict_at_def)
    next
      case (Some d)
      then show ?thesis using \<open>map_of (ae_by_key A) key = Some s\<close> Executed a predicate_total [of "ob_predicate b" "me_value d"]
        by (auto simp: assess_point_def Let_def succeeds_def)
    qed
  qed
qed

lemma all2_left: "list_all2 R xs ys \<Longrightarrow> x \<in> set xs \<Longrightarrow> \<exists>y \<in> set ys. R x y"
  by (induction rule: list_all2_induct) auto

lemma coverage_found:
  assumes "compile_experiment E c = Inr x" "b \<in> set (xc_obligations c)"
  shows "\<exists>cov \<in> set (ce_coverage x). oc_obligation_id cov = ob_id b"
proof -
  let ?f = "\<lambda>b. let keys = covering_trials (ce_cells x) (ce_planned_trials x) b in
    if keys = [] \<or> int (length keys) > MAX_PLANNED_TRIALS then Inl (invalid ''trial_keys'')
    else Inr \<lparr>oc_obligation_id = ob_id b, oc_trial_keys = keys\<rparr>"
  have "list_all2 (\<lambda>b cov. ?f b = Inr cov) (sort_key ob_id (xc_obligations c)) (ce_coverage x)"
    using compiled_parts(8) [OF assms(1)] unfolding coverage_def rmap_Inr .
  moreover have "b \<in> set (sort_key ob_id (xc_obligations c))" using assms(2) by simp
  ultimately obtain cov where cov: "cov \<in> set (ce_coverage x)" "?f b = Inr cov"
    using all2_left [of "\<lambda>b cov. ?f b = Inr cov"] by blast
  have "oc_obligation_id cov = ob_id b" using cov(2) by (auto simp: Let_def split: if_splits)
  then show ?thesis using cov(1) by blast
qed

lemma yields_obligation:
  assumes plan: "compile_experiment E c = Inr (ae_compiled A)" and b: "b \<in> set (xc_obligations c)"
    and A: "steady_env A probes" and cx: "steady_context (ae_compiled A) (ae_verifier A) probes cx"
  shows "yields (\<lambda>(a, cx'). oa_obligation_id a = ob_id b \<and> steady_context (ae_compiled A) (ae_verifier A) probes cx')
    (evaluate_obligation A b cx)"
proof -
  let ?rows = "filter (\<lambda>cov. oc_obligation_id cov = ob_id b) (ce_coverage (ae_compiled A))"
  have "?rows \<noteq> []" using coverage_found [OF plan b] by (auto simp: filter_empty_conv)
  then obtain cov where cov: "next_of ?rows = Inr cov" "cov \<in> set ?rows" by (cases ?rows) (auto simp: next_of_def)
  obtain m where m: "metric_by_id (ae_compiled A) (mp_metric_id (ob_predicate b)) = Inr m"
    using obligation_metric [OF plan b] by (auto simp: succeeds_def)
  have "yields (\<lambda>(ps, cx'). list_all2 (\<lambda>_ _. True) (oc_trial_keys cov) ps \<and> steady_context (ae_compiled A) (ae_verifier A) probes cx')
      (collect (assess_point A b m) (oc_trial_keys cov) cx)"
    by (rule yields_collect [where P = "steady_context (ae_compiled A) (ae_verifier A) probes"])
      (use yields_point [OF A _ m] cx in auto)
  then obtain ps cx' where ps: "collect (assess_point A b m) (oc_trial_keys cov) cx = Inr (ps, cx')"
    "length ps = length (oc_trial_keys cov)" "steady_context (ae_compiled A) (ae_verifier A) probes cx'"
    by (auto simp: yields_def dest: list_all2_lengthD)
  have "oc_trial_keys cov \<noteq> []" using coverage_row [OF compiled_parts(8) [OF plan]] cov(2) by auto
  then show ?thesis using cov(1) m ps by (auto simp: evaluate_obligation_def assessment_fields)
qed

lemma yields_pair:
  assumes A: "steady_env A probes" and cx: "steady_context (ae_compiled A) (ae_verifier A) probes cx"
    and m: "metric_by_id (ae_compiled A) i = Inr m"
  shows "yields (\<lambda>(p, cx'). steady_context (ae_compiled A) (ae_verifier A) probes cx')
    (evaluate_contrast_pair A rk ck at m operator cx)"
proof -
  have probes: "valid_probes probes" using A by (simp add: steady_env_def)
  consider (unmatched) "\<nexists>r q re ce. map_of (ae_by_key A) rk = Some r \<and> map_of (ae_by_key A) ck = Some q \<and> unmatched_reason r q = None
      \<and> event_for (rc_trace (ts_record r)) (mc_stage m) = Executed re \<and> event_for (rc_trace (ts_record q)) (mc_stage m) = Executed ce"
    | (matched) r q re ce where "map_of (ae_by_key A) rk = Some r" "map_of (ae_by_key A) ck = Some q" "unmatched_reason r q = None"
      "event_for (rc_trace (ts_record r)) (mc_stage m) = Executed re" "event_for (rc_trace (ts_record q)) (mc_stage m) = Executed ce"
    by blast
  then show ?thesis
  proof cases
    case unmatched
    then show ?thesis using cx
      by (auto simp: evaluate_contrast_pair_def split: option.splits stage_event.splits prod.splits)
  next
    case matched
    have s: "map_of probes (ts_key r) = Some r" "map_of probes (ts_key q) = Some q"
      using A matched(1,2) by (auto simp: steady_env_def valid_probes_def)
    obtain rv u where u: "metric_evidence_for (ae_compiled A) (ae_verifier A) r re m cx = Inr (rv, u)"
      "steady_context (ae_compiled A) (ae_verifier A) probes u"
      using yields_metric [OF cx probes s(1) matched(4) m] by (auto simp: yields_def)
    obtain cv w where w: "metric_evidence_for (ae_compiled A) (ae_verifier A) q ce m u = Inr (cv, w)"
      "steady_context (ae_compiled A) (ae_verifier A) probes w"
      using yields_metric [OF u(2) probes s(2) matched(5) m] by (auto simp: yields_def)
    obtain h where "relation_matches operator (me_value (the rv)) (me_value (the cv)) = Inr h"
      using relation_total [of operator "me_value (the rv)" "me_value (the cv)"] by (auto simp: succeeds_def)
    then show ?thesis using matched u(1) w
      by (auto simp: evaluate_contrast_pair_def Let_def split: option.splits)
  qed
qed

text \<open>The contrasts of a compiled experiment: five of them, with a pair of planned cells each.\<close>

lemma compiled_contrasts:
  assumes "compile_experiment E c = Inr x"
  shows "map cd_id (ce_contrasts x)
      = [TargetAttackEffect, TargetBenignInvariance, CompensatorBenignInvariance, ShamInvariance, CompensatorAttackEffect]"
    "d \<in> set (ce_contrasts x) \<Longrightarrow> cd_pairs d \<noteq> []
      \<and> (\<forall>p \<in> set (cd_pairs d). {cp_reference p, cp_comparison p} \<subseteq> gc_key ` set (ce_cells x))"
proof -
  note p = compiled_parts [OF assms]
  have r: "map cd_id (ce_contrasts x) = [TargetAttackEffect, TargetBenignInvariance, CompensatorBenignInvariance,
      ShamInvariance, CompensatorAttackEffect] \<and> list_all (sound_contrast (xc_profile c)) (ce_contrasts x)"
    using contrasts_resolve [OF profile_valid [OF assms]] p(10) unfolding p(5) by auto
  then show "map cd_id (ce_contrasts x) = [TargetAttackEffect, TargetBenignInvariance, CompensatorBenignInvariance,
      ShamInvariance, CompensatorAttackEffect]" by blast
  assume "d \<in> set (ce_contrasts x)"
  then have "sound_contrast (xc_profile c) d" using r by (simp add: list_all_iff)
  then show "cd_pairs d \<noteq> [] \<and> (\<forall>p \<in> set (cd_pairs d). {cp_reference p, cp_comparison p} \<subseteq> gc_key ` set (ce_cells x))"
    unfolding sound_contrast_def p(5) by force
qed

lemma coordinate_planned:
  assumes "compile_experiment E c = Inr x" "k \<in> gc_key ` set (ce_cells x)" "b \<in> set (tp_blocks (xc_plan c))"
    "1 \<le> r" "r \<le> tp_replicates (xc_plan c)"
  shows "\<exists>key. planned_by_coordinate x (k, b, r) = Some key"
proof -
  have "(k, b, r) \<in> set (map trial_triple (ce_planned_trials x))"
    unfolding compiled_factorial(1) [OF assms(1)] using assms(2-5) by simp
  then have "(k, b, r) \<in> trial_triple ` set (ce_planned_trials x)" by simp
  then show ?thesis unfolding planned_by_coordinate_def by (rule dict_of_member(2))
qed

lemma contrast_coordinates_iff:
  "(p, b, r) \<in> set (contrast_coordinates x d) \<longleftrightarrow> p \<in> set (cd_pairs d) \<and> b \<in> set (tp_blocks (xc_plan (ce_contract x)))
     \<and> 1 \<le> r \<and> r \<le> tp_replicates (xc_plan (ce_contract x))"
proof -
  have "r \<in> int ` {1..<nat n + 1} \<longleftrightarrow> 1 \<le> r \<and> r \<le> n" for n
    by (auto simp: image_iff intro!: bexI [of _ "nat r"])
  moreover have "set (contrast_coordinates x d) = set (cd_pairs d) \<times> set (tp_blocks (xc_plan (ce_contract x)))
      \<times> int ` {1..<nat (tp_replicates (xc_plan (ce_contract x))) + 1}"
    by (auto simp: contrast_coordinates_def simp del: upt_Suc)
  ultimately show ?thesis by blast
qed

lemma yields_contrast:
  assumes plan: "compile_experiment E c = Inr (ae_compiled A)" and d: "d \<in> set (ce_contrasts (ae_compiled A))"
    and A: "steady_env A probes" and cx: "steady_context (ae_compiled A) (ae_verifier A) probes cx"
  shows "yields (\<lambda>(k, cx'). ka_id k = cd_id d \<and> steady_context (ae_compiled A) (ae_verifier A) probes cx') (evaluate_contrast A d cx)"
proof -
  let ?x = "ae_compiled A"
  note p = compiled_parts(4) [OF plan] and f = compiled_factorial(3,4) [OF plan] and k = compiled_contrasts(2) [OF plan d]
  obtain m where m: "metric_by_id ?x (cd_metric_id d) = Inr m" using contrast_metric [OF plan d] by (auto simp: succeeds_def)
  let ?f = "\<lambda>(p, b, r) cx. rbind (dict_at (planned_by_coordinate ?x) (cp_reference p, b, r)) (\<lambda>rk.
    rbind (dict_at (planned_by_coordinate ?x) (cp_comparison p, b, r)) (\<lambda>ck.
    evaluate_contrast_pair A rk ck (b, r) m (cd_relation d) cx))"
  have step: "yields (\<lambda>(y, w'). True \<and> steady_context ?x (ae_verifier A) probes w') (?f q u)"
    if q: "q \<in> set (contrast_coordinates ?x d)" and u: "steady_context ?x (ae_verifier A) probes u" for q u
  proof -
    obtain pr b r where qe: "q = (pr, b, r)" by (cases q) auto
    have t: "pr \<in> set (cd_pairs d)" "b \<in> set (tp_blocks (xc_plan c))" "1 \<le> r" "r \<le> tp_replicates (xc_plan c)"
      using q unfolding qe contrast_coordinates_iff p by blast+
    then have "cp_reference pr \<in> gc_key ` set (ce_cells ?x)" "cp_comparison pr \<in> gc_key ` set (ce_cells ?x)" using k by auto
    then obtain rk ck where "planned_by_coordinate ?x (cp_reference pr, b, r) = Some rk"
      "planned_by_coordinate ?x (cp_comparison pr, b, r) = Some ck" using coordinate_planned [OF plan] t(2-4) by meson
    then show ?thesis using yields_pair [OF A u m] by (simp add: qe dict_at_def)
  qed
  have "yields (\<lambda>(ps, cx'). list_all2 (\<lambda>_ _. True) (contrast_coordinates ?x d) ps \<and> steady_context ?x (ae_verifier A) probes cx')
      (collect ?f (contrast_coordinates ?x d) cx)"
    by (rule yields_collect [where P = "steady_context ?x (ae_verifier A) probes", OF step cx])
  then obtain ps cx' where ps: "collect ?f (contrast_coordinates ?x d) cx = Inr (ps, cx')"
    "length ps = length (contrast_coordinates ?x d)" "steady_context ?x (ae_verifier A) probes cx'"
    by (auto simp: yields_def dest: list_all2_lengthD)
  obtain pr b where "pr \<in> set (cd_pairs d)" "b \<in> set (tp_blocks (xc_plan c))"
    using k f(1) by (meson last_in_set)
  then have "(pr, b, 1) \<in> set (contrast_coordinates ?x d)" unfolding contrast_coordinates_iff p using f(2) by simp
  then have "ps \<noteq> []" using ps(2) by auto
  then show ?thesis using m ps unfolding evaluate_contrast_def by (simp add: contrast_assessment_of_def Let_def)
qed

section \<open>The report\<close>

lemma coordinates_found:
  assumes "compile_experiment E c = Inr x"
  shows "yields (\<lambda>required. \<forall>q \<in> set required. succeeds (metric_by_id x (snd (snd q)))) (required_metric_coordinates x)"
proof -
  let ?os = "\<lambda>b. rbind (coverage_keys x (ob_id b)) (\<lambda>ks.
    Inr (map (\<lambda>k. (k, required_stage (ob_scope b), mp_metric_id (ob_predicate b))) ks))"
  let ?cs = "\<lambda>d. rbind (metric_by_id x (cd_metric_id d)) (\<lambda>m. Inr (map (\<lambda>t. (pt_key t, mc_stage m, mc_id m))
    (filter (\<lambda>t. pt_cell_key t \<in> set (contrast_cells d)) (ce_planned_trials x))))"
  note p = compiled_parts(4) [OF assms]
  have "succeeds (coverage_keys x (ob_id b))" if "b \<in> set (xc_obligations c)" for b
  proof -
    have "ob_id b \<in> oc_obligation_id ` set (ce_coverage x)" using coverage_found [OF assms that] by force
    then show ?thesis unfolding coverage_keys_def dict_at_def
      using dict_of_member(2) [of "ob_id b" oc_obligation_id "ce_coverage x" oc_trial_keys] by (auto simp: succeeds_def)
  qed
  then have "succeeds (rmap ?os (xc_obligations c))" unfolding succeeds_rmap by (fastforce simp: succeeds_def)
  then obtain os where os: "rmap ?os (xc_obligations c) = Inr os" by (auto simp: succeeds_def)
  have "succeeds (rmap ?cs (ce_contrasts x))"
    unfolding succeeds_rmap using contrast_metric [OF assms] by (fastforce simp: succeeds_def)
  then obtain cs where cs: "rmap ?cs (ce_contrasts x) = Inr cs" by (auto simp: succeeds_def)
  have "\<forall>l \<in> set os. \<forall>q \<in> set l. succeeds (metric_by_id x (snd (snd q)))"
  proof
    fix l assume "l \<in> set os"
    then obtain b where b: "b \<in> set (xc_obligations c)" "?os b = Inr l"
      using list_all2_in_right [OF os [unfolded rmap_Inr]] by blast
    then show "\<forall>q \<in> set l. succeeds (metric_by_id x (snd (snd q)))"
      using obligation_metric [OF assms b(1)] by (auto simp: rbind_eq_Inr)
  qed
  moreover have "\<forall>l \<in> set cs. \<forall>q \<in> set l. succeeds (metric_by_id x (snd (snd q)))"
  proof
    fix l assume "l \<in> set cs"
    then obtain d where d: "d \<in> set (ce_contrasts x)" "?cs d = Inr l"
      using list_all2_in_right [OF cs [unfolded rmap_Inr]] by blast
    then obtain m where m: "metric_by_id x (cd_metric_id d) = Inr m" "\<forall>q \<in> set l. snd (snd q) = mc_id m" by (auto simp: rbind_eq_Inr)
    then show "\<forall>q \<in> set l. succeeds (metric_by_id x (snd (snd q)))" using metric_by_id_id [OF m(1)] by (auto simp: succeeds_def)
  qed
  ultimately show ?thesis using os cs p by (auto simp: required_metric_coordinates_def)
qed

lemma primary_found:
  assumes "compile_experiment E c = Inr x"
  shows "{pr_primary_target_id (xc_profile c), pr_primary_compensator_id (xc_profile c), pr_primary_path_id (xc_profile c),
    pr_primary_benign_id (xc_profile c)} \<subseteq> ob_id ` set (xc_obligations c)"
proof -
  let ?q = "map (\<lambda>b. (ob_id b, b)) (xc_obligations c)"
  have "\<forall>row \<in> set (primary_rows (xc_profile c) (ce_current_selector x)). succeeds (check_primary ?q row)"
    using compiled_parts(7) [OF assms] unfolding validate_obligations_def then_unit succeeds_rmap by blast
  then have "\<forall>row \<in> set (primary_rows (xc_profile c) (ce_current_selector x)). map_of ?q (fst (snd row)) \<noteq> None"
    by (auto simp: succeeds_def split: option.splits)
  then show ?thesis unfolding map_of_eq_None_iff by (auto simp: primary_rows_def comp_def)
qed

lemma residual_total:
  assumes plan: "compile_experiment E c = Inr x" and as: "map oa_obligation_id as = map ob_id (xc_obligations c)"
    and ks: "map ka_id ks = map cd_id (ce_contrasts x)"
  shows "succeeds (residual_summary_of x as ks complete)"
proof -
  have found: "\<exists>a. dict_of (map (\<lambda>a. (oa_obligation_id a, a)) as) i = Some a" if "i \<in> ob_id ` set (xc_obligations c)" for i
  proof (rule dict_of_member(2))
    show "i \<in> oa_obligation_id ` set as" using that arg_cong [OF as, of set] by simp
  qed
  have "\<exists>k. dict_of (map (\<lambda>k. (ka_id k, k)) ks) i = Some k" for i
  proof (rule dict_of_member(2))
    have "set (map ka_id ks) = UNIV" unfolding ks compiled_contrasts(1) [OF plan] using contrast_id.exhaust by auto
    then show "i \<in> ka_id ` set ks" by simp
  qed
  then have supported: "succeeds (contrast_supported ks i)" for i
    by (metis (no_types, lifting) contrast_supported_def dict_at_Inr rbind_eq_Inr succeeds_def)
  have "succeeds (all_supported ks is)" for "is"
  proof (induction "is")
    case (Cons i js)
    then show ?case using supported [of i] by (auto simp: succeeds_def)
  qed (auto simp: succeeds_def)
  then obtain ok where "all_supported ks [TargetAttackEffect, TargetBenignInvariance, CompensatorBenignInvariance, ShamInvariance]
      = Inr ok" by (metis succeeds_def)
  then have "succeeds (classify a b p q ks complete)" for a b p q
    by (auto simp: classify_def succeeds_def simp del: all_supported.simps)
  moreover obtain t m p b where "dict_of (map (\<lambda>a. (oa_obligation_id a, a)) as) (pr_primary_target_id (xc_profile c)) = Some t"
    "dict_of (map (\<lambda>a. (oa_obligation_id a, a)) as) (pr_primary_compensator_id (xc_profile c)) = Some m"
    "dict_of (map (\<lambda>a. (oa_obligation_id a, a)) as) (pr_primary_path_id (xc_profile c)) = Some p"
    "dict_of (map (\<lambda>a. (oa_obligation_id a, a)) as) (pr_primary_benign_id (xc_profile c)) = Some b"
    using found primary_found [OF plan] by (meson insert_subset)
  moreover obtain r where "classify t m p b ks complete = Inr r" using calculation(1) by (meson succeeds_def)
  ultimately show ?thesis
    using compiled_parts(4) [OF plan] by (simp add: residual_summary_of_def Let_def dict_at_def succeeds_def)
qed

lemma recompile_compiled:
  assumes "compile_experiment E c = Inr x"
  shows "recompile E x = Inr x"
  using assms compiled_parts(4) [OF assms] by (simp add: recompile_def)

lemma inspected_probes:
  assumes "steady rs w" "valid_records rs"
  shows "valid_probes (unique_states x (wd_states w))"
    "map_of (admissible x (wd_states w)) k = Some s \<Longrightarrow> map_of (unique_states x (wd_states w)) k = Some s"
proof -
  show "valid_probes (unique_states x (wd_states w))"
    unfolding valid_probes_def
  proof (intro allI impI)
    fix k s assume "map_of (unique_states x (wd_states w)) k = Some s"
    then obtain j where "j < length (wd_states w)" "s = wd_states w ! j" "ts_key s = k" using unique_states_Some by blast
    then show "ts_key s = k \<and> validate_record (ts_record s) = Inr ()"
      using steady_record [OF assms(1), of j] steady_length [OF assms(1)] assms(2) by (simp add: valid_records_def)
  qed
  show "map_of (admissible x (wd_states w)) k = Some s \<Longrightarrow> map_of (unique_states x (wd_states w)) k = Some s"
    unfolding admissible_def using map_of_filter_Some(1) [OF unique_states_distinct] .
qed

lemma all2_map_eq: "list_all2 (\<lambda>x y. g y = f x) xs ys \<Longrightarrow> map g ys = map f xs"
  by (induction rule: list_all2_induct) auto

lemma evaluate_total:
  assumes hash: "\<And>b. digest_format (sha256_bytes E b)" and plan: "compile_experiment E c = Inr x"
    and records: "\<forall>r \<in> set rs. validate_record r = Inr ()" "event_ids_ok rs"
    and errors: "encodable_errors va" "encodable_errors vm" "encodable_errors vk"
  shows "\<exists>rep. evaluate E x rs va vm vk = Inr rep \<and> er_compiled rep = x
    \<and> map oa_obligation_id (er_obligations rep) = map ob_id (xc_obligations c)
    \<and> map ka_id (er_contrasts rep) = map cd_id (ce_contrasts x)"
proof -
  have valid: "valid_records rs" using records(1) by (simp add: valid_records_def)
  obtain w where w: "inspect_records x va rs = Inr w" "steady rs w"
    using yields_inspect [OF plan hash valid records(2) errors(1)] by (auto simp: yields_def)
  obtain cleaned w' where cleaned: "admit_cleanups x vk w = Inr (cleaned, w')"
    using yields_cleanups [OF w(2) valid errors(3), of x] by (auto simp: yields_def)
  obtain required where required: "required_metric_coordinates x = Inr required"
    "\<And>q. q \<in> set required \<Longrightarrow> succeeds (metric_by_id x (snd (snd q)))"
    using coordinates_found [OF plan] by (auto simp: yields_def)
  let ?probes = "unique_states x (wd_states w)" and ?cx = "\<lparr>cx_issues = wd_evidence w', cx_cache = [], cx_reasons = []\<rparr>"
  note probes = inspected_probes [OF w(2) valid, of x]
  have start: "steady_context x vm ?probes ?cx" by (simp add: steady_context_def cache_ok_def errors)
  have "yields (steady_context x vm ?probes) (prime_metric_evidence x vm ?probes required ?cx)"
    by (rule yields_prime [OF start probes(1) required(2)])
  then obtain cx1 where cx1: "prime_metric_evidence x vm ?probes required ?cx = Inr cx1" "steady_context x vm ?probes cx1"
    by (auto simp: yields_def)
  obtain cx2 where cx2: "reject_metric_replays cx1 = Inr cx2" "steady_context x vm ?probes cx2"
    using yields_reject [OF cx1(2) probes(1)] by (auto simp: yields_def)
  let ?A = "\<lparr>ae_compiled = x, ae_verifier = vm, ae_by_key = admissible x (wd_states w), ae_states = wd_states w\<rparr>"
  have A: "steady_env ?A ?probes" using probes by (simp add: steady_env_def)
  have "yields (\<lambda>(as, cx'). list_all2 (\<lambda>b a. oa_obligation_id a = ob_id b) (xc_obligations c) as \<and> steady_context x vm ?probes cx')
      (collect (evaluate_obligation ?A) (xc_obligations c) cx2)"
    by (rule yields_collect [where P = "steady_context x vm ?probes", OF _ cx2(2)])
      (use yields_obligation [of E c ?A] plan A in simp)
  then obtain as cx3 where as: "collect (evaluate_obligation ?A) (xc_obligations c) cx2 = Inr (as, cx3)"
    "map oa_obligation_id as = map ob_id (xc_obligations c)" "steady_context x vm ?probes cx3"
    by (auto simp: yields_def dest: all2_map_eq)
  have "yields (\<lambda>(ks, cx'). list_all2 (\<lambda>d k. ka_id k = cd_id d) (ce_contrasts x) ks \<and> steady_context x vm ?probes cx')
      (collect (evaluate_contrast ?A) (ce_contrasts x) cx3)"
    by (rule yields_collect [where P = "steady_context x vm ?probes", OF _ as(3)])
      (use yields_contrast [of E c ?A] plan A in simp)
  then obtain ks cx4 where ks: "collect (evaluate_contrast ?A) (ce_contrasts x) cx3 = Inr (ks, cx4)"
    "map ka_id ks = map cd_id (ce_contrasts x)" by (auto simp: yields_def dest: all2_map_eq)
  have "rmap revalidate_record rs = Inr rs"
    using records(1) rmap_all_ok [of rs revalidate_record "\<lambda>r. r"] by (simp add: revalidate_record_def)
  moreover have "wd_states w' = wd_states w" using admit_cleanups_states [OF cleaned] .
  moreover obtain res where "residual_summary_of x as ks (dc_protocol (completeness_of x (wd_states w)
      (metric_evidence_complete (admissible x (wd_states w)) cx2 required) cleaned (wd_safety w'))) = Inr res"
    using residual_total [OF plan as(2) ks(2)] unfolding succeeds_def by blast
  moreover note recompile_compiled [OF plan] compiled_parts(4) [OF plan]
  ultimately show ?thesis
    using w(1) cleaned required(1) cx1(1) cx2(1) as(1,2) ks by (simp add: evaluate_def Let_def)
qed

text \<open>
  The three conditions on the verifiers are needed: the text of an exception becomes the detail of an
  issue, and a detail without a UTF-8 form is refused, so that such an exception ends the evaluation.
\<close>

lemma surrogate_ends_evaluation:
  assumes "expected_by_key x (ts_key (wd_states w ! j)) = Some t" "v (ts_record (wd_states w ! j)) = Inl message"
    "\<not> no_surrogate message"
  shows "attest x v j w = Inl (ValidationError ''evaluation issue'')"
  using assms
  by (simp add: attest_def Let_def verify_attestation_def verify_with_def issue_def report_def text_issue_def
      validate_issue_def invalid_def)

text \<open>
  C17. Accepted input always gives a report. Whatever the three verifiers answer or raise, evaluating a
  compiled experiment on valid records ends with a report on exactly that experiment, with one
  assessment per obligation of the contract and one per contrast. The conditions: the hash function's
  digests have their format, an event identifier that starts with \<open>sha256:\<close> is a digest, and the texts of
  the exceptions the verifiers raise have a UTF-8 form.
\<close>

theorem evaluation_always_reports:
  assumes hash: "\<And>b. digest_format (sha256_bytes E b)" and plan: "compile_experiment E c = Inr x"
    and records: "\<forall>r \<in> set rs. validate_record r = Inr ()" "event_ids_ok rs"
    and errors: "encodable_errors va" "encodable_errors vm" "encodable_errors vk"
  shows "\<exists>rep. evaluate E x rs va vm vk = Inr rep \<and> er_compiled rep = x
    \<and> map oa_obligation_id (er_obligations rep) = map ob_id (xc_obligations c)
    \<and> map ka_id (er_contrasts rep) = map cd_id (ce_contrasts x)"
  using assms by (rule evaluate_total)

end
