(* ===== verification/Contract_Example.thy ===== *)
theory Contract_Example
  imports Contract_Total Example
begin

text \<open>A small experiment contract and an environment in which it compiles.\<close>

definition on :: typed_value where
  "on = BooleanValue True"

definition off :: typed_value where
  "off = BooleanValue False"

definition flag_metric :: "string \<Rightarrow> string \<Rightarrow> stage \<Rightarrow> metric_contract" where
  "flag_metric i component stage =
     \<lparr>mc_id = i, mc_component = component, mc_stage = stage, mc_value_type = BooleanMetric, mc_unit = None,
      mc_extractor_id = ''flag'', mc_evidence_class = ''trace''\<rparr>"

definition example_masking_profile :: masking_profile where
  "example_masking_profile =
     \<lparr>pr_input = \<lparr>ia_component = ''mail'', ia_attack = StringValue (text_of ''phish''),
        ia_benign = StringValue (text_of ''news''), ia_attack_digest = sha256_bytes example_env [],
        ia_benign_digest = sha256_bytes example_env [0, 49, 0]\<rparr>,
      pr_target = \<lparr>ca_component = ''filter'', ca_low = off, ca_high = on, ca_current = on\<rparr>,
      pr_compensator = \<lparr>ca_component = ''edr'', ca_low = DecimalValue (Dec False 0 0),
        ca_high = DecimalValue (Dec False 10 (- 1)), ca_current = DecimalValue (Dec False 1 0)\<rparr>,
      pr_sham = \<lparr>sa_steady = IntegerValue 0, sa_redeploy = IntegerValue 1\<rparr>,
      pr_outcome_component = ''host'', pr_target_metric_id = ''blocked'', pr_compensator_metric_id = ''killed'',
      pr_outcome_metric_id = ''delivered'', pr_benign_metric_id = ''usable'', pr_target_safe = on,
      pr_compensator_safe = on, pr_outcome_safe = IntegerValue 0, pr_benign_safe = on,
      pr_primary_target_id = ''o-target'', pr_primary_compensator_id = ''o-comp'', pr_primary_path_id = ''o-path'',
      pr_primary_benign_id = ''o-benign'', pr_target_attack_relation = FalseToTrue,
      pr_target_benign_relation = RelEqual, pr_sham_relation = RelEqual,
      pr_compensator_attack_relation = Decreases\<rparr>"

definition flag_obligation ::
  "string \<Rightarrow> string \<Rightarrow> obligation_scope \<Rightarrow> cell_selector \<Rightarrow> string \<Rightarrow> obligation" where
  "flag_obligation i component scope selector metric =
     \<lparr>ob_id = i, ob_subject_identifier = component, ob_subject_component = component, ob_scope = scope,
      ob_selector = selector,
      ob_predicate = \<lparr>mp_metric_id = metric, mp_operator = OpEqual, mp_expected = on, mp_tolerance = None\<rparr>,
      ob_quantifier = AllTested 1\<rparr>"

definition delivered_metric :: metric_contract where
  "delivered_metric = (flag_metric ''delivered'' ''host'' StageOutcome)\<lparr>mc_value_type := IntegerMetric, mc_unit := Some ''message''\<rparr>"

definition path_obligation :: obligation where
  "path_obligation = (flag_obligation ''o-path'' ''host'' PathScope (current_selector example_masking_profile) ''delivered'')
     \<lparr>ob_predicate := \<lparr>mp_metric_id = ''delivered'', mp_operator = OpEqual, mp_expected = IntegerValue 0, mp_tolerance = None\<rparr>\<rparr>"

definition example_metrics :: "metric_contract list" where
  "example_metrics =
     [flag_metric ''usable'' ''host'' StageOutcome, flag_metric ''blocked'' ''filter'' StageTarget,
      flag_metric ''killed'' ''edr'' StageCompensator, delivered_metric]"

definition example_contract :: experiment_contract where
  "example_contract =
     \<lparr>xc_id = ''phishing'',
      xc_scope = \<lparr>xs_scenario_id = ''phishing'', xs_build_digest = sha256_bytes example_env [],
        xs_dataset_digest = sha256_bytes example_env [], xs_fixture_digest = sha256_bytes example_env [],
        xs_assessment_as_of = 1500000, xs_evidence_window = \<lparr>ew_start = 0, ew_end = 2000000\<rparr>,
        xs_evidence_policy = \<lparr>ep_id = ''strict'', ep_version = ''1'', ep_digest = sha256_bytes example_env []\<rparr>\<rparr>,
      xc_metrics = example_metrics,
      xc_obligations =
        [flag_obligation ''o-target'' ''filter'' TargetLocal (current_selector example_masking_profile) ''blocked'',
         flag_obligation ''o-comp'' ''edr'' CompensatorLocal (current_selector example_masking_profile) ''killed'',
         path_obligation,
         flag_obligation ''o-benign'' ''host'' PathScope (benign_envelope_selector example_masking_profile) ''usable''],
      xc_profile = example_masking_profile,
      xc_plan = \<lparr>tp_blocks = [''morning'', ''evening''], tp_replicates = 1, tp_order_seed = text_of ''seed''\<rparr>\<rparr>"

definition contract_env :: model_env where
  "contract_env = example_env\<lparr>rfc8785_dump := (\<lambda>v. ([line_of 1], None))\<rparr>"

lemma example_profile_valid: "validate_masking_profile example_masking_profile = Inr ()"
  by code_simp

lemma example_contract_valid: "validate_contract example_contract = Inr ()"
  by code_simp

lemma example_contract_checked:
  "validate_plan_size (xc_plan example_contract) = Inr ()"
  "distinct (map mc_id (xc_metrics example_contract))" "distinct (map ob_id (xc_obligations example_contract))"
  "validate_profile_metrics (xc_profile example_contract) (map (\<lambda>m. (mc_id m, m)) (xc_metrics example_contract)) = Inr ()"
  "validate_obligations example_contract (map (\<lambda>m. (mc_id m, m)) (xc_metrics example_contract))
     (map (\<lambda>b. (ob_id b, b)) (xc_obligations example_contract)) (generate_cells (xc_profile example_contract))
     (current_selector (xc_profile example_contract)) = Inr ()"
  "\<forall>b \<in> set (xc_obligations example_contract). min_trials (ob_quantifier b) \<le> 1"
  by code_simp+

lemma example_spec: "canonical_spec contract_env example_contract = Inr (line_of 1, map unat (line_of 1))"
  by (simp add: canonical_spec_def contract_env_def) code_simp

lemma example_compiles: "\<exists>x. compile_experiment contract_env example_contract = Inr x"
proof -
  have "encodable (tp_order_seed (xc_plan example_contract))" by (simp add: example_contract_def)
  then have "succeeds (compile_experiment contract_env example_contract)"
    by (rule compile_succeeds [OF example_contract_valid example_contract_checked(1-5) example_spec _
          example_contract_checked(6)])
  then show ?thesis by (simp add: succeeds_def)
qed

section \<open>Witnesses\<close>

theorem contrasts_vary_one_axis_witness:
  "\<exists>cs. generate_contrasts example_masking_profile (generate_cells example_masking_profile) = Inr cs
    \<and> map cd_id cs = [TargetAttackEffect, TargetBenignInvariance, CompensatorBenignInvariance, ShamInvariance,
        CompensatorAttackEffect]
    \<and> map cd_varied_axis cs = [AxisTarget, AxisTarget, AxisCompensator, AxisSham, AxisCompensator]
    \<and> list_all (sound_contrast example_masking_profile) cs"
  by (rule contrasts_vary_one_axis [OF example_profile_valid])

theorem plan_is_factorial_witness:
  "\<exists>x. compile_experiment contract_env example_contract = Inr x \<and> length (ce_planned_trials x) = 32
    \<and> distinct (map trial_triple (ce_planned_trials x))"
proof -
  obtain x where x: "compile_experiment contract_env example_contract = Inr x" using example_compiles by blast
  show ?thesis
    using x plan_is_factorial [OF x] by (intro exI [of _ x] conjI) (simp_all add: example_contract_def)
qed

definition reordered_contract :: experiment_contract where
  "reordered_contract = example_contract\<lparr>xc_metrics := rev (xc_metrics example_contract),
     xc_obligations := rev (xc_obligations example_contract),
     xc_plan := (xc_plan example_contract)\<lparr>tp_blocks := [''evening'', ''morning'']\<rparr>\<rparr>"

theorem compilation_order_independent_witness:
  "\<exists>x. compile_experiment contract_env example_contract = Inr x
    \<and> compile_experiment contract_env reordered_contract = Inr (x\<lparr>ce_contract := reordered_contract\<rparr>)"
proof -
  obtain x where x: "compile_experiment contract_env example_contract = Inr x" using example_compiles by blast
  have "same_up_to_order example_contract reordered_contract"
    by (simp add: same_up_to_order_def reordered_contract_def example_contract_def)
  then show ?thesis using compilation_order_independent [OF _ x] x by blast
qed

end
