(* ===== verification/Evaluation_Example.thy ===== *)
theory Evaluation_Example
  imports Evaluation_Report Baseline_Props Contract_Example
begin

text \<open>
  An evaluation of the small contract on one block: the trial of the current cell was run, with honest
  evidence that the target let the attack pass, the compensator stopped it and no message was delivered;
  the other trials are missing. The report classifies this as a masked target failure.
\<close>

section \<open>The plan\<close>

definition digest0 :: string where
  "digest0 = ''sha256:'' @ replicate 64 (CHR ''0'')"

definition digest1 :: string where
  "digest1 = ''sha256:1'' @ replicate 63 (CHR ''0'')"

definition digest2 :: string where
  "digest2 = ''sha256:2'' @ replicate 63 (CHR ''0'')"

definition digest3 :: string where
  "digest3 = ''sha256:3'' @ replicate 63 (CHR ''0'')"

definition run_contract :: experiment_contract where
  "run_contract = example_contract\<lparr>xc_plan :=
     \<lparr>tp_blocks = [''evening''], tp_replicates = 1, tp_order_seed = text_of ''seed''\<rparr>\<rparr>"

definition current_cell :: string where
  "current_cell = ''input=attack;target=effective;compensator=on;sham=steady''"

text \<open>A hash that tells the evening trial of the current cell from everything else.\<close>

definition trial_hexdigest :: "bytes \<Rightarrow> string" where
  "trial_hexdigest b = drop 7 (if b = trial_bytes digest0 (current_cell, ''evening'', 1) then digest1 else digest0)"

definition trial_env :: model_env where
  "trial_env = contract_env\<lparr>sha256_hexdigest := trial_hexdigest\<rparr>"

lemma digests_format: "digest_format digest0" "digest_format digest1" "digest_format digest2" "digest_format digest3"
  by code_simp+

lemma digests_differ: "digest1 \<noteq> digest0" "distinct [digest1, digest2, digest3]"
  by code_simp+

lemma run_contract_valid: "validate_contract run_contract = Inr ()"
  by code_simp

lemma run_contract_checked:
  "validate_plan_size (xc_plan run_contract) = Inr ()"
  "distinct (map mc_id (xc_metrics run_contract))" "distinct (map ob_id (xc_obligations run_contract))"
  "validate_profile_metrics (xc_profile run_contract) (map (\<lambda>m. (mc_id m, m)) (xc_metrics run_contract)) = Inr ()"
  "validate_obligations run_contract (map (\<lambda>m. (mc_id m, m)) (xc_metrics run_contract))
     (map (\<lambda>b. (ob_id b, b)) (xc_obligations run_contract)) (generate_cells (xc_profile run_contract))
     (current_selector (xc_profile run_contract)) = Inr ()"
  "\<forall>b \<in> set (xc_obligations run_contract). min_trials (ob_quantifier b) \<le> 1"
  by code_simp+

lemma trial_sha: "sha256_bytes trial_env b = (if b = trial_bytes digest0 (current_cell, ''evening'', 1) then digest1 else digest0)"
  by (simp add: sha256_bytes_def trial_env_def trial_hexdigest_def digest0_def digest1_def)

lemma trial_hash: "digest_format (sha256_bytes trial_env b)"
  using digests_format by (simp add: trial_sha)

lemma trial_spec: "canonical_spec trial_env run_contract = Inr (line_of 1, map unat (line_of 1))"
  by (simp add: canonical_spec_def trial_env_def contract_env_def) code_simp

lemma trial_compiles: "\<exists>x. compile_experiment trial_env run_contract = Inr x"
proof -
  have "encodable (tp_order_seed (xc_plan run_contract))" by (simp add: run_contract_def)
  then have "succeeds (compile_experiment trial_env run_contract)"
    by (rule compile_succeeds [OF run_contract_valid run_contract_checked(1-5) trial_spec _ run_contract_checked(6)])
  then show ?thesis by (simp add: succeeds_def)
qed

definition trial_plan_of :: compiled_experiment where
  "trial_plan_of = (case compile_experiment trial_env run_contract of Inr x \<Rightarrow> x)"

lemma trial_compiled: "compile_experiment trial_env run_contract = Inr trial_plan_of"
  using trial_compiles by (auto simp: trial_plan_of_def)

lemmas plan_parts = compiled_parts [OF trial_compiled]

lemma length_trial_bytes: "length (trial_bytes digest0 (k, b, r)) > 3"
proof -
  have "length (concat (map utf8_code_point s)) \<ge> length s" for s
    by (induction s) (auto simp: utf8_code_point_def)
  moreover have "length (trial_material digest0 k b r) > 3"
    by (simp add: trial_material_def digest0_def text_of_def)
  ultimately show ?thesis unfolding trial_bytes_def by (simp add: order.strict_trans2)
qed

lemma compiled_digest:
  "compile_experiment E c = Inr x \<Longrightarrow> canonical_spec E c = Inr (b, spec) \<Longrightarrow> ce_spec_digest x = sha256_bytes E b"
  unfolding compile_experiment_def by (auto simp: Let_def rbind_eq_Inr)

lemma plan_digest: "ce_spec_digest trial_plan_of = digest0"
proof -
  have "ce_spec_digest trial_plan_of = sha256_bytes trial_env (line_of 1)"
    using trial_compiled trial_spec by (rule compiled_digest)
  moreover have "line_of 1 \<noteq> trial_bytes digest0 (current_cell, ''evening'', 1)"
    using length_trial_bytes by (metis less_irrefl line_length)
  ultimately show ?thesis by (simp add: trial_sha)
qed

lemma current_generated: "current_cell \<in> set (map gc_key (ce_cells trial_plan_of))"
  unfolding plan_parts(5) current_cell_def by code_simp

lemma planned_current:
  assumes "t \<in> set (ce_planned_trials trial_plan_of)"
  shows "pt_key t = digest1 \<longleftrightarrow> trial_triple t = (current_cell, ''evening'', 1)"
proof -
  note f = compiled_factorial [OF trial_compiled]
  have "trial_triple t \<in> set (map gc_key (ce_cells trial_plan_of)) \<times> {''evening''} \<times> {1}"
    using assms f(1) by (auto simp: run_contract_def)
  then have t: "plain (pt_cell_key t)" "plain (pt_block t)" "pt_replicate t = 1"
    using cell_key_plain [of "pt_cell_key t" "xc_profile run_contract"] unfolding plan_parts(5)
    by (auto simp: plain_def text_of_def)
  have c: "plain current_cell" "plain ''evening''" by (simp_all add: current_cell_def plain_def text_of_def)
  have "pt_key t = digest1 \<longleftrightarrow> trial_bytes digest0 (pt_cell_key t, pt_block t, 1) = trial_bytes digest0 (current_cell, ''evening'', 1)"
    using f(2) assms digests_differ t(3) by (auto simp: trial_sha plan_digest trial_material_of_def)
  also have "\<dots> \<longleftrightarrow> trial_triple t = (current_cell, ''evening'', 1)"
    using trial_bytes_inj [OF t(1,2) c] t(3) by auto
  finally show ?thesis .
qed

definition current_trial :: planned_trial where
  "current_trial = the (expected_by_key trial_plan_of digest1)"

lemma current_trial_facts:
  "expected_by_key trial_plan_of digest1 = Some current_trial" "current_trial \<in> set (ce_planned_trials trial_plan_of)"
  "pt_key current_trial = digest1" "pt_cell_key current_trial = current_cell" "pt_block current_trial = ''evening''"
  "pt_replicate current_trial = 1"
proof -
  have "(current_cell, ''evening'', 1) \<in> set (map trial_triple (ce_planned_trials trial_plan_of))"
    unfolding compiled_factorial(1) [OF trial_compiled] using current_generated by (simp add: run_contract_def)
  then obtain t where t: "t \<in> set (ce_planned_trials trial_plan_of)" "trial_triple t = (current_cell, ''evening'', 1)" by auto
  then have "pt_key t = digest1" using planned_current by blast
  then show e: "expected_by_key trial_plan_of digest1 = Some current_trial"
    using expected_planned(2) [OF t(1)] by (auto simp: current_trial_def)
  note k = expected_planned(1) [OF e]
  then show "current_trial \<in> set (ce_planned_trials trial_plan_of)" "pt_key current_trial = digest1" by blast+
  then have "trial_triple current_trial = (current_cell, ''evening'', 1)" using planned_current by blast
  then show "pt_cell_key current_trial = current_cell" "pt_block current_trial = ''evening''" "pt_replicate current_trial = 1"
    by simp_all
qed

definition run_selector :: cell_selector where
  "run_selector = full_selector (ia_attack (pr_input example_masking_profile)) (ca_high (pr_target example_masking_profile))
     (ca_high (pr_compensator example_masking_profile)) (sa_steady (pr_sham example_masking_profile))"

lemma run_selector_facts:
  "cells_by_key trial_plan_of current_cell = Some run_selector" "validate_cell_selector run_selector = Inr ()"
  "selector_eq run_selector run_selector"
  "expected_action_digest trial_plan_of run_selector = Inr (ia_attack_digest (pr_input example_masking_profile))"
  unfolding cells_by_key_def plan_parts(4,5) current_cell_def expected_action_digest_def by code_simp+

section \<open>The run\<close>

definition event_at :: "string \<Rightarrow> stage \<Rightarrow> int \<Rightarrow> executed_event" where
  "event_at i s t = \<lparr>xe_id = i, xe_bundle = digest1, xe_stage = s, xe_started = t, xe_ended = t + 10, xe_blocks = False\<rparr>"

definition run_record :: trial_record where
  "run_record =
     \<lparr>rc_spec_digest = digest0, rc_trial_key = digest1, rc_cell_key = current_cell, rc_block = ''evening'', rc_replicate = 1,
      rc_clone = \<lparr>cl_instance_id = ''vm'', cl_base_snapshot = digest0, cl_covariate = digest0,
        cl_attestation_bundle = digest0, cl_runner = ''runner''\<rparr>,
      rc_trace = \<lparr>tr_id = ''trace'', tr_action_digest = ia_attack_digest (pr_input example_masking_profile),
        tr_input = event_at ''in'' StageInput 100, tr_target = Executed (event_at ''target'' StageTarget 110),
        tr_compensator = Executed (event_at ''comp'' StageCompensator 120), tr_outcome = event_at ''out'' StageOutcome 130\<rparr>,
      rc_cleanup_bundle = digest0\<rparr>"

definition run_attestation :: attestation where
  "run_attestation =
     \<lparr>at_evidence_id = digest0, at_binding = expected_binding trial_plan_of current_trial run_record,
      at_build_digest = xs_build_digest (xc_scope run_contract),
      at_dataset_digest = xs_dataset_digest (xc_scope run_contract),
      at_fixture_digest = xs_fixture_digest (xc_scope run_contract), at_executed_ordinal = pt_ordinal current_trial,
      at_selector = run_selector, at_base_snapshot = digest0, at_covariate = digest0, at_intervention = digest0,
      at_artifact_ids = [digest0], at_started = 100, at_ended = 140\<rparr>"

definition run_attester :: "trial_record \<Rightarrow> attestation_result answer" where
  "run_attester r = Inr (AttestationAdmitted run_attestation)"

text \<open>What was measured: the metric, its stage, the value, the evidence id and the time of observation.\<close>

definition measured :: "(string \<times> stage \<times> typed_value \<times> string \<times> int) list" where
  "measured = [(''blocked'', StageTarget, off, digest2, 115), (''killed'', StageCompensator, on, digest3, 125),
     (''delivered'', StageOutcome, IntegerValue 0, digest1, 135)]"

definition run_evidence :: "evidence_binding \<Rightarrow> typed_value \<times> string \<times> int \<Rightarrow> metric_evidence" where
  "run_evidence b q = (case q of (v, i, t) \<Rightarrow>
     \<lparr>me_evidence_id = i, me_binding = b, me_value = v, me_observed_at = t, me_artifact_ids = [digest1]\<rparr>)"

definition run_meter :: "evidence_binding \<Rightarrow> metric_result answer" where
  "run_meter b = Inr (case map_of measured (eb_metric_id b) of
       Some (s, q) \<Rightarrow> if eb_stage b = s then MetricAdmitted (run_evidence b q)
         else MetricFailed \<lparr>mf_status = Missing, mf_reason = ''other stage'', mf_evidence_ids = [], mf_artifact_ids = [], mf_candidates = []\<rparr>
     | None \<Rightarrow> MetricFailed \<lparr>mf_status = Missing, mf_reason = ''not measured'', mf_evidence_ids = [], mf_artifact_ids = [], mf_candidates = []\<rparr>)"

definition run_cleaner :: "cleanup_binding \<Rightarrow> cleanup_result answer" where
  "run_cleaner b = Inl (text_of ''no cleanup evidence'')"

lemma run_record_valid: "validate_record run_record = Inr ()"
  unfolding run_record_def current_cell_def by code_simp

lemma run_event_ids: "event_ids_ok [run_record]"
  by (simp add: event_ids_ok_def run_record_def executed_events_def trace_events_def event_at_def starts_with_def)

lemma run_encodable: "encodable_errors run_attester" "encodable_errors run_meter" "encodable_errors run_cleaner"
  by (simp_all add: encodable_errors_def run_attester_def run_meter_def run_cleaner_def)

lemma ordinal_positive: "0 < pt_ordinal current_trial"
proof -
  have "map pt_ordinal (ce_planned_trials trial_plan_of) = [1..int (length (ce_planned_trials trial_plan_of))]"
    by (rule planned_keys(3) [OF plan_parts(9)])
  then have "pt_ordinal ` set (ce_planned_trials trial_plan_of) = {1..int (length (ce_planned_trials trial_plan_of))}"
    by (metis set_map set_upto)
  then have "pt_ordinal current_trial \<in> {1..int (length (ce_planned_trials trial_plan_of))}"
    using current_trial_facts(2) by blast
  then show ?thesis by simp
qed

lemma scope_digests: "digest_format (xs_build_digest (xc_scope run_contract))"
  "digest_format (xs_dataset_digest (xc_scope run_contract))" "digest_format (xs_fixture_digest (xc_scope run_contract))"
  "digest_format (ia_attack_digest (pr_input example_masking_profile))"
  by code_simp+

lemma run_attested: "verify_attestation run_attester r = Inr (AttestationAdmitted run_attestation)"
proof -
  have "attestation_binding_ok (at_binding run_attestation)"
    using current_trial_facts ordinal_positive digests_format scope_digests(4)
    by (simp add: run_attestation_def attestation_binding_ok_def expected_binding_def plan_digest run_record_def current_cell_def)
  then have "validate_attestation_result (AttestationAdmitted run_attestation) = Inr ()"
    using scope_digests digests_format run_selector_facts(2) ordinal_positive
    by (simp add: run_attestation_def)
  then show ?thesis by (simp add: verify_attestation_def verify_with_def run_attester_def)
qed

lemma run_checks_pass: "\<forall>row \<in> set (attestation_checks trial_plan_of current_trial run_selector run_record run_attestation). \<not> fst row"
  using run_selector_facts(3)
  by (simp add: attestation_checks_def Let_def run_attestation_def plan_parts(4) run_record_def executed_events_def
      trace_events_def event_at_def run_contract_def example_contract_def)

section \<open>Inspecting one record\<close>

lemma occurrences_single: "occurrences [s] = [(ts_key s, [0])]"
  by (simp add: occurrences_def group_by_def)

lemma mark_single: "length (wd_states w) = 1 \<Longrightarrow> mark_reuse key_for code detail w = Inr w"
  by (simp add: mark_reuse_def group_by_def)

lemma event_groups_single:
  assumes "(k, ps) \<in> set (group_by fst qs)" "\<And>q. q \<in> set qs \<Longrightarrow> snd q = (0 :: nat)"
  shows "card (set (map (\<lambda>j. ts_key (states ! j)) (sort (remdups (map snd ps))))) \<le> 1"
proof -
  have "set (map snd ps) \<subseteq> {0}" using assms by (auto simp: group_by_iff)
  then have "set (map (\<lambda>j. ts_key (states ! j)) (sort (remdups (map snd ps)))) \<subseteq> {ts_key (states ! 0)}" by auto
  then have "card (set (map (\<lambda>j. ts_key (states ! j)) (sort (remdups (map snd ps))))) \<le> card {ts_key (states ! 0)}"
    by (rule card_mono [rotated]) simp
  then show ?thesis by simp
qed

lemma each_idle: "(\<And>x. x \<in> set xs \<Longrightarrow> f x w = Inr w) \<Longrightarrow> each f xs w = Inr w"
  by (induction xs) auto

lemma mark_event_single:
  assumes "length (wd_states w) = 1"
  shows "mark_executed_event_reuse key_for code detail w = Inr w"
  unfolding mark_executed_event_reuse_def Let_def
proof (rule each_idle, clarify)
  fix k ps
  assume "(k, ps) \<in> set (group_by fst (concat (map (\<lambda>j. map (\<lambda>e. (key_for e, j))
      (executed_events (rc_trace (ts_record (wd_states w ! j))))) [0..<length (wd_states w)])))"
  then have "\<not> 1 < card (set (map (\<lambda>j. ts_key (wd_states w ! j)) (sort (remdups (map snd ps)))))"
    using event_groups_single [of k ps _ "wd_states w"] assms by (fastforce simp: not_less)
  then show "(if 1 < card (set (map (\<lambda>j. ts_key (wd_states w ! j)) (sort (remdups (map snd ps)))))
      then issue ToSafety ((plain_issue code detail)\<lparr>is_digests := if starts_with ''sha256:'' k then [k] else []\<rparr>)
        (sort (remdups (map snd ps))) True w else Inr w) = Inr w" by (rule if_not_P)
qed

text \<open>A single record that agrees with the plan and passes every check of its attestation stays valid.\<close>

lemma inspected_single:
  assumes run: "inspect_records x v [r] = Inr w" and t: "expected_by_key x (rc_trial_key r) = Some t"
    and agree: "binding_mismatches x t r = []" "cells_by_key x (pt_cell_key t) = Some s"
      "expected_action_digest x s = Inr (tr_action_digest (rc_trace r))"
    and att: "verify_attestation v r = Inr (AttestationAdmitted a)" "\<forall>row \<in> set (attestation_checks x t s r a). \<not> fst row"
  shows "wd_states w = [(new_state r)\<lparr>ts_attestation := Some a\<rparr>]"
proof -
  let ?w = "\<lparr>wd_states = [new_state r], wd_design = [], wd_evidence = [], wd_safety = []\<rparr>"
  obtain w1 w2 w3 w4 w5 where w: "check_presence x ?w = Inr w1" "check_identity x 0 w1 = Inr w2" "mark_all_reuse w2 = Inr w3"
    "attest x v 0 w3 = Inr w4" "mark_evidence_reuse w4 = Inr w5" "mark_runner_overlaps w5 = Inr w"
    using run by (auto simp: inspect_records_def Let_def rbind_eq_Inr)
  have "extra_keys x [new_state r] = []" "duplicate_keys [new_state r] = []"
    using t by (simp_all add: extra_keys_def duplicate_keys_def occurrences_single new_state_def)
  then have s1: "wd_states w1 = [new_state r]"
    using w(1) by (auto simp: check_presence_def Let_def rbind_eq_Inr split: if_splits dest!: report_marks)
  have idle: "run_checks b j rows u = Inr u" if "\<forall>row \<in> set rows. \<not> fst row" for b j rows u
    unfolding run_checks_def by (rule each_idle) (use that in auto)
  have "check_identity x 0 w1 = Inr w1"
    using t agree s1 by (simp add: check_identity_def Let_def new_state_def dict_at_def idle)
  then have s2: "w2 = w1" using w(2) by simp
  have "mark_all_reuse w2 = Inr w2" using s1 s2 by (simp add: mark_all_reuse_def mark_single mark_event_single)
  then have s3: "w3 = w1" using w(3) s2 by simp
  have "attest x v 0 w3 = Inr (set_attestation 0 a w3)"
    using t agree(2) att s1 s3 by (simp add: attest_def Let_def new_state_def dict_at_def idle)
  then have s4: "wd_states w4 = [(new_state r)\<lparr>ts_attestation := Some a\<rparr>]" using w(4) s3 s1 by (auto simp: set_attestation_def)
  then have "w5 = w4" using w(5) by (simp add: mark_evidence_reuse_def Let_def group_by_def attested_indices_def)
  then show ?thesis using w(6) s4 by (simp add: mark_runner_overlaps_def Let_def group_by_def attested_indices_def)
qed

section \<open>The evidence\<close>

definition run_state :: trial_state where
  "run_state = (new_state run_record)\<lparr>ts_attestation := Some run_attestation\<rparr>"

lemma run_state_fields: "ts_record run_state = run_record" "rc_trial_key run_record = digest1" "ts_valid run_state"
  "ts_attestation run_state = Some run_attestation"
  by (simp_all add: run_state_def new_state_def run_record_def)

lemma run_probes:
  "unique_states trial_plan_of [run_state] = [(digest1, run_state)]" "admissible trial_plan_of [run_state] = [(digest1, run_state)]"
  using current_trial_facts(1)
  by (simp_all add: unique_states_def admissible_def occurrences_single run_state_fields)

fun event_of :: "stage \<Rightarrow> executed_event" where
  "event_of StageInput = event_at ''in'' StageInput 100"
| "event_of StageTarget = event_at ''target'' StageTarget 110"
| "event_of StageCompensator = event_at ''comp'' StageCompensator 120"
| "event_of StageOutcome = event_at ''out'' StageOutcome 130"

lemma run_events: "event_for (rc_trace run_record) s = Executed (event_of s)"
  by (cases s) (simp_all add: run_record_def)

lemma event_of_facts [simp]: "xe_stage (event_of s) = s" "xe_bundle (event_of s) = digest1"
  "xe_id (event_of s) = xe_id (event_of u) \<longleftrightarrow> s = u" "xe_id (event_of s) \<noteq> []"
  by (cases s; cases u; simp add: event_at_def)+

abbreviation binding_at :: "stage \<Rightarrow> metric_contract \<Rightarrow> evidence_binding" where
  "binding_at s m \<equiv> evidence_binding_of trial_plan_of run_record (event_of s) m"

lemma binding_at_fields [simp]: "eb_metric_id (binding_at s m) = mc_id m" "eb_stage (binding_at s m) = s"
  "eb_bundle (binding_at s m) = digest1"
  by (simp_all add: evidence_binding_of_def)

lemma measured_cases:
  assumes "map_of measured i = Some (s, q)"
  obtains "i = ''blocked''" "s = StageTarget" "q = (off, digest2, 115)"
    | "i = ''killed''" "s = StageCompensator" "q = (on, digest3, 125)"
    | "i = ''delivered''" "s = StageOutcome" "q = (IntegerValue 0, digest1, 135)"
  using assms by (auto simp: measured_def split: if_splits)

lemma metrics_found:
  "metric_by_id trial_plan_of ''blocked'' = Inr (flag_metric ''blocked'' ''filter'' StageTarget)"
  "metric_by_id trial_plan_of ''killed'' = Inr (flag_metric ''killed'' ''edr'' StageCompensator)"
  "metric_by_id trial_plan_of ''delivered'' = Inr delivered_metric"
  unfolding metric_by_id_def plan_parts(4) by code_simp+

lemma measured_metric:
  assumes "map_of measured i = Some (s, v, j, t)"
  obtains m where "metric_by_id trial_plan_of i = Inr m" "mc_id m = i" "value_type_name v = metric_type_name (mc_value_type m)"
    "validate_typed v = Inr ()" "digest_format j" "i \<noteq> []" "xe_started (event_of s) \<le> t" "t \<le> xe_ended (event_of s)" "0 \<le> t" "t \<le> 1000"
  using assms
  by (rule measured_cases)
    (use that metrics_found digests_format in \<open>auto simp: flag_metric_def delivered_metric_def on_def off_def event_at_def
        between_def I_JSON_MAX_INTEGER_def\<close>)

lemma measured_judged:
  assumes "map_of measured i = Some (s, q)" "metric_by_id trial_plan_of i = Inr m"
  shows "judge_metric trial_plan_of (binding_at s m) (event_of s) m (verify_metric run_meter (binding_at s m))
    = Inr (run_evidence (binding_at s m) q)"
proof -
  obtain v j t where q: "q = (v, j, t)" by (cases q)
  have m: "mc_id m = i" "value_type_name v = metric_type_name (mc_value_type m)"
    "validate_typed v = Inr ()" "digest_format j" "i \<noteq> []" "xe_started (event_of s) \<le> t" "t \<le> xe_ended (event_of s)" "0 \<le> t" "t \<le> 1000"
    using measured_metric [OF assms(1) [unfolded q]] assms(2) by auto
  have "validate_metric_result (MetricAdmitted (run_evidence (binding_at s m) q)) = Inr ()"
    using digests_format m by (simp add: q run_evidence_def evidence_binding_of_def plan_digest run_record_def)
  then have "verify_metric run_meter (binding_at s m) = Inr (MetricAdmitted (run_evidence (binding_at s m) q))"
    using assms(1) m(1) by (simp add: verify_metric_def verify_with_def run_meter_def)
  then show ?thesis
    using m by (simp add: judge_metric_def q run_evidence_def metric_in_window_def Let_def plan_parts(4) run_contract_def
        example_contract_def)
qed

text \<open>Whatever the cache admits is evidence for one of the measured metrics.\<close>

lemma run_entry:
  assumes "entry_ok trial_plan_of run_meter [(digest1, run_state)] k a"
  obtains i s q m where "map_of measured i = Some (s, q)" "metric_by_id trial_plan_of i = Inr m" "mc_id m = i"
    "a = run_evidence (binding_at s m) q"
proof -
  obtain r stage e m where e: "map_of [(digest1, run_state)] (fst k) = Some r" "event_for (rc_trace (ts_record r)) stage = Executed e"
    "metric_by_id trial_plan_of (snd (snd k)) = Inr m"
    "judge_metric trial_plan_of (evidence_binding_of trial_plan_of (ts_record r) e m) e m
       (verify_metric run_meter (evidence_binding_of trial_plan_of (ts_record r) e m)) = Inr a"
    using assms unfolding entry_ok_def by blast
  have r: "ts_record r = run_record" using e(1) run_state_fields(1) by (auto split: if_splits)
  have stage: "e = event_of stage" using e(2) run_events unfolding r by simp
  have m: "metric_by_id trial_plan_of (mc_id m) = Inr m" using e(3) metric_by_id_id [OF e(3)] by simp
  have "verify_metric run_meter (binding_at stage m) = Inr (MetricAdmitted a)"
    using e(4) unfolding r stage by (auto simp: judge_metric_def split: sum.splits metric_result.splits if_splits)
  then obtain q where "map_of measured (mc_id m) = Some (stage, q)" "a = run_evidence (binding_at stage m) q"
    by (auto simp: verify_metric_def verify_with_def run_meter_def split: sum.splits if_splits option.splits)
  then show thesis using that m by blast
qed

definition never_refused :: "metric_context \<Rightarrow> bool" where
  "never_refused cx \<longleftrightarrow> (\<forall>i s q. map_of measured i = Some (s, q) \<longrightarrow>
     map_of (cx_cache cx) (digest1, xe_id (event_of s), i) \<noteq> Some None)"

lemma never_refused_step:
  assumes "metric_evidence_for trial_plan_of run_meter run_state e m cx = Inr (a, cx')" "never_refused cx"
    "event_for (rc_trace run_record) stage = Executed e" "metric_by_id trial_plan_of j = Inr m"
  shows "never_refused cx'"
  unfolding never_refused_def
proof (intro allI impI)
  fix i s q assume i: "map_of measured i = Some (s, q)"
  have e: "e = event_of stage" using assms(3) run_events by simp
  have m: "metric_by_id trial_plan_of (mc_id m) = Inr m" using assms(4) metric_by_id_id [OF assms(4)] by simp
  have old: "map_of (cx_cache cx) (digest1, xe_id (event_of s), i) \<noteq> Some None"
    using assms(2) i unfolding never_refused_def by blast
  show "map_of (cx_cache cx') (digest1, xe_id (event_of s), i) \<noteq> Some None"
  proof (cases "s = stage \<and> i = mc_id m")
    case True
    then show ?thesis
      using assms(1) old measured_judged [OF i] m e
      by (auto simp: metric_evidence_for_def Let_def run_state_fields map_of_dict_put split: option.splits if_splits)
  next
    case False
    then have "map_of (cx_cache cx') (digest1, xe_id (event_of s), i) = map_of (cx_cache cx) (digest1, xe_id (event_of s), i)"
      using assms(1) unfolding e
      by (auto simp: metric_evidence_for_def Let_def rbind_eq_Inr map_of_dict_put split: option.splits sum.splits)
    then show ?thesis using old by simp
  qed
qed

lemma never_refused_prime:
  assumes "prime_metric_evidence trial_plan_of run_meter [(digest1, run_state)] required cx = Inr cx'" "never_refused cx"
  shows "never_refused cx'"
proof -
  have "never_refused u \<longrightarrow> never_refused v" if "prime_one trial_plan_of run_meter [(digest1, run_state)] q u = Inr v" for q u v
    using that never_refused_step
    by (fastforce simp: prime_one_def rbind_eq_Inr run_state_fields split: prod.splits option.splits stage_event.splits if_splits)
  then have "never_refused cx \<longrightarrow> never_refused cx'"
    by (intro inv.each_le [OF _ assms(1) [unfolded prime_metric_evidence_def]])
  then show ?thesis using assms(2) by blast
qed

lemma group_of_equal:
  assumes "\<And>p q. p \<in> set xs \<Longrightarrow> q \<in> set xs \<Longrightarrow> f p = f q \<Longrightarrow> g p = g q" "(k, ys) \<in> set (group_by f xs)"
  shows "\<not> 1 < card (set (map g ys))"
proof (cases "ys = []")
  case False
  have "set (map g ys) \<subseteq> {g (hd ys)}"
    using assms(2) False hd_in_set [OF False] by (auto simp: group_by_iff intro!: assms(1))
  then have "card (set (map g ys)) \<le> card {g (hd ys)}" by (rule card_mono [rotated]) simp
  then show ?thesis by simp
qed simp

lemma evidence_told_apart:
  assumes "map_of measured i = Some (s, q)" "map_of measured j = Some (u, r)"
    and "me_evidence_id (run_evidence b q) = me_evidence_id (run_evidence b' r) \<or> i = j"
  shows "i = j" "s = u" "q = r"
proof -
  show "i = j"
    by (rule measured_cases [OF assms(1)]; rule measured_cases [OF assms(2)])
      (use assms(3) digests_differ(2) in \<open>auto simp: run_evidence_def\<close>)
  then show "s = u" "q = r" using assms(1,2) by auto
qed

lemma nothing_replayed:
  assumes "reject_metric_replays cx = Inr cx'" "steady_context trial_plan_of run_meter [(digest1, run_state)] cx"
  shows "cx' = cx"
proof -
  let ?as = "admissions_of (cx_cache cx)"
  have entry: "entry_ok trial_plan_of run_meter [(digest1, run_state)] (fst q) (snd q)" if "q \<in> set ?as" for q
  proof -
    have "(fst q, Some (snd q)) \<in> set (cx_cache cx)" using that by (simp flip: admissions_of_set)
    then show ?thesis using assms(2) unfolding steady_context_def by blast
  qed
  have same: "snd p = snd q" if pq: "p \<in> set ?as" "q \<in> set ?as"
    "me_evidence_id (snd p) = me_evidence_id (snd q) \<or> eb_metric_id (me_binding (snd p)) = eb_metric_id (me_binding (snd q))" for p q
  proof -
    obtain i s r m where p: "map_of measured i = Some (s, r)" "metric_by_id trial_plan_of i = Inr m" "mc_id m = i"
      "snd p = run_evidence (binding_at s m) r" by (rule run_entry [OF entry [OF pq(1)]])
    obtain j u r' m' where q: "map_of measured j = Some (u, r')" "metric_by_id trial_plan_of j = Inr m'" "mc_id m' = j"
      "snd q = run_evidence (binding_at u m') r'" by (rule run_entry [OF entry [OF pq(2)]])
    have "me_binding (run_evidence b z) = b" for b z by (simp add: run_evidence_def split: prod.split)
    then have "me_evidence_id (run_evidence (binding_at s m) r) = me_evidence_id (run_evidence (binding_at u m') r') \<or> i = j"
      using pq(3) p(3,4) q(3,4) by auto
    from evidence_told_apart [OF p(1) q(1) this] show ?thesis using p q by simp
  qed
  have "rebound_ids ?as = []"
    using group_of_equal [of ?as "me_evidence_id \<circ> snd" "me_binding \<circ> snd"] same
    by (fastforce simp: rebound_ids_def filter_empty_conv)
  moreover have "conflicting_bundles ?as = []"
    using group_of_equal [of ?as "\<lambda>(k, a). (eb_bundle (me_binding a), eb_metric_id (me_binding a))" "typed_json \<circ> me_value \<circ> snd"] same
    by (fastforce simp: conflicting_bundles_def filter_empty_conv split_def)
  ultimately show ?thesis
    using assms(1) by (simp add: reject_metric_replays_def Let_def replay_issues_def bad_reasons_def group_by_def)
qed

section \<open>The report\<close>

lemma current_cell_only:
  "filter (\<lambda>c. selector_eq (gc_selector c) (current_selector (xc_profile run_contract))) (generate_cells (xc_profile run_contract))
     = [\<lparr>gc_key = current_cell, gc_selector = run_selector\<rparr>]"
  by code_simp

lemma run_trials: "trials_in trial_plan_of (ce_current_selector trial_plan_of) = [digest1]"
proof -
  let ?ts = "filter (\<lambda>t. pt_cell_key t = current_cell) (ce_planned_trials trial_plan_of)"
  have keys: "trials_in trial_plan_of (ce_current_selector trial_plan_of) = map pt_key ?ts"
    using current_keys [OF trial_compiled] unfolding current_trial_keys_def plan_parts(5,6) current_cell_only by simp
  have "distinct (map trial_triple (ce_planned_trials trial_plan_of))"
    by (rule planned_factorial(1) [OF plan_parts(9)], unfold plan_parts(5))
      (simp_all only: cell_keys_distinct, simp_all add: run_contract_def)
  then have d: "distinct ?ts" "inj_on trial_triple (set ?ts)" by (auto simp: distinct_map inj_on_def)
  have row: "trial_triple t = (current_cell, ''evening'', 1)" if "t \<in> set ?ts" for t
  proof -
    have "t \<in> set (ce_planned_trials trial_plan_of)" using that by simp
    then have "trial_triple t \<in> set (map trial_triple (ce_planned_trials trial_plan_of))" by simp
    then show ?thesis unfolding compiled_factorial(1) [OF trial_compiled] using that by (auto simp: run_contract_def)
  qed
  have "t = current_trial" if t: "t \<in> set ?ts" for t
  proof (rule inj_onD [OF d(2) _ t])
    show "current_trial \<in> set ?ts" using current_trial_facts by simp
    then show "trial_triple t = trial_triple current_trial" using row t by metis
  qed
  moreover have "current_trial \<in> set ?ts" using current_trial_facts by simp
  ultimately have one: "set ?ts = {current_trial}" by blast
  then have "length ?ts = 1" using distinct_card [OF d(1)] by simp
  then obtain t where "?ts = [t]" by (auto simp: length_Suc_conv)
  then have "?ts = [current_trial]" using one by simp
  then show ?thesis using keys current_trial_facts(3) by simp
qed

text \<open>The three obligations on the current cell, and how the measured values decide them.\<close>

definition run_obligations :: "(obligation \<times> bool) list" where
  "run_obligations = [(xc_obligations run_contract ! 0, False), (xc_obligations run_contract ! 1, True),
     (xc_obligations run_contract ! 2, True)]"

definition measured_value :: "string \<Rightarrow> typed_value" where
  "measured_value i = fst (snd (the (map_of measured i)))"

lemma run_obligation_facts:
  assumes "(b, ok) \<in> set run_obligations"
  shows "b \<in> set (xc_obligations (ce_contract trial_plan_of))"
    "\<exists>j t. map_of measured (mp_metric_id (ob_predicate b))
       = Some (required_stage (ob_scope b), measured_value (mp_metric_id (ob_predicate b)), j, t)"
    "predicate_matches (ob_predicate b) (measured_value (mp_metric_id (ob_predicate b))) = Inr ok"
proof -
  have "\<forall>(b, ok) \<in> set run_obligations. b \<in> set (xc_obligations run_contract)"
    "\<forall>(b, ok) \<in> set run_obligations. map_option fst (map_of measured (mp_metric_id (ob_predicate b))) = Some (required_stage (ob_scope b))"
    "\<forall>(b, ok) \<in> set run_obligations. predicate_matches (ob_predicate b) (measured_value (mp_metric_id (ob_predicate b))) = Inr ok"
    by code_simp+
  then show "b \<in> set (xc_obligations (ce_contract trial_plan_of))"
    "\<exists>j t. map_of measured (mp_metric_id (ob_predicate b))
       = Some (required_stage (ob_scope b), measured_value (mp_metric_id (ob_predicate b)), j, t)"
    "predicate_matches (ob_predicate b) (measured_value (mp_metric_id (ob_predicate b))) = Inr ok"
    using assms unfolding plan_parts(4) by (auto simp: measured_value_def)
qed

lemma run_context_step:
  assumes A: "ae_compiled A = trial_plan_of" "ae_verifier A = run_meter" "ae_by_key A = [(digest1, run_state)]"
    and run: "assess_point A b m key u = Inr (p, v)" and m: "metric_by_id trial_plan_of i = Inr m"
  shows "never_refused u \<longrightarrow> never_refused v"
  using run A never_refused_step [OF _ _ _ m]
  by (fastforce simp: assess_point_def Let_def rbind_eq_Inr run_state_fields split: option.splits stage_event.splits if_splits)

lemma run_point:
  assumes A: "ae_compiled A = trial_plan_of" "ae_verifier A = run_meter" "ae_by_key A = [(digest1, run_state)]"
    and b: "(b, ok) \<in> set run_obligations" "metric_by_id trial_plan_of (mp_metric_id (ob_predicate b)) = Inr m"
    and run: "assess_point A b m digest1 u = Inr (p, v)"
    and u: "never_refused u" "cache_ok trial_plan_of run_meter [(digest1, run_state)] u"
  shows "tq_state p = (if ok then PointPass else PointFail) \<and> tq_exercise p = Exercised"
proof -
  let ?i = "mp_metric_id (ob_predicate b)" and ?s = "required_stage (ob_scope b)"
  obtain j t where q: "map_of measured ?i = Some (?s, measured_value ?i, j, t)" using run_obligation_facts(2) [OF b(1)] by blast
  have m: "mc_id m = ?i" using metric_by_id_id [OF b(2)] by blast
  obtain d z where d: "metric_evidence_for trial_plan_of run_meter run_state (event_of ?s) m u = Inr (d, z)"
    using run A by (auto simp: assess_point_def Let_def run_state_fields run_events rbind_eq_Inr)
  have "\<exists>e. d = Some e \<and> me_value e = measured_value ?i"
  proof (cases "map_of (cx_cache u) (digest1, xe_id (event_of ?s), ?i)")
    case None
    then show ?thesis using d measured_judged [OF q b(2)]
      by (auto simp: metric_evidence_for_def Let_def run_state_fields m run_evidence_def)
  next
    case (Some c)
    then have c: "d = c" using d by (simp add: metric_evidence_for_def Let_def run_state_fields m)
    obtain a where a: "c = Some a" using Some u(1) q unfolding never_refused_def by (cases c) auto
    have "entry_ok trial_plan_of run_meter [(digest1, run_state)] (digest1, xe_id (event_of ?s), ?i) a"
      using u(2) Some a unfolding cache_ok_def by blast
    then have "\<exists>n stage. metric_by_id trial_plan_of ?i = Inr n
        \<and> judge_metric trial_plan_of (binding_at stage n) (event_of stage) n (verify_metric run_meter (binding_at stage n)) = Inr a
        \<and> xe_id (event_of stage) = xe_id (event_of ?s)"
      unfolding entry_ok_def using run_events run_state_fields(1) by (auto split: if_splits)
    then have "a = run_evidence (binding_at ?s m) (measured_value ?i, j, t)"
      using measured_judged [OF q b(2)] b(2) by auto
    then show ?thesis using a c by (simp add: run_evidence_def)
  qed
  then show ?thesis
    using run d A run_obligation_facts(3) [OF b(1)]
    by (auto simp: assess_point_def Let_def run_state_fields run_events rbind_eq_Inr)
qed

lemma assessed_key: "assess_point A b m key u = Inr (p, v) \<Longrightarrow> tq_trial_key p = key"
  by (auto simp: assess_point_def unresolved_point_def Let_def rbind_eq_Inr split: option.splits stage_event.splits)

text \<open>An obligation in a context where the evidence was not refused: its points are decided by the measured value.\<close>

lemma run_obligation:
  assumes A: "assessing A trial_plan_of run_attester run_meter [run_record] w" and w: "wd_states w = [run_state]"
    and b: "(b, ok) \<in> set run_obligations" and run: "evaluate_obligation A b u = Inr (a, v)"
    and u: "never_refused u" "cache_ok trial_plan_of run_meter [(digest1, run_state)] u"
    and p: "p \<in> set (oa_points a)" "tq_trial_key p = digest1"
  shows "tq_state p = (if ok then PointPass else PointFail) \<and> tq_exercise p = Exercised"
proof -
  let ?P = "\<lambda>u. never_refused u \<and> cache_ok trial_plan_of run_meter [(digest1, run_state)] u"
  note f = A [unfolded assessing_def]
  have env: "ae_compiled A = trial_plan_of" "ae_verifier A = run_meter" "ae_by_key A = [(digest1, run_state)]"
    using f w run_probes(2) by auto
  have "\<exists>keys m ps. metric_by_id trial_plan_of (mp_metric_id (ob_predicate b)) = Inr m
      \<and> collect (assess_point A b m) keys u = Inr (ps, v) \<and> a = assessment_of b ps"
    by (rule evaluate_obligation_Inr [OF run, unfolded env(1)]) (intro exI conjI; assumption)
  then obtain keys m ps where m: "metric_by_id trial_plan_of (mp_metric_id (ob_predicate b)) = Inr m"
    and c: "collect (assess_point A b m) keys u = Inr (ps, v)" "oa_points a = ps"
    by (auto simp: assessment_fields)
  have step: "?P y \<longrightarrow> ?P z" if "assess_point A b m k y = Inr (q, z)" for k q y z
    using run_context_step [OF env that m] assess_point_grounded [OF that env(1,2), of w] f w run_probes(1) m by auto
  have "\<exists>k y z. k \<in> set keys \<and> (?P u \<longrightarrow> ?P y) \<and> assess_point A b m k y = Inr (p, z) \<and> (?P z \<longrightarrow> ?P v)"
    by (rule inv.collect_at [OF _ c(1) p(1) [unfolded c(2)]]) (rule step)
  then obtain k y z where y: "assess_point A b m k y = Inr (p, z)" "?P y" using u by blast
  then have "k = digest1" using assessed_key p(2) by blast
  then show ?thesis using run_point [OF env b m] y by blast
qed

lemma never_refused_obligation:
  assumes A: "ae_compiled A = trial_plan_of" "ae_verifier A = run_meter" "ae_by_key A = [(digest1, run_state)]"
    and run: "evaluate_obligation A b u = Inr (a, v)"
  shows "never_refused u \<longrightarrow> never_refused v"
proof (rule evaluate_obligation_Inr [OF run])
  fix cov m ps
  assume m: "metric_by_id (ae_compiled A) (mp_metric_id (ob_predicate b)) = Inr m"
    "collect (assess_point A b m) (oc_trial_keys cov) u = Inr (ps, v)"
  show ?thesis by (rule inv.collect_le [OF _ m(2)]) (rule run_context_step [OF A _ m(1) [unfolded A(1)]])
qed

text \<open>The world and the cache the obligations of the run are assessed with.\<close>

lemma run_assessing:
  assumes "evaluate trial_env trial_plan_of [run_record] run_attester run_meter run_cleaner = Inr rep"
  obtains A w cx2 cx3 where "assessing A trial_plan_of run_attester run_meter [run_record] w" "wd_states w = [run_state]"
    "cache_ok trial_plan_of run_meter [(digest1, run_state)] cx2" "never_refused cx2"
    "collect (evaluate_obligation A) (xc_obligations (ce_contract trial_plan_of)) cx2 = Inr (er_obligations rep, cx3)"
proof (rule evaluate_parts [OF assms])
  let ?x = trial_plan_of and ?probes = "[(digest1, run_state)]"
  fix x w cleaned w' required cx1 cx2 cx3 A
  assume e: "recompile trial_env ?x = Inr x" "inspect_records x run_attester [run_record] = Inr w"
    "required_metric_coordinates x = Inr required"
    "prime_metric_evidence x run_meter (unique_states x (wd_states w)) required
       \<lparr>cx_issues = wd_evidence w', cx_cache = [], cx_reasons = []\<rparr> = Inr cx1"
    "reject_metric_replays cx1 = Inr cx2"
    "A = \<lparr>ae_compiled = x, ae_verifier = run_meter, ae_by_key = admissible x (wd_states w), ae_states = wd_states w\<rparr>"
    "collect (evaluate_obligation A) (xc_obligations (ce_contract x)) cx2 = Inr (er_obligations rep, cx3)"
  have x: "x = ?x" using e(1) recompile_compiled [OF trial_compiled] by simp
  have "binding_mismatches ?x current_trial run_record = []"
    using current_trial_facts by (simp add: binding_mismatches_def plan_digest run_record_def)
  then have w: "wd_states w = [run_state]"
    unfolding run_state_def
    using inspected_single [OF e(2) [unfolded x] _ _ _ _ run_attested run_checks_pass] current_trial_facts(1,4) run_selector_facts(1,4)
    by (simp add: run_record_def)
  have start: "steady_context ?x run_meter ?probes \<lparr>cx_issues = wd_evidence w', cx_cache = [], cx_reasons = []\<rparr>"
    "never_refused \<lparr>cx_issues = wd_evidence w', cx_cache = [], cx_reasons = []\<rparr>" "valid_probes ?probes"
    using run_record_valid run_encodable
    by (auto simp: steady_context_def cache_ok_def never_refused_def valid_probes_def run_state_fields split: if_splits)
  note e' = e [unfolded x w run_probes]
  have "\<forall>q \<in> set required. succeeds (metric_by_id ?x (snd (snd q)))"
    using coordinates_found [OF trial_compiled] e'(3) by (simp add: yields_def)
  then have s1: "steady_context ?x run_meter ?probes cx1" "never_refused cx1"
    using yields_prime [OF start(1,3), of required] never_refused_prime [OF e'(4) start(2)] e'(4) by (auto simp: yields_def)
  have "cx2 = cx1" using nothing_replayed [OF e'(5) s1(1)] .
  then have s2: "cache_ok ?x run_meter ?probes cx2" "never_refused cx2" using s1 by (simp_all add: steady_context_def)
  have "assessing A ?x run_attester run_meter [run_record] w"
    using e(2,6) run_record_valid x by (simp add: assessing_def)
  then show thesis using that w s2 e(7) [unfolded x] by blast
qed

lemma run_points:
  assumes rep: "evaluate trial_env trial_plan_of [run_record] run_attester run_meter run_cleaner = Inr rep"
    and b: "(b, ok) \<in> set run_obligations" and a: "a \<in> set (er_obligations rep)" "oa_obligation_id a = ob_id b"
    and p: "p \<in> set (oa_points a)" "tq_trial_key p = digest1"
  shows "tq_state p = (if ok then PointPass else PointFail) \<and> tq_exercise p = Exercised"
proof (rule run_assessing [OF rep])
  let ?x = trial_plan_of and ?probes = "[(digest1, run_state)]"
  fix A w cx2 cx3
  assume A: "assessing A ?x run_attester run_meter [run_record] w" and w: "wd_states w = [run_state]"
    and cx2: "cache_ok ?x run_meter ?probes cx2" "never_refused cx2"
    and run: "collect (evaluate_obligation A) (xc_obligations (ce_contract ?x)) cx2 = Inr (er_obligations rep, cx3)"
  have env: "ae_compiled A = ?x" "ae_verifier A = run_meter" "ae_by_key A = ?probes"
    using A w run_probes(2) by (simp_all add: assessing_def)
  let ?P = "\<lambda>u. never_refused u \<and> cache_ok ?x run_meter ?probes u"
  have step: "?P u \<longrightarrow> ?P v" if "evaluate_obligation A c u = Inr (q, v)" for c q u v
    using never_refused_obligation [OF env that] obligation_points(1) [OF A that] w run_probes(1) by auto
  have "\<exists>c u v. c \<in> set (xc_obligations (ce_contract ?x)) \<and> (?P cx2 \<longrightarrow> ?P u) \<and> evaluate_obligation A c u = Inr (a, v) \<and> (?P v \<longrightarrow> ?P cx3)"
    by (rule inv.collect_at [OF _ run a(1)]) (rule step)
  then obtain c u v where c: "c \<in> set (xc_obligations (ce_contract ?x))" "evaluate_obligation A c u = Inr (a, v)" "?P u" using cx2 by blast
  have "ob_id c = ob_id b"
    using c(2) a(2) by (elim evaluate_obligation_Inr) (simp add: assessment_fields)
  then have "c = b"
    using c(1) run_obligation_facts(1) [OF b] plan_parts(3) unfolding plan_parts(4) distinct_map by (auto dest: inj_onD)
  then show ?thesis using run_obligation [OF A w b] c(2,3) p by blast
qed

section \<open>The verdict\<close>

lemma exercised_points:
  assumes "ps \<noteq> []" "\<forall>p \<in> set ps. tq_exercise p = Exercised"
  shows "exercised (assessment_of b ps)"
proof -
  have "filter (\<lambda>p. tq_exercise p = e) ps = (if e = Exercised then ps else [])" for e
    using assms(2) by (auto simp: filter_empty_conv)
  then show ?thesis using assms(1) by (simp add: exercised_def assessment_of_def Let_def overall_exercise_def count_exercise_def)
qed

text \<open>The three assessments of the run: the target refuted, the compensator and the path supported.\<close>

lemma run_assessed:
  assumes rep: "evaluate trial_env trial_plan_of [run_record] run_attester run_meter run_cleaner = Inr rep" "er_compiled rep = trial_plan_of"
    and b: "(b, ok) \<in> set run_obligations" and a: "a \<in> set (er_obligations rep)" "oa_obligation_id a = ob_id b"
  shows "oa_truth a = (if ok then TruthSupported else TruthRefuted)" "exercised a" "oa_points a \<noteq> []"
    "\<forall>p \<in> set (oa_points a). tq_trial_key p = digest1 \<and> tq_state p = (if ok then PointPass else PointFail)"
proof -
  let ?p = "xc_profile run_contract"
  have "\<forall>(b, ok) \<in> set run_obligations. \<exists>row \<in> set (primary_rows ?p (current_selector ?p)).
      fst (snd row) = ob_id b \<and> fst (snd (snd (snd (snd (snd row))))) = current_selector ?p"
    by code_simp
  then obtain label scope metric component safe where row: "(label, ob_id b, scope, metric, component, ce_current_selector trial_plan_of, safe)
      \<in> set (primary_rows (xc_profile (ce_contract trial_plan_of)) (ce_current_selector trial_plan_of))"
    using b unfolding plan_parts(4,6) by fastforce
  note q = primary_assessed [OF rep(1) a rep(2) [symmetric] row]
  have "map tq_trial_key (oa_points a) = [digest1]"
    using q(1) run_trials rep(2) by (simp add: primary_assessment_def)
  then show ne: "oa_points a \<noteq> []" and key: "\<forall>p \<in> set (oa_points a). tq_trial_key p = digest1 \<and> tq_state p = (if ok then PointPass else PointFail)"
    using run_points [OF rep(1) b a] by auto
  show "oa_truth a = (if ok then TruthSupported else TruthRefuted)"
    using q(2,3) key ne by (cases ok) (auto simp: neq_Nil_conv)
  obtain c ps where "a = assessment_of c ps" using report_assessment [OF rep(1) a(1) rep(2) [symmetric]] by blast
  then show "exercised a"
    using exercised_points [of ps c] run_points [OF rep(1) b a] key ne by (auto simp: assessment_fields)
qed

lemma run_reports:
  obtains rep where "evaluate trial_env trial_plan_of [run_record] run_attester run_meter run_cleaner = Inr rep"
    "er_compiled rep = trial_plan_of" "map oa_obligation_id (er_obligations rep) = map ob_id (xc_obligations run_contract)"
  using evaluate_total [OF trial_hash trial_compiled, of "[run_record]" run_attester run_meter run_cleaner]
    run_record_valid run_event_ids run_encodable by auto

lemma run_masked:
  assumes rep: "evaluate trial_env trial_plan_of [run_record] run_attester run_meter run_cleaner = Inr rep" "er_compiled rep = trial_plan_of"
  shows "rs_classification (er_residual rep) = MaskedTargetFailure"
proof -
  let ?p = "xc_profile run_contract"
  have ids: "map (\<lambda>(b, ok). (ob_id b, ok)) run_obligations
      = [(pr_primary_target_id ?p, False), (pr_primary_compensator_id ?p, True), (pr_primary_path_id ?p, True)]"
    by code_simp
  have row: "\<exists>b. (b, ok) \<in> set run_obligations \<and> ob_id b = i"
    if "(i, ok) \<in> set (map (\<lambda>(b, ok). (ob_id b, ok)) run_obligations)" for i ok
    using that by auto
  have "residual_summary_of trial_plan_of (er_obligations rep) (er_contrasts rep) (dc_protocol (er_completeness rep)) = Inr (er_residual rep)"
    by (rule evaluate_parts [OF rep(1)]) (simp add: rep(2))
  then show ?thesis
  proof (rule summary_parts [where x = trial_plan_of, unfolded plan_parts(4)])
    fix target compensator path benign s
    assume t: "target \<in> set (er_obligations rep)" "oa_obligation_id target = pr_primary_target_id ?p"
      "compensator \<in> set (er_obligations rep)" "oa_obligation_id compensator = pr_primary_compensator_id ?p"
      "path \<in> set (er_obligations rep)" "oa_obligation_id path = pr_primary_path_id ?p"
      and s: "classify target compensator path benign (er_contrasts rep) (dc_protocol (er_completeness rep)) = Inr s"
      "s = rs_classification (er_residual rep)"
    have truth: "oa_truth a = (if ok then TruthSupported else TruthRefuted) \<and> exercised a"
      if i: "(oa_obligation_id a, ok) \<in> set (map (\<lambda>(b, ok). (ob_id b, ok)) run_obligations)" "a \<in> set (er_obligations rep)" for a ok
      using row [OF i(1)] run_assessed [OF rep _ i(2)] by metis
    have "oa_truth target = TruthRefuted \<and> exercised target" "oa_truth compensator = TruthSupported \<and> exercised compensator"
      "oa_truth path = TruthSupported \<and> exercised path"
      using truth [of target False] truth [of compensator True] truth [of path True] t unfolding ids by simp_all
    then show ?thesis using s by (simp add: classify_def)
  qed
qed

section \<open>Witnesses\<close>

theorem evaluation_always_reports_witness:
  "\<exists>rep. evaluate trial_env trial_plan_of [run_record] run_attester run_meter run_cleaner = Inr rep \<and> er_compiled rep = trial_plan_of
    \<and> map oa_obligation_id (er_obligations rep) = [''o-target'', ''o-comp'', ''o-path'', ''o-benign'']
    \<and> (\<forall>b. \<exists>t. run_cleaner b = Inl t)"
proof -
  have "map ob_id (xc_obligations run_contract) = [''o-target'', ''o-comp'', ''o-path'', ''o-benign'']"
    by (simp add: run_contract_def example_contract_def path_obligation_def flag_obligation_def)
  then show ?thesis
    using evaluation_always_reports [OF trial_hash trial_compiled, of "[run_record]" run_attester run_meter run_cleaner]
      run_record_valid run_event_ids run_encodable by (auto simp: run_cleaner_def)
qed

theorem verdicts_rest_on_evidence_witness:
  "\<exists>rep p. evaluate trial_env trial_plan_of [run_record] run_attester run_meter run_cleaner = Inr rep \<and> tq_state p = PointFail
    \<and> (\<exists>b. ob_id b = ''o-target'' \<and> rests_on_evidence (er_compiled rep) run_attester run_meter [run_record] b p)"
proof (rule run_reports)
  fix rep
  assume r: "evaluate trial_env trial_plan_of [run_record] run_attester run_meter run_cleaner = Inr rep"
    "er_compiled rep = trial_plan_of" "map oa_obligation_id (er_obligations rep) = map ob_id (xc_obligations run_contract)"
  have b: "(xc_obligations run_contract ! 0, False) \<in> set run_obligations" "ob_id (xc_obligations run_contract ! 0) = ''o-target''"
    "''o-target'' \<in> set (map ob_id (xc_obligations run_contract))"
    by code_simp+
  obtain a where a: "a \<in> set (er_obligations rep)" "oa_obligation_id a = ''o-target''"
    using b(3) unfolding r(3) [symmetric] by auto
  obtain p where p: "p \<in> set (oa_points a)" "tq_state p = PointFail"
    using run_assessed(3,4) [OF r(1,2) b(1) a(1)] a(2) b(2) hd_in_set by force
  then show ?thesis using verdicts_rest_on_evidence [OF r(1) a(1) p(1)] r(1) a(2) by auto
qed

theorem classification_sound_witness:
  "\<exists>rep target compensator path. evaluate trial_env trial_plan_of [run_record] run_attester run_meter run_cleaner = Inr rep
    \<and> rs_classification (er_residual rep) = MaskedTargetFailure
    \<and> primary_assessment rep ''o-target'' (ce_current_selector trial_plan_of) target
    \<and> primary_assessment rep ''o-comp'' (ce_current_selector trial_plan_of) compensator
    \<and> primary_assessment rep ''o-path'' (ce_current_selector trial_plan_of) path
    \<and> (\<exists>q \<in> set (oa_points target). tq_state q = PointFail)
    \<and> (\<forall>q \<in> set (oa_points compensator) \<union> set (oa_points path). tq_state q = PointPass)"
proof (rule run_reports)
  fix rep
  assume r: "evaluate trial_env trial_plan_of [run_record] run_attester run_meter run_cleaner = Inr rep" "er_compiled rep = trial_plan_of"
  have "pr_primary_target_id (xc_profile run_contract) = ''o-target''" "pr_primary_compensator_id (xc_profile run_contract) = ''o-comp''"
    "pr_primary_path_id (xc_profile run_contract) = ''o-path''"
    by code_simp+
  then show ?thesis
    using r run_masked [OF r] classification_sound [OF r(1) refl refl] plan_parts(4) by simp
qed

end
