(* ===== verification/Baseline_Example.thy ===== *)
theory Baseline_Example
  imports Baseline_Props Evaluation_Example
begin

text \<open>
  The comparison for the masked run: no message was delivered in the only trial of the current cell, while
  the target did not block.
\<close>

definition run_observations :: "metric_observation list" where
  "run_observations =
     [\<lparr>mo_trial_key = digest1, mo_stage = StageOutcome, mo_metric_id = ''delivered'', mo_value = IntegerValue 0\<rparr>,
      \<lparr>mo_trial_key = digest1, mo_stage = StageTarget, mo_metric_id = ''blocked'', mo_value = off\<rparr>]"

lemma run_observations_valid: "\<forall>ob \<in> set run_observations. validate_observation ob = Inr ()"
  by code_simp

lemma run_sole: "sole_outcome trial_plan_of run_observations digest1 (hd run_observations)"
  unfolding sole_outcome_def outcomes_def plan_parts(4)
  by (simp add: run_observations_def run_contract_def example_contract_def example_masking_profile_def)

lemma run_safe: "pr_outcome_safe (xc_profile (ce_contract trial_plan_of)) = IntegerValue 0"
  unfolding plan_parts(4) by (simp add: run_contract_def example_contract_def example_masking_profile_def)

lemma run_observed:
  assumes rep: "evaluate trial_env trial_plan_of [run_record] run_attester run_meter run_cleaner = Inr rep" "er_compiled rep = trial_plan_of"
  shows "observations_of rep run_observations"
proof -
  have "sole_outcome trial_plan_of run_observations (tq_trial_key q) (hd run_observations)
      \<and> tq_value q \<in> {None, Some (mo_value (hd run_observations))}"
    if a: "a \<in> set (er_obligations rep)" "oa_obligation_id a = pr_primary_path_id (xc_profile (ce_contract trial_plan_of))"
      and q: "q \<in> set (oa_points a)" for a q
  proof -
    have b: "(xc_obligations run_contract ! 2, True) \<in> set run_obligations"
      "ob_id (xc_obligations run_contract ! 2) = pr_primary_path_id (xc_profile run_contract)"
      by code_simp+
    note p = path_points [OF rep(1) rep(2) [symmetric] a run_safe]
    have "tq_trial_key q = digest1" "tq_state q = PointPass"
      using run_assessed(4) [OF rep b(1) a(1)] a(2) b(2) q unfolding plan_parts(4) by simp_all
    moreover have "tq_value q = Some (IntegerValue 0)" using p(5) [OF q] calculation(2) by auto
    ultimately show ?thesis using run_sole by (simp add: run_observations_def)
  qed
  then show ?thesis unfolding observations_of_def rep(2) using run_observations_valid by blast
qed

section \<open>Witnesses\<close>

theorem baseline_blind_to_masking_witness:
  "\<exists>rep k. evaluate trial_env trial_plan_of [run_record] run_attester run_meter run_cleaner = Inr rep
    \<and> rs_classification (er_residual rep) = MaskedTargetFailure
    \<and> compare_final_outcome_only_with_v3 trial_plan_of run_observations rep = Inr k
    \<and> fo_verdict (bc_baseline k) = BaselinePass \<and> v3_target_truth (bc_v3 k) = TruthRefuted"
proof (rule run_reports)
  fix rep
  assume r: "evaluate trial_env trial_plan_of [run_record] run_attester run_meter run_cleaner = Inr rep" "er_compiled rep = trial_plan_of"
  have "distinct (trials_in trial_plan_of (ce_current_selector trial_plan_of))" by (simp add: run_trials)
  then show ?thesis
    using baseline_blind_to_masking [OF trial_hash r(1) r(2) [symmetric] run_safe run_observed [OF r]] run_masked [OF r] r(1) by blast
qed

end
