(* ===== verification/Runtime_Models.thy ===== *)
theory Runtime_Models
  imports Models
begin

text \<open>
  The records of the assurance runtime, from \<^verbatim>\<open>src/src/assurance_lab/runtime/models.py\<close>: registered
  profiles, deployment receipts, deployed controls, runs with their requests and states, what the
  executor is given and answers, and closures, each with its validators and its digest. As in
  \<^verbatim>\<open>Models\<close>, a validated instant is its number of whole UTC seconds.

  pydantic's text of a datetime and its JSON parser of a run request are fields of \<open>runtime_env\<close>.
\<close>

section \<open>Formats\<close>

definition media_char :: "char \<Rightarrow> bool" where
  "media_char c \<longleftrightarrow> lower_char c \<or> digit_char c \<or> c \<in> set ''!#$&^_.+-''"

text \<open>\<open>^application/(?:json|[a-z0-9!#$&^_.+-]+[+]json)$\<close> of 16 to 128 characters.\<close>

definition media_type_format :: "string \<Rightarrow> bool" where
  "media_type_format s \<longleftrightarrow> 16 \<le> length s \<and> length s \<le> 128 \<and> starts_with ''application/'' s
     \<and> (let r = drop 12 s; n = length r - 5 in
        r = ''json'' \<or> 0 < n \<and> drop n r = ''+json'' \<and> list_all media_char (take n r))"

definition profile_bytes_ok :: "bytes \<Rightarrow> bool" where
  "profile_bytes_ok b \<longleftrightarrow> 2 \<le> length b \<and> length b \<le> 1024 * 1024"

section \<open>Workers, profiles and deployments\<close>

record runtime_worker =
  rw_tenant_id :: string
  rw_worker_id :: string
  rw_credential_digest :: string

definition validate_worker :: "runtime_worker \<Rightarrow> unit result" where
  "validate_worker w = raise_first
     [(\<not> portable_id (rw_tenant_id w), invalid ''tenant_id''), (\<not> portable_id (rw_worker_id w), invalid ''worker_id''),
      (\<not> digest_format (rw_credential_digest w), invalid ''credential_digest'')]"

record registered_profile =
  rp_tenant_id :: string
  rp_profile_id :: string
  rp_profile_digest :: string
  rp_media_type :: string
  rp_profile_bytes :: bytes
  rp_registered_at :: int
  rp_registered_by :: string

text \<open>One strict JSON object in its canonical bytes.\<close>

definition canonical_object :: "'e model_env_scheme \<Rightarrow> string \<Rightarrow> bytes \<Rightarrow> unit result" where
  "canonical_object E label b =
     rbind (on_error is_strict_json_error (invalid (label @ '' is not bounded strict JSON''))
       (strict_json_loads E DEFAULT_JSON_LIMITS b)) (\<lambda>v.
     if \<not> is_object v then Inl (invalid (label @ '' must be one JSON object''))
     else rbind (field_error (canonical E v)) (\<lambda>c.
       if c \<noteq> b then Inl (invalid (label @ '' is not canonical JSON'')) else Inr ()))"

definition validate_profile :: "'e model_env_scheme \<Rightarrow> registered_profile \<Rightarrow> unit result" where
  "validate_profile E p =
     rbind (raise_first
       [(\<not> portable_id (rp_tenant_id p), invalid ''tenant_id''), (\<not> portable_id (rp_profile_id p), invalid ''profile_id''),
        (\<not> digest_format (rp_profile_digest p), invalid ''profile_digest''),
        (\<not> media_type_format (rp_media_type p), invalid ''control profile media type must identify JSON''),
        (\<not> profile_bytes_ok (rp_profile_bytes p), invalid ''profile_bytes''),
        (\<not> text_between 1 255 (rp_registered_by p), invalid ''registered_by''),
        (sha256_bytes E (rp_profile_bytes p) \<noteq> rp_profile_digest p,
           invalid ''control profile digest differs from its bytes'')]) (\<lambda>_.
     canonical_object E ''control profile'' (rp_profile_bytes p))"

record deployment_receipt =
  dr_tenant_id :: string
  dr_control_id :: string
  dr_operation_id :: string
  dr_operation_sequence :: int
  dr_lease_fence_at_commit :: int
  dr_revision_id :: string
  dr_configuration_digest :: string
  dr_control_profile_id :: string
  dr_control_profile_digest :: string
  dr_previous_operation_id :: "string option"
  dr_previous_receipt_digest :: "string option"
  dr_applied_at :: int

definition validate_receipt :: "deployment_receipt \<Rightarrow> unit result" where
  "validate_receipt r = raise_first
     [(\<not> portable_id (dr_tenant_id r), invalid ''tenant_id''), (\<not> portable_id (dr_control_id r), invalid ''control_id''),
      (\<not> digest_format (dr_operation_id r), invalid ''operation_id''),
      (\<not> between 1 INT64_MAX (dr_operation_sequence r), invalid ''operation_sequence''),
      (\<not> between 1 INT64_MAX (dr_lease_fence_at_commit r), invalid ''lease_fence_at_commit''),
      (\<not> digest_format (dr_revision_id r), invalid ''revision_id''),
      (\<not> digest_format (dr_configuration_digest r), invalid ''configuration_digest''),
      (\<not> portable_id (dr_control_profile_id r), invalid ''control_profile_id''),
      (\<not> digest_format (dr_control_profile_digest r), invalid ''control_profile_digest''),
      (\<not> opt_ok digest_format (dr_previous_operation_id r), invalid ''previous_operation_id''),
      (\<not> opt_ok digest_format (dr_previous_receipt_digest r), invalid ''previous_receipt_digest''),
      ((dr_previous_operation_id r = None) \<noteq> (dr_previous_receipt_digest r = None),
         invalid ''previous deployment operation and receipt must be paired'')]"

record deployed_control =
  dc_tenant_id :: string
  dc_control_id :: string
  dc_operation_id :: string
  dc_operation_sequence :: int
  dc_revision_id :: string
  dc_configuration_digest :: string
  dc_configuration_bytes :: bytes
  dc_control_profile_id :: string
  dc_control_profile_digest :: string
  dc_deployment_receipt_digest :: string
  dc_lease_fence_at_commit :: int
  dc_highest_lease_fence_seen :: int
  dc_applied_at :: int

text \<open>
  The bytes of a configuration, read back: they are canonical, have the digest, and name the tenant,
  the control and the profile.
\<close>

definition configuration_bound ::
  "'e model_env_scheme \<Rightarrow> control_configuration \<Rightarrow> bytes \<Rightarrow> string \<Rightarrow> string \<times> string \<times> string \<times> string \<Rightarrow> bool result" where
  "configuration_bound E c b digest names =
     rbind (field_error (canonical_bytes E c)) (\<lambda>b'.
     if b' \<noteq> b then Inr False
     else rbind (field_error (configuration_digest_of E c)) (\<lambda>g.
       Inr (g = digest \<and> (cfg_tenant_id c, cfg_control_id c, cfg_control_profile_id c, cfg_control_profile_digest c) = names)))"

definition validate_deployed :: "'e model_env_scheme \<Rightarrow> deployed_control \<Rightarrow> unit result" where
  "validate_deployed E d =
     rbind (raise_first
       [(\<not> portable_id (dc_tenant_id d), invalid ''tenant_id''), (\<not> portable_id (dc_control_id d), invalid ''control_id''),
        (\<not> digest_format (dc_operation_id d), invalid ''operation_id''),
        (\<not> between 1 INT64_MAX (dc_operation_sequence d), invalid ''operation_sequence''),
        (\<not> digest_format (dc_revision_id d), invalid ''revision_id''),
        (\<not> digest_format (dc_configuration_digest d), invalid ''configuration_digest''),
        (\<not> profile_bytes_ok (dc_configuration_bytes d), invalid ''configuration_bytes''),
        (\<not> portable_id (dc_control_profile_id d), invalid ''control_profile_id''),
        (\<not> digest_format (dc_control_profile_digest d), invalid ''control_profile_digest''),
        (\<not> digest_format (dc_deployment_receipt_digest d), invalid ''deployment_receipt_digest''),
        (\<not> between 1 INT64_MAX (dc_lease_fence_at_commit d), invalid ''lease_fence_at_commit''),
        (\<not> between 1 INT64_MAX (dc_highest_lease_fence_seen d), invalid ''highest_lease_fence_seen''),
        (sha256_bytes E (dc_configuration_bytes d) \<noteq> dc_configuration_digest d,
           invalid ''deployed configuration digest differs'')]) (\<lambda>_.
     case model_validate_json E (dc_configuration_bytes d) of
       None \<Rightarrow> Inl (invalid ''deployed configuration is invalid'')
     | Some c \<Rightarrow>
         rbind (configuration_bound E c (dc_configuration_bytes d) (dc_configuration_digest d)
           (dc_tenant_id d, dc_control_id d, dc_control_profile_id d, dc_control_profile_digest d)) (\<lambda>bound.
         if \<not> bound then Inl (invalid ''deployed configuration crosses its canonical boundary'')
         else if dc_highest_lease_fence_seen d < dc_lease_fence_at_commit d
         then Inl (invalid ''deployed control fence moved backwards'') else Inr ()))"

section \<open>Runs\<close>

record run_request =
  rr_tenant_id :: string
  rr_control_id :: string
  rr_deployment_operation_id :: string
  rr_deployment_operation_sequence :: int
  rr_deployment_receipt_digest :: string
  rr_control_profile_id :: string
  rr_control_profile_digest :: string
  rr_revision_id :: string
  rr_configuration_digest :: string
  rr_window_start :: int
  rr_window_end :: int
  rr_due_at :: int

definition validate_run_request :: "run_request \<Rightarrow> unit result" where
  "validate_run_request r = raise_first
     [(\<not> portable_id (rr_tenant_id r), invalid ''tenant_id''), (\<not> portable_id (rr_control_id r), invalid ''control_id''),
      (\<not> digest_format (rr_deployment_operation_id r), invalid ''deployment_operation_id''),
      (\<not> between 1 INT64_MAX (rr_deployment_operation_sequence r), invalid ''deployment_operation_sequence''),
      (\<not> digest_format (rr_deployment_receipt_digest r), invalid ''deployment_receipt_digest''),
      (\<not> portable_id (rr_control_profile_id r), invalid ''control_profile_id''),
      (\<not> digest_format (rr_control_profile_digest r), invalid ''control_profile_digest''),
      (\<not> digest_format (rr_revision_id r), invalid ''revision_id''),
      (\<not> digest_format (rr_configuration_digest r), invalid ''configuration_digest''),
      (rr_window_end r \<le> rr_window_start r, invalid ''control run window must be non-empty''),
      (rr_due_at r < rr_window_end r, invalid ''control run cannot be due before its window closes'')]"

record runtime_env = model_env +
  runtime_datetime_json :: "int \<Rightarrow> string"
  run_request_validate_json :: "bytes \<Rightarrow> run_request option"

text \<open>
  \<open>ControlRunRequest.model_validate_json\<close>: the parser of pydantic is the parameter, and the validators of
  the model run on what it parsed.
\<close>

definition parse_run_request :: "'e runtime_env_scheme \<Rightarrow> bytes \<Rightarrow> run_request option" where
  "parse_run_request E b =
     (case run_request_validate_json E b of None \<Rightarrow> None
      | Some r \<Rightarrow> if validate_run_request r = Inr () then Some r else None)"

definition jtime :: "'e runtime_env_scheme \<Rightarrow> int \<Rightarrow> json" where
  "jtime E t = jtext (runtime_datetime_json E t)"

definition receipt_json :: "'e runtime_env_scheme \<Rightarrow> deployment_receipt \<Rightarrow> json" where
  "receipt_json E r = jobject
     [(''media_type'', jtext ''application/vnd.control-assurance.runtime-deployment-receipt.v1+json''),
      (''schema_version'', jtext ''1.0.0''), (''tenant_id'', jtext (dr_tenant_id r)), (''control_id'', jtext (dr_control_id r)),
      (''operation_id'', jtext (dr_operation_id r)), (''operation_sequence'', JInt (dr_operation_sequence r)),
      (''lease_fence_at_commit'', JInt (dr_lease_fence_at_commit r)), (''revision_id'', jtext (dr_revision_id r)),
      (''configuration_digest'', jtext (dr_configuration_digest r)),
      (''control_profile_id'', jtext (dr_control_profile_id r)),
      (''control_profile_digest'', jtext (dr_control_profile_digest r)),
      (''previous_operation_id'', jopt (dr_previous_operation_id r)),
      (''previous_receipt_digest'', jopt (dr_previous_receipt_digest r)), (''applied_at'', jtime E (dr_applied_at r))]"

definition receipt_digest :: "'e runtime_env_scheme \<Rightarrow> deployment_receipt \<Rightarrow> string result" where
  "receipt_digest E r = rbind (canonical E (receipt_json E r)) (\<lambda>b. Inr (sha256_bytes E b))"

definition run_request_json :: "'e runtime_env_scheme \<Rightarrow> run_request \<Rightarrow> json" where
  "run_request_json E r = jobject
     [(''media_type'', jtext ''application/vnd.control-assurance.control-run-request.v1+json''),
      (''schema_version'', jtext ''1.0.0''), (''tenant_id'', jtext (rr_tenant_id r)), (''control_id'', jtext (rr_control_id r)),
      (''deployment_operation_id'', jtext (rr_deployment_operation_id r)),
      (''deployment_operation_sequence'', JInt (rr_deployment_operation_sequence r)),
      (''deployment_receipt_digest'', jtext (rr_deployment_receipt_digest r)),
      (''control_profile_id'', jtext (rr_control_profile_id r)),
      (''control_profile_digest'', jtext (rr_control_profile_digest r)), (''revision_id'', jtext (rr_revision_id r)),
      (''configuration_digest'', jtext (rr_configuration_digest r)), (''window_start'', jtime E (rr_window_start r)),
      (''window_end'', jtime E (rr_window_end r)), (''due_at'', jtime E (rr_due_at r))]"

definition run_request_bytes :: "'e runtime_env_scheme \<Rightarrow> run_request \<Rightarrow> bytes result" where
  "run_request_bytes E r = canonical E (run_request_json E r)"

definition run_request_id :: "'e runtime_env_scheme \<Rightarrow> run_request \<Rightarrow> string result" where
  "run_request_id E r = rbind (run_request_bytes E r) (\<lambda>b. Inr (sha256_bytes E b))"

datatype run_state = RunPending | RunLeased | RunSucceeded | RunFailed

record control_run =
  cr_run_id :: string
  cr_request :: run_request
  cr_state :: run_state
  cr_state_version :: int
  cr_attempt_count :: int
  cr_lease_fence :: int
  cr_lease_owner :: "string option"
  cr_lease_token_digest :: "string option"
  cr_leased_at :: "int option"
  cr_lease_expires_at :: "int option"
  cr_retry_at :: "int option"
  cr_completed_at :: "int option"
  cr_evidence_digest :: "string option"
  cr_executor_receipt_digest :: "string option"
  cr_closure_digest :: "string option"
  cr_failed_at :: "int option"
  cr_failure_digest :: "string option"

text \<open>Which members of the lease, of the success and of the failure are present.\<close>

definition lease_members :: "control_run \<Rightarrow> bool list" where
  "lease_members r = [cr_lease_owner r \<noteq> None, cr_lease_token_digest r \<noteq> None, cr_leased_at r \<noteq> None, cr_lease_expires_at r \<noteq> None]"

definition success_members :: "control_run \<Rightarrow> bool list" where
  "success_members r = [cr_completed_at r \<noteq> None, cr_evidence_digest r \<noteq> None, cr_executor_receipt_digest r \<noteq> None,
     cr_closure_digest r \<noteq> None]"

definition failure_members :: "control_run \<Rightarrow> bool list" where
  "failure_members r = [cr_failed_at r \<noteq> None, cr_failure_digest r \<noteq> None]"

definition attempted :: "control_run \<Rightarrow> bool" where
  "attempted r \<longleftrightarrow> 1 \<le> cr_attempt_count r \<and> cr_lease_fence r = cr_attempt_count r"

definition validate_run_state :: "control_run \<Rightarrow> unit result" where
  "validate_run_state r =
     (case cr_state r of
        RunPending \<Rightarrow>
          if cr_state_version r \<noteq> 0 \<or> cr_attempt_count r \<noteq> 0 \<or> cr_lease_fence r \<noteq> 0
             \<or> list_ex id (lease_members r @ success_members r @ failure_members r) \<or> cr_retry_at r \<noteq> None
          then Inl (invalid ''pending run contains mutable outcome state'') else Inr ()
      | RunLeased \<Rightarrow>
          if \<not> attempted r \<or> \<not> list_all id (lease_members r) \<or> list_ex id (success_members r @ failure_members r)
             \<or> cr_retry_at r \<noteq> None
          then Inl (invalid ''leased run has an invalid lease'')
          else if the (cr_leased_at r) < rr_due_at (cr_request r) \<or> the (cr_lease_expires_at r) \<le> the (cr_leased_at r)
          then Inl (invalid ''control run lease does not advance due time'') else Inr ()
      | RunSucceeded \<Rightarrow>
          if \<not> attempted r \<or> list_ex id (lease_members r @ failure_members r) \<or> \<not> list_all id (success_members r)
             \<or> cr_retry_at r \<noteq> None
          then Inl (invalid ''succeeded run lacks exact closure'') else Inr ()
      | RunFailed \<Rightarrow>
          if \<not> attempted r \<or> list_ex id (lease_members r @ success_members r) \<or> \<not> list_all id (failure_members r)
          then Inl (invalid ''failed run has an invalid outcome'') else Inr ())"

definition validate_run :: "'e runtime_env_scheme \<Rightarrow> control_run \<Rightarrow> unit result" where
  "validate_run E r =
     rbind (raise_first
       [(\<not> digest_format (cr_run_id r), invalid ''run_id''),
        (validate_run_request (cr_request r) \<noteq> Inr (), invalid ''request''),
        (\<not> between 0 INT64_MAX (cr_state_version r), invalid ''state_version''),
        (\<not> between 0 32 (cr_attempt_count r), invalid ''attempt_count''),
        (\<not> between 0 INT64_MAX (cr_lease_fence r), invalid ''lease_fence''),
        (\<not> opt_ok portable_id (cr_lease_owner r), invalid ''lease_owner''),
        (\<not> list_all (opt_ok digest_format) [cr_lease_token_digest r, cr_evidence_digest r, cr_executor_receipt_digest r,
           cr_closure_digest r, cr_failure_digest r], invalid ''digest'')]) (\<lambda>_.
     rbind (field_error (run_request_id E (cr_request r))) (\<lambda>i.
     if cr_run_id r \<noteq> i then Inl (invalid ''control run id differs from its canonical request'')
     else validate_run_state r))"

definition terminal :: "control_run \<Rightarrow> bool" where
  "terminal r \<longleftrightarrow> cr_state r = RunSucceeded \<or> cr_state r = RunFailed \<and> cr_retry_at r = None"

section \<open>Execution\<close>

record execution_request =
  xr_run_id :: string
  xr_run_request_bytes :: bytes
  xr_tenant_id :: string
  xr_control_id :: string
  xr_deployment_operation_id :: string
  xr_deployment_receipt_digest :: string
  xr_configuration_digest :: string
  xr_configuration_bytes :: bytes
  xr_control_profile_id :: string
  xr_control_profile_digest :: string
  xr_control_profile_media_type :: string
  xr_control_profile_bytes :: bytes
  xr_window_start :: int
  xr_window_end :: int
  xr_attempt_count :: int
  xr_lease_fence :: int

definition execution_fields_ok :: "execution_request \<Rightarrow> bool" where
  "execution_fields_ok q \<longleftrightarrow>
     digest_format (xr_run_id q) \<and> 2 \<le> length (xr_run_request_bytes q) \<and> length (xr_run_request_bytes q) \<le> 65536
     \<and> portable_id (xr_tenant_id q) \<and> portable_id (xr_control_id q) \<and> digest_format (xr_deployment_operation_id q)
     \<and> digest_format (xr_deployment_receipt_digest q) \<and> digest_format (xr_configuration_digest q)
     \<and> profile_bytes_ok (xr_configuration_bytes q) \<and> portable_id (xr_control_profile_id q)
     \<and> digest_format (xr_control_profile_digest q) \<and> media_type_format (xr_control_profile_media_type q)
     \<and> profile_bytes_ok (xr_control_profile_bytes q) \<and> between 1 32 (xr_attempt_count q)
     \<and> between 1 INT64_MAX (xr_lease_fence q)"

definition same_run :: "execution_request \<Rightarrow> run_request \<Rightarrow> bool" where
  "same_run q r \<longleftrightarrow> rr_tenant_id r = xr_tenant_id q \<and> rr_control_id r = xr_control_id q
     \<and> rr_deployment_operation_id r = xr_deployment_operation_id q
     \<and> rr_deployment_receipt_digest r = xr_deployment_receipt_digest q
     \<and> rr_configuration_digest r = xr_configuration_digest q \<and> rr_control_profile_id r = xr_control_profile_id q
     \<and> rr_control_profile_digest r = xr_control_profile_digest q \<and> rr_window_start r = xr_window_start q
     \<and> rr_window_end r = xr_window_end q"

text \<open>The run request inside an execution request, read back.\<close>

definition check_run_request :: "'e runtime_env_scheme \<Rightarrow> execution_request \<Rightarrow> unit result" where
  "check_run_request E q =
     (let bad = Inl (invalid ''executor run request is invalid'');
          crosses = Inl (invalid ''executor run request crosses its canonical boundary'') in
      case strict_json_loads E DEFAULT_JSON_LIMITS (xr_run_request_bytes q) of
        Inl e \<Rightarrow> if is_value_error e then bad else Inl e
      | Inr v \<Rightarrow>
          (case parse_run_request E (xr_run_request_bytes q) of
             None \<Rightarrow> bad
           | Some r \<Rightarrow>
               rbind (field_error (canonical E v)) (\<lambda>b.
               if b \<noteq> xr_run_request_bytes q then crosses
               else rbind (field_error (run_request_bytes E r)) (\<lambda>b'.
                 if b' \<noteq> xr_run_request_bytes q then crosses
                 else rbind (field_error (run_request_id E r)) (\<lambda>i.
                   if i \<noteq> xr_run_id q \<or> \<not> same_run q r then crosses else Inr ())))))"

definition validate_execution_request :: "'e runtime_env_scheme \<Rightarrow> execution_request \<Rightarrow> execution_request result" where
  "validate_execution_request E q =
     (if \<not> execution_fields_ok q then Inl (invalid ''executor request fields'')
      else if xr_window_end q \<le> xr_window_start q then Inl (invalid ''executor request window must be non-empty'')
      else if sha256_bytes E (xr_run_request_bytes q) \<noteq> xr_run_id q then Inl (invalid ''executor run request digest differs'')
      else rbind (check_run_request E q) (\<lambda>_.
        if sha256_bytes E (xr_configuration_bytes q) \<noteq> xr_configuration_digest q
        then Inl (invalid ''executor configuration digest differs'')
        else case model_validate_json E (xr_configuration_bytes q) of
          None \<Rightarrow> Inl (invalid ''executor configuration'')
        | Some c \<Rightarrow>
            rbind (configuration_bound E c (xr_configuration_bytes q) (xr_configuration_digest q)
              (xr_tenant_id q, xr_control_id q, xr_control_profile_id q, xr_control_profile_digest q)) (\<lambda>bound.
            if \<not> bound then Inl (invalid ''executor configuration crosses its canonical boundary'')
            else if sha256_bytes E (xr_control_profile_bytes q) \<noteq> xr_control_profile_digest q
            then Inl (invalid ''executor control profile digest differs'')
            else rbind (canonical_object E ''executor control profile'' (xr_control_profile_bytes q)) (\<lambda>_. Inr q))))"

definition execution_idempotency_key :: "execution_request \<Rightarrow> string" where
  "execution_idempotency_key q = xr_run_id q"

record execution_result =
  xe_run_id :: string
  xe_lease_fence :: int
  xe_evidence_digest :: string
  xe_executor_receipt_digest :: string

definition validate_execution_result :: "execution_result \<Rightarrow> unit result" where
  "validate_execution_result r = raise_first
     [(\<not> digest_format (xe_run_id r), invalid ''run_id''), (\<not> between 1 INT64_MAX (xe_lease_fence r), invalid ''lease_fence''),
      (\<not> digest_format (xe_evidence_digest r), invalid ''evidence_digest''),
      (\<not> digest_format (xe_executor_receipt_digest r), invalid ''executor_receipt_digest'')]"

record run_closure =
  rk_run_id :: string
  rk_tenant_id :: string
  rk_control_id :: string
  rk_deployment_operation_id :: string
  rk_deployment_receipt_digest :: string
  rk_configuration_digest :: string
  rk_control_profile_id :: string
  rk_control_profile_digest :: string
  rk_window_start :: int
  rk_window_end :: int
  rk_attempt_count :: int
  rk_lease_fence :: int
  rk_evidence_digest :: string
  rk_executor_receipt_digest :: string
  rk_completed_at :: int

definition validate_closure :: "run_closure \<Rightarrow> unit result" where
  "validate_closure k = raise_first
     [(\<not> list_all digest_format [rk_run_id k, rk_deployment_operation_id k, rk_deployment_receipt_digest k,
         rk_configuration_digest k, rk_control_profile_digest k, rk_evidence_digest k, rk_executor_receipt_digest k],
         invalid ''digest''),
      (\<not> list_all portable_id [rk_tenant_id k, rk_control_id k, rk_control_profile_id k], invalid ''id''),
      (\<not> between 1 32 (rk_attempt_count k), invalid ''attempt_count''),
      (\<not> between 1 INT64_MAX (rk_lease_fence k), invalid ''lease_fence''),
      (rk_window_end k \<le> rk_window_start k, invalid ''run closure window must be non-empty''),
      (rk_completed_at k < rk_window_end k, invalid ''run closure predates its collection window'')]"

definition closure_json :: "'e runtime_env_scheme \<Rightarrow> run_closure \<Rightarrow> json" where
  "closure_json E k = jobject
     [(''media_type'', jtext ''application/vnd.control-assurance.control-run-closure.v1+json''),
      (''schema_version'', jtext ''1.0.0''), (''run_id'', jtext (rk_run_id k)), (''tenant_id'', jtext (rk_tenant_id k)),
      (''control_id'', jtext (rk_control_id k)), (''deployment_operation_id'', jtext (rk_deployment_operation_id k)),
      (''deployment_receipt_digest'', jtext (rk_deployment_receipt_digest k)),
      (''configuration_digest'', jtext (rk_configuration_digest k)),
      (''control_profile_id'', jtext (rk_control_profile_id k)),
      (''control_profile_digest'', jtext (rk_control_profile_digest k)),
      (''window_start'', jtime E (rk_window_start k)), (''window_end'', jtime E (rk_window_end k)),
      (''attempt_count'', JInt (rk_attempt_count k)), (''lease_fence'', JInt (rk_lease_fence k)),
      (''evidence_digest'', jtext (rk_evidence_digest k)),
      (''executor_receipt_digest'', jtext (rk_executor_receipt_digest k)), (''completed_at'', jtime E (rk_completed_at k))]"

definition closure_digest :: "'e runtime_env_scheme \<Rightarrow> run_closure \<Rightarrow> string result" where
  "closure_digest E k = rbind (canonical E (closure_json E k)) (\<lambda>b. Inr (sha256_bytes E b))"

text \<open>
  What \<open>ensure_executed\<close> does: it returns a result or some other object, or raises
  \<open>ControlRunOutcomeUnknown\<close>, \<open>ControlRunExecutionError\<close> or another exception.
\<close>

datatype execution_outcome =
    ExecutorResult execution_result
  | ExecutorOther
  | ExecutorUnknown string
  | ExecutorError string bool
  | ExecutorRaised

definition run_error_code_format :: "string \<Rightarrow> bool" where
  "run_error_code_format s \<longleftrightarrow> (case s of [] \<Rightarrow> False
     | c # cs \<Rightarrow> lower_char c \<and> length cs \<le> 63
         \<and> list_all (\<lambda>c. lower_char c \<or> digit_char c \<or> c \<in> set ''.-'') cs)"

definition execution_error :: "string \<Rightarrow> bool \<Rightarrow> execution_outcome result" where
  "execution_error code may_retry =
     (if \<not> run_error_code_format code then Inl (ValueError ''executor error code is invalid'')
      else Inr (ExecutorError code may_retry))"

definition run_outcome_unknown :: "string \<Rightarrow> execution_outcome result" where
  "run_outcome_unknown code =
     (if \<not> run_error_code_format code then Inl (ValueError ''executor error code is invalid'')
      else Inr (ExecutorUnknown code))"


end
