(* ===== verification/Scheduling.thy ===== *)
theory Scheduling
  imports Runtime_Models
begin

text \<open>
  The runtime scheduler, from \<^verbatim>\<open>src/src/assurance_lab/runtime/scheduling.py\<close>: the windows that
  are due for a deployment, and \<open>RuntimeScheduler.run_once\<close>, which claims one run, hands it to the
  executor and closes it.

  The scheduler is written against the protocol \<open>RuntimeSchedulerStore\<close>, a record of functions over
  any store here. What a run takes from outside is a \<open>run_world\<close>: the entropy, the two readings of
  the clock, the executor, and what other processes do to the store in between.
\<close>

section \<open>Due windows\<close>

definition ceil_div :: "int \<Rightarrow> int \<Rightarrow> int" where
  "ceil_div v divisor = - ((- v) div divisor)"

definition due_window_ends ::
  "control_configuration \<Rightarrow> datetime \<Rightarrow> datetime option \<Rightarrow> datetime \<Rightarrow> int \<Rightarrow> int list result" where
  "due_window_ends c applied_at superseded_at through limit =
     rbind (utc_second ''deployment application time'' applied_at) (\<lambda>applied.
     rbind (utc_second ''materialization horizon'' through) (\<lambda>horizon.
     rbind (case superseded_at of None \<Rightarrow> Inr None
       | Some s \<Rightarrow> rbind (utc_second ''deployment supersession time'' s) (\<lambda>t. Inr (Some t))) (\<lambda>superseded.
     rbind (raise_first
       [(\<not> opt_ok (\<lambda>s. applied < s) superseded, ValueError ''deployment validity interval must be non-empty''),
        (limit < 1 \<or> limit > 100000, ValueError ''window materialization limit is invalid'')]) (\<lambda>_.
     if \<not> cfg_enabled c then Inr []
     else let interval = interval_seconds (cfg_schedule c); window = window_seconds (cfg_schedule c);
              lag = collection_lag_seconds (cfg_schedule c);
              first_end = ceil_div (applied + window) interval * interval;
              last_end = ((horizon - lag) div interval) * interval;
              last_end = (case superseded of None \<Rightarrow> last_end | Some s \<Rightarrow> min last_end ((s div interval) * interval)) in
          if last_end < first_end then Inr []
          else let count = (last_end - first_end) div interval + 1 in
            if count > limit then Inl (ValueError ''due window count exceeds the bounded materialization limit'')
            else Inr (map (\<lambda>index. first_end + int index * interval) [0..<nat count])))))"

section \<open>The scheduler\<close>

record 'd runtime_store =
  rt_claim_next_run :: "runtime_worker \<Rightarrow> string \<Rightarrow> datetime \<Rightarrow> int \<Rightarrow> 'd \<Rightarrow> control_run option result \<times> 'd"
  rt_configuration_bytes :: "string \<Rightarrow> string \<Rightarrow> 'd \<Rightarrow> bytes result"
  rt_control_profile :: "string \<Rightarrow> string \<Rightarrow> 'd \<Rightarrow> registered_profile option result" \<comment> \<open>\<open>None\<close>: an object of another class\<close>
  rt_complete_run :: "runtime_worker \<Rightarrow> string \<Rightarrow> string \<Rightarrow> int \<Rightarrow> execution_result \<Rightarrow> datetime \<Rightarrow> 'd \<Rightarrow> control_run result \<times> 'd"
  rt_fail_run :: "runtime_worker \<Rightarrow> string \<Rightarrow> string \<Rightarrow> int \<Rightarrow> string \<Rightarrow> datetime \<Rightarrow> datetime option \<Rightarrow> 'd \<Rightarrow> control_run result \<times> 'd"
  rt_max_run_attempts :: "int option" \<comment> \<open>an attribute a store may lack\<close>

record scheduler =
  sc_worker :: runtime_worker
  sc_lease_ttl_seconds :: int
  sc_max_attempts :: int
  sc_base_retry_seconds :: int
  sc_max_retry_seconds :: int

definition new_scheduler ::
  "'d runtime_store \<Rightarrow> runtime_worker \<Rightarrow> int \<Rightarrow> int \<Rightarrow> int \<Rightarrow> int \<Rightarrow> scheduler result" where
  "new_scheduler S worker lease_ttl max_attempts base_retry max_retry =
     rbind (raise_first
       [(lease_ttl < 15 \<or> lease_ttl > 3600, ValueError ''run lease TTL is outside the supported range''),
        (max_attempts < 1 \<or> max_attempts > 32, ValueError ''run attempt limit is outside the supported range''),
        (\<not> opt_ok (\<lambda>n. n = max_attempts) (rt_max_run_attempts S),
           ValueError ''scheduler and runtime store must use the same run attempt limit''),
        (base_retry < 1 \<or> max_retry < base_retry \<or> max_retry > 86400,
           ValueError ''run retry backoff is outside the supported range'')]) (\<lambda>_.
     Inr \<lparr>sc_worker = worker, sc_lease_ttl_seconds = lease_ttl, sc_max_attempts = max_attempts,
          sc_base_retry_seconds = base_retry, sc_max_retry_seconds = max_retry\<rparr>)"

record 'd run_world =
  rn_token_bytes :: bytes
  rn_claim_clock :: datetime
  rn_close_clock :: datetime
  rn_after_claim :: "'d \<Rightarrow> 'd"
  rn_between_reads :: "'d \<Rightarrow> 'd"
  rn_ensure_executed :: "execution_request \<Rightarrow> execution_outcome"
  rn_after_execution :: "'d \<Rightarrow> 'd"

definition scheduler_time :: "datetime \<Rightarrow> int result" where
  "scheduler_time now = utc_second ''scheduler clock'' now"

definition run_token_digest :: "'e model_env_scheme \<Rightarrow> bytes \<Rightarrow> string result" where
  "run_token_digest E token =
     (if length token < 16 then Inl (RuntimeError ''run lease entropy source returned invalid bytes'')
      else Inr (sha256_bytes E token))"

definition run_failure_digest :: "'e model_env_scheme \<Rightarrow> control_run \<Rightarrow> string \<Rightarrow> bool \<Rightarrow> string result" where
  "run_failure_digest E run code may_retry =
     rbind (canonical E (jobject
       [(''attempt_count'', JInt (cr_attempt_count run)), (''code'', jtext code), (''lease_fence'', JInt (cr_lease_fence run)),
        (''retryable'', JBool may_retry), (''run_id'', jtext (cr_run_id run))])) (\<lambda>body.
     Inr (sha256_bytes E body))"

text \<open>The backoff of \<open>_fail\<close>; a claimed run has at least one attempt, so the exponent is not negative.\<close>

definition run_can_retry :: "scheduler \<Rightarrow> control_run \<Rightarrow> bool \<Rightarrow> bool" where
  "run_can_retry R run may_retry \<longleftrightarrow> may_retry \<and> cr_attempt_count run < sc_max_attempts R"

definition run_retry_delay :: "scheduler \<Rightarrow> int \<Rightarrow> int" where
  "run_retry_delay R attempt_count =
     min (sc_base_retry_seconds R * 2 ^ nat (min (attempt_count - 1) 30)) (sc_max_retry_seconds R)"

definition closed_run :: "control_run result \<times> 'd \<Rightarrow> control_run option result \<times> 'd" where
  "closed_run r = (rbind (fst r) (\<lambda>x. Inr (Some x)), snd r)"

definition fail_run ::
  "'e model_env_scheme \<Rightarrow> 'd runtime_store \<Rightarrow> scheduler \<Rightarrow> 'd run_world \<Rightarrow> control_run \<Rightarrow> string \<Rightarrow> string \<Rightarrow> bool \<Rightarrow> 'd
     \<Rightarrow> control_run option result \<times> 'd" where
  "fail_run E S R W run token code may_retry d =
     (case scheduler_time (rn_close_clock W) of
        Inl e \<Rightarrow> (Inl e, d)
      | Inr failed_at \<Rightarrow>
          let retry = run_can_retry R run may_retry;
              retry_at = (if retry then Some (instant (failed_at + run_retry_delay R (cr_attempt_count run))) else None) in
          case run_failure_digest E run code retry of
            Inl e \<Rightarrow> (Inl e, d)
          | Inr g \<Rightarrow> closed_run (rt_fail_run S (sc_worker R) (cr_run_id run) token (cr_lease_fence run) g
              (instant failed_at) retry_at d))"

fun is_type_error :: "py_error \<Rightarrow> bool" where
  "is_type_error (TypeError m) = True"
| "is_type_error _ = False"

definition profile_matches :: "run_request \<Rightarrow> registered_profile \<Rightarrow> bool" where
  "profile_matches r p \<longleftrightarrow> rp_tenant_id p = rr_tenant_id r \<and> rp_profile_id p = rr_control_profile_id r
     \<and> rp_profile_digest p = rr_control_profile_digest r"

definition execution_request_of ::
  "'e runtime_env_scheme \<Rightarrow> control_run \<Rightarrow> bytes \<Rightarrow> registered_profile \<Rightarrow> execution_request result" where
  "execution_request_of E run configuration p =
     (let r = cr_request run in
      rbind (run_request_bytes E r) (\<lambda>b.
      validate_execution_request E
        \<lparr>xr_run_id = cr_run_id run, xr_run_request_bytes = b, xr_tenant_id = rr_tenant_id r, xr_control_id = rr_control_id r,
         xr_deployment_operation_id = rr_deployment_operation_id r,
         xr_deployment_receipt_digest = rr_deployment_receipt_digest r,
         xr_configuration_digest = rr_configuration_digest r, xr_configuration_bytes = configuration,
         xr_control_profile_id = rr_control_profile_id r, xr_control_profile_digest = rr_control_profile_digest r,
         xr_control_profile_media_type = rp_media_type p, xr_control_profile_bytes = rp_profile_bytes p,
         xr_window_start = rr_window_start r, xr_window_end = rr_window_end r,
         xr_attempt_count = cr_attempt_count run, xr_lease_fence = cr_lease_fence run\<rparr>))"

definition result_matches :: "control_run \<Rightarrow> execution_result \<Rightarrow> bool" where
  "result_matches run r \<longleftrightarrow> xe_run_id r = cr_run_id run \<and> xe_lease_fence r = cr_lease_fence run"

text \<open>The part of \<open>run_once\<close> after the executor answered.\<close>

definition close_run ::
  "'e runtime_env_scheme \<Rightarrow> 'd runtime_store \<Rightarrow> scheduler \<Rightarrow> 'd run_world \<Rightarrow> control_run \<Rightarrow> string \<Rightarrow> execution_outcome \<Rightarrow> 'd
     \<Rightarrow> control_run option result \<times> 'd" where
  "close_run E S R W run token outcome d =
     (let fail = (\<lambda>code may_retry. fail_run E S R W run token code may_retry d) in
      case outcome of
        ExecutorUnknown code \<Rightarrow> fail ''executor-outcome-unknown'' True
      | ExecutorError code may_retry \<Rightarrow> fail code may_retry
      | ExecutorRaised \<Rightarrow> fail ''executor-unhandled'' True
      | ExecutorOther \<Rightarrow> fail ''executor-result-mismatch'' False
      | ExecutorResult r \<Rightarrow>
          if \<not> result_matches run r then fail ''executor-result-mismatch'' False
          else case scheduler_time (rn_close_clock W) of
            Inl e \<Rightarrow> (Inl e, d)
          | Inr completed_at \<Rightarrow> closed_run (rt_complete_run S (sc_worker R) (cr_run_id run) token (cr_lease_fence run) r
              (instant completed_at) d))"

definition process_run ::
  "'e runtime_env_scheme \<Rightarrow> 'd runtime_store \<Rightarrow> scheduler \<Rightarrow> 'd run_world \<Rightarrow> string \<Rightarrow> control_run \<Rightarrow> 'd
     \<Rightarrow> control_run option result \<times> 'd" where
  "process_run E S R W token run d =
     (let r = cr_request run; d' = rn_between_reads W d;
          inputs = rbind (rt_configuration_bytes S (rr_tenant_id r) (cr_run_id run) d) (\<lambda>configuration.
            rbind (rt_control_profile S (rr_tenant_id r) (rr_control_profile_digest r) d') (\<lambda>p. Inr (configuration, p))) in
      case inputs of
        Inl e \<Rightarrow> fail_run E S R W run token ''runtime-input-unavailable'' True d'
      | Inr (configuration, None) \<Rightarrow> fail_run E S R W run token ''runtime-input-integrity'' False d'
      | Inr (configuration, Some p) \<Rightarrow>
          if \<not> profile_matches r p then fail_run E S R W run token ''runtime-input-integrity'' False d'
          else case execution_request_of E run configuration p of
            Inl e \<Rightarrow> if is_value_error e \<or> is_type_error e then fail_run E S R W run token ''runtime-input-integrity'' False d'
              else (Inl e, d')
          | Inr q \<Rightarrow> close_run E S R W run token (rn_ensure_executed W q) (rn_after_execution W d'))"

definition run_once ::
  "'e runtime_env_scheme \<Rightarrow> 'd runtime_store \<Rightarrow> scheduler \<Rightarrow> 'd run_world \<Rightarrow> 'd \<Rightarrow> control_run option result \<times> 'd" where
  "run_once E S R W d =
     (case rbind (run_token_digest E (rn_token_bytes W)) (\<lambda>token.
           rbind (scheduler_time (rn_claim_clock W)) (\<lambda>t. Inr (token, t))) of
        Inl e \<Rightarrow> (Inl e, d)
      | Inr (token, t) \<Rightarrow>
          (case rt_claim_next_run S (sc_worker R) token (instant t) (sc_lease_ttl_seconds R) d of
             (Inl e, d1) \<Rightarrow> (Inl e, d1)
           | (Inr None, d1) \<Rightarrow> (Inr None, d1)
           | (Inr (Some run), d1) \<Rightarrow> process_run E S R W token run (rn_after_claim W d1)))"

section \<open>Projections\<close>

definition sorted_unique_runs :: "control_run list \<Rightarrow> control_run list result" where
  "sorted_unique_runs runs =
     (if card (set (map cr_run_id runs)) \<noteq> length runs
      then Inl (ValueError ''control run collection contains duplicate identities'')
      else Inr (sort_key (\<lambda>run. (rr_due_at (cr_request run), rr_tenant_id (cr_request run), rr_control_id (cr_request run),
        cr_run_id run)) runs))"

end
