(* ===== verification/Scheduling_Props.thy ===== *)
theory Scheduling_Props
  imports Scheduling Strict_Errors
begin

text \<open>
  The windows a deployment owes are exactly the schedule's windows inside its validity interval whose
  lag has passed; and a claimed run is closed by exactly one call, as completed only on the result the
  executor gave for the request bound to that run. The calls are counted by running the same scheduler
  on a store that records them.
\<close>

section \<open>Due windows\<close>

text \<open>The ends of the windows that lie in the validity interval and are due at the horizon.\<close>

definition owed_ends :: "schedule_configuration \<Rightarrow> int \<Rightarrow> int option \<Rightarrow> int \<Rightarrow> int set" where
  "owed_ends s applied superseded horizon =
     {e. interval_seconds s dvd e \<and> applied \<le> e - window_seconds s \<and> e + collection_lag_seconds s \<le> horizon
       \<and> opt_ok (\<lambda>t. e \<le> t) superseded}"

lemma whole_second: "utc_second label (instant t) = Inr t"
  by (simp add: utc_second_def instant_def)

lemma le_div: "0 < (d :: int) \<Longrightarrow> k \<le> a div d \<longleftrightarrow> k * d \<le> a"
proof
  assume d: "0 < d" and "k \<le> a div d"
  then have "k * d \<le> a div d * d" by simp
  also have "\<dots> \<le> a" using d pos_mod_sign [of d a] div_mult_mod_eq [of a d] by linarith
  finally show "k * d \<le> a" .
next
  assume "0 < d" "k * d \<le> a"
  then show "k \<le> a div d" using zdiv_mono1 [of "k * d" a d] by simp
qed

lemma ceil_div_le:
  assumes "0 < d"
  shows "ceil_div v d \<le> k \<longleftrightarrow> v \<le> k * d"
proof -
  have "ceil_div v d \<le> k \<longleftrightarrow> - k \<le> (- v) div d" unfolding ceil_div_def by linarith
  also have "\<dots> \<longleftrightarrow> - k * d \<le> - v" by (rule le_div [OF assms])
  finally show ?thesis by simp
qed

lemma owed_multiples:
  assumes "0 < interval_seconds s" "lo = ceil_div (a + window_seconds s) (interval_seconds s)"
    and hi: "hi = (let h = (horizon - collection_lag_seconds s) div interval_seconds s in
      case superseded of None \<Rightarrow> h | Some t \<Rightarrow> min h (t div interval_seconds s))"
  shows "owed_ends s a superseded horizon = (\<lambda>k. k * interval_seconds s) ` {lo..hi}"
proof -
  let ?d = "interval_seconds s"
  have mem: "e \<in> owed_ends s a superseded horizon \<longleftrightarrow> ?d dvd e \<and> a + window_seconds s \<le> e
      \<and> e \<le> horizon - collection_lag_seconds s \<and> opt_ok (\<lambda>t. e \<le> t) superseded" for e
    by (auto simp: owed_ends_def)
  have m: "k * ?d \<in> owed_ends s a superseded horizon \<longleftrightarrow> k \<in> {lo..hi}" for k
    unfolding mem assms(2) hi Let_def atLeastAtMost_iff ceil_div_le [OF assms(1)]
    by (cases superseded) (simp_all add: le_div [OF assms(1)] opt_ok_def)
  have "e \<in> (\<lambda>k. k * ?d) ` {lo..hi}" if e: "e \<in> owed_ends s a superseded horizon" for e
  proof -
    obtain k where k: "e = k * ?d" using e by (auto simp: owed_ends_def dvd_def mult.commute)
    then have "k \<in> {lo..hi}" using e m by blast
    then show ?thesis unfolding k by (rule imageI)
  qed
  moreover have "(\<lambda>k. k * ?d) ` {lo..hi} \<subseteq> owed_ends s a superseded horizon" using m by blast
  ultimately show ?thesis by blast
qed

lemma multiples_listed:
  assumes "0 < (d :: int)"
  shows "sorted_list_of_set ((\<lambda>k. k * d) ` {lo..hi}) = map (\<lambda>i. lo * d + int i * d) [0..<nat (hi - lo + 1)]"
proof (rule sorted_list_of_set_unique [THEN iffD1])
  let ?xs = "map (\<lambda>i. lo * d + int i * d) [0..<nat (hi - lo + 1)]"
  have "{lo..hi} = (\<lambda>i. lo + int i) ` {0..<nat (hi - lo + 1)}"
    by (auto simp: image_iff intro!: bexI [of _ "nat (_ - lo)"])
  then have "(\<lambda>k. k * d) ` {lo..hi} = set ?xs" by (simp add: image_image algebra_simps)
  then show "sorted_wrt (<) ?xs \<and> set ?xs = (\<lambda>k. k * d) ` {lo..hi} \<and> length ?xs = card ((\<lambda>k. k * d) ` {lo..hi})"
    using assms by (auto simp: sorted_wrt_map sorted_wrt_iff_nth_less card_image inj_on_def)
qed simp

lemma due_windows_enabled:
  assumes "0 < interval_seconds (cfg_schedule c)" "cfg_enabled c" "opt_ok (\<lambda>s. a < s) superseded" "1 \<le> limit" "limit \<le> 100000"
    and ends: "ends = owed_ends (cfg_schedule c) a superseded horizon"
  shows "due_window_ends c (instant a) (map_option instant superseded) (instant horizon) limit =
    (if int (card ends) > limit then Inl (ValueError ''due window count exceeds the bounded materialization limit'')
     else Inr (sorted_list_of_set ends))"
proof -
  let ?s = "cfg_schedule c" and ?d = "interval_seconds (cfg_schedule c)"
  define lo where "lo = ceil_div (a + window_seconds ?s) ?d"
  define hi where "hi = (let h = (horizon - collection_lag_seconds ?s) div ?d in
    case superseded of None \<Rightarrow> h | Some t \<Rightarrow> min h (t div ?d))"
  have e: "ends = (\<lambda>k. k * ?d) ` {lo..hi}" unfolding ends by (rule owed_multiples [OF assms(1) lo_def hi_def])
  have card: "int (card ends) = (if hi < lo then 0 else hi - lo + 1)"
    unfolding e using assms(1) by (subst card_image) (auto simp: inj_on_def)
  have last: "(case superseded of None \<Rightarrow> (horizon - collection_lag_seconds ?s) div ?d * ?d
      | Some t \<Rightarrow> min ((horizon - collection_lag_seconds ?s) div ?d * ?d) (t div ?d * ?d)) = hi * ?d"
    using assms(1) by (cases superseded) (simp_all add: hi_def min_def)
  have sup: "(case map_option instant superseded of None \<Rightarrow> Inr None
      | Some s \<Rightarrow> rbind (utc_second ''deployment supersession time'' s) (\<lambda>t. Inr (Some t))) = Inr superseded"
    by (cases superseded) (simp_all add: whole_second)
  have "hi * ?d < lo * ?d \<longleftrightarrow> hi < lo" "(hi * ?d - lo * ?d) div ?d = hi - lo"
    using assms(1) by (simp_all flip: left_diff_distrib)
  then have "due_window_ends c (instant a) (map_option instant superseded) (instant horizon) limit =
      (if hi < lo then Inr []
       else if hi - lo + 1 > limit then Inl (ValueError ''due window count exceeds the bounded materialization limit'')
       else Inr (map (\<lambda>i. lo * ?d + int i * ?d) [0..<nat (hi - lo + 1)]))"
    using assms(2-5) unfolding due_window_ends_def whole_second rbind_simps sup Let_def last lo_def [symmetric]
    by simp
  also have "\<dots> = (if int (card ends) > limit then Inl (ValueError ''due window count exceeds the bounded materialization limit'')
      else Inr (sorted_list_of_set ends))"
    using assms(4) multiples_listed [OF assms(1), of lo hi] unfolding card by (simp add: e)
  finally show ?thesis .
qed

text \<open>
  C20. The due windows of a deployment are exactly those of its schedule: for a valid schedule and a
  nonempty validity interval, the ends returned are, in order, the multiples of the interval whose
  half-open window lies in the validity interval and whose collection lag has passed at the horizon.
  More of them than the limit is an error, and a disabled configuration owes none. Distinct windows of
  one deployment do not overlap.
\<close>

theorem due_windows_exact:
  assumes "validate_schedule (cfg_schedule c) = Inr ()" "opt_ok (\<lambda>s. a < s) superseded" "1 \<le> limit" "limit \<le> 100000"
    and "ends = (if cfg_enabled c then {e. interval_seconds (cfg_schedule c) dvd e \<and> a \<le> e - window_seconds (cfg_schedule c)
      \<and> e + collection_lag_seconds (cfg_schedule c) \<le> horizon \<and> opt_ok (\<lambda>t. e \<le> t) superseded} else {})"
  shows "due_window_ends c (instant a) (map_option instant superseded) (instant horizon) limit =
      (if int (card ends) > limit then Inl (ValueError ''due window count exceeds the bounded materialization limit'')
       else Inr (sorted_list_of_set ends))
    \<and> (\<forall>e \<in> ends. \<forall>e' \<in> ends. e < e' \<longrightarrow> e \<le> e' - window_seconds (cfg_schedule c))"
proof (cases "cfg_enabled c")
  case True
  let ?s = "cfg_schedule c"
  have v: "0 < interval_seconds ?s" "window_seconds ?s \<le> interval_seconds ?s"
    using assms(1) by (auto simp: validate_schedule_def split: if_splits)
  have ends: "ends = owed_ends ?s a superseded horizon" using assms(5) True by (simp add: owed_ends_def)
  have "e \<le> e' - window_seconds ?s" if e: "e \<in> ends" "e' \<in> ends" "e < e'" for e e'
  proof -
    have "interval_seconds ?s dvd e' - e" using e(1,2) by (simp add: ends owed_ends_def)
    then have "interval_seconds ?s \<le> e' - e" using e(3) by (intro zdvd_imp_le) simp_all
    then show ?thesis using v(2) by linarith
  qed
  then show ?thesis using due_windows_enabled [OF v(1) True assms(2-4) ends] by blast
next
  case False
  have "(case map_option instant superseded of None \<Rightarrow> Inr None
      | Some s \<Rightarrow> rbind (utc_second ''deployment supersession time'' s) (\<lambda>t. Inr (Some t))) = Inr superseded"
    by (cases superseded) (simp_all add: whole_second)
  then show ?thesis using False assms(2-5) by (simp add: due_window_ends_def whole_second)
qed


section \<open>Closing a claimed run\<close>

lemma value_errors:
  assumes "raises_only is_value_error m"
  shows "raises_only is_value_error (field_error m)" "raises_only is_value_error (on_error p (invalid s) m)"
  using assms by (cases m; simp add: field_error_def invalid_def)+

lemma strict_value_error: "strict m \<Longrightarrow> raises_only is_value_error m"
  by (rule raises_only_mono) (simp, metis is_strict_json_error.elims(2) is_value_error.simps(3))

lemma canonical_errors:
  "raises_only is_value_error (canonical E v)" "raises_only is_value_error (strict_json_loads E L b)"
  "raises_only is_value_error (canonical_bytes E c)" "raises_only is_value_error (configuration_digest_of E c)"
  "raises_only is_value_error (run_request_bytes E' r)" "raises_only is_value_error (run_request_id E' r)"
proof -
  show c: "raises_only is_value_error (canonical E v)" for E :: "'a model_env_scheme" and v
    by (rule strict_value_error) (simp add: canonical_def)
  show "raises_only is_value_error (strict_json_loads E L b)" by (rule strict_value_error) simp
  show "raises_only is_value_error (canonical_bytes E c)" "raises_only is_value_error (configuration_digest_of E c)"
    by (auto simp: canonical_bytes_def configuration_digest_of_def intro!: raises_only_rbind c)
  have c': "raises_only is_value_error (canonical E' v)" for v
    by (rule strict_value_error) (simp add: canonical_def)
  show "raises_only is_value_error (run_request_bytes E' r)" "raises_only is_value_error (run_request_id E' r)"
    by (auto simp: run_request_bytes_def run_request_id_def intro!: raises_only_rbind c')
qed

lemma execution_request_errors: "raises_only is_value_error (execution_request_of E run b p)"
proof -
  have bound: "raises_only is_value_error (configuration_bound E c b g names)" for c b g names
    unfolding configuration_bound_def by (intro raises_only_rbind value_errors canonical_errors) (auto intro!: raises_only_rbind value_errors canonical_errors)
  have obj: "raises_only is_value_error (canonical_object E l b)" for l b
    unfolding canonical_object_def
    by (intro raises_only_rbind value_errors canonical_errors) (auto simp: invalid_def intro!: raises_only_rbind value_errors canonical_errors)
  have chk: "raises_only is_value_error (check_run_request E q)" for q
    unfolding check_run_request_def Let_def
    using canonical_errors(2) [of E DEFAULT_JSON_LIMITS "xr_run_request_bytes q"]
    by (auto simp: invalid_def intro!: raises_only_rbind value_errors canonical_errors split: sum.splits option.splits)
  have "raises_only is_value_error (validate_execution_request E q)" for q
    unfolding validate_execution_request_def
    by (auto simp: invalid_def intro!: raises_only_rbind chk bound obj split: option.splits)
  then show ?thesis
    unfolding execution_request_of_def Let_def by (intro raises_only_rbind canonical_errors)
qed


text \<open>What the request handed to the executor has to do with the claimed run.\<close>

definition bound_request :: "'e runtime_env_scheme \<Rightarrow> control_run \<Rightarrow> execution_request \<Rightarrow> bool" where
  "bound_request E run q \<longleftrightarrow> (let r = cr_request run in
     xr_run_id q = cr_run_id run \<and> run_request_bytes E r = Inr (xr_run_request_bytes q)
     \<and> sha256_bytes E (xr_run_request_bytes q) = cr_run_id run
     \<and> (xr_tenant_id q, xr_control_id q, xr_window_start q, xr_window_end q)
         = (rr_tenant_id r, rr_control_id r, rr_window_start r, rr_window_end r)
     \<and> sha256_bytes E (xr_configuration_bytes q) = rr_configuration_digest r
     \<and> sha256_bytes E (xr_control_profile_bytes q) = rr_control_profile_digest r
     \<and> (\<exists>c. model_validate_json E (xr_configuration_bytes q) = Some c \<and> canonical_bytes E c = Inr (xr_configuration_bytes q)
         \<and> (cfg_tenant_id c, cfg_control_id c, cfg_control_profile_id c, cfg_control_profile_digest c)
             = (rr_tenant_id r, rr_control_id r, rr_control_profile_id r, rr_control_profile_digest r))
     \<and> xr_attempt_count q = cr_attempt_count run \<and> xr_lease_fence q = cr_lease_fence run)"

lemma field_error_Inr: "field_error m = Inr x \<longleftrightarrow> m = Inr x"
  by (cases m) (auto simp: field_error_def)

lemma execution_request_bound:
  assumes "execution_request_of E run b p = Inr q"
  shows "bound_request E run q"
proof -
  obtain c where "run_request_bytes E (cr_request run) = Inr (xr_run_request_bytes q)"
    "validate_execution_request E q = Inr q" "xr_run_id q = cr_run_id run" "xr_attempt_count q = cr_attempt_count run"
    "xr_lease_fence q = cr_lease_fence run" "xr_tenant_id q = rr_tenant_id (cr_request run)"
    "xr_control_id q = rr_control_id (cr_request run)" "xr_window_start q = rr_window_start (cr_request run)"
    "xr_window_end q = rr_window_end (cr_request run)" "xr_configuration_digest q = rr_configuration_digest (cr_request run)"
    "xr_control_profile_id q = rr_control_profile_id (cr_request run)"
    "xr_control_profile_digest q = rr_control_profile_digest (cr_request run)"
    and c: "model_validate_json E (xr_configuration_bytes q) = Some c"
      "configuration_bound E c (xr_configuration_bytes q) (xr_configuration_digest q)
         (xr_tenant_id q, xr_control_id q, xr_control_profile_id q, xr_control_profile_digest q) = Inr True"
      "sha256_bytes E (xr_run_request_bytes q) = xr_run_id q" "sha256_bytes E (xr_configuration_bytes q) = xr_configuration_digest q"
      "sha256_bytes E (xr_control_profile_bytes q) = xr_control_profile_digest q"
    using assms unfolding execution_request_of_def Let_def
    by (auto simp: rbind_eq_Inr validate_execution_request_def split: if_splits option.splits)
  moreover have "canonical_bytes E c = Inr (xr_configuration_bytes q)
      \<and> (cfg_tenant_id c, cfg_control_id c, cfg_control_profile_id c, cfg_control_profile_digest c)
        = (xr_tenant_id q, xr_control_id q, xr_control_profile_id q, xr_control_profile_digest q)"
    using c(2) by (auto simp: configuration_bound_def rbind_eq_Inr field_error_Inr split: if_splits)
  ultimately show ?thesis unfolding bound_request_def Let_def by auto
qed

text \<open>
  To count the calls that close a run, the scheduler is run against a store that also keeps the list of
  the closing calls it received, with their arguments.
\<close>

datatype closing_call =
  CompleteCall runtime_worker string string int execution_result datetime
| FailCall runtime_worker string string int string datetime "datetime option"

fun closing :: "'d runtime_store \<Rightarrow> closing_call \<Rightarrow> 'd \<Rightarrow> control_run result \<times> 'd" where
  "closing S (CompleteCall worker i token fence r at) = rt_complete_run S worker i token fence r at"
| "closing S (FailCall worker i token fence g at retry_at) = rt_fail_run S worker i token fence g at retry_at"

definition recorded :: "'d runtime_store \<Rightarrow> closing_call \<Rightarrow> 'd \<times> closing_call list \<Rightarrow> control_run result \<times> 'd \<times> closing_call list" where
  "recorded S call s = (fst (closing S call (fst s)), snd (closing S call (fst s)), snd s @ [call])"

definition recording :: "'d runtime_store \<Rightarrow> ('d \<times> closing_call list) runtime_store" where
  "recording S =
     \<lparr>rt_claim_next_run = (\<lambda>worker token at ttl s.
        let c = rt_claim_next_run S worker token at ttl (fst s) in (fst c, snd c, snd s)),
      rt_configuration_bytes = (\<lambda>tenant i s. rt_configuration_bytes S tenant i (fst s)),
      rt_control_profile = (\<lambda>tenant g s. rt_control_profile S tenant g (fst s)),
      rt_complete_run = (\<lambda>worker i token fence r at. recorded S (CompleteCall worker i token fence r at)),
      rt_fail_run = (\<lambda>worker i token fence g at retry_at. recorded S (FailCall worker i token fence g at retry_at)),
      rt_max_run_attempts = rt_max_run_attempts S\<rparr>"

definition recording_world :: "'d run_world \<Rightarrow> ('d \<times> closing_call list) run_world" where
  "recording_world W =
     \<lparr>rn_token_bytes = rn_token_bytes W, rn_claim_clock = rn_claim_clock W, rn_close_clock = rn_close_clock W,
      rn_after_claim = apfst (rn_after_claim W), rn_between_reads = apfst (rn_between_reads W),
      rn_ensure_executed = rn_ensure_executed W, rn_after_execution = apfst (rn_after_execution W)\<rparr>"

text \<open>The request that the two reads of the inputs allow, and the failure an answer of the executor stands for.\<close>

definition executable ::
  "'e runtime_env_scheme \<Rightarrow> 'd runtime_store \<Rightarrow> control_run \<Rightarrow> 'd \<Rightarrow> 'd \<Rightarrow> execution_request \<Rightarrow> bool" where
  "executable E S run d d' q \<longleftrightarrow> (\<exists>b p. rt_configuration_bytes S (rr_tenant_id (cr_request run)) (cr_run_id run) d = Inr b
     \<and> rt_control_profile S (rr_tenant_id (cr_request run)) (rr_control_profile_digest (cr_request run)) d' = Inr (Some p)
     \<and> profile_matches (cr_request run) p \<and> execution_request_of E run b p = Inr q)"

fun refusal :: "control_run \<Rightarrow> execution_outcome \<Rightarrow> (string \<times> bool) option" where
  "refusal run (ExecutorUnknown code) = Some (''executor-outcome-unknown'', True)"
| "refusal run (ExecutorError code may_retry) = Some (code, may_retry)"
| "refusal run ExecutorRaised = Some (''executor-unhandled'', True)"
| "refusal run ExecutorOther = Some (''executor-result-mismatch'', False)"
| "refusal run (ExecutorResult r) =
     (if xe_run_id r = cr_run_id run \<and> xe_lease_fence r = cr_lease_fence run then None
      else Some (''executor-result-mismatch'', False))"

text \<open>The two ways to close a run, and the only reasons not to reach one.\<close>

definition completes ::
  "scheduler \<Rightarrow> 'd run_world \<Rightarrow> control_run \<Rightarrow> string \<Rightarrow> execution_request \<Rightarrow> closing_call \<Rightarrow> bool" where
  "completes R W run token q call \<longleftrightarrow> (\<exists>r t. rn_ensure_executed W q = ExecutorResult r
     \<and> xe_run_id r = cr_run_id run \<and> xe_lease_fence r = cr_lease_fence run \<and> scheduler_time (rn_close_clock W) = Inr t
     \<and> call = CompleteCall (sc_worker R) (cr_run_id run) token (cr_lease_fence run) r (instant t))"

definition gives_up ::
  "'e runtime_env_scheme \<Rightarrow> scheduler \<Rightarrow> 'd run_world \<Rightarrow> control_run \<Rightarrow> string \<Rightarrow> string \<times> bool \<Rightarrow> closing_call \<Rightarrow> bool" where
  "gives_up E R W run token failure call \<longleftrightarrow> (\<exists>g t.
     let retry = snd failure \<and> cr_attempt_count run < sc_max_attempts R;
         delay = min (sc_base_retry_seconds R * 2 ^ nat (min (cr_attempt_count run - 1) 30)) (sc_max_retry_seconds R) in
     scheduler_time (rn_close_clock W) = Inr t \<and> run_failure_digest E run (fst failure) retry = Inr g
     \<and> call = FailCall (sc_worker R) (cr_run_id run) token (cr_lease_fence run) g (instant t)
         (if retry then Some (instant (t + delay)) else None))"

definition cannot_close :: "'e runtime_env_scheme \<Rightarrow> 'd run_world \<Rightarrow> control_run \<Rightarrow> 'd \<Rightarrow> control_run option result \<times> 'd \<Rightarrow> bool" where
  "cannot_close E W run d res \<longleftrightarrow> (\<exists>e. res = (Inl e, d)
     \<and> (scheduler_time (rn_close_clock W) = Inl e \<or> (\<exists>code retry. run_failure_digest E run code retry = Inl e)))"

text \<open>Closing by one call: the only one recorded, and it decides both the result and the store.\<close>

definition closed_by ::
  "'d runtime_store \<Rightarrow> 'd \<Rightarrow> (closing_call \<Rightarrow> bool) \<Rightarrow> closing_call list \<Rightarrow> control_run option result \<times> 'd \<Rightarrow> bool" where
  "closed_by S d P calls res \<longleftrightarrow> (\<exists>call. P call \<and> calls = [call] \<and> res = closed_run (closing S call d))"

text \<open>What a part of the scheduler answers on the recording store, beside what it answers on the store.\<close>

abbreviation records :: "'r \<times> 'd \<times> closing_call list \<Rightarrow> 'r \<times> 'd \<Rightarrow> closing_call list \<Rightarrow> bool" where
  "records rec res calls \<equiv> rec = (fst res, snd res, calls)"

lemma recording_world_simps [simp]:
  "rn_token_bytes (recording_world W) = rn_token_bytes W" "rn_claim_clock (recording_world W) = rn_claim_clock W"
  "rn_close_clock (recording_world W) = rn_close_clock W" "rn_ensure_executed (recording_world W) = rn_ensure_executed W"
  "rn_after_claim (recording_world W) s = apfst (rn_after_claim W) s"
  "rn_between_reads (recording_world W) s = apfst (rn_between_reads W) s"
  "rn_after_execution (recording_world W) s = apfst (rn_after_execution W) s"
  by (simp_all add: recording_world_def)

lemma recording_simps [simp]:
  "rt_configuration_bytes (recording S) tenant i s = rt_configuration_bytes S tenant i (fst s)"
  "rt_control_profile (recording S) tenant g s = rt_control_profile S tenant g (fst s)"
  "rt_complete_run (recording S) worker i token fence r at = recorded S (CompleteCall worker i token fence r at)"
  "rt_fail_run (recording S) worker i token fence g at retry_at = recorded S (FailCall worker i token fence g at retry_at)"
  by (simp_all add: recording_def)

lemma closed_run_recorded:
  "records (closed_run (recorded S call (d, []))) (closed_run (closing S call d)) [call]"
  by (simp add: closed_run_def recorded_def)

lemma fail_run_closes:
  assumes rec: "rec = fail_run E (recording S) R (recording_world W) run token code b (d, [])"
    and res: "res = fail_run E S R W run token code b d"
  shows "\<exists>calls. records rec res calls
    \<and> (closed_by S d (gives_up E R W run token (code, b)) calls res \<or> calls = [] \<and> cannot_close E W run d res)"
proof (cases "\<exists>t g. scheduler_time (rn_close_clock W) = Inr t \<and> run_failure_digest E run code (run_can_retry R run b) = Inr g")
  case True
  then obtain t g where tg: "scheduler_time (rn_close_clock W) = Inr t" "run_failure_digest E run code (run_can_retry R run b) = Inr g"
    by blast
  define call where "call = FailCall (sc_worker R) (cr_run_id run) token (cr_lease_fence run) g (instant t)
    (if run_can_retry R run b then Some (instant (t + run_retry_delay R (cr_attempt_count run))) else None)"
  have "rec = closed_run (recorded S call (d, []))" "res = closed_run (closing S call d)"
    using tg by (simp_all add: rec res fail_run_def Let_def call_def)
  moreover have "gives_up E R W run token (code, b) call"
    using tg by (auto simp: gives_up_def Let_def call_def run_can_retry_def run_retry_delay_def)
  ultimately show ?thesis using closed_run_recorded [of S call d] by (auto simp: closed_by_def)
next
  case False
  then show ?thesis
    by (cases "scheduler_time (rn_close_clock W)"; cases "run_failure_digest E run code (run_can_retry R run b)")
      (auto simp: rec res fail_run_def Let_def cannot_close_def)
qed

lemma refusal_None: "refusal run x = None \<longleftrightarrow> (\<exists>r. x = ExecutorResult r \<and> result_matches run r)"
  by (cases x) (auto simp: result_matches_def)

lemma close_run_refused: "refusal run x = Some (code, b) \<Longrightarrow> close_run E S R W run token x d = fail_run E S R W run token code b d"
  by (cases x) (auto simp: close_run_def result_matches_def split: if_splits)

lemma close_run_closes:
  assumes rec: "rec = close_run E (recording S) R (recording_world W) run token (rn_ensure_executed W q) (d, [])"
    and res: "res = close_run E S R W run token (rn_ensure_executed W q) d"
  shows "\<exists>calls. records rec res calls
    \<and> (closed_by S d (completes R W run token q) calls res
      \<or> (\<exists>failure. refusal run (rn_ensure_executed W q) = Some failure \<and> closed_by S d (gives_up E R W run token failure) calls res)
      \<or> calls = [] \<and> cannot_close E W run d res)"
proof (cases "refusal run (rn_ensure_executed W q)")
  case None
  then obtain r where r: "rn_ensure_executed W q = ExecutorResult r" "result_matches run r" by (auto simp: refusal_None)
  show ?thesis
  proof (cases "scheduler_time (rn_close_clock W)")
    case (Inr t)
    let ?call = "CompleteCall (sc_worker R) (cr_run_id run) token (cr_lease_fence run) r (instant t)"
    have "rec = closed_run (recorded S ?call (d, []))" "res = closed_run (closing S ?call d)"
      using Inr r by (simp_all add: rec res close_run_def)
    moreover have "completes R W run token q ?call" using Inr r by (simp add: completes_def result_matches_def)
    ultimately show ?thesis using closed_run_recorded [of S ?call d] by (auto simp: closed_by_def)
  qed (use r in \<open>auto simp: rec res close_run_def cannot_close_def\<close>)
next
  case (Some failure)
  then show ?thesis
    using fail_run_closes [OF refl refl, of E S R W run token "fst failure" "snd failure" d]
    by (cases failure) (auto simp: rec res close_run_refused)
qed

lemma process_run_executable:
  assumes "executable E S run d (rn_between_reads W d) q"
  shows "process_run E S R W token run d
    = close_run E S R W run token (rn_ensure_executed W q) (rn_after_execution W (rn_between_reads W d))"
  using assms by (auto simp: executable_def process_run_def Let_def)

text \<open>The failure of a run whose inputs do not give a request.\<close>

definition input_failure :: "'d runtime_store \<Rightarrow> control_run \<Rightarrow> 'd \<Rightarrow> 'd \<Rightarrow> string \<times> bool" where
  "input_failure S run d d' =
     (case (rt_configuration_bytes S (rr_tenant_id (cr_request run)) (cr_run_id run) d,
            rt_control_profile S (rr_tenant_id (cr_request run)) (rr_control_profile_digest (cr_request run)) d') of
        (Inr b, Inr p) \<Rightarrow> (''runtime-input-integrity'', False)
      | _ \<Rightarrow> (''runtime-input-unavailable'', True))"

lemma process_run_unusable:
  assumes "\<nexists>q. executable E S run d (rn_between_reads W d) q"
  shows "process_run E S R W token run d = (let f = input_failure S run d (rn_between_reads W d) in
    fail_run E S R W run token (fst f) (snd f) (rn_between_reads W d))"
proof -
  have "is_value_error e" if "execution_request_of E run b p = Inl e" for b p e
    using execution_request_errors [of E run b p] that by simp
  then show ?thesis
    using assms by (auto simp: executable_def process_run_def input_failure_def Let_def split: sum.splits option.splits if_splits)
qed

lemma executable_recording: "executable E (recording S) run s s' q = executable E S run (fst s) (fst s') q"
  "input_failure (recording S) run s s' = input_failure S run (fst s) (fst s')"
  by (simp_all add: executable_def input_failure_def)

text \<open>
  C19. A claimed run is closed by exactly one call. Let the reads of the inputs give the store states
  \<open>d2\<close> before and \<open>d3\<close> after the execution. If the inputs give a request (whose bytes then hash to the
  run, its configuration and its profile), the executor is asked for it; a result under the run's own
  id and fence is recorded by one \<open>complete_run\<close> on \<open>d3\<close>, any other answer by one \<open>fail_run\<close> on \<open>d3\<close>,
  with the code and retryability of that answer. If the inputs give none, one \<open>fail_run\<close> on \<open>d2\<close> says
  why. A failure carries the bounded backoff as its retry time while attempts are left. What that one
  call returns or raises is what \<open>run_once\<close> returns or raises, and no second closing call follows.
  Without a closing call the run is left only if the clock has no whole seconds or the failure code
  does not encode.
\<close>

theorem claimed_run_is_closed:
  assumes "run_token_digest E (rn_token_bytes W) = Inr token" "scheduler_time (rn_claim_clock W) = Inr t"
    "rt_claim_next_run S (sc_worker R) token (instant t) (sc_lease_ttl_seconds R) d = (Inr (Some run), d0)"
    and "d1 = rn_after_claim W d0" "d2 = rn_between_reads W d1" "d3 = rn_after_execution W d2"
  shows "\<exists>calls. run_once E (recording S) R (recording_world W) (d, [])
      = (fst (run_once E S R W d), snd (run_once E S R W d), calls)
    \<and> ((\<exists>q. executable E S run d1 d2 q \<and> bound_request E run q
          \<and> (closed_by S d3 (completes R W run token q) calls (run_once E S R W d)
            \<or> (\<exists>failure. refusal run (rn_ensure_executed W q) = Some failure
                \<and> closed_by S d3 (gives_up E R W run token failure) calls (run_once E S R W d))
            \<or> calls = [] \<and> cannot_close E W run d3 (run_once E S R W d)))
      \<or> (\<nexists>q. executable E S run d1 d2 q)
          \<and> (closed_by S d2 (gives_up E R W run token (input_failure S run d1 d2)) calls (run_once E S R W d)
            \<or> calls = [] \<and> cannot_close E W run d2 (run_once E S R W d)))"
proof -
  have run: "run_once E S R W d = process_run E S R W token run d1"
    "run_once E (recording S) R (recording_world W) (d, []) = process_run E (recording S) R (recording_world W) token run (d1, [])"
    using assms by (simp_all add: run_once_def recording_def Let_def)
  show ?thesis
  proof (cases "\<exists>q. executable E S run d1 d2 q")
    case True
    then obtain q where q: "executable E S run d1 d2 q" ..
    then have "bound_request E run q" by (auto simp: executable_def intro: execution_request_bound)
    moreover have "process_run E S R W token run d1 = close_run E S R W run token (rn_ensure_executed W q) d3"
      "process_run E (recording S) R (recording_world W) token run (d1, [])
        = close_run E (recording S) R (recording_world W) run token (rn_ensure_executed W q) (d3, [])"
      using process_run_executable [of E S run d1 W q R token]
        process_run_executable [of E "recording S" run "(d1, [])" "recording_world W" q R token] q assms(5,6)
      by (simp_all add: executable_recording)
    ultimately show ?thesis
      unfolding run using q close_run_closes [OF refl refl, of E S R W run token q d3] by auto
  next
    case False
    let ?f = "input_failure S run d1 d2"
    have "process_run E S R W token run d1 = fail_run E S R W run token (fst ?f) (snd ?f) d2"
      "process_run E (recording S) R (recording_world W) token run (d1, [])
        = fail_run E (recording S) R (recording_world W) run token (fst ?f) (snd ?f) (d2, [])"
      using process_run_unusable [of E S run d1 W R token]
        process_run_unusable [of E "recording S" run "(d1, [])" "recording_world W" R token] False assms(5)
      by (simp_all add: executable_recording Let_def)
    then show ?thesis
      unfolding run using False fail_run_closes [OF refl refl, of E S R W run token "fst ?f" "snd ?f" d2] by auto
  qed
qed

end
