(* ===== verification/Scheduling_Example.thy ===== *)
theory Scheduling_Example
  imports Scheduling_Props Example
begin

text \<open>A store with one due run, an executor that carries it out, and the windows of a small schedule.\<close>

definition sample_request :: run_request where
  "sample_request = \<lparr>rr_tenant_id = ''acme'', rr_control_id = ''edr'', rr_deployment_operation_id = GENESIS_DIGEST,
     rr_deployment_operation_sequence = 1, rr_deployment_receipt_digest = GENESIS_DIGEST, rr_control_profile_id = ''edr-1'',
     rr_control_profile_digest = GENESIS_DIGEST, rr_revision_id = GENESIS_DIGEST, rr_configuration_digest = GENESIS_DIGEST,
     rr_window_start = 0, rr_window_end = 3600, rr_due_at = 3660\<rparr>"

text \<open>An environment in which every object has the same canonical text.\<close>

definition sample_env :: runtime_env where
  "sample_env = \<lparr>rfc8785_dump = (\<lambda>v. ([line_of 1], None)), json_scan = example_scan, py_float = (\<lambda>_. Finite False 0 0),
     sha256_hexdigest = (\<lambda>_. replicate 64 (CHR ''0'')), model_validate_json = (\<lambda>_. Some example_cfg), urlsplit = example_url,
     runtime_datetime_json = (\<lambda>_. ''1970-01-01T01:00:00Z''), run_request_validate_json = (\<lambda>_. Some sample_request)\<rparr>"

definition leased_run :: control_run where
  "leased_run = \<lparr>cr_run_id = GENESIS_DIGEST, cr_request = sample_request, cr_state = RunLeased, cr_state_version = 1,
     cr_attempt_count = 1, cr_lease_fence = 1, cr_lease_owner = Some ''worker'', cr_lease_token_digest = Some GENESIS_DIGEST,
     cr_leased_at = Some 3700, cr_lease_expires_at = Some 4000, cr_retry_at = None, cr_completed_at = None,
     cr_evidence_digest = None, cr_executor_receipt_digest = None, cr_closure_digest = None, cr_failed_at = None,
     cr_failure_digest = None\<rparr>"

definition unleased :: "control_run \<Rightarrow> control_run" where
  "unleased r = r\<lparr>cr_lease_owner := None, cr_lease_token_digest := None, cr_leased_at := None, cr_lease_expires_at := None\<rparr>"

definition finished_run :: control_run where
  "finished_run = (unleased leased_run)\<lparr>cr_state := RunSucceeded, cr_completed_at := Some 3710, cr_evidence_digest := Some GENESIS_DIGEST,
     cr_executor_receipt_digest := Some GENESIS_DIGEST, cr_closure_digest := Some GENESIS_DIGEST\<rparr>"

definition failed_run :: control_run where
  "failed_run = (unleased leased_run)\<lparr>cr_state := RunFailed, cr_failed_at := Some 3710, cr_failure_digest := Some GENESIS_DIGEST\<rparr>"

definition sample_store :: "unit runtime_store" where
  "sample_store = \<lparr>rt_claim_next_run = (\<lambda>w token at ttl d. (Inr (Some leased_run), d)),
     rt_configuration_bytes = (\<lambda>tenant i d. Inr (line_of 1)),
     rt_control_profile = (\<lambda>tenant g d. Inr (Some \<lparr>rp_tenant_id = ''acme'', rp_profile_id = ''edr-1'', rp_profile_digest = GENESIS_DIGEST,
       rp_media_type = ''application/json'', rp_profile_bytes = line_of 1, rp_registered_at = 0, rp_registered_by = ''ops''\<rparr>)),
     rt_complete_run = (\<lambda>w i token fence r at d. (Inr finished_run, d)),
     rt_fail_run = (\<lambda>w i token fence g at retry_at d. (Inr failed_run, d)), rt_max_run_attempts = Some 8\<rparr>"

definition sample_scheduler :: scheduler where
  "sample_scheduler = \<lparr>sc_worker = \<lparr>rw_tenant_id = ''acme'', rw_worker_id = ''worker'', rw_credential_digest = GENESIS_DIGEST\<rparr>,
     sc_lease_ttl_seconds = 300, sc_max_attempts = 8, sc_base_retry_seconds = 30, sc_max_retry_seconds = 3600\<rparr>"

definition sample_world :: "unit run_world" where
  "sample_world = \<lparr>rn_token_bytes = replicate 32 0, rn_claim_clock = instant 3700, rn_close_clock = instant 3710, rn_after_claim = id,
     rn_between_reads = id,
     rn_ensure_executed = (\<lambda>q. ExecutorResult \<lparr>xe_run_id = xr_run_id q, xe_lease_fence = xr_lease_fence q,
       xe_evidence_digest = GENESIS_DIGEST, xe_executor_receipt_digest = GENESIS_DIGEST\<rparr>), rn_after_execution = id\<rparr>"

lemma sample_fields [simp]: "sha256_bytes sample_env b = GENESIS_DIGEST" "model_validate_json sample_env b = Some example_cfg"
  "run_request_validate_json sample_env b = Some sample_request" "json_scan sample_env = example_scan"
  by (simp_all add: sample_env_def sha256_bytes_def GENESIS_DIGEST_def)

lemma sample_selectors [simp]:
  "rr_tenant_id sample_request = ''acme''" "rr_control_id sample_request = ''edr''"
  "rr_deployment_operation_id sample_request = GENESIS_DIGEST" "rr_deployment_receipt_digest sample_request = GENESIS_DIGEST"
  "rr_control_profile_id sample_request = ''edr-1''" "rr_control_profile_digest sample_request = GENESIS_DIGEST"
  "rr_configuration_digest sample_request = GENESIS_DIGEST" "rr_window_start sample_request = 0" "rr_window_end sample_request = 3600"
  "cr_run_id leased_run = GENESIS_DIGEST" "cr_request leased_run = sample_request" "cr_attempt_count leased_run = 1"
  "cr_lease_fence leased_run = 1"
  by (simp_all add: sample_request_def leased_run_def)

lemma sample_canonical: "validate_tree DEFAULT_JSON_LIMITS 0 v = Inr () \<Longrightarrow> canonical sample_env v = Inr (line_of 1)"
  by (simp add: canonical_def canonical_json_bytes_def sample_env_def DEFAULT_JSON_LIMITS_def)

lemma sample_texts:
  "canonical_bytes sample_env example_cfg = Inr (line_of 1)" "run_request_bytes sample_env sample_request = Inr (line_of 1)"
  "canonical sample_env (read_of 1) = Inr (line_of 1)"
proof -
  show "canonical_bytes sample_env example_cfg = Inr (line_of 1)"
    unfolding canonical_bytes_def
    by (rule sample_canonical, rule example_canonical_D(7) [OF example_cfg_bytes [unfolded canonical_bytes_def canonical_def]])
  have "flat_members [(''sequence'', JInt 1)]" by (simp add: flat_members_def I_JSON_MAX_INTEGER_def)
  moreover have "read_of 1 = jobject [(''sequence'', JInt 1)]" by (simp add: read_of_def jobject_def)
  ultimately show "canonical sample_env (read_of 1) = Inr (line_of 1)" by (simp add: sample_canonical jobject_valid)
  show "run_request_bytes sample_env sample_request = Inr (line_of 1)"
    unfolding run_request_bytes_def run_request_json_def
    by (rule sample_canonical, rule jobject_valid)
      (simp_all add: flat_members_def jtime_def sample_env_def sample_request_def GENESIS_DIGEST_def I_JSON_MAX_INTEGER_def)
qed

lemma sample_loads: "strict_json_loads sample_env DEFAULT_JSON_LIMITS (line_of 1) = Inr (read_of 1)"
proof -
  have "apply_hooks sample_env (RObj [(text_of ''sequence'', RInt [char_of (nat (48 + 1))])]) = Inr (read_of 1)"
    using example_parse(2) [of 1] by (simp add: parse_int_def read_of_def I_JSON_MAX_INTEGER_def)
  moreover have "\<not> starts_with UTF8_BOM (line_of 1)" "length (line_of 1) \<le> max_bytes DEFAULT_JSON_LIMITS"
    by (simp_all add: starts_with_def UTF8_BOM_def line_of_def DEFAULT_JSON_LIMITS_def)
  moreover have "example_scan [123, nat (48 + 1), 125] = Some (RObj [(text_of ''sequence'', RInt [char_of (nat (48 + 1))])])"
    by (simp add: example_scan_def)
  moreover have "validate_tree DEFAULT_JSON_LIMITS 0 (read_of 1) = Inr ()"
    by (simp add: read_of_def validate_tree_iff DEFAULT_JSON_LIMITS_def no_surrogate_def text_of_def I_JSON_MAX_INTEGER_def)
  ultimately show ?thesis using example_parse(1) [of 1] by (simp add: strict_json_loads_def)
qed

lemma genesis_digest_format: "digest_format GENESIS_DIGEST"
  by code_simp

lemma sample_cfg_names: "cfg_tenant_id example_cfg = ''acme''" "cfg_control_id example_cfg = ''edr''"
  "cfg_control_profile_id example_cfg = ''edr-1''" "cfg_control_profile_digest example_cfg = GENESIS_DIGEST"
  by (simp_all add: example_cfg_def)

lemma sample_ids: "portable_id ''acme''" "portable_id ''edr''" "portable_id ''edr-1''" "media_type_format ''application/json''"
  by code_simp+

lemma sample_executable:
  "execution_request_of sample_env leased_run (line_of 1) \<lparr>rp_tenant_id = ''acme'', rp_profile_id = ''edr-1'', rp_profile_digest = GENESIS_DIGEST,
     rp_media_type = ''application/json'', rp_profile_bytes = line_of 1, rp_registered_at = 0, rp_registered_by = ''ops''\<rparr>
   = Inr \<lparr>xr_run_id = GENESIS_DIGEST, xr_run_request_bytes = line_of 1, xr_tenant_id = ''acme'', xr_control_id = ''edr'',
     xr_deployment_operation_id = GENESIS_DIGEST, xr_deployment_receipt_digest = GENESIS_DIGEST, xr_configuration_digest = GENESIS_DIGEST,
     xr_configuration_bytes = line_of 1, xr_control_profile_id = ''edr-1'', xr_control_profile_digest = GENESIS_DIGEST,
     xr_control_profile_media_type = ''application/json'', xr_control_profile_bytes = line_of 1, xr_window_start = 0,
     xr_window_end = 3600, xr_attempt_count = 1, xr_lease_fence = 1\<rparr>"
proof -
  have ok: "field_error (Inr z) = Inr z" for z :: 'z by (simp add: field_error_def)
  have "run_request_id sample_env sample_request = Inr GENESIS_DIGEST" "configuration_digest_of sample_env example_cfg = Inr GENESIS_DIGEST"
    by (simp_all add: run_request_id_def configuration_digest_of_def sample_texts)
  note facts = this ok sample_texts sample_loads genesis_digest_format sample_ids sample_cfg_names line_length
  have parse: "parse_run_request sample_env b = Some sample_request" for b
    using genesis_digest_format sample_ids
    by (simp add: parse_run_request_def validate_run_request_def between_def INT64_MAX_def sample_request_def)
  show ?thesis
    unfolding execution_request_of_def validate_execution_request_def check_run_request_def Let_def
    by (simp add: parse facts execution_fields_ok_def profile_bytes_ok_def between_def INT64_MAX_def same_run_def configuration_bound_def
        canonical_object_def)
qed

text \<open>The same store, except that it cannot tell whether the completion was committed.\<close>

definition ambiguous_store :: "unit runtime_store" where
  "ambiguous_store = sample_store\<lparr>rt_complete_run := (\<lambda>w i token fence r at d. (Inl (RuntimeError ''commit outcome unknown''), d))\<rparr>"

definition sample_result :: execution_result where
  "sample_result = \<lparr>xe_run_id = GENESIS_DIGEST, xe_lease_fence = 1, xe_evidence_digest = GENESIS_DIGEST,
     xe_executor_receipt_digest = GENESIS_DIGEST\<rparr>"

lemma sample_run: "run_once sample_env ambiguous_store sample_scheduler sample_world () = (Inl (RuntimeError ''commit outcome unknown''), ())"
proof -
  have "run_once sample_env ambiguous_store sample_scheduler sample_world ()
      = process_run sample_env ambiguous_store sample_scheduler sample_world GENESIS_DIGEST leased_run ()"
    by (simp add: run_once_def run_token_digest_def sample_world_def scheduler_time_def whole_second ambiguous_store_def sample_store_def)
  also have "\<dots> = (Inl (RuntimeError ''commit outcome unknown''), ())"
    unfolding process_run_def Let_def
    by (simp add: ambiguous_store_def sample_store_def sample_executable profile_matches_def)
      (simp add: sample_world_def close_run_def Let_def result_matches_def scheduler_time_def whole_second closed_run_def)
  finally show ?thesis .
qed

section \<open>Witnesses\<close>

theorem due_windows_exact_witness:
  "due_window_ends example_cfg (instant 0) None (instant 7300) 10 = Inr [3600, 7200]"
proof -
  let ?s = "cfg_schedule example_cfg"
  have ends: "{e. interval_seconds ?s dvd e \<and> 0 \<le> e - window_seconds ?s \<and> e + collection_lag_seconds ?s \<le> 7300
      \<and> opt_ok (\<lambda>t. e \<le> t) None} = {3600, 7200 :: int}"
    by (auto simp: example_cfg_def opt_ok_def dvd_def)
  have "validate_schedule ?s = Inr ()" "cfg_enabled example_cfg" by (simp_all add: example_cfg_def validate_schedule_def)
  then show ?thesis
    using due_windows_exact [of example_cfg 0 None 10 "{3600, 7200}" 7300] ends by (simp add: opt_ok_def)
qed

theorem claimed_run_is_closed_witness:
  "run_once sample_env (recording ambiguous_store) sample_scheduler (recording_world sample_world) ((), [])
    = (Inl (RuntimeError ''commit outcome unknown''), (),
       [CompleteCall (sc_worker sample_scheduler) GENESIS_DIGEST GENESIS_DIGEST 1 sample_result (instant 3710)])"
proof -
  let ?res = "run_once sample_env ambiguous_store sample_scheduler sample_world ()"
  have world: "run_token_digest sample_env (rn_token_bytes sample_world) = Inr GENESIS_DIGEST"
    "scheduler_time (rn_claim_clock sample_world) = Inr 3700" "scheduler_time (rn_close_clock sample_world) = Inr 3710"
    by (simp_all add: run_token_digest_def sample_world_def scheduler_time_def whole_second)
  have "run_failure_digest sample_env leased_run code retry \<noteq> Inl (RuntimeError m)" for code retry m
  proof
    assume e: "run_failure_digest sample_env leased_run code retry = Inl (RuntimeError m)"
    have "raises_only is_value_error (run_failure_digest sample_env leased_run code retry)"
      unfolding run_failure_digest_def by (intro raises_only_rbind canonical_errors) simp
    then show False unfolding e by simp
  qed
  then have out: "\<not> cannot_close sample_env sample_world leased_run d ?res" for d
    using world(3) by (auto simp: cannot_close_def sample_run)
  have "\<exists>q. executable sample_env ambiguous_store leased_run () () q"
    using sample_executable by (auto simp: executable_def ambiguous_store_def sample_store_def profile_matches_def)
  then obtain calls q where run: "run_once sample_env (recording ambiguous_store) sample_scheduler (recording_world sample_world) ((), [])
      = (fst ?res, snd ?res, calls)" and q: "bound_request sample_env leased_run q"
    and c: "closed_by ambiguous_store () (completes sample_scheduler sample_world leased_run GENESIS_DIGEST q) calls ?res
      \<or> (\<exists>failure. refusal leased_run (rn_ensure_executed sample_world q) = Some failure \<and>
          closed_by ambiguous_store () (gives_up sample_env sample_scheduler sample_world leased_run GENESIS_DIGEST failure) calls ?res)"
    using claimed_run_is_closed [OF world(1,2), of ambiguous_store sample_scheduler "()" leased_run "()"] out
    by (auto simp: ambiguous_store_def sample_store_def)
  have "rn_ensure_executed sample_world q = ExecutorResult sample_result" "refusal leased_run (ExecutorResult sample_result) = None"
    using q by (simp_all add: bound_request_def Let_def sample_world_def sample_result_def)
  then have "calls = [CompleteCall (sc_worker sample_scheduler) GENESIS_DIGEST GENESIS_DIGEST 1 sample_result (instant 3710)]"
    using c world(3) by (auto simp: closed_by_def completes_def)
  then show ?thesis using run by (simp add: sample_run)
qed

end
