(* ===== verification/Spec2Isabelle.thy ===== *)
theory Spec2Isabelle
  imports Reconciler_Props Lifecycle_Example Alert_Window_Example Baseline_Example
    Scheduling_Example
begin

text \<open>
  \<^bold>\<open>Control assurance lab: control plane, incident lifecycle, alert windows, experiments and runtime.\<close>

  The program lets a tenant describe a security control as a configuration, has one person write
  and another approve each revision of it, deploys the approved revision through a fenced queue of
  operations, and keeps a hash-chained record of every change. A second part verifies the recorded
  lifecycle of an incident, again by hash chains over canonical JSON. A third evaluates a window of
  alert records against a profile of count criteria. A fourth compiles an experiment contract into the
  cells, trials and contrasts that test whether one control masks another, and evaluates the recorded
  trials against that plan without trusting what a record says about itself. A fifth schedules the collection
  windows of a deployed control and closes each run it claims.

  \<^bold>\<open>Parts and how they interact\<close> (all paths below \<^verbatim>\<open>src/src/assurance_lab\<close>)

  \<^item> \<^verbatim>\<open>evidence/canonical.py\<close> (theory \<^verbatim>\<open>Canonical\<close>): the I-JSON profile, canonical bytes, strict
    decoding and JSON lines. Every digest of the other parts is taken over these bytes.
  \<^item> \<^verbatim>\<open>control_plane/models.py\<close> (\<^verbatim>\<open>Models\<close>): the pydantic models as records, each validator as a
    function returning the value or the error, and the content identities.
  \<^item> \<^verbatim>\<open>control_plane/store.py\<close> (\<^verbatim>\<open>Schema\<close>, \<^verbatim>\<open>Store\<close>): the five SQLite tables as lists of rows with
    every CHECK, key, partial index and trigger of \<^verbatim>\<open>_initialize\<close>, and one definition per method of
    \<^verbatim>\<open>SQLiteControlPlaneStore\<close>. A method is a function from the database to an error or a new
    database and result, so that a transaction that raises leaves nothing behind.
  \<^item> \<^verbatim>\<open>control_plane/service.py\<close> (\<^verbatim>\<open>Service\<close>): authorization in front of the store. A method is the
    guard, which may read the store, and the store call it issues; what other processes do between
    the two is an argument.
  \<^item> \<^verbatim>\<open>control_plane/deployment.py\<close> (\<^verbatim>\<open>Reconciler\<close>): one run leases an operation, calls the target,
    and reports an acknowledgement or a failure with its backoff. It is defined over a record of
    store operations; the locale \<^verbatim>\<open>fenced_store\<close> states what it relies on, and
    \<^verbatim>\<open>Reconciler_Props\<close> interprets the locale with the SQLite store.
  \<^item> \<^verbatim>\<open>lifecycle.py\<close> (\<^verbatim>\<open>Lifecycle\<close>): incident snapshots, transitions, their digests and
    \<^verbatim>\<open>verify_lifecycle\<close> with every check in the order of the source.
  \<^item> \<^verbatim>\<open>controls/alert_window.py\<close> (\<^verbatim>\<open>Alert_Window\<close>): profiles with their validators and digests, the
    strict reading of records, three-valued predicates, count intervals and decisions.
  \<^item> \<^verbatim>\<open>contract.py\<close> (\<^verbatim>\<open>Contract_Values\<close>, \<^verbatim>\<open>Contract\<close>): decimals and typed values, metrics, obligations,
    axes and the profile with their validators; then \<^verbatim>\<open>compile_experiment\<close> with every function it
    calls. It uses the canonical text and SHA-256 as the other parts do, but not the limits of
    \<^verbatim>\<open>canonical.py\<close>.
  \<^item> \<^verbatim>\<open>evaluation.py\<close> (\<^verbatim>\<open>Evaluation_Values\<close>, \<^verbatim>\<open>Evaluation\<close>): traces, records, verifier answers and
    reports with their validators; then \<^verbatim>\<open>ExperimentEvaluator.evaluate\<close>, which recompiles the contract,
    inspects the records on an explicit world of trial states and issue lists, admits cleanups and
    metric evidence through a cache, and assesses obligations, contrasts and the residual.
  \<^item> \<^verbatim>\<open>baseline.py\<close> (\<^verbatim>\<open>Baseline\<close>): the outcome-only verdict the program compares its reports with.
  \<^item> \<^verbatim>\<open>runtime/models.py\<close> and \<^verbatim>\<open>runtime/scheduling.py\<close> (\<^verbatim>\<open>Runtime_Models\<close>, \<^verbatim>\<open>Scheduling\<close>): runs,
    receipts and closures with their validators, the due windows of a deployment, and the scheduler,
    defined over a record of store operations and a world of clocks, entropy, executor and
    interference.

  \<^verbatim>\<open>Prelude\<close> holds the error and result types, the checks the validators share, and the lemma
  collections. \<^verbatim>\<open>Example\<close>, \<^verbatim>\<open>Lifecycle_Example\<close>, \<^verbatim>\<open>Alert_Window_Example\<close>, \<^verbatim>\<open>Contract_Example\<close>,
  \<^verbatim>\<open>Evaluation_Example\<close>, \<^verbatim>\<open>Baseline_Example\<close> and \<^verbatim>\<open>Scheduling_Example\<close> hold the concrete environments, histories, records and
  contracts at which the theorems with hypotheses are applied.

  \<^bold>\<open>What the lemmas show\<close>

  \<^item> \<^verbatim>\<open>Canonical\<close>: the recursive validator equals a condition on depth and nodes; only canonical JSON
    lines decode. \<^verbatim>\<open>Json_Text\<close>: values without floats that share a canonical text are equal up to the
    order of object members, and encoded JSON lines decode to the records sorted by id.
  \<^item> \<^verbatim>\<open>Store_Spec\<close> is an abstract specification: a step relation over governed states with its
    invariant. \<^verbatim>\<open>Store_Refine\<close> shows that each store method simulates a step and that the raise
    branches change nothing. \<^verbatim>\<open>Store_Safety\<close> reads off separation of duties, ordering of operations,
    fencing, lineage, isolation of tenants and the append-only history; \<^verbatim>\<open>Store_Props\<close> shows that the
    audit chain always verifies and is tamper evident.
  \<^item> \<^verbatim>\<open>Service_Props\<close>: authorization is exact, privileged actions need fresh multi-factor
    authentication, and four eyes hold in every interleaving of requests and workers.
  \<^item> \<^verbatim>\<open>Reconciler_Props\<close>: applied means acknowledged, repeated requests carry higher fences, the
    backoff is bounded, and a run that closes the last allowed attempt resolves the operation.
  \<^item> \<^verbatim>\<open>Lifecycle_Props\<close>: a verified branch only moves forward and skips no phase, the current state is
    the head of the actual branch, and the record is tamper evident.
  \<^item> \<^verbatim>\<open>Alert_Window_Props\<close>: the interval of a criterion is exactly the set of counts over all readings
    of incomplete evidence, a decision is final under more evidence, errors are classified, and a
    parsed profile is the one its anchors name.
  \<^item> \<^verbatim>\<open>Decimal_Props\<close>: the spelling of a decimal is canonical, unique and reads back.
    \<^verbatim>\<open>Contract_Props\<close>: each contrast varies exactly one axis. \<^verbatim>\<open>Contract_Plan\<close>: the plan is the full
    factorial in seeded order. \<^verbatim>\<open>Contract_Order\<close>: the order of the lists of a contract does not matter.
    \<^verbatim>\<open>Contract_Total\<close>: a contract that passes its checks compiles.
  \<^item> \<^verbatim>\<open>Evaluation_Steps\<close>: the phases of an inspection as steps ordered by what they may change (the
    locale \<^verbatim>\<open>step_order\<close>, interpreted for four such orders); \<^verbatim>\<open>Evaluation_Inspect\<close> and
    \<^verbatim>\<open>Evaluation_Metrics\<close>: what a valid trial and a cached value have passed; \<^verbatim>\<open>Evaluation_Props\<close>: verdicts
    rest on admitted evidence; \<^verbatim>\<open>Evaluation_Residual\<close>: what the classification means for the trials;
    \<^verbatim>\<open>Evaluation_Total\<close> and \<^verbatim>\<open>Evaluation_Report\<close>: every step succeeds, so accepted input always gives a
    report, as long as event ids that start with \<^verbatim>\<open>sha256:\<close> are digests and exception texts of verifiers
    have a UTF-8 form. \<^verbatim>\<open>Baseline_Props\<close>: given observations of the same outcomes, the outcome-only
    baseline follows the path obligation of a report and so passes every masked target failure;
    \<^verbatim>\<open>Evaluation_Example\<close> and \<^verbatim>\<open>Baseline_Example\<close> run such a failure.
  \<^item> \<^verbatim>\<open>Strict_Errors\<close>: which exceptions a step can raise. \<^verbatim>\<open>Scheduling_Props\<close>: due windows are exactly the
    schedule's windows inside the validity interval, and a claimed run is closed by exactly one call,
    completed only on the executor's result for the request bound to it. The calls are counted by running
    the scheduler on a store that records them.

  \<^bold>\<open>Parameters and their laws\<close>

  Code outside the repository is a field of the environment records: the \<^verbatim>\<open>rfc8785\<close> serializer, the
  text scanner behind \<^verbatim>\<open>json.loads\<close>, \<^verbatim>\<open>float\<close>, SHA-256, pydantic's JSON parser of a configuration, of
  a run request and of an alert-window profile and its text of a datetime, and \<^verbatim>\<open>urlsplit\<close>.
  The deployment target, the executor and the store of the runtime, the clock, the entropy source and
  the three evidence verifiers are arguments; nothing is assumed of what a verifier, the executor or
  the runtime store answers, except that a report needs exception texts of verifiers that can be
  encoded. The laws used are \<^verbatim>\<open>jcs_law\<close> (what the audit chain needs of the texts of its events),
  \<^verbatim>\<open>lawful_env\<close> (a hexdigest is 64 hexadecimal digits; a configuration parses back from its bytes)
  and \<^verbatim>\<open>jcs_text_law\<close>, which states of the serializer and the scanner alone, for values without floats
  within the limits: the text has no control characters, an object's text begins with a brace, the order
  of object members does not matter, and the scanner reads the text back as the value up to that order.
  Floats are left out because RFC 8785 writes \<^verbatim>\<open>1\<close> and \<^verbatim>\<open>1.0\<close> alike, so its text is not injective on
  them; the events, snapshots and records the theorems speak of have none. Each theorem that assumes a
  law is applied at a concrete environment that satisfies it. Tamper evidence does not assume that
  SHA-256 is injective: its alternative is an explicit collision.

  The parser of a configuration stands for pydantic's parser together with the validators of
  \<^verbatim>\<open>ControlConfiguration\<close>, of which nothing is used but that its own bytes parse back; the validators of a
  run request are run on what its parser returns. Identifiers and digests are strings of 8-bit characters,
  which their patterns, all ASCII, allow; where any Unicode text can occur (JSON strings, issue
  details) texts are lists of code points.

  \<^bold>\<open>Bounds and fuel\<close>

  Integers are unbounded as in Python; the limits of the schema (signed 64 bit, page sizes, lease and
  retry windows) are written out where the source checks them. Decimal printing of a natural uses as
  fuel the number itself plus one, which its number of digits never exceeds. The paging loop of
  \<^verbatim>\<open>verify_audit_chain\<close> terminates because each page moves the cursor past at least one event.
  Every other loop is recursion on a list.

  \<^bold>\<open>Not modelled\<close>

  File preparation, PRAGMAs and migration of the SQLite store, the HTTP and OpenID Connect layers, the
  PostgreSQL backend (its constraints live in server-side SQL), clients of remote services
  (\<^verbatim>\<open>connectors\<close>, \<^verbatim>\<open>key_management\<close>, custody adapters), and the scenario and benchmark drivers, which
  are I/O around data. Not modelled either: a verifier that keeps a state between its calls, the
  runtime's worker loop, which runs on threads and timers, its execution plans, which
  embed the requests of vendor connectors, and its executor, journal and recovery, which are written
  against database rows, processes and files.
\<close>

end
